(* ===== verification/Prelude.thy ===== *)
theory Prelude
  imports Main "HOL-Library.List_Lexorder" "HOL-Library.Char_ord" "HOL-Library.AList"
begin

text \<open>
  The vocabulary every component shares: the exceptions of the program as values, results as
  sums, operations on a state that may raise (a state is kept when an exception is raised, as
  files and rows written before a Python \<open>raise\<close> are), a weakest-precondition calculus for
  them, and generic lemmas on lists and maps.
\<close>

section \<open>Exceptions and results\<close>

text \<open>
  The program's own exception classes (\<open>WakeError\<close>, \<open>HandoffError\<close>, \<open>FederationError\<close>) carry a
  string \<open>code\<close> on which handlers branch, and a message that no code reads: \<open>Coded\<close> keeps the
  code. The other constructors are the exceptions Python itself raises in the modelled code.
  \<open>Untyped f\<close> is not an exception of the program: the model answers it where a field \<open>f\<close> that the
  code never checks holds a value outside its declared type, and follows the code no further.
\<close>

datatype exn =
    Coded string
  | ValueError
  | KeyError
  | TypeError
  | AttributeError
  | IndexError
  | UnicodeEncodeError
  | AssertionError
  | IntegrityError
  | StaleBinding
  | OSError
  | Untyped string

type_synonym 'a res = "exn + 'a"

definition bindR :: "'a res \<Rightarrow> ('a \<Rightarrow> 'b res) \<Rightarrow> 'b res" where
  "bindR x f = (case x of Inl e \<Rightarrow> Inl e | Inr a \<Rightarrow> f a)"

lemma bindR_simps [simp]:
  "bindR (Inl e) f = Inl e"
  "bindR (Inr a) f = f a"
  by (simp_all add: bindR_def)

lemma bindR_Inr_iff: "bindR x f = Inr b \<longleftrightarrow> (\<exists>a. x = Inr a \<and> f a = Inr b)"
  by (cases x) auto

lemma bindR_Inl_iff: "bindR x f = Inl e \<longleftrightarrow> x = Inl e \<or> (\<exists>a. x = Inr a \<and> f a = Inl e)"
  by (cases x) auto

lemma bindR_InrE:
  assumes "bindR x f = Inr b"
  obtains a where "x = Inr a" and "f a = Inr b"
  using assms by (auto simp: bindR_Inr_iff)

lemma bindR_cong [fundef_cong]:
  "x = x' \<Longrightarrow> (\<And>a. x' = Inr a \<Longrightarrow> f a = f' a) \<Longrightarrow> bindR x f = bindR x' f'"
  by (cases x') auto

fun mapR :: "('a \<Rightarrow> 'b res) \<Rightarrow> 'a list \<Rightarrow> 'b list res" where
  "mapR f [] = Inr []"
| "mapR f (x # xs) = bindR (f x) (\<lambda>y. bindR (mapR f xs) (\<lambda>ys. Inr (y # ys)))"

lemma mapR_cong [fundef_cong]:
  "xs = ys \<Longrightarrow> (\<And>x. x \<in> set ys \<Longrightarrow> f x = g x) \<Longrightarrow> mapR f xs = mapR g ys"
  by (induction xs arbitrary: ys) auto

lemma mapR_Inr_iff: "mapR f xs = Inr ys \<longleftrightarrow> list_all2 (\<lambda>x y. f x = Inr y) xs ys"
proof (induction xs arbitrary: ys)
  case Nil
  then show ?case by auto
next
  case (Cons x xs)
  then show ?case by (auto simp: bindR_Inr_iff list_all2_Cons1)
qed

lemma mapR_mem:
  "mapR f xs = Inr ys \<Longrightarrow> x \<in> set xs \<Longrightarrow> \<exists>y\<in>set ys. f x = Inr y"
  "mapR f xs = Inr ys \<Longrightarrow> y \<in> set ys \<Longrightarrow> \<exists>x\<in>set xs. f x = Inr y"
  by (induction xs arbitrary: ys) (auto simp: bindR_Inr_iff)

lemma mapR_pure: "mapR (\<lambda>x. Inr (f x)) xs = Inr (map f xs)"
  by (induction xs) auto

section \<open>Operations on a state that may raise\<close>

type_synonym ('s, 'a) op = "'s \<Rightarrow> 's \<times> 'a res"

definition retS :: "'a \<Rightarrow> ('s, 'a) op" where
  "retS a = (\<lambda>s. (s, Inr a))"

definition raiseS :: "exn \<Rightarrow> ('s, 'a) op" where
  "raiseS e = (\<lambda>s. (s, Inl e))"

definition bindS :: "('s, 'a) op \<Rightarrow> ('a \<Rightarrow> ('s, 'b) op) \<Rightarrow> ('s, 'b) op" where
  "bindS m f = (\<lambda>s. case m s of (s', Inl e) \<Rightarrow> (s', Inl e) | (s', Inr a) \<Rightarrow> f a s')"

definition thenS :: "('s, 'a) op \<Rightarrow> ('s, 'b) op \<Rightarrow> ('s, 'b) op" where
  "thenS m k = bindS m (\<lambda>_. k)"

definition catchS :: "('s, 'a) op \<Rightarrow> (exn \<Rightarrow> ('s, 'a) op) \<Rightarrow> ('s, 'a) op" where
  "catchS m h = (\<lambda>s. case m s of (s', Inl e) \<Rightarrow> h e s' | (s', Inr a) \<Rightarrow> (s', Inr a))"

definition getS :: "('s \<Rightarrow> 'a) \<Rightarrow> ('s, 'a) op" where
  "getS f = (\<lambda>s. (s, Inr (f s)))"

definition modS :: "('s \<Rightarrow> 's) \<Rightarrow> ('s, unit) op" where
  "modS f = (\<lambda>s. (f s, Inr ()))"

definition liftS :: "'a res \<Rightarrow> ('s, 'a) op" where
  "liftS r = (\<lambda>s. (s, r))"

lemmas op_defs = retS_def raiseS_def bindS_def thenS_def catchS_def getS_def modS_def liftS_def

lemma bindS_assoc: "bindS (bindS m f) g = bindS m (\<lambda>x. bindS (f x) g)"
  by (simp add: bindS_def fun_eq_iff split: prod.splits sum.splits)

lemma bindS_retS [simp]: "bindS (retS x) f = f x"
  by (simp add: bindS_def retS_def)

text \<open>
  \<open>wp m Q E s\<close>: run from \<open>s\<close>, the operation either returns a value and state in \<open>Q\<close>
  or raises with an exception and state in \<open>E\<close>. Every operation terminates, so this is total
  correctness. The rules below rewrite \<open>wp\<close> of a composed operation into that of its parts.
\<close>

definition wp :: "('s, 'a) op \<Rightarrow> ('a \<Rightarrow> 's \<Rightarrow> bool) \<Rightarrow> (exn \<Rightarrow> 's \<Rightarrow> bool) \<Rightarrow> 's \<Rightarrow> bool" where
  "wp m Q E s = (case m s of (s', Inl e) \<Rightarrow> E e s' | (s', Inr a) \<Rightarrow> Q a s')"

named_theorems wp_rules "rewrite rules for wp of the operations"

lemma wp_retS [wp_rules]: "wp (retS a) Q E s = Q a s"
  by (simp add: wp_def op_defs)

lemma wp_raiseS [wp_rules]: "wp (raiseS e) Q E s = E e s"
  by (simp add: wp_def op_defs)

lemma wp_getS [wp_rules]: "wp (getS f) Q E s = Q (f s) s"
  by (simp add: wp_def op_defs)

lemma wp_modS [wp_rules]: "wp (modS f) Q E s = Q () (f s)"
  by (simp add: wp_def op_defs)

lemma wp_liftS [wp_rules]: "wp (liftS r) Q E s = (case r of Inl e \<Rightarrow> E e s | Inr a \<Rightarrow> Q a s)"
  by (simp add: wp_def op_defs)

lemma wp_bindS [wp_rules]: "wp (bindS m f) Q E s = wp m (\<lambda>a. wp (f a) Q E) E s"
  by (simp add: wp_def bindS_def split: prod.splits sum.splits)

lemma wp_thenS [wp_rules]: "wp (thenS m k) Q E s = wp m (\<lambda>_. wp k Q E) E s"
  by (simp add: thenS_def wp_rules)

lemma wp_catchS [wp_rules]: "wp (catchS m h) Q E s = wp m Q (\<lambda>e. wp (h e) Q E) s"
  by (simp add: wp_def catchS_def split: prod.splits sum.splits)

lemma wp_if [wp_rules]: "wp (if c then m else k) Q E s = (if c then wp m Q E s else wp k Q E s)"
  by simp

lemma wp_mono:
  assumes "wp m Q E s"
    and "\<And>a s'. m s = (s', Inr a) \<Longrightarrow> Q a s' \<Longrightarrow> Q' a s'"
    and "\<And>e s'. m s = (s', Inl e) \<Longrightarrow> E e s' \<Longrightarrow> E' e s'"
  shows "wp m Q' E' s"
  using assms by (auto simp: wp_def split: prod.splits sum.splits)

lemma wp_Inr: "wp m Q E s \<Longrightarrow> m s = (s', Inr a) \<Longrightarrow> Q a s'"
  and wp_Inl: "wp m Q E s \<Longrightarrow> m s = (s', Inl e) \<Longrightarrow> E e s'"
  by (simp_all add: wp_def)

lemma wp_total: "wp m (\<lambda>a s'. m s = (s', Inr a)) (\<lambda>e s'. m s = (s', Inl e)) s"
  by (simp add: wp_def split: prod.splits sum.splits)

lemma wp_conj: "wp m Q E s \<Longrightarrow> wp m Q' E' s \<Longrightarrow> wp m (\<lambda>a s. Q a s \<and> Q' a s) (\<lambda>e s. E e s \<and> E' e s) s"
  by (simp add: wp_def split: prod.splits sum.splits)

text \<open>A run that returned, taken apart into the runs of its parts.\<close>

lemma bindS_InrE:
  assumes "bindS m f s = (s'', Inr b)"
  obtains a s' where "m s = (s', Inr a)" and "f a s' = (s'', Inr b)"
  using assms by (auto simp: bindS_def split: prod.splits sum.splits)

lemma thenS_InrE:
  assumes "thenS m k s = (s'', Inr b)"
  obtains a s' where "m s = (s', Inr a)" and "k s' = (s'', Inr b)"
  using assms unfolding thenS_def by (rule bindS_InrE)

lemma catchS_InrE:
  assumes "catchS m h s = (s'', Inr b)"
  obtains (returned) "m s = (s'', Inr b)" | (raised) e s' where "m s = (s', Inl e)" and "h e s' = (s'', Inr b)"
  using assms by (auto simp: catchS_def split: prod.splits sum.splits)

lemma basic_Inr [simp]:
  "retS x s = (s', Inr y) \<longleftrightarrow> s' = s \<and> y = x"
  "raiseS e s \<noteq> (s', Inr y)"
  "getS g s = (s', Inr y') \<longleftrightarrow> s' = s \<and> y' = g s"
  "liftS r s = (s', Inr z) \<longleftrightarrow> s' = s \<and> r = Inr z"
  by (auto simp: op_defs)

section \<open>Lists, strings and maps\<close>

text \<open>\<open>sorted(set(xs))\<close> of Python: the distinct elements in ascending order.\<close>

definition sorted_set :: "'a::linorder list \<Rightarrow> 'a list" where
  "sorted_set xs = sort (remdups xs)"

lemma sorted_set_simps [simp]:
  "set (sorted_set xs) = set xs" "distinct (sorted_set xs)" "sorted (sorted_set xs)"
  by (simp_all add: sorted_set_def)

lemma sorted_set_eqI: "set xs = set ys \<Longrightarrow> sorted_set xs = sorted_set ys"
  by (rule sorted_distinct_set_unique) simp_all

definition startswith :: "string \<Rightarrow> string \<Rightarrow> bool" where
  "startswith s p = (take (length p) s = p)"

definition endswith :: "string \<Rightarrow> string \<Rightarrow> bool" where
  "endswith s p = (length p \<le> length s \<and> drop (length s - length p) s = p)"

lemma startswith_simps [simp]:
  "startswith s []"
  "\<not> startswith [] (d # p)"
  "startswith (c # s) (d # p) = (c = d \<and> startswith s p)"
  by (auto simp: startswith_def)

lemma startswith_iff: "startswith s p \<longleftrightarrow> (\<exists>t. s = p @ t)"
  by (metis append_eq_conv_conj append_take_drop_id startswith_def)

lemma endswith_iff: "endswith s p \<longleftrightarrow> (\<exists>t. s = t @ p)"
proof
  assume "endswith s p"
  then show "\<exists>t. s = t @ p"
    by (metis append_take_drop_id endswith_def)
qed (auto simp: endswith_def)

text \<open>\<open>p in s\<close> for strings.\<close>

fun contains :: "string \<Rightarrow> string \<Rightarrow> bool" where
  "contains [] p = (p = [])"
| "contains (c # s) p = (startswith (c # s) p \<or> contains s p)"

lemma contains_iff: "contains s p \<longleftrightarrow> (\<exists>a b. s = a @ p @ b)"
proof (induction s)
  case Nil
  then show ?case by auto
next
  case (Cons c s)
  show ?case
  proof
    assume "contains (c # s) p"
    then consider "startswith (c # s) p" | "contains s p" by auto
    then show "\<exists>a b. c # s = a @ p @ b"
    proof cases
      case 1
      then show ?thesis by (metis append_Nil startswith_iff)
    next
      case 2
      then show ?thesis using Cons.IH by (metis append_Cons)
    qed
  next
    assume "\<exists>a b. c # s = a @ p @ b"
    then obtain a b where ab: "c # s = a @ p @ b" by blast
    show "contains (c # s) p"
    proof (cases a)
      case Nil
      then have "startswith (c # s) p" using ab by (auto simp: startswith_iff)
      then show ?thesis by simp
    next
      case (Cons d a')
      then show ?thesis using ab Cons.IH by auto
    qed
  qed
qed

lemma map_le_trans3: "m \<subseteq>\<^sub>m n \<Longrightarrow> n \<subseteq>\<^sub>m k \<Longrightarrow> m \<subseteq>\<^sub>m k"
  by (rule map_le_trans)

lemma map_le_upd_new: "m k = None \<Longrightarrow> m \<subseteq>\<^sub>m m(k \<mapsto> v)"
  by (simp add: map_le_def dom_def)

lemma map_le_Some: "m \<subseteq>\<^sub>m n \<Longrightarrow> m k = Some v \<Longrightarrow> n k = Some v"
  by (force simp: map_le_def dom_def)

lemma find_by_key: "distinct (map f xs) \<Longrightarrow> x \<in> set xs \<Longrightarrow> find (\<lambda>y. f y = f x) xs = Some x"
  by (induction xs) (auto simp: rev_image_eqI)

end
