(* ===== verification/Json.thy ===== *)
theory Json
  imports Prelude
begin

text \<open>
  Python values as the program sees them: what \<open>json.loads\<close> yields, and what the records'
  \<open>to_dict\<close> build. A \<open>dict\<close> is its list of items in insertion order with distinct string keys.
  A \<open>str\<close> is the list of the bytes of its UTF-8 encoding: equality, prefix, containment and the
  order of \<open>sorted\<close> are those of the code points. \<open>JOther\<close> stands for a value outside JSON (a float,
  bytes, a tuple), known by its type name only.
\<close>

datatype json =
    JNull
  | JBool bool
  | JInt int
  | JStr string
  | JList "json list"
  | JObj "(string \<times> json) list"
  | JOther string

lemma json_size_snd [termination_simp]:
  "kv \<in> set kvs \<Longrightarrow> size (snd kv) < Suc (size_list (size_prod (\<lambda>x. 0) size) kvs)"
  by (induction kvs) auto

section \<open>Type tests and dictionary operations\<close>

definition is_str :: "json \<Rightarrow> bool" where
  "is_str v = (case v of JStr _ \<Rightarrow> True | _ \<Rightarrow> False)"

text \<open>\<open>isinstance(v, str) and v\<close>: a non-empty string.\<close>

definition nonempty_str :: "json \<Rightarrow> bool" where
  "nonempty_str v = (case v of JStr s \<Rightarrow> s \<noteq> [] | _ \<Rightarrow> False)"

text \<open>\<open>isinstance(v, int) and not isinstance(v, bool)\<close>.\<close>

definition is_int :: "json \<Rightarrow> bool" where
  "is_int v = (case v of JInt _ \<Rightarrow> True | _ \<Rightarrow> False)"

definition is_bool :: "json \<Rightarrow> bool" where
  "is_bool v = (case v of JBool _ \<Rightarrow> True | _ \<Rightarrow> False)"

definition the_str :: "json \<Rightarrow> string" where
  "the_str v = (case v of JStr s \<Rightarrow> s | _ \<Rightarrow> [])"

definition the_int :: "json \<Rightarrow> int" where
  "the_int v = (case v of JInt n \<Rightarrow> n | _ \<Rightarrow> 0)"

definition the_bool :: "json \<Rightarrow> bool" where
  "the_bool v = (case v of JBool b \<Rightarrow> b | _ \<Rightarrow> False)"

lemmas json_tests = is_str_def nonempty_str_def is_int_def is_bool_def the_str_def the_int_def the_bool_def

text \<open>Hashable values may be looked up in a Python set; a list or a dict raises \<open>TypeError\<close>.\<close>

definition hashable :: "json \<Rightarrow> bool" where
  "hashable v = (case v of JList _ \<Rightarrow> False | JObj _ \<Rightarrow> False | _ \<Rightarrow> True)"

type_synonym dict = "(string \<times> json) list"

text \<open>\<open>d[k]\<close> and \<open>d.get(k)\<close>.\<close>

definition dget :: "dict \<Rightarrow> string \<Rightarrow> json res" where
  "dget d k = (case map_of d k of None \<Rightarrow> Inl KeyError | Some v \<Rightarrow> Inr v)"

definition dget_null :: "dict \<Rightarrow> string \<Rightarrow> json" where
  "dget_null d k = (case map_of d k of None \<Rightarrow> JNull | Some v \<Rightarrow> v)"

definition dkeys :: "dict \<Rightarrow> string list" where
  "dkeys d = map fst d"

text \<open>\<open>d[k] = v\<close>: an existing key keeps its place. \<open>d.update(e)\<close> stores the items in turn.\<close>

fun dput :: "dict \<Rightarrow> string \<Rightarrow> json \<Rightarrow> dict" where
  "dput [] k v = [(k, v)]"
| "dput ((k', v') # d) k v = (if k' = k then (k, v) # d else (k', v') # dput d k v)"

fun dupdate :: "dict \<Rightarrow> dict \<Rightarrow> dict" where
  "dupdate d [] = d"
| "dupdate d ((k, v) # e) = dupdate (dput d k v) e"

text \<open>\<open>d.pop(k)\<close> for a key that is present.\<close>

definition ddel :: "string \<Rightarrow> dict \<Rightarrow> dict" where
  "ddel k d = filter (\<lambda>kv. fst kv \<noteq> k) d"

lemma map_of_dput [simp]: "map_of (dput d k v) = (map_of d)(k \<mapsto> v)"
  by (induction d k v rule: dput.induct) auto

lemma map_of_dupdate [simp]: "distinct (map fst e) \<Longrightarrow> map_of (dupdate d e) = map_of d ++ map_of e"
proof (induction d e rule: dupdate.induct)
  case (2 d k v e)
  then have "k \<notin> dom (map_of e)" by (simp add: dom_map_of_conv_image_fst)
  with 2 show ?case by (auto simp: map_add_def fun_eq_iff dom_def split: option.splits)
qed simp

lemma dput_keys: "set (map fst (dput d k v)) = insert k (set (map fst d))"
  by (induction d k v rule: dput.induct) auto

lemma dput_distinct: "distinct (map fst d) \<Longrightarrow> distinct (map fst (dput d k v))"
  by (induction d k v rule: dput.induct) (auto simp: dput_keys[simplified])

lemma map_of_ddel: "map_of (ddel k d) k' = (if k' = k then None else map_of d k')"
  by (induction d) (auto simp: ddel_def)

section \<open>Equality of Python values\<close>

text \<open>
  \<open>==\<close> ignores the insertion order of a dict, and \<open>True == 1\<close>, \<open>False == 0\<close>. \<open>py_key\<close> maps a value
  to a representative, so that \<open>==\<close> is equality of representatives.
\<close>

fun py_key :: "json \<Rightarrow> json" where
  "py_key (JBool b) = JInt (if b then 1 else 0)"
| "py_key (JList vs) = JList (map py_key vs)"
| "py_key (JObj d) = JObj (sort_key fst (map (\<lambda>kv. (fst kv, py_key (snd kv))) d))"
| "py_key v = v"

definition py_eq :: "json \<Rightarrow> json \<Rightarrow> bool" where
  "py_eq a b = (py_key a = py_key b)"

lemma py_eq_refl [simp]: "py_eq a a"
  and py_eq_sym: "py_eq a b \<Longrightarrow> py_eq b a"
  and py_eq_trans: "py_eq a b \<Longrightarrow> py_eq b c \<Longrightarrow> py_eq a c"
  by (simp_all add: py_eq_def)

lemma py_eq_str [simp]: "py_eq (JStr a) (JStr b) \<longleftrightarrow> a = b"
  and py_eq_bool_int: "py_eq (JBool True) (JInt 1)"
  by (simp_all add: py_eq_def)

text \<open>Optional strings as JSON values.\<close>

definition opt_json :: "string option \<Rightarrow> json" where
  "opt_json x = (case x of None \<Rightarrow> JNull | Some s \<Rightarrow> JStr s)"

definition str_list_json :: "string list \<Rightarrow> json" where
  "str_list_json xs = JList (map JStr xs)"

lemma opt_json_inj [simp]: "opt_json a = opt_json b \<longleftrightarrow> a = b"
  by (auto simp: opt_json_def split: option.splits)

lemma str_list_json_inj [simp]: "str_list_json a = str_list_json b \<longleftrightarrow> a = b"
  by (auto simp: str_list_json_def inj_def dest: map_injective)

end
