(* ===== verification/Bridge_Models.thy ===== *)
theory Bridge_Models
  imports Json
begin

text \<open>
  \<open>src/eml_bridge/models.py\<close>, \<open>errors.py\<close>: the states of a delivery and the table of allowed
  transitions, agent snapshots, bindings, target locks and results. A Herdr session reference is a
  dict of strings. The lemmas give the shape of the state graph: a rank that every change of state
  raises, the terminal states, and what precedes an acknowledgement.
\<close>

section \<open>Delivery states\<close>

datatype DeliveryState =
    JOURNALED
  | RESOLVING_TARGET
  | READY
  | PROMPT_SUBMITTED
  | ACTIVITY_OBSERVED
  | RUNTIME_SETTLED
  | REPLY_CAPTURED
  | ACKNOWLEDGED
  | TARGET_UNAVAILABLE
  | BLOCKED
  | SUPPRESSED
  | UNCERTAIN
  | CAPTURE_FAILED
  | FAILED
  | TARGET_AUTHORITY_MISMATCH
  | EXACT_NATIVE_TARGET_NOT_BOUND

text \<open>\<open>ALLOWED_TRANSITIONS.get(state, set())\<close>: a state that is no key allows nothing.\<close>

fun ALLOWED_TRANSITIONS :: "DeliveryState \<Rightarrow> DeliveryState set" where
  "ALLOWED_TRANSITIONS JOURNALED =
     {RESOLVING_TARGET, TARGET_AUTHORITY_MISMATCH, EXACT_NATIVE_TARGET_NOT_BOUND, FAILED}"
| "ALLOWED_TRANSITIONS RESOLVING_TARGET = {READY, TARGET_UNAVAILABLE, FAILED}"
| "ALLOWED_TRANSITIONS READY = {PROMPT_SUBMITTED, BLOCKED, UNCERTAIN, SUPPRESSED, FAILED}"
| "ALLOWED_TRANSITIONS PROMPT_SUBMITTED = {ACTIVITY_OBSERVED, BLOCKED, UNCERTAIN, FAILED}"
| "ALLOWED_TRANSITIONS ACTIVITY_OBSERVED =
     {RUNTIME_SETTLED, REPLY_CAPTURED, BLOCKED, UNCERTAIN, FAILED}"
| "ALLOWED_TRANSITIONS RUNTIME_SETTLED =
     {REPLY_CAPTURED, BLOCKED, CAPTURE_FAILED, UNCERTAIN, FAILED}"
| "ALLOWED_TRANSITIONS REPLY_CAPTURED = {ACKNOWLEDGED, FAILED}"
| "ALLOWED_TRANSITIONS UNCERTAIN = {REPLY_CAPTURED, FAILED, UNCERTAIN}"
| "ALLOWED_TRANSITIONS _ = {}"

fun state_value :: "DeliveryState \<Rightarrow> string" where
  "state_value JOURNALED = ''journaled''"
| "state_value RESOLVING_TARGET = ''resolving_target''"
| "state_value READY = ''ready''"
| "state_value PROMPT_SUBMITTED = ''prompt_submitted''"
| "state_value ACTIVITY_OBSERVED = ''activity_observed''"
| "state_value RUNTIME_SETTLED = ''runtime_settled''"
| "state_value REPLY_CAPTURED = ''reply_captured''"
| "state_value ACKNOWLEDGED = ''acknowledged''"
| "state_value TARGET_UNAVAILABLE = ''target_unavailable''"
| "state_value BLOCKED = ''blocked''"
| "state_value SUPPRESSED = ''suppressed''"
| "state_value UNCERTAIN = ''uncertain''"
| "state_value CAPTURE_FAILED = ''capture_failed''"
| "state_value FAILED = ''failed''"
| "state_value TARGET_AUTHORITY_MISMATCH = ''target_authority_mismatch''"
| "state_value EXACT_NATIVE_TARGET_NOT_BOUND = ''exact_native_target_not_bound''"

datatype CaptureConfidence = STRUCTURED | TURN_FENCED | HEURISTIC | NONE

section \<open>Agents, locks and results\<close>

type_synonym session = "(string \<times> string) list"

record AgentInfo =
  ai_terminal_id :: string
  ai_name :: "string option"
  ai_agent :: "string option"
  ai_agent_status :: string
  ai_workspace_id :: string
  ai_tab_id :: string
  ai_pane_id :: string
  ai_state_change_seq :: int
  ai_revision :: int
  ai_agent_session :: "session option"
  ai_cwd :: "string option"
  ai_interactive_ready :: bool
  ai_launch_pending :: bool

definition session_json :: "session option \<Rightarrow> json" where
  "session_json x = (case x of None \<Rightarrow> JNull | Some d \<Rightarrow> JObj (map (\<lambda>kv. (fst kv, JStr (snd kv))) d))"

definition AgentInfo_to_dict :: "AgentInfo \<Rightarrow> json" where
  "AgentInfo_to_dict a = JObj
     [(''terminal_id'', JStr (ai_terminal_id a)),
      (''name'', opt_json (ai_name a)),
      (''agent'', opt_json (ai_agent a)),
      (''agent_status'', JStr (ai_agent_status a)),
      (''workspace_id'', JStr (ai_workspace_id a)),
      (''tab_id'', JStr (ai_tab_id a)),
      (''pane_id'', JStr (ai_pane_id a)),
      (''state_change_seq'', JInt (ai_state_change_seq a)),
      (''revision'', JInt (ai_revision a)),
      (''agent_session'', session_json (ai_agent_session a)),
      (''cwd'', opt_json (ai_cwd a)),
      (''interactive_ready'', JBool (ai_interactive_ready a)),
      (''launch_pending'', JBool (ai_launch_pending a))]"

record AgentBinding =
  ab_semantic_agent_id :: string
  ab_display_name :: string
  ab_role :: "string option"
  ab_binding_id :: string
  ab_runtime_epoch_id :: string
  ab_herdr_session :: string
  ab_agent_target :: string
  ab_agent_kind :: string
  ab_workspace_id :: string
  ab_tab_id :: string
  ab_pane_id :: string
  ab_terminal_id :: string
  ab_native_session_ref :: "session option"
  ab_launch_epoch :: int
  ab_bound_at :: string
  ab_status :: string
  ab_state_change_seq :: int
  ab_revision :: int
  ab_binding_confidence :: string

definition AgentBinding_to_dict :: "AgentBinding \<Rightarrow> json" where
  "AgentBinding_to_dict b = JObj
     [(''semantic_agent_id'', JStr (ab_semantic_agent_id b)),
      (''display_name'', JStr (ab_display_name b)),
      (''role'', opt_json (ab_role b)),
      (''binding_id'', JStr (ab_binding_id b)),
      (''runtime_epoch_id'', JStr (ab_runtime_epoch_id b)),
      (''herdr_session'', JStr (ab_herdr_session b)),
      (''agent_target'', JStr (ab_agent_target b)),
      (''agent_kind'', JStr (ab_agent_kind b)),
      (''workspace_id'', JStr (ab_workspace_id b)),
      (''tab_id'', JStr (ab_tab_id b)),
      (''pane_id'', JStr (ab_pane_id b)),
      (''terminal_id'', JStr (ab_terminal_id b)),
      (''native_session_ref'', session_json (ab_native_session_ref b)),
      (''launch_epoch'', JInt (ab_launch_epoch b)),
      (''bound_at'', JStr (ab_bound_at b)),
      (''status'', JStr (ab_status b)),
      (''state_change_seq'', JInt (ab_state_change_seq b)),
      (''revision'', JInt (ab_revision b)),
      (''binding_confidence'', JStr (ab_binding_confidence b))]"

record TargetLock =
  lk_lock_id :: string
  lk_requested_visible_title :: string
  lk_requested_semantic_agent_id :: string
  lk_requested_native_thread_id :: "string option"
  lk_issued_by :: string
  lk_issued_at :: string
  lk_allow_proxy :: bool
  lk_revoked_at :: "string option"
  lk_revoked_by :: "string option"
  lk_revocation_reason :: "string option"

definition is_revoked :: "TargetLock \<Rightarrow> bool" where
  "is_revoked l = (lk_revoked_at l \<noteq> None)"

definition TargetLock_to_dict :: "TargetLock \<Rightarrow> json" where
  "TargetLock_to_dict l = JObj
     [(''lock_id'', JStr (lk_lock_id l)),
      (''requested_visible_title'', JStr (lk_requested_visible_title l)),
      (''requested_semantic_agent_id'', JStr (lk_requested_semantic_agent_id l)),
      (''requested_native_thread_id'', opt_json (lk_requested_native_thread_id l)),
      (''issued_by'', JStr (lk_issued_by l)),
      (''issued_at'', JStr (lk_issued_at l)),
      (''allow_proxy'', JBool (lk_allow_proxy l)),
      (''revoked_at'', opt_json (lk_revoked_at l)),
      (''revoked_by'', opt_json (lk_revoked_by l)),
      (''revocation_reason'', opt_json (lk_revocation_reason l))]"

record CaptureResult =
  cr_text :: "string option"
  cr_confidence :: CaptureConfidence
  cr_evidence :: dict

record DeliveryResult =
  dr_message_id :: string
  dr_recipient_id :: string
  dr_state :: DeliveryState
  dr_reply_text :: "string option"
  dr_capture_confidence :: CaptureConfidence
  dr_details :: dict

text \<open>
  \<open>HerdrTransportError\<close>: what the adapter raises, with the class name of the exception, its text,
  its optional code and whether the effect of the call is unknown.
\<close>

record HerdrTransportError =
  he_error :: string
  he_code :: "string option"
  he_ambiguous :: bool

section \<open>The shape of the state graph\<close>

text \<open>A run of a delivery: the states of its history, where repeating a state is no change.\<close>

inductive delivery_step :: "DeliveryState \<Rightarrow> DeliveryState \<Rightarrow> bool" where
  stay: "delivery_step s s"
| move: "t \<in> ALLOWED_TRANSITIONS s \<Longrightarrow> delivery_step s t"

inductive_simps delivery_step_iff: "delivery_step s t"

fun delivery_run :: "DeliveryState list \<Rightarrow> bool" where
  "delivery_run [] = True"
| "delivery_run [s] = True"
| "delivery_run (s # t # ss) = (delivery_step s t \<and> delivery_run (t # ss))"

fun state_rank :: "DeliveryState \<Rightarrow> nat" where
  "state_rank JOURNALED = 0"
| "state_rank RESOLVING_TARGET = 1"
| "state_rank READY = 2"
| "state_rank PROMPT_SUBMITTED = 3"
| "state_rank ACTIVITY_OBSERVED = 4"
| "state_rank RUNTIME_SETTLED = 5"
| "state_rank UNCERTAIN = 6"
| "state_rank REPLY_CAPTURED = 7"
| "state_rank _ = 8"

definition terminal :: "DeliveryState \<Rightarrow> bool" where
  "terminal s = (ALLOWED_TRANSITIONS s = {})"

lemma terminal_iff:
  "terminal s \<longleftrightarrow> s \<in> {ACKNOWLEDGED, TARGET_UNAVAILABLE, BLOCKED, SUPPRESSED, CAPTURE_FAILED, FAILED,
     TARGET_AUTHORITY_MISMATCH, EXACT_NATIVE_TARGET_NOT_BOUND}"
  by (cases s) (simp_all add: terminal_def)

lemma step_rank: "t \<in> ALLOWED_TRANSITIONS s \<Longrightarrow> s \<noteq> t \<Longrightarrow> state_rank s < state_rank t"
  by (cases s) auto

lemma delivery_step_rank: "delivery_step s t \<Longrightarrow> s = t \<or> state_rank s < state_rank t"
  by (auto simp: delivery_step_iff dest: step_rank)

lemma state_rank_bound: "state_rank s \<le> 8"
  by (cases s) auto

lemma terminal_step: "delivery_step s t \<Longrightarrow> terminal s \<Longrightarrow> t = s"
  by (auto simp: delivery_step_iff terminal_def)

lemma delivery_run_ConsD: "delivery_run (s # ss) \<Longrightarrow> delivery_run ss"
  by (cases ss) auto

lemma delivery_run_rank: "delivery_run (s # ss) \<Longrightarrow> t \<in> set ss \<Longrightarrow> s = t \<or> state_rank s < state_rank t"
proof (induction ss arbitrary: s)
  case (Cons u ss)
  from Cons.prems(1) have st: "delivery_step s u" and run: "delivery_run (u # ss)" by simp_all
  have "u = t \<or> state_rank u < state_rank t"
    using Cons.IH[OF run] Cons.prems(2) by auto
  with delivery_step_rank[OF st] show ?case by auto
qed simp

lemma delivery_run_snoc:
  "delivery_run (ss @ [s]) \<Longrightarrow> delivery_step s t \<Longrightarrow> delivery_run (ss @ [s, t])"
proof (induction ss)
  case (Cons u ss)
  then show ?case by (cases ss) auto
qed simp

lemma acknowledged_pred: "ACKNOWLEDGED \<in> ALLOWED_TRANSITIONS s \<Longrightarrow> s = REPLY_CAPTURED"
  and prompt_pred: "PROMPT_SUBMITTED \<in> ALLOWED_TRANSITIONS s \<Longrightarrow> s = READY"
  and captured_pred: "REPLY_CAPTURED \<in> ALLOWED_TRANSITIONS s \<Longrightarrow>
        s \<in> {ACTIVITY_OBSERVED, RUNTIME_SETTLED, UNCERTAIN}"
  by (cases s; simp)+

text \<open>
  The state of a delivery only moves forward. In every run, after a state \<open>s\<close> comes \<open>s\<close>
  itself or a state of higher rank; so no run returns to a state it has left, and in particular a
  delivery whose submission was left \<open>uncertain\<close> is never prompted again.
\<close>

theorem delivery_run_forward:
  assumes "delivery_run (ss @ s # ts)" and "t \<in> set ts"
  shows "s = t \<or> (state_rank s < state_rank t \<and> state_rank t \<le> 8)"
proof -
  from assms(1) have "delivery_run (s # ts)"
    by (induction ss) (auto dest: delivery_run_ConsD)
  from delivery_run_rank[OF this assms(2)] show ?thesis
    using state_rank_bound[of t] by blast
qed

theorem delivery_run_forward_witness:
  "\<not> delivery_run [UNCERTAIN, REPLY_CAPTURED, PROMPT_SUBMITTED]
   \<and> (state_rank READY < state_rank UNCERTAIN \<and> state_rank UNCERTAIN \<le> 8)"
proof
  have "delivery_run ([JOURNALED, RESOLVING_TARGET] @ READY # [UNCERTAIN, UNCERTAIN])"
    by (simp add: delivery_step_iff)
  from delivery_run_forward[OF this, of UNCERTAIN]
  show "state_rank READY < state_rank UNCERTAIN \<and> state_rank UNCERTAIN \<le> 8" by simp
qed (simp add: delivery_step_iff)

text \<open>
  An acknowledgement is always preceded by a captured reply, and a captured reply by an
  observed effect of the prompt: in a run from \<open>journaled\<close> that ends \<open>acknowledged\<close>, the state
  \<open>reply_captured\<close> occurs before.
\<close>

lemma delivery_run_to_ack:
  "delivery_run (s # ss) \<Longrightarrow> last (s # ss) = ACKNOWLEDGED \<Longrightarrow> s \<noteq> ACKNOWLEDGED \<Longrightarrow>
   REPLY_CAPTURED \<in> set (s # ss)"
proof (induction ss arbitrary: s)
  case (Cons u ss)
  show ?case
  proof (cases "u = ACKNOWLEDGED")
    case True
    with Cons.prems have "s = REPLY_CAPTURED"
      by (auto simp: delivery_step_iff intro: acknowledged_pred)
    then show ?thesis by simp
  next
    case False
    with Cons.IH[of u] Cons.prems show ?thesis by auto
  qed
qed simp

theorem acknowledged_after_capture:
  assumes "delivery_run (JOURNALED # ss @ [ACKNOWLEDGED])"
  shows "REPLY_CAPTURED \<in> set ss"
  using delivery_run_to_ack[OF assms] by auto

theorem acknowledged_after_capture_witness:
  "REPLY_CAPTURED \<in> set [RESOLVING_TARGET, READY, PROMPT_SUBMITTED, ACTIVITY_OBSERVED, REPLY_CAPTURED]"
proof (rule acknowledged_after_capture)
  show "delivery_run (JOURNALED # [RESOLVING_TARGET, READY, PROMPT_SUBMITTED, ACTIVITY_OBSERVED,
     REPLY_CAPTURED] @ [ACKNOWLEDGED])"
    by (simp add: delivery_step_iff)
qed

end
