(* ===== verification/Bridge_Journal.thy ===== *)
theory Bridge_Journal
  imports Bridge_Models
begin

text \<open>
  \<open>src/eml_bridge/journal.py\<close>: the SQLite journal. A table is a map from its primary key to the
  row, or the list of its rows where a query reads them in insertion order (\<open>messages\<close>,
  \<open>runtime_events\<close>). Wall-clock columns that no query reads are left out; \<open>created_at\<close> of a message
  and \<open>issued_at\<close>, \<open>revoked_at\<close> of a lock are kept. Ids that the code draws at random and the
  current time are arguments. The lemmas give the laws of the tables and the invariant that every
  stored history is a run of the state graph.
\<close>

section \<open>Messages\<close>

record target_authority =
  ta_mode :: string
  ta_target_lock_id :: "string option"
  ta_user_requested_visible_title :: "string option"
  ta_user_requested_semantic_id :: "string option"
  ta_user_requested_native_thread_id :: "string option"
  ta_allow_proxy :: bool
  ta_actual_recipient_id :: string
  ta_derived_from_message_id :: "string option"

record routing =
  rt_hop_count :: int
  rt_max_hops :: int
  rt_auto_reply_depth :: int
  rt_max_auto_reply_depth :: int
  rt_route_trace :: "string list"
  rt_idempotency_key :: string
  rt_payload_hash :: string

record message =
  m_message_id :: string
  m_thread_id :: string
  m_correlation_id :: string
  m_parent_message_id :: "string option"
  m_kind :: string
  m_route_intent :: string
  m_sender :: string
  m_recipient :: string
  m_target_authority :: target_authority
  m_text :: string
  m_reply_marker :: string
  m_projection :: string
  m_strict_turn :: bool
  m_require_semantic_ack :: bool
  m_wait_until :: "string list"
  m_timeout_ms :: int
  m_routing :: routing
  m_created_at :: string
  m_origin :: string

section \<open>Tables\<close>

record history_entry =
  h_state :: DeliveryState
  h_details :: dict

record delivery =
  d_message_id :: string
  d_recipient_id :: string
  d_state :: DeliveryState
  d_history :: "history_entry list"
  d_capture_confidence :: "CaptureConfidence option"
  d_reply_text :: "string option"
  d_details :: dict

record agent_row =
  ag_display_name :: string
  ag_role :: "string option"
  ag_runtime_binding :: AgentBinding

record structured_reply =
  sr_reply_message_id :: "string option"
  sr_text :: string

record runtime_event =
  ev_event_type :: string
  ev_semantic_agent_id :: "string option"
  ev_message_id :: "string option"
  ev_payload :: json

record journal =
  meta :: "string \<rightharpoonup> string"
  agents :: "(string \<times> agent_row) list"
  messages :: "message list"
  deliveries :: "string \<times> string \<rightharpoonup> delivery"
  route_fingerprints :: "string \<times> string \<times> string \<times> string \<rightharpoonup> string"
  structured_replies :: "string \<times> string \<rightharpoonup> structured_reply"
  target_locks :: "(string \<times> TargetLock) list"
  runtime_events :: "runtime_event list"

definition empty_journal :: journal where
  "empty_journal = \<lparr>meta = Map.empty, agents = [], messages = [], deliveries = Map.empty,
     route_fingerprints = Map.empty, structured_replies = Map.empty, target_locks = [],
     runtime_events = []\<rparr>"

section \<open>Operations\<close>

definition get_meta :: "journal \<Rightarrow> string \<Rightarrow> string option" where
  "get_meta J k = meta J k"

definition set_meta :: "string \<Rightarrow> string \<Rightarrow> journal \<Rightarrow> journal" where
  "set_meta k v J = J\<lparr>meta := (meta J)(k \<mapsto> v)\<rparr>"

definition upsert_agent :: "AgentBinding \<Rightarrow> journal \<Rightarrow> journal" where
  "upsert_agent b J = J\<lparr>agents := AList.update (ab_semantic_agent_id b)
     \<lparr>ag_display_name = ab_display_name b, ag_role = ab_role b, ag_runtime_binding = b\<rparr> (agents J)\<rparr>"

definition get_agent :: "journal \<Rightarrow> string \<Rightarrow> agent_row option" where
  "get_agent J a = map_of (agents J) a"

text \<open>\<open>ORDER BY semantic_agent_id\<close>: the rows in the order of their keys.\<close>

definition list_agents :: "journal \<Rightarrow> (string \<times> agent_row) list" where
  "list_agents J = sort_key fst (agents J)"

text \<open>
  \<open>journal_message\<close>: the insert fails when the primary key or the unique idempotency key is taken;
  then the row with this idempotency key answers if it holds the very same message.
\<close>

definition journal_message :: "message \<Rightarrow> (journal, string) op" where
  "journal_message m = (\<lambda>J.
     if m_message_id m \<in> set (map m_message_id (messages J))
        \<or> rt_idempotency_key (m_routing m) \<in> set (map (\<lambda>r. rt_idempotency_key (m_routing r)) (messages J))
     then (case find (\<lambda>r. rt_idempotency_key (m_routing r) = rt_idempotency_key (m_routing m)) (messages J) of
             Some row \<Rightarrow> if row = m then (J, Inr (m_message_id row)) else (J, Inl ValueError)
           | None \<Rightarrow> (J, Inl ValueError))
     else (J\<lparr>messages := messages J @ [m]\<rparr>, Inr (m_message_id m)))"

definition get_message :: "journal \<Rightarrow> string \<Rightarrow> message option" where
  "get_message J mid = find (\<lambda>m. m_message_id m = mid) (messages J)"

text \<open>\<open>ORDER BY created_at, rowid\<close>: a stable sort of the rows in insertion order.\<close>

definition list_thread :: "journal \<Rightarrow> string \<Rightarrow> message list" where
  "list_thread J tid = sort_key m_created_at (filter (\<lambda>m. m_thread_id m = tid) (messages J))"

definition new_delivery :: "string \<Rightarrow> string \<Rightarrow> delivery" where
  "new_delivery mid rid = \<lparr>d_message_id = mid, d_recipient_id = rid, d_state = JOURNALED,
     d_history = [\<lparr>h_state = JOURNALED, h_details = []\<rparr>], d_capture_confidence = None,
     d_reply_text = None, d_details = []\<rparr>"

definition ensure_delivery :: "string \<Rightarrow> string \<Rightarrow> journal \<Rightarrow> journal" where
  "ensure_delivery mid rid J =
     (if deliveries J (mid, rid) \<noteq> None then J
      else J\<lparr>deliveries := (deliveries J)((mid, rid) \<mapsto> new_delivery mid rid)\<rparr>)"

definition get_delivery :: "journal \<Rightarrow> string \<Rightarrow> string \<Rightarrow> delivery option" where
  "get_delivery J mid rid = deliveries J (mid, rid)"

text \<open>
  \<open>COALESCE(?, column)\<close> keeps the old value where the new one is null. The row after the update
  is returned.
\<close>

definition coalesce :: "'a option \<Rightarrow> 'a option \<Rightarrow> 'a option" where
  "coalesce x y = (case x of None \<Rightarrow> y | Some a \<Rightarrow> Some a)"

definition updated_delivery ::
  "delivery \<Rightarrow> DeliveryState \<Rightarrow> dict \<Rightarrow> string option \<Rightarrow> CaptureConfidence option \<Rightarrow> delivery" where
  "updated_delivery cur target details reply conf =
     cur\<lparr>d_state := target,
         d_history := d_history cur @ [\<lparr>h_state = target, h_details = details\<rparr>],
         d_capture_confidence := coalesce conf (d_capture_confidence cur),
         d_reply_text := coalesce reply (d_reply_text cur),
         d_details := dupdate (d_details cur) details\<rparr>"

definition transition_delivery ::
  "string \<Rightarrow> string \<Rightarrow> DeliveryState \<Rightarrow> dict \<Rightarrow> string option \<Rightarrow> CaptureConfidence option \<Rightarrow>
   (journal, delivery) op" where
  "transition_delivery mid rid target details reply conf = (\<lambda>J.
     case get_delivery J mid rid of
       None \<Rightarrow> (J, Inl KeyError)
     | Some cur \<Rightarrow>
         if target \<noteq> d_state cur \<and> target \<notin> ALLOWED_TRANSITIONS (d_state cur) then (J, Inl ValueError)
         else (let new = updated_delivery cur target details reply conf
               in (J\<lparr>deliveries := (deliveries J)((mid, rid) \<mapsto> new)\<rparr>, Inr new)))"

definition route_seen :: "journal \<Rightarrow> string \<Rightarrow> string \<Rightarrow> string \<Rightarrow> string \<Rightarrow> bool" where
  "route_seen J sender recipient thread phash =
     (route_fingerprints J (sender, recipient, thread, phash) \<noteq> None)"

definition record_route ::
  "string \<Rightarrow> string \<Rightarrow> string \<Rightarrow> string \<Rightarrow> string \<Rightarrow> journal \<Rightarrow> journal" where
  "record_route sender recipient thread phash mid J =
     (if route_seen J sender recipient thread phash then J
      else J\<lparr>route_fingerprints :=
               (route_fingerprints J)((sender, recipient, thread, phash) \<mapsto> mid)\<rparr>)"

definition record_structured_reply ::
  "string \<Rightarrow> string \<Rightarrow> string \<Rightarrow> string option \<Rightarrow> journal \<Rightarrow> journal" where
  "record_structured_reply parent author text reply_id J =
     J\<lparr>structured_replies := (structured_replies J)((parent, author) \<mapsto>
         \<lparr>sr_reply_message_id = reply_id, sr_text = text\<rparr>)\<rparr>"

definition get_structured_reply :: "journal \<Rightarrow> string \<Rightarrow> string \<Rightarrow> structured_reply option" where
  "get_structured_reply J parent author = structured_replies J (parent, author)"

definition record_event ::
  "string \<Rightarrow> json \<Rightarrow> string option \<Rightarrow> string option \<Rightarrow> journal \<Rightarrow> journal" where
  "record_event ty payload agent mid J =
     J\<lparr>runtime_events := runtime_events J @ [\<lparr>ev_event_type = ty, ev_semantic_agent_id = agent,
         ev_message_id = mid, ev_payload = payload\<rparr>]\<rparr>"

text \<open>
  \<open>lock_id or new_id("lock")\<close>: the id argument is the given one, or the fresh one. A taken id makes
  the insert raise \<open>sqlite3.IntegrityError\<close>, uncaught.
\<close>

definition create_target_lock ::
  "string \<Rightarrow> string \<Rightarrow> string \<Rightarrow> string option \<Rightarrow> bool \<Rightarrow> string \<Rightarrow> string \<Rightarrow> (journal, TargetLock) op" where
  "create_target_lock title agent issued_by native allow_proxy lock_id now = (\<lambda>J.
     let lock = \<lparr>lk_lock_id = lock_id, lk_requested_visible_title = title,
                 lk_requested_semantic_agent_id = agent, lk_requested_native_thread_id = native,
                 lk_issued_by = issued_by, lk_issued_at = now, lk_allow_proxy = allow_proxy,
                 lk_revoked_at = None, lk_revoked_by = None, lk_revocation_reason = None\<rparr>
     in if map_of (target_locks J) lock_id \<noteq> None then (J, Inl IntegrityError)
        else (record_event ''target_lock.issued'' (TargetLock_to_dict lock) (Some agent) None
                (J\<lparr>target_locks := target_locks J @ [(lock_id, lock)]\<rparr>), Inr lock))"

definition get_target_lock :: "journal \<Rightarrow> string \<Rightarrow> TargetLock option" where
  "get_target_lock J lid = map_of (target_locks J) lid"

definition list_target_locks :: "journal \<Rightarrow> TargetLock list" where
  "list_target_locks J = sort_key lk_issued_at (map snd (sort_key fst (target_locks J)))"

definition revoke_target_lock ::
  "string \<Rightarrow> string \<Rightarrow> string option \<Rightarrow> string \<Rightarrow> (journal, TargetLock) op" where
  "revoke_target_lock lid revoked_by reason now = (\<lambda>J.
     case get_target_lock J lid of
       None \<Rightarrow> (J, Inl KeyError)
     | Some lock \<Rightarrow>
         if is_revoked lock then (J, Inr lock)
         else (let revoked = lock\<lparr>lk_revoked_at := Some now, lk_revoked_by := Some revoked_by,
                                  lk_revocation_reason := reason\<rparr>
               in (record_event ''target_lock.revoked'' (TargetLock_to_dict revoked)
                     (Some (lk_requested_semantic_agent_id revoked)) None
                     (J\<lparr>target_locks := AList.update lid revoked (target_locks J)\<rparr>), Inr revoked)))"

section \<open>Laws of the tables\<close>

lemmas journal_defs = get_meta_def set_meta_def upsert_agent_def get_agent_def ensure_delivery_def
  get_delivery_def route_seen_def record_route_def record_structured_reply_def
  get_structured_reply_def record_event_def get_target_lock_def

lemma deliveries_frame [simp]:
  "deliveries (set_meta k v J) = deliveries J"
  "deliveries (upsert_agent b J) = deliveries J"
  "deliveries (record_route a r t h m J) = deliveries J"
  "deliveries (record_structured_reply p au t i J) = deliveries J"
  "deliveries (record_event ty pl ag mi J) = deliveries J"
  by (simp_all add: journal_defs)

lemma get_delivery_frame [simp]:
  "get_delivery (set_meta k v J) = get_delivery J"
  "get_delivery (upsert_agent b J) = get_delivery J"
  "get_delivery (record_route a r t h m J) = get_delivery J"
  "get_delivery (record_structured_reply p au t i J) = get_delivery J"
  "get_delivery (record_event ty pl ag mi J) = get_delivery J"
  by (simp_all add: fun_eq_iff get_delivery_def)

lemma wp_transition_delivery [wp_rules]:
  "wp (transition_delivery mid rid target details reply conf) Q E J =
     (case get_delivery J mid rid of
        None \<Rightarrow> E KeyError J
      | Some cur \<Rightarrow>
          if delivery_step (d_state cur) target
          then Q (updated_delivery cur target details reply conf)
                 (J\<lparr>deliveries := (deliveries J)((mid, rid) \<mapsto>
                     updated_delivery cur target details reply conf)\<rparr>)
          else E ValueError J)"
  by (auto simp: wp_def transition_delivery_def delivery_step_iff Let_def split: option.splits)

lemma updated_delivery_sel [simp]:
  "d_state (updated_delivery cur t de r c) = t"
  "d_message_id (updated_delivery cur t de r c) = d_message_id cur"
  "d_recipient_id (updated_delivery cur t de r c) = d_recipient_id cur"
  "d_history (updated_delivery cur t de r c) = d_history cur @ [\<lparr>h_state = t, h_details = de\<rparr>]"
  "d_reply_text (updated_delivery cur t de r c) = coalesce r (d_reply_text cur)"
  "d_capture_confidence (updated_delivery cur t de r c) = coalesce c (d_capture_confidence cur)"
  by (simp_all add: updated_delivery_def)

section \<open>The invariant of the journal\<close>

text \<open>
  Every stored delivery carries its own keys, its history is a non-empty run of the state graph
  from \<open>journaled\<close>, and its state is the last of the history. Message ids and idempotency keys
  are unique.
\<close>

definition delivery_ok :: "string \<times> string \<Rightarrow> delivery \<Rightarrow> bool" where
  "delivery_ok k d \<longleftrightarrow> (d_message_id d, d_recipient_id d) = k
     \<and> d_history d \<noteq> [] \<and> h_state (hd (d_history d)) = JOURNALED
     \<and> delivery_run (map h_state (d_history d)) \<and> h_state (last (d_history d)) = d_state d"

definition journal_inv :: "journal \<Rightarrow> bool" where
  "journal_inv J \<longleftrightarrow> (\<forall>k d. deliveries J k = Some d \<longrightarrow> delivery_ok k d)
     \<and> distinct (map m_message_id (messages J))
     \<and> distinct (map (\<lambda>m. rt_idempotency_key (m_routing m)) (messages J))"

lemma delivery_ok_new: "delivery_ok (mid, rid) (new_delivery mid rid)"
  by (simp add: delivery_ok_def new_delivery_def)

lemma delivery_ok_update:
  assumes "delivery_ok k d" and "delivery_step (d_state d) t"
  shows "delivery_ok k (updated_delivery d t de r c)"
proof -
  from assms(1) obtain hs h where h: "d_history d = hs @ [h]"
    unfolding delivery_ok_def by (metis append_butlast_last_id)
  from assms(1) have "delivery_run (map h_state (d_history d))" and st: "h_state (last (d_history d)) = d_state d"
    by (simp_all only: delivery_ok_def)
  then have "delivery_run (map h_state hs @ [h_state h])" by (simp only: h map_append list.map)
  moreover from st assms(2) have "delivery_step (h_state h) t" by (simp add: h)
  ultimately
  have "delivery_run (map h_state hs @ [h_state h, t])"
    by (rule delivery_run_snoc)
  with assms(1) h show ?thesis by (auto simp: delivery_ok_def hd_append)
qed

lemma journal_inv_frame [simp]:
  "journal_inv (set_meta k v J) = journal_inv J"
  "journal_inv (upsert_agent b J) = journal_inv J"
  "journal_inv (record_route a r t h m J) = journal_inv J"
  "journal_inv (record_structured_reply p au t i J) = journal_inv J"
  "journal_inv (record_event ty pl ag mi J) = journal_inv J"
  by (simp_all add: journal_inv_def record_route_def) (simp_all add: journal_defs)

lemma journal_inv_ensure [simp]: "journal_inv J \<Longrightarrow> journal_inv (ensure_delivery mid rid J)"
  by (auto simp: journal_inv_def ensure_delivery_def delivery_ok_new)

lemma journal_inv_transition:
  "journal_inv J \<Longrightarrow> get_delivery J mid rid = Some d \<Longrightarrow> delivery_step (d_state d) t \<Longrightarrow>
   journal_inv (J\<lparr>deliveries := (deliveries J)((mid, rid) \<mapsto> updated_delivery d t de r c)\<rparr>)"
  by (auto simp: journal_inv_def get_delivery_def intro: delivery_ok_update)

lemma journal_message_inv: "journal_inv J \<Longrightarrow> journal_inv (fst (journal_message m J))"
  by (auto simp: journal_message_def journal_inv_def split: option.splits)

lemma journal_message_deliveries: "deliveries (fst (journal_message m J)) = deliveries J"
  by (simp add: journal_message_def split: option.splits)

lemma target_lock_ops_inv:
  "journal_inv (fst (create_target_lock ti a ib n ap lid now J)) = journal_inv J"
  "journal_inv (fst (revoke_target_lock lid rb rs now J)) = journal_inv J"
  by (simp_all add: create_target_lock_def revoke_target_lock_def Let_def journal_inv_def
      record_event_def split: option.splits)

end
