(* ===== verification/PyText.thy ===== *)
theory PyText
  imports Prelude
begin

text \<open>
  What the program uses of Python's \<open>str\<close> and \<open>bytes\<close>, on the UTF-8 bytes of a string: the split
  into characters, \<open>strip\<close>, \<open>rfind\<close>, slices, strict UTF-8 decoding, and the character classes of
  its regular expressions.
\<close>

definition byte :: "char \<Rightarrow> nat" where
  "byte c = of_char c"

section \<open>Characters of a UTF-8 string\<close>

definition is_cont :: "char \<Rightarrow> bool" where
  "is_cont c = (128 \<le> byte c \<and> byte c < 192)"

function chars :: "string \<Rightarrow> string list" where
  "chars [] = []"
| "chars (c # s) = (c # takeWhile is_cont s) # chars (dropWhile is_cont s)"
  by pat_completeness auto
termination
  by (relation "measure length") (auto simp: le_imp_less_Suc length_dropWhile_le)

lemma concat_chars [simp]: "concat (chars s) = s"
  by (induction s rule: chars.induct) auto

text \<open>The number of characters, \<open>len(s)\<close>.\<close>

definition char_len :: "string \<Rightarrow> nat" where
  "char_len s = length (chars s)"

text \<open>The last \<open>n\<close> characters, \<open>s[-n:]\<close>.\<close>

definition last_chars :: "nat \<Rightarrow> string \<Rightarrow> string" where
  "last_chars n s = concat (drop (char_len s - n) (chars s))"

text \<open>\<open>str.isspace\<close> of one character: the ASCII blanks and controls, and the Unicode spaces.\<close>

definition space_chars :: "string list" where
  "space_chars =
     [[CHR 0x09], [CHR 0x0A], [CHR 0x0B], [CHR 0x0C], [CHR 0x0D], [CHR 0x1C], [CHR 0x1D],
      [CHR 0x1E], [CHR 0x1F], [CHR 0x20], [CHR 0xC2, CHR 0x85], [CHR 0xC2, CHR 0xA0],
      [CHR 0xE1, CHR 0x9A, CHR 0x80],
      [CHR 0xE2, CHR 0x80, CHR 0x80], [CHR 0xE2, CHR 0x80, CHR 0x81], [CHR 0xE2, CHR 0x80, CHR 0x82],
      [CHR 0xE2, CHR 0x80, CHR 0x83], [CHR 0xE2, CHR 0x80, CHR 0x84], [CHR 0xE2, CHR 0x80, CHR 0x85],
      [CHR 0xE2, CHR 0x80, CHR 0x86], [CHR 0xE2, CHR 0x80, CHR 0x87], [CHR 0xE2, CHR 0x80, CHR 0x88],
      [CHR 0xE2, CHR 0x80, CHR 0x89], [CHR 0xE2, CHR 0x80, CHR 0x8A], [CHR 0xE2, CHR 0x80, CHR 0xA8],
      [CHR 0xE2, CHR 0x80, CHR 0xA9], [CHR 0xE2, CHR 0x80, CHR 0xAF], [CHR 0xE2, CHR 0x81, CHR 0x9F],
      [CHR 0xE3, CHR 0x80, CHR 0x80]]"

definition is_space :: "string \<Rightarrow> bool" where
  "is_space c = (c \<in> set space_chars)"

definition strip_list :: "('a \<Rightarrow> bool) \<Rightarrow> 'a list \<Rightarrow> 'a list" where
  "strip_list p xs = rev (dropWhile p (rev (dropWhile p xs)))"

definition strip :: "string \<Rightarrow> string" where
  "strip s = concat (strip_list is_space (chars s))"

lemma strip_list_decomp: "\<exists>l r. xs = l @ strip_list p xs @ r \<and> (\<forall>x\<in>set l \<union> set r. p x)"
proof (intro exI conjI)
  let ?m = "dropWhile p xs"
  have m: "?m = strip_list p xs @ rev (takeWhile p (rev ?m))"
    unfolding strip_list_def by (subst rev_append [symmetric]) simp
  show "xs = takeWhile p xs @ strip_list p xs @ rev (takeWhile p (rev ?m))"
    by (subst m [symmetric]) simp
  show "\<forall>x\<in>set (takeWhile p xs) \<union> set (rev (takeWhile p (rev ?m))). p x"
    by (auto dest: set_takeWhileD)
qed

lemma strip_decomp:
  "\<exists>l r. s = concat l @ strip s @ concat r \<and> (\<forall>c\<in>set l \<union> set r. is_space c)"
proof -
  obtain l r where lr: "chars s = l @ strip_list is_space (chars s) @ r"
    and sp: "\<forall>c\<in>set l \<union> set r. is_space c"
    using strip_list_decomp [of "chars s" is_space] by blast
  from lr have "concat (chars s) = concat (l @ strip_list is_space (chars s) @ r)"
    by (rule arg_cong)
  then have "s = concat l @ strip s @ concat r"
    by (simp add: strip_def)
  with sp show ?thesis by blast
qed

section \<open>Searching\<close>

fun rfind_from :: "nat \<Rightarrow> string \<Rightarrow> string \<Rightarrow> nat option" where
  "rfind_from i [] tok = (if tok = [] then Some i else None)"
| "rfind_from i (c # s) tok =
     (case rfind_from (Suc i) s tok of
        Some j \<Rightarrow> Some j
      | None \<Rightarrow> if startswith (c # s) tok then Some i else None)"

definition rfind :: "string \<Rightarrow> string \<Rightarrow> nat option" where
  "rfind s tok = rfind_from 0 s tok"

lemma rfind_from_Some:
  "rfind_from i s tok = Some j \<Longrightarrow> i \<le> j \<and> j \<le> i + length s \<and> startswith (drop (j - i) s) tok"
proof (induction i s tok arbitrary: j rule: rfind_from.induct)
  case (2 i c s tok)
  show ?case
  proof (cases "rfind_from (Suc i) s tok")
    case None
    with 2 show ?thesis by (auto split: if_splits)
  next
    case (Some k)
    with 2 have "Suc i \<le> j" "j \<le> Suc i + length s" "startswith (drop (j - Suc i) s) tok" by auto
    moreover from \<open>Suc i \<le> j\<close> have "j - i = Suc (j - Suc i)" by simp
    ultimately show ?thesis by (simp del: rfind_from.simps)
  qed
qed (auto simp: startswith_def split: if_splits)

lemma rfind_from_None: "rfind_from i s tok = None \<Longrightarrow> \<not> contains s tok"
  by (induction i s tok rule: rfind_from.induct) (auto split: option.splits if_splits)

lemma rfind_Some: "rfind s tok = Some j \<Longrightarrow> \<exists>b. s = take j s @ tok @ b \<and> j + length tok \<le> length s"
proof -
  assume "rfind s tok = Some j"
  then have j: "j \<le> length s" "startswith (drop j s) tok"
    using rfind_from_Some[of 0 s tok j] by (auto simp: rfind_def)
  then obtain b where "drop j s = tok @ b" by (auto simp: startswith_iff)
  then show ?thesis
    by (metis (no_types, lifting) append_take_drop_id j(1) le_add1 length_append length_take min.absorb2
        add_le_cancel_left)
qed

section \<open>Strict UTF-8\<close>

text \<open>
  \<open>bytes.decode("utf-8", errors="strict")\<close> accepts the well-formed sequences: no overlong form, no
  surrogate, nothing above U+10FFFF. Decoding keeps the bytes, which are the string.
\<close>

definition in_rng :: "nat \<Rightarrow> nat \<Rightarrow> char \<Rightarrow> bool" where
  "in_rng lo hi c = (lo \<le> byte c \<and> byte c \<le> hi)"

fun utf8_valid :: "string \<Rightarrow> bool" where
  "utf8_valid [] = True"
| "utf8_valid (a # s) =
     (if byte a < 128 then utf8_valid s
      else if in_rng 194 223 a then
        (case s of b # s' \<Rightarrow> is_cont b \<and> utf8_valid s' | _ \<Rightarrow> False)
      else if in_rng 224 239 a then
        (case s of b # c # s' \<Rightarrow>
           (if byte a = 224 then in_rng 160 191 b
            else if byte a = 237 then in_rng 128 159 b else is_cont b) \<and> is_cont c \<and> utf8_valid s'
         | _ \<Rightarrow> False)
      else if in_rng 240 244 a then
        (case s of b # c # d # s' \<Rightarrow>
           (if byte a = 240 then in_rng 144 191 b
            else if byte a = 244 then in_rng 128 143 b else is_cont b)
           \<and> is_cont c \<and> is_cont d \<and> utf8_valid s'
         | _ \<Rightarrow> False)
      else False)"

declare utf8_valid.simps(2) [simp del]

text \<open>For evaluation: an ASCII character is known by its top bit.\<close>

lemma byte_high: "byte (Char b0 b1 b2 b3 b4 b5 b6 b7) < 128 \<longleftrightarrow> \<not> b7"
  by (simp add: byte_def)

definition utf8_wide :: "string \<Rightarrow> bool" where
  "utf8_wide s = utf8_valid s"

lemma utf8_wide_code [code]:
  "utf8_wide [] = True"
  "utf8_wide (a # s) =
     (if byte a < 128 then utf8_valid s
      else if in_rng 194 223 a then
        (case s of b # s' \<Rightarrow> is_cont b \<and> utf8_valid s' | _ \<Rightarrow> False)
      else if in_rng 224 239 a then
        (case s of b # c # s' \<Rightarrow>
           (if byte a = 224 then in_rng 160 191 b
            else if byte a = 237 then in_rng 128 159 b else is_cont b) \<and> is_cont c \<and> utf8_valid s'
         | _ \<Rightarrow> False)
      else if in_rng 240 244 a then
        (case s of b # c # d # s' \<Rightarrow>
           (if byte a = 240 then in_rng 144 191 b
            else if byte a = 244 then in_rng 128 143 b else is_cont b)
           \<and> is_cont c \<and> is_cont d \<and> utf8_valid s'
         | _ \<Rightarrow> False)
      else False)"
  by (simp_all add: utf8_wide_def utf8_valid.simps(2))

lemma utf8_valid_code [code]:
  "utf8_valid [] = True"
  "utf8_valid (Char b0 b1 b2 b3 b4 b5 b6 False # s) = utf8_valid s"
  "utf8_valid (Char b0 b1 b2 b3 b4 b5 b6 True # s) = utf8_wide (Char b0 b1 b2 b3 b4 b5 b6 True # s)"
  by (simp_all add: utf8_wide_def utf8_valid.simps(2) byte_high)

definition ascii :: "string \<Rightarrow> bool" where
  "ascii s = (\<forall>c\<in>set s. byte c < 128)"

lemma utf8_valid_ascii_Cons: "byte c < 128 \<Longrightarrow> utf8_valid (c # s) = utf8_valid s"
  by (simp add: utf8_valid.simps(2))

lemma utf8_valid_append: "utf8_valid s \<Longrightarrow> utf8_valid (s @ t) = utf8_valid t"
proof (induction s rule: utf8_valid.induct)
  case (2 a s)
  from "2.prems" show ?case
    by (simp add: utf8_valid.simps(2)[of a] split: if_splits list.splits)
      (auto simp: "2.IH" split: if_splits)
qed simp

lemma utf8_valid_ascii: "ascii s \<Longrightarrow> utf8_valid s"
  by (induction s) (auto simp: ascii_def utf8_valid_ascii_Cons)

text \<open>\<open>any(ord(c) < 0x20 and c not in "\t\n\r" for c in text)\<close>.\<close>

definition has_control :: "string \<Rightarrow> bool" where
  "has_control s = list_ex (\<lambda>c. byte c < 32 \<and> c \<notin> {CHR 0x09, CHR 0x0A, CHR 0x0D}) s"

section \<open>Character classes\<close>

definition is_digit :: "char \<Rightarrow> bool" where
  "is_digit c = in_rng 48 57 c"

definition is_hex_lower :: "char \<Rightarrow> bool" where
  "is_hex_lower c = (is_digit c \<or> in_rng 97 102 c)"

definition is_hex_upper :: "char \<Rightarrow> bool" where
  "is_hex_upper c = (is_digit c \<or> in_rng 65 70 c)"

definition is_hex_any :: "char \<Rightarrow> bool" where
  "is_hex_any c = (is_hex_lower c \<or> is_hex_upper c)"

definition upper_char :: "char \<Rightarrow> char" where
  "upper_char c = (if in_rng 97 122 c then char_of (byte c - 32) else c)"

definition lower_char :: "char \<Rightarrow> char" where
  "lower_char c = (if in_rng 65 90 c then char_of (byte c + 32) else c)"

text \<open>
  A letter of a pattern compiled with \<open>IGNORECASE\<close>. Three characters outside ASCII fold to letters of
  the patterns in use: U+017F to s, U+0131 and U+0130 to i.
\<close>

definition folds_to :: "char \<Rightarrow> string \<Rightarrow> bool" where
  "folds_to c x = (x = [c] \<or> x = [upper_char c]
     \<or> (c = CHR ''s'' \<and> x = [CHR 0xC5, CHR 0xBF])
     \<or> (c = CHR ''i'' \<and> (x = [CHR 0xC4, CHR 0xB1] \<or> x = [CHR 0xC4, CHR 0xB0])))"

text \<open>
  \<open>str.upper\<close> and \<open>str.lower\<close> on the ASCII strings the program applies them to (hexadecimal digests,
  file suffixes).
\<close>

definition upper :: "string \<Rightarrow> string" where
  "upper s = map upper_char s"

definition lower :: "string \<Rightarrow> string" where
  "lower s = map lower_char s"

section \<open>Decimal numerals and lines\<close>

definition digit :: "nat \<Rightarrow> char" where
  "digit n = char_of (48 + n)"

fun show_nat :: "nat \<Rightarrow> string" where
  "show_nat n = (if n < 10 then [digit n] else show_nat (n div 10) @ [digit (n mod 10)])"

declare show_nat.simps [simp del]

text \<open>\<open>s.split("\\n")\<close>.\<close>

fun split_on :: "char \<Rightarrow> string \<Rightarrow> string list" where
  "split_on c [] = [[]]"
| "split_on c (x # s) = (if x = c then [] # split_on c s
     else (case split_on c s of [] \<Rightarrow> [[x]] | l # ls \<Rightarrow> (x # l) # ls))"

lemma split_on_none: "c \<notin> set x \<Longrightarrow> split_on c x = [x]"
  by (induction x) auto

lemma split_on_append: "c \<notin> set x \<Longrightarrow> split_on c (x @ c # y) = x # split_on c y"
  by (induction x) auto

end
