(* ===== verification/Bridge_Capture.thy ===== *)
theory Bridge_Capture
  imports Bridge_Models PyText
begin

text \<open>
  \<open>src/eml_bridge/capture.py\<close>: finding a marker in terminal text that may be hard-wrapped, the
  text that is new on a terminal, and the choice of a reply with its confidence. The regular
  expression of \<open>find_wrapped\<close> is a backtracking matcher that tries the optional wrap greedily.
  Offsets count bytes; the limits of \<open>terminal_delta\<close> count characters.
\<close>

section \<open>Markers\<close>

definition is_blank :: "char \<Rightarrow> bool" where
  "is_blank c = (c = CHR 0x20 \<or> c = CHR 0x09)"

text \<open>
  \<open>_WRAP\<close>: the texts that can remain after \<open>(?:[ \t]*\r?\n[ \t]*)?\<close>, in the order the matcher tries
  them. The first run of blanks must end at the line break; the second gives back one by one.
\<close>

fun blank_tails :: "string \<Rightarrow> string list" where
  "blank_tails [] = [[]]"
| "blank_tails (c # s) = (if is_blank c then blank_tails s @ [c # s] else [c # s])"

definition after_break :: "string \<Rightarrow> string option" where
  "after_break s = (case dropWhile is_blank s of
      [] \<Rightarrow> None
    | c # r \<Rightarrow>
        if c = CHR 0x0A then Some r
        else if c = CHR 0x0D then (case r of d # r' \<Rightarrow> if d = CHR 0x0A then Some r' else None | [] \<Rightarrow> None)
        else None)"

definition wrap_rests :: "string \<Rightarrow> string list" where
  "wrap_rests s = (case after_break s of None \<Rightarrow> [] | Some r \<Rightarrow> blank_tails r) @ [s]"

fun first_some :: "('a \<Rightarrow> 'b option) \<Rightarrow> 'a list \<Rightarrow> 'b option" where
  "first_some f [] = None"
| "first_some f (x # xs) = (case f x of None \<Rightarrow> first_some f xs | Some y \<Rightarrow> Some y)"

text \<open>Matching the pattern at the start of a text gives the text that remains.\<close>

fun match_wrapped :: "string \<Rightarrow> string \<Rightarrow> string option" where
  "match_wrapped [] s = Some s"
| "match_wrapped [c] s = (case s of [] \<Rightarrow> None | x # r \<Rightarrow> if x = c then Some r else None)"
| "match_wrapped (c # tok) s = (case s of
      [] \<Rightarrow> None
    | x # r \<Rightarrow> if x = c then first_some (match_wrapped tok) (wrap_rests r) else None)"

text \<open>The last of the non-overlapping matches that \<open>re.finditer\<close> finds from left to right.\<close>

lemma first_some_Some: "first_some f xs = Some y \<Longrightarrow> \<exists>x\<in>set xs. f x = Some y"
  by (induction xs) (auto split: option.splits)

lemma blank_tails_suffix: "r \<in> set (blank_tails s) \<Longrightarrow> \<exists>w. s = w @ r \<and> (\<forall>c\<in>set w. is_blank c)"
proof (induction s)
  case (Cons c s)
  show ?case
  proof (cases "r = c # s")
    case False
    with Cons obtain w where "s = w @ r" "\<forall>c\<in>set w. is_blank c" "is_blank c"
      by (auto split: if_splits)
    then show ?thesis by (intro exI[of _ "c # w"]) simp
  qed auto
qed simp

definition is_wrap_char :: "char \<Rightarrow> bool" where
  "is_wrap_char c = (is_blank c \<or> c = CHR 0x0A \<or> c = CHR 0x0D)"

lemma after_break_suffix: "after_break s = Some r \<Longrightarrow> \<exists>w. s = w @ r \<and> (\<forall>c\<in>set w. is_wrap_char c)"
proof -
  assume r: "after_break s = Some r"
  have s: "s = takeWhile is_blank s @ dropWhile is_blank s"
    and w: "\<forall>c\<in>set (takeWhile is_blank s). is_wrap_char c"
    by (auto simp: is_wrap_char_def dest: set_takeWhileD)
  from r obtain v where v: "dropWhile is_blank s = v @ r" "\<forall>c\<in>set v. is_wrap_char c"
    by (auto simp: after_break_def is_wrap_char_def split: list.splits if_splits)
  from s v(1) have "s = (takeWhile is_blank s @ v) @ r" by simp
  with w v(2) show ?thesis by (metis UnE set_append)
qed

lemma wrap_rests_suffix: "r \<in> set (wrap_rests s) \<Longrightarrow> \<exists>w. s = w @ r \<and> (\<forall>c\<in>set w. is_wrap_char c)"
proof (cases "r = s")
  case False
  assume "r \<in> set (wrap_rests s)"
  with False obtain q where q: "after_break s = Some q" "r \<in> set (blank_tails q)"
    by (cases "after_break s") (auto simp: wrap_rests_def)
  from after_break_suffix[OF q(1)] blank_tails_suffix[OF q(2)] show ?thesis
    by (metis (no_types, lifting) UnE append.assoc is_wrap_char_def set_append)
qed auto

lemma match_wrapped_suffix:
  "match_wrapped tok s = Some r \<Longrightarrow>
   \<exists>w. s = w @ r \<and> length tok \<le> length w
     \<and> filter (\<lambda>c. \<not> is_wrap_char c) w = filter (\<lambda>c. \<not> is_wrap_char c) tok"
proof (induction tok s arbitrary: r rule: match_wrapped.induct)
  case (2 c s)
  then show ?case by (intro exI[of _ "[c]"]) (auto split: list.splits if_splits)
next
  case (3 c d tok s)
  then obtain s' q where s: "s = c # s'" and q: "q \<in> set (wrap_rests s')" "match_wrapped (d # tok) q = Some r"
    by (auto split: list.splits if_splits dest!: first_some_Some)
  obtain w where w: "s' = w @ q" "\<forall>c\<in>set w. is_wrap_char c" using wrap_rests_suffix[OF q(1)] by blast
  have "\<exists>v. q = v @ r \<and> length (d # tok) \<le> length v
      \<and> filter (\<lambda>c. \<not> is_wrap_char c) v = filter (\<lambda>c. \<not> is_wrap_char c) (d # tok)"
    by (rule "3.IH"[of c s' q]) (use s q in simp_all)
  then obtain v where v: "q = v @ r" "length (d # tok) \<le> length v"
      "filter (\<lambda>c. \<not> is_wrap_char c) v = filter (\<lambda>c. \<not> is_wrap_char c) (d # tok)" by blast
  have "filter (\<lambda>c. \<not> is_wrap_char c) w = []" using w(2) by (simp add: filter_empty_conv)
  with s w v show ?case by (intro exI[of _ "c # w @ v"]) auto
qed auto

lemma match_wrapped_shorter: "match_wrapped (c # tok) s = Some r \<Longrightarrow> length r < length s"
  using match_wrapped_suffix[of "c # tok" s r] by auto

function last_match :: "nat \<Rightarrow> string \<Rightarrow> string \<Rightarrow> (nat \<times> nat) option \<Rightarrow> (nat \<times> nat) option" where
  "last_match i [] s acc = acc"
| "last_match i (c # tok) [] acc = acc"
| "last_match i (c # tok) (x # s) acc =
     (case match_wrapped (c # tok) (x # s) of
        None \<Rightarrow> last_match (Suc i) (c # tok) s acc
      | Some r \<Rightarrow> (let j = i + (length (x # s) - length r) in last_match j (c # tok) r (Some (i, j))))"
  by pat_completeness auto
termination
  by (relation "measure (\<lambda>(i, tok, s, acc). length s)") (auto dest: match_wrapped_shorter)

definition find_wrapped :: "string \<Rightarrow> string \<Rightarrow> (nat \<times> nat) option" where
  "find_wrapped text token =
     (if token = [] then None
      else case rfind text token of
        Some index \<Rightarrow> Some (index, index + length token)
      | None \<Rightarrow> last_match 0 token text None)"

section \<open>New terminal text\<close>

text \<open>The width of the largest exact overlap above 31, searched downwards from \<open>limit\<close>.\<close>

fun overlap_from :: "'c list \<Rightarrow> 'c list \<Rightarrow> nat \<Rightarrow> nat option" where
  "overlap_from before after 0 = None"
| "overlap_from before after (Suc w) =
     (if Suc w \<le> 31 then None
      else if drop (length before - Suc w) before = take (Suc w) after then Some (Suc w)
      else overlap_from before after w)"

fun common_prefix :: "'c list \<Rightarrow> 'c list \<Rightarrow> nat" where
  "common_prefix (a # as) (b # bs) = (if a = b then Suc (common_prefix as bs) else 0)"
| "common_prefix _ _ = 0"

definition terminal_delta :: "'c list \<Rightarrow> 'c list \<Rightarrow> 'c list \<times> string" where
  "terminal_delta before after =
     (if before = [] then (after, ''no_baseline'')
      else if take (length before) after = before then (drop (length before) after, ''prefix'')
      else case overlap_from before after (min (min (length before) (length after)) 32768) of
        Some width \<Rightarrow> (drop width after, ''suffix_prefix_overlap'')
      | None \<Rightarrow>
          (let common = common_prefix before after
           in if 64 \<le> common then (drop common after, ''common_prefix_redraw'')
              else (after, ''unresolved_redraw'')))"

section \<open>Choosing the reply\<close>

text \<open>The text after the echoed bridge frame, or all of it where no frame is visible.\<close>

definition frame_tail :: "string \<Rightarrow> string" where
  "frame_tail delta =
     (case find_wrapped delta ''[/EML-BRIDGE]'' of Some (_, e) \<Rightarrow> drop e delta | None \<Rightarrow> delta)"

text \<open>The stripped text before the marker, empty where there is no marker.\<close>

definition before_marker :: "string \<Rightarrow> string \<Rightarrow> string" where
  "before_marker text reply_marker =
     (case find_wrapped text reply_marker of Some (b, _) \<Rightarrow> strip (take b text) | None \<Rightarrow> [])"

definition capture_terminal :: "string \<Rightarrow> string \<Rightarrow> string \<Rightarrow> CaptureResult" where
  "capture_terminal delta delta_mode reply_marker =
     (let close_span = find_wrapped delta ''[/EML-BRIDGE]'';
          tail = frame_tail delta;
          fenced = before_marker tail reply_marker;
          unfenced = before_marker delta reply_marker;
          rest = strip tail
      in if fenced \<noteq> [] then
           \<lparr>cr_text = Some fenced, cr_confidence = TURN_FENCED,
            cr_evidence = [(''source'', JStr ''terminal''), (''delta_mode'', JStr delta_mode),
              (''marker_after_frame'', JBool (close_span \<noteq> None)),
              (''marker_wrapped'', JBool (rfind tail reply_marker = None))]\<rparr>
         else if unfenced \<noteq> [] \<and> \<not> contains (last_chars 2000 unfenced) ''BEGIN_MESSAGE'' then
           \<lparr>cr_text = Some unfenced, cr_confidence = HEURISTIC,
            cr_evidence = [(''source'', JStr ''terminal''), (''delta_mode'', JStr delta_mode),
              (''reason'', JStr ''marker_without_visible_frame_boundary''),
              (''marker_wrapped'', JBool (rfind delta reply_marker = None))]\<rparr>
         else if rest \<noteq> [] then
           \<lparr>cr_text = Some rest, cr_confidence = HEURISTIC,
            cr_evidence = [(''source'', JStr ''terminal''), (''delta_mode'', JStr delta_mode),
              (''reason'', JStr ''no_reply_marker'')]\<rparr>
         else
           \<lparr>cr_text = None, cr_confidence = NONE,
            cr_evidence = [(''source'', JStr ''terminal''), (''delta_mode'', JStr delta_mode),
              (''reason'', JStr ''empty_delta'')]\<rparr>)"

definition capture_reply :: "string \<Rightarrow> string \<Rightarrow> string \<Rightarrow> string option \<Rightarrow> CaptureResult" where
  "capture_reply before after reply_marker structured_text =
     (case structured_text of
        Some text \<Rightarrow> \<lparr>cr_text = Some (strip text), cr_confidence = STRUCTURED,
                      cr_evidence = [(''source'', JStr ''structured_reply'')]\<rparr>
      | None \<Rightarrow> (let (delta, mode) = terminal_delta (chars before) (chars after)
                 in capture_terminal (concat delta) mode reply_marker))"

section \<open>What a capture shows\<close>

text \<open>A text shows a marker when the two agree but for blanks and line breaks.\<close>

definition shows_marker :: "string \<Rightarrow> string \<Rightarrow> bool" where
  "shows_marker w tok = (filter (\<lambda>c. \<not> is_wrap_char c) w = filter (\<lambda>c. \<not> is_wrap_char c) tok)"

lemma last_match_span:
  "last_match i tok s acc = Some (b, e) \<Longrightarrow> acc \<noteq> Some (b, e) \<Longrightarrow>
   i \<le> b \<and> b < e \<and> e \<le> i + length s \<and> shows_marker (take (e - b) (drop (b - i) s)) tok"
proof (induction i tok s acc rule: last_match.induct)
  case (3 i c tok x s acc)
  show ?case
  proof (cases "match_wrapped (c # tok) (x # s)")
    case None
    with 3 have "Suc i \<le> b \<and> b < e \<and> e \<le> Suc i + length s
        \<and> shows_marker (take (e - b) (drop (b - Suc i) s)) (c # tok)" by simp
    moreover from this have "b - i = Suc (b - Suc i)" by linarith
    ultimately show ?thesis by simp
  next
    case (Some r)
    from match_wrapped_suffix[OF Some] obtain w where
      w: "x # s = w @ r" "length (c # tok) \<le> length w" "shows_marker w (c # tok)"
      unfolding shows_marker_def by blast
    let ?j = "i + length w"
    have j: "i + (length (x # s) - length r) = ?j" using w(1) by simp
    show ?thesis
    proof (cases "(b, e) = (i, ?j)")
      case True
      with w show ?thesis by auto
    next
      case False
      with "3.IH"(2)[OF Some refl] "3.prems"(1) Some j have
        ih: "?j \<le> b \<and> b < e \<and> e \<le> ?j + length r \<and> shows_marker (take (e - b) (drop (b - ?j) r)) (c # tok)"
        by (auto simp del: last_match.simps simp add: last_match.simps(3) Let_def)
      moreover from ih have "b - i = length w + (b - ?j)" by linarith
      then have "drop (b - i) (x # s) = drop (b - ?j) r" by (simp only: w(1) drop_append) simp
      moreover have "?j + length r = i + length (x # s)" using w(1) by (metis add.assoc length_append)
      ultimately show ?thesis by auto
    qed
  qed
qed simp_all

text \<open>
  \<open>find_wrapped\<close> is sound: the span it returns is a non-empty range of the text, and what it
  covers is the token up to blanks and line breaks, so no other character ever bridges a break.
\<close>

theorem find_wrapped_span:
  assumes "find_wrapped text token = Some (b, e)"
  shows "b < e \<and> e \<le> length text \<and> shows_marker (take (e - b) (drop b text)) token"
proof (cases "rfind text token")
  case None
  with assms have "last_match 0 token text None = Some (b, e)"
    by (simp add: find_wrapped_def split: if_splits)
  from last_match_span[OF this] show ?thesis by simp
next
  case (Some i)
  with assms have "token \<noteq> []" "b = i" "e = i + length token"
    by (auto simp: find_wrapped_def split: if_splits)
  moreover from rfind_Some[OF Some] obtain z where "text = take i text @ token @ z"
    and le: "i + length token \<le> length text" by blast
  then have "drop i text = token @ z" by (metis append_take_drop_id same_append_eq)
  ultimately show ?thesis using le by (simp add: shows_marker_def)
qed

theorem find_wrapped_span_witness:
  "find_wrapped ''x EML_ \<newline>  R'' ''EML_R'' = Some (2, 11) \<and> (2::nat) < 11"
proof -
  have "find_wrapped ''x EML_ \<newline>  R'' ''EML_R'' = Some (2, 11)" by code_simp
  from find_wrapped_span[OF this] this show ?thesis by simp
qed

lemma overlap_from_Some:
  "overlap_from before after n = Some w \<Longrightarrow>
   31 < w \<and> w \<le> n \<and> drop (length before - w) before = take w after"
  by (induction before after n rule: overlap_from.induct) (auto split: if_splits)

lemma common_prefix_take: "take (common_prefix as bs) as = take (common_prefix as bs) bs"
  by (induction as bs rule: common_prefix.induct) auto

text \<open>
  \<open>terminal_delta\<close> loses no new text: what it drops from the front of the screen is text the
  baseline already showed, at its beginning or at its end.
\<close>

theorem terminal_delta_drops_seen:
  "\<exists>p q. after = p @ fst (terminal_delta before after) \<and> (before = p @ q \<or> before = q @ p)"
proof -
  have keep: "\<exists>p q. after = p @ after \<and> (before = p @ q \<or> before = q @ p)"
    by (intro exI[of _ "[]"] exI[of _ before]) simp
  consider (empty) "before = []" | (pre) "before \<noteq> []" "take (length before) after = before"
    | (over) w where "before \<noteq> []" "take (length before) after \<noteq> before"
        "overlap_from before after (min (min (length before) (length after)) 32768) = Some w"
    | (redraw) "before \<noteq> []" "take (length before) after \<noteq> before"
        "overlap_from before after (min (min (length before) (length after)) 32768) = None"
    by (cases "overlap_from before after (min (min (length before) (length after)) 32768)") auto
  then show ?thesis
  proof cases
    case empty
    with keep show ?thesis by (simp add: terminal_delta_def)
  next
    case pre
    then have "after = before @ drop (length before) after" by (metis append_take_drop_id)
    with pre show ?thesis by (intro exI[of _ before] exI[of _ "[]"]) (simp add: terminal_delta_def)
  next
    case (over w)
    have "drop (length before - w) before = take w after"
      using overlap_from_Some[OF over(3)] by blast
    then have "before = take (length before - w) before @ take w after"
      by (metis append_take_drop_id)
    with over show ?thesis
      by (intro exI[of _ "take w after"] exI[of _ "take (length before - w) before"])
        (simp add: terminal_delta_def)
  next
    case redraw
    let ?c = "common_prefix before after"
    have "before = take ?c after @ drop ?c before"
      by (metis append_take_drop_id common_prefix_take)
    moreover have "after = take ?c after @ drop ?c after" by simp
    ultimately have "\<exists>p q. after = p @ drop ?c after \<and> (before = p @ q \<or> before = q @ p)" by blast
    with redraw keep show ?thesis
      by (cases "64 \<le> ?c") (simp_all add: terminal_delta_def Let_def)
  qed
qed

lemma delta_suffix: "\<exists>p. after = p @ concat (fst (terminal_delta (chars before) (chars after)))"
proof -
  obtain p where "chars after = p @ fst (terminal_delta (chars before) (chars after))"
    using terminal_delta_drops_seen[of "chars after" "chars before"] by blast
  then have "concat (chars after) = concat (p @ fst (terminal_delta (chars before) (chars after)))"
    by (rule arg_cong)
  then show ?thesis by auto
qed

lemma fenced_in_text:
  assumes "find_wrapped tail marker = Some (b, e)"
  shows "\<exists>l gap m z. tail = concat l @ strip (take b tail) @ concat gap @ m @ z
    \<and> shows_marker m marker \<and> (\<forall>c\<in>set gap. is_space c)"
proof -
  obtain l r where lr: "take b tail = concat l @ strip (take b tail) @ concat r"
      "\<forall>c\<in>set l \<union> set r. is_space c"
    using strip_decomp by blast
  from find_wrapped_span[OF assms] have m: "shows_marker (take (e - b) (drop b tail)) marker" by blast
  have "tail = take b tail @ take (e - b) (drop b tail) @ drop (e - b) (drop b tail)"
    by (simp only: append_take_drop_id)
  then have "tail = concat l @ strip (take b tail) @ concat r @ take (e - b) (drop b tail)
      @ drop (e - b) (drop b tail)"
    by (metis append.assoc lr(1))
  with m lr(2) show ?thesis by blast
qed

lemma frame_tail_suffix: "\<exists>p. delta = p @ frame_tail delta"
proof (cases "find_wrapped delta ''[/EML-BRIDGE]''")
  case (Some be)
  have "delta = take (snd be) delta @ drop (snd be) delta" by simp
  then have "\<exists>p. delta = p @ drop (snd be) delta" by (rule exI)
  then show ?thesis by (simp add: frame_tail_def Some case_prod_beta)
qed (simp add: frame_tail_def)

text \<open>
  C11: a reply that is captured as \<open>turn_fenced\<close> is real terminal text: it is not empty, it occurs
  on the screen after the prompt, and only white space separates it from the marker of this very
  message, which follows it.
\<close>

theorem turn_fenced_reply:
  assumes "cr_confidence (capture_reply before after marker None) = TURN_FENCED"
  shows "\<exists>t a gap m z. cr_text (capture_reply before after marker None) = Some t \<and> t \<noteq> []
    \<and> after = a @ t @ concat gap @ m @ z \<and> shows_marker m marker \<and> (\<forall>c\<in>set gap. is_space c)"
proof -
  define delta where "delta = concat (fst (terminal_delta (chars before) (chars after)))"
  define tail where "tail = frame_tail delta"
  obtain p where p: "after = p @ delta" using delta_suffix unfolding delta_def by blast
  obtain p' where p': "delta = p' @ tail"
    using frame_tail_suffix unfolding tail_def by blast
  have cap: "capture_reply before after marker None
      = capture_terminal delta (snd (terminal_delta (chars before) (chars after))) marker"
    by (simp add: capture_reply_def delta_def case_prod_beta)
  have f: "before_marker tail marker \<noteq> []"
    using assms by (auto simp: cap capture_terminal_def Let_def tail_def split: if_splits)
  then have tx: "cr_text (capture_reply before after marker None) = Some (before_marker tail marker)"
    by (simp add: cap capture_terminal_def Let_def tail_def)
  from f obtain b e where be: "find_wrapped tail marker = Some (b, e)"
      "before_marker tail marker = strip (take b tail)"
    by (auto simp: before_marker_def split: option.splits)
  from fenced_in_text[OF be(1)] obtain l gap m z where
    t: "tail = concat l @ before_marker tail marker @ concat gap @ m @ z"
    and mz: "shows_marker m marker" "\<forall>c\<in>set gap. is_space c"
    unfolding be(2) by blast
  have "after = p @ p' @ tail" using p p' by simp
  also have "\<dots> = (p @ p' @ concat l) @ before_marker tail marker @ concat gap @ m @ z"
    by (subst t) simp
  finally show ?thesis using tx f mz by blast
qed

theorem turn_fenced_reply_witness:
  "\<exists>t a gap m z. cr_text (capture_reply ''$ '' ''$ hi EML_R'' ''EML_R'' None) = Some t \<and> t \<noteq> []
    \<and> ''$ hi EML_R'' = a @ t @ concat gap @ m @ z \<and> shows_marker m ''EML_R'' \<and> (\<forall>c\<in>set gap. is_space c)"
proof (rule turn_fenced_reply)
  show "cr_confidence (capture_reply ''$ '' ''$ hi EML_R'' ''EML_R'' None) = TURN_FENCED"
    by code_simp
qed

end
