(* ===== verification/Bridge_Core.thy ===== *)
theory Bridge_Core
  imports Bridge_Message Bridge_Capture
begin

text \<open>
  \<open>src/eml_bridge/core.py\<close>: the bridge engine. Its state is the journal, the world behind the Herdr
  adapter, and logs of what the sinks received and of the prompts sent (the last is a ghost: no
  code reads it). The adapter is a record of functions on the world; after each call the rows that
  other processes have meanwhile filed in \<open>structured_replies\<close> are taken into the journal.
  \<open>deliver\<close> is cut at its natural stages, each of which either ends with a result or goes on.
\<close>

record 'w herdr =
  hd_get :: "string \<Rightarrow> 'w \<Rightarrow> 'w \<times> (HerdrTransportError + AgentInfo)"
  hd_prompt :: "string \<Rightarrow> string \<Rightarrow> 'w \<Rightarrow> 'w \<times> (HerdrTransportError + AgentInfo)"
  hd_wait :: "string \<Rightarrow> string list \<Rightarrow> int \<Rightarrow> 'w \<Rightarrow> 'w \<times> (HerdrTransportError + AgentInfo)"
  hd_read :: "string \<Rightarrow> int \<Rightarrow> 'w \<Rightarrow> 'w \<times> (HerdrTransportError + string)"
  hd_filed :: "'w \<Rightarrow> ((string \<times> string) \<times> structured_reply) list"

record bridge_config =
  prompt_effect_timeout_ms :: int
  effect_polls :: nat \<comment> \<open>polls that fit before the deadline of the clock\<close>
  read_lines :: int
  allow_heuristic_capture :: bool
  require_target_lock :: bool
  journal_db :: string
  board_ref :: "message \<Rightarrow> string option" \<comment> \<open>what the board sink answers\<close>

record 'w engine =
  e_journal :: journal
  e_world :: 'w
  e_board :: "(message \<times> delivery) list"
  e_stamps :: "(string \<times> json) list"
  e_prompts :: "(string \<times> string) list"

section \<open>Calls\<close>

definition modJ :: "(journal \<Rightarrow> journal) \<Rightarrow> ('w engine, unit) op" where
  "modJ f = modS (\<lambda>s. s\<lparr>e_journal := f (e_journal s)\<rparr>)"

definition liftJ :: "(journal, 'a) op \<Rightarrow> ('w engine, 'a) op" where
  "liftJ m = (\<lambda>s. case m (e_journal s) of (J, r) \<Rightarrow> (s\<lparr>e_journal := J\<rparr>, r))"

definition stamp :: "string \<Rightarrow> json \<Rightarrow> ('w engine, unit) op" where
  "stamp ty payload = modS (\<lambda>s. s\<lparr>e_stamps := e_stamps s @ [(ty, payload)]\<rparr>)"

definition record_message :: "message \<Rightarrow> delivery \<Rightarrow> ('w engine, unit) op" where
  "record_message m d = modS (\<lambda>s. s\<lparr>e_board := e_board s @ [(m, d)]\<rparr>)"

definition absorb :: "((string \<times> string) \<times> structured_reply) list \<Rightarrow> journal \<Rightarrow> journal" where
  "absorb rows J = fold (\<lambda>(k, r) J. record_structured_reply (fst k) (snd k) (sr_text r)
      (sr_reply_message_id r) J) rows J"

definition call :: "'w herdr \<Rightarrow> ('w \<Rightarrow> 'w \<times> 'a) \<Rightarrow> ('w engine, 'a) op" where
  "call H f = (\<lambda>s. let (w, r) = f (e_world s) in
     (s\<lparr>e_world := w, e_journal := absorb (hd_filed H w) (e_journal s)\<rparr>, Inr r))"

definition call_prompt ::
  "'w herdr \<Rightarrow> string \<Rightarrow> string \<Rightarrow> ('w engine, HerdrTransportError + AgentInfo) op" where
  "call_prompt H target frame =
     thenS (modS (\<lambda>s. s\<lparr>e_prompts := e_prompts s @ [(target, frame)]\<rparr>))
       (call H (hd_prompt H target frame))"

section \<open>Bindings\<close>

definition runtime_epoch_id :: "'w engine \<Rightarrow> string res" where
  "runtime_epoch_id s = (case get_meta (e_journal s) ''runtime_epoch_id'' of
      None \<Rightarrow> Inl AssertionError | Some v \<Rightarrow> Inr v)"

definition engine_init :: "string \<Rightarrow> ('w engine, unit) op" where
  "engine_init fresh_epoch = (\<lambda>s.
     if get_meta (e_journal s) ''runtime_epoch_id'' = None
     then modJ (set_meta ''runtime_epoch_id'' fresh_epoch) s else (s, Inr ()))"

definition rotate_runtime_epoch :: "string \<Rightarrow> ('w engine, string) op" where
  "rotate_runtime_epoch fresh_epoch =
     thenS (modJ (set_meta ''runtime_epoch_id'' fresh_epoch))
    (thenS (modJ (record_event ''runtime_epoch.rotated''
              (JObj [(''runtime_epoch_id'', JStr fresh_epoch)]) None None))
    (retS fresh_epoch))"

text \<open>\<open>s.rsplit("/", 1)[-1]\<close>: what follows the last slash.\<close>

definition after_last_slash :: "string \<Rightarrow> string" where
  "after_last_slash s = rev (takeWhile (\<lambda>c. c \<noteq> CHR ''/'') (rev s))"

definition bind_agent ::
  "'w herdr \<Rightarrow> string \<Rightarrow> string \<Rightarrow> string option \<Rightarrow> string option \<Rightarrow> string \<Rightarrow> string \<Rightarrow> string \<Rightarrow>
   ('w engine, HerdrTransportError + AgentBinding) op" where
  "bind_agent H semantic_agent_id agent_target display_name role herdr_session binding_id now =
     bindS (call H (hd_get H agent_target)) (\<lambda>r. case r of
       Inl e \<Rightarrow> retS (Inl e)
     | Inr live \<Rightarrow>
         bindS (getS (\<lambda>s. get_agent (e_journal s) semantic_agent_id)) (\<lambda>previous.
         bindS (\<lambda>s. (s, runtime_epoch_id s)) (\<lambda>epoch.
         let launch_epoch = (case previous of None \<Rightarrow> 1
               | Some p \<Rightarrow> ab_launch_epoch (ag_runtime_binding p) + 1);
             confidence = (case ai_agent_session live of
                 Some (_ # _) \<Rightarrow> ''native_session'' | _ \<Rightarrow> ''runtime_identity'');
             binding = \<lparr>ab_semantic_agent_id = semantic_agent_id,
               ab_display_name = str_or display_name (after_last_slash semantic_agent_id),
               ab_role = role, ab_binding_id = binding_id, ab_runtime_epoch_id = epoch,
               ab_herdr_session = herdr_session, ab_agent_target = agent_target,
               ab_agent_kind = str_or (ai_agent live) ''unknown'',
               ab_workspace_id = ai_workspace_id live, ab_tab_id = ai_tab_id live,
               ab_pane_id = ai_pane_id live, ab_terminal_id = ai_terminal_id live,
               ab_native_session_ref = ai_agent_session live, ab_launch_epoch = launch_epoch,
               ab_bound_at = now, ab_status = ai_agent_status live,
               ab_state_change_seq = ai_state_change_seq live, ab_revision = ai_revision live,
               ab_binding_confidence = confidence\<rparr>
         in thenS (modJ (upsert_agent binding))
           (thenS (modJ (record_event ''agent.bound'' (AgentBinding_to_dict binding)
                      (Some semantic_agent_id) None))
           (thenS (stamp ''agent.bound'' (AgentBinding_to_dict binding))
           (retS (Inr binding)))))))"

definition native_session_matches :: "AgentBinding \<Rightarrow> AgentInfo \<Rightarrow> bool" where
  "native_session_matches binding live =
     (case (ab_native_session_ref binding, ai_agent_session live) of
        (Some left, Some right) \<Rightarrow>
          left \<noteq> [] \<and> right \<noteq> []
          \<and> map_of left ''agent'' = map_of right ''agent''
          \<and> map_of left ''kind'' = map_of right ''kind''
          \<and> map_of left ''value'' = map_of right ''value''
      | _ \<Rightarrow> False)"

definition refreshed_binding :: "string \<Rightarrow> agent_row \<Rightarrow> AgentInfo \<Rightarrow> string \<Rightarrow> AgentBinding" where
  "refreshed_binding semantic_agent_id row live epoch =
     (let binding = ag_runtime_binding row
      in binding\<lparr>ab_semantic_agent_id := semantic_agent_id,
           ab_display_name := ag_display_name row, ab_role := ag_role row,
           ab_runtime_epoch_id := epoch,
           ab_workspace_id := ai_workspace_id live, ab_tab_id := ai_tab_id live,
           ab_pane_id := ai_pane_id live, ab_terminal_id := ai_terminal_id live,
           ab_agent_kind := str_or (ai_agent live) (ab_agent_kind binding),
           ab_native_session_ref := ai_agent_session live, ab_status := ai_agent_status live,
           ab_state_change_seq := ai_state_change_seq live, ab_revision := ai_revision live\<rparr>)"

definition refresh_binding :: "string \<Rightarrow> agent_row \<Rightarrow> AgentInfo \<Rightarrow> ('w engine, AgentBinding) op" where
  "refresh_binding semantic_agent_id row live =
     (if ai_terminal_id live \<noteq> ab_terminal_id (ag_runtime_binding row)
         \<and> \<not> native_session_matches (ag_runtime_binding row) live
      then raiseS StaleBinding
      else bindS (\<lambda>s. (s, runtime_epoch_id s)) (\<lambda>epoch.
           let refreshed = refreshed_binding semantic_agent_id row live epoch
           in thenS (modJ (upsert_agent refreshed)) (retS refreshed)))"

definition reconcile_agent ::
  "'w herdr \<Rightarrow> string \<Rightarrow> ('w engine, HerdrTransportError + AgentBinding) op" where
  "reconcile_agent H semantic_agent_id =
     bindS (getS (\<lambda>s. get_agent (e_journal s) semantic_agent_id)) (\<lambda>r. case r of
       None \<Rightarrow> raiseS KeyError
     | Some row \<Rightarrow>
         bindS (call H (hd_get H (ab_agent_target (ag_runtime_binding row)))) (\<lambda>l. case l of
           Inl e \<Rightarrow> retS (Inl e)
         | Inr live \<Rightarrow> bindS (refresh_binding semantic_agent_id row live) (\<lambda>b. retS (Inr b))))"

text \<open>The report of \<open>reconcile_all\<close> goes on over every exception: \<open>None\<close> is an agent in error.\<close>

fun reconcile_each :: "'w herdr \<Rightarrow> string list \<Rightarrow> ('w engine, (string \<times> AgentBinding option) list) op" where
  "reconcile_each H [] = retS []"
| "reconcile_each H (a # as) =
     bindS (catchS (bindS (reconcile_agent H a) (\<lambda>r. retS (case r of Inl _ \<Rightarrow> None | Inr b \<Rightarrow> Some b)))
                   (\<lambda>_. retS None)) (\<lambda>b.
     bindS (reconcile_each H as) (\<lambda>rest. retS ((a, b) # rest)))"

definition reconcile_all :: "'w herdr \<Rightarrow> ('w engine, (string \<times> AgentBinding option) list) op" where
  "reconcile_all H = bindS (getS (\<lambda>s. map fst (list_agents (e_journal s)))) (reconcile_each H)"

section \<open>Transitions and results\<close>

definition transition ::
  "string \<Rightarrow> string \<Rightarrow> DeliveryState \<Rightarrow> dict \<Rightarrow> string option \<Rightarrow> CaptureConfidence option \<Rightarrow>
   ('w engine, delivery) op" where
  "transition message_id recipient_id state details reply_text confidence =
     bindS (liftJ (transition_delivery message_id recipient_id state details reply_text confidence)) (\<lambda>record.
     let event_payload = JObj [(''message_id'', JStr message_id), (''recipient_id'', JStr recipient_id),
           (''state'', JStr (state_value state)), (''details'', JObj details)]
     in thenS (modJ (record_event ''delivery.state'' event_payload (Some recipient_id) (Some message_id)))
       (thenS (stamp ''delivery.state'' event_payload)
       (retS record)))"

definition result_from_record :: "delivery \<Rightarrow> DeliveryResult" where
  "result_from_record d = \<lparr>dr_message_id = d_message_id d, dr_recipient_id = d_recipient_id d,
     dr_state = d_state d, dr_reply_text = d_reply_text d,
     dr_capture_confidence = (case d_capture_confidence d of None \<Rightarrow> NONE | Some c \<Rightarrow> c),
     dr_details = d_details d\<rparr>"

text \<open>A last transition whose record is the result.\<close>

definition finish ::
  "string \<Rightarrow> string \<Rightarrow> DeliveryState \<Rightarrow> dict \<Rightarrow> ('w engine, DeliveryResult) op" where
  "finish message_id recipient_id state details =
     bindS (transition message_id recipient_id state details None None) (\<lambda>final.
     retS (result_from_record final))"

definition complete_structured_reply ::
  "message \<Rightarrow> string \<Rightarrow> structured_reply \<Rightarrow> bool \<Rightarrow> ('w engine, DeliveryResult) op" where
  "complete_structured_reply m recipient_id structured runtime_settled =
     bindS (transition (m_message_id m) recipient_id REPLY_CAPTURED
        [(''capture_evidence'', JObj [(''source'', JStr ''structured_reply''),
           (''runtime_settled'', JBool runtime_settled)])]
        (Some (sr_text structured)) (Some STRUCTURED)) (\<lambda>captured.
     bindS (if m_require_semantic_ack m
            then transition (m_message_id m) recipient_id ACKNOWLEDGED
                   [(''semantic_ack'', JBool True)] None None
            else retS captured) (\<lambda>captured.
     thenS (record_message m captured)
     (retS (result_from_record captured))))"

definition loop_reason :: "journal \<Rightarrow> message \<Rightarrow> string \<Rightarrow> string option" where
  "loop_reason J m recipient_id =
     (let routing = m_routing m
      in if rt_max_hops routing \<le> rt_hop_count routing then Some ''max_hops''
         else if rt_max_auto_reply_depth routing \<le> rt_auto_reply_depth routing
           then Some ''max_auto_reply_depth''
         else if route_seen J (m_sender m) recipient_id (m_thread_id m) (rt_payload_hash routing)
           then Some ''duplicate_payload_route''
         else None)"

definition wait_preexisting_work ::
  "'w herdr \<Rightarrow> string \<Rightarrow> string \<Rightarrow> int \<Rightarrow> ('w engine, HerdrTransportError + AgentInfo) op" where
  "wait_preexisting_work H target status timeout_ms =
     (if status \<noteq> ''working'' then call H (hd_get H target)
      else call H (hd_wait H target [''idle'', ''done'', ''blocked''] timeout_ms))"

definition effect_seen :: "AgentInfo \<Rightarrow> AgentInfo \<Rightarrow> bool" where
  "effect_seen before current =
     (ai_state_change_seq before < ai_state_change_seq current
      \<or> ai_agent_status current \<noteq> ai_agent_status before)"

fun poll_effect ::
  "'w herdr \<Rightarrow> string \<Rightarrow> AgentInfo \<Rightarrow> nat \<Rightarrow> ('w engine, HerdrTransportError + AgentInfo option) op" where
  "poll_effect H target before 0 = retS (Inr None)"
| "poll_effect H target before (Suc polls) =
     bindS (call H (hd_get H target)) (\<lambda>r. case r of
       Inl e \<Rightarrow> retS (Inl e)
     | Inr current \<Rightarrow> if effect_seen before current then retS (Inr (Some current))
                      else poll_effect H target before polls)"

definition observe_prompt_effect ::
  "bridge_config \<Rightarrow> 'w herdr \<Rightarrow> string \<Rightarrow> AgentInfo \<Rightarrow> AgentInfo \<Rightarrow>
   ('w engine, HerdrTransportError + AgentInfo option) op" where
  "observe_prompt_effect C H target before prompted =
     (if effect_seen before prompted then retS (Inr (Some prompted))
      else poll_effect H target before (effect_polls C))"

section \<open>The authority gate\<close>

definition initial_evidence :: "target_authority \<Rightarrow> string \<Rightarrow> dict" where
  "initial_evidence authority recipient_id =
     [(''mode'', JStr (ta_mode authority)),
      (''target_lock_id'', opt_json (ta_target_lock_id authority)),
      (''user_requested_visible_title'', opt_json (ta_user_requested_visible_title authority)),
      (''user_requested_semantic_id'', opt_json (ta_user_requested_semantic_id authority)),
      (''user_requested_native_thread_id'', opt_json (ta_user_requested_native_thread_id authority)),
      (''resolved_semantic_id'', JNull),
      (''resolved_native_thread_id'', JNull),
      (''actual_recipient_id'', JStr recipient_id),
      (''allow_proxy'', JBool (ta_allow_proxy authority))]"

definition refuse ::
  "string \<Rightarrow> string \<Rightarrow> dict \<Rightarrow> DeliveryState \<Rightarrow> string \<Rightarrow> ('w engine, DeliveryResult option) op" where
  "refuse message_id recipient_id evidence state reason =
     (let details = [(''reason'', JStr reason), (''side_effect'', JStr ''no_herdr_prompt''),
            (''target_authority'', JObj evidence)]
      in bindS (transition message_id recipient_id state details None None) (\<lambda>record.
         thenS (modJ (record_event ''target_authority.refused''
             (JObj ([(''message_id'', JStr message_id), (''state'', JStr (state_value state))] @ details))
             (Some recipient_id) (Some message_id)))
        (thenS (stamp ''target_authority.refused'' (JObj details))
        (retS (Some (result_from_record record))))))"

definition allow :: "string \<Rightarrow> string \<Rightarrow> dict \<Rightarrow> string \<Rightarrow> ('w engine, DeliveryResult option) op" where
  "allow message_id recipient_id evidence reason =
     (let details = [(''target_authority'', JObj evidence), (''authority_basis'', JStr reason)]
      in thenS (transition message_id recipient_id JOURNALED details None None)
        (thenS (modJ (record_event ''target_authority.passed''
             (JObj ((''message_id'', JStr message_id) # details)) (Some recipient_id) (Some message_id)))
        (retS None)))"

definition lock_evidence :: "dict \<Rightarrow> TargetLock \<Rightarrow> dict" where
  "lock_evidence evidence lock =
     dupdate evidence
       [(''user_requested_visible_title'', JStr (lk_requested_visible_title lock)),
        (''user_requested_semantic_id'', JStr (lk_requested_semantic_agent_id lock)),
        (''user_requested_native_thread_id'', opt_json (lk_requested_native_thread_id lock)),
        (''allow_proxy'', JBool (lk_allow_proxy lock))]"

text \<open>\<open>(binding.get("native_session_ref") or {}).get("value")\<close>.\<close>

definition native_value :: "AgentBinding \<Rightarrow> string option" where
  "native_value binding = (case ab_native_session_ref binding of
      None \<Rightarrow> None | Some d \<Rightarrow> map_of d ''value'')"

text \<open>
  The check of the native thread: \<open>Inl\<close> the reason of a refusal, \<open>Inr True\<close> where a proxy that
  the lock allows stands in for the thread, \<open>Inr False\<close> for the thread itself or none asked for.
\<close>

definition native_target :: "TargetLock \<Rightarrow> string option \<Rightarrow> string + bool" where
  "native_target lock resolved_native =
     (case lk_requested_native_thread_id lock of
        None \<Rightarrow> Inr False
      | Some wanted_native \<Rightarrow>
          if wanted_native = [] then Inr False
          else (case resolved_native of
              None \<Rightarrow> if lk_allow_proxy lock then Inr True else Inl ''native_thread_ref_absent''
            | Some native \<Rightarrow>
                if native = wanted_native then Inr False
                else if lk_allow_proxy lock then Inr True
                else Inl ''native_thread_ref_mismatch''))"

text \<open>
  The row of an agent is stored under the agent's id, so the resolved semantic id is the id that
  was looked up; the code compares them once more.
\<close>

definition preflight_lock ::
  "message \<Rightarrow> string \<Rightarrow> string \<Rightarrow> TargetLock \<Rightarrow> dict \<Rightarrow> ('w engine, DeliveryResult option) op" where
  "preflight_lock m message_id recipient_id lock evidence0 =
     (let evidence = lock_evidence evidence0 lock
      in if recipient_id \<noteq> lk_requested_semantic_agent_id lock
         then refuse message_id recipient_id evidence TARGET_AUTHORITY_MISMATCH
                ''actual_recipient_not_equal_to_lock''
         else bindS (getS (\<lambda>s. get_agent (e_journal s) (lk_requested_semantic_agent_id lock))) (\<lambda>r. case r of
           None \<Rightarrow> refuse message_id recipient_id evidence EXACT_NATIVE_TARGET_NOT_BOUND
                     ''semantic_agent_not_bound''
         | Some record \<Rightarrow>
             (let resolved_native = native_value (ag_runtime_binding record);
                  resolved_semantic = lk_requested_semantic_agent_id lock;
                  evidence = dput (dput evidence ''resolved_semantic_id'' (JStr resolved_semantic))
                               ''resolved_native_thread_id'' (opt_json resolved_native)
              in if resolved_semantic \<noteq> lk_requested_semantic_agent_id lock
                 then refuse message_id recipient_id evidence TARGET_AUTHORITY_MISMATCH
                        ''resolved_semantic_not_equal_to_lock''
                 else (case native_target lock resolved_native of
                     Inl reason \<Rightarrow>
                       refuse message_id recipient_id evidence EXACT_NATIVE_TARGET_NOT_BOUND reason
                   | Inr proxy_used \<Rightarrow>
                       allow message_id recipient_id
                         (if proxy_used then dput evidence ''proxy_used'' (JBool True) else evidence)
                         ''target_lock''))))"

definition preflight_target_authority ::
  "bridge_config \<Rightarrow> message \<Rightarrow> string \<Rightarrow> string \<Rightarrow> ('w engine, DeliveryResult option) op" where
  "preflight_target_authority C m message_id recipient_id =
     (let authority = m_target_authority m;
          evidence = initial_evidence authority recipient_id
      in if ta_mode authority = ''parent_derived''
         then allow message_id recipient_id
                (dput evidence ''resolved_semantic_id'' (JStr recipient_id)) ''parent_derived''
         else if str_or (ta_target_lock_id authority) [] = []
         then (if require_target_lock C
               then refuse message_id recipient_id evidence TARGET_AUTHORITY_MISMATCH
                      ''target_lock_required''
               else allow message_id recipient_id evidence ''target_lock_not_required'')
         else bindS (getS (\<lambda>s. get_target_lock (e_journal s) (str_or (ta_target_lock_id authority) [])))
           (\<lambda>l. case l of
             None \<Rightarrow> refuse message_id recipient_id evidence TARGET_AUTHORITY_MISMATCH
                       ''target_lock_not_found''
           | Some lock \<Rightarrow>
               if is_revoked lock
               then refuse message_id recipient_id evidence TARGET_AUTHORITY_MISMATCH
                      ''target_lock_revoked''
               else preflight_lock m message_id recipient_id lock evidence))"

section \<open>Delivery\<close>

definition agent_details :: "AgentInfo \<Rightarrow> dict" where
  "agent_details a = [(''agent'', AgentInfo_to_dict a)]"

definition transport_details :: "string \<Rightarrow> HerdrTransportError \<Rightarrow> dict" where
  "transport_details reason e =
     [(''reason'', JStr reason), (''error'', JStr (he_error e)), (''code'', opt_json (he_code e))]"

definition SETTLED :: "string set" where
  "SETTLED = {''idle'', ''done'', ''blocked''}"

text \<open>After the turn: read the terminal, choose the reply, acknowledge it where it may count.\<close>

definition deliver_capture ::
  "bridge_config \<Rightarrow> 'w herdr \<Rightarrow> message \<Rightarrow> string \<Rightarrow> string \<Rightarrow> string \<Rightarrow> string \<Rightarrow> string option \<Rightarrow>
   ('w engine, DeliveryResult) op" where
  "deliver_capture C H m message_id recipient_id before_text after_text structured_text =
     (let capture = capture_reply before_text after_text (m_reply_marker m) structured_text;
          require_ack = m_require_semantic_ack m;
          acceptable = (cr_confidence capture \<in> {STRUCTURED, TURN_FENCED}
             \<or> (allow_heuristic_capture C \<and> cr_confidence capture = HEURISTIC))
      in if cr_text capture = None \<or> (require_ack \<and> \<not> acceptable)
         then bindS (transition message_id recipient_id CAPTURE_FAILED
                [(''reason'', JStr ''semantic_ack_not_captured''),
                 (''capture_evidence'', JObj (cr_evidence capture))]
                (cr_text capture) (Some (cr_confidence capture))) (\<lambda>final.
              retS (result_from_record final))
         else bindS (transition message_id recipient_id REPLY_CAPTURED
                [(''capture_evidence'', JObj (cr_evidence capture))]
                (cr_text capture) (Some (cr_confidence capture))) (\<lambda>captured.
              bindS (if require_ack
                     then transition message_id recipient_id ACKNOWLEDGED
                            [(''semantic_ack'', JBool True)] None None
                     else retS captured) (\<lambda>captured.
              thenS (record_message m captured)
              (retS (result_from_record captured)))))"

definition deliver_settled ::
  "bridge_config \<Rightarrow> 'w herdr \<Rightarrow> message \<Rightarrow> string \<Rightarrow> string \<Rightarrow> string \<Rightarrow> string \<Rightarrow> AgentInfo \<Rightarrow>
   ('w engine, DeliveryResult) op" where
  "deliver_settled C H m message_id recipient_id target before_text settled =
     (if ai_agent_status settled = ''blocked''
      then finish message_id recipient_id BLOCKED
             ((''reason'', JStr ''agent_blocked_during_turn'') # agent_details settled)
      else thenS (transition message_id recipient_id RUNTIME_SETTLED (agent_details settled) None None)
          (bindS (getS (\<lambda>s. get_structured_reply (e_journal s) message_id recipient_id)) (\<lambda>structured.
           let structured_text = map_option sr_text structured
           in bindS (call H (hd_read H target (read_lines C))) (\<lambda>r. case r of
                Inl e \<Rightarrow>
                  if structured_text = None
                  then finish message_id recipient_id CAPTURE_FAILED
                         (transport_details ''terminal_read_failed'' e)
                  else deliver_capture C H m message_id recipient_id before_text [] structured_text
              | Inr after_text \<Rightarrow>
                  deliver_capture C H m message_id recipient_id before_text after_text structured_text))))"

definition deliver_wait ::
  "bridge_config \<Rightarrow> 'w herdr \<Rightarrow> message \<Rightarrow> string \<Rightarrow> string \<Rightarrow> string \<Rightarrow> string \<Rightarrow> AgentInfo \<Rightarrow>
   ('w engine, DeliveryResult) op" where
  "deliver_wait C H m message_id recipient_id target before_text observed =
     (if ai_agent_status observed \<in> SETTLED
      then deliver_settled C H m message_id recipient_id target before_text observed
      else bindS (call H (hd_wait H target (m_wait_until m) (m_timeout_ms m))) (\<lambda>r. case r of
          Inr settled \<Rightarrow> deliver_settled C H m message_id recipient_id target before_text settled
        | Inl e \<Rightarrow>
            bindS (getS (\<lambda>s. get_structured_reply (e_journal s) message_id recipient_id)) (\<lambda>structured.
            case structured of
              Some reply \<Rightarrow> complete_structured_reply m recipient_id reply False
            | None \<Rightarrow>
                finish message_id recipient_id
                  (if he_ambiguous e \<or> he_code e = Some ''timeout'' then UNCERTAIN else FAILED)
                  (transport_details ''settled_wait_failed'' e))))"

definition deliver_observed ::
  "bridge_config \<Rightarrow> 'w herdr \<Rightarrow> message \<Rightarrow> string \<Rightarrow> string \<Rightarrow> string \<Rightarrow> string \<Rightarrow> AgentInfo \<Rightarrow>
   ('w engine, DeliveryResult) op" where
  "deliver_observed C H m message_id recipient_id target before_text observed =
     thenS (transition message_id recipient_id ACTIVITY_OBSERVED (agent_details observed) None None)
     (if ai_agent_status observed = ''blocked''
      then finish message_id recipient_id BLOCKED [(''reason'', JStr ''agent_blocked_after_prompt'')]
      else bindS (getS (\<lambda>s. get_structured_reply (e_journal s) message_id recipient_id)) (\<lambda>structured.
           case structured of
             Some reply \<Rightarrow>
               complete_structured_reply m recipient_id reply (ai_agent_status observed \<in> SETTLED)
           | None \<Rightarrow> deliver_wait C H m message_id recipient_id target before_text observed))"

definition deliver_prompted ::
  "bridge_config \<Rightarrow> 'w herdr \<Rightarrow> message \<Rightarrow> string \<Rightarrow> string \<Rightarrow> string \<Rightarrow> string \<Rightarrow> AgentInfo \<Rightarrow> AgentInfo \<Rightarrow>
   ('w engine, DeliveryResult) op" where
  "deliver_prompted C H m message_id recipient_id target before_text pre_prompt prompted =
     thenS (transition message_id recipient_id PROMPT_SUBMITTED (agent_details prompted) None None)
    (thenS (modJ (record_route (m_sender m) recipient_id (m_thread_id m)
              (rt_payload_hash (m_routing m)) message_id))
    (bindS (observe_prompt_effect C H target pre_prompt prompted) (\<lambda>r. case r of
        Inl e \<Rightarrow> finish message_id recipient_id UNCERTAIN
                  (transport_details ''effect_observation_transport_error'' e)
      | Inr None \<Rightarrow> finish message_id recipient_id UNCERTAIN
                  [(''reason'', JStr ''prompt_effect_not_observed''),
                   (''effect_timeout_ms'', JInt (prompt_effect_timeout_ms C))]
      | Inr (Some observed) \<Rightarrow>
          deliver_observed C H m message_id recipient_id target before_text observed)))"

text \<open>What the answer to the prompt leads to.\<close>

definition deliver_answered ::
  "bridge_config \<Rightarrow> 'w herdr \<Rightarrow> message \<Rightarrow> string \<Rightarrow> string \<Rightarrow> string \<Rightarrow> AgentInfo \<Rightarrow> string \<Rightarrow>
   HerdrTransportError + AgentInfo \<Rightarrow> ('w engine, DeliveryResult) op" where
  "deliver_answered C H m message_id recipient_id target live before_text answer = (case answer of
      Inl e \<Rightarrow>
        if he_code e = Some ''agent_blocked''
        then finish message_id recipient_id BLOCKED
               [(''reason'', JStr ''agent_blocked_during_submit''), (''error'', JStr (he_error e))]
        else if he_ambiguous e
        then finish message_id recipient_id UNCERTAIN (transport_details ''submission_ambiguous'' e)
        else finish message_id recipient_id FAILED (transport_details ''prompt_rejected'' e)
    | Inr prompted \<Rightarrow>
        deliver_prompted C H m message_id recipient_id target before_text live prompted)"

definition deliver_send ::
  "bridge_config \<Rightarrow> 'w herdr \<Rightarrow> message \<Rightarrow> string \<Rightarrow> string \<Rightarrow> string \<Rightarrow> AgentInfo \<Rightarrow>
   ('w engine, DeliveryResult) op" where
  "deliver_send C H m message_id recipient_id target live =
     bindS (call H (hd_read H target (read_lines C))) (\<lambda>rd.
     bindS (call_prompt H target (build_prompt_frame m recipient_id (Some (journal_db C))))
       (deliver_answered C H m message_id recipient_id target live
          (case rd of Inl _ \<Rightarrow> [] | Inr t \<Rightarrow> t)))"

definition deliver_submit ::
  "bridge_config \<Rightarrow> 'w herdr \<Rightarrow> message \<Rightarrow> string \<Rightarrow> string \<Rightarrow> string \<Rightarrow> AgentBinding \<Rightarrow> AgentInfo \<Rightarrow>
   ('w engine, DeliveryResult) op" where
  "deliver_submit C H m message_id recipient_id target binding live =
     thenS (transition message_id recipient_id READY [(''binding'', AgentBinding_to_dict binding)] None None)
    (bindS (getS (\<lambda>s. loop_reason (e_journal s) m recipient_id)) (\<lambda>reason. case reason of
       Some r \<Rightarrow> finish message_id recipient_id SUPPRESSED [(''reason'', JStr r)]
     | None \<Rightarrow> deliver_send C H m message_id recipient_id target live))"

text \<open>\<open>strict_turn\<close>: wait for earlier work, and refuse a target that is blocked or unknown.\<close>

definition deliver_strict ::
  "bridge_config \<Rightarrow> 'w herdr \<Rightarrow> message \<Rightarrow> string \<Rightarrow> string \<Rightarrow> string \<Rightarrow> AgentBinding \<Rightarrow> AgentInfo \<Rightarrow>
   ('w engine, DeliveryResult) op" where
  "deliver_strict C H m message_id recipient_id target binding live =
     (if ai_agent_status live = ''blocked''
      then thenS (transition message_id recipient_id READY
                    [(''binding'', AgentBinding_to_dict binding)] None None)
             (finish message_id recipient_id BLOCKED
                [(''reason'', JStr ''target_requires_interactive_input'')])
      else if ai_agent_status live = ''unknown''
      then finish message_id recipient_id TARGET_UNAVAILABLE
             [(''reason'', JStr ''target_status_unknown_strict_turn'')]
      else deliver_submit C H m message_id recipient_id target binding live)"

definition deliver_turn ::
  "bridge_config \<Rightarrow> 'w herdr \<Rightarrow> message \<Rightarrow> string \<Rightarrow> string \<Rightarrow> string \<Rightarrow> AgentBinding \<Rightarrow> AgentInfo \<Rightarrow>
   ('w engine, DeliveryResult) op" where
  "deliver_turn C H m message_id recipient_id target binding live =
     (if \<not> m_strict_turn m then deliver_submit C H m message_id recipient_id target binding live
      else if ai_agent_status live = ''working''
      then bindS (wait_preexisting_work H target (ai_agent_status live) (m_timeout_ms m)) (\<lambda>r. case r of
             Inl e \<Rightarrow> finish message_id recipient_id TARGET_UNAVAILABLE
                        (transport_details ''preexisting_work_did_not_settle'' e)
           | Inr live' \<Rightarrow> deliver_strict C H m message_id recipient_id target binding live')
      else deliver_strict C H m message_id recipient_id target binding live)"

definition stale_message :: "string \<Rightarrow> AgentBinding \<Rightarrow> string" where
  "stale_message semantic_agent_id binding =
     ''semantic identity '' @ semantic_agent_id @ '' no longer matches Herdr target ''
       @ ab_agent_target binding"

definition deliver_resolve ::
  "bridge_config \<Rightarrow> 'w herdr \<Rightarrow> message \<Rightarrow> string \<Rightarrow> string \<Rightarrow> ('w engine, DeliveryResult) op" where
  "deliver_resolve C H m message_id recipient_id =
     thenS (transition message_id recipient_id RESOLVING_TARGET [] None None)
    (bindS (getS (\<lambda>s. get_agent (e_journal s) recipient_id)) (\<lambda>r. case r of
       None \<Rightarrow> finish message_id recipient_id TARGET_UNAVAILABLE
                 [(''reason'', JStr ''semantic_agent_not_bound'')]
     | Some record \<Rightarrow>
         let target = ab_agent_target (ag_runtime_binding record)
         in bindS (call H (hd_get H target)) (\<lambda>l. case l of
              Inl e \<Rightarrow> finish message_id recipient_id TARGET_UNAVAILABLE
                        [(''reason'', JStr ''HerdrTransportError''), (''error'', JStr (he_error e))]
            | Inr live \<Rightarrow>
                bindS (catchS (bindS (refresh_binding recipient_id record live) (\<lambda>b. retS (Some b)))
                        (\<lambda>x. if x = StaleBinding then retS None else raiseS x)) (\<lambda>b. case b of
                  None \<Rightarrow> finish message_id recipient_id TARGET_UNAVAILABLE
                    [(''reason'', JStr ''StaleBindingError''),
                     (''error'', JStr (stale_message recipient_id (ag_runtime_binding record)))]
                | Some binding \<Rightarrow>
                    deliver_turn C H m message_id recipient_id target binding live))))"

definition deliver_projected ::
  "bridge_config \<Rightarrow> 'w herdr \<Rightarrow> message \<Rightarrow> string \<Rightarrow> string \<Rightarrow> delivery \<Rightarrow> ('w engine, DeliveryResult) op" where
  "deliver_projected C H m message_id recipient_id existing =
     (let projection = m_projection m
      in thenS (if projection \<in> {''board_only'', ''board_and_prompt''}
                then thenS (record_message m existing)
                       (case board_ref C m of
                          None \<Rightarrow> retS ()
                        | Some ref \<Rightarrow> if ref = [] then retS ()
                            else stamp ''board.recorded''
                              (JObj [(''message_id'', JStr message_id), (''board_ref'', JStr ref)]))
                else retS ())
        (if projection = ''board_only''
         then thenS (transition message_id recipient_id RESOLVING_TARGET
                       [(''projection'', JStr projection)] None None)
             (thenS (transition message_id recipient_id READY [] None None)
             (finish message_id recipient_id SUPPRESSED
                [(''reason'', JStr ''board_only_projection''), (''side_effect'', JStr ''no_herdr_prompt'')]))
         else deliver_resolve C H m message_id recipient_id))"

definition deliver :: "bridge_config \<Rightarrow> 'w herdr \<Rightarrow> message \<Rightarrow> ('w engine, DeliveryResult) op" where
  "deliver C H m =
     (let recipient_id = m_recipient m
      in bindS (liftJ (journal_message m)) (\<lambda>message_id.
         thenS (modJ (ensure_delivery message_id recipient_id))
        (bindS (getS (\<lambda>s. get_delivery (e_journal s) message_id recipient_id)) (\<lambda>ex. case ex of
           None \<Rightarrow> raiseS AssertionError
         | Some existing \<Rightarrow>
             if d_state existing \<noteq> JOURNALED then retS (result_from_record existing)
             else bindS (preflight_target_authority C m message_id recipient_id) (\<lambda>refused. case refused of
                 Some result \<Rightarrow> retS result
               | None \<Rightarrow> deliver_projected C H m message_id recipient_id existing)))))"

end
