(* ===== verification/Bridge_Delivery.thy ===== *)
theory Bridge_Delivery
  imports Bridge_Core
begin

text \<open>
  What \<open>deliver\<close> guarantees. \<open>holds\<close> says that the engine is sound and the journal holds a given
  row for the delivery; each stage of \<open>deliver\<close> is shown to keep it, to make only allowed
  transitions and to end with the row as its result. The properties follow: no exception but a
  key conflict, at most one prompt, no side effect without authority, and what an
  acknowledgement rests on.
\<close>

section \<open>Sound engines and frames\<close>

definition engine_ok :: "'w engine \<Rightarrow> bool" where
  "engine_ok s \<longleftrightarrow> journal_inv (e_journal s) \<and> get_meta (e_journal s) ''runtime_epoch_id'' \<noteq> None"

definition holds :: "string \<Rightarrow> string \<Rightarrow> delivery \<Rightarrow> 'w engine \<Rightarrow> bool" where
  "holds mid rid d s \<longleftrightarrow> engine_ok s \<and> get_delivery (e_journal s) mid rid = Some d"

text \<open>
  \<open>called\<close>: nothing changed but the world, the stamps, the deliveries, the events, the routes, the
  bindings and the structured replies; \<open>quiet\<close>: nor did the world, the board or the bindings.
\<close>

definition called :: "'w engine \<Rightarrow> 'w engine \<Rightarrow> bool" where
  "called s s' \<longleftrightarrow> e_prompts s' = e_prompts s
     \<and> target_locks (e_journal s') = target_locks (e_journal s)
     \<and> messages (e_journal s') = messages (e_journal s) \<and> meta (e_journal s') = meta (e_journal s)"

definition quiet :: "'w engine \<Rightarrow> 'w engine \<Rightarrow> bool" where
  "quiet s s' \<longleftrightarrow> called s s' \<and> e_world s' = e_world s \<and> e_board s' = e_board s
     \<and> agents (e_journal s') = agents (e_journal s)
     \<and> structured_replies (e_journal s') = structured_replies (e_journal s)
     \<and> route_fingerprints (e_journal s') = route_fingerprints (e_journal s)"

lemma called_refl [simp]: "called s s"
  and called_trans: "called s s' \<Longrightarrow> called s' s'' \<Longrightarrow> called s s''"
  and called_prompts: "called s s' \<Longrightarrow> e_prompts s' = e_prompts s"
  by (simp_all add: called_def)

lemma quiet_refl [simp]: "quiet s s"
  and quiet_called: "quiet s s' \<Longrightarrow> called s s'"
  and quiet_trans: "quiet s s' \<Longrightarrow> quiet s' s'' \<Longrightarrow> quiet s s''"
  by (simp_all add: quiet_def called_def)

lemma wp_liftJ [wp_rules]:
  "wp (liftJ m) Q E s = wp m (\<lambda>a J. Q a (s\<lparr>e_journal := J\<rparr>)) (\<lambda>e J. E e (s\<lparr>e_journal := J\<rparr>)) (e_journal s)"
  by (simp add: wp_def liftJ_def split: prod.splits sum.splits)

lemma wp_modJ [wp_rules]: "wp (modJ f) Q E s = Q () (s\<lparr>e_journal := f (e_journal s)\<rparr>)"
  and wp_stamp [wp_rules]: "wp (stamp ty p) Q E s = Q () (s\<lparr>e_stamps := e_stamps s @ [(ty, p)]\<rparr>)"
  and wp_record_message [wp_rules]:
    "wp (record_message m d) Q E s = Q () (s\<lparr>e_board := e_board s @ [(m, d)]\<rparr>)"
  by (simp_all add: modJ_def stamp_def record_message_def wp_rules)

lemma wp_call: "wp (call H f) Q E s = Q (snd (f (e_world s)))
    (s\<lparr>e_world := fst (f (e_world s)),
       e_journal := absorb (hd_filed H (fst (f (e_world s)))) (e_journal s)\<rparr>)"
  by (simp add: wp_def call_def split: prod.splits)

lemma journal_eq_frame:
  assumes "J' = J\<lparr>structured_replies := r\<rparr>"
  shows "journal_inv J' = journal_inv J \<and> get_delivery J' = get_delivery J"
  using assms by (simp add: journal_inv_def get_delivery_def fun_eq_iff)

lemma absorb_frame: "\<exists>r. absorb rows J = J\<lparr>structured_replies := r\<rparr>"
proof (induction rows arbitrary: J)
  case Nil
  show ?case by (rule exI[of _ "structured_replies J"]) (simp add: absorb_def)
next
  case (Cons x rows)
  obtain k r where x: "x = (k, r)" by (cases x)
  let ?J = "record_structured_reply (fst k) (snd k) (sr_text r) (sr_reply_message_id r) J"
  have "absorb (x # rows) J = absorb rows ?J" by (simp add: absorb_def x)
  moreover obtain r' where "absorb rows ?J = ?J\<lparr>structured_replies := r'\<rparr>" using Cons.IH by blast
  ultimately show ?case by (auto simp: record_structured_reply_def)
qed

lemma holds_call:
  assumes "holds mid rid d s"
  shows "holds mid rid d (s\<lparr>e_world := w, e_journal := absorb rows (e_journal s)\<rparr>)"
    and "called s (s\<lparr>e_world := w, e_journal := absorb rows (e_journal s)\<rparr>)"
proof -
  obtain r where r: "absorb rows (e_journal s) = (e_journal s)\<lparr>structured_replies := r\<rparr>"
    using absorb_frame by blast
  with journal_eq_frame[OF r] assms
  show "holds mid rid d (s\<lparr>e_world := w, e_journal := absorb rows (e_journal s)\<rparr>)"
    and "called s (s\<lparr>e_world := w, e_journal := absorb rows (e_journal s)\<rparr>)"
    by (simp_all add: holds_def engine_ok_def get_meta_def called_def)
qed

lemma wp_callI:
  assumes "holds mid rid d s" and "\<And>x s'. holds mid rid d s' \<Longrightarrow> called s s' \<Longrightarrow> Q x s'"
  shows "wp (call H f) Q E s"
  using assms holds_call[OF assms(1)] by (simp add: wp_call)

lemma wp_transitionI:
  assumes h: "holds mid rid d s" and st: "delivery_step (d_state d) t"
    and Q: "\<And>s'. holds mid rid (updated_delivery d t de r c) s' \<Longrightarrow> quiet s s' \<Longrightarrow>
              Q (updated_delivery d t de r c) s'"
  shows "wp (transition mid rid t de r c) Q E s"
proof -
  have "holds mid rid (updated_delivery d t de r c)
      (s\<lparr>e_journal := record_event ''delivery.state'' p (Some rid) (Some mid)
           ((e_journal s)\<lparr>deliveries := (deliveries (e_journal s))((mid, rid) \<mapsto> updated_delivery d t de r c)\<rparr>),
         e_stamps := e_stamps s @ [(''delivery.state'', p)]\<rparr>)" for p
    using h st by (simp add: holds_def engine_ok_def journal_inv_transition)
      (simp add: get_meta_def record_event_def get_delivery_def)
  moreover have "quiet s (s\<lparr>e_journal := record_event ''delivery.state'' p (Some rid) (Some mid)
           ((e_journal s)\<lparr>deliveries := X\<rparr>), e_stamps := Y\<rparr>)" for p X Y
    by (simp add: quiet_def called_def record_event_def)
  ultimately show ?thesis
    using h st by (auto simp: transition_def wp_rules holds_def Let_def intro!: Q)
qed

lemma holds_quiet_mods:
  "holds mid rid d (s\<lparr>e_stamps := x\<rparr>) = holds mid rid d s"
  "holds mid rid d (s\<lparr>e_board := b\<rparr>) = holds mid rid d s"
  "holds mid rid d (s\<lparr>e_prompts := p\<rparr>) = holds mid rid d s"
  "holds mid rid d (s\<lparr>e_journal := record_event ty pl a i J\<rparr>) = holds mid rid d (s\<lparr>e_journal := J\<rparr>)"
  "holds mid rid d (s\<lparr>e_journal := record_route aa rr tt ph ii J\<rparr>) = holds mid rid d (s\<lparr>e_journal := J\<rparr>)"
  "holds mid rid d (s\<lparr>e_journal := upsert_agent bb J\<rparr>) = holds mid rid d (s\<lparr>e_journal := J\<rparr>)"
  by (simp_all add: holds_def engine_ok_def get_meta_def)
    (simp_all add: record_event_def record_route_def upsert_agent_def)

lemma called_mods [simp]:
  "called s (s\<lparr>e_board := b\<rparr>)" "called s (s\<lparr>e_stamps := x\<rparr>)"
  "called s (s\<lparr>e_journal := record_route aa rr tt ph ii (e_journal s)\<rparr>)"
  "called s (s\<lparr>e_journal := upsert_agent bb (e_journal s)\<rparr>)"
  "called s (s\<lparr>e_journal := record_event ty pl a i (e_journal s)\<rparr>)"
  by (simp_all add: called_def record_route_def upsert_agent_def record_event_def)

lemmas holds_same = holds_quiet_mods(4)[where J = "e_journal s" and s = s for s, simplified]
  holds_quiet_mods(5)[where J = "e_journal s" and s = s for s, simplified]
  holds_quiet_mods(6)[where J = "e_journal s" and s = s for s, simplified]

section \<open>The stages of a delivery\<close>

text \<open>What an acknowledged row must show.\<close>

definition ack_ok :: "bridge_config \<Rightarrow> message \<Rightarrow> delivery \<Rightarrow> bool" where
  "ack_ok C m d \<longleftrightarrow> (d_state d = ACKNOWLEDGED \<longrightarrow> m_require_semantic_ack m \<and> d_reply_text d \<noteq> None
     \<and> (d_capture_confidence d \<in> {Some STRUCTURED, Some TURN_FENCED}
        \<or> (allow_heuristic_capture C \<and> d_capture_confidence d = Some HEURISTIC)))"

definition delivered ::
  "bridge_config \<Rightarrow> message \<Rightarrow> string \<Rightarrow> DeliveryResult \<Rightarrow> 'w engine \<Rightarrow> bool" where
  "delivered C m rid r s' \<longleftrightarrow> (\<exists>d. holds (m_message_id m) rid d s' \<and> r = result_from_record d
     \<and> d_state d \<noteq> JOURNALED \<and> ack_ok C m d)"

lemma deliveredI:
  "holds (m_message_id m) rid d s' \<Longrightarrow> d_state d \<noteq> JOURNALED \<Longrightarrow> ack_ok C m d \<Longrightarrow>
   delivered C m rid (result_from_record d) s'"
  by (auto simp: delivered_def)

text \<open>The goal of every stage: it ends with the row it holds, and sends no prompt.\<close>

definition ends ::
  "bridge_config \<Rightarrow> message \<Rightarrow> string \<Rightarrow> 'w engine \<Rightarrow> ('w engine, DeliveryResult) op \<Rightarrow> 'w engine \<Rightarrow> bool" where
  "ends C m rid s0 k s = wp k (\<lambda>r s'. delivered C m rid r s' \<and> called s0 s') (\<lambda>_ _. False) s"

lemma move_fresh: "t \<in> ALLOWED_TRANSITIONS s \<Longrightarrow> t \<noteq> JOURNALED"
  by (cases s) auto

lemma ends_finish:
  assumes "holds (m_message_id m) rid d s" and "called s0 s"
    and "t \<in> ALLOWED_TRANSITIONS (d_state d)" and "t \<noteq> ACKNOWLEDGED"
  shows "ends C m rid s0 (finish (m_message_id m) rid t de) s"
  unfolding finish_def ends_def wp_rules
  by (rule wp_transitionI[OF assms(1) move[OF assms(3)]])
    (use move_fresh[OF assms(3)] in \<open>auto simp: ack_ok_def assms(4) intro!: deliveredI called_trans[OF assms(2)] dest: quiet_called\<close>)

lemma ends_call:
  assumes "holds mid rid d s" and "called s0 s"
    and "\<And>x s'. holds mid rid d s' \<Longrightarrow> called s0 s' \<Longrightarrow> ends C m rd s0 (f x) s'"
  shows "ends C m rd s0 (bindS (call H g) f) s"
  unfolding ends_def wp_rules
  by (rule wp_callI[OF assms(1)], rule assms(3)[unfolded ends_def])
    (assumption, erule called_trans[OF assms(2)])

lemma ends_transition:
  assumes "holds mid rid d s" and "called s0 s" and "delivery_step (d_state d) t"
    and "\<And>s'. holds mid rid (updated_delivery d t de r c) s' \<Longrightarrow> called s0 s' \<Longrightarrow>
           ends C m rd s0 (f (updated_delivery d t de r c)) s'"
  shows "ends C m rd s0 (bindS (transition mid rid t de r c) f) s"
  unfolding ends_def wp_rules
  by (rule wp_transitionI[OF assms(1,3)], rule assms(4)[unfolded ends_def])
    (assumption, rule called_trans[OF assms(2)], erule quiet_called)

lemma ends_thenTransition:
  assumes "holds mid rid d s" and "called s0 s" and "delivery_step (d_state d) t"
    and "\<And>s'. holds mid rid (updated_delivery d t de r c) s' \<Longrightarrow> called s0 s' \<Longrightarrow> ends C m rd s0 k s'"
  shows "ends C m rd s0 (thenS (transition mid rid t de r c) k) s"
  unfolding thenS_def by (rule ends_transition[OF assms(1,2,3)]) (rule assms(4))

lemma ends_get [simp]: "ends C m rid s0 (bindS (getS g) f) s = ends C m rid s0 (f (g s)) s"
  by (simp add: ends_def wp_rules)

text \<open>The last steps of a captured reply, structured or read from the terminal.\<close>

lemma ends_captured:
  assumes h: "holds (m_message_id m) rid d s" and c: "called s0 s"
    and rc: "REPLY_CAPTURED \<in> ALLOWED_TRANSITIONS (d_state d)" and tx: "txt \<noteq> None"
    and ok: "m_require_semantic_ack m \<Longrightarrow> conf \<in> {STRUCTURED, TURN_FENCED}
               \<or> (allow_heuristic_capture C \<and> conf = HEURISTIC)"
  shows "ends C m rid s0 (bindS (transition (m_message_id m) rid REPLY_CAPTURED de txt (Some conf)) (\<lambda>captured.
     bindS (if m_require_semantic_ack m
            then transition (m_message_id m) rid ACKNOWLEDGED de' None None
            else retS captured) (\<lambda>captured.
     thenS (record_message m captured) (retS (result_from_record captured))))) s"
proof (rule ends_transition[OF h c move[OF rc]])
  let ?d = "updated_delivery d REPLY_CAPTURED de txt (Some conf)"
  fix s' assume h': "holds (m_message_id m) rid ?d s'" and c': "called s0 s'"
  have last: "ends C m rid s0 (thenS (record_message m x) (retS (result_from_record x))) t"
    if "holds (m_message_id m) rid x t" and "called s0 t" and "d_state x \<noteq> JOURNALED" and "ack_ok C m x" for x t
    using that by (auto simp: ends_def wp_rules holds_quiet_mods intro!: deliveredI intro: called_trans)
  show "ends C m rid s0 (bindS (if m_require_semantic_ack m
            then transition (m_message_id m) rid ACKNOWLEDGED de' None None
            else retS ?d) (\<lambda>captured.
     thenS (record_message m captured) (retS (result_from_record captured)))) s'"
  proof (cases "m_require_semantic_ack m")
    case True
    have "ack_ok C m (updated_delivery ?d ACKNOWLEDGED de' None None)"
      using True tx ok by (auto simp: ack_ok_def coalesce_def)
    then show ?thesis
      using True by (auto simp: move intro!: ends_transition[OF h' c'] last)
  next
    case False
    then show ?thesis
      using last[OF h' c'] by (simp add: ends_def wp_rules ack_ok_def)
  qed
qed

lemma ends_structured:
  assumes "holds (m_message_id m) rid d s" and "called s0 s"
    and "REPLY_CAPTURED \<in> ALLOWED_TRANSITIONS (d_state d)"
  shows "ends C m rid s0 (complete_structured_reply m rid reply b) s"
  unfolding complete_structured_reply_def
  by (rule ends_captured[OF assms]) simp_all

lemma ends_capture:
  assumes h: "holds (m_message_id m) rid d s" and c: "called s0 s" and st: "d_state d = RUNTIME_SETTLED"
  shows "ends C m rid s0 (deliver_capture C H m (m_message_id m) rid bt at stx) s"
proof -
  let ?c = "capture_reply bt at (m_reply_marker m) stx"
  let ?ok = "cr_confidence ?c \<in> {STRUCTURED, TURN_FENCED}
     \<or> (allow_heuristic_capture C \<and> cr_confidence ?c = HEURISTIC)"
  show ?thesis
  proof (cases "cr_text ?c = None \<or> (m_require_semantic_ack m \<and> \<not> ?ok)")
    case True
    have "ends C m rid s0 (bindS (transition (m_message_id m) rid CAPTURE_FAILED de (cr_text ?c)
        (Some (cr_confidence ?c))) (\<lambda>final. retS (result_from_record final))) s" for de
      by (rule ends_transition[OF h c])
        (auto simp: st move ends_def wp_rules ack_ok_def intro!: deliveredI)
    then show ?thesis using True by (simp only: deliver_capture_def Let_def simp_thms if_True)
  next
    case False
    then show ?thesis
      unfolding deliver_capture_def Let_def if_not_P[OF False]
      by (intro ends_captured[OF h c]) (auto simp: st)
  qed
qed

lemma ends_settled:
  assumes h: "holds (m_message_id m) rid d s" and c: "called s0 s" and st: "d_state d = ACTIVITY_OBSERVED"
  shows "ends C m rid s0 (deliver_settled C H m (m_message_id m) rid target bt settled) s"
proof (cases "ai_agent_status settled = ''blocked''")
  case True
  then show ?thesis by (simp add: deliver_settled_def ends_finish[OF h c] st)
next
  case False
  show ?thesis
    unfolding deliver_settled_def if_not_P[OF False]
  proof (rule ends_thenTransition[OF h c], simp add: st move, unfold ends_get Let_def,
      rule ends_call, assumption, assumption)
    fix s1 s2 :: "'a engine" and x :: "HerdrTransportError + string"
    let ?d = "updated_delivery d RUNTIME_SETTLED (agent_details settled) None None"
    assume h2: "holds (m_message_id m) rid ?d s2" and c2: "called s0 s2"
    have cap: "ends C m rid s0 (deliver_capture C H m (m_message_id m) rid bt at stx) s2" for at stx
      by (rule ends_capture[OF h2 c2]) simp
    have fin: "ends C m rid s0 (finish (m_message_id m) rid CAPTURE_FAILED de) s2" for de
      by (rule ends_finish[OF h2 c2]) simp_all
    show "ends C m rid s0 (case x of
        Inl e \<Rightarrow> if map_option sr_text (get_structured_reply (e_journal s1) (m_message_id m) rid) = None
          then finish (m_message_id m) rid CAPTURE_FAILED (transport_details ''terminal_read_failed'' e)
          else deliver_capture C H m (m_message_id m) rid bt []
                 (map_option sr_text (get_structured_reply (e_journal s1) (m_message_id m) rid))
      | Inr after_text \<Rightarrow> deliver_capture C H m (m_message_id m) rid bt after_text
                 (map_option sr_text (get_structured_reply (e_journal s1) (m_message_id m) rid))) s2"
      by (simp add: cap fin split: sum.split)
  qed
qed

lemma ends_wait:
  assumes h: "holds (m_message_id m) rid d s" and c: "called s0 s" and st: "d_state d = ACTIVITY_OBSERVED"
  shows "ends C m rid s0 (deliver_wait C H m (m_message_id m) rid target bt observed) s"
proof (cases "ai_agent_status observed \<in> SETTLED")
  case True
  then show ?thesis by (simp add: deliver_wait_def ends_settled[OF h c st])
next
  case False
  show ?thesis
    unfolding deliver_wait_def if_not_P[OF False]
    by (rule ends_call[OF h c])
      (auto split: sum.split option.split simp: st
        intro: ends_settled ends_structured ends_finish)
qed

lemma ends_observed:
  assumes h: "holds (m_message_id m) rid d s" and c: "called s0 s" and st: "d_state d = PROMPT_SUBMITTED"
  shows "ends C m rid s0 (deliver_observed C H m (m_message_id m) rid target bt observed) s"
  unfolding deliver_observed_def
proof (rule ends_thenTransition[OF h c], simp add: st move)
  fix s1 let ?d = "updated_delivery d ACTIVITY_OBSERVED (agent_details observed) None None"
  assume h1: "holds (m_message_id m) rid ?d s1" and c1: "called s0 s1"
  have a: "ends C m rid s0 (deliver_wait C H m (m_message_id m) rid target bt observed) s1"
    by (rule ends_wait[OF h1 c1]) simp
  have b: "ends C m rid s0 (complete_structured_reply m rid reply z) s1" for reply z
    by (rule ends_structured[OF h1 c1]) simp
  have f: "ends C m rid s0 (finish (m_message_id m) rid BLOCKED de) s1" for de
    by (rule ends_finish[OF h1 c1]) simp_all
  show "ends C m rid s0 (if ai_agent_status observed = ''blocked''
      then finish (m_message_id m) rid BLOCKED [(''reason'', JStr ''agent_blocked_after_prompt'')]
      else bindS (getS (\<lambda>s. get_structured_reply (e_journal s) (m_message_id m) rid)) (\<lambda>structured.
           case structured of
             Some reply \<Rightarrow> complete_structured_reply m rid reply (ai_agent_status observed \<in> SETTLED)
           | None \<Rightarrow> deliver_wait C H m (m_message_id m) rid target bt observed)) s1"
    by (simp add: a b f split: option.split)
qed

lemma ends_poll:
  assumes "holds mid rid d s" and "called s0 s"
    and "\<And>x s'. holds mid rid d s' \<Longrightarrow> called s0 s' \<Longrightarrow> ends C m rd s0 (f x) s'"
  shows "ends C m rd s0 (bindS (observe_prompt_effect C H target b p) f) s"
proof -
  have "ends C m rd s0 (bindS (poll_effect H target b n) f) s" if "holds mid rid d s" "called s0 s" for n s
    using that
  proof (induction n arbitrary: s)
    case 0
    then show ?case using assms(3) by simp
  next
    case (Suc n)
    show ?case
      unfolding poll_effect.simps bindS_assoc
      by (rule ends_call[OF Suc.prems]) (auto split: sum.split simp: assms(3) Suc.IH)
  qed
  then show ?thesis
    using assms by (simp add: observe_prompt_effect_def)
qed

lemma ends_prompted:
  assumes h: "holds (m_message_id m) rid d s" and c: "called s0 s" and st: "d_state d = READY"
  shows "ends C m rid s0 (deliver_prompted C H m (m_message_id m) rid target bt live prompted) s"
  unfolding deliver_prompted_def
proof (rule ends_thenTransition[OF h c], simp add: st move)
  fix s1 :: "'a engine"
  let ?d = "updated_delivery d PROMPT_SUBMITTED (agent_details prompted) None None"
  let ?s2 = "s1\<lparr>e_journal := record_route (m_sender m) rid (m_thread_id m)
              (rt_payload_hash (m_routing m)) (m_message_id m) (e_journal s1)\<rparr>"
  assume h1: "holds (m_message_id m) rid ?d s1" and c1: "called s0 s1"
  have h2: "holds (m_message_id m) rid ?d ?s2" and c2: "called s0 ?s2"
    using h1 called_trans[OF c1 called_mods(3)] by (simp_all add: holds_quiet_mods)
  show "ends C m rid s0 (thenS (modJ (record_route (m_sender m) rid (m_thread_id m)
              (rt_payload_hash (m_routing m)) (m_message_id m)))
    (bindS (observe_prompt_effect C H target live prompted) (\<lambda>r. case r of
        Inl e \<Rightarrow> finish (m_message_id m) rid UNCERTAIN
                  (transport_details ''effect_observation_transport_error'' e)
      | Inr None \<Rightarrow> finish (m_message_id m) rid UNCERTAIN
                  [(''reason'', JStr ''prompt_effect_not_observed''),
                   (''effect_timeout_ms'', JInt (prompt_effect_timeout_ms C))]
      | Inr (Some observed) \<Rightarrow>
          deliver_observed C H m (m_message_id m) rid target bt observed))) s1"
    unfolding ends_def wp_thenS wp_modJ
    by (rule ends_poll[OF h2 c2, unfolded ends_def], unfold ends_def[symmetric])
      (auto split: sum.split option.split intro: ends_finish ends_observed)
qed

text \<open>
  Up to the submission no route is recorded (\<open>unsent\<close>). \<open>sends\<close>: the stage ends with the row, and
  it has sent at most one prompt, the frame of this message, and only where no loop was seen.
\<close>

definition unsent :: "'w engine \<Rightarrow> 'w engine \<Rightarrow> bool" where
  "unsent s s' \<longleftrightarrow> called s s'
     \<and> route_fingerprints (e_journal s') = route_fingerprints (e_journal s)"

definition once :: "bridge_config \<Rightarrow> message \<Rightarrow> string \<Rightarrow> 'w engine \<Rightarrow> 'w engine \<Rightarrow> bool" where
  "once C m rid s s' \<longleftrightarrow> messages (e_journal s') = messages (e_journal s) \<and>
     (e_prompts s' = e_prompts s
     \<or> (loop_reason (e_journal s) m rid = None
        \<and> (\<exists>target. e_prompts s' = e_prompts s @ [(target, build_prompt_frame m rid (Some (journal_db C)))])))"

definition sends ::
  "bridge_config \<Rightarrow> message \<Rightarrow> string \<Rightarrow> 'w engine \<Rightarrow> ('w engine, DeliveryResult) op \<Rightarrow> 'w engine \<Rightarrow> bool" where
  "sends C m rid s0 k s = wp k (\<lambda>r s'. delivered C m rid r s' \<and> once C m rid s0 s') (\<lambda>_ _. False) s"

lemma unsent_refl [simp]: "unsent s s"
  by (simp add: unsent_def)

lemma unsent_called: "unsent s s' \<Longrightarrow> called s s'"
  by (simp add: unsent_def)

lemma unsent_trans: "unsent s s' \<Longrightarrow> unsent s' s'' \<Longrightarrow> unsent s s''"
  by (auto simp: unsent_def intro: called_trans)

lemma quiet_unsent: "quiet s s' \<Longrightarrow> unsent s s'"
  by (simp add: unsent_def quiet_def)

lemma loop_reason_unsent: "unsent s s' \<Longrightarrow> loop_reason (e_journal s') m rid = loop_reason (e_journal s) m rid"
  by (simp add: unsent_def loop_reason_def route_seen_def Let_def)

lemma ends_sends: "ends C m rid s0 k s \<Longrightarrow> sends C m rid s0 k s"
  unfolding ends_def sends_def by (erule wp_mono) (auto simp: once_def called_def)

lemma ends_sends_once:
  "ends C m rid s1 k s \<Longrightarrow> (\<And>s'. called s1 s' \<Longrightarrow> once C m rid s0 s') \<Longrightarrow> sends C m rid s0 k s"
  unfolding ends_def sends_def by (erule wp_mono) auto

lemma sends_get [simp]: "sends C m rid s0 (bindS (getS g) f) s = sends C m rid s0 (f (g s)) s"
  by (simp add: sends_def wp_rules)

lemma sends_finish:
  assumes "holds (m_message_id m) rid d s" and "unsent s0 s"
    and "t \<in> ALLOWED_TRANSITIONS (d_state d)" and "t \<noteq> ACKNOWLEDGED"
  shows "sends C m rid s0 (finish (m_message_id m) rid t de) s"
  using assms by (auto intro!: ends_sends ends_finish dest: unsent_called)

lemma sends_call:
  assumes h: "holds mid rid d s" and u: "unsent s0 s"
    and Q: "\<And>x s'. holds mid rid d s' \<Longrightarrow> unsent s0 s' \<Longrightarrow> sends C m rd s0 (f x) s'"
  shows "sends C m rd s0 (bindS (call H g) f) s"
proof -
  let ?s' = "s\<lparr>e_world := w, e_journal := absorb rows (e_journal s)\<rparr>"
  have "unsent s (s\<lparr>e_world := w, e_journal := absorb rows (e_journal s)\<rparr>)" for w rows
    using absorb_frame[of rows "e_journal s"] holds_call(2)[OF h] by (auto simp: unsent_def)
  then show ?thesis
    using holds_call(1)[OF h] u
    by (simp add: sends_def wp_rules wp_call Q[unfolded sends_def] unsent_trans)
qed

lemma sends_transition:
  assumes "holds mid rid d s" and "unsent s0 s" and "delivery_step (d_state d) t"
    and "\<And>s'. holds mid rid (updated_delivery d t de r c) s' \<Longrightarrow> unsent s0 s' \<Longrightarrow> sends C m rd s0 k s'"
  shows "sends C m rd s0 (thenS (transition mid rid t de r c) k) s"
  unfolding sends_def wp_rules
  by (rule wp_transitionI[OF assms(1,3)], rule assms(4)[unfolded sends_def])
    (assumption, rule unsent_trans[OF assms(2)], erule quiet_unsent)

lemma sends_send:
  assumes h: "holds (m_message_id m) rid d s" and c: "unsent s0 s" and st: "d_state d = READY"
    and lr: "loop_reason (e_journal s0) m rid = None"
  shows "sends C m rid s0 (deliver_send C H m (m_message_id m) rid target live) s"
  unfolding deliver_send_def
proof (rule sends_call[OF h c])
  fix x and s2 :: "'a engine"
  let ?frame = "build_prompt_frame m rid (Some (journal_db C))"
  let ?s3 = "s2\<lparr>e_prompts := e_prompts s2 @ [(target, ?frame)]\<rparr>"
  let ?k = "deliver_answered C H m (m_message_id m) rid target live (case x of Inl _ \<Rightarrow> [] | Inr t \<Rightarrow> t)"
  assume h2: "holds (m_message_id m) rid d s2" and c2: "unsent s0 s2"
  have h3: "holds (m_message_id m) rid d ?s3" using h2 by (simp add: holds_quiet_mods)
  have "ends C m rid ?s3 (bindS (call H (hd_prompt H target ?frame)) ?k) ?s3"
    by (rule ends_call[OF h3])
      (auto simp: deliver_answered_def st split: sum.split intro: ends_finish ends_prompted)
  moreover have "once C m rid s0 s'" if "called ?s3 s'" for s'
    using that lr c2 by (simp add: once_def unsent_def called_def)
  ultimately have "sends C m rid s0 (bindS (call H (hd_prompt H target ?frame)) ?k) ?s3"
    by (rule ends_sends_once)
  then show "sends C m rid s0 (bindS (call_prompt H target ?frame) ?k) s2"
    by (simp add: call_prompt_def sends_def wp_rules)
qed

lemma sends_submit:
  assumes h: "holds (m_message_id m) rid d s" and c: "unsent s0 s"
    and st: "d_state d = RESOLVING_TARGET"
  shows "sends C m rid s0 (deliver_submit C H m (m_message_id m) rid target binding live) s"
  unfolding deliver_submit_def
  by (rule sends_transition[OF h c])
    (auto simp: st move loop_reason_unsent split: option.split intro: sends_finish sends_send)

lemma sends_strict:
  assumes h: "holds (m_message_id m) rid d s" and c: "unsent s0 s"
    and st: "d_state d = RESOLVING_TARGET"
  shows "sends C m rid s0 (deliver_strict C H m (m_message_id m) rid target binding live) s"
proof -
  have "sends C m rid s0 (thenS (transition (m_message_id m) rid READY de None None)
             (finish (m_message_id m) rid BLOCKED de')) s" for de de'
    by (rule sends_transition[OF h c]) (auto simp: st move intro: sends_finish)
  then show ?thesis
    using sends_submit[OF assms] sends_finish[OF h c] by (simp add: deliver_strict_def st)
qed

lemma sends_turn:
  assumes h: "holds (m_message_id m) rid d s" and c: "unsent s0 s"
    and st: "d_state d = RESOLVING_TARGET"
  shows "sends C m rid s0 (deliver_turn C H m (m_message_id m) rid target binding live) s"
proof -
  have "sends C m rid s0 (bindS (call H g) (\<lambda>r. case r of
             Inl e \<Rightarrow> finish (m_message_id m) rid TARGET_UNAVAILABLE (k e)
           | Inr live' \<Rightarrow> deliver_strict C H m (m_message_id m) rid target binding live')) s" for g k
    by (rule sends_call[OF h c]) (auto simp: st split: sum.split intro: sends_finish sends_strict)
  then show ?thesis
    by (auto simp: deliver_turn_def wait_preexisting_work_def intro: sends_submit[OF assms] sends_strict[OF assms])
qed

text \<open>A refreshed binding leaves everything else as it was; a stale one is the only failure.\<close>

lemma wp_refresh:
  assumes h: "holds mid rid d s"
    and S: "E StaleBinding s"
    and Q: "\<And>b s'. holds mid rid d s' \<Longrightarrow> unsent s s' \<Longrightarrow> Q b s'"
  shows "wp (refresh_binding a row live) Q E s"
proof -
  obtain e where e: "runtime_epoch_id s = Inr e"
    using h by (auto simp: runtime_epoch_id_def holds_def engine_ok_def split: option.split)
  have "wp (\<lambda>s. (s, runtime_epoch_id s)) Q' E s = Q' e s" for Q'
    using e by (simp add: wp_def)
  moreover have "unsent s (s\<lparr>e_journal := upsert_agent b (e_journal s)\<rparr>)" for b
    by (simp add: unsent_def) (simp add: upsert_agent_def)
  ultimately show ?thesis
    using S Q h by (auto simp: refresh_binding_def wp_rules Let_def holds_quiet_mods)
qed

lemma sends_resolve:
  assumes h: "holds (m_message_id m) rid d s" and c: "unsent s0 s" and st: "d_state d = JOURNALED"
  shows "sends C m rid s0 (deliver_resolve C H m (m_message_id m) rid) s"
  unfolding deliver_resolve_def
proof (rule sends_transition[OF h c], simp add: st move)
  fix s1 :: "'a engine"
  let ?d = "updated_delivery d RESOLVING_TARGET [] None None"
  assume h1: "holds (m_message_id m) rid ?d s1" and c1: "unsent s0 s1"
  have fin: "sends C m rid s0 (finish (m_message_id m) rid TARGET_UNAVAILABLE de) t"
    if "holds (m_message_id m) rid ?d t" and "unsent s0 t" for t de
    using that by (auto intro: sends_finish)
  have bound: "sends C m rid s0 (bindS (catchS (bindS (refresh_binding rid row live) (\<lambda>b. retS (Some b)))
          (\<lambda>x. if x = StaleBinding then retS None else raiseS x)) (\<lambda>b. case b of
             None \<Rightarrow> finish (m_message_id m) rid TARGET_UNAVAILABLE de
           | Some binding \<Rightarrow> deliver_turn C H m (m_message_id m) rid target binding live)) t"
    if t: "holds (m_message_id m) rid ?d t" "unsent s0 t" for row live de target t
    unfolding sends_def wp_rules
    by (rule wp_refresh[OF t(1)])
      (auto simp: wp_rules fin[OF t, unfolded sends_def]
        intro!: sends_turn[unfolded sends_def] intro: unsent_trans[OF t(2)])
  show "sends C m rid s0 (bindS (getS (\<lambda>s. get_agent (e_journal s) rid)) (\<lambda>r. case r of
       None \<Rightarrow> finish (m_message_id m) rid TARGET_UNAVAILABLE
                 [(''reason'', JStr ''semantic_agent_not_bound'')]
     | Some record \<Rightarrow>
         let target = ab_agent_target (ag_runtime_binding record)
         in bindS (call H (hd_get H target)) (\<lambda>l. case l of
              Inl e \<Rightarrow> finish (m_message_id m) rid TARGET_UNAVAILABLE
                        [(''reason'', JStr ''HerdrTransportError''), (''error'', JStr (he_error e))]
            | Inr live \<Rightarrow>
                bindS (catchS (bindS (refresh_binding rid record live) (\<lambda>b. retS (Some b)))
                        (\<lambda>x. if x = StaleBinding then retS None else raiseS x)) (\<lambda>b. case b of
                  None \<Rightarrow> finish (m_message_id m) rid TARGET_UNAVAILABLE
                    [(''reason'', JStr ''StaleBindingError''),
                     (''error'', JStr (stale_message rid (ag_runtime_binding record)))]
                | Some binding \<Rightarrow>
                    deliver_turn C H m (m_message_id m) rid target binding live)))) s1"
    by (auto simp: Let_def fin[OF h1 c1] bound fin intro!: sends_call[OF h1 c1] split: option.split sum.split)
qed

lemma sends_projected:
  assumes h: "holds (m_message_id m) rid d s" and c: "unsent s0 s" and st: "d_state d = JOURNALED"
  shows "sends C m rid s0 (deliver_projected C H m (m_message_id m) rid ex) s"
proof -
  let ?go = "if m_projection m = ''board_only''
         then thenS (transition (m_message_id m) rid RESOLVING_TARGET
                       [(''projection'', JStr (m_projection m))] None None)
             (thenS (transition (m_message_id m) rid READY [] None None)
             (finish (m_message_id m) rid SUPPRESSED
                [(''reason'', JStr ''board_only_projection''), (''side_effect'', JStr ''no_herdr_prompt'')]))
         else deliver_resolve C H m (m_message_id m) rid"
  have go: "sends C m rid s0 ?go t" if t: "holds (m_message_id m) rid d t" "unsent s0 t" for t
    using sends_resolve[OF t st]
    by (auto intro!: sends_transition[OF t] sends_transition sends_finish simp: st move)
  have u: "unsent s0 (s\<lparr>e_board := b\<rparr>)" "unsent s0 (s\<lparr>e_board := b, e_stamps := x\<rparr>)" for b x
    using c by (simp_all add: unsent_def called_def)
  show ?thesis
    unfolding deliver_projected_def Let_def sends_def wp_thenS
  proof (rule wp_mono[where Q = "\<lambda>_ t. holds (m_message_id m) rid d t \<and> unsent s0 t" and E = "\<lambda>_ _. False"],
      goal_cases)
    case 1
    then show ?case using h c u by (auto simp: wp_rules holds_quiet_mods split: option.split)
  next
    case (2 a t)
    then show ?case by (elim conjE) (rule go[unfolded sends_def])
  qed auto
qed

section \<open>The authority gate\<close>

text \<open>
  What lets a message through: a declared derivation from a parent, no lock asked for, or a live
  lock for this very recipient whose native thread is the bound one (or may be stood in for).
\<close>

definition authorised :: "bridge_config \<Rightarrow> journal \<Rightarrow> message \<Rightarrow> bool" where
  "authorised C J m \<longleftrightarrow>
     ta_mode (m_target_authority m) = ''parent_derived''
   \<or> (str_or (ta_target_lock_id (m_target_authority m)) [] = [] \<and> \<not> require_target_lock C)
   \<or> (\<exists>lock row. str_or (ta_target_lock_id (m_target_authority m)) [] \<noteq> []
        \<and> get_target_lock J (str_or (ta_target_lock_id (m_target_authority m)) []) = Some lock
        \<and> \<not> is_revoked lock \<and> lk_requested_semantic_agent_id lock = m_recipient m
        \<and> get_agent J (m_recipient m) = Some row
        \<and> (\<exists>proxy. native_target lock (native_value (ag_runtime_binding row)) = Inr proxy))"

definition gate ::
  "bridge_config \<Rightarrow> message \<Rightarrow> 'w engine \<Rightarrow> bool \<Rightarrow> ('w engine, DeliveryResult option) op \<Rightarrow> bool" where
  "gate C m s ok k = wp k (\<lambda>x s'. quiet s s' \<and> (case x of
        None \<Rightarrow> ok \<and> (\<exists>d. holds (m_message_id m) (m_recipient m) d s' \<and> d_state d = JOURNALED)
      | Some r \<Rightarrow> \<not> ok \<and> delivered C m (m_recipient m) r s')) (\<lambda>_ _. False) s"

lemma quiet_event [simp]:
  "quiet s (s'\<lparr>e_journal := record_event ty pl a i (e_journal s')\<rparr>) = quiet s s'"
  "quiet s (s'\<lparr>e_journal := record_event ty pl a i (e_journal s'), e_stamps := x\<rparr>) = quiet s s'"
  by (simp_all add: quiet_def called_def record_event_def)

lemma gate_refuse:
  assumes h: "holds (m_message_id m) (m_recipient m) d s" and st: "d_state d = JOURNALED"
    and t: "t \<in> {TARGET_AUTHORITY_MISMATCH, EXACT_NATIVE_TARGET_NOT_BOUND}" and "\<not> ok"
  shows "gate C m s ok (refuse (m_message_id m) (m_recipient m) ev t reason)"
proof -
  have "delivery_step (d_state d) t" using st t by (auto intro: move)
  then show ?thesis
    unfolding gate_def refuse_def Let_def wp_rules
    by (rule wp_transitionI[OF h])
      (use assms in \<open>auto simp: ack_ok_def holds_quiet_mods intro!: deliveredI\<close>)
qed

lemma gate_allow:
  assumes h: "holds (m_message_id m) (m_recipient m) d s" and st: "d_state d = JOURNALED" and "ok"
  shows "gate C m s ok (allow (m_message_id m) (m_recipient m) ev reason)"
proof -
  have "delivery_step (d_state d) JOURNALED" using st by (simp add: delivery_step_iff)
  then show ?thesis
    unfolding gate_def allow_def Let_def wp_rules
    by (rule wp_transitionI[OF h])
      (use assms in \<open>auto simp: holds_quiet_mods\<close>)
qed

lemma gate_get: "gate C m s ok (f (g s)) \<Longrightarrow> gate C m s ok (bindS (getS g) f)"
  by (simp add: gate_def wp_rules)

lemma gate_if:
  "(c \<Longrightarrow> gate C m s ok k) \<Longrightarrow> (\<not> c \<Longrightarrow> gate C m s ok k') \<Longrightarrow> gate C m s ok (if c then k else k')"
  by simp

lemma gate_option:
  "(x = None \<Longrightarrow> gate C m s ok k) \<Longrightarrow> (\<And>a. x = Some a \<Longrightarrow> gate C m s ok (f a)) \<Longrightarrow>
   gate C m s ok (case x of None \<Rightarrow> k | Some a \<Rightarrow> f a)"
  by (cases x) simp_all

lemma gate_sum:
  "(\<And>a. x = Inl a \<Longrightarrow> gate C m s ok (f a)) \<Longrightarrow> (\<And>b. x = Inr b \<Longrightarrow> gate C m s ok (g b)) \<Longrightarrow>
   gate C m s ok (case x of Inl a \<Rightarrow> f a | Inr b \<Rightarrow> g b)"
  by (cases x) simp_all

lemma gate_preflight:
  assumes h: "holds (m_message_id m) (m_recipient m) d s" and st: "d_state d = JOURNALED"
  shows "gate C m s (authorised C (e_journal s) m)
           (preflight_target_authority C m (m_message_id m) (m_recipient m))"
  unfolding preflight_target_authority_def preflight_lock_def Let_def
  by (intro gate_if gate_option gate_sum gate_get; (intro gate_allow[OF h st] gate_refuse[OF h st])?;
      (simp add: authorised_def)?)

section \<open>The whole delivery\<close>

text \<open>
  \<open>delivery_post\<close>: a row that is past \<open>journaled\<close> answers as it stands; else the delivery ran to an
  end, with a prompt only where it was authorised, and where it was refused nothing was done.
\<close>

definition pending :: "journal \<Rightarrow> message \<Rightarrow> bool" where
  "pending J m = (case get_delivery J (m_message_id m) (m_recipient m) of
     None \<Rightarrow> True | Some d \<Rightarrow> d_state d = JOURNALED)"

definition untouched :: "'w engine \<Rightarrow> 'w engine \<Rightarrow> bool" where
  "untouched s s' \<longleftrightarrow> e_world s' = e_world s \<and> e_prompts s' = e_prompts s \<and> e_board s' = e_board s"

definition prompted_once :: "bridge_config \<Rightarrow> message \<Rightarrow> 'w engine \<Rightarrow> 'w engine \<Rightarrow> bool" where
  "prompted_once C m s s' \<longleftrightarrow> e_prompts s' = e_prompts s
     \<or> (loop_reason (e_journal s) m (m_recipient m) = None \<and> authorised C (e_journal s) m
        \<and> (\<exists>target. e_prompts s' =
             e_prompts s @ [(target, build_prompt_frame m (m_recipient m) (Some (journal_db C)))]))"

definition delivery_post :: "bridge_config \<Rightarrow> message \<Rightarrow> 'w engine \<Rightarrow> DeliveryResult \<Rightarrow> 'w engine \<Rightarrow> bool" where
  "delivery_post C m s r s' \<longleftrightarrow> m \<in> set (messages (e_journal s')) \<and>
     (\<exists>d. holds (m_message_id m) (m_recipient m) d s' \<and> r = result_from_record d \<and> d_state d \<noteq> JOURNALED
        \<and> (if pending (e_journal s) m
           then ack_ok C m d \<and> prompted_once C m s s' \<and> (authorised C (e_journal s) m \<or> untouched s s')
           else get_delivery (e_journal s) (m_message_id m) (m_recipient m) = Some d \<and> untouched s s'))"

lemma wp_journal_message:
  assumes "journal_inv J"
    and E: "E ValueError J"
    and Q: "\<And>ms. m \<in> set ms \<Longrightarrow> journal_inv (J\<lparr>messages := ms\<rparr>) \<Longrightarrow> Q (m_message_id m) (J\<lparr>messages := ms\<rparr>)"
  shows "wp (journal_message m) Q E J"
proof -
  have same: "Q (m_message_id m) J" if "m \<in> set (messages J)"
    using Q[of "messages J"] that assms(1) by simp
  have new: "Q (m_message_id m) (J\<lparr>messages := messages J @ [m]\<rparr>)"
    if "snd (journal_message m J) \<noteq> Inl ValueError" and "fst (journal_message m J) = J\<lparr>messages := messages J @ [m]\<rparr>"
    using journal_message_inv[OF assms(1), of m] by (intro Q) (simp_all add: that)
  show ?thesis
    using E same new
    by (auto simp: wp_def journal_message_def find_Some_iff split: option.splits if_splits)
qed

lemma deliver_wp:
  assumes ok: "engine_ok s"
  shows "wp (deliver C H m) (delivery_post C m s) (\<lambda>e s'. e = ValueError \<and> s' = s) s"
  unfolding deliver_def Let_def wp_bindS wp_thenS wp_liftJ wp_modJ wp_getS
proof (rule wp_journal_message, goal_cases)
  case 1
  then show ?case using ok by (simp add: engine_ok_def)
next
  case 2
  then show ?case by simp
next
  case (3 ms)
  let ?mid = "m_message_id m" and ?rid = "m_recipient m"
  let ?J = "ensure_delivery ?mid ?rid (e_journal s\<lparr>messages := ms\<rparr>)"
  let ?s = "s\<lparr>e_journal := ?J\<rparr>"
  have eng: "engine_ok ?s"
    using ok journal_inv_ensure[OF 3(2)] by (simp add: engine_ok_def get_meta_def ensure_delivery_def)
  obtain d where d: "get_delivery ?J ?mid ?rid = Some d"
    and dn: "case get_delivery (e_journal s) ?mid ?rid of None \<Rightarrow> d_state d = JOURNALED | Some x \<Rightarrow> d = x"
    by (cases "get_delivery (e_journal s) ?mid ?rid")
      (auto simp: ensure_delivery_def get_delivery_def dom_def new_delivery_def)
  have frame: "e_prompts ?s = e_prompts s" "e_world ?s = e_world s" "e_board ?s = e_board s"
    "messages ?J = ms" "\<And>C. authorised C ?J m = authorised C (e_journal s) m"
    "loop_reason ?J m ?rid = loop_reason (e_journal s) m ?rid"
    by (auto simp: ensure_delivery_def authorised_def get_target_lock_def get_agent_def
        loop_reason_def route_seen_def Let_def)
  have h: "holds ?mid ?rid d ?s" using eng d by (simp add: holds_def)
  have pend: "pending (e_journal s) m \<longleftrightarrow> d_state d = JOURNALED"
    using dn by (auto simp: pending_def split: option.splits)
  show ?case
  proof (cases "d_state d = JOURNALED")
    case False
    then have "get_delivery (e_journal s) ?mid ?rid = Some d"
      using dn by (auto split: option.splits)
    then have "delivery_post C m s (result_from_record d) ?s"
      using 3(1) False h frame pend by (auto simp: delivery_post_def untouched_def)
    then show ?thesis using False d by (simp add: wp_rules)
  next
    case True
    have post: "delivery_post C m s r s'"
      if "delivered C m ?rid r s'" and "once C m ?rid ?s s'"
        and "authorised C (e_journal s) m \<or> untouched s s'" for r s'
      using that 3(1) frame pend True
      by (auto simp: delivery_post_def delivered_def once_def prompted_once_def untouched_def)
    have gate: "gate C m ?s (authorised C (e_journal s) m) (preflight_target_authority C m ?mid ?rid)"
      using gate_preflight[OF h True] frame by simp
    have rest: "wp (case x of None \<Rightarrow> deliver_projected C H m ?mid ?rid d | Some r \<Rightarrow> retS r)
        (delivery_post C m s) (\<lambda>e s'. e = ValueError \<and> s' = s) t"
      if q: "quiet ?s t" and x: "case x of
          None \<Rightarrow> authorised C (e_journal s) m \<and> (\<exists>d. holds ?mid ?rid d t \<and> d_state d = JOURNALED)
        | Some r \<Rightarrow> \<not> authorised C (e_journal s) m \<and> delivered C m ?rid r t" for x t
    proof (cases x)
      case None
      with x obtain d' where "holds ?mid ?rid d' t" "d_state d' = JOURNALED" by auto
      then have "sends C m ?rid ?s (deliver_projected C H m ?mid ?rid d) t"
        using quiet_unsent[OF q] by (intro sends_projected)
      then show ?thesis
        unfolding sends_def None option.case by (rule wp_mono) (use x None post in auto)
    next
      case (Some r)
      have "once C m ?rid ?s t" and "untouched s t"
        using q frame by (simp_all add: once_def quiet_def called_def untouched_def)
      then show ?thesis using x Some post by (simp add: wp_rules)
    qed
    show ?thesis
      by (simp add: wp_rules d True) (rule wp_mono[OF gate[unfolded gate_def]]; elim conjE FalseE; rule rest)
  qed
qed


section \<open>Properties\<close>

text \<open>
  C9: a delivery does not fail. Over a sound journal \<open>deliver\<close> either raises \<open>ValueError\<close>, the
  conflict of an idempotency key or of a message id, with nothing changed, or it returns the row
  that the journal now holds, past \<open>journaled\<close>, and the journal is sound again: every history is
  still a run of the state graph. No adapter answer, and no reply filed meanwhile, makes it
  raise or attempt a transition that the graph forbids.
\<close>

theorem deliver_sound:
  assumes "engine_ok s" and "deliver C H m s = (s', x)"
  shows "case x of
      Inl e \<Rightarrow> e = ValueError \<and> s' = s
    | Inr r \<Rightarrow> engine_ok s' \<and> (\<exists>d. get_delivery (e_journal s') (m_message_id m) (m_recipient m) = Some d
          \<and> r = result_from_record d \<and> d_state d \<noteq> JOURNALED)"
  using deliver_wp[OF assms(1), of C H m] assms(2)
  by (auto simp: wp_def delivery_post_def holds_def split: sum.splits)

text \<open>
  C1: a message is prompted at most once per delivery, never in a loop and never without
  authority. A call of \<open>deliver\<close> sends no prompt, or exactly one; it sends one only for a row that
  is still \<open>journaled\<close>, where the hop, depth and route limits pass and where the authority gate is
  satisfied; and what it sends is the frame of this very message.
\<close>

theorem deliver_prompts:
  assumes "engine_ok s" and "deliver C H m s = (s', x)" and "e_prompts s' \<noteq> e_prompts s"
  shows "pending (e_journal s) m \<and> loop_reason (e_journal s) m (m_recipient m) = None
    \<and> authorised C (e_journal s) m
    \<and> (\<exists>target. e_prompts s' =
         e_prompts s @ [(target, build_prompt_frame m (m_recipient m) (Some (journal_db C)))])"
  using deliver_wp[OF assms(1), of C H m] assms(2,3)
  by (auto simp: wp_def delivery_post_def prompted_once_def untouched_def split: sum.splits if_splits)

text \<open>
  C8: a refused message has no side effect. Where the gate is not satisfied, a delivery leaves the
  world behind the adapter, the prompts and the board as they were, whatever it returns.
\<close>

theorem deliver_unauthorised:
  assumes "engine_ok s" and "deliver C H m s = (s', x)" and "\<not> authorised C (e_journal s) m"
  shows "untouched s s'"
  using deliver_wp[OF assms(1), of C H m] assms(2,3)
  by (auto simp: wp_def delivery_post_def untouched_def split: sum.splits if_splits)

text \<open>
  C7: what an acknowledgement rests on. When the delivery of a new message ends
  \<open>acknowledged\<close>, the message asked for a semantic acknowledgement, a reply text is stored, and the
  reply was filed as a structured reply or stood in the fence of this turn (or was found by
  heuristics, where the configuration lets that count).
\<close>

theorem deliver_acknowledged:
  assumes "engine_ok s" and "deliver C H m s = (s', Inr r)" and "pending (e_journal s) m"
    and "dr_state r = ACKNOWLEDGED"
  shows "m_require_semantic_ack m \<and> dr_reply_text r \<noteq> None
    \<and> (dr_capture_confidence r \<in> {STRUCTURED, TURN_FENCED}
       \<or> (allow_heuristic_capture C \<and> dr_capture_confidence r = HEURISTIC))"
  using deliver_wp[OF assms(1), of C H m] assms(2-)
  by (auto simp: wp_def delivery_post_def ack_ok_def result_from_record_def)

lemma journal_message_again:
  assumes "journal_inv J" and "m \<in> set (messages J)"
  shows "journal_message m J = (J, Inr (m_message_id m))"
  using assms find_by_key[of "\<lambda>r. rt_idempotency_key (m_routing r)" "messages J" m]
  by (auto simp: journal_message_def journal_inv_def)

text \<open>
  C10: a retry is idempotent. After a delivery returned, delivering the same message again
  (with any configuration and any adapter) returns the same result, sends nothing and touches
  neither the world nor the board: the journal alone answers.
\<close>

theorem deliver_retry:
  assumes "engine_ok s" and "deliver C H m s = (s', Inr r)"
  shows "deliver C' H' m s' = (s', Inr r)"
proof -
  from deliver_wp[OF assms(1), of C H m] assms(2)
  obtain d where m: "m \<in> set (messages (e_journal s'))" and h: "holds (m_message_id m) (m_recipient m) d s'"
    and d: "r = result_from_record d" "d_state d \<noteq> JOURNALED"
    by (auto simp: wp_def delivery_post_def)
  have "journal_message m (e_journal s') = (e_journal s', Inr (m_message_id m))"
    using journal_message_again[OF _ m] h by (simp add: holds_def engine_ok_def)
  moreover have "ensure_delivery (m_message_id m) (m_recipient m) (e_journal s') = e_journal s'"
    using h by (auto simp: holds_def ensure_delivery_def get_delivery_def)
  ultimately show ?thesis
    using h d by (simp add: deliver_def op_defs liftJ_def modJ_def holds_def Let_def)
qed

end
