(* ===== verification/Bridge_Mock.thy ===== *)
theory Bridge_Mock
  imports Bridge_Delivery
begin

text \<open>
  The interface between the engine and a Herdr adapter, and the adapter of the repository that is
  written in Python throughout, \<open>src/eml_bridge/mock_herdr.py\<close>. The interface counts the prompts an
  adapter was asked to take; what the engine does to that count is proved for every adapter that
  keeps the laws, and the mock is shown to keep them.
\<close>

section \<open>The interface\<close>

text \<open>
  \<open>taken w\<close>: how many calls of \<open>agent prompt\<close> the world has seen. Looking, waiting and reading are
  no prompts, and one call is at most one prompt.
\<close>

locale herdr_contract =
  fixes H :: "'w herdr" and taken :: "'w \<Rightarrow> nat"
  assumes get_law: "taken (fst (hd_get H target w)) = taken w"
    and wait_law: "taken (fst (hd_wait H target until timeout w)) = taken w"
    and read_law: "taken (fst (hd_read H target lines w)) = taken w"
    and prompt_law: "taken (fst (hd_prompt H target frame w)) \<le> Suc (taken w)"
begin

text \<open>A step of the engine is \<open>accounted\<close> when every new prompt in the world is in its log.\<close>

definition accounted :: "('w engine, 'a) op \<Rightarrow> bool" where
  "accounted k \<longleftrightarrow> (\<forall>s. taken (e_world (fst (k s))) + length (e_prompts s)
     \<le> taken (e_world s) + length (e_prompts (fst (k s))))"

lemma accounted_bindS: "accounted m \<Longrightarrow> (\<And>x. accounted (f x)) \<Longrightarrow> accounted (bindS m f)"
proof (unfold accounted_def, rule allI)
  fix s assume m: "\<forall>s. taken (e_world (fst (m s))) + length (e_prompts s)
      \<le> taken (e_world s) + length (e_prompts (fst (m s)))"
    and f: "\<And>x. \<forall>s. taken (e_world (fst (f x s))) + length (e_prompts s)
      \<le> taken (e_world s) + length (e_prompts (fst (f x s)))"
  obtain t r where t: "m s = (t, r)" by (cases "m s")
  have "taken (e_world t) + length (e_prompts s) \<le> taken (e_world s) + length (e_prompts t)"
    using m[rule_format, of s] t by simp
  moreover have "taken (e_world (fst (f x t))) + length (e_prompts t)
      \<le> taken (e_world t) + length (e_prompts (fst (f x t)))" for x
    using f by blast
  from this[of "projr r"] calculation
  show "taken (e_world (fst (bindS m f s))) + length (e_prompts s)
      \<le> taken (e_world s) + length (e_prompts (fst (bindS m f s)))"
    by (cases r) (simp_all add: bindS_def t)
qed

lemma accounted_thenS: "accounted m \<Longrightarrow> accounted k \<Longrightarrow> accounted (thenS m k)"
  by (simp add: thenS_def accounted_bindS)

lemma accounted_same:
  "(\<And>s. e_world (fst (k s)) = e_world s \<and> e_prompts (fst (k s)) = e_prompts s) \<Longrightarrow> accounted k"
  by (simp add: accounted_def)

lemma accounted_call:
  "(\<And>w. taken (fst (f w)) = taken w) \<Longrightarrow> accounted (call H f)"
  by (simp add: accounted_def call_def split_beta)

lemma accounted_prompt: "accounted (call_prompt H target frame)"
  using prompt_law by (auto simp: accounted_def call_prompt_def call_def op_defs split_beta)

lemma accounted_catchS: "accounted m \<Longrightarrow> (\<And>e. accounted (h e)) \<Longrightarrow> accounted (catchS m h)"
proof (unfold accounted_def, rule allI)
  fix s assume m: "\<forall>s. taken (e_world (fst (m s))) + length (e_prompts s)
      \<le> taken (e_world s) + length (e_prompts (fst (m s)))"
    and f: "\<And>e. \<forall>s. taken (e_world (fst (h e s))) + length (e_prompts s)
      \<le> taken (e_world s) + length (e_prompts (fst (h e s)))"
  obtain t r where t: "m s = (t, r)" by (cases "m s")
  show "taken (e_world (fst (catchS m h s))) + length (e_prompts s)
      \<le> taken (e_world s) + length (e_prompts (fst (catchS m h s)))"
    using m[rule_format, of s] f[rule_format, of "projl r" t]
    by (cases r) (simp_all add: catchS_def t)
qed

lemma accounted_basic:
  "accounted (retS x)" "accounted (raiseS e)" "accounted (getS g)" "accounted (liftJ j)" "accounted (modJ u)"
  "accounted (stamp ty p)" "accounted (record_message m d)" "accounted (\<lambda>s. (s, h s))"
  by (rule accounted_same; simp add: op_defs liftJ_def modJ_def stamp_def record_message_def split_beta)+

lemma accounted_if: "accounted k \<Longrightarrow> accounted k' \<Longrightarrow> accounted (if c then k else k')"
  by simp

lemma accounted_option: "accounted k \<Longrightarrow> (\<And>a. accounted (f a)) \<Longrightarrow> accounted (case x of None \<Rightarrow> k | Some a \<Rightarrow> f a)"
  by (cases x) simp_all

lemma accounted_sum:
  "(\<And>a. accounted (f a)) \<Longrightarrow> (\<And>b. accounted (g b)) \<Longrightarrow> accounted (case x of Inl a \<Rightarrow> f a | Inr b \<Rightarrow> g b)"
  by (cases x) simp_all

lemmas accounted_rules = accounted_bindS accounted_thenS accounted_catchS accounted_basic accounted_if
  accounted_option accounted_sum accounted_prompt
  accounted_call[OF get_law] accounted_call[OF wait_law] accounted_call[OF read_law]

lemma accounted_transition: "accounted (transition mid rid t de r c)"
  unfolding transition_def Let_def by (intro accounted_rules)

lemma accounted_finish: "accounted (finish mid rid t de)"
  unfolding finish_def by (intro accounted_rules accounted_transition)

lemmas accounted_steps = accounted_rules accounted_transition accounted_finish

lemma accounted_structured: "accounted (complete_structured_reply m rid r b)"
  unfolding complete_structured_reply_def by (intro accounted_steps)

lemma accounted_poll: "accounted (poll_effect H target before n)"
  by (induction n) (auto intro!: accounted_steps)

lemma accounted_observe: "accounted (observe_prompt_effect C H target before p)"
  unfolding observe_prompt_effect_def by (intro accounted_steps accounted_poll)

lemma accounted_refresh: "accounted (refresh_binding a row live)"
  unfolding refresh_binding_def Let_def by (intro accounted_steps)

lemma accounted_preflight: "accounted (preflight_target_authority C m mid rid)"
  unfolding preflight_target_authority_def preflight_lock_def refuse_def allow_def Let_def
  by (intro accounted_steps)

lemma accounted_settled: "accounted (deliver_settled C H m mid rid target bt a)"
  unfolding deliver_settled_def deliver_capture_def Let_def by (intro accounted_steps)

lemma accounted_observed: "accounted (deliver_observed C H m mid rid target bt a)"
  unfolding deliver_observed_def deliver_wait_def
  by (intro accounted_steps accounted_settled accounted_structured)

lemma accounted_submit: "accounted (deliver_submit C H m mid rid target b live)"
  unfolding deliver_submit_def deliver_send_def deliver_answered_def deliver_prompted_def
  by (intro accounted_steps accounted_observe accounted_observed)

lemma accounted_turn: "accounted (deliver_turn C H m mid rid target b live)"
  unfolding deliver_turn_def deliver_strict_def wait_preexisting_work_def
  by (intro accounted_steps accounted_submit)

lemma accounted_deliver: "accounted (deliver C H m)"
  unfolding deliver_def deliver_projected_def deliver_resolve_def Let_def
  by (intro accounted_steps accounted_preflight accounted_refresh accounted_turn)

text \<open>So the world sees no more prompts of a delivery than the log of the engine holds.\<close>

lemma deliver_taken:
  assumes "engine_ok s" and "deliver C H m s = (s', x)"
  shows "taken (e_world s') \<le> taken (e_world s) +
    (if pending (e_journal s) m \<and> authorised C (e_journal s) m
        \<and> loop_reason (e_journal s) m (m_recipient m) = None then 1 else 0)"
proof -
  have len: "length (e_prompts s') \<le> length (e_prompts s) +
    (if pending (e_journal s) m \<and> authorised C (e_journal s) m
        \<and> loop_reason (e_journal s) m (m_recipient m) = None then 1 else 0)"
    using deliver_wp[OF assms(1), of C H m] assms(2)
    by (auto simp: wp_def delivery_post_def prompted_once_def untouched_def split: sum.splits if_splits)
  have "taken (e_world s') + length (e_prompts s) \<le> taken (e_world s) + length (e_prompts s')"
    using accounted_deliver[of C m] assms(2) unfolding accounted_def by (metis fst_conv)
  with len show ?thesis by linarith
qed

end

section \<open>The mock adapter\<close>

text \<open>
  \<open>agents\<close>, \<open>transcripts\<close> and \<open>prompt_calls\<close> of the class always have the same keys (only \<open>add_agent\<close>
  adds one, to all three): one dictionary of entries.
\<close>

record mock_entry =
  me_agent :: AgentInfo
  me_transcript :: string
  me_prompt_calls :: nat

record mock =
  mk_entries :: "(string \<times> mock_entry) list"
  mk_pending :: "(string \<times> (string \<times> string)) list"
  mk_effect_disabled :: "string list"
  mk_prompt_ambiguous :: "string list"

definition empty_mock :: mock where
  "empty_mock = \<lparr>mk_entries = [], mk_pending = [], mk_effect_disabled = [], mk_prompt_ambiguous = []\<rparr>"

text \<open>\<open>(?m)^EML_REPLY_[A-Za-z0-9_-]+$\<close>: a whole line.\<close>

definition is_marker_line :: "string \<Rightarrow> bool" where
  "is_marker_line l = (startswith l ''EML_REPLY_'' \<and> length ''EML_REPLY_'' < length l
     \<and> list_all (\<lambda>c. CHR ''A'' \<le> c \<and> c \<le> CHR ''Z'' \<or> CHR ''a'' \<le> c \<and> c \<le> CHR ''z'' \<or> is_digit c
          \<or> c = CHR ''_'' \<or> c = CHR ''-'') (drop (length ''EML_REPLY_'') l))"

definition default_response :: "string \<Rightarrow> string \<Rightarrow> string" where
  "default_response target prompt =
     (let marker = (case find is_marker_line (split_on CHR ''\<newline>'' prompt) of
          None \<Rightarrow> ''EML_REPLY_MISSING'' | Some l \<Rightarrow> l)
      in ''Mock response from '' @ target @ ''.\<newline>'' @ marker @ ''\<newline>'')"

definition add_agent :: "string \<Rightarrow> string \<Rightarrow> string \<Rightarrow> string option \<Rightarrow> mock \<Rightarrow> mock" where
  "add_agent target kind status terminal_id w =
     w\<lparr>mk_entries := AList.update target
        \<lparr>me_agent =
           \<lparr>ai_terminal_id = str_or terminal_id (''term_'' @ target), ai_name = Some target,
            ai_agent = Some kind, ai_agent_status = status, ai_workspace_id = ''w1'',
            ai_tab_id = ''w1:t1'', ai_pane_id = ''w1:p'' @ show_nat (length (mk_entries w) + 1),
            ai_state_change_seq = 1, ai_revision = 1,
            ai_agent_session = Some [(''source'', ''mock''), (''agent'', kind),
              (''kind'', ''session_id''), (''value'', ''session_'' @ target)],
            ai_cwd = Some ''/mock'', ai_interactive_ready = True, ai_launch_pending = False\<rparr>,
         me_transcript = ''['' @ target @ '' ready]\<newline>'', me_prompt_calls = 0\<rparr> (mk_entries w)\<rparr>"

definition mock_error :: "string \<Rightarrow> string \<Rightarrow> bool \<Rightarrow> HerdrTransportError" where
  "mock_error msg code ambiguous = \<lparr>he_error = msg, he_code = Some code, he_ambiguous = ambiguous\<rparr>"

definition mock_entry :: "mock \<Rightarrow> string \<Rightarrow> HerdrTransportError + mock_entry" where
  "mock_entry w target = (case map_of (mk_entries w) target of
      None \<Rightarrow> Inl (mock_error (''agent '' @ target @ '' not found'') ''agent_not_found'' False)
    | Some e \<Rightarrow> Inr e)"

definition set_entry :: "string \<Rightarrow> mock_entry \<Rightarrow> mock \<Rightarrow> mock" where
  "set_entry target e w = w\<lparr>mk_entries := AList.update target e (mk_entries w)\<rparr>"

definition mock_get_agent :: "string \<Rightarrow> mock \<Rightarrow> mock \<times> (HerdrTransportError + AgentInfo)" where
  "mock_get_agent target w = (w, map_sum id me_agent (mock_entry w target))"

definition mock_list_agents :: "mock \<Rightarrow> AgentInfo list" where
  "mock_list_agents w = map (me_agent \<circ> snd) (mk_entries w)"

text \<open>\<open>replace(agent, agent_status=..., state_change_seq=... + 1, revision=... + 1)\<close>.\<close>

definition moved :: "string \<Rightarrow> AgentInfo \<Rightarrow> AgentInfo" where
  "moved status a = a\<lparr>ai_agent_status := status, ai_state_change_seq := ai_state_change_seq a + 1,
     ai_revision := ai_revision a + 1\<rparr>"

definition prompt_agent ::
  "(string \<Rightarrow> string \<Rightarrow> string) \<Rightarrow> string \<Rightarrow> string \<Rightarrow> mock \<Rightarrow> mock \<times> (HerdrTransportError + AgentInfo)" where
  "prompt_agent response_fn target frame w = (case mock_entry w target of
      Inl e \<Rightarrow> (w, Inl e)
    | Inr entry \<Rightarrow>
        let agent = me_agent entry;
            entry = entry\<lparr>me_prompt_calls := me_prompt_calls entry + 1\<rparr>
        in if ai_agent_status agent = ''blocked''
           then (set_entry target entry w, Inl (mock_error ''agent is blocked'' ''agent_blocked'' False))
           else if target \<in> set (mk_prompt_ambiguous w)
           then ((set_entry target entry w)\<lparr>mk_prompt_ambiguous := removeAll target (mk_prompt_ambiguous w)\<rparr>,
                 Inl (mock_error ''simulated disconnect after possible submission'' ''transport_timeout'' True))
           else let entry = entry\<lparr>me_transcript := me_transcript entry @ frame\<rparr>
                in if target \<in> set (mk_effect_disabled w) then (set_entry target entry w, Inr agent)
                   else ((set_entry target (entry\<lparr>me_agent := moved ''working'' agent\<rparr>) w)
                           \<lparr>mk_pending := AList.update target (frame, response_fn target frame) (mk_pending w)\<rparr>,
                         Inr (moved ''working'' agent)))"

definition wait_agent ::
  "string \<Rightarrow> string list \<Rightarrow> int \<Rightarrow> mock \<Rightarrow> mock \<times> (HerdrTransportError + AgentInfo)" where
  "wait_agent target until timeout_ms w = (case mock_entry w target of
      Inl e \<Rightarrow> (w, Inl e)
    | Inr entry \<Rightarrow>
        let agent = me_agent entry
        in if ai_agent_status agent = ''blocked'' then (w, Inr agent)
           else (case map_of (mk_pending w) target of
               Some (_, response) \<Rightarrow>
                 ((set_entry target (entry\<lparr>me_transcript := me_transcript entry @ response,
                      me_agent := moved ''done'' agent\<rparr>) w)\<lparr>mk_pending := AList.delete target (mk_pending w)\<rparr>,
                  Inr (moved ''done'' agent))
             | None \<Rightarrow>
                 if ai_agent_status agent \<in> set until then (w, Inr agent)
                 else (w, Inl (mock_error ''mock wait timeout'' ''timeout'' True))))"

definition read_agent :: "string \<Rightarrow> int \<Rightarrow> mock \<Rightarrow> mock \<times> (HerdrTransportError + string)" where
  "read_agent target lines w = (w, map_sum id me_transcript (mock_entry w target))"

definition mock_snapshot :: "mock \<Rightarrow> json" where
  "mock_snapshot w = JObj [(''result'', JObj [(''type'', JStr ''session_snapshot''),
     (''agents'', JList (map AgentInfo_to_dict (mock_list_agents w)))])]"

text \<open>The mock as an adapter; no other process files structured replies beside it.\<close>

definition mock_herdr :: "(string \<Rightarrow> string \<Rightarrow> string) \<Rightarrow> mock herdr" where
  "mock_herdr response_fn = \<lparr>hd_get = mock_get_agent, hd_prompt = prompt_agent response_fn,
     hd_wait = wait_agent, hd_read = read_agent, hd_filed = (\<lambda>_. [])\<rparr>"

definition total_calls :: "mock \<Rightarrow> nat" where
  "total_calls w = (\<Sum>kv \<leftarrow> mk_entries w. me_prompt_calls (snd kv))"

lemma update_calls:
  "map_of es t = Some e \<Longrightarrow> (\<Sum>kv \<leftarrow> AList.update t e' es. me_prompt_calls (snd kv)) + me_prompt_calls e
     = (\<Sum>kv \<leftarrow> es. me_prompt_calls (snd kv)) + me_prompt_calls e'"
  by (induction es) (auto split: if_splits)

lemma total_calls_set:
  "mock_entry w t = Inr e \<Longrightarrow> total_calls (set_entry t e' w) + me_prompt_calls e
     = total_calls w + me_prompt_calls e'"
  by (simp add: mock_entry_def set_entry_def total_calls_def update_calls split: option.splits)

lemma total_calls_frame [simp]:
  "total_calls (w\<lparr>mk_pending := p\<rparr>) = total_calls w"
  "total_calls (w\<lparr>mk_prompt_ambiguous := a\<rparr>) = total_calls w"
  by (simp_all add: total_calls_def)

lemma total_calls_same:
  "mock_entry w t = Inr e \<Longrightarrow> me_prompt_calls e' = me_prompt_calls e \<Longrightarrow> total_calls (set_entry t e' w) = total_calls w"
  using total_calls_set[of w t e e'] by simp

lemma total_calls_suc:
  "mock_entry w t = Inr e \<Longrightarrow> me_prompt_calls e' = Suc (me_prompt_calls e) \<Longrightarrow>
   total_calls (set_entry t e' w) = Suc (total_calls w)"
  using total_calls_set[of w t e e'] by simp

interpretation mock: herdr_contract "mock_herdr f" total_calls
proof
  fix target frame until timeout lines w
  show "total_calls (fst (hd_get (mock_herdr f) target w)) = total_calls w"
    by (simp add: mock_herdr_def mock_get_agent_def)
  show "total_calls (fst (hd_read (mock_herdr f) target lines w)) = total_calls w"
    by (simp add: mock_herdr_def read_agent_def)
  show "total_calls (fst (hd_wait (mock_herdr f) target until timeout w)) = total_calls w"
    by (cases "mock_entry w target")
      (auto simp: mock_herdr_def wait_agent_def Let_def total_calls_same split: option.split)
  show "total_calls (fst (hd_prompt (mock_herdr f) target frame w)) \<le> Suc (total_calls w)"
    by (cases "mock_entry w target")
      (simp_all add: mock_herdr_def prompt_agent_def Let_def total_calls_suc)
qed

section \<open>Properties\<close>

text \<open>
  C12: with the mock, a delivery calls \<open>agent prompt\<close> at most once, and not at all for a row past
  \<open>journaled\<close>, for a message without authority, or for one that the loop limits stop. The count is
  the mock's own: its calls are counted before it refuses a blocked agent or drops the connection.
\<close>

theorem mock_prompt_calls:
  assumes "engine_ok s" and "deliver C (mock_herdr f) m s = (s', x)"
  shows "total_calls (e_world s') \<le> total_calls (e_world s) +
    (if pending (e_journal s) m \<and> authorised C (e_journal s) m
        \<and> loop_reason (e_journal s) m (m_recipient m) = None then 1 else 0)"
  using assms by (rule mock.deliver_taken)

text \<open>
  A message that declares itself \<open>parent_derived\<close> passes the authority gate unchecked: under
  every configuration, also one that requires a lock, and for every lock table the gate lets it
  through to its own recipient. Neither a parent message nor a lock is looked up.
\<close>

theorem parent_derived_unchecked:
  assumes "engine_ok s" and "get_delivery (e_journal s) (m_message_id m) (m_recipient m) = Some d"
    and "d_state d = JOURNALED" and "ta_mode (m_target_authority m) = ''parent_derived''"
  shows "\<exists>s'. preflight_target_authority C m (m_message_id m) (m_recipient m) s = (s', Inr None)
     \<and> target_locks (e_journal s') = target_locks (e_journal s)"
proof -
  have "holds (m_message_id m) (m_recipient m) d s" using assms(1,2) by (simp add: holds_def)
  from gate_preflight[OF this assms(3), of C] show ?thesis
    using assms(4) unfolding gate_def wp_def
    by (auto simp: authorised_def quiet_def called_def split: prod.splits sum.splits option.splits)
qed

section \<open>A run\<close>

definition example_config :: bridge_config where
  "example_config = \<lparr>prompt_effect_timeout_ms = 5000, effect_polls = 3, read_lines = 240,
     allow_heuristic_capture = False, require_target_lock = False, journal_db = ''j.db'',
     board_ref = (\<lambda>_. None)\<rparr>"

definition example_start :: "mock engine" where
  "example_start = \<lparr>e_journal = set_meta ''runtime_epoch_id'' ''epoch_1'' empty_journal,
     e_world = add_agent ''b'' ''codex'' ''idle'' None empty_mock,
     e_board = [], e_stamps = [], e_prompts = []\<rparr>"

definition example_engine :: "mock engine" where
  "example_engine = fst (bind_agent (mock_herdr default_response) ''agent/b'' ''b'' None None ''default''
     ''bind_1'' ''t0'' example_start)"

lemma engine_ok_call:
  "engine_ok s \<Longrightarrow> engine_ok (s\<lparr>e_world := w, e_journal := absorb rows (e_journal s)\<rparr>)"
  using absorb_frame[of rows "e_journal s"] by (auto simp: engine_ok_def journal_inv_def get_meta_def)

lemma bind_agent_ok:
  fixes s :: "'w engine"
  assumes "engine_ok s"
  shows "wp (bind_agent H a t dn ro hs bi now) (\<lambda>_. engine_ok) (\<lambda>_ _. False) s"
proof -
  obtain e where "get_meta (e_journal s) ''runtime_epoch_id'' = Some e"
    using assms by (auto simp: engine_ok_def)
  then have e: "get_meta (absorb rows (e_journal s)) ''runtime_epoch_id'' = Some e" for rows
    using absorb_frame[of rows "e_journal s"] by (auto simp: get_meta_def)
  have wpf: "wp (\<lambda>s. (s, g s)) Q E s = (case g s of Inl e \<Rightarrow> E e s | Inr x \<Rightarrow> Q x s)" for g Q E s
    by (simp add: wp_def)
  have "engine_ok (s\<lparr>e_world := w, e_journal := record_event ty pl x y (upsert_agent b (absorb rows (e_journal s))),
     e_stamps := st\<rparr>)" for ty pl x y b rows st and w :: 'w
    using engine_ok_call[OF assms, of rows w]
    by (simp add: engine_ok_def get_meta_def) (simp add: record_event_def upsert_agent_def)
  then show ?thesis
    using e engine_ok_call[OF assms]
    by (auto simp: bind_agent_def wp_rules wp_call wpf runtime_epoch_id_def Let_def split: sum.split)
qed

lemma example_engine_ok: "engine_ok example_engine"
proof -
  have "engine_ok example_start"
    by (simp add: engine_ok_def example_start_def journal_inv_def empty_journal_def set_meta_def get_meta_def)
  from bind_agent_ok[OF this, of "mock_herdr default_response" "''agent/b''" "''b''" None None "''default''"
      "''bind_1''" "''t0''"]
  show ?thesis
    unfolding example_engine_def by (auto simp: wp_def split: prod.splits sum.splits)
qed

text \<open>The reader of the prompt answers with \<open>eml-bridge reply\<close>, so the reply is a structured one.\<close>

definition example_herdr :: "mock herdr" where
  "example_herdr = mock_herdr (\<lambda>_ _. [])\<lparr>hd_filed := (\<lambda>w. if mk_pending w = [] then []
     else [((''msg_1'', ''agent/b''), \<lparr>sr_reply_message_id = Some ''msg_2'', sr_text = ''done''\<rparr>)])\<rparr>"

lemma example_delivered:
  "case snd (deliver example_config example_herdr example_message example_engine) of
     Inl _ \<Rightarrow> False
   | Inr r \<Rightarrow> dr_state r = ACKNOWLEDGED \<and> dr_reply_text r = Some ''done''
       \<and> dr_capture_confidence r = STRUCTURED"
  by code_simp

definition example_result :: DeliveryResult where
  "example_result = projr (snd (deliver example_config example_herdr example_message example_engine))"

lemma example_run:
  "deliver example_config example_herdr example_message example_engine =
     (fst (deliver example_config example_herdr example_message example_engine), Inr example_result)"
  using example_delivered
  by (cases "deliver example_config example_herdr example_message example_engine")
    (auto simp: example_result_def split: sum.splits)

lemma example_acknowledged: "dr_state example_result = ACKNOWLEDGED"
  using example_delivered by (auto simp: example_result_def split: sum.splits)

lemma example_pending: "pending (e_journal example_engine) example_message"
  by code_simp

lemma example_prompted:
  "e_prompts (fst (deliver example_config example_herdr example_message example_engine)) \<noteq> e_prompts example_engine"
  by code_simp

theorem deliver_sound_witness:
  "engine_ok (fst (deliver example_config example_herdr example_message example_engine))"
  using deliver_sound[OF example_engine_ok example_run] by simp

theorem deliver_prompts_witness: "authorised example_config (e_journal example_engine) example_message"
  using deliver_prompts[OF example_engine_ok example_run example_prompted] by simp

theorem deliver_acknowledged_witness: "dr_reply_text example_result \<noteq> None"
  using deliver_acknowledged[OF example_engine_ok example_run example_pending example_acknowledged] by simp

theorem deliver_retry_witness:
  "snd (deliver example_config example_herdr example_message
     (fst (deliver example_config example_herdr example_message example_engine))) = Inr example_result"
  using deliver_retry[OF example_engine_ok example_run, of example_config example_herdr] by simp

text \<open>The same message under a configuration that demands a lock is refused.\<close>

theorem deliver_unauthorised_witness:
  "untouched example_engine (fst (deliver (example_config\<lparr>require_target_lock := True\<rparr>) example_herdr
     example_message example_engine))"
proof (rule deliver_unauthorised[OF example_engine_ok surjective_pairing])
  have "ta_mode (m_target_authority example_message) \<noteq> ''parent_derived''"
    and "str_or (ta_target_lock_id (m_target_authority example_message)) [] = []"
    by code_simp+
  then show "\<not> authorised (example_config\<lparr>require_target_lock := True\<rparr>) (e_journal example_engine) example_message"
    by (simp add: authorised_def)
qed

theorem mock_prompt_calls_witness:
  "total_calls (e_world (fst (deliver example_config (mock_herdr (\<lambda>_ _. [])) example_message example_engine)))
     \<le> total_calls (e_world example_engine) + 1"
  using mock_prompt_calls[OF example_engine_ok surjective_pairing, of example_config "\<lambda>_ _. []" example_message]
  by (simp split: if_splits)

text \<open>A fabricated message without a parent, with the lock required.\<close>

definition forged_message :: message where
  "forged_message = example_message\<lparr>m_target_authority :=
     (m_target_authority example_message)\<lparr>ta_mode := ''parent_derived''\<rparr>\<rparr>"

definition forged_engine :: "mock engine" where
  "forged_engine = example_start\<lparr>e_journal := ensure_delivery (m_message_id forged_message)
     (m_recipient forged_message) (e_journal example_start)\<rparr>"

theorem parent_derived_unchecked_witness:
  "snd (preflight_target_authority (example_config\<lparr>require_target_lock := True\<rparr>) forged_message
     (m_message_id forged_message) (m_recipient forged_message) forged_engine) = Inr None"
proof -
  let ?d = "new_delivery (m_message_id forged_message) (m_recipient forged_message)"
  have ok: "engine_ok forged_engine"
    by (simp add: engine_ok_def forged_engine_def example_start_def)
      (simp add: journal_inv_def ensure_delivery_def empty_journal_def set_meta_def get_meta_def delivery_ok_new)
  have d: "get_delivery (e_journal forged_engine) (m_message_id forged_message) (m_recipient forged_message) = Some ?d"
    by (simp add: forged_engine_def example_start_def ensure_delivery_def get_delivery_def empty_journal_def set_meta_def)
  have st: "d_state ?d = JOURNALED" and mode: "ta_mode (m_target_authority forged_message) = ''parent_derived''"
    by (simp_all add: new_delivery_def forged_message_def)
  from parent_derived_unchecked[OF ok d st mode, of "example_config\<lparr>require_target_lock := True\<rparr>"]
  show ?thesis by auto
qed

end
