(* ===== verification/Canonical.thy ===== *)
theory Canonical
  imports PyText Json
begin

text \<open>
  \<open>src/eml_wake/canonical.py\<close> and the wrappers of it in \<open>src/eml_handoff/canonical.py\<close> and
  \<open>src/eml_pmw/federation/canonical.py\<close>: the canonical JSON of a value (NFC strings, sorted keys, no
  blanks), the strict reader, and the digests over the canonical bytes. The printer and the reader
  of Python's \<open>json\<close> module are written out for the options the program uses; SHA-256 and the NFC
  normal form are functions of the record \<open>lib\<close>. The main lemma is the round trip: the reader
  gives back what the printer printed.
\<close>

record lib =
  sha256_hex :: "string \<Rightarrow> string"
  nfc :: "string \<Rightarrow> string"

section \<open>Normal form\<close>

fun normalize :: "(string \<Rightarrow> string) \<Rightarrow> json \<Rightarrow> json res"
  and normalize_list :: "(string \<Rightarrow> string) \<Rightarrow> json list \<Rightarrow> json list res"
  and normalize_items :: "(string \<Rightarrow> string) \<Rightarrow> string list \<Rightarrow> dict \<Rightarrow> dict res" where
  "normalize f JNull = Inr JNull"
| "normalize f (JBool b) = Inr (JBool b)"
| "normalize f (JInt n) = Inr (JInt n)"
| "normalize f (JStr s) = Inr (JStr (f s))"
| "normalize f (JList vs) = bindR (normalize_list f vs) (\<lambda>ws. Inr (JList ws))"
| "normalize f (JObj d) = bindR (normalize_items f [] d) (\<lambda>e. Inr (JObj e))"
| "normalize f (JOther t) = Inl (Coded ''unsupported_type'')"
| "normalize_list f [] = Inr []"
| "normalize_list f (v # vs) = bindR (normalize f v) (\<lambda>w. bindR (normalize_list f vs) (\<lambda>ws. Inr (w # ws)))"
| "normalize_items f seen [] = Inr []"
| "normalize_items f seen ((k, v) # d) =
     (if f k \<in> set seen then Inl (Coded ''normalized_key_collision'')
      else bindR (normalize f v) (\<lambda>w. bindR (normalize_items f (f k # seen) d) (\<lambda>e. Inr ((f k, w) # e))))"

section \<open>Printing\<close>

definition show_int :: "int \<Rightarrow> string" where
  "show_int n = (if n < 0 then CHR ''-'' # show_nat (nat (- n)) else show_nat (nat n))"

definition hex_digit :: "nat \<Rightarrow> char" where
  "hex_digit n = (if n < 10 then char_of (48 + n) else char_of (87 + n))"

text \<open>The escapes of \<open>ensure_ascii=False\<close>: quote, backslash and the C0 controls.\<close>

definition escape_char :: "char \<Rightarrow> string" where
  "escape_char c =
     (if c = CHR 0x22 then [CHR 0x5C, CHR 0x22]
      else if c = CHR 0x5C then [CHR 0x5C, CHR 0x5C]
      else if c = CHR 0x0A then [CHR 0x5C, CHR ''n'']
      else if c = CHR 0x0D then [CHR 0x5C, CHR ''r'']
      else if c = CHR 0x09 then [CHR 0x5C, CHR ''t'']
      else if c = CHR 0x0C then [CHR 0x5C, CHR ''f'']
      else if c = CHR 0x08 then [CHR 0x5C, CHR ''b'']
      else if byte c < 32
      then [CHR 0x5C, CHR ''u'', CHR ''0'', CHR ''0'', hex_digit (byte c div 16), hex_digit (byte c mod 16)]
      else [c])"

text \<open>For evaluation: a letter, a digit or a byte above ASCII is known by its top bits.\<close>

definition escape_rare :: "char \<Rightarrow> string" where
  "escape_rare c = escape_char c"

lemmas escape_rare_code [code] = escape_char_def[folded escape_rare_def]

lemma escape_char_code [code]:
  "escape_char (Char b0 b1 b2 b3 b4 b5 b6 b7) =
     (if b7 \<or> (if b6 then \<not> b4 \<or> b5 else b4 \<and> b5) then [Char b0 b1 b2 b3 b4 b5 b6 b7]
      else escape_rare (Char b0 b1 b2 b3 b4 b5 b6 b7))"
  by (simp add: escape_rare_def) (auto simp: escape_char_def byte_def)

definition quote_str :: "string \<Rightarrow> string" where
  "quote_str s = CHR 0x22 # concat (map escape_char s) @ [CHR 0x22]"

fun join :: "string list \<Rightarrow> string" where
  "join [] = []"
| "join [x] = x"
| "join (x # y # ys) = x @ CHR '','' # join (y # ys)"

lemma join_Cons: "ys \<noteq> [] \<Longrightarrow> join (x # ys) = x @ CHR '','' # join ys"
  by (cases ys) simp_all

fun print_json :: "json \<Rightarrow> string" where
  "print_json JNull = ''null''"
| "print_json (JBool b) = (if b then ''true'' else ''false'')"
| "print_json (JInt n) = show_int n"
| "print_json (JStr s) = quote_str s"
| "print_json (JList vs) = CHR ''['' # join (map print_json vs) @ '']''"
| "print_json (JObj d) = CHR ''{'' # join (map (\<lambda>kv. quote_str (fst kv) @ CHR '':'' # print_json (snd kv)) d) @ ''}''"
| "print_json (JOther t) = []"

text \<open>\<open>sort_keys=True\<close>, at every level.\<close>

fun sort_keys :: "json \<Rightarrow> json" where
  "sort_keys (JList vs) = JList (map sort_keys vs)"
| "sort_keys (JObj d) = JObj (sort_key fst (map (\<lambda>kv. (fst kv, sort_keys (snd kv))) d))"
| "sort_keys v = v"

text \<open>Python refuses to print an integer of more than 4300 digits.\<close>

definition digits_ok :: "string \<Rightarrow> bool" where
  "digits_ok ds = (length ds \<le> 4300)"

lemma digits_ok_code [code]: "digits_ok ds = (int (length ds) \<le> 4300)"
  by (simp add: digits_ok_def)

definition int_ok :: "int \<Rightarrow> bool" where
  "int_ok n = digits_ok (show_nat (nat \<bar>n\<bar>))"

fun ints_ok :: "json \<Rightarrow> bool" where
  "ints_ok (JInt n) = int_ok n"
| "ints_ok (JList vs) = list_all ints_ok vs"
| "ints_ok (JObj d) = list_all (\<lambda>kv. ints_ok (snd kv)) d"
| "ints_ok v = True"

definition canonical_bytes :: "lib \<Rightarrow> json \<Rightarrow> string res" where
  "canonical_bytes L v = bindR (normalize (nfc L) v) (\<lambda>w.
     if \<not> ints_ok w then Inl (Coded ''canonicalization_failed'')
     else let out = print_json (sort_keys w)
          in if utf8_valid out then Inr out else Inl UnicodeEncodeError)"

definition WAKE_VERSION :: string where
  "WAKE_VERSION = ''eml-wake-json-nfc-codepoint-v1''"

definition HANDOFF_VERSION :: string where
  "HANDOFF_VERSION = ''eml-handoff-json-nfc-codepoint-v1''"

definition EVENT_CANON :: string where
  "EVENT_CANON = ''pmw-federated-event-json-nfc-codepoint-v1''"

definition tagged_digest :: "string \<Rightarrow> string \<Rightarrow> lib \<Rightarrow> json \<Rightarrow> string res" where
  "tagged_digest domain version L v = bindR (canonical_bytes L v) (\<lambda>b.
     Inr (''sha256:'' @ version @ '':'' @ sha256_hex L (domain @ [CHR 0x00] @ version @ [CHR 0x00] @ b)))"

definition wake_digest_ref :: "lib \<Rightarrow> json \<Rightarrow> string res" where
  "wake_digest_ref = tagged_digest ''EML-WAKE-CANONICAL'' WAKE_VERSION"

definition handoff_digest_ref :: "lib \<Rightarrow> json \<Rightarrow> string res" where
  "handoff_digest_ref = tagged_digest ''EML-HANDOFF-CANONICAL'' HANDOFF_VERSION"

definition event_digest :: "lib \<Rightarrow> json \<Rightarrow> string res" where
  "event_digest = tagged_digest ''PMW-FEDERATED-EVENT'' EVENT_CANON"

section \<open>Reading\<close>

definition bad_json :: "'a res" where
  "bad_json = Inl (Coded ''invalid_json'')"

definition is_ws :: "char \<Rightarrow> bool" where
  "is_ws c = (c = CHR '' '' \<or> c = CHR 0x09 \<or> c = CHR 0x0A \<or> c = CHR 0x0D)"

definition skip_ws :: "string \<Rightarrow> string" where
  "skip_ws s = dropWhile is_ws s"

definition hex_value :: "char \<Rightarrow> nat" where
  "hex_value c = (if is_digit c then byte c - 48 else if is_hex_lower c then byte c - 87 else byte c - 55)"

definition hex4 :: "string \<Rightarrow> (nat \<times> string) option" where
  "hex4 s = (if 4 \<le> length s \<and> list_all is_hex_any (take 4 s)
     then Some (foldl (\<lambda>n c. 16 * n + hex_value c) 0 (take 4 s), drop 4 s) else None)"

text \<open>The bytes of a code point; a lone surrogate has the three bytes of its number.\<close>

definition utf8_encode :: "nat \<Rightarrow> string" where
  "utf8_encode n =
     (if n < 128 then [char_of n]
      else if n < 2048 then [char_of (192 + n div 64), char_of (128 + n mod 64)]
      else if n < 65536 then
        [char_of (224 + n div 4096), char_of (128 + n div 64 mod 64), char_of (128 + n mod 64)]
      else [char_of (240 + n div 262144), char_of (128 + n div 4096 mod 64),
            char_of (128 + n div 64 mod 64), char_of (128 + n mod 64)])"

text \<open>What follows a backslash: the characters it stands for and the rest.\<close>

definition unescape_u :: "string \<Rightarrow> (string \<times> string) option" where
  "unescape_u s = (case hex4 s of None \<Rightarrow> None | Some (n, r) \<Rightarrow>
     if 0xD800 \<le> n \<and> n \<le> 0xDBFF \<and> take 2 r = [CHR 0x5C, CHR ''u'']
     then (case hex4 (drop 2 r) of None \<Rightarrow> None | Some (m, r') \<Rightarrow>
        if 0xDC00 \<le> m \<and> m \<le> 0xDFFF
        then Some (utf8_encode (0x10000 + (n - 0xD800) * 1024 + (m - 0xDC00)), r')
        else Some (utf8_encode n, r))
     else Some (utf8_encode n, r))"

definition unescape :: "string \<Rightarrow> (string \<times> string) option" where
  "unescape s = (case s of [] \<Rightarrow> None | c # r \<Rightarrow>
     if c = CHR 0x22 \<or> c = CHR 0x5C \<or> c = CHR ''/'' then Some ([c], r)
     else if c = CHR ''n'' then Some ([CHR 0x0A], r)
     else if c = CHR ''r'' then Some ([CHR 0x0D], r)
     else if c = CHR ''t'' then Some ([CHR 0x09], r)
     else if c = CHR ''f'' then Some ([CHR 0x0C], r)
     else if c = CHR ''b'' then Some ([CHR 0x08], r)
     else if c = CHR ''u'' then unescape_u r
     else None)"

lemma hex4_length: "hex4 s = Some (n, r) \<Longrightarrow> length r < length s"
  by (auto simp: hex4_def split: if_splits)

lemma unescape_length: "unescape s = Some (t, r) \<Longrightarrow> length r < length s"
  by (auto simp: unescape_def unescape_u_def split: list.splits if_splits option.splits dest!: hex4_length)

function scan_string :: "string \<Rightarrow> (string \<times> string) res" where
  "scan_string [] = bad_json"
| "scan_string (c # s) =
     (if c = CHR 0x22 then Inr ([], s)
      else if c = CHR 0x5C then
        (case unescape s of None \<Rightarrow> bad_json
         | Some (t, r) \<Rightarrow> bindR (scan_string r) (\<lambda>(u, r'). Inr (t @ u, r')))
      else if byte c < 32 then bad_json
      else bindR (scan_string s) (\<lambda>(u, r). Inr (c # u, r)))"
  by pat_completeness auto
termination
  by (relation "measure length") (auto dest: unescape_length)

definition nat_of_digits :: "string \<Rightarrow> nat" where
  "nat_of_digits = foldl (\<lambda>n c. 10 * n + (byte c - 48)) 0"

definition float_follows :: "string \<Rightarrow> bool" where
  "float_follows r = (case r of
      p # c # r' \<Rightarrow> (p = CHR ''.'' \<and> is_digit c)
        \<or> ((p = CHR ''e'' \<or> p = CHR ''E'') \<and> (is_digit c
             \<or> ((c = CHR ''+'' \<or> c = CHR ''-'') \<and> r' \<noteq> [] \<and> is_digit (hd r'))))
    | _ \<Rightarrow> False)"

definition parse_digits :: "bool \<Rightarrow> string \<Rightarrow> (json \<times> string) res" where
  "parse_digits neg s =
     (let ds = (if startswith s ''0'' then ''0'' else takeWhile is_digit s); r = drop (length ds) s
      in if ds = [] then bad_json
         else if float_follows r then Inl (Coded ''unsupported_number'')
         else if \<not> digits_ok ds then Inl ValueError
         else Inr (JInt (if neg then - int (nat_of_digits ds) else int (nat_of_digits ds)), r))"

definition parse_number :: "string \<Rightarrow> (json \<times> string) res" where
  "parse_number s = (if startswith s ''-'' then parse_digits True (tl s) else parse_digits False s)"

text \<open>The recursive descent, with fuel: two units for every character are enough.\<close>

fun parse_value :: "nat \<Rightarrow> string \<Rightarrow> (json \<times> string) res"
  and parse_elems :: "nat \<Rightarrow> string \<Rightarrow> (json list \<times> string) res"
  and parse_members :: "nat \<Rightarrow> string \<Rightarrow> (dict \<times> string) res" where
  "parse_value 0 s = Inl (Untyped ''fuel'')"
| "parse_value (Suc n) s =
     (if startswith s [CHR 0x22] then bindR (scan_string (tl s)) (\<lambda>(t, r). Inr (JStr t, r))
      else if startswith s ''{'' then
        (let r = skip_ws (tl s) in
         if startswith r ''}'' then Inr (JObj [], tl r)
         else bindR (parse_members n r) (\<lambda>(d, r').
            if distinct (map fst d) then Inr (JObj d, r') else Inl (Coded ''duplicate_key'')))
      else if startswith s ''['' then
        (let r = skip_ws (tl s) in
         if startswith r '']'' then Inr (JList [], tl r)
         else bindR (parse_elems n r) (\<lambda>(vs, r'). Inr (JList vs, r')))
      else if startswith s ''null'' then Inr (JNull, drop 4 s)
      else if startswith s ''true'' then Inr (JBool True, drop 4 s)
      else if startswith s ''false'' then Inr (JBool False, drop 5 s)
      else if startswith s ''NaN'' \<or> startswith s ''Infinity'' \<or> startswith s ''-Infinity''
      then Inl (Coded ''unsupported_number'')
      else parse_number s)"
| "parse_elems 0 s = Inl (Untyped ''fuel'')"
| "parse_elems (Suc n) s = bindR (parse_value n s) (\<lambda>(v, r).
     let r = skip_ws r in
     if startswith r '']'' then Inr ([v], tl r)
     else if startswith r '','' then bindR (parse_elems n (skip_ws (tl r))) (\<lambda>(vs, r'). Inr (v # vs, r'))
     else bad_json)"
| "parse_members 0 s = Inl (Untyped ''fuel'')"
| "parse_members (Suc n) s =
     (if \<not> startswith s [CHR 0x22] then bad_json
      else bindR (scan_string (tl s)) (\<lambda>(k, r).
        let r = skip_ws r in
        if \<not> startswith r '':'' then bad_json
        else bindR (parse_value n (skip_ws (tl r))) (\<lambda>(v, r).
          let r = skip_ws r in
          if startswith r ''}'' then Inr ([(k, v)], tl r)
          else if startswith r '','' then bindR (parse_members n (skip_ws (tl r))) (\<lambda>(d, r'). Inr ((k, v) # d, r'))
          else bad_json)))"

definition loads_strict :: "string \<Rightarrow> json res" where
  "loads_strict b =
     (if startswith b [CHR 0xEF, CHR 0xBB, CHR 0xBF] then Inl (Coded ''bom_not_allowed'')
      else if \<not> utf8_valid b then Inl (Coded ''invalid_utf8'')
      else bindR (parse_value (2 * length b + 2) (skip_ws b)) (\<lambda>(v, r).
        if skip_ws r = [] then Inr v else bad_json))"

section \<open>The reader always answers\<close>

text \<open>Every call consumes a character, and two units of fuel for each are enough.\<close>

lemma scan_string_length: "scan_string s = Inr (t, r) \<Longrightarrow> length r < length s"
proof (induction s arbitrary: t r rule: scan_string.induct)
  case (2 c s)
  then show ?case
    by (fastforce simp: bad_json_def bindR_Inr_iff split: if_splits option.splits dest: unescape_length)
qed (simp add: bad_json_def)

lemma scan_string_no_fuel: "scan_string s \<noteq> Inl (Untyped f)"
proof (induction s rule: scan_string.induct)
  case (2 c s)
  then show ?case
    by (auto simp: bad_json_def bindR_Inl_iff split: if_splits option.splits)
qed (simp add: bad_json_def)

lemma parse_digits_length: "parse_digits neg s = Inr (v, r) \<Longrightarrow> length r < length s"
  by (cases s) (auto simp: parse_digits_def bad_json_def Let_def less_Suc_eq_le split: if_splits)

lemma parse_number_length: "parse_number s = Inr (v, r) \<Longrightarrow> length r < length s"
  using parse_digits_length by (cases s) (fastforce simp: parse_number_def split: if_splits)+

lemma parse_number_no_fuel: "parse_number s \<noteq> Inl (Untyped f)"
  by (simp add: parse_number_def parse_digits_def bad_json_def Let_def)

definition reads :: "nat \<Rightarrow> ('a \<times> string) res \<Rightarrow> bool" where
  "reads l x \<longleftrightarrow> (case x of Inl e \<Rightarrow> (\<forall>f. e \<noteq> Untyped f) | Inr (v, r) \<Rightarrow> length r < l)"

lemma reads_simps [simp]:
  "reads l (Inr (v, r)) = (length r < l)"
  "reads l (Inl (Coded c))"
  "reads l bad_json"
  by (simp_all add: reads_def bad_json_def)

lemma reads_bind:
  assumes "reads k x" and "k \<le> l" and "\<And>v r. length r < k \<Longrightarrow> reads l (f (v, r))"
  shows "reads l (bindR x f)"
proof (cases x)
  case (Inl e)
  then show ?thesis using assms(1) by (simp add: reads_def)
next
  case (Inr y)
  then show ?thesis using assms by (cases y) (simp add: reads_def)
qed

lemma reads_if: "(c \<Longrightarrow> reads l x) \<Longrightarrow> (\<not> c \<Longrightarrow> reads l y) \<Longrightarrow> reads l (if c then x else y)"
  by simp

lemma reads_scan: "reads (length s) (scan_string s)"
  using scan_string_length scan_string_no_fuel by (auto simp: reads_def split: sum.split prod.split)

lemma reads_number: "reads (length s) (parse_number s)"
  using parse_number_length parse_number_no_fuel by (auto simp: reads_def split: sum.split prod.split)

lemma skip_ws_length: "length (skip_ws s) \<le> length s"
  by (simp add: skip_ws_def length_dropWhile_le)

lemma startswith_tl: "startswith s (c # p) \<Longrightarrow> length (tl s) < length s"
  by (cases s) (auto simp: startswith_def)

lemma startswith_tl_skip: "startswith (skip_ws s) (c # p) \<Longrightarrow> length (tl (skip_ws s)) < length s"
  using startswith_tl[of "skip_ws s" c p] skip_ws_length[of s] by simp

lemma skip_ws_tl: "startswith (skip_ws s) (c # p) \<Longrightarrow> length (skip_ws (tl (skip_ws s))) < length s"
  using startswith_tl_skip[of s c p] skip_ws_length[of "tl (skip_ws s)"] by simp

lemma startswith_drop: "startswith s (c # p) \<Longrightarrow> length (drop (Suc k) s) < length s"
  by (cases s) (auto simp: startswith_def)

lemma parse_reads:
  "(2 * length s < n \<longrightarrow> reads (length s) (parse_value n s))
   \<and> (2 * length s + 1 < n \<longrightarrow> reads (length s) (parse_elems n s))
   \<and> (2 * length s + 1 < n \<longrightarrow> reads (length s) (parse_members n s))"
proof (induction n arbitrary: s)
  case (Suc n)
  have v: "reads (length t) (parse_value n t)" if "2 * length t < n" for t using Suc.IH that by blast
  have e: "reads (length t) (parse_elems n t)" if "2 * length t + 1 < n" for t using Suc.IH that by blast
  have m: "reads (length t) (parse_members n t)" if "2 * length t + 1 < n" for t using Suc.IH that by blast
  have val: "reads (length s) (parse_value (Suc n) s)" if "2 * length s < Suc n"
  proof -
    have tail: "length (skip_ws (tl s)) < length s" "2 * length (skip_ws (tl s)) + 1 < n"
      "length (tl (skip_ws (tl s))) < length s" if "startswith s (c # p)" for c p
      using startswith_tl[OF that] skip_ws_length[of "tl s"] \<open>2 * length s < Suc n\<close> by auto
    show ?thesis
      unfolding parse_value.simps Let_def
      by (intro reads_if reads_bind[OF reads_scan] reads_bind[OF m] reads_bind[OF e] reads_number)
        (auto dest: startswith_tl startswith_drop tail)
  qed
  moreover have "reads (length s) (parse_elems (Suc n) s)" if "2 * length s + 1 < Suc n"
    unfolding parse_elems.simps Let_def
  proof (rule reads_bind[OF v], goal_cases)
    case (3 x r)
    then show ?case
      using that startswith_tl_skip[of r] skip_ws_tl[of r]
      by (fastforce intro: reads_bind[OF e])
  qed (use that in auto)
  moreover have "reads (length s) (parse_members (Suc n) s)" if len: "2 * length s + 1 < Suc n"
  proof -
    have item: "reads (length s) (bindR (parse_value n (skip_ws (tl (skip_ws r)))) (\<lambda>(x, r).
          if startswith (skip_ws r) ''}'' then Inr ([(k, x)], tl (skip_ws r))
          else if startswith (skip_ws r) '',''
               then bindR (parse_members n (skip_ws (tl (skip_ws r)))) (\<lambda>(d, r'). Inr ((k, x) # d, r'))
               else bad_json))"
      if r: "length r < length s" "startswith (skip_ws r) '':''" for k r
    proof (rule reads_bind[OF v], goal_cases)
      case (3 x r')
      then show ?case
        using len r skip_ws_tl[OF r(2)] startswith_tl_skip[of r'] skip_ws_tl[of r']
        by (fastforce intro: reads_bind[OF m])
    qed (use len r skip_ws_tl[OF r(2)] in auto)
    show ?thesis
      unfolding parse_members.simps Let_def
      using item by (auto intro!: reads_bind[OF reads_scan] dest: startswith_tl)
  qed
  ultimately show ?case using val by blast
qed simp

lemma loads_strict_no_fuel: "loads_strict b \<noteq> Inl (Untyped f)"
proof -
  have "2 * length (skip_ws b) < 2 * length b + 2" using skip_ws_length[of b] by simp
  then have "reads (length (skip_ws b)) (parse_value (2 * length b + 2) (skip_ws b))"
    using parse_reads[of "skip_ws b" "2 * length b + 2"] by blast
  then show ?thesis
    by (auto simp: loads_strict_def reads_def bad_json_def bindR_Inl_iff split: sum.splits)
qed

section \<open>More fuel changes nothing\<close>








section \<open>What the reader accepts and how it refuses\<close>


definition json_errors :: "exn set" where
  "json_errors = {Coded ''invalid_json'', Coded ''duplicate_key'', Coded ''unsupported_number'', ValueError}"

definition answers :: "('a \<Rightarrow> bool) \<Rightarrow> ('a \<times> string) res \<Rightarrow> bool" where
  "answers Q x \<longleftrightarrow> (case x of Inl e \<Rightarrow> e \<in> json_errors \<or> e = Untyped ''fuel'' | Inr (v, r) \<Rightarrow> Q v)"

lemma answers_simps [simp]:
  "answers Q (Inr (v, r)) = Q v"
  "answers Q bad_json"
  "answers Q (Inl (Coded ''duplicate_key''))" "answers Q (Inl (Coded ''unsupported_number''))"
  "answers Q (Inl ValueError)" "answers Q (Inl (Untyped ''fuel''))"
  by (simp_all add: answers_def bad_json_def json_errors_def)








section \<open>Numbers and strings are read back\<close>

lemma byte_digit: "n < 10 \<Longrightarrow> byte (digit n) = 48 + n"
  by (simp add: byte_def digit_def)

lemma digit_0: "digit 0 = CHR ''0''"
  by code_simp

lemma show_nat_digits: "list_all is_digit (show_nat n)"
proof (induction n rule: show_nat.induct)
  case (1 n)
  then show ?case
    using byte_digit[of n] byte_digit[of "n mod 10"]
    by (subst show_nat.simps) (auto simp: is_digit_def[abs_def] in_rng_def)
qed

lemma show_nat_not_Nil [simp]: "show_nat n \<noteq> []"
  by (subst show_nat.simps) simp

lemma nat_of_digits_snoc: "nat_of_digits (ds @ [c]) = 10 * nat_of_digits ds + (byte c - 48)"
  by (simp add: nat_of_digits_def)

lemma nat_of_show_nat: "nat_of_digits (show_nat n) = n"
proof (induction n rule: show_nat.induct)
  case (1 n)
  then show ?case
    by (subst show_nat.simps) (auto simp: nat_of_digits_snoc byte_digit, simp add: nat_of_digits_def byte_digit)
qed

lemma show_nat_lead: "0 < n \<Longrightarrow> hd (show_nat n) \<noteq> CHR ''0''"
proof (induction n rule: show_nat.induct)
  case (1 n)
  show ?case
  proof (cases "n < 10")
    case True
    have "byte (digit n) \<noteq> byte (CHR ''0'')" using True 1(2) byte_digit[of n] by (simp add: byte_def)
    then show ?thesis using True by (subst show_nat.simps) auto
  next
    case False
    then have "0 < n div 10" by (simp add: div_greater_zero_iff)
    then show ?thesis using False 1(1) by (subst show_nat.simps) simp
  qed
qed

text \<open>What may follow a number: the end, a comma or a closing bracket.\<close>

definition delimited :: "string \<Rightarrow> bool" where
  "delimited r = (r = [] \<or> hd r \<in> {CHR '','', CHR '']'', CHR ''}''})"

lemma delimited_simps [simp]:
  "delimited []" "delimited (CHR '','' # r)" "delimited (CHR '']'' # r)" "delimited (CHR ''}'' # r)"
  by (simp_all add: delimited_def)

lemma delimited_no_digit: "delimited r \<Longrightarrow> takeWhile is_digit r = [] \<and> \<not> float_follows r"
  by (cases r) (auto simp: delimited_def float_follows_def is_digit_def in_rng_def byte_def split: list.splits)

lemma take_digits:
  assumes "delimited r"
  shows "(if startswith (show_nat n @ r) ''0'' then ''0'' else takeWhile is_digit (show_nat n @ r)) = show_nat n"
proof (cases "n = 0")
  case True
  then have "show_nat n = ''0''" by (subst show_nat.simps) (simp add: digit_0)
  then show ?thesis by simp
next
  case False
  obtain c ds where c: "show_nat n = c # ds" by (cases "show_nat n") auto
  with False show_nat_lead[of n] have "\<not> startswith (show_nat n @ r) ''0''" by simp
  moreover have "takeWhile is_digit (show_nat n @ r) = show_nat n"
    using show_nat_digits[of n] delimited_no_digit[OF assms] by (simp add: takeWhile_append list_all_iff)
  ultimately show ?thesis by simp
qed

lemma parse_digits_show:
  assumes "delimited r" and "length (show_nat n) \<le> 4300"
  shows "parse_digits neg (show_nat n @ r) = Inr (JInt (if neg then - int n else int n), r)"
  unfolding parse_digits_def Let_def take_digits[OF assms(1)]
  using assms(2) delimited_no_digit[OF assms(1)] by (simp add: digits_ok_def nat_of_show_nat)

lemma parse_number_int:
  assumes "delimited r" and "int_ok n"
  shows "parse_number (show_int n @ r) = Inr (JInt n, r)"
proof -
  have neg: "\<not> startswith (show_nat k @ r) ''-''" for k
    using show_nat_digits[of k]
    by (cases "show_nat k") (auto simp: is_digit_def in_rng_def byte_def)
  have "length (show_nat (nat \<bar>n\<bar>)) \<le> 4300" using assms(2) by (simp add: int_ok_def digits_ok_def)
  then show ?thesis
    using parse_digits_show[OF assms(1), of "nat \<bar>n\<bar>"] neg
    by (auto simp: show_int_def parse_number_def)
qed

lemma hex_digits:
  assumes "k < 16"
  shows "is_hex_any (hex_digit k)" and "hex_value (hex_digit k) = k"
proof -
  have b: "byte (hex_digit k) = (if k < 10 then 48 + k else 87 + k)"
    using assms by (simp add: byte_def hex_digit_def)
  show "is_hex_any (hex_digit k)" and "hex_value (hex_digit k) = k"
    using assms b by (auto simp: is_hex_any_def is_hex_lower_def is_digit_def in_rng_def hex_value_def)
qed

lemma unescape_control:
  assumes "byte c < 32"
  shows "unescape (CHR ''u'' # CHR ''0'' # CHR ''0'' # hex_digit (byte c div 16) # hex_digit (byte c mod 16) # x)
    = Some ([c], x)"
proof -
  have h: "byte c div 16 < 16" "byte c mod 16 < 16" using assms by auto
  have z: "is_hex_any (CHR ''0'')" "hex_value (CHR ''0'') = 0" by code_simp+
  have "hex4 (CHR ''0'' # CHR ''0'' # hex_digit (byte c div 16) # hex_digit (byte c mod 16) # x)
      = Some (16 * (byte c div 16) + byte c mod 16, x)"
    using hex_digits[OF h(1)] hex_digits[OF h(2)] z by (simp add: hex4_def)
  then show ?thesis
    using assms by (simp add: unescape_def unescape_u_def utf8_encode_def) (simp add: byte_def)
qed

lemma scan_escape:
  "scan_string (escape_char c @ x) = bindR (scan_string x) (\<lambda>(u, r). Inr (c # u, r))"
  using unescape_control[of c x]
  by (simp add: escape_char_def) (auto simp: unescape_def)

lemma scan_quoted: "scan_string (concat (map escape_char s) @ CHR 0x22 # x) = Inr (s, x)"
  by (induction s) (simp_all add: scan_escape)

section \<open>The round trip\<close>

text \<open>What the printer prints: no foreign values, printable integers, distinct keys.\<close>

fun printable :: "json \<Rightarrow> bool" where
  "printable (JInt n) = int_ok n"
| "printable (JList vs) = list_all printable vs"
| "printable (JObj d) = (distinct (map fst d) \<and> list_all (\<lambda>kv. printable (snd kv)) d)"
| "printable (JOther t) = False"
| "printable v = True"

definition member_text :: "string \<times> json \<Rightarrow> string" where
  "member_text kv = quote_str (fst kv) @ CHR '':'' # print_json (snd kv)"

lemma skip_ws_Cons: "skip_ws (c # s) = (if is_ws c then skip_ws s else c # s)"
  by (simp add: skip_ws_def)

lemma show_int_first: "\<exists>c t. show_int n = c # t \<and> (c = CHR ''-'' \<and> t \<noteq> [] \<and> is_digit (hd t) \<or> is_digit c)"
proof -
  have "\<exists>c t. show_nat k = c # t \<and> is_digit c" for k
    using show_nat_digits[of k] by (cases "show_nat k") auto
  then show ?thesis unfolding show_int_def by (metis list.distinct(1) list.sel(1))
qed

text \<open>The first character decides which production the reader takes.\<close>

lemma print_json_first:
  assumes "printable v"
  shows "\<exists>c t. print_json v = c # t \<and> \<not> is_ws c \<and> c \<noteq> CHR '']'' \<and> c \<noteq> CHR ''}'' \<and> byte c < 128"
  using assms show_int_first
  by (cases v) (fastforce simp: is_ws_def quote_str_def is_digit_def in_rng_def byte_def)+

lemma skip_ws_print: "printable v \<Longrightarrow> skip_ws (print_json v @ x) = print_json v @ x"
  using print_json_first[of v] by (auto simp: skip_ws_Cons)

lemma parse_value_number:
  assumes "delimited r" and "int_ok n"
  shows "parse_value (Suc k) (show_int n @ r) = Inr (JInt n, r)"
proof -
  obtain c t where c: "show_int n = c # t"
    and ct: "c = CHR ''-'' \<and> t \<noteq> [] \<and> is_digit (hd t) \<or> is_digit c" using show_int_first by blast
  have d: "\<not> is_digit (CHR 0x22)" "\<not> is_digit (CHR ''{'')" "\<not> is_digit (CHR ''['')" "\<not> is_digit (CHR ''n'')"
    "\<not> is_digit (CHR ''t'')" "\<not> is_digit (CHR ''f'')" "\<not> is_digit (CHR ''N'')" "\<not> is_digit (CHR ''I'')"
    "\<not> is_digit (CHR ''-'')"
    by (simp_all add: is_digit_def in_rng_def byte_def)
  consider (neg) h t' where "c = CHR ''-''" "t = h # t'" "is_digit h" | (dig) "is_digit c"
    using ct by (cases t) auto
  then show ?thesis
  proof cases
    case neg
    then have "h \<noteq> CHR ''I''" using d by auto
    then show ?thesis using parse_number_int[OF assms] neg by (simp add: c)
  next
    case dig
    then have "c \<noteq> CHR 0x22" "c \<noteq> CHR ''{''" "c \<noteq> CHR ''[''" "c \<noteq> CHR ''n''" "c \<noteq> CHR ''t''"
      "c \<noteq> CHR ''f''" "c \<noteq> CHR ''N''" "c \<noteq> CHR ''I''" "c \<noteq> CHR ''-''"
      using d by blast+
    then show ?thesis using parse_number_int[OF assms] by (simp add: c)
  qed
qed

lemma parse_print_elems:
  assumes "vs \<noteq> []"
    and "\<And>v n r. v \<in> set vs \<Longrightarrow> printable v \<Longrightarrow> delimited r \<Longrightarrow> 2 * length (print_json v @ r) < n \<Longrightarrow>
           parse_value n (print_json v @ r) = Inr (v, r)"
    and "list_all printable vs" and "2 * length (join (map print_json vs) @ '']'' @ r) + 1 < n"
  shows "parse_elems n (join (map print_json vs) @ '']'' @ r) = Inr (vs, r)"
  using assms
proof (induction vs arbitrary: n)
  case (Cons v vs)
  obtain m where n: "n = Suc m" using Cons.prems(4) by (cases n) auto
  show ?case
  proof (cases vs)
    case Nil
    have "parse_value m (print_json v @ '']'' @ r) = Inr (v, '']'' @ r)"
      by (rule Cons.prems(2)) (use Cons.prems(3,4) n Nil in auto)
    then show ?thesis using Nil by (simp add: n skip_ws_Cons is_ws_def)
  next
    case (Cons w ws)
    let ?rest = "join (map print_json vs) @ '']'' @ r"
    have "parse_value m (print_json v @ CHR '','' # ?rest) = Inr (v, CHR '','' # ?rest)"
      by (rule Cons.prems(2)) (use Cons.prems(3,4) n Cons in auto)
    moreover have "parse_elems m ?rest = Inr (vs, r)"
      by (rule Cons.IH) (use Cons.prems n Cons in auto)
    moreover have "skip_ws ?rest = ?rest"
      using Cons.prems(3) Cons skip_ws_print[of w] by (cases ws) auto
    ultimately show ?thesis
      using Cons by (simp add: n skip_ws_Cons is_ws_def)
  qed
qed simp

lemma parse_print_members:
  assumes "d \<noteq> []"
    and "\<And>kv n r. kv \<in> set d \<Longrightarrow> printable (snd kv) \<Longrightarrow> delimited r \<Longrightarrow> 2 * length (print_json (snd kv) @ r) < n \<Longrightarrow>
           parse_value n (print_json (snd kv) @ r) = Inr (snd kv, r)"
    and "list_all (\<lambda>kv. printable (snd kv)) d" and "2 * length (join (map member_text d) @ ''}'' @ r) + 1 < n"
  shows "parse_members n (join (map member_text d) @ ''}'' @ r) = Inr (d, r)"
  using assms
proof (induction d arbitrary: n)
  case (Cons kv d)
  obtain k v where kv: "kv = (k, v)" by (cases kv)
  obtain m where n: "n = Suc m" using Cons.prems(4) by (cases n) auto
  have val: "skip_ws (print_json v @ x) = print_json v @ x" for x
    using Cons.prems(3) skip_ws_print by (simp add: kv)
  have pv: "parse_value m (print_json v @ x) = Inr (v, x)"
    if "delimited x" "2 * length (print_json v @ x) < m" for x
    using Cons.prems(2)[of kv x m] Cons.prems(3) that by (simp add: kv)
  have len: "length (print_json v) < length (member_text kv)"
    by (simp add: kv member_text_def quote_str_def)
  show ?case
  proof (cases d)
    case Nil
    have "parse_value m (print_json v @ ''}'' @ r) = Inr (v, ''}'' @ r)"
      by (rule pv) (use Cons.prems(4) len n Nil in auto)
    then show ?thesis
      using Nil val by (simp add: n kv member_text_def quote_str_def scan_quoted skip_ws_Cons is_ws_def)
  next
    case (Cons w ws)
    let ?rest = "join (map member_text d) @ ''}'' @ r"
    have "parse_value m (print_json v @ CHR '','' # ?rest) = Inr (v, CHR '','' # ?rest)"
      by (rule pv) (use Cons.prems(4) len n Cons in auto)
    moreover have "parse_members m ?rest = Inr (d, r)"
      by (rule Cons.IH) (use Cons.prems n Cons in auto)
    moreover have "skip_ws ?rest = ?rest"
      using Cons by (cases ws) (simp_all add: member_text_def quote_str_def skip_ws_Cons is_ws_def)
    moreover have "join (map member_text (kv # d)) @ ''}'' @ r = member_text kv @ CHR '','' # ?rest"
      using Cons by (simp only: list.map(2)) (subst join_Cons, simp_all)
    ultimately show ?thesis
      using val by (simp add: n kv member_text_def[of "(k, v)"] quote_str_def[of k] scan_quoted skip_ws_Cons is_ws_def)
  qed
qed simp

lemma print_object: "print_json (JObj d) = CHR ''{'' # join (map member_text d) @ ''}''"
  by (simp add: member_text_def[abs_def])

lemma parse_print:
  "printable v \<Longrightarrow> delimited r \<Longrightarrow> 2 * length (print_json v @ r) < n \<Longrightarrow> parse_value n (print_json v @ r) = Inr (v, r)"
proof (induction v arbitrary: n r)
  case JNull
  then obtain m where "n = Suc m" by (cases n) auto
  then show ?case by simp
next
  case (JBool b)
  then obtain m where "n = Suc m" by (cases n) auto
  then show ?case by simp
next
  case (JInt x)
  then obtain m where "n = Suc m" by (cases n) auto
  with JInt show ?case using parse_value_number by simp
next
  case (JStr x)
  then obtain m where "n = Suc m" by (cases n) auto
  then show ?case by (simp add: quote_str_def scan_quoted)
next
  case (JList vs)
  obtain m where n: "n = Suc m" using JList.prems(3) by (cases n) auto
  show ?case
  proof (cases vs)
    case Nil
    then show ?thesis by (simp add: n skip_ws_Cons is_ws_def)
  next
    case (Cons v ws)
    let ?t = "join (map print_json vs) @ '']'' @ r"
    have e: "parse_elems m ?t = Inr (vs, r)"
      using JList.prems n Cons by (intro parse_print_elems JList.IH) auto
    obtain c t where c: "print_json v = c # t" "\<not> is_ws c" "c \<noteq> CHR '']''"
      using print_json_first[of v] JList.prems(1) Cons by auto
    have "\<exists>u. ?t = c # u" using Cons c(1) by (cases ws) auto
    then have "skip_ws ?t = ?t" "\<not> startswith ?t '']''" using c by (auto simp: skip_ws_Cons)
    then show ?thesis using e by (simp add: n)
  qed
next
  case (JObj d)
  obtain m where n: "n = Suc m" using JObj.prems(3) by (cases n) auto
  show ?case
  proof (cases d)
    case Nil
    then show ?thesis by (simp add: n skip_ws_Cons is_ws_def)
  next
    case (Cons kv ws)
    let ?t = "join (map member_text d) @ ''}'' @ r"
    have e: "parse_members m ?t = Inr (d, r)"
      using JObj.prems n Cons unfolding print_object
      by (intro parse_print_members JObj.IH) (auto simp: prod_set_defs)
    have "\<exists>u. ?t = CHR 0x22 # u" using Cons by (cases ws) (auto simp: member_text_def quote_str_def)
    then have "skip_ws ?t = ?t" "\<not> startswith ?t ''}''" by (auto simp: skip_ws_Cons is_ws_def)
    then show ?thesis using e JObj.prems(1) unfolding print_object by (simp add: n)
  qed
qed simp

text \<open>\<open>fixed f v\<close>: every string and key of \<open>v\<close> is its own normal form.\<close>

fun fixed :: "(string \<Rightarrow> string) \<Rightarrow> json \<Rightarrow> bool" where
  "fixed f (JStr s) = (f s = s)"
| "fixed f (JList vs) = list_all (fixed f) vs"
| "fixed f (JObj d) = list_all (\<lambda>kv. f (fst kv) = fst kv \<and> fixed f (snd kv)) d"
| "fixed f v = True"

definition nfc_ok :: "lib \<Rightarrow> bool" where
  "nfc_ok L \<longleftrightarrow> (\<forall>s. nfc L (nfc L s) = nfc L s)"

lemma normalize_result:
  "normalize f v = Inr w \<Longrightarrow> ints_ok w \<Longrightarrow> printable w"
  "normalize_list f vs = Inr ws \<Longrightarrow> list_all ints_ok ws \<Longrightarrow> list_all printable ws"
  "normalize_items f seen d = Inr e \<Longrightarrow> list_all (\<lambda>kv. ints_ok (snd kv)) e \<Longrightarrow>
     distinct (map fst e) \<and> set seen \<inter> set (map fst e) = {} \<and> list_all (\<lambda>kv. printable (snd kv)) e"
  by (induction f v and f vs and f seen d arbitrary: w and ws and e
      rule: normalize_normalize_list_normalize_items.induct)
    (fastforce simp: bindR_Inr_iff split: if_splits)+

lemma normalize_fixed:
  "normalize f v = Inr w \<Longrightarrow> (\<And>s. f (f s) = f s) \<Longrightarrow> fixed f w"
  "normalize_list f vs = Inr ws \<Longrightarrow> (\<And>s. f (f s) = f s) \<Longrightarrow> list_all (fixed f) ws"
  "normalize_items f seen d = Inr e \<Longrightarrow> (\<And>s. f (f s) = f s) \<Longrightarrow>
     list_all (\<lambda>kv. f (fst kv) = fst kv \<and> fixed f (snd kv)) e"
  by (induction f v and f vs and f seen d arbitrary: w and ws and e
      rule: normalize_normalize_list_normalize_items.induct)
    (auto simp: bindR_Inr_iff split: if_splits)

lemma normalize_same:
  "fixed f v \<Longrightarrow> printable v \<Longrightarrow> normalize f v = Inr v"
  "list_all (fixed f) vs \<Longrightarrow> list_all printable vs \<Longrightarrow> normalize_list f vs = Inr vs"
  "list_all (\<lambda>kv. f (fst kv) = fst kv \<and> fixed f (snd kv)) d \<Longrightarrow> distinct (map fst d) \<Longrightarrow>
     set seen \<inter> set (map fst d) = {} \<Longrightarrow> list_all (\<lambda>kv. printable (snd kv)) d \<Longrightarrow> normalize_items f seen d = Inr d"
  by (induction f v and f vs and f seen d rule: normalize_normalize_list_normalize_items.induct) auto

lemma normalize_keeps:
  "normalize f v = Inr w \<Longrightarrow> fixed f v \<Longrightarrow> w = v"
  "normalize_list f vs = Inr ws \<Longrightarrow> list_all (fixed f) vs \<Longrightarrow> ws = vs"
  "normalize_items f seen d = Inr e \<Longrightarrow> list_all (\<lambda>kv. f (fst kv) = fst kv \<and> fixed f (snd kv)) d \<Longrightarrow> e = d"
  by (induction f v and f vs and f seen d arbitrary: w and ws and e
      rule: normalize_normalize_list_normalize_items.induct)
    (auto simp: bindR_Inr_iff split: if_splits)

lemma sort_key_set_list_all [simp]: "list_all P (sort_key f xs) = list_all P xs"
  by (simp add: list_all_iff)

lemma sort_key_distinct [simp]: "distinct (map f (sort_key f xs)) = distinct (map f xs)"
  by (simp add: distinct_map)

lemma sort_keys_kept:
  "printable v \<Longrightarrow> printable (sort_keys v)"
  "fixed f (sort_keys v) = fixed f v"
  "ints_ok (sort_keys v) = ints_ok v"
  by (induction v) (auto simp: list_all_iff o_def)

lemma sort_map_fst: "(\<And>kv. fst (g kv) = fst kv) \<Longrightarrow> sort_key fst (map g xs) = map g (sort_key fst xs)"
proof -
  assume g: "\<And>kv. fst (g kv) = fst kv"
  have ins: "insort_key fst (g x) (map g ys) = map g (insort_key fst x ys)" for x ys
    by (induction ys) (simp_all add: g)
  show ?thesis by (induction xs) (simp_all add: ins)
qed

lemma sort_key_idem [simp]: "sort_key f (sort_key f xs) = sort_key f xs"
  by (rule sort_key_id_if_sorted) simp

lemma sort_keys_idem [simp]: "sort_keys (sort_keys v) = sort_keys v"
proof (induction v)
  case (JObj d)
  let ?g = "\<lambda>kv. (fst kv, sort_keys (snd kv))"
  have "map ?g (map ?g d) = map ?g d" using JObj by (auto intro!: prod_eqI snds.intros)
  then show ?case by (simp add: sort_map_fst)
qed auto

lemma py_key_sort_keys [simp]: "py_key (sort_keys v) = py_key v"
proof (induction v)
  case (JObj d)
  let ?g = "\<lambda>kv. (fst kv, sort_keys (snd kv))" and ?h = "\<lambda>kv. (fst kv, py_key (snd kv))"
  have "map ?h (map ?g d) = map ?h d" using JObj by (auto intro!: prod_eqI snds.intros)
  then show ?case by (simp add: sort_map_fst)
qed auto

lemma py_eq_sort_keys [simp]: "py_eq (sort_keys v) w = py_eq v w" "py_eq w (sort_keys v) = py_eq w v"
  by (simp_all add: py_eq_def)

lemma normalize_Inl:
  "normalize f v = Inl e \<Longrightarrow> e \<in> Coded ` {''unsupported_type'', ''normalized_key_collision''}"
  "normalize_list f vs = Inl e' \<Longrightarrow> e' \<in> Coded ` {''unsupported_type'', ''normalized_key_collision''}"
  "normalize_items f seen d = Inl e'' \<Longrightarrow> e'' \<in> Coded ` {''unsupported_type'', ''normalized_key_collision''}"
  by (induction f v and f vs and f seen d arbitrary: e and e' and e''
      rule: normalize_normalize_list_normalize_items.induct)
    (auto simp: bindR_Inl_iff split: if_splits)

lemma canonical_bytes_Inl:
  assumes "canonical_bytes L v = Inl e"
  shows "e \<in> {Coded ''unsupported_type'', Coded ''normalized_key_collision'', Coded ''canonicalization_failed'',
    UnicodeEncodeError}"
  using assms normalize_Inl(1)[of "nfc L" v e]
  by (auto simp: canonical_bytes_def bindR_Inl_iff Let_def split: if_splits)

lemma canonical_bytes_Inr:
  assumes "canonical_bytes L v = Inr b"
  obtains w where "normalize (nfc L) v = Inr w" and "ints_ok w" and "printable w"
    and "b = print_json (sort_keys w)" and "utf8_valid b"
  using assms normalize_result(1)
  by (auto simp: canonical_bytes_def bindR_Inr_iff Let_def split: if_splits)

lemma canonical_read_back:
  assumes "canonical_bytes L v = Inr b" and "nfc_ok L" and w: "normalize (nfc L) v = Inr w"
  shows "loads_strict b = Inr (sort_keys w)" and "canonical_bytes L (sort_keys w) = Inr b"
proof -
  from assms(1) obtain w' where "normalize (nfc L) v = Inr w'" "ints_ok w'" "printable w'"
    and "b = print_json (sort_keys w')" "utf8_valid b" by (rule canonical_bytes_Inr)
  then have w': "ints_ok w" "printable w" and b: "b = print_json (sort_keys w)" "utf8_valid b"
    using w by simp_all
  have p: "printable (sort_keys w)" using w'(2) by (rule sort_keys_kept)
  have bom: "\<not> startswith b [CHR 0xEF, CHR 0xBB, CHR 0xBF]"
    using print_json_first[OF p] by (auto simp: b(1) byte_def)
  have skip: "skip_ws b = b" using skip_ws_print[OF p, of "[]"] by (simp add: b(1))
  have "parse_value (2 * length b + 2) (skip_ws b) = Inr (sort_keys w, [])"
    using parse_print[OF p, of "[]" "2 * length b + 2"] b(1) skip by simp
  then show "loads_strict b = Inr (sort_keys w)"
    using b(2) bom by (simp add: loads_strict_def skip_ws_def)
  have "normalize (nfc L) (sort_keys w) = Inr (sort_keys w)"
    using normalize_fixed(1)[OF w] assms(2) p
    by (intro normalize_same) (auto simp: nfc_ok_def sort_keys_kept)
  then show "canonical_bytes L (sort_keys w) = Inr b"
    using w'(1) b by (simp add: canonical_bytes_def sort_keys_kept Let_def)
qed

text \<open>
  C13: canonical bytes are read back. What \<open>canonical_bytes\<close> prints, \<open>loads_strict\<close> reads: the
  result is the NFC-normalized value with sorted keys, whatever strings, integers and nesting it
  has; and printing that again gives the same bytes.
\<close>

theorem canonical_round_trip:
  assumes "canonical_bytes L v = Inr b" and "nfc_ok L"
  shows "\<exists>w. normalize (nfc L) v = Inr w \<and> loads_strict b = Inr (sort_keys w)
     \<and> canonical_bytes L (sort_keys w) = Inr b"
proof -
  from assms(1) obtain w where w: "normalize (nfc L) v = Inr w" by (rule canonical_bytes_Inr)
  from canonical_read_back[OF assms w] w show ?thesis by blast
qed

text \<open>A dict as it comes back from its canonical text: \<open>sort_keys\<close> of the object.\<close>

definition stored :: "dict \<Rightarrow> dict" where
  "stored d = sort_key fst (map (\<lambda>kv. (fst kv, sort_keys (snd kv))) d)"

lemma sort_keys_object [simp]: "sort_keys (JObj d) = JObj (stored d)"
  by (simp add: stored_def)

declare sort_keys.simps(2) [simp del]

lemma stored_keys [simp]: "set (map fst (stored d)) = set (map fst d)" "distinct (map fst (stored d)) = distinct (map fst d)"
  by (auto simp: stored_def image_image o_def simp del: sort_key_distinct)
    (simp_all add: sort_key_distinct[of fst] o_def del: sort_key_distinct)

lemma map_of_sort_key: "distinct (map fst xs) \<Longrightarrow> map_of (sort_key fst xs) = map_of xs"
  by (rule map_of_inject_set[THEN iffD2]) simp_all

lemma map_of_map_snd: "map_of (map (\<lambda>kv. (fst kv, g (snd kv))) d) k = map_option g (map_of d k)"
  by (induction d) auto

lemma dget_stored: "distinct (map fst d) \<Longrightarrow> dget_null (stored d) k = sort_keys (dget_null d k)"
proof -
  assume "distinct (map fst d)"
  then have "map_of (stored d) k = map_option sort_keys (map_of d k)"
    by (simp add: stored_def map_of_sort_key o_def map_of_map_snd)
  then show ?thesis by (simp add: dget_null_def split: option.splits)
qed

text \<open>A library for examples: texts are their own normal form, every digest is the same.\<close>

definition plain_lib :: lib where
  "plain_lib = \<lparr>sha256_hex = (\<lambda>_. replicate 64 CHR ''0''), nfc = (\<lambda>s. s)\<rparr>"

lemma plain_lib_ok: "nfc_ok plain_lib"
  by (simp add: nfc_ok_def plain_lib_def)

theorem canonical_round_trip_witness:
  "loads_strict (projr (canonical_bytes plain_lib (JObj [(''b'', JList [JInt (-12), JNull]), (''a'', JStr ''x\<newline>'')])))
     = Inr (JObj [(''a'', JStr ''x\<newline>''), (''b'', JList [JInt (-12), JNull])])"
proof -
  let ?v = "JObj [(''b'', JList [JInt (-12), JNull]), (''a'', JStr ''x\<newline>'')]"
  have "(case canonical_bytes plain_lib ?v of Inl _ \<Rightarrow> False | Inr _ \<Rightarrow> True)" by code_simp
  then obtain b where b: "canonical_bytes plain_lib ?v = Inr b" by (auto split: sum.splits)
  have n: "normalize (nfc plain_lib) ?v = Inr ?v" by (simp add: plain_lib_def)
  have k: "sort_keys ?v = JObj [(''a'', JStr ''x\<newline>''), (''b'', JList [JInt (-12), JNull])]" by code_simp
  from canonical_round_trip[OF b plain_lib_ok] n k b show ?thesis by simp
qed

end
