(* ===== verification/FileStore.thy ===== *)
theory FileStore
  imports Canonical
begin

text \<open>
  The immutable files of \<open>src/eml_wake/filesystem.py\<close> (\<open>publish_bytes_no_replace\<close>) and the reading of
  canonical records of \<open>src/eml_pmw/federation/store.py\<close>. A disk is the list of its files, in the
  order of their publication, and the files that other processes will publish before each of the
  next publications of this one: the races the code handles. A path is the list of its parts below
  the root of the store. A staging file is linked or removed within one publication and is seen
  by no operation, so it does not appear; permissions, name lengths and a full disk do not either.
\<close>

type_synonym path = "string list"
type_synonym files = "(path \<times> string) list"

record disk =
  d_files :: files
  d_others :: "files list"

section \<open>Paths\<close>

text \<open>\<open>Path(s).parts\<close> of a relative POSIX path.\<close>

definition path_parts :: "string \<Rightarrow> path" where
  "path_parts s = filter (\<lambda>p. p \<noteq> [] \<and> p \<noteq> ''.'') (split_on CHR ''/'' s)"

text \<open>\<open>as_posix\<close>.\<close>

fun posix :: "path \<Rightarrow> string" where
  "posix [] = []"
| "posix [p] = p"
| "posix (p # q # ps) = p @ CHR ''/'' # posix (q # ps)"

definition is_file :: "files \<Rightarrow> path \<Rightarrow> bool" where
  "is_file fs p = (map_of fs p \<noteq> None)"

text \<open>A directory is there where a file lies below it.\<close>

definition is_dir :: "files \<Rightarrow> path \<Rightarrow> bool" where
  "is_dir fs p = list_ex (\<lambda>(q, _). length p < length q \<and> take (length p) q = p) fs"

definition path_exists :: "files \<Rightarrow> path \<Rightarrow> bool" where
  "path_exists fs p = (is_file fs p \<or> is_dir fs p)"

definition under_file :: "files \<Rightarrow> path \<Rightarrow> bool" where
  "under_file fs p = list_ex (\<lambda>n. is_file fs (take n p)) [1..<length p]"

text \<open>\<open>target.relative_to(root)\<close> succeeds.\<close>

definition below :: "path \<Rightarrow> path \<Rightarrow> bool" where
  "below root target = (take (length root) target = root)"

text \<open>A path is read back from its text, where no part is empty, a dot or holds a slash.\<close>

definition part_ok :: "string \<Rightarrow> bool" where
  "part_ok p \<longleftrightarrow> p \<noteq> [] \<and> p \<noteq> ''.'' \<and> CHR ''/'' \<notin> set p"

lemma path_parts_posix: "list_all part_ok ps \<Longrightarrow> path_parts (posix ps) = ps"
proof (induction ps rule: posix.induct)
  case 1
  then show ?case by (simp add: path_parts_def)
next
  case (2 p)
  then show ?case by (simp add: path_parts_def part_ok_def split_on_none)
next
  case (3 p q ps)
  then show ?case by (simp add: path_parts_def part_ok_def split_on_append)
qed

lemma ascii_simps [simp]:
  "ascii []" "ascii (c # s) \<longleftrightarrow> byte c < 128 \<and> ascii s" "ascii (s @ t) \<longleftrightarrow> ascii s \<and> ascii t"
  by (auto simp: ascii_def)

lemma ascii_posix: "list_all ascii ps \<Longrightarrow> ascii (posix ps)"
  by (induction ps rule: posix.induct) (simp_all add: byte_def)

text \<open>Only the paths of the files matter here.\<close>

lemma path_exists_keys:
  "path_exists fs p \<longleftrightarrow> list_ex (\<lambda>q. q = p \<or> length p < length q \<and> take (length p) q = p) (map fst fs)"
  by (auto simp: path_exists_def is_file_def is_dir_def list_ex_iff map_of_eq_None_iff split_beta)

lemma under_file_keys: "under_file fs p \<longleftrightarrow> list_ex (\<lambda>n. take n p \<in> set (map fst fs)) [1..<length p]"
  by (simp add: under_file_def is_file_def map_of_eq_None_iff)

section \<open>Publication without replacement\<close>

text \<open>
  Making the parent directories fails below a regular file; linking fails where the path is taken. A
  write that went through would replace what the path holds: \<open>link_new\<close> is an append only because it
  refuses a path that is taken.
\<close>

definition link_new :: "path \<Rightarrow> string \<Rightarrow> files \<Rightarrow> files \<times> unit res" where
  "link_new p data fs =
     (if under_file fs p then (fs, Inl OSError)
      else if path_exists fs p then (fs, Inl (Coded ''immutable_file_exists''))
      else (AList.update p data fs, Inr ()))"

lemma update_new: "map_of fs p = None \<Longrightarrow> AList.update p data fs = fs @ [(p, data)]"
  by (induction fs) (auto split: if_splits)

lemma link_new_eq [code]:
  "link_new p data fs =
     (if under_file fs p then (fs, Inl OSError)
      else if path_exists fs p then (fs, Inl (Coded ''immutable_file_exists''))
      else (fs @ [(p, data)], Inr ()))"
  by (simp add: link_new_def path_exists_def is_file_def update_new)

definition interfere :: "files list \<Rightarrow> files \<Rightarrow> files" where
  "interfere others fs = (case others of [] \<Rightarrow> fs
     | qs # _ \<Rightarrow> fold (\<lambda>qb fs. fst (link_new (fst qb) (snd qb) fs)) qs fs)"

definition publish_bytes :: "path \<Rightarrow> string \<Rightarrow> (disk, unit) op" where
  "publish_bytes p data = (\<lambda>D.
     let (fs, r) = link_new p data (interfere (d_others D) (d_files D))
     in (\<lparr>d_files = fs, d_others = tl (d_others D)\<rparr>, r))"

definition publish_json :: "lib \<Rightarrow> path \<Rightarrow> json \<Rightarrow> (disk, unit) op" where
  "publish_json L p v = bindS (liftS (canonical_bytes L v)) (publish_bytes p)"

section \<open>Reading\<close>

definition existsS :: "path \<Rightarrow> (disk, bool) op" where
  "existsS p = getS (\<lambda>D. path_exists (d_files D) p)"

definition is_fileS :: "path \<Rightarrow> (disk, bool) op" where
  "is_fileS p = getS (\<lambda>D. is_file (d_files D) p)"

definition read_file :: "files \<Rightarrow> path \<Rightarrow> string res" where
  "read_file fs p = (case map_of fs p of None \<Rightarrow> Inl OSError | Some b \<Rightarrow> Inr b)"

definition read_bytes :: "path \<Rightarrow> (disk, string) op" where
  "read_bytes p = (\<lambda>D. (D, read_file (d_files D) p))"

text \<open>\<open>_read_object\<close>: a canonical JSON object, and nothing else.\<close>

definition object_of_bytes :: "lib \<Rightarrow> string \<Rightarrow> dict res" where
  "object_of_bytes L data = bindR (loads_strict data) (\<lambda>v. case v of
       JObj d \<Rightarrow> bindR (canonical_bytes L v) (\<lambda>b.
         if data \<noteq> b then Inl (Coded ''stored_record_not_canonical'') else Inr d)
     | _ \<Rightarrow> Inl (Coded ''contract_type_invalid''))"

definition read_object_file :: "lib \<Rightarrow> files \<Rightarrow> path \<Rightarrow> dict res" where
  "read_object_file L fs p = (case map_of fs p of
      None \<Rightarrow> Inl (Coded ''file_unreadable'')
    | Some data \<Rightarrow> object_of_bytes L data)"

definition read_object :: "lib \<Rightarrow> path \<Rightarrow> (disk, dict) op" where
  "read_object L p = (\<lambda>D. (D, read_object_file L (d_files D) p))"

text \<open>
  \<open>sorted(directory.glob("*.json"))\<close>: the entries of a directory whose name ends in \<open>.json\<close>, a
  directory among them as well as a file, in the order of their names.
\<close>

definition entries :: "files \<Rightarrow> path \<Rightarrow> string list" where
  "entries fs dir = sorted_set (map (\<lambda>p. p ! length dir)
     (filter (\<lambda>p. length dir < length p \<and> take (length dir) p = dir) (map fst fs)))"

definition glob_json :: "files \<Rightarrow> path \<Rightarrow> path list" where
  "glob_json fs dir = map (\<lambda>n. dir @ [n]) (filter (\<lambda>n. endswith n ''.json'') (entries fs dir))"

text \<open>\<open>sorted(directory.glob("*/*.json"))\<close>.\<close>

definition glob_json2 :: "files \<Rightarrow> path \<Rightarrow> path list" where
  "glob_json2 fs dir = concat (map (\<lambda>n. glob_json fs (dir @ [n])) (entries fs dir))"

lemma glob_json_mem:
  assumes "map_of fs (dir @ [n]) = Some b" and "endswith n ''.json''"
  shows "dir @ [n] \<in> set (glob_json fs dir)"
proof -
  have "(dir @ [n], b) \<in> set fs" using assms(1) by (rule map_of_SomeD)
  then have "dir @ [n] \<in> set (map fst fs)" by force
  then have "dir @ [n] \<in> set (filter (\<lambda>p. length dir < length p \<and> take (length dir) p = dir) (map fst fs))"
    by (simp del: set_map)
  then have "(dir @ [n]) ! length dir \<in> set (entries fs dir)"
    unfolding entries_def sorted_set_simps(1) set_map by (rule imageI)
  then have "n \<in> set (entries fs dir)" by simp
  with assms(2) show ?thesis by (simp add: glob_json_def)
qed

section \<open>Records written once\<close>

text \<open>
  Writing a record that may be there: an equal record is left alone, another one is a collision.
\<close>

definition record_once :: "lib \<Rightarrow> path \<Rightarrow> dict \<Rightarrow> string \<Rightarrow> (disk, unit) op" where
  "record_once L p record collision = bindS (existsS p) (\<lambda>there.
     if there then bindS (read_object L p) (\<lambda>old.
       if py_eq (JObj old) (JObj record) then retS () else raiseS (Coded collision))
     else publish_json L p (JObj record))"

text \<open>
  The same where another process may write the path between the test and the publication: the
  record that won is compared.
\<close>

definition publish_checked :: "lib \<Rightarrow> path \<Rightarrow> dict \<Rightarrow> (dict \<Rightarrow> (disk, unit) op) \<Rightarrow> (disk, unit) op" where
  "publish_checked L p record clash =
     (let compare = bindS (read_object L p) (\<lambda>old. if py_eq (JObj old) (JObj record) then retS () else clash old)
      in bindS (existsS p) (\<lambda>there.
        if there then compare
        else catchS (publish_json L p (JObj record)) (\<lambda>err.
          if err = Coded ''immutable_file_exists'' then compare else raiseS err)))"

section \<open>Immutability\<close>

text \<open>Files are only added: every file keeps its bytes.\<close>

definition grows :: "disk \<Rightarrow> disk \<Rightarrow> bool" where
  "grows D D' \<longleftrightarrow> map_of (d_files D) \<subseteq>\<^sub>m map_of (d_files D')"

lemma grows_refl [simp]: "grows D D"
  by (simp add: grows_def)

lemma grows_trans: "grows D D' \<Longrightarrow> grows D' D'' \<Longrightarrow> grows D D''"
  by (auto simp: grows_def intro: map_le_trans)

lemma map_of_append_le: "map_of fs \<subseteq>\<^sub>m map_of (fs @ gs)"
  by (auto simp: map_le_def map_add_def split: option.splits)

lemma link_new_grows: "map_of fs \<subseteq>\<^sub>m map_of (fst (link_new p b fs))"
  using map_of_append_le by (auto simp: link_new_eq)

lemma interfere_grows: "map_of fs \<subseteq>\<^sub>m map_of (interfere others fs)"
proof -
  have "map_of fs \<subseteq>\<^sub>m map_of (fold (\<lambda>qb fs. fst (link_new (fst qb) (snd qb) fs)) qs fs)" for qs
    by (induction qs arbitrary: fs) (auto intro: map_le_trans[OF link_new_grows])
  then show ?thesis by (simp add: interfere_def split: list.split)
qed

lemma link_new_Inr: "link_new p b fs = (fs', Inr ()) \<Longrightarrow> map_of fs' p = Some b \<and> map_of fs p = None"
  by (auto simp: link_new_eq path_exists_def is_file_def map_add_def split: if_splits)

text \<open>
  An operation is \<open>immutable\<close> when it only grows the disk, whatever it returns or raises.
\<close>

definition immutable :: "(disk, 'a) op \<Rightarrow> bool" where
  "immutable k \<longleftrightarrow> (\<forall>D. grows D (fst (k D)))"

named_theorems immutable_intros "operations that only add files"

lemma immutable_grows: "immutable k \<Longrightarrow> k D = (D', r) \<Longrightarrow> grows D D'"
  unfolding immutable_def by (metis fst_conv)

lemma immutable_bindS [immutable_intros]:
  "immutable m \<Longrightarrow> (\<And>x. immutable (f x)) \<Longrightarrow> immutable (bindS m f)"
  unfolding immutable_def bindS_def
  by (auto split: prod.splits sum.splits) (metis fst_conv grows_trans)+

lemma immutable_thenS [immutable_intros]: "immutable m \<Longrightarrow> immutable k \<Longrightarrow> immutable (thenS m k)"
  by (simp add: thenS_def immutable_bindS)

lemma immutable_catchS [immutable_intros]:
  "immutable m \<Longrightarrow> (\<And>e. immutable (h e)) \<Longrightarrow> immutable (catchS m h)"
  unfolding immutable_def catchS_def
  by (auto split: prod.splits sum.splits) (metis fst_conv grows_trans)+

lemma immutable_basic [immutable_intros]:
  "immutable (retS x)" "immutable (raiseS e)" "immutable (getS g)" "immutable (liftS r)"
  "immutable (existsS p)" "immutable (is_fileS p)" "immutable (read_bytes p)" "immutable (read_object L p)"
  by (simp_all add: immutable_def op_defs existsS_def is_fileS_def read_bytes_def read_object_def)

lemma immutable_publish [immutable_intros]: "immutable (publish_bytes p b)" "immutable (publish_json L p v)"
proof -
  have "grows D (fst (publish_bytes p b D))" for p b D
    using map_le_trans[OF interfere_grows link_new_grows]
    by (simp add: publish_bytes_def grows_def split_beta)
  then have b: "immutable (publish_bytes p b)" for p b by (simp add: immutable_def)
  show "immutable (publish_bytes p b)" by (rule b)
  show "immutable (publish_json L p v)"
    unfolding publish_json_def by (intro immutable_intros b)
qed

lemma immutable_if [immutable_intros]: "immutable k \<Longrightarrow> immutable k' \<Longrightarrow> immutable (if c then k else k')"
  by simp

lemma immutable_option [immutable_intros]:
  "immutable k \<Longrightarrow> (\<And>a. immutable (f a)) \<Longrightarrow> immutable (case x of None \<Rightarrow> k | Some a \<Rightarrow> f a)"
  by (cases x) simp_all

section \<open>Which files an operation adds\<close>

text \<open>
  From \<open>D\<close> to \<open>D'\<close> no file lost or changed its bytes, and every new file is one of \<open>F\<close> or was published by
  another process.
\<close>

definition others_paths :: "disk \<Rightarrow> path set" where
  "others_paths D = fst ` set (concat (d_others D))"

definition adds :: "path set \<Rightarrow> disk \<Rightarrow> disk \<Rightarrow> bool" where
  "adds F D D' \<longleftrightarrow> grows D D' \<and> others_paths D' \<subseteq> others_paths D
     \<and> (\<forall>p. p \<notin> F \<union> others_paths D \<longrightarrow> map_of (d_files D') p = map_of (d_files D) p)"

lemma adds_refl [simp]: "adds F D D"
  by (simp add: adds_def)

lemma adds_trans: "adds F D D' \<Longrightarrow> adds F D' D'' \<Longrightarrow> adds F D D''"
  unfolding adds_def by (auto intro: grows_trans)

definition only_adds :: "path set \<Rightarrow> (disk, 'a) op \<Rightarrow> bool" where
  "only_adds F k \<longleftrightarrow> (\<forall>D. adds F D (fst (k D)))"

named_theorems adds_intros "operations that only add given files"

lemma only_adds_bindS [adds_intros]:
  "only_adds F m \<Longrightarrow> (\<And>x. only_adds F (f x)) \<Longrightarrow> only_adds F (bindS m f)"
  unfolding only_adds_def bindS_def
  by (auto split: prod.splits sum.splits) (metis fst_conv adds_trans)+

lemma only_adds_thenS [adds_intros]: "only_adds F m \<Longrightarrow> only_adds F k \<Longrightarrow> only_adds F (thenS m k)"
  by (simp add: thenS_def only_adds_bindS)

lemma only_adds_catchS [adds_intros]:
  "only_adds F m \<Longrightarrow> (\<And>e. only_adds F (h e)) \<Longrightarrow> only_adds F (catchS m h)"
  unfolding only_adds_def catchS_def
  by (auto split: prod.splits sum.splits) (metis fst_conv adds_trans)+

lemma only_adds_basic [adds_intros]:
  "only_adds F (retS x)" "only_adds F (raiseS e)" "only_adds F (getS g)" "only_adds F (liftS r)"
  "only_adds F (existsS p)" "only_adds F (is_fileS p)" "only_adds F (read_bytes p)" "only_adds F (read_object L p)"
  by (simp_all add: only_adds_def op_defs existsS_def is_fileS_def read_bytes_def read_object_def)

lemma only_adds_if [adds_intros]: "only_adds F k \<Longrightarrow> only_adds F k' \<Longrightarrow> only_adds F (if c then k else k')"
  by simp

lemma link_new_frame: "q \<noteq> p \<Longrightarrow> map_of (fst (link_new p b fs)) q = map_of fs q"
  by (simp add: link_new_def update_conv')

lemma interfere_frame: "q \<notin> fst ` set (concat others) \<Longrightarrow> map_of (interfere others fs) q = map_of fs q"
proof -
  have "q \<notin> fst ` set qs \<Longrightarrow> map_of (fold (\<lambda>qb fs. fst (link_new (fst qb) (snd qb) fs)) qs fs) q = map_of fs q" for qs
    by (induction qs arbitrary: fs) (auto simp: link_new_frame)
  from this[of "hd others"] show "q \<notin> fst ` set (concat others) \<Longrightarrow> map_of (interfere others fs) q = map_of fs q"
    by (cases others) (simp_all add: interfere_def image_Un)
qed

lemma only_adds_publish [adds_intros]:
  assumes "p \<in> F"
  shows "only_adds F (publish_bytes p b)" and "only_adds F (publish_json L p v)"
proof -
  have "adds F D (fst (publish_bytes p b D))" for b D
  proof -
    have "grows D (fst (publish_bytes p b D))" using immutable_publish(1) by (simp add: immutable_def)
    moreover have "others_paths (fst (publish_bytes p b D)) \<subseteq> others_paths D"
      by (cases "d_others D") (auto simp: publish_bytes_def others_paths_def split_beta)
    moreover have "map_of (d_files (fst (publish_bytes p b D))) q = map_of (d_files D) q"
      if "q \<notin> F \<union> others_paths D" for q
    proof -
      have "q \<noteq> p" "q \<notin> fst ` set (concat (d_others D))" using that assms by (auto simp: others_paths_def)
      then show ?thesis
        by (simp add: publish_bytes_def split_beta link_new_frame interfere_frame del: set_concat)
    qed
    ultimately show ?thesis unfolding adds_def by blast
  qed
  then show b: "only_adds F (publish_bytes p b)" for b by (simp add: only_adds_def)
  show "only_adds F (publish_json L p v)" unfolding publish_json_def by (intro adds_intros b)
qed

lemma only_adds_record_once [adds_intros]: "p \<in> F \<Longrightarrow> only_adds F (record_once L p record c)"
  unfolding record_once_def by (intro adds_intros)

lemma only_adds_publish_checked [adds_intros]:
  "p \<in> F \<Longrightarrow> (\<And>old. only_adds F (clash old)) \<Longrightarrow> only_adds F (publish_checked L p record clash)"
  unfolding publish_checked_def Let_def by (intro adds_intros)

section \<open>A published record is read back\<close>

lemma object_round_trip:
  assumes "canonical_bytes L (JObj d) = Inr b" and "nfc_ok L"
  shows "\<exists>e. normalize (nfc L) (JObj d) = Inr (JObj e) \<and> object_of_bytes L b = Inr (stored e)"
proof -
  from assms(1) obtain w where w: "normalize (nfc L) (JObj d) = Inr w" by (rule canonical_bytes_Inr)
  from w obtain e where e: "w = JObj e" by (auto simp: bindR_Inr_iff)
  from canonical_read_back[OF assms w]
  show ?thesis using w by (auto simp: e object_of_bytes_def sort_keys_object)
qed

section \<open>What a record on disk says\<close>

text \<open>
  Documented behaviour of the two libraries: NFC is idempotent and keeps an ASCII text, a
  SHA-256 digest has 64 hexadecimal digits.
\<close>

definition lib_ok :: "lib \<Rightarrow> bool" where
  "lib_ok L \<longleftrightarrow> nfc_ok L \<and> (\<forall>s. ascii s \<longrightarrow> nfc L s = s)
     \<and> (\<forall>s. length (sha256_hex L s) = 64 \<and> list_all is_hex_lower (sha256_hex L s))"

lemma hex_ascii: "is_hex_lower c \<Longrightarrow> byte c < 128"
  by (auto simp: is_hex_lower_def is_digit_def in_rng_def)

lemma lib_okD:
  "lib_ok L \<Longrightarrow> nfc_ok L"
  "lib_ok L \<Longrightarrow> ascii s \<Longrightarrow> nfc L s = s"
  "lib_ok L \<Longrightarrow> ascii (sha256_hex L s)"
  "lib_ok L \<Longrightarrow> list_all is_hex_lower (sha256_hex L s)"
  "lib_ok L \<Longrightarrow> length (sha256_hex L s) = 64"
  by (auto simp: lib_ok_def ascii_def list_all_iff hex_ascii)

lemma plain_lib_lib_ok: "lib_ok plain_lib"
  using plain_lib_ok unfolding lib_ok_def
  by (simp add: plain_lib_def list_all_iff is_hex_lower_def is_digit_def in_rng_def byte_def)

lemma fixed_plain: "fixed (nfc plain_lib) v"
  by (induction v) (auto simp: list_all_iff plain_lib_def intro: snds.intros)

lemma canonical_object:
  assumes "object_of_bytes L b = Inr d" and "nfc_ok L"
  shows "distinct (map fst d)" and "fixed (nfc L) (JObj d)"
proof -
  from assms(1) obtain v where v: "loads_strict b = Inr v" and o: "(case v of
       JObj d \<Rightarrow> bindR (canonical_bytes L v) (\<lambda>b'.
         if b \<noteq> b' then Inl (Coded ''stored_record_not_canonical'') else Inr d)
     | _ \<Rightarrow> Inl (Coded ''contract_type_invalid'')) = Inr d"
    unfolding object_of_bytes_def by (rule bindR_InrE)
  from o have "v = JObj d" "canonical_bytes L v = Inr b"
    by (cases v; auto simp: bindR_Inr_iff split: if_splits)+
  with v have r: "loads_strict b = Inr (JObj d)" "canonical_bytes L (JObj d) = Inr b" by simp_all
  from r(2) obtain w where w: "normalize (nfc L) (JObj d) = Inr w" "printable w" by (rule canonical_bytes_Inr)
  have k: "JObj d = sort_keys w" using canonical_read_back(1)[OF r(2) assms(2) w(1)] r(1) by simp
  have "printable (JObj d)" unfolding k using w(2) by (rule sort_keys_kept)
  then show "distinct (map fst d)" by simp
  have "fixed (nfc L) w" using normalize_fixed(1)[OF w(1)] assms(2) by (simp add: nfc_ok_def)
  then show "fixed (nfc L) (JObj d)" unfolding k sort_keys_kept(2) .
qed

lemma normalize_items_get:
  "normalize_items f seen r = Inr e \<Longrightarrow> (\<And>k. k \<in> fst ` set r \<Longrightarrow> f k = k) \<Longrightarrow> map_of r k = Some v \<Longrightarrow>
     \<exists>w. normalize f v = Inr w \<and> map_of e k = Some w"
proof (induction r arbitrary: seen e)
  case (Cons kv r)
  obtain k' v' where kv: "kv = (k', v')" by (cases kv)
  have k': "f k' = k'" using Cons.prems(2) by (simp add: kv)
  with Cons.prems(1) obtain w e' where w: "normalize f v' = Inr w" "e = (k', w) # e'"
    and e': "normalize_items f (k' # seen) r = Inr e'"
    by (auto simp: kv bindR_Inr_iff split: if_splits)
  show ?case using Cons.IH[OF e'] Cons.prems(2,3) w by (cases "k = k'") (auto simp: kv)
qed simp

lemma py_key_str [simp]: "py_key v = JStr s \<longleftrightarrow> v = JStr s"
  by (cases v) auto

lemma py_eq_get:
  assumes "py_eq (JObj d) (JObj r)" and "distinct (map fst d)" and "distinct (map fst r)"
  shows "map_option py_key (map_of d k) = map_option py_key (map_of r k)"
proof -
  have get: "map_of (sort_key fst (map (\<lambda>kv. (fst kv, py_key (snd kv))) x)) k = map_option py_key (map_of x k)"
    if "distinct (map fst x)" for x
    using that by (simp add: map_of_sort_key o_def map_of_map_snd)
  from assms(1) have "sort_key fst (map (\<lambda>kv. (fst kv, py_key (snd kv))) d) =
      sort_key fst (map (\<lambda>kv. (fst kv, py_key (snd kv))) r)" by (simp only: py_eq_def py_key.simps json.inject)
  then show ?thesis using get[OF assms(2)] get[OF assms(3)] by simp
qed

text \<open>
  \<open>has_record L p r D\<close>: the file \<open>p\<close> holds the record \<open>r\<close>: its own canonical text, or that of a
  record equal to it. A string field of it reads back as it was, or in normal form.
\<close>

definition has_record :: "lib \<Rightarrow> path \<Rightarrow> dict \<Rightarrow> disk \<Rightarrow> bool" where
  "has_record L p r D \<longleftrightarrow> (\<exists>d. read_object_file L (d_files D) p = Inr d
     \<and> (py_eq (JObj d) (JObj r) \<or> (\<exists>e. normalize (nfc L) (JObj r) = Inr (JObj e) \<and> d = stored e)))"

lemma read_object_file_grows:
  "grows D D' \<Longrightarrow> read_object_file L (d_files D) p = Inr d \<Longrightarrow> read_object_file L (d_files D') p = Inr d"
  by (auto simp: read_object_file_def grows_def dest: map_le_Some split: option.splits)

lemma has_record_grows: "grows D D' \<Longrightarrow> has_record L p r D \<Longrightarrow> has_record L p r D'"
  unfolding has_record_def using read_object_file_grows by blast

lemma grows_get: "grows D D' \<Longrightarrow> map_of (d_files D) p = Some b \<Longrightarrow> map_of (d_files D') p = Some b"
  by (auto simp: grows_def dest: map_le_Some)

lemma record_field:
  assumes "has_record L p r D" and "lib_ok L" and "read_object_file L (d_files D) p = Inr d"
    and "distinct (map fst r)" and "list_all ascii (map fst r)" and "map_of r k = Some (JStr s)"
  shows "dget_null d k = JStr s \<or> dget_null d k = JStr (nfc L s)"
proof -
  from assms(3) obtain b where b: "object_of_bytes L b = Inr d"
    by (auto simp: read_object_file_def split: option.splits)
  note d = canonical_object(1)[OF b lib_okD(1)[OF assms(2)]]
  from assms(1,3) consider "py_eq (JObj d) (JObj r)" | e where "normalize (nfc L) (JObj r) = Inr (JObj e)" "d = stored e"
    by (auto simp: has_record_def)
  then show ?thesis
  proof cases
    case 1
    have "map_option py_key (map_of d k) = Some (JStr s)" using py_eq_get[OF 1 d assms(4)] assms(6) by simp
    then show ?thesis by (auto simp: dget_null_def)
  next
    case 2
    have keys: "nfc L x = x" if "x \<in> fst ` set r" for x
      using that assms(2,5) by (auto simp: lib_ok_def list_all_iff)
    from 2(1) have n: "normalize_items (nfc L) [] r = Inr e" by (auto simp: bindR_Inr_iff)
    have "distinct (map fst e)" using d by (simp add: 2(2))
    then show ?thesis using normalize_items_get[OF n keys assms(6)] by (simp add: 2(2) dget_stored) (auto simp: dget_null_def)
  qed
qed

section \<open>What a successful write leaves\<close>

lemma publish_bytes_Inr:
  "publish_bytes p b D = (D', Inr u) \<Longrightarrow> map_of (d_files D') p = Some b \<and> map_of (d_files D) p = None"
proof -
  assume "publish_bytes p b D = (D', Inr u)"
  then have l: "link_new p b (interfere (d_others D) (d_files D)) = (d_files D', Inr ())"
    by (cases "link_new p b (interfere (d_others D) (d_files D))") (auto simp: publish_bytes_def)
  have "map_of (d_files D) p = Some x \<Longrightarrow> map_of (interfere (d_others D) (d_files D)) p = Some x" for x
    by (rule map_le_Some[OF interfere_grows])
  with link_new_Inr[OF l] show ?thesis by (cases "map_of (d_files D) p") auto
qed

lemma free_publication:
  assumes "d_others D = []" and "\<not> under_file (d_files D) p" and "\<not> path_exists (d_files D) p"
  shows "publish_bytes p b D = (D\<lparr>d_files := d_files D @ [(p, b)]\<rparr>, Inr ())"
  using assms by (cases D) (simp add: publish_bytes_def interfere_def link_new_eq)

lemma free_json:
  assumes "d_others D = []" and "\<not> under_file (d_files D) p" and "\<not> path_exists (d_files D) p"
    and "canonical_bytes L v = Inr b"
  shows "publish_json L p v D = (D\<lparr>d_files := d_files D @ [(p, b)]\<rparr>, Inr ())"
  using free_publication[OF assms(1-3)] assms(4) by (simp add: publish_json_def op_defs)

lemma publish_json_Inr:
  assumes "publish_json L p v D = (D', Inr u)"
  obtains b where "canonical_bytes L v = Inr b" and "map_of (d_files D') p = Some b"
    and "map_of (d_files D) p = None"
  using assms unfolding publish_json_def by (elim bindS_InrE) (auto dest: publish_bytes_Inr)

lemma publish_json_taken:
  assumes "publish_json L p v D = (D', Inl (Coded ''immutable_file_exists''))"
  shows "path_exists (d_files D') p"
proof -
  from assms obtain b where "publish_bytes p b D = (D', Inl (Coded ''immutable_file_exists''))"
    using canonical_bytes_Inl[of L v "Coded ''immutable_file_exists''"]
    by (cases "canonical_bytes L v") (auto simp: publish_json_def op_defs)
  then show ?thesis
    by (auto simp: publish_bytes_def link_new_eq Let_def split: if_splits)
qed

lemma record_file:
  assumes "canonical_bytes L (JObj r) = Inr b" and "map_of (d_files D) p = Some b" and "nfc_ok L"
  shows "has_record L p r D"
  using object_round_trip[OF assms(1,3)] assms(2) by (auto simp: has_record_def read_object_file_def)

lemma published_record:
  assumes "publish_json L p (JObj r) D = (D', Inr u)" and "nfc_ok L"
  shows "has_record L p r D'"
proof -
  from assms(1) obtain b where "canonical_bytes L (JObj r) = Inr b" "map_of (d_files D') p = Some b"
    by (rule publish_json_Inr)
  then show ?thesis using assms(2) by (rule record_file)
qed

lemma read_object_Inr [simp]: "read_object L p D = (D', Inr d) \<longleftrightarrow> D' = D \<and> read_object_file L (d_files D) p = Inr d"
  by (auto simp: read_object_def)

lemma publish_checked_Inr:
  assumes "publish_checked L p r clash D = (D', Inr u)" and "nfc_ok L"
    and clash: "\<And>old s s' x. clash old s \<noteq> (s', Inr x)"
  shows "has_record L p r D'"
proof -
  let ?cmp = "bindS (read_object L p) (\<lambda>old. if py_eq (JObj old) (JObj r) then retS () else clash old)"
  have cmp: "has_record L p r s'" if "?cmp s = (s', Inr x)" for s s' x
    using that clash by (elim bindS_InrE) (auto simp: has_record_def split: if_splits)
  from assms(1) obtain there D1 where "existsS p D = (D1, Inr there)"
    and k: "(if there then ?cmp else catchS (publish_json L p (JObj r))
        (\<lambda>err. if err = Coded ''immutable_file_exists'' then ?cmp else raiseS err)) D1 = (D', Inr u)"
    unfolding publish_checked_def Let_def by (rule bindS_InrE)
  show ?thesis
  proof (cases there)
    case True
    with k show ?thesis by (auto intro: cmp)
  next
    case False
    with k have "catchS (publish_json L p (JObj r))
        (\<lambda>err. if err = Coded ''immutable_file_exists'' then ?cmp else raiseS err) D1 = (D', Inr u)" by simp
    then show ?thesis
    proof (cases rule: catchS_InrE)
      case returned
      then show ?thesis by (rule published_record[OF _ assms(2)])
    next
      case (raised e s')
      then show ?thesis by (auto intro: cmp split: if_splits)
    qed
  qed
qed

lemma record_once_Inr:
  assumes "record_once L p r c D = (D', Inr u)" and "nfc_ok L"
  shows "has_record L p r D'"
proof -
  from assms(1) obtain there D1 where "existsS p D = (D1, Inr there)"
    and k: "(if there then bindS (read_object L p) (\<lambda>old.
       if py_eq (JObj old) (JObj r) then retS () else raiseS (Coded c))
     else publish_json L p (JObj r)) D1 = (D', Inr u)"
    unfolding record_once_def by (rule bindS_InrE)
  show ?thesis
  proof (cases there)
    case True
    with k show ?thesis by (auto simp: has_record_def elim!: bindS_InrE split: if_splits)
  next
    case False
    with k have "publish_json L p (JObj r) D1 = (D', Inr u)" by simp
    then show ?thesis using assms(2) by (rule published_record)
  qed
qed

section \<open>Files written once, as a contract\<close>

text \<open>
  What claims and other unique records rely on: a file that is there stays, and a write succeeds
  only for the first writer.
\<close>

locale write_once =
  fixes lookup :: "'s \<Rightarrow> 'k \<Rightarrow> 'v option" and put :: "'k \<Rightarrow> 'v \<Rightarrow> ('s, unit) op"
  assumes keeps: "lookup s k = Some v \<Longrightarrow> lookup (fst (put k' v' s)) k = Some v"
    and wins: "put k v s = (s', Inr u) \<Longrightarrow> lookup s k = None \<and> lookup s' k = Some v"
begin

definition later :: "'s \<Rightarrow> 's \<Rightarrow> bool" where
  "later s t \<longleftrightarrow> (\<forall>k v. lookup s k = Some v \<longrightarrow> lookup t k = Some v)"

lemma later_refl: "later s s"
  by (simp add: later_def)

lemma later_trans: "later s t \<Longrightarrow> later t u \<Longrightarrow> later s u"
  by (simp add: later_def)

lemma later_put: "later s (fst (put k v s))"
  using keeps by (simp add: later_def)

lemma one_winner: "put k v s = (s', Inr u) \<Longrightarrow> later s' t \<Longrightarrow> put k w t \<noteq> (t', Inr u')"
  using wins by (metis later_def option.distinct(1))

lemma loser_raises: "lookup s k = Some v \<Longrightarrow> \<exists>s' e. put k w s = (s', Inl e)"
  using wins by (metis option.distinct(1) sum.exhaust surj_pair)

end

interpretation disk_files: write_once "\<lambda>D. map_of (d_files D)" publish_bytes
proof
  fix D :: disk and k v k' v'
  show "map_of (d_files D) k = Some v \<Longrightarrow> map_of (d_files (fst (publish_bytes k' v' D))) k = Some v"
    using immutable_publish(1)[of k' v'] unfolding immutable_def by (blast intro: grows_get)
next
  fix D D' :: disk and k v u
  show "publish_bytes k v D = (D', Inr u) \<Longrightarrow> map_of (d_files D) k = None \<and> map_of (d_files D') k = Some v"
    using publish_bytes_Inr by blast
qed

lemma later_grows: "disk_files.later D D' \<longleftrightarrow> grows D D'"
  by (force simp: disk_files.later_def grows_def map_le_def dom_def)

text \<open>\<open>read_canonical_file\<close> of the wake store: an object; the bytes need not be canonical.\<close>

definition read_dict_file :: "files \<Rightarrow> path \<Rightarrow> dict res" where
  "read_dict_file fs p = (case map_of fs p of
      None \<Rightarrow> Inl (Coded ''file_unreadable'')
    | Some b \<Rightarrow> bindR (loads_strict b) (\<lambda>v. case v of JObj d \<Rightarrow> Inr d | _ \<Rightarrow> Inl (Coded ''contract_type_invalid'')))"

definition read_dict :: "path \<Rightarrow> (disk, dict) op" where
  "read_dict p = (\<lambda>D. (D, read_dict_file (d_files D) p))"

lemma immutable_read_dict [immutable_intros]: "immutable (read_dict p)"
  by (simp add: immutable_def read_dict_def)

lemma published_dict:
  assumes "canonical_bytes L (JObj d) = Inr b" and "map_of fs p = Some b" and "nfc_ok L" and "fixed (nfc L) (JObj d)"
  shows "read_dict_file fs p = Inr (stored d)"
proof -
  obtain w where w: "normalize (nfc L) (JObj d) = Inr w" using assms(1) by (rule canonical_bytes_Inr)
  then have n: "normalize (nfc L) (JObj d) = Inr (JObj d)" using normalize_keeps(1)[OF w assms(4)] by simp
  from canonical_read_back(1)[OF assms(1,3) n] assms(2) show ?thesis by (simp add: read_dict_file_def)
qed

text \<open>\<open>encode("utf-8")\<close> of an id, before its key is computed.\<close>

definition encoded :: "string \<Rightarrow> (disk, unit) op" where
  "encoded s = (if utf8_valid s then retS () else raiseS UnicodeEncodeError)"

lemma immutable_encoded [immutable_intros]: "immutable (encoded s)"
  unfolding encoded_def by (intro immutable_intros)

end
