(* ===== verification/Fed_Models.thy ===== *)
theory Fed_Models
  imports Canonical
begin

text \<open>
  \<open>src/eml_pmw/federation/models.py\<close>: configuration, realm, replica and event, with the checks of
  their \<open>from_dict\<close> in the order of the code. Some fields are never checked for their declared type
  (\<open>event_id\<close>, \<open>subject_ref\<close>, ...): a value of another type there is answered by \<open>Untyped\<close>.
  The lemmas show that \<open>from_dict\<close> of \<open>to_dict\<close> gives back every valid event and that the digest
  of an event determines its canonical text.
\<close>

section \<open>Field checks\<close>

definition exact :: "string list \<Rightarrow> dict \<Rightarrow> unit res" where
  "exact allowed d =
     (if \<exists>k\<in>set (dkeys d). k \<notin> set allowed then Inl (Coded ''unknown_field'')
      else if \<exists>k\<in>set allowed. k \<notin> set (dkeys d) then Inl (Coded ''missing_field'')
      else Inr ())"

text \<open>\<open>value[f]\<close> of a field that the code takes as it is.\<close>

definition str_field :: "dict \<Rightarrow> string \<Rightarrow> string res" where
  "str_field d f = (case dget_null d f of JStr s \<Rightarrow> Inr s | _ \<Rightarrow> Inl (Untyped f))"

definition opt_field :: "dict \<Rightarrow> string \<Rightarrow> string option res" where
  "opt_field d f = (case dget_null d f of JStr s \<Rightarrow> Inr (Some s) | JNull \<Rightarrow> Inr None | _ \<Rightarrow> Inl (Untyped f))"

definition strs_field :: "dict \<Rightarrow> string \<Rightarrow> string list res" where
  "strs_field d f = (case dget_null d f of
      JList vs \<Rightarrow> if list_all is_str vs then Inr (map the_str vs) else Inl (Untyped f)
    | _ \<Rightarrow> Inl (Untyped f))"

definition dict_field :: "dict \<Rightarrow> string \<Rightarrow> dict res" where
  "dict_field d f = (case dget_null d f of JObj e \<Rightarrow> Inr e | _ \<Rightarrow> Inl (Untyped f))"

definition check :: "bool \<Rightarrow> string \<Rightarrow> unit res" where
  "check b code = (if b then Inr () else Inl (Coded code))"

text \<open>\<open>_unique_strings\<close>: a non-empty list of distinct non-empty strings.\<close>

definition unique_strings :: "json \<Rightarrow> string list res" where
  "unique_strings v = (case v of
      JList vs \<Rightarrow>
        if vs = [] \<or> \<not> list_all nonempty_str vs then Inl (Coded ''field_type_invalid'')
        else if \<not> distinct (map the_str vs) then Inl (Coded ''duplicate_list_item'')
        else Inr (map the_str vs)
    | _ \<Rightarrow> Inl (Coded ''field_type_invalid''))"

section \<open>Configuration\<close>

record FederationConfig =
  cfg_local_realm_id :: string
  cfg_local_replica_id :: string
  cfg_allowed_source_roots :: "string list"
  cfg_allowed_event_kinds :: "string list"
  cfg_authority_required_event_kinds :: "string list"
  cfg_allowed_authority_refs :: "string list"
  cfg_default_max_payload_bytes :: int
  cfg_hard_max_payload_bytes :: int
  cfg_strict_reparse_checks :: bool

definition CONFIG_FIELDS :: "string list" where
  "CONFIG_FIELDS = [''schema'', ''local_realm_id'', ''local_replica_id'', ''allowed_source_roots'',
     ''allowed_event_kinds'', ''authority_required_event_kinds'', ''allowed_authority_refs'',
     ''default_max_payload_bytes'', ''hard_max_payload_bytes'', ''strict_reparse_checks'']"

definition config_from_dict :: "dict \<Rightarrow> FederationConfig res" where
  "config_from_dict d =
     bindR (exact CONFIG_FIELDS d) (\<lambda>_.
     bindR (str_field d ''local_realm_id'') (\<lambda>realm.
     bindR (str_field d ''local_replica_id'') (\<lambda>replica.
     bindR (unique_strings (dget_null d ''allowed_source_roots'')) (\<lambda>roots.
     bindR (unique_strings (dget_null d ''allowed_event_kinds'')) (\<lambda>kinds.
     bindR (unique_strings (dget_null d ''authority_required_event_kinds'')) (\<lambda>required.
     bindR (unique_strings (dget_null d ''allowed_authority_refs'')) (\<lambda>authorities.
     let default_max = dget_null d ''default_max_payload_bytes'';
         hard_max = dget_null d ''hard_max_payload_bytes'';
         strict = dget_null d ''strict_reparse_checks''
     in bindR (check (dget_null d ''schema'' = JStr ''pmw-federation-config/v1'') ''schema_version_unsupported'') (\<lambda>_.
     bindR (check (set required \<subseteq> set kinds) ''authority_event_kind_not_allowed'') (\<lambda>_.
     bindR (check (is_int default_max \<and> is_int hard_max \<and> 0 < the_int default_max
          \<and> the_int default_max \<le> the_int hard_max \<and> the_int hard_max \<le> 4194304) ''payload_limit_invalid'') (\<lambda>_.
     bindR (check (is_bool strict) ''field_type_invalid'') (\<lambda>_.
     Inr \<lparr>cfg_local_realm_id = realm, cfg_local_replica_id = replica, cfg_allowed_source_roots = roots,
          cfg_allowed_event_kinds = kinds, cfg_authority_required_event_kinds = required,
          cfg_allowed_authority_refs = authorities, cfg_default_max_payload_bytes = the_int default_max,
          cfg_hard_max_payload_bytes = the_int hard_max, cfg_strict_reparse_checks = the_bool strict\<rparr>)))))))))))"

definition config_to_dict :: "FederationConfig \<Rightarrow> dict" where
  "config_to_dict c =
     [(''schema'', JStr ''pmw-federation-config/v1''),
      (''local_realm_id'', JStr (cfg_local_realm_id c)),
      (''local_replica_id'', JStr (cfg_local_replica_id c)),
      (''allowed_source_roots'', str_list_json (cfg_allowed_source_roots c)),
      (''allowed_event_kinds'', str_list_json (cfg_allowed_event_kinds c)),
      (''authority_required_event_kinds'', str_list_json (cfg_authority_required_event_kinds c)),
      (''allowed_authority_refs'', str_list_json (cfg_allowed_authority_refs c)),
      (''default_max_payload_bytes'', JInt (cfg_default_max_payload_bytes c)),
      (''hard_max_payload_bytes'', JInt (cfg_hard_max_payload_bytes c)),
      (''strict_reparse_checks'', JBool (cfg_strict_reparse_checks c))]"

section \<open>Events\<close>

record RealmRef =
  rm_realm_id :: string
  rm_realm_kind :: string
  rm_issuer :: string
  rm_verification_status :: string
  rm_evidence_refs :: "string list"

record ReplicaRef =
  rp_replica_id :: string
  rp_realm_id :: string
  rp_store_generation :: string
  rp_verification_status :: string
  rp_evidence_refs :: "string list"

record FederatedEvent =
  fe_event_id :: string
  fe_event_kind :: string
  fe_subject_ref :: string
  fe_realm_ref :: RealmRef
  fe_replica_ref :: ReplicaRef
  fe_replica_seq :: int
  fe_causal_parents :: "string list"
  fe_claimed_actor_ref :: "string option"
  fe_claimed_instance_ref :: "string option"
  fe_authority_ref :: "string option"
  fe_payload_ref :: string
  fe_payload_sha256 :: string
  fe_payload_media_type :: string
  fe_fabric_payload_class :: string
  fe_created_time_ref :: "string option"
  fe_temporal_evidence_status :: string
  fe_local_recorded_at :: string
  fe_correction_of :: "string option"
  fe_withdraws :: "string option"
  fe_not_claimed :: "string list"

definition REALM_FIELDS :: "string list" where
  "REALM_FIELDS = [''realm_id'', ''realm_kind'', ''issuer'', ''verification_status'', ''evidence_refs'']"

definition REPLICA_FIELDS :: "string list" where
  "REPLICA_FIELDS = [''replica_id'', ''realm_id'', ''store_generation'', ''verification_status'', ''evidence_refs'']"

definition EVENT_FIELDS :: "string list" where
  "EVENT_FIELDS = [''schema'', ''event_id'', ''event_kind'', ''subject_ref'', ''realm_ref'', ''replica_ref'',
     ''replica_seq'', ''causal_parents'', ''claimed_actor_ref'', ''claimed_instance_ref'', ''authority_ref'',
     ''payload_ref'', ''payload_sha256'', ''payload_media_type'', ''fabric_payload_class'',
     ''created_time_ref'', ''temporal_evidence_status'', ''local_recorded_at'', ''correction_of'',
     ''withdraws'', ''not_claimed'']"

definition REQUIRED_NONCLAIMS :: "string list" where
  "REQUIRED_NONCLAIMS = [''actor_authorship_verified'', ''resident_identity_continuity'',
     ''global_causal_order'', ''remote_adoption'', ''authority_to_execute'', ''payload_understood'',
     ''conflict_resolved'']"

definition realm_from_dict :: "dict \<Rightarrow> RealmRef res" where
  "realm_from_dict d =
     bindR (exact REALM_FIELDS d) (\<lambda>_.
     bindR (str_field d ''realm_id'') (\<lambda>realm_id.
     bindR (str_field d ''realm_kind'') (\<lambda>kind.
     bindR (str_field d ''issuer'') (\<lambda>issuer.
     bindR (str_field d ''verification_status'') (\<lambda>status.
     bindR (strs_field d ''evidence_refs'') (\<lambda>evidence.
     bindR (check (kind \<in> {''windows_host'', ''cloud_host'', ''hdus_host'', ''embodied_host'', ''fixture''})
              ''realm_kind_invalid'') (\<lambda>_.
     bindR (check (\<not> (status \<in> {''verified'', ''observed''} \<and> evidence = []))
              ''reference_evidence_missing'') (\<lambda>_.
     Inr \<lparr>rm_realm_id = realm_id, rm_realm_kind = kind, rm_issuer = issuer,
          rm_verification_status = status, rm_evidence_refs = evidence\<rparr>))))))))"

definition replica_from_dict :: "dict \<Rightarrow> ReplicaRef res" where
  "replica_from_dict d =
     bindR (exact REPLICA_FIELDS d) (\<lambda>_.
     bindR (str_field d ''replica_id'') (\<lambda>replica_id.
     bindR (str_field d ''realm_id'') (\<lambda>realm_id.
     bindR (str_field d ''store_generation'') (\<lambda>generation.
     bindR (str_field d ''verification_status'') (\<lambda>status.
     bindR (strs_field d ''evidence_refs'') (\<lambda>evidence.
     bindR (check (\<not> (status \<in> {''verified'', ''observed''} \<and> evidence = []))
              ''reference_evidence_missing'') (\<lambda>_.
     Inr \<lparr>rp_replica_id = replica_id, rp_realm_id = realm_id, rp_store_generation = generation,
          rp_verification_status = status, rp_evidence_refs = evidence\<rparr>)))))))"

text \<open>\<open>^ctcl:instant:[0-9a-f-]{36}$\<close> with \<open>IGNORECASE\<close>, matched in full.\<close>

definition is_ctcl :: "string \<Rightarrow> bool" where
  "is_ctcl s = (let cs = chars s; p = ''ctcl:instant:''
     in length cs = length p + 36 \<and> list_all2 folds_to p (take (length p) cs)
        \<and> list_all (\<lambda>x. case x of [c] \<Rightarrow> is_hex_any c \<or> c = CHR ''-'' | _ \<Rightarrow> False) (drop (length p) cs))"

definition is_hex64 :: "string \<Rightarrow> bool" where
  "is_hex64 s = (length s = 64 \<and> list_all is_hex_upper s)"

text \<open>The checks on the fields of an event, after it has been built.\<close>

definition temporal_check :: "string \<Rightarrow> string option \<Rightarrow> unit res" where
  "temporal_check status time_ref =
     (if status = ''registered_anchor''
      then check (case time_ref of None \<Rightarrow> False | Some r \<Rightarrow> is_ctcl r) ''temporal_evidence_mismatch''
      else if status = ''unavailable'' \<or> status = ''unmeasured''
      then check (time_ref = None) ''temporal_evidence_mismatch''
      else Inl (Coded ''temporal_evidence_status_invalid''))"

definition event_checks :: "FederatedEvent \<Rightarrow> unit res" where
  "event_checks e =
     bindR (check (1 \<le> fe_replica_seq e) ''replica_seq_invalid'') (\<lambda>_.
     bindR (check (rm_realm_id (fe_realm_ref e) = rp_realm_id (fe_replica_ref e)) ''event_realm_replica_mismatch'') (\<lambda>_.
     bindR (check (distinct (fe_causal_parents e) \<and> fe_event_id e \<notin> set (fe_causal_parents e))
              ''causal_parents_invalid'') (\<lambda>_.
     bindR (check (is_hex64 (fe_payload_sha256 e)) ''payload_digest_invalid'') (\<lambda>_.
     bindR (check (startswith (fe_payload_ref e) ''payloads/'' \<and> \<not> contains (fe_payload_ref e) ''..''
              \<and> \<not> contains (fe_payload_ref e) [CHR 0x5C]) ''payload_ref_invalid'') (\<lambda>_.
     bindR (check (fe_payload_media_type e \<in> {''application/json'', ''text/markdown'', ''text/plain''})
              ''payload_media_type_invalid'') (\<lambda>_.
     bindR (check (fe_fabric_payload_class e \<in> {''P0'', ''P1''}) ''fabric_payload_class_invalid'') (\<lambda>_.
     bindR (temporal_check (fe_temporal_evidence_status e) (fe_created_time_ref e)) (\<lambda>_.
     check (set REQUIRED_NONCLAIMS \<subseteq> set (fe_not_claimed e)) ''not_claimed_incomplete''))))))))"

definition event_from_dict :: "dict \<Rightarrow> FederatedEvent res" where
  "event_from_dict d =
     bindR (exact EVENT_FIELDS d) (\<lambda>_.
     bindR (str_field d ''event_id'') (\<lambda>event_id.
     bindR (str_field d ''event_kind'') (\<lambda>kind.
     bindR (str_field d ''subject_ref'') (\<lambda>subject.
     bindR (bindR (dict_field d ''realm_ref'') realm_from_dict) (\<lambda>realm.
     bindR (bindR (dict_field d ''replica_ref'') replica_from_dict) (\<lambda>replica.
     bindR (strs_field d ''causal_parents'') (\<lambda>parents.
     bindR (opt_field d ''claimed_actor_ref'') (\<lambda>actor.
     bindR (opt_field d ''claimed_instance_ref'') (\<lambda>instance_ref.
     bindR (opt_field d ''authority_ref'') (\<lambda>authority.
     bindR (str_field d ''payload_ref'') (\<lambda>payload_ref.
     bindR (str_field d ''payload_sha256'') (\<lambda>sha.
     bindR (str_field d ''payload_media_type'') (\<lambda>media.
     bindR (str_field d ''fabric_payload_class'') (\<lambda>payload_class.
     bindR (opt_field d ''created_time_ref'') (\<lambda>time_ref.
     bindR (str_field d ''temporal_evidence_status'') (\<lambda>temporal.
     bindR (str_field d ''local_recorded_at'') (\<lambda>recorded.
     bindR (opt_field d ''correction_of'') (\<lambda>correction.
     bindR (opt_field d ''withdraws'') (\<lambda>withdraws.
     bindR (strs_field d ''not_claimed'') (\<lambda>not_claimed.
     bindR (check (dget_null d ''schema'' = JStr ''pmw-federated-event/v1'') ''schema_version_unsupported'') (\<lambda>_.
     bindR (check (is_int (dget_null d ''replica_seq'')) ''replica_seq_invalid'') (\<lambda>_.
     let e = \<lparr>fe_event_id = event_id, fe_event_kind = kind, fe_subject_ref = subject, fe_realm_ref = realm,
          fe_replica_ref = replica, fe_replica_seq = the_int (dget_null d ''replica_seq''),
          fe_causal_parents = parents, fe_claimed_actor_ref = actor, fe_claimed_instance_ref = instance_ref,
          fe_authority_ref = authority, fe_payload_ref = payload_ref, fe_payload_sha256 = sha,
          fe_payload_media_type = media, fe_fabric_payload_class = payload_class,
          fe_created_time_ref = time_ref, fe_temporal_evidence_status = temporal,
          fe_local_recorded_at = recorded, fe_correction_of = correction, fe_withdraws = withdraws,
          fe_not_claimed = not_claimed\<rparr>
     in bindR (event_checks e) (\<lambda>_. Inr e)))))))))))))))))))))))"

definition realm_to_dict :: "RealmRef \<Rightarrow> dict" where
  "realm_to_dict r = [(''realm_id'', JStr (rm_realm_id r)), (''realm_kind'', JStr (rm_realm_kind r)),
     (''issuer'', JStr (rm_issuer r)), (''verification_status'', JStr (rm_verification_status r)),
     (''evidence_refs'', str_list_json (rm_evidence_refs r))]"

definition replica_to_dict :: "ReplicaRef \<Rightarrow> dict" where
  "replica_to_dict r = [(''replica_id'', JStr (rp_replica_id r)), (''realm_id'', JStr (rp_realm_id r)),
     (''store_generation'', JStr (rp_store_generation r)),
     (''verification_status'', JStr (rp_verification_status r)),
     (''evidence_refs'', str_list_json (rp_evidence_refs r))]"

definition event_to_dict :: "FederatedEvent \<Rightarrow> dict" where
  "event_to_dict e =
     [(''schema'', JStr ''pmw-federated-event/v1''),
      (''event_id'', JStr (fe_event_id e)),
      (''event_kind'', JStr (fe_event_kind e)),
      (''subject_ref'', JStr (fe_subject_ref e)),
      (''realm_ref'', JObj (realm_to_dict (fe_realm_ref e))),
      (''replica_ref'', JObj (replica_to_dict (fe_replica_ref e))),
      (''replica_seq'', JInt (fe_replica_seq e)),
      (''causal_parents'', str_list_json (fe_causal_parents e)),
      (''claimed_actor_ref'', opt_json (fe_claimed_actor_ref e)),
      (''claimed_instance_ref'', opt_json (fe_claimed_instance_ref e)),
      (''authority_ref'', opt_json (fe_authority_ref e)),
      (''payload_ref'', JStr (fe_payload_ref e)),
      (''payload_sha256'', JStr (fe_payload_sha256 e)),
      (''payload_media_type'', JStr (fe_payload_media_type e)),
      (''fabric_payload_class'', JStr (fe_fabric_payload_class e)),
      (''created_time_ref'', opt_json (fe_created_time_ref e)),
      (''temporal_evidence_status'', JStr (fe_temporal_evidence_status e)),
      (''local_recorded_at'', JStr (fe_local_recorded_at e)),
      (''correction_of'', opt_json (fe_correction_of e)),
      (''withdraws'', opt_json (fe_withdraws e)),
      (''not_claimed'', str_list_json (fe_not_claimed e))]"

text \<open>
  The digest of an event. \<open>encodable\<close> says that its canonical text exists: a lone surrogate in a
  field has none, and the operations of the store answer \<open>Untyped\<close> for such an event.
\<close>

definition encodable :: "lib \<Rightarrow> FederatedEvent \<Rightarrow> bool" where
  "encodable L e = (case canonical_bytes L (JObj (event_to_dict e)) of Inl _ \<Rightarrow> False | Inr _ \<Rightarrow> True)"

definition core_digest :: "lib \<Rightarrow> FederatedEvent \<Rightarrow> string" where
  "core_digest L e = (case event_digest L (JObj (event_to_dict e)) of Inl _ \<Rightarrow> [] | Inr d \<Rightarrow> d)"

section \<open>Stored events\<close>

text \<open>A stored event is the same event: the order of the keys does not matter to \<open>from_dict\<close>.\<close>

lemma exact_stored [simp]: "exact allowed (stored d) = exact allowed d"
  by (simp only: exact_def dkeys_def stored_keys)

lemma field_stored:
  assumes "distinct (map fst d)"
  shows "str_field (stored d) f = str_field d f" and "opt_field (stored d) f = opt_field d f"
    and "strs_field (stored d) f = strs_field d f"
    and "dict_field (stored d) f = map_sum id stored (dict_field d f)"
proof -
  have s: "is_str (sort_keys v) = is_str v" "the_str (sort_keys v) = the_str v" for v
    by (cases v; simp add: json_tests)+
  show "str_field (stored d) f = str_field d f" "opt_field (stored d) f = opt_field d f"
    by (simp_all add: str_field_def opt_field_def dget_stored[OF assms] split: json.split)
  show "strs_field (stored d) f = strs_field d f"
    by (simp add: strs_field_def dget_stored[OF assms] list_all_iff s split: json.split)
  show "dict_field (stored d) f = map_sum id stored (dict_field d f)"
    by (cases "dget_null d f") (simp_all add: dict_field_def dget_stored[OF assms])
qed

lemma realm_stored: "distinct (map fst d) \<Longrightarrow> realm_from_dict (stored d) = realm_from_dict d"
  by (simp add: realm_from_dict_def field_stored)

lemma replica_stored: "distinct (map fst d) \<Longrightarrow> replica_from_dict (stored d) = replica_from_dict d"
  by (simp add: replica_from_dict_def field_stored)

text \<open>Dicts of Python have distinct keys at every level.\<close>

lemma event_stored:
  assumes d: "distinct (map fst d)"
    and n: "\<And>e f. dget_null d f = JObj e \<Longrightarrow> distinct (map fst e)"
  shows "event_from_dict (stored d) = event_from_dict d"
proof -
  have e: "distinct (map fst e)" if "dict_field d f = Inr e" for e f
    using that n[of f] by (cases "dget_null d f") (simp_all add: dict_field_def)
  have r: "bindR (dict_field (stored d) f) realm_from_dict = bindR (dict_field d f) realm_from_dict"
    and p: "bindR (dict_field (stored d) f) replica_from_dict = bindR (dict_field d f) replica_from_dict" for f
    using e[of f] by (cases "dict_field d f"; simp add: field_stored(4)[OF d] realm_stored replica_stored)+
  have k: "dget_null (stored d) f = JStr s \<longleftrightarrow> dget_null d f = JStr s"
    "is_int (dget_null (stored d) f) = is_int (dget_null d f)" "the_int (dget_null (stored d) f) = the_int (dget_null d f)"
    for f s
    by (cases "dget_null d f"; simp add: dget_stored[OF d] json_tests)+
  show ?thesis
    unfolding event_from_dict_def exact_stored field_stored(1-3)[OF d] r p k ..
qed

definition realm_ok :: "RealmRef \<Rightarrow> bool" where
  "realm_ok r \<longleftrightarrow> rm_realm_kind r \<in> {''windows_host'', ''cloud_host'', ''hdus_host'', ''embodied_host'', ''fixture''}
     \<and> \<not> (rm_verification_status r \<in> {''verified'', ''observed''} \<and> rm_evidence_refs r = [])"

definition replica_ok :: "ReplicaRef \<Rightarrow> bool" where
  "replica_ok r \<longleftrightarrow> \<not> (rp_verification_status r \<in> {''verified'', ''observed''} \<and> rp_evidence_refs r = [])"

definition event_ok :: "FederatedEvent \<Rightarrow> bool" where
  "event_ok e \<longleftrightarrow> realm_ok (fe_realm_ref e) \<and> replica_ok (fe_replica_ref e) \<and> event_checks e = Inr ()"

lemma check_Inr [simp]: "check b c = Inr u \<longleftrightarrow> b"
  by (simp add: check_def)

lemma realm_from_dict_ok: "realm_from_dict d = Inr r \<Longrightarrow> realm_ok r"
  by (auto simp: realm_from_dict_def bindR_Inr_iff realm_ok_def)

lemma replica_from_dict_ok: "replica_from_dict d = Inr r \<Longrightarrow> replica_ok r"
  by (auto simp: replica_from_dict_def bindR_Inr_iff replica_ok_def)

lemma event_from_dict_ok: "event_from_dict d = Inr e \<Longrightarrow> event_ok e"
  unfolding event_from_dict_def Let_def
  by (elim bindR_InrE) (auto simp: event_ok_def dest: realm_from_dict_ok replica_from_dict_ok)

lemma strs_json_field: "dget_null d f = str_list_json xs \<Longrightarrow> strs_field d f = Inr xs"
  by (simp add: strs_field_def str_list_json_def list_all_iff json_tests o_def)

lemma opt_json_field: "dget_null d f = opt_json x \<Longrightarrow> opt_field d f = Inr x"
  by (simp add: opt_field_def opt_json_def split: option.splits)

lemma realm_parse: "realm_ok r \<Longrightarrow> realm_from_dict (realm_to_dict r) = Inr r"
  by (cases r) (simp add: realm_from_dict_def realm_to_dict_def exact_def dkeys_def REALM_FIELDS_def
      str_field_def strs_json_field dget_null_def realm_ok_def check_def)

lemma replica_parse: "replica_ok r \<Longrightarrow> replica_from_dict (replica_to_dict r) = Inr r"
  by (cases r) (simp add: replica_from_dict_def replica_to_dict_def exact_def dkeys_def REPLICA_FIELDS_def
      str_field_def strs_json_field dget_null_def replica_ok_def check_def)

lemma event_to_dict_keys: "map fst (event_to_dict e) = EVENT_FIELDS"
  by (simp add: event_to_dict_def EVENT_FIELDS_def)

lemma exact_event: "exact EVENT_FIELDS (event_to_dict e) = Inr ()"
  by (simp add: exact_def dkeys_def event_to_dict_keys)

lemma event_fields:
  "dget_null (event_to_dict e) ''schema'' = JStr ''pmw-federated-event/v1''"
  "dget_null (event_to_dict e) ''replica_seq'' = JInt (fe_replica_seq e)"
  "str_field (event_to_dict e) ''event_id'' = Inr (fe_event_id e)"
  "str_field (event_to_dict e) ''event_kind'' = Inr (fe_event_kind e)"
  "str_field (event_to_dict e) ''subject_ref'' = Inr (fe_subject_ref e)"
  "dict_field (event_to_dict e) ''realm_ref'' = Inr (realm_to_dict (fe_realm_ref e))"
  "dict_field (event_to_dict e) ''replica_ref'' = Inr (replica_to_dict (fe_replica_ref e))"
  "strs_field (event_to_dict e) ''causal_parents'' = Inr (fe_causal_parents e)"
  "opt_field (event_to_dict e) ''claimed_actor_ref'' = Inr (fe_claimed_actor_ref e)"
  "opt_field (event_to_dict e) ''claimed_instance_ref'' = Inr (fe_claimed_instance_ref e)"
  "opt_field (event_to_dict e) ''authority_ref'' = Inr (fe_authority_ref e)"
  "str_field (event_to_dict e) ''payload_ref'' = Inr (fe_payload_ref e)"
  "str_field (event_to_dict e) ''payload_sha256'' = Inr (fe_payload_sha256 e)"
  "str_field (event_to_dict e) ''payload_media_type'' = Inr (fe_payload_media_type e)"
  "str_field (event_to_dict e) ''fabric_payload_class'' = Inr (fe_fabric_payload_class e)"
  "opt_field (event_to_dict e) ''created_time_ref'' = Inr (fe_created_time_ref e)"
  "str_field (event_to_dict e) ''temporal_evidence_status'' = Inr (fe_temporal_evidence_status e)"
  "str_field (event_to_dict e) ''local_recorded_at'' = Inr (fe_local_recorded_at e)"
  "opt_field (event_to_dict e) ''correction_of'' = Inr (fe_correction_of e)"
  "opt_field (event_to_dict e) ''withdraws'' = Inr (fe_withdraws e)"
  "strs_field (event_to_dict e) ''not_claimed'' = Inr (fe_not_claimed e)"
  by (simp_all add: str_field_def dict_field_def strs_json_field opt_json_field dget_null_def event_to_dict_def)

lemma event_parse:
  assumes "event_ok e"
  shows "event_from_dict (event_to_dict e) = Inr e"
proof -
  have "1 \<le> fe_replica_seq e" and c: "event_checks e = Inr ()"
    and r: "realm_ok (fe_realm_ref e)" "replica_ok (fe_replica_ref e)"
    using assms by (auto simp: event_ok_def event_checks_def bindR_Inr_iff)
  then show ?thesis
    by (cases e) (simp add: event_from_dict_def event_fields exact_event realm_parse replica_parse check_def json_tests Let_def)
qed

lemma event_parse_stored:
  assumes "event_ok e"
  shows "event_from_dict (stored (event_to_dict e)) = Inr e"
proof -
  have n: "distinct (map fst d)" if "dget_null (event_to_dict e) f = JObj d" for d f
    using that by (auto simp: dget_null_def event_to_dict_def realm_to_dict_def replica_to_dict_def opt_json_def
        str_list_json_def split: if_splits option.splits)
  have "distinct (map fst (event_to_dict e))" by (simp add: event_to_dict_keys EVENT_FIELDS_def)
  from event_stored[OF this n] show ?thesis using event_parse[OF assms] by simp
qed

text \<open>
  An event that was read can be written and read again: \<open>from_dict\<close> accepts \<open>to_dict\<close> of every
  event that \<open>from_dict\<close> ever built, also with its keys sorted as the store keeps them, and gives
  back the same event.
\<close>

theorem event_round_trip:
  assumes "event_from_dict d = Inr e"
  shows "event_from_dict (event_to_dict e) = Inr e \<and> event_from_dict (stored (event_to_dict e)) = Inr e"
  using event_parse event_parse_stored event_from_dict_ok[OF assms] by blast

section \<open>An event and a configuration\<close>

definition sample_event :: "string \<Rightarrow> int \<Rightarrow> string list \<Rightarrow> FederatedEvent" where
  "sample_event eid n parents =
     \<lparr>fe_event_id = eid, fe_event_kind = ''pmw.task.field_set'', fe_subject_ref = ''pmw-task:fixture'',
      fe_realm_ref = \<lparr>rm_realm_id = ''realm:a'', rm_realm_kind = ''fixture'', rm_issuer = ''fixture'',
        rm_verification_status = ''verified'', rm_evidence_refs = [''fixture:realm'']\<rparr>,
      fe_replica_ref = \<lparr>rp_replica_id = ''replica:a'', rp_realm_id = ''realm:a'',
        rp_store_generation = ''generation:1'', rp_verification_status = ''verified'',
        rp_evidence_refs = [''fixture:replica'']\<rparr>,
      fe_replica_seq = n, fe_causal_parents = parents, fe_claimed_actor_ref = Some ''actor:fixture'',
      fe_claimed_instance_ref = Some ''instance:fixture'', fe_authority_ref = Some ''authority:fixture'',
      fe_payload_ref = ''payloads/'' @ eid @ ''.json'', fe_payload_sha256 = replicate 64 CHR ''0'',
      fe_payload_media_type = ''application/json'', fe_fabric_payload_class = ''P0'',
      fe_created_time_ref = None, fe_temporal_evidence_status = ''unavailable'',
      fe_local_recorded_at = ''2026-08-25T00:00:00Z'', fe_correction_of = None, fe_withdraws = None,
      fe_not_claimed = REQUIRED_NONCLAIMS\<rparr>"

definition sample_config :: FederationConfig where
  "sample_config = \<lparr>cfg_local_realm_id = ''realm:a'', cfg_local_replica_id = ''replica:a'',
     cfg_allowed_source_roots = [''fixture''], cfg_allowed_event_kinds = [''pmw.task.field_set'', ''pmw.conflict.resolution''],
     cfg_authority_required_event_kinds = [''pmw.task.field_set''], cfg_allowed_authority_refs = [''authority:fixture''],
     cfg_default_max_payload_bytes = 65536, cfg_hard_max_payload_bytes = 1048576, cfg_strict_reparse_checks = True\<rparr>"

theorem event_round_trip_witness:
  "event_from_dict (event_to_dict (sample_event ''b'' 2 [''a''])) = Inr (sample_event ''b'' 2 [''a''])"
proof -
  have "event_from_dict (event_to_dict (sample_event ''b'' 2 [''a''])) = Inr (sample_event ''b'' 2 [''a''])"
    by code_simp
  from event_round_trip[OF this] show ?thesis by (rule conjunct1)
qed

end
