(* ===== verification/Fed_Causal.thy ===== *)
theory Fed_Causal
  imports Fed_Models
begin

text \<open>
  \<open>src/eml_pmw/federation/causal.py\<close>: the causal graph of a set of events. The depth-first search for
  a cycle and the worklist search for an ancestor are written as the code runs them, with their
  stack, visited set and pending list; the locale \<open>finite_graph\<close> proves them against reachability,
  and it is interpreted on the parents of the stored events.
\<close>

section \<open>Searches\<close>

text \<open>
  \<open>visit\<close> of \<open>_cycle\<close>: \<open>Some (visited, found)\<close>, or \<open>None\<close> out of fuel. The set \<open>visiting\<close> of the code
  always holds the elements of \<open>stack\<close>. One unit of fuel for each node that is not on the stack is
  enough (\<open>visit_post\<close>).
\<close>

function visit :: "nat \<Rightarrow> ('a \<Rightarrow> 'a list) \<Rightarrow> 'a list \<Rightarrow> 'a list \<Rightarrow> 'a \<Rightarrow> ('a list \<times> 'a list) option"
  and visit_all :: "nat \<Rightarrow> ('a \<Rightarrow> 'a list) \<Rightarrow> 'a list \<Rightarrow> 'a list \<Rightarrow> 'a list \<Rightarrow> ('a list \<times> 'a list) option" where
  "visit 0 succ stack visited x = None"
| "visit (Suc n) succ stack visited x =
     (if x \<in> set visited then Some (visited, [])
      else if x \<in> set stack then Some (visited, dropWhile (\<lambda>y. y \<noteq> x) stack @ [x])
      else (case visit_all n succ (stack @ [x]) visited (succ x) of
          None \<Rightarrow> None
        | Some (visited', found) \<Rightarrow>
            if found \<noteq> [] then Some (visited', found) else Some (x # visited', [])))"
| "visit_all n succ stack visited [] = Some (visited, [])"
| "visit_all n succ stack visited (x # xs) =
     (case visit n succ stack visited x of
        None \<Rightarrow> None
      | Some (visited', found) \<Rightarrow>
          if found \<noteq> [] then Some (visited', found) else visit_all n succ stack visited' xs)"
  by pat_completeness auto
termination
  by (relation "measures [\<lambda>x. case x of Inl (n, _) \<Rightarrow> 2 * n | Inr (n, _) \<Rightarrow> 2 * n + 1,
       \<lambda>x. case x of Inl _ \<Rightarrow> 0 | Inr (_, _, _, _, xs) \<Rightarrow> length xs]") auto

text \<open>\<open>_is_ancestor\<close>: the end of the pending list of the code is the head of the list here.\<close>

function ancestor_search :: "('a \<Rightarrow> 'a list) \<Rightarrow> 'a list \<Rightarrow> 'a \<Rightarrow> 'a list \<Rightarrow> 'a list \<Rightarrow> bool" where
  "ancestor_search succ keys goal visited [] = False"
| "ancestor_search succ keys goal visited (c # pending) =
     (if c = goal then True
      else if c \<in> set visited \<or> c \<notin> set keys then ancestor_search succ keys goal visited pending
      else ancestor_search succ keys goal (c # visited) (rev (succ c) @ pending))"
  by pat_completeness auto
termination
proof (relation "measures [\<lambda>(_, keys, _, visited, _). card (set keys - set visited), \<lambda>(_, _, _, _, p). length p]",
    goal_cases)
  case (3 succ keys goal visited c pending)
  then have "set keys - set (c # visited) \<subset> set keys - set visited" by auto
  then have "card (set keys - set (c # visited)) < card (set keys - set visited)"
    by (intro psubset_card_mono) auto
  then show ?case by simp
qed simp_all

definition edges :: "'a list \<Rightarrow> ('a \<Rightarrow> 'a list) \<Rightarrow> ('a \<times> 'a) set" where
  "edges keys succ = {(x, y). x \<in> set keys \<and> y \<in> set (succ x)}"

locale finite_graph =
  fixes nodes :: "'a list" and succ :: "'a \<Rightarrow> 'a list"
  assumes closed: "x \<in> set nodes \<Longrightarrow> set (succ x) \<subseteq> set nodes"
begin

definition E :: "('a \<times> 'a) set" where
  "E = edges nodes succ"

text \<open>A closed walk, as the code reports it: its first node again at the end.\<close>

definition closed_walk :: "'a list \<Rightarrow> bool" where
  "closed_walk w \<longleftrightarrow> 2 \<le> length w \<and> hd w = last w \<and> set w \<subseteq> set nodes
     \<and> (\<forall>i. Suc i < length w \<longrightarrow> (w ! i, w ! Suc i) \<in> E)"

definition chain :: "'a list \<Rightarrow> bool" where
  "chain w \<longleftrightarrow> set w \<subseteq> set nodes \<and> distinct w \<and> (\<forall>i. Suc i < length w \<longrightarrow> (w ! i, w ! Suc i) \<in> E)"

text \<open>The finished nodes: closed under edges and on no cycle.\<close>

definition finished :: "'a set \<Rightarrow> bool" where
  "finished V \<longleftrightarrow> (\<forall>x\<in>V. set (succ x) \<subseteq> V \<and> (x, x) \<notin> E\<^sup>+)"

lemma finished_reach: "(x, y) \<in> E\<^sup>+ \<Longrightarrow> finished V \<Longrightarrow> x \<in> V \<Longrightarrow> y \<in> V"
  by (induction rule: trancl_induct) (auto simp: finished_def E_def edges_def)

lemma finished_insert:
  assumes V: "finished V" and x: "x \<notin> V" and s: "set (succ x) \<subseteq> V"
  shows "finished (insert x V)"
proof -
  have "(x, x) \<notin> E\<^sup>+"
  proof
    assume "(x, x) \<in> E\<^sup>+"
    then obtain y where y: "(x, y) \<in> E" "(y, x) \<in> E\<^sup>*" by (metis tranclD)
    then have "y \<in> V" using s by (auto simp: E_def edges_def)
    with y(2) V x show False by (auto simp: rtrancl_eq_or_trancl dest: finished_reach)
  qed
  with assms show ?thesis by (auto simp: finished_def)
qed

lemma chain_snoc:
  assumes "chain stack" and "x \<in> set nodes" and "x \<notin> set stack" and "stack \<noteq> [] \<Longrightarrow> (last stack, x) \<in> E"
  shows "chain (stack @ [x])"
proof -
  have "((stack @ [x]) ! i, (stack @ [x]) ! Suc i) \<in> E" if "Suc i < length (stack @ [x])" for i
  proof (cases "Suc i < length stack")
    case True
    then show ?thesis using assms(1) by (simp add: chain_def nth_append)
  next
    case False
    with that have i: "i = length stack - 1" "stack \<noteq> []" by auto
    then show ?thesis using assms(4) by (simp add: nth_append last_conv_nth)
  qed
  then show ?thesis using assms by (simp add: chain_def)
qed

lemma cycle_found:
  assumes "chain stack" and "x \<in> set stack" and "(last stack, x) \<in> E"
  shows "closed_walk (dropWhile (\<lambda>y. y \<noteq> x) stack @ [x])"
proof -
  let ?w = "dropWhile (\<lambda>y. y \<noteq> x) stack"
  obtain ys where ys: "stack = ys @ ?w" by (metis takeWhile_dropWhile_id)
  have w: "?w \<noteq> []" "hd ?w = x"
    using assms(2) hd_dropWhile[of "\<lambda>y. y \<noteq> x" stack] by (auto simp: dropWhile_eq_Nil_conv)
  have sub: "set ?w \<subseteq> set nodes" using assms(1) set_dropWhileD by (fastforce simp: chain_def)
  have step: "(?w ! i, ?w ! Suc i) \<in> E" if "Suc i < length ?w" for i
  proof -
    have "(stack ! (length ys + i), stack ! Suc (length ys + i)) \<in> E"
      using assms(1) that ys by (metis add_Suc_right chain_def length_append nat_add_left_cancel_less)
    then show ?thesis using ys by (metis add_Suc_right nth_append_length_plus)
  qed
  have "last ?w = last stack" using ys w(1) by (metis last_appendR)
  then have "((?w @ [x]) ! i, (?w @ [x]) ! Suc i) \<in> E" if "Suc i < length (?w @ [x])" for i
  proof (cases "Suc i < length ?w")
    case True
    then show ?thesis using step[of i] by (simp add: nth_append)
  next
    case False
    with that have i: "Suc i = length ?w" by simp
    then have "?w ! i = last ?w" using w(1) by (metis diff_Suc_1 last_conv_nth)
    then show ?thesis using i assms(3) \<open>last ?w = last stack\<close> by (simp add: nth_append)
  qed
  then show ?thesis using w sub assms(2) assms(1)
    by (auto simp: closed_walk_def Suc_le_eq chain_def)
qed

definition start_ok :: "nat \<Rightarrow> 'a list \<Rightarrow> 'a list \<Rightarrow> bool" where
  "start_ok n stack visited \<longleftrightarrow> chain stack \<and> set stack \<inter> set visited = {} \<and> finished (set visited)
     \<and> set visited \<subseteq> set nodes \<and> card (set nodes) < n + length stack"

definition end_ok :: "'a list \<Rightarrow> 'a list \<Rightarrow> 'a set \<Rightarrow> ('a list \<times> 'a list) option \<Rightarrow> bool" where
  "end_ok stack visited X r \<longleftrightarrow> (case r of None \<Rightarrow> False
     | Some (visited', found) \<Rightarrow>
         if found = [] then set visited \<union> X \<subseteq> set visited' \<and> set stack \<inter> set visited' = {}
           \<and> finished (set visited') \<and> set visited' \<subseteq> set nodes
         else closed_walk found)"

lemma chain_length: "chain stack \<Longrightarrow> length stack \<le> card (set nodes)"
  unfolding chain_def by (metis List.finite_set card_mono distinct_card)

lemma visit_all_post:
  assumes visit: "\<And>stack visited x. start_ok n stack visited \<Longrightarrow> x \<in> set nodes \<Longrightarrow>
      (stack \<noteq> [] \<longrightarrow> (last stack, x) \<in> E) \<Longrightarrow> end_ok stack visited {x} (visit n succ stack visited x)"
  shows "start_ok n stack visited \<Longrightarrow> stack \<noteq> [] \<Longrightarrow> set xs \<subseteq> set (succ (last stack)) \<Longrightarrow>
     end_ok stack visited (set xs) (visit_all n succ stack visited xs)"
proof (induction xs arbitrary: visited)
  case Nil
  then show ?case by (auto simp: end_ok_def start_ok_def)
next
  case (Cons x xs)
  have last: "last stack \<in> set nodes" using Cons.prems(1,2) by (auto simp: start_ok_def chain_def)
  have "end_ok stack visited {x} (visit n succ stack visited x)"
    using Cons.prems closed[OF last] last by (intro visit) (auto simp: E_def edges_def)
  then obtain v' f where r: "visit n succ stack visited x = Some (v', f)"
    and f: "f = [] \<Longrightarrow> set visited \<union> {x} \<subseteq> set v' \<and> set stack \<inter> set v' = {} \<and> finished (set v') \<and> set v' \<subseteq> set nodes"
      "f \<noteq> [] \<Longrightarrow> closed_walk f"
    by (auto simp: end_ok_def split: option.splits if_splits)
  show ?case
  proof (cases "f = []")
    case False
    then show ?thesis using r f(2) by (simp add: end_ok_def)
  next
    case True
    have "end_ok stack v' (set xs) (visit_all n succ stack v' xs)"
      using Cons.prems f(1)[OF True] by (intro Cons.IH) (auto simp: start_ok_def)
    then show ?thesis
      using r f(1)[OF True] True by (auto simp: end_ok_def split: option.splits if_splits)
  qed
qed

lemma visit_post:
  "start_ok n stack visited \<Longrightarrow> x \<in> set nodes \<Longrightarrow> (stack \<noteq> [] \<longrightarrow> (last stack, x) \<in> E) \<Longrightarrow>
     end_ok stack visited {x} (visit n succ stack visited x)"
proof (induction n arbitrary: stack visited x)
  case 0
  then show ?case using chain_length by (fastforce simp: start_ok_def)
next
  case (Suc n)
  note start = Suc.prems(1)[unfolded start_ok_def]
  show ?case
  proof (cases "x \<in> set visited")
    case True
    then show ?thesis using start by (auto simp: end_ok_def)
  next
    case nv: False
    show ?thesis
    proof (cases "x \<in> set stack")
      case True
      then have "stack \<noteq> []" by auto
      then have "closed_walk (dropWhile (\<lambda>y. y \<noteq> x) stack @ [x])"
        using start Suc.prems(3) True by (intro cycle_found) auto
      then show ?thesis using nv True by (auto simp: end_ok_def)
    next
      case False
      have "start_ok n (stack @ [x]) visited"
        using start Suc.prems(2,3) nv False by (auto simp: start_ok_def intro!: chain_snoc)
      then have "end_ok (stack @ [x]) visited (set (succ x)) (visit_all n succ (stack @ [x]) visited (succ x))"
        by (intro visit_all_post Suc.IH) auto
      then obtain v' f where r: "visit_all n succ (stack @ [x]) visited (succ x) = Some (v', f)"
        and f: "f = [] \<Longrightarrow> set visited \<union> set (succ x) \<subseteq> set v' \<and> set (stack @ [x]) \<inter> set v' = {}
            \<and> finished (set v') \<and> set v' \<subseteq> set nodes"
          "f \<noteq> [] \<Longrightarrow> closed_walk f"
        by (auto simp: end_ok_def split: option.splits if_splits)
      show ?thesis
        using nv False r f Suc.prems(2) finished_insert[of "set v'" x]
        by (auto simp: end_ok_def)
    qed
  qed
qed

lemma closed_walk_cyclic: "closed_walk w \<Longrightarrow> \<exists>x\<in>set nodes. (x, x) \<in> E\<^sup>+"
proof -
  assume w: "closed_walk w"
  have "(w ! 0, w ! Suc i) \<in> E\<^sup>+" if "Suc i < length w" for i
    using that
  proof (induction i)
    case 0
    then show ?case using w by (auto simp: closed_walk_def)
  next
    case (Suc i)
    then have "(w ! Suc i, w ! Suc (Suc i)) \<in> E" using w by (simp add: closed_walk_def)
    with Suc show ?case by (meson Suc_lessD trancl_into_trancl)
  qed
  moreover obtain k where k: "length w = Suc (Suc k)"
    using w by (auto simp: closed_walk_def numeral_2_eq_2 Suc_le_eq dest!: less_imp_Suc_add)
  ultimately have "(w ! 0, w ! (length w - 1)) \<in> E\<^sup>+" by simp
  moreover have "w \<noteq> []" using k by auto
  then have "w ! 0 = hd w" "w ! (length w - 1) = last w" "hd w \<in> set w"
    by (simp_all add: hd_conv_nth last_conv_nth)
  ultimately show ?thesis using w by (auto simp: closed_walk_def)
qed

lemma finished_all: "finished V \<Longrightarrow> set nodes \<subseteq> V \<Longrightarrow> x \<in> set nodes \<Longrightarrow> (x, x) \<notin> E\<^sup>+"
  by (auto simp: finished_def)

lemma cycle_search:
  assumes "card (set nodes) < n"
  shows "set xs \<subseteq> set nodes \<Longrightarrow> finished (set visited) \<Longrightarrow> set visited \<subseteq> set nodes \<Longrightarrow>
    end_ok [] visited (set xs) (visit_all n succ [] visited xs)"
proof (induction xs arbitrary: visited)
  case Nil
  then show ?case by (simp add: end_ok_def)
next
  case (Cons x xs)
  have "end_ok [] visited {x} (visit n succ [] visited x)"
    using Cons.prems assms by (intro visit_post) (auto simp: start_ok_def chain_def)
  then obtain v' f where r: "visit n succ [] visited x = Some (v', f)"
    and f: "f = [] \<Longrightarrow> set visited \<union> {x} \<subseteq> set v' \<and> finished (set v') \<and> set v' \<subseteq> set nodes"
      "f \<noteq> [] \<Longrightarrow> closed_walk f"
    by (auto simp: end_ok_def split: option.splits if_splits)
  show ?case
  proof (cases "f = []")
    case False
    then show ?thesis using r f(2) by (simp add: end_ok_def)
  next
    case True
    have "end_ok [] v' (set xs) (visit_all n succ [] v' xs)"
      using Cons.prems f(1)[OF True] by (intro Cons.IH) auto
    then show ?thesis
      using r f(1)[OF True] True by (auto simp: end_ok_def split: option.splits if_splits)
  qed
qed

lemma cycle_search_result:
  assumes "card (set nodes) < n"
  shows "\<exists>visited found. visit_all n succ [] [] nodes = Some (visited, found)
    \<and> (found = [] \<longleftrightarrow> (\<forall>x\<in>set nodes. (x, x) \<notin> E\<^sup>+)) \<and> (found \<noteq> [] \<longrightarrow> closed_walk found)"
proof -
  have "end_ok [] [] (set nodes) (visit_all n succ [] [] nodes)"
    using assms by (intro cycle_search) (simp_all add: finished_def)
  then obtain v f where r: "visit_all n succ [] [] nodes = Some (v, f)"
    and f: "f = [] \<Longrightarrow> set nodes \<subseteq> set v \<and> finished (set v)" "f \<noteq> [] \<Longrightarrow> closed_walk f"
    by (auto simp: end_ok_def split: option.splits if_splits)
  have "f = [] \<longleftrightarrow> (\<forall>x\<in>set nodes. (x, x) \<notin> E\<^sup>+)"
    using f finished_all closed_walk_cyclic by blast
  then show ?thesis using r f(2) by blast
qed

end

text \<open>The worklist search finds the goal exactly when it can be reached.\<close>

lemma ancestor_search_iff:
  assumes "\<forall>v\<in>set visited. v \<noteq> goal \<and> (\<forall>y. (v, y) \<in> edges keys succ \<longrightarrow>
      y \<in> set visited \<union> set pending \<or> (y \<notin> set keys \<and> y \<noteq> goal))"
  shows "ancestor_search succ keys goal visited pending \<longleftrightarrow> (\<exists>p\<in>set pending. (p, goal) \<in> (edges keys succ)\<^sup>*)"
  using assms
proof (induction succ keys goal visited pending rule: ancestor_search.induct)
  case (1 succ keys goal visited)
  then show ?case by simp
next
  case (2 succ keys goal visited c pending)
  let ?R = "edges keys succ"
  note inv = "2.prems"
  have leave: "\<exists>p\<in>set pending. (p, goal) \<in> ?R\<^sup>*" if "(v, goal) \<in> ?R\<^sup>*" and "v \<in> set visited \<or> (v \<notin> set keys \<and> v \<noteq> goal)"
    and c: "c \<in> set visited \<or> (c \<notin> set keys \<and> c \<noteq> goal)" for v
    using that(1,2)
  proof (induction rule: converse_rtrancl_induct)
    case base
    then show ?case using inv by auto
  next
    case (step v w)
    then have "v \<in> set visited" by (auto simp: edges_def)
    with inv step(1) c have "w \<in> set visited \<or> w \<in> set pending \<or> (w \<notin> set keys \<and> w \<noteq> goal)" by auto
    then show ?case using step by blast
  qed
  consider (goal) "c = goal" | (skip) "c \<noteq> goal" "c \<in> set visited \<or> c \<notin> set keys"
    | (expand) "c \<noteq> goal" "c \<notin> set visited" "c \<in> set keys" by blast
  then show ?case
  proof cases
    case goal
    then show ?thesis by auto
  next
    case skip
    have "\<forall>v\<in>set visited. v \<noteq> goal \<and> (\<forall>y. (v, y) \<in> ?R \<longrightarrow>
        y \<in> set visited \<union> set pending \<or> (y \<notin> set keys \<and> y \<noteq> goal))"
      using inv skip by auto
    with "2.IH"(1) skip have ih: "ancestor_search succ keys goal visited pending \<longleftrightarrow> (\<exists>p\<in>set pending. (p, goal) \<in> ?R\<^sup>*)"
      by blast
    have "(c, goal) \<in> ?R\<^sup>* \<Longrightarrow> \<exists>p\<in>set pending. (p, goal) \<in> ?R\<^sup>*"
      using skip by (intro leave[of c]) auto
    with ih skip show ?thesis by auto
  next
    case expand
    have "\<forall>v\<in>set (c # visited). v \<noteq> goal \<and> (\<forall>y. (v, y) \<in> ?R \<longrightarrow>
        y \<in> set (c # visited) \<union> set (rev (succ c) @ pending) \<or> (y \<notin> set keys \<and> y \<noteq> goal))"
      using inv expand by (auto simp: edges_def)
    with "2.IH"(2) expand have ih: "ancestor_search succ keys goal (c # visited) (rev (succ c) @ pending) \<longleftrightarrow>
        (\<exists>p\<in>set (rev (succ c) @ pending). (p, goal) \<in> ?R\<^sup>*)" by blast
    have "(c, goal) \<in> ?R\<^sup>* \<longleftrightarrow> (\<exists>p\<in>set (succ c). (p, goal) \<in> ?R\<^sup>*)"
      using expand by (auto simp: edges_def elim: converse_rtranclE intro: converse_rtrancl_into_rtrancl)
    with ih expand show ?thesis by auto
  qed
qed

section \<open>The causal graph\<close>

record CausalValidation =
  cv_valid :: bool
  cv_code :: "string option"
  cv_missing_parent_ids :: "string list"
  cv_cycle_event_ids :: "string list"

type_synonym event_dict = "(string \<times> FederatedEvent) list"

text \<open>\<open>_event_map\<close>: a later event of the same id and digest takes the place of the earlier one.\<close>

fun event_map_from :: "lib \<Rightarrow> event_dict \<Rightarrow> FederatedEvent list \<Rightarrow> event_dict res" where
  "event_map_from L m [] = Inr m"
| "event_map_from L m (e # es) =
     (case map_of m (fe_event_id e) of
        Some old \<Rightarrow>
          if core_digest L old \<noteq> core_digest L e then Inl (Coded ''event_content_collision'')
          else event_map_from L (AList.update (fe_event_id e) e m) es
      | None \<Rightarrow> event_map_from L (AList.update (fe_event_id e) e m) es)"

definition event_map :: "lib \<Rightarrow> FederatedEvent list \<Rightarrow> event_dict res" where
  "event_map L es = event_map_from L [] es"

definition parents_of :: "event_dict \<Rightarrow> string \<Rightarrow> string list" where
  "parents_of m x = (case map_of m x of None \<Rightarrow> [] | Some e \<Rightarrow> fe_causal_parents e)"

definition known_parents :: "event_dict \<Rightarrow> string \<Rightarrow> string list" where
  "known_parents m x = filter (\<lambda>p. map_of m p \<noteq> None) (parents_of m x)"

definition cycle_search_all :: "event_dict \<Rightarrow> (string list \<times> string list) option" where
  "cycle_search_all m = (let keys = sorted_set (map fst m)
     in visit_all (Suc (length keys)) (known_parents m) [] [] keys)"

definition find_cycle :: "event_dict \<Rightarrow> string list" where
  "find_cycle m = (case cycle_search_all m of None \<Rightarrow> [] | Some (_, found) \<Rightarrow> found)"

definition sequence_key :: "FederatedEvent \<Rightarrow> string \<times> string \<times> int" where
  "sequence_key e = (rp_replica_id (fe_replica_ref e), rp_store_generation (fe_replica_ref e), fe_replica_seq e)"

fun sequence_collision :: "((string \<times> string \<times> int) \<times> string) list \<Rightarrow> FederatedEvent list \<Rightarrow> bool" where
  "sequence_collision owners [] = False"
| "sequence_collision owners (e # es) =
     (case map_of owners (sequence_key e) of
        Some owner \<Rightarrow> owner \<noteq> fe_event_id e
          \<or> sequence_collision (AList.update (sequence_key e) (fe_event_id e) owners) es
      | None \<Rightarrow> sequence_collision (AList.update (sequence_key e) (fe_event_id e) owners) es)"

definition missing_parents :: "event_dict \<Rightarrow> FederatedEvent list \<Rightarrow> string list" where
  "missing_parents m es = sorted_set (filter (\<lambda>p. map_of m p = None) (concat (map fe_causal_parents es)))"

definition invalid :: "string \<Rightarrow> string list \<Rightarrow> string list \<Rightarrow> CausalValidation" where
  "invalid code missing cycle = \<lparr>cv_valid = False, cv_code = Some code,
     cv_missing_parent_ids = missing, cv_cycle_event_ids = cycle\<rparr>"

definition validate_graph :: "lib \<Rightarrow> FederatedEvent list \<Rightarrow> CausalValidation" where
  "validate_graph L es = (case event_map L es of
      Inl e \<Rightarrow> invalid (case e of Coded c \<Rightarrow> c | _ \<Rightarrow> []) [] []
    | Inr m \<Rightarrow>
        if sequence_collision [] es then invalid ''replica_sequence_collision'' [] []
        else if find_cycle m \<noteq> [] then invalid ''causal_cycle'' [] (find_cycle m)
        else if missing_parents m es \<noteq> [] then invalid ''pending_dependencies'' (missing_parents m es) []
        else \<lparr>cv_valid = True, cv_code = None, cv_missing_parent_ids = [], cv_cycle_event_ids = []\<rparr>)"

text \<open>\<open>raise FederationError(result.code or "causal_graph_invalid", ...)\<close>; every code here is non-empty.\<close>

definition require_valid :: "lib \<Rightarrow> FederatedEvent list \<Rightarrow> unit res" where
  "require_valid L es = (let r = validate_graph L es
     in if cv_valid r then Inr ()
        else Inl (Coded (case cv_code r of None \<Rightarrow> ''causal_graph_invalid'' | Some c \<Rightarrow> c)))"

definition derive_heads :: "lib \<Rightarrow> FederatedEvent list \<Rightarrow> string list res" where
  "derive_heads L es = bindR (require_valid L es) (\<lambda>_.
     Inr (sort (map fe_event_id (filter (\<lambda>e. fe_event_id e \<notin> set (concat (map fe_causal_parents es))) es))))"

definition is_ancestor :: "event_dict \<Rightarrow> string \<Rightarrow> string \<Rightarrow> bool" where
  "is_ancestor m ancestor descendant =
     ancestor_search (parents_of m) (map fst m) ancestor [] (rev (parents_of m descendant))"

definition classify_relation :: "lib \<Rightarrow> FederatedEvent list \<Rightarrow> string \<Rightarrow> string \<Rightarrow> string res" where
  "classify_relation L es left right = bindR (require_valid L es) (\<lambda>_.
     bindR (event_map L es) (\<lambda>m.
     if map_of m left = None \<or> map_of m right = None then Inl (Coded ''event_not_found'')
     else if left = right then Inr ''same''
     else if is_ancestor m left right then Inr ''before''
     else if is_ancestor m right left then Inr ''after''
     else Inr ''concurrent''))"

section \<open>Correctness\<close>

text \<open>The parent relation of the events: \<open>(x, y)\<close> where \<open>y\<close> is a stored parent of \<open>x\<close>.\<close>

definition parent_rel :: "event_dict \<Rightarrow> (string \<times> string) set" where
  "parent_rel m = {(x, y). y \<in> set (known_parents m x)}"

lemma known_parents_closed: "set (known_parents m x) \<subseteq> set (map fst m)"
  by (auto simp: known_parents_def map_of_eq_None_iff)

lemma map_of_key: "map_of m x = Some e \<Longrightarrow> x \<in> fst ` set m"
  by (metis domI dom_map_of_conv_image_fst)

lemma parents_of_key: "y \<in> set (parents_of m x) \<Longrightarrow> x \<in> set (map fst m)"
  by (cases "map_of m x") (auto simp: parents_of_def intro: map_of_key)

interpretation events: finite_graph "sorted_set (map fst m)" "known_parents m" for m
  using known_parents_closed by unfold_locales simp

lemma parent_rel_edges: "parent_rel m = events.E m"
  using parents_of_key
  by (auto simp: parent_rel_def events.E_def edges_def known_parents_def)

lemma find_cycle_result:
  "cycle_search_all m \<noteq> None \<and> (find_cycle m = [] \<longleftrightarrow> acyclic (parent_rel m))
   \<and> (find_cycle m \<noteq> [] \<longrightarrow> events.closed_walk m (find_cycle m))"
proof -
  have "card (set (sorted_set (map fst m))) < Suc (length (sorted_set (map fst m)))"
    using card_length[of "sorted_set (map fst m)"] by simp
  from events.cycle_search_result[OF this] obtain v f where
    r: "cycle_search_all m = Some (v, f)"
    and f: "f = [] \<longleftrightarrow> (\<forall>x\<in>set (map fst m). (x, x) \<notin> (parent_rel m)\<^sup>+)" "f \<noteq> [] \<longrightarrow> events.closed_walk m f"
    by (auto simp: cycle_search_all_def Let_def parent_rel_edges)
  have "(x, x) \<in> (parent_rel m)\<^sup>+ \<Longrightarrow> x \<in> set (map fst m)" for x
    by (drule tranclD) (auto simp: parent_rel_def known_parents_def dest: parents_of_key)
  with f(1) have "f = [] \<longleftrightarrow> acyclic (parent_rel m)" by (auto simp: acyclic_def)
  then show ?thesis using r f(2) by (simp add: find_cycle_def)
qed

lemma event_map_from_keys:
  "event_map_from L m es = Inr m' \<Longrightarrow> set (map fst m') = set (map fst m) \<union> fe_event_id ` set es"
  by (induction L m es rule: event_map_from.induct)
    (auto simp: dom_update split: option.splits if_splits)

lemma event_map_keys: "event_map L es = Inr m \<Longrightarrow> set (map fst m) = fe_event_id ` set es"
  using event_map_from_keys[of L "[]"] by (simp add: event_map_def)

lemma event_map_from_parents:
  "event_map_from L m es = Inr m' \<Longrightarrow> map_of m' x = Some e \<Longrightarrow> map_of m x = Some e \<or> e \<in> set es"
  by (induction L m es rule: event_map_from.induct)
    (auto simp: update_conv' split: option.splits if_splits)

definition entry_ok :: "event_dict \<Rightarrow> bool" where
  "entry_ok m \<longleftrightarrow> (\<forall>x e. map_of m x = Some e \<longrightarrow> fe_event_id e = x)"

lemma entry_ok_update: "entry_ok m \<Longrightarrow> entry_ok (AList.update (fe_event_id e) e m)"
  by (simp add: entry_ok_def update_conv')

lemma event_map_from_entry: "event_map_from L m es = Inr m' \<Longrightarrow> entry_ok m \<Longrightarrow> entry_ok m'"
  by (induction L m es rule: event_map_from.induct)
    (auto simp: entry_ok_update split: option.splits if_splits)

lemma event_map_entry:
  assumes "event_map L es = Inr m" and "map_of m x = Some e"
  shows "e \<in> set es" and "fe_event_id e = x"
proof -
  show "e \<in> set es" using event_map_from_parents[of L "[]" es m x e] assms by (simp add: event_map_def)
  have "entry_ok []" by (simp add: entry_ok_def)
  then have "entry_ok m" using event_map_from_entry assms(1) unfolding event_map_def by blast
  then show "fe_event_id e = x" using assms(2) by (simp add: entry_ok_def)
qed

lemma owners_step:
  "(\<forall>ow. m (k e) = Some ow \<longrightarrow> ow = i e) \<and> (\<forall>x\<in>S. if k x = k e then i e = i x
         else \<forall>ow. m (k x) = Some ow \<longrightarrow> ow = i x) \<and> (\<forall>x\<in>S. \<forall>y\<in>S. k x = k y \<longrightarrow> i x = i y)
 \<longleftrightarrow> (\<forall>x\<in>insert e S. \<forall>ow. m (k x) = Some ow \<longrightarrow> ow = i x) \<and> (\<forall>x\<in>insert e S. \<forall>y\<in>insert e S. k x = k y \<longrightarrow> i x = i y)"
  (is "?A \<and> ?B \<and> ?C \<longleftrightarrow> ?D \<and> ?E")
proof
  assume h: "?A \<and> ?B \<and> ?C"
  then have e: "\<And>x. x \<in> S \<Longrightarrow> k x = k e \<Longrightarrow> i x = i e" by metis
  have "ow = i x" if "x \<in> S" "m (k x) = Some ow" for x ow
    using h that e by metis
  with h e show "?D \<and> ?E" by (metis insert_iff)
next
  assume h: "?D \<and> ?E"
  show "?A \<and> ?B \<and> ?C"
    unfolding if_bool_eq_conj
  proof (intro conjI ballI impI allI)
    fix ow assume "m (k e) = Some ow" then show "ow = i e" using h by blast
  next
    fix x assume "x \<in> S" "k x = k e" then show "i e = i x" using h by (metis insert_iff)
  next
    fix x ow assume "x \<in> S" "m (k x) = Some ow" then show "ow = i x" using h by blast
  next
    fix x y assume "x \<in> S" "y \<in> S" "k x = k y" then show "i x = i y" using h by blast
  qed
qed
lemma sequence_collision_iff:
  "\<not> sequence_collision owners es \<longleftrightarrow>
     (\<forall>e\<in>set es. \<forall>owner. map_of owners (sequence_key e) = Some owner \<longrightarrow> owner = fe_event_id e)
   \<and> (\<forall>e\<in>set es. \<forall>e'\<in>set es. sequence_key e = sequence_key e' \<longrightarrow> fe_event_id e = fe_event_id e')"
proof (induction es arbitrary: owners)
  case (Cons e es)
  let ?up = "AList.update (sequence_key e) (fe_event_id e) owners"
  have "\<not> sequence_collision owners (e # es) \<longleftrightarrow>
      (\<forall>owner. map_of owners (sequence_key e) = Some owner \<longrightarrow> owner = fe_event_id e) \<and> \<not> sequence_collision ?up es"
    by (cases "map_of owners (sequence_key e)") auto
  moreover have "(\<forall>x\<in>set es. \<forall>owner. map_of ?up (sequence_key x) = Some owner \<longrightarrow> owner = fe_event_id x) \<longleftrightarrow>
      (\<forall>x\<in>set es. if sequence_key x = sequence_key e then fe_event_id e = fe_event_id x
         else \<forall>owner. map_of owners (sequence_key x) = Some owner \<longrightarrow> owner = fe_event_id x)"
    by (simp add: update_conv')
  ultimately show ?case
    using owners_step[of "map_of owners" sequence_key e fe_event_id "set es"]
    by (simp only: Cons.IH list.set(2) simp_thms conj_assoc)
qed simp

lemma missing_parents_iff:
  "event_map L es = Inr m \<Longrightarrow>
   missing_parents m es = [] \<longleftrightarrow> (\<forall>e\<in>set es. set (fe_causal_parents e) \<subseteq> fe_event_id ` set es)"
proof -
  assume m: "event_map L es = Inr m"
  have "map_of m p = None \<longleftrightarrow> p \<notin> fe_event_id ` set es" for p
    using event_map_keys[OF m] by (simp add: map_of_eq_None_iff)
  moreover have "missing_parents m es = [] \<longleftrightarrow> set (missing_parents m es) = {}" by simp
  ultimately show ?thesis by (auto simp: missing_parents_def)
qed

lemma parent_rel_full:
  assumes "event_map L es = Inr m" and "missing_parents m es = []"
  shows "known_parents m = parents_of m" and "edges (map fst m) (parents_of m) = parent_rel m"
proof -
  have known: "map_of m p \<noteq> None" if p: "p \<in> set (parents_of m x)" for p x
  proof -
    from p obtain e where e: "map_of m x = Some e" "p \<in> set (fe_causal_parents e)"
      by (cases "map_of m x") (auto simp: parents_of_def)
    have "e \<in> set es" using event_map_entry(1)[OF assms(1) e(1)] .
    then have "p \<in> set (map fst m)"
      using missing_parents_iff[OF assms(1)] assms(2) e(2) event_map_keys[OF assms(1)] by blast
    then show ?thesis by (simp add: map_of_eq_None_iff)
  qed
  then show k: "known_parents m = parents_of m"
    by (simp add: known_parents_def fun_eq_iff filter_id_conv)
  show "edges (map fst m) (parents_of m) = parent_rel m"
    using parents_of_key[of _ m] by (auto simp: edges_def parent_rel_def k simp del: set_map)
qed

lemma is_ancestor_iff:
  assumes "edges (map fst m) (parents_of m) = parent_rel m" and "d \<in> set (map fst m)"
  shows "is_ancestor m a d \<longleftrightarrow> (d, a) \<in> (parent_rel m)\<^sup>+"
proof -
  have "is_ancestor m a d \<longleftrightarrow> (\<exists>p\<in>set (parents_of m d). (p, a) \<in> (parent_rel m)\<^sup>*)"
    unfolding is_ancestor_def using ancestor_search_iff[of "[]" a "map fst m" "parents_of m"] assms(1) by simp
  also have "\<dots> \<longleftrightarrow> (\<exists>p. (d, p) \<in> parent_rel m \<and> (p, a) \<in> (parent_rel m)\<^sup>*)"
    using assms by (auto simp: edges_def)
  also have "\<dots> \<longleftrightarrow> (d, a) \<in> (parent_rel m)\<^sup>+"
    by (meson rtrancl_into_trancl2 tranclD)
  finally show ?thesis .
qed

lemma valid_conditions:
  "event_map L es = Inr m \<Longrightarrow> cv_valid (validate_graph L es) \<longleftrightarrow>
     \<not> sequence_collision [] es \<and> find_cycle m = [] \<and> missing_parents m es = []"
  by (simp add: validate_graph_def invalid_def)

lemma valid_acyclic:
  assumes "cv_valid (validate_graph L es)" and "event_map L es = Inr m"
  shows "missing_parents m es = []" and "acyclic (parent_rel m)"
  using assms(1) valid_conditions[OF assms(2)] find_cycle_result[of m] by blast+

section \<open>Properties\<close>

text \<open>
  C25: \<open>validate_graph\<close> accepts exactly the causal histories. It answers \<open>valid\<close> when and only when
  events of one id have one digest, no sequence number of a replica generation has two owners, no
  event is its own ancestor, and every parent is among the events.
\<close>

theorem validate_graph_iff:
  "cv_valid (validate_graph L es) \<longleftrightarrow> (\<exists>m. event_map L es = Inr m
     \<and> (\<forall>e\<in>set es. \<forall>e'\<in>set es. sequence_key e = sequence_key e' \<longrightarrow> fe_event_id e = fe_event_id e')
     \<and> acyclic (parent_rel m)
     \<and> (\<forall>e\<in>set es. set (fe_causal_parents e) \<subseteq> fe_event_id ` set es))"
proof (cases "event_map L es")
  case (Inl e)
  then show ?thesis by (simp add: validate_graph_def invalid_def)
next
  case (Inr m)
  have "\<not> sequence_collision [] es \<longleftrightarrow>
      (\<forall>e\<in>set es. \<forall>e'\<in>set es. sequence_key e = sequence_key e' \<longrightarrow> fe_event_id e = fe_event_id e')"
    by (subst sequence_collision_iff) (simp only: map_of.simps option.distinct, simp)
  then show ?thesis
    unfolding valid_conditions[OF Inr] using find_cycle_result[of m] missing_parents_iff[OF Inr] Inr
    by (simp only: sum.inject ex_simps simp_thms)
qed

text \<open>
  A reported cycle is one. The ids that come with \<open>causal_cycle\<close> start and end with the same
  event, and each is followed by one of its causal parents.
\<close>

theorem validate_graph_cycle:
  assumes "event_map L es = Inr m" and "cv_code (validate_graph L es) = Some ''causal_cycle''"
  shows "let w = cv_cycle_event_ids (validate_graph L es) in 2 \<le> length w \<and> hd w = last w
     \<and> (\<forall>i. Suc i < length w \<longrightarrow> w ! Suc i \<in> set (known_parents m (w ! i)))"
proof -
  have "cv_cycle_event_ids (validate_graph L es) = find_cycle m" and "find_cycle m \<noteq> []"
    using assms by (auto simp: validate_graph_def invalid_def split: if_splits)
  then show ?thesis
    using find_cycle_result[of m]
    by (auto simp: events.closed_walk_def Let_def events.E_def edges_def)
qed

text \<open>
  C26: \<open>classify_relation\<close> decides the causal order. On a valid graph it answers for any two
  stored events, \<open>before\<close> exactly for an ancestor and \<open>after\<close> exactly for a descendant, and the
  two questions about a pair never contradict each other.
\<close>

theorem classify_relation_order:
  assumes "cv_valid (validate_graph L es)" and "event_map L es = Inr m"
    and "left \<in> fe_event_id ` set es" and "right \<in> fe_event_id ` set es"
  shows "classify_relation L es left right = Inr
      (if left = right then ''same''
       else if (right, left) \<in> (parent_rel m)\<^sup>+ then ''before''
       else if (left, right) \<in> (parent_rel m)\<^sup>+ then ''after'' else ''concurrent'')
    \<and> (classify_relation L es left right = Inr ''before'' \<longleftrightarrow> classify_relation L es right left = Inr ''after'')"
proof -
  note miss = valid_acyclic(1)[OF assms(1,2)] and acyc = valid_acyclic(2)[OF assms(1,2)]
  note full = parent_rel_full(2)[OF assms(2) miss]
  have k: "left \<in> set (map fst m)" "right \<in> set (map fst m)"
    using assms(3,4) event_map_keys[OF assms(2)] by auto
  have c: "classify_relation L es l r = Inr
      (if l = r then ''same'' else if (r, l) \<in> (parent_rel m)\<^sup>+ then ''before''
       else if (l, r) \<in> (parent_rel m)\<^sup>+ then ''after'' else ''concurrent'')"
    if "l \<in> set (map fst m)" "r \<in> set (map fst m)" for l r
    using that assms(1,2) is_ancestor_iff[OF full that(2), of l] is_ancestor_iff[OF full that(1), of r]
    by (simp add: classify_relation_def require_valid_def Let_def map_of_eq_None_iff)
  have "(left, right) \<in> (parent_rel m)\<^sup>+ \<Longrightarrow> (right, left) \<notin> (parent_rel m)\<^sup>+"
    using acyc unfolding acyclic_def by (meson trancl_trans)
  then show ?thesis unfolding c[OF k] c[OF k(2,1)] by simp
qed

text \<open>
  The heads cover the history. Where ids determine events, \<open>derive_heads\<close> of a valid graph
  lists, in order, the events that are nobody's parent, and every event is a head or an ancestor
  of one.
\<close>

theorem derive_heads_cover:
  assumes "inj_on fe_event_id (set es)" and "event_map L es = Inr m" and "derive_heads L es = Inr hs"
  shows "sorted hs \<and> set hs = {x \<in> fe_event_id ` set es. \<forall>c. (c, x) \<notin> parent_rel m}
     \<and> (\<forall>x\<in>fe_event_id ` set es. \<exists>h\<in>set hs. (h, x) \<in> (parent_rel m)\<^sup>*)"
proof -
  have valid: "cv_valid (validate_graph L es)"
    and hs: "hs = sort (map fe_event_id (filter (\<lambda>e. fe_event_id e \<notin> set (concat (map fe_causal_parents es))) es))"
    using assms(3) by (auto simp: derive_heads_def require_valid_def Let_def bindR_Inr_iff split: if_splits)
  note miss = valid_acyclic(1)[OF valid assms(2)] and acyc = valid_acyclic(2)[OF valid assms(2)]
  have entry: "map_of m (fe_event_id e) = Some e" if "e \<in> set es" for e
  proof -
    have "fe_event_id e \<in> set (map fst m)" using that event_map_keys[OF assms(2)] by auto
    then obtain e' where e': "map_of m (fe_event_id e) = Some e'" by (metis map_of_eq_None_iff not_None_eq set_map)
    then show ?thesis using event_map_entry[OF assms(2) e'] assms(1) that by (auto simp: inj_on_def)
  qed
  have rel: "(c, x) \<in> parent_rel m \<longleftrightarrow> (\<exists>e\<in>set es. fe_event_id e = c \<and> x \<in> set (fe_causal_parents e))" for c x
  proof -
    have "(c, x) \<in> parent_rel m \<longleftrightarrow> x \<in> set (parents_of m c)"
      by (simp add: parent_rel_def parent_rel_full(1)[OF assms(2) miss])
    also have "\<dots> \<longleftrightarrow> (\<exists>e. map_of m c = Some e \<and> x \<in> set (fe_causal_parents e))"
      by (cases "map_of m c") (simp_all add: parents_of_def)
    also have "\<dots> \<longleftrightarrow> (\<exists>e\<in>set es. fe_event_id e = c \<and> x \<in> set (fe_causal_parents e))"
      using entry event_map_entry[OF assms(2)] by metis
    finally show ?thesis .
  qed
  have set: "set hs = {x \<in> fe_event_id ` set es. \<forall>c. (c, x) \<notin> parent_rel m}"
    using rel by (auto simp: hs)
  have "parent_rel m \<subseteq> set (map fst m) \<times> set (map fst m)"
    using known_parents_closed parents_of_key by (fastforce simp: parent_rel_def known_parents_def)
  then have "wf (parent_rel m)" using acyc by (intro finite_acyclic_wf) (auto intro: finite_subset)
  then have "x \<in> fe_event_id ` set es \<Longrightarrow> \<exists>h\<in>set hs. (h, x) \<in> (parent_rel m)\<^sup>*" for x
  proof (induction x rule: wf_induct_rule)
    case (less x)
    show ?case
    proof (cases "\<exists>c. (c, x) \<in> parent_rel m")
      case True
      then obtain c where c: "(c, x) \<in> parent_rel m" by blast
      then have "c \<in> fe_event_id ` set es" using rel by auto
      from less.IH[OF c this] c show ?thesis by (meson rtrancl.rtrancl_into_rtrancl)
    next
      case False
      then show ?thesis using set less.prems by blast
    qed
  qed
  moreover have "sorted hs" by (simp add: hs)
  ultimately show ?thesis using set by blast
qed

section \<open>A history\<close>

definition sample_history :: "FederatedEvent list" where
  "sample_history = [sample_event ''a'' 1 [], sample_event ''b'' 2 [''a''], sample_event ''c'' 3 [''a'']]"

definition sample_map :: event_dict where
  "sample_map = map (\<lambda>e. (fe_event_id e, e)) sample_history"

lemma sample_event_map: "event_map plain_lib sample_history = Inr sample_map"
  by (simp add: event_map_def sample_history_def sample_map_def sample_event_def)

lemma sample_valid: "cv_valid (validate_graph plain_lib sample_history)"
  by code_simp

theorem validate_graph_iff_witness: "acyclic (parent_rel sample_map)"
  using validate_graph_iff[of plain_lib sample_history] sample_valid sample_event_map by simp

definition sample_loop :: "FederatedEvent list" where
  "sample_loop = [sample_event ''a'' 1 [''b''], sample_event ''b'' 2 [''a'']]"

theorem validate_graph_cycle_witness:
  "hd (cv_cycle_event_ids (validate_graph plain_lib sample_loop)) = last (cv_cycle_event_ids (validate_graph plain_lib sample_loop))"
proof -
  have m: "event_map plain_lib sample_loop = Inr (map (\<lambda>e. (fe_event_id e, e)) sample_loop)"
    by (simp add: event_map_def sample_loop_def sample_event_def)
  have c: "cv_code (validate_graph plain_lib sample_loop) = Some ''causal_cycle''" by code_simp
  from validate_graph_cycle[OF m c] show ?thesis by (simp add: Let_def)
qed

theorem classify_relation_order_witness:
  "classify_relation plain_lib sample_history ''a'' ''b'' = Inr ''before''
     \<longleftrightarrow> classify_relation plain_lib sample_history ''b'' ''a'' = Inr ''after''"
proof -
  have "''a'' \<in> fe_event_id ` set sample_history" "''b'' \<in> fe_event_id ` set sample_history"
    by (simp_all add: sample_history_def sample_event_def)
  from classify_relation_order[OF sample_valid sample_event_map this] show ?thesis by (rule conjunct2)
qed

theorem derive_heads_cover_witness: "\<exists>h\<in>{''b'', ''c''}. (h, ''a'') \<in> (parent_rel sample_map)\<^sup>*"
proof -
  have i: "inj_on fe_event_id (set sample_history)" by (simp add: sample_history_def sample_event_def)
  have h: "derive_heads plain_lib sample_history = Inr [''b'', ''c'']" by code_simp
  have "''a'' \<in> fe_event_id ` set sample_history" by (simp add: sample_history_def sample_event_def)
  from derive_heads_cover[OF i sample_event_map h, THEN conjunct2, THEN conjunct2, THEN bspec, OF this]
  show ?thesis by simp
qed

end
