(* ===== verification/Fed_Store.thy ===== *)
theory Fed_Store
  imports FileStore Fed_Causal "HOL-Library.Product_Lexorder"
begin

text \<open>
  \<open>src/eml_pmw/federation/store.py\<close>: the store of federated events on an immutable disk. A path is
  relative to the root of the store, whose twelve directories exist from the start. \<open>_submit_lock\<close>
  serialises the threads of one process; other processes may publish files before each of its
  publications (\<open>d_others\<close>). An event is one that \<open>from_dict\<close> accepts (\<open>event_ok\<close>) and whose
  canonical text exists: for another \<open>submit\<close> answers \<open>Untyped\<close>.
\<close>

section \<open>Keys and paths\<close>

definition event_key :: "lib \<Rightarrow> string \<Rightarrow> string" where
  "event_key L event_id = sha256_hex L event_id"

definition replica_key :: "lib \<Rightarrow> FederatedEvent \<Rightarrow> string" where
  "replica_key L e = sha256_hex L
     (rp_replica_id (fe_replica_ref e) @ [CHR 0x00] @ rp_store_generation (fe_replica_ref e))"

definition delivery_key :: "lib \<Rightarrow> string \<Rightarrow> string" where
  "delivery_key L delivery_id = sha256_hex L delivery_id"

text \<open>\<open>{n:020d}\<close>.\<close>

definition pad_zeros :: "nat \<Rightarrow> string \<Rightarrow> string" where
  "pad_zeros n ds = replicate (n - length ds) CHR ''0'' @ ds"

definition seq_text :: "int \<Rightarrow> string" where
  "seq_text n = (if n < 0 then CHR ''-'' # pad_zeros 19 (show_nat (nat (- n))) else pad_zeros 20 (show_nat (nat n)))"

definition payload_path :: "FederatedEvent \<Rightarrow> path" where
  "payload_path e = path_parts (fe_payload_ref e)"

definition event_path :: "lib \<Rightarrow> FederatedEvent \<Rightarrow> path" where
  "event_path L e = [''events'', replica_key L e,
     seq_text (fe_replica_seq e) @ ''-'' @ event_key L (fe_event_id e) @ ''.json'']"

definition event_index_path :: "lib \<Rightarrow> string \<Rightarrow> path" where
  "event_index_path L event_id = [''indexes'', ''events'', event_key L event_id @ ''.json'']"

definition sequence_index_path :: "lib \<Rightarrow> FederatedEvent \<Rightarrow> path" where
  "sequence_index_path L e = [''indexes'', ''sequences'', replica_key L e, seq_text (fe_replica_seq e) @ ''.json'']"

definition duplicate_path :: "lib \<Rightarrow> string \<Rightarrow> string \<Rightarrow> path" where
  "duplicate_path L event_id delivery_id =
     [''duplicates'', event_key L event_id, delivery_key L delivery_id @ ''.json'']"

definition observation_path :: "lib \<Rightarrow> string \<Rightarrow> string \<Rightarrow> path" where
  "observation_path L event_id observer_id =
     [''observations'', event_key L event_id, event_key L observer_id @ ''.json'']"

definition conflict_path :: "lib \<Rightarrow> string \<Rightarrow> path" where
  "conflict_path L conflict_id = [''conflicts'', event_key L conflict_id @ ''.json'']"

definition resolution_path :: "lib \<Rightarrow> string \<Rightarrow> string \<Rightarrow> path" where
  "resolution_path L conflict_id resolution_event_id =
     [''resolutions'', event_key L conflict_id, event_key L resolution_event_id @ ''.json'']"

record SubmissionResult =
  sr_kind :: string
  sr_event_id :: string
  sr_delivery_id :: string
  sr_event_path :: path
  sr_payload_path :: path
  sr_duplicate_path :: "path option"

section \<open>Reading events\<close>

text \<open>
  The path in an index is the one \<open>submit\<close> wrote; an absolute path or one with \<open>..\<close>, which only a
  foreign hand can have put there, is not followed.
\<close>

definition plain_ref :: "string \<Rightarrow> bool" where
  "plain_ref s = (\<not> startswith s ''/'' \<and> ''..'' \<notin> set (path_parts s))"

definition upper_sha256 :: "lib \<Rightarrow> string \<Rightarrow> string" where
  "upper_sha256 L data = upper (sha256_hex L data)"

definition event_payload_file :: "lib \<Rightarrow> files \<Rightarrow> FederatedEvent \<Rightarrow> string res" where
  "event_payload_file L fs e = (case map_of fs (payload_path e) of
      None \<Rightarrow> Inl (Coded ''payload_unreadable'')
    | Some data \<Rightarrow> if upper_sha256 L data \<noteq> fe_payload_sha256 e then Inl (Coded ''payload_integrity_failed'')
        else Inr data)"

definition get_event_file :: "lib \<Rightarrow> files \<Rightarrow> string \<Rightarrow> FederatedEvent res" where
  "get_event_file L fs event_id =
     (if \<not> utf8_valid event_id then Inl UnicodeEncodeError
      else if \<not> is_file fs (event_index_path L event_id) then Inl (Coded ''event_not_found'')
      else bindR (read_object_file L fs (event_index_path L event_id)) (\<lambda>index.
        if dget_null index ''event_id'' \<noteq> JStr event_id then Inl (Coded ''event_index_mismatch'')
        else if \<not> nonempty_str (dget_null index ''event_path'') then Inl (Coded ''event_index_invalid'')
        else let relative = the_str (dget_null index ''event_path'')
          in if \<not> plain_ref relative then Inl (Untyped ''event_path'')
             else bindR (read_object_file L fs (path_parts relative)) (\<lambda>d.
               bindR (event_from_dict d) (\<lambda>event.
               if fe_event_id event \<noteq> event_id \<or> dget_null index ''core_digest'' \<noteq> JStr (core_digest L event)
               then Inl (Coded ''stored_event_integrity_failed'')
               else bindR (event_payload_file L fs event) (\<lambda>_. Inr event)))))"

definition event_order :: "FederatedEvent \<Rightarrow> string \<times> string \<times> string \<times> int \<times> string" where
  "event_order e = (rm_realm_id (fe_realm_ref e), rp_replica_id (fe_replica_ref e),
     rp_store_generation (fe_replica_ref e), fe_replica_seq e, fe_event_id e)"

definition indexed_event :: "lib \<Rightarrow> files \<Rightarrow> path \<Rightarrow> FederatedEvent res" where
  "indexed_event L fs p = bindR (read_object_file L fs p) (\<lambda>index. bindR (dget index ''event_id'') (\<lambda>v.
     case v of JStr event_id \<Rightarrow> get_event_file L fs event_id | _ \<Rightarrow> Inl AttributeError))"

definition events_file :: "lib \<Rightarrow> files \<Rightarrow> FederatedEvent list res" where
  "events_file L fs = bindR (mapR (indexed_event L fs) (glob_json fs [''indexes'', ''events'']))
     (\<lambda>items. Inr (sort_key event_order items))"

definition get_event :: "lib \<Rightarrow> string \<Rightarrow> (disk, FederatedEvent) op" where
  "get_event L event_id = (\<lambda>D. (D, get_event_file L (d_files D) event_id))"

definition event_payload :: "lib \<Rightarrow> FederatedEvent \<Rightarrow> (disk, string) op" where
  "event_payload L e = (\<lambda>D. (D, event_payload_file L (d_files D) e))"

definition events :: "lib \<Rightarrow> (disk, FederatedEvent list) op" where
  "events L = (\<lambda>D. (D, events_file L (d_files D)))"

definition heads :: "lib \<Rightarrow> (disk, string list) op" where
  "heads L = bindS (events L) (\<lambda>es. liftS (derive_heads L es))"

definition get_conflict :: "lib \<Rightarrow> string \<Rightarrow> (disk, dict) op" where
  "get_conflict L conflict_id =
     (if \<not> utf8_valid conflict_id then raiseS UnicodeEncodeError
      else bindS (is_fileS (conflict_path L conflict_id)) (\<lambda>there.
        if \<not> there then raiseS (Coded ''conflict_not_found'')
        else bindS (read_object L (conflict_path L conflict_id)) (\<lambda>record.
          if dget_null record ''conflict_id'' \<noteq> JStr conflict_id then raiseS (Coded ''conflict_filename_mismatch'')
          else retS record)))"

definition conflicts :: "lib \<Rightarrow> (disk, dict list) op" where
  "conflicts L = (\<lambda>D. (D, mapR (read_object_file L (d_files D)) (glob_json (d_files D) [''conflicts''])))"

definition resolutions :: "lib \<Rightarrow> (disk, dict list) op" where
  "resolutions L = (\<lambda>D. (D, mapR (read_object_file L (d_files D)) (glob_json2 (d_files D) [''resolutions''])))"

section \<open>Writing records\<close>

definition record_observation :: "lib \<Rightarrow> string \<Rightarrow> string \<Rightarrow> dict \<Rightarrow> (disk, path) op" where
  "record_observation L event_id observer_id record = bindS (get_event L event_id) (\<lambda>_.
     thenS (record_once L (observation_path L event_id observer_id) record ''observation_content_collision'')
       (retS (observation_path L event_id observer_id)))"

definition record_conflict :: "lib \<Rightarrow> string \<Rightarrow> dict \<Rightarrow> (disk, path) op" where
  "record_conflict L conflict_id record =
     thenS (record_once L (conflict_path L conflict_id) record ''conflict_content_collision'')
       (retS (conflict_path L conflict_id))"

definition record_resolution :: "lib \<Rightarrow> string \<Rightarrow> string \<Rightarrow> dict \<Rightarrow> (disk, path) op" where
  "record_resolution L conflict_id resolution_event_id record = bindS (get_conflict L conflict_id) (\<lambda>_.
     thenS (record_once L (resolution_path L conflict_id resolution_event_id) record ''resolution_content_collision'')
       (retS (resolution_path L conflict_id resolution_event_id)))"

definition quarantine_record :: "lib \<Rightarrow> string \<Rightarrow> FederatedEvent \<Rightarrow> json \<Rightarrow> json \<Rightarrow> dict" where
  "quarantine_record L code event existing_digest existing_event_id =
     [(''schema'', JStr ''pmw-federation-quarantine/v1''),
      (''code'', JStr code),
      (''submitted_event_id'', JStr (fe_event_id event)),
      (''submitted_core_digest'', JStr (core_digest L event)),
      (''existing_event_id'', existing_event_id),
      (''existing_core_digest'', existing_digest)]"

text \<open>\<open>_quarantine\<close>; its caller then raises \<open>code\<close>.\<close>

definition quarantine :: "lib \<Rightarrow> string \<Rightarrow> FederatedEvent \<Rightarrow> json \<Rightarrow> json \<Rightarrow> (disk, unit) op" where
  "quarantine L code event existing_digest existing_event_id =
     (let record = quarantine_record L code event existing_digest existing_event_id
      in bindS (liftS (canonical_bytes L (JObj record))) (\<lambda>b.
        record_once L [''quarantine'', sha256_hex L b @ ''.json''] record ''quarantine_content_collision''))"

definition quarantine_event :: "lib \<Rightarrow> string \<Rightarrow> FederatedEvent \<Rightarrow> (disk, unit) op" where
  "quarantine_event L code event = quarantine L code event JNull JNull"

definition refuse :: "lib \<Rightarrow> string \<Rightarrow> FederatedEvent \<Rightarrow> json \<Rightarrow> json \<Rightarrow> (disk, 'a) op" where
  "refuse L code event existing_digest existing_event_id =
     thenS (quarantine L code event existing_digest existing_event_id) (raiseS (Coded code))"

definition index_record :: "lib \<Rightarrow> FederatedEvent \<Rightarrow> dict" where
  "index_record L event =
     [(''schema'', JStr ''pmw-federation-event-index/v1''),
      (''event_id'', JStr (fe_event_id event)),
      (''core_digest'', JStr (core_digest L event)),
      (''event_path'', JStr (posix (event_path L event))),
      (''payload_ref'', JStr (fe_payload_ref event)),
      (''payload_sha256'', JStr (fe_payload_sha256 event))]"

definition sequence_record :: "lib \<Rightarrow> FederatedEvent \<Rightarrow> dict" where
  "sequence_record L event =
     [(''schema'', JStr ''pmw-federation-sequence-index/v1''),
      (''replica_id'', JStr (rp_replica_id (fe_replica_ref event))),
      (''store_generation'', JStr (rp_store_generation (fe_replica_ref event))),
      (''replica_seq'', JInt (fe_replica_seq event)),
      (''event_id'', JStr (fe_event_id event)),
      (''core_digest'', JStr (core_digest L event)),
      (''event_path'', JStr (posix (event_path L event)))]"

definition duplicate_record :: "lib \<Rightarrow> FederatedEvent \<Rightarrow> string \<Rightarrow> dict" where
  "duplicate_record L event delivery_id =
     [(''schema'', JStr ''pmw-federation-duplicate/v1''),
      (''event_id'', JStr (fe_event_id event)),
      (''delivery_id'', JStr delivery_id),
      (''core_digest'', JStr (core_digest L event))]"

definition record_duplicate :: "lib \<Rightarrow> FederatedEvent \<Rightarrow> string \<Rightarrow> (disk, SubmissionResult) op" where
  "record_duplicate L event delivery_id =
     (let p = duplicate_path L (fe_event_id event) delivery_id
      in thenS (record_once L p (duplicate_record L event delivery_id) ''duplicate_content_collision'')
        (retS \<lparr>sr_kind = ''duplicate'', sr_event_id = fe_event_id event, sr_delivery_id = delivery_id,
           sr_event_path = event_path L event, sr_payload_path = payload_path event, sr_duplicate_path = Some p\<rparr>))"

section \<open>Submission\<close>

definition expected_suffix :: "string \<Rightarrow> string res" where
  "expected_suffix media =
     (if media = ''application/json'' then Inr ''.json''
      else if media = ''text/markdown'' then Inr ''.md''
      else if media = ''text/plain'' then Inr ''.txt''
      else Inl KeyError)"

definition authority_allowed :: "FederationConfig \<Rightarrow> FederatedEvent \<Rightarrow> bool" where
  "authority_allowed cfg event =
     (case fe_authority_ref event of
        None \<Rightarrow> fe_event_kind event \<notin> set (cfg_authority_required_event_kinds cfg)
      | Some a \<Rightarrow> a \<in> set (cfg_allowed_authority_refs cfg))"

definition validate_submission :: "lib \<Rightarrow> FederationConfig \<Rightarrow> FederatedEvent \<Rightarrow> string \<Rightarrow> unit res" where
  "validate_submission L cfg event payload =
     bindR (check (int (length payload) \<le> cfg_default_max_payload_bytes cfg) ''payload_too_large'') (\<lambda>_.
     bindR (check (utf8_valid payload) ''payload_binary_unsupported'') (\<lambda>_.
     bindR (check (\<not> has_control payload) ''payload_binary_unsupported'') (\<lambda>_.
     bindR (check (upper_sha256 L payload = fe_payload_sha256 event) ''payload_integrity_failed'') (\<lambda>_.
     bindR (expected_suffix (fe_payload_media_type event)) (\<lambda>suffix.
     bindR (check (endswith (fe_payload_ref event) suffix) ''payload_media_mismatch'') (\<lambda>_.
     bindR (check (fe_event_kind event \<in> set (cfg_allowed_event_kinds cfg)) ''event_kind_not_allowed'') (\<lambda>_.
     check (authority_allowed cfg event) ''authority_not_allowed'')))))))"

text \<open>The index of the event is there: the same event again, or another one under its id.\<close>

definition submit_again :: "lib \<Rightarrow> FederatedEvent \<Rightarrow> string \<Rightarrow> string \<Rightarrow> (disk, SubmissionResult) op" where
  "submit_again L event payload delivery_id =
     bindS (read_object L (event_index_path L (fe_event_id event))) (\<lambda>index.
     if dget_null index ''core_digest'' \<noteq> JStr (core_digest L event)
     then refuse L ''event_content_collision'' event (dget_null index ''core_digest'') (dget_null index ''event_id'')
     else bindS (get_event L (fe_event_id event)) (\<lambda>existing.
       if existing \<noteq> event then raiseS (Coded ''stored_event_integrity_failed'')
       else bindS (read_bytes (payload_path event)) (\<lambda>data.
         if data \<noteq> payload then raiseS (Coded ''stored_event_integrity_failed'')
         else record_duplicate L event delivery_id)))"

definition sequence_clash :: "lib \<Rightarrow> FederatedEvent \<Rightarrow> dict \<Rightarrow> (disk, unit) op" where
  "sequence_clash L event owner =
     refuse L ''replica_sequence_collision'' event (dget_null owner ''core_digest'') (dget_null owner ''event_id'')"

definition check_sequence :: "lib \<Rightarrow> FederatedEvent \<Rightarrow> (disk, unit) op" where
  "check_sequence L event = bindS (existsS (sequence_index_path L event)) (\<lambda>there.
     if \<not> there then retS ()
     else bindS (read_object L (sequence_index_path L event)) (\<lambda>owner.
       if dget_null owner ''event_id'' \<noteq> JStr (fe_event_id event)
          \<or> dget_null owner ''core_digest'' \<noteq> JStr (core_digest L event)
       then sequence_clash L event owner else retS ()))"

definition submit_payload :: "FederatedEvent \<Rightarrow> string \<Rightarrow> (disk, unit) op" where
  "submit_payload event payload = bindS (existsS (payload_path event)) (\<lambda>there.
     if there then bindS (read_bytes (payload_path event)) (\<lambda>data.
       if data \<noteq> payload then raiseS (Coded ''payload_integrity_failed'') else retS ())
     else catchS (publish_bytes (payload_path event) payload) (\<lambda>err.
       if err \<noteq> Coded ''immutable_file_exists'' then raiseS err
       else bindS (getS (\<lambda>D. map_of (d_files D) (payload_path event))) (\<lambda>data.
         if data \<noteq> Some payload then raiseS (Coded ''payload_integrity_failed'') else retS ())))"

text \<open>The event file; \<open>True\<close> when this call created it.\<close>

definition submit_event :: "lib \<Rightarrow> FederatedEvent \<Rightarrow> (disk, bool) op" where
  "submit_event L event =
     (let p = event_path L event; record = event_to_dict event
      in bindS (existsS p) (\<lambda>there.
        if there then bindS (read_object L p) (\<lambda>existing.
          if \<not> py_eq (JObj existing) (JObj record)
          then refuse L ''event_content_collision'' event JNull (dget_null existing ''event_id'') else retS False)
        else catchS (thenS (publish_json L p (JObj record)) (retS True)) (\<lambda>err.
          if err \<noteq> Coded ''immutable_file_exists'' then raiseS err
          else bindS (is_fileS p) (\<lambda>f.
            if \<not> f then raiseS (Coded ''event_content_collision'')
            else bindS (read_object L p) (\<lambda>existing.
              if \<not> py_eq (JObj existing) (JObj record) then raiseS (Coded ''event_content_collision'')
              else retS False)))))"

definition submit_index :: "lib \<Rightarrow> FederatedEvent \<Rightarrow> (disk, unit) op" where
  "submit_index L event = publish_checked L (event_index_path L (fe_event_id event)) (index_record L event)
     (\<lambda>existing. refuse L ''event_content_collision'' event (dget_null existing ''core_digest'')
        (dget_null existing ''event_id''))"

definition submit_new :: "lib \<Rightarrow> FederatedEvent \<Rightarrow> string \<Rightarrow> string \<Rightarrow> (disk, SubmissionResult) op" where
  "submit_new L event payload delivery_id =
     thenS (check_sequence L event)
     (thenS (submit_payload event payload)
     (bindS (submit_event L event) (\<lambda>created.
      thenS (publish_checked L (sequence_index_path L event) (sequence_record L event) (sequence_clash L event))
     (thenS (submit_index L event)
     (if \<not> created then record_duplicate L event delivery_id
      else retS \<lparr>sr_kind = ''created'', sr_event_id = fe_event_id event, sr_delivery_id = delivery_id,
        sr_event_path = event_path L event, sr_payload_path = payload_path event, sr_duplicate_path = None\<rparr>)))))"

definition submit :: "lib \<Rightarrow> FederationConfig \<Rightarrow> FederatedEvent \<Rightarrow> string \<Rightarrow> string \<Rightarrow> (disk, SubmissionResult) op" where
  "submit L cfg event payload delivery_id =
     (if \<not> event_ok event \<or> \<not> encodable L event \<or> \<not> utf8_valid (fe_event_id event) \<or> \<not> utf8_valid delivery_id
      then raiseS (Untyped ''event'')
      else if delivery_id = [] then raiseS (Coded ''delivery_id_invalid'')
      else thenS (liftS (validate_submission L cfg event payload))
        (bindS (existsS (event_index_path L (fe_event_id event))) (\<lambda>indexed.
         if indexed then submit_again L event payload delivery_id
         else submit_new L event payload delivery_id)))"

section \<open>The disk only grows\<close>

lemma immutable_record_once [immutable_intros]: "immutable (record_once L p record c)"
  unfolding record_once_def by (intro immutable_intros)

lemma immutable_publish_checked [immutable_intros]:
  "(\<And>old. immutable (clash old)) \<Longrightarrow> immutable (publish_checked L p record clash)"
  unfolding publish_checked_def Let_def by (intro immutable_intros)

lemma immutable_get_event [immutable_intros]: "immutable (get_event L x)"
  by (simp add: immutable_def get_event_def)

lemma immutable_refuse [immutable_intros]: "immutable (refuse L code e d i)"
  unfolding refuse_def quarantine_def Let_def by (intro immutable_intros)

lemma immutable_duplicate [immutable_intros]: "immutable (record_duplicate L e d)"
  unfolding record_duplicate_def Let_def by (intro immutable_intros)

lemma immutable_submit_event [immutable_intros]: "immutable (submit_event L e)"
  unfolding submit_event_def Let_def by (intro immutable_intros)

lemma immutable_sequence_clash [immutable_intros]: "immutable (sequence_clash L e owner)"
  unfolding sequence_clash_def by (rule immutable_refuse)

lemma immutable_submit_payload [immutable_intros]: "immutable (submit_payload e p)"
  unfolding submit_payload_def by (intro immutable_intros)

lemma immutable_submit_index [immutable_intros]: "immutable (submit_index L e)"
  unfolding submit_index_def by (intro immutable_intros)

lemma immutable_submit_new [immutable_intros]: "immutable (submit_new L e p d)"
  unfolding submit_new_def check_sequence_def by (intro immutable_intros)

lemma immutable_submit [immutable_intros]: "immutable (submit L cfg e p d)"
  unfolding submit_def submit_again_def by (intro immutable_intros)

section \<open>Paths read back\<close>

lemma seq_text_chars: "list_all (\<lambda>c. is_digit c \<or> c = CHR ''-'') (seq_text n)"
  using show_nat_digits by (auto simp: seq_text_def pad_zeros_def list_all_iff is_digit_def in_rng_def byte_def)

lemma name_chars:
  assumes "list_all (\<lambda>c. is_hex_lower c \<or> c = CHR ''-'') s"
  shows "CHR ''/'' \<notin> set s" and "ascii s"
  using assms by (auto simp: list_all_iff is_hex_lower_def is_digit_def in_rng_def byte_def ascii_def)

lemma event_path_parts:
  assumes "lib_ok L"
  shows "path_parts (posix (event_path L e)) = event_path L e" and "ascii (posix (event_path L e))"
    and "plain_ref (posix (event_path L e))" and "posix (event_path L e) \<noteq> []"
proof -
  let ?k = "replica_key L e" and ?n = "seq_text (fe_replica_seq e)" and ?i = "event_key L (fe_event_id e)"
  have k: "list_all (\<lambda>c. is_hex_lower c \<or> c = CHR ''-'') ?k" "length ?k = 64"
    and i: "list_all (\<lambda>c. is_hex_lower c \<or> c = CHR ''-'') ?i"
    using lib_okD(4,5)[OF assms] by (simp_all add: replica_key_def event_key_def list_all_iff)
  have n: "list_all (\<lambda>c. is_hex_lower c \<or> c = CHR ''-'') ?n"
    using seq_text_chars[of "fe_replica_seq e"] by (auto simp: list_all_iff is_hex_lower_def)
  have k': "?k \<noteq> []" "?k \<noteq> ''.''" "?k \<noteq> ''..''" using k(2) by auto
  have last: "x @ ''-'' @ y @ ''.json'' \<noteq> ''..''" "x @ ''-'' @ y @ ''.json'' \<noteq> ''.''" for x y
    by (simp_all add: append_eq_Cons_conv)
  have ok: "list_all part_ok (event_path L e)"
    using name_chars(1)[OF k(1)] name_chars(1)[OF i] name_chars(1)[OF n] k' last(2)
    by (simp add: event_path_def part_ok_def)
  then show parts: "path_parts (posix (event_path L e)) = event_path L e" by (rule path_parts_posix)
  show "ascii (posix (event_path L e))"
    using name_chars(2)[OF k(1)] name_chars(2)[OF i] name_chars(2)[OF n]
    by (intro ascii_posix) (simp add: event_path_def byte_def)
  show "posix (event_path L e) \<noteq> []" by (simp add: event_path_def)
  have "''..'' \<notin> set (event_path L e)" using k'(3) last(1) by (simp add: event_path_def)
  then show "plain_ref (posix (event_path L e))"
    unfolding plain_ref_def parts by (simp add: event_path_def)
qed

section \<open>What a submission leaves\<close>

lemma refuse_raises [simp]: "refuse L c e d i s \<noteq> (s', Inr x)"
  by (auto simp: refuse_def elim: thenS_InrE)

lemma sequence_clash_raises [simp]: "sequence_clash L e old s \<noteq> (s', Inr x)"
  by (simp add: sequence_clash_def)

lemma submit_payload_Inr:
  assumes "submit_payload e payload D = (D', Inr u)"
  shows "map_of (d_files D') (payload_path e) = Some payload"
proof -
  from assms obtain there D1 where "existsS (payload_path e) D = (D1, Inr there)"
    and k: "(if there then bindS (read_bytes (payload_path e)) (\<lambda>data.
       if data \<noteq> payload then raiseS (Coded ''payload_integrity_failed'') else retS ())
     else catchS (publish_bytes (payload_path e) payload) (\<lambda>err.
       if err \<noteq> Coded ''immutable_file_exists'' then raiseS err
       else bindS (getS (\<lambda>D. map_of (d_files D) (payload_path e))) (\<lambda>data.
         if data \<noteq> Some payload then raiseS (Coded ''payload_integrity_failed'') else retS ()))) D1 = (D', Inr u)"
    unfolding submit_payload_def by (rule bindS_InrE)
  show ?thesis
  proof (cases there)
    case True
    with k show ?thesis
      by (auto elim!: bindS_InrE simp: read_bytes_def read_file_def split: if_splits option.splits)
  next
    case False
    with k show ?thesis
      by (auto elim!: bindS_InrE catchS_InrE dest: publish_bytes_Inr split: if_splits)
  qed
qed

lemma submit_event_created:
  assumes "submit_event L e D = (D', Inr True)"
  obtains b where "canonical_bytes L (JObj (event_to_dict e)) = Inr b"
    and "map_of (d_files D') (event_path L e) = Some b" and "map_of (d_files D) (event_path L e) = None"
proof -
  let ?p = "event_path L e" and ?r = "event_to_dict e"
  from assms obtain there D1 where D1: "existsS ?p D = (D1, Inr there)"
    and k: "(if there then bindS (read_object L ?p) (\<lambda>existing.
          if \<not> py_eq (JObj existing) (JObj ?r)
          then refuse L ''event_content_collision'' e JNull (dget_null existing ''event_id'') else retS False)
        else catchS (thenS (publish_json L ?p (JObj ?r)) (retS True)) (\<lambda>err.
          if err \<noteq> Coded ''immutable_file_exists'' then raiseS err
          else bindS (is_fileS ?p) (\<lambda>f.
            if \<not> f then raiseS (Coded ''event_content_collision'')
            else bindS (read_object L ?p) (\<lambda>existing.
              if \<not> py_eq (JObj existing) (JObj ?r) then raiseS (Coded ''event_content_collision'')
              else retS False)))) D1 = (D', Inr True)"
    unfolding submit_event_def Let_def by (rule bindS_InrE)
  have there: "\<not> there" using k by (auto elim!: bindS_InrE split: if_splits)
  with k have "thenS (publish_json L ?p (JObj ?r)) (retS True) D1 = (D', Inr True)"
    by (auto elim!: bindS_InrE catchS_InrE split: if_splits)
  then have "publish_json L ?p (JObj ?r) D1 = (D', Inr ())" by (auto elim!: thenS_InrE)
  moreover have "D1 = D" using D1 by (simp add: existsS_def)
  ultimately show ?thesis by (auto elim!: publish_json_Inr intro: that)
qed

text \<open>The state after a first submission.\<close>

definition holds_event :: "lib \<Rightarrow> FederatedEvent \<Rightarrow> string \<Rightarrow> disk \<Rightarrow> bool" where
  "holds_event L e payload D \<longleftrightarrow> map_of (d_files D) (payload_path e) = Some payload
     \<and> (\<exists>b. canonical_bytes L (JObj (event_to_dict e)) = Inr b \<and> map_of (d_files D) (event_path L e) = Some b)
     \<and> has_record L (sequence_index_path L e) (sequence_record L e) D
     \<and> has_record L (event_index_path L (fe_event_id e)) (index_record L e) D"

lemma holds_event_grows: "grows D D' \<Longrightarrow> holds_event L e payload D \<Longrightarrow> holds_event L e payload D'"
  unfolding holds_event_def using grows_get has_record_grows by blast

lemma submit_Inr:
  assumes "submit L cfg e payload did D = (D', Inr r)"
  shows "event_ok e \<and> utf8_valid (fe_event_id e) \<and> validate_submission L cfg e payload = Inr ()
    \<and> (if path_exists (d_files D) (event_index_path L (fe_event_id e))
       then submit_again L e payload did D = (D', Inr r) else submit_new L e payload did D = (D', Inr r))"
  using assms unfolding submit_def
  by (auto elim!: thenS_InrE bindS_InrE simp: existsS_def split: if_splits)

lemma record_duplicate_kind: "record_duplicate L e did D = (D', Inr r) \<Longrightarrow> sr_kind r = ''duplicate''"
  unfolding record_duplicate_def Let_def by (auto elim!: thenS_InrE)

lemma submit_again_kind:
  assumes "submit_again L e payload did D = (D', Inr r)" shows "sr_kind r = ''duplicate''"
  using assms unfolding submit_again_def
  by (elim bindS_InrE) (auto elim!: bindS_InrE split: if_splits, erule record_duplicate_kind)

lemma submit_new_Inr:
  assumes "submit_new L e payload did D = (D', Inr r)"
  obtains created D1 D2 D3 D4 D5 u1 u2 u4 u5 where "check_sequence L e D = (D1, Inr u1)"
    "submit_payload e payload D1 = (D2, Inr u2)"
    "submit_event L e D2 = (D3, Inr created)"
    "publish_checked L (sequence_index_path L e) (sequence_record L e) (sequence_clash L e) D3 = (D4, Inr u4)"
    "submit_index L e D4 = (D5, Inr u5)" "grows D5 D'"
    "sr_kind r = (if created then ''created'' else ''duplicate'')"
proof -
  let ?fin = "\<lambda>created. if \<not> created then record_duplicate L e did
      else retS \<lparr>sr_kind = ''created'', sr_event_id = fe_event_id e, sr_delivery_id = did,
        sr_event_path = event_path L e, sr_payload_path = payload_path e, sr_duplicate_path = None\<rparr>"
  have fin: "grows s s' \<and> sr_kind x = (if created then ''created'' else ''duplicate'')"
    if "?fin created s = (s', Inr x)" for created s s' x
  proof (cases created)
    case True
    with that show ?thesis by auto
  next
    case False
    with that have d: "record_duplicate L e did s = (s', Inr x)" by simp
    from immutable_grows[OF immutable_duplicate d] record_duplicate_kind[OF d] False show ?thesis by simp
  qed
  from assms show ?thesis
    unfolding submit_new_def by (elim thenS_InrE bindS_InrE) (rule that, assumption+, drule fin, erule conjunct1, drule fin, erule conjunct2)
qed

lemma submit_index_record:
  assumes "submit_index L e D = (D', Inr u)" and "nfc_ok L"
  shows "has_record L (event_index_path L (fe_event_id e)) (index_record L e) D'"
  using assms(1) unfolding submit_index_def by (rule publish_checked_Inr[OF _ assms(2)]) simp

lemma submit_created:
  assumes "submit L cfg e payload did D = (D', Inr r)" and "sr_kind r = ''created''" and "nfc_ok L"
  shows "holds_event L e payload D'" and "map_of (d_files D) (event_path L e) = None"
    and "check_sequence L e D = (D, Inr ())"
proof -
  from submit_Inr[OF assms(1)] have "submit_new L e payload did D = (D', Inr r)"
    using assms(2) submit_again_kind by (fastforce split: if_splits)
  then obtain created D1 D2 D3 D4 D5 u1 u2 u4 u5 where d1: "check_sequence L e D = (D1, Inr u1)"
    and d2: "submit_payload e payload D1 = (D2, Inr u2)" and d3: "submit_event L e D2 = (D3, Inr created)"
    and d4: "publish_checked L (sequence_index_path L e) (sequence_record L e) (sequence_clash L e) D3 = (D4, Inr u4)"
    and d5: "submit_index L e D4 = (D5, Inr u5)" and g: "grows D5 D'"
    and k: "sr_kind r = (if created then ''created'' else ''duplicate'')"
    by (rule submit_new_Inr)
  have "created" using k assms(2) by (cases created) auto
  with d3 obtain b where b: "canonical_bytes L (JObj (event_to_dict e)) = Inr b"
    and ev: "map_of (d_files D3) (event_path L e) = Some b" "map_of (d_files D2) (event_path L e) = None"
    by (auto elim: submit_event_created)
  have D1: "D1 = D"
    using d1 by (auto simp: check_sequence_def existsS_def elim!: bindS_InrE split: if_splits)
  have g2: "grows D1 D2" by (rule immutable_grows[OF immutable_submit_payload d2])
  have g3: "grows D2 D3" by (rule immutable_grows[OF immutable_submit_event d3])
  have g4: "grows D3 D4" by (rule immutable_grows[OF immutable_publish_checked[OF immutable_sequence_clash] d4])
  have g5: "grows D4 D5" by (rule immutable_grows[OF immutable_submit_index d5])
  have "has_record L (sequence_index_path L e) (sequence_record L e) D4"
    using d4 by (rule publish_checked_Inr[OF _ assms(3)]) simp
  moreover have "has_record L (event_index_path L (fe_event_id e)) (index_record L e) D5"
    by (rule submit_index_record[OF d5 assms(3)])
  moreover have "map_of (d_files D2) (payload_path e) = Some payload" by (rule submit_payload_Inr[OF d2])
  ultimately show "holds_event L e payload D'"
    unfolding holds_event_def
    using b grows_get[OF grows_trans[OF g4 grows_trans[OF g5 g]] ev(1)]
      grows_get[OF grows_trans[OF g3 grows_trans[OF g4 grows_trans[OF g5 g]]]]
      has_record_grows[OF grows_trans[OF g5 g]] has_record_grows[OF g] by blast
  show "map_of (d_files D) (event_path L e) = None"
    using ev(2) grows_get[OF g2] D1 by (metis not_None_eq)
  show "check_sequence L e D = (D, Inr ())" using d1 D1 by simp
qed

text \<open>The digest of an event is ASCII.\<close>

lemma core_digest_ascii: "lib_ok L \<Longrightarrow> ascii (core_digest L e)"
  by (auto simp: core_digest_def event_digest_def tagged_digest_def bindR_def EVENT_CANON_def byte_def lib_okD(3)
      split: sum.splits)

lemma record_keys:
  "distinct (map fst (index_record L e))" "list_all ascii (map fst (index_record L e))"
  "distinct (map fst (sequence_record L e))" "list_all ascii (map fst (sequence_record L e))"
  by (simp_all add: index_record_def sequence_record_def byte_def)

lemma index_fields:
  assumes "has_record L p (index_record L e) D" and "lib_ok L" and "read_object_file L (d_files D) p = Inr d"
  shows "dget_null d ''event_id'' \<in> {JStr (fe_event_id e), JStr (nfc L (fe_event_id e))}"
    and "dget_null d ''event_path'' = JStr (posix (event_path L e))"
    and "dget_null d ''core_digest'' = JStr (core_digest L e)"
  using record_field[OF assms record_keys(1,2), of "''event_id''"]
    record_field[OF assms record_keys(1,2), of "''event_path''"]
    record_field[OF assms record_keys(1,2), of "''core_digest''"]
    lib_okD(2)[OF assms(2) event_path_parts(2)[OF assms(2)]] lib_okD(2)[OF assms(2) core_digest_ascii[OF assms(2)]]
  by (simp_all add: index_record_def)

lemma sequence_fields:
  assumes "has_record L p (sequence_record L e) D" and "lib_ok L" and "read_object_file L (d_files D) p = Inr d"
  shows "dget_null d ''event_path'' = JStr (posix (event_path L e))"
  using record_field[OF assms record_keys(3,4), of "''event_path''"]
    lib_okD(2)[OF assms(2) event_path_parts(2)[OF assms(2)]]
  by (simp add: sequence_record_def)

lemma payload_checked: "validate_submission L cfg e payload = Inr () \<Longrightarrow> upper_sha256 L payload = fe_payload_sha256 e"
  by (auto simp: validate_submission_def bindR_Inr_iff)

lemma fixed_event_id: "fixed f (JObj (event_to_dict e)) \<Longrightarrow> f (fe_event_id e) = fe_event_id e"
  by (simp add: event_to_dict_def)

text \<open>An event in normal form that the disk holds is read back.\<close>

lemma event_file_read:
  assumes "canonical_bytes L (JObj (event_to_dict e)) = Inr b" and "map_of fs p = Some b" and "nfc_ok L"
    and "fixed (nfc L) (JObj (event_to_dict e))"
  shows "read_object_file L fs p = Inr (stored (event_to_dict e))"
proof -
  from assms(1) obtain w where w: "normalize (nfc L) (JObj (event_to_dict e)) = Inr w"
    by (rule canonical_bytes_Inr)
  then have "normalize (nfc L) (JObj (event_to_dict e)) = Inr (JObj (event_to_dict e))"
    using normalize_keeps(1)[OF w assms(4)] by simp
  then show ?thesis using object_round_trip[OF assms(1,3)] assms(2) by (auto simp: read_object_file_def)
qed

lemma get_event_holds:
  assumes "holds_event L e payload D" and "event_ok e" and "utf8_valid (fe_event_id e)" and "lib_ok L"
    and "fixed (nfc L) (JObj (event_to_dict e))" and "upper_sha256 L payload = fe_payload_sha256 e"
  shows "get_event_file L (d_files D) (fe_event_id e) = Inr e"
proof -
  have rec: "has_record L (event_index_path L (fe_event_id e)) (index_record L e) D"
    using assms(1) by (simp add: holds_event_def)
  then obtain d where d: "read_object_file L (d_files D) (event_index_path L (fe_event_id e)) = Inr d"
    by (auto simp: has_record_def)
  note f = index_fields[OF rec assms(4) d]
  have id: "dget_null d ''event_id'' = JStr (fe_event_id e)" using f(1) fixed_event_id[OF assms(5)] by simp
  have there: "is_file (d_files D) (event_index_path L (fe_event_id e))"
    using d by (auto simp: read_object_file_def is_file_def split: option.splits)
  obtain b where b: "canonical_bytes L (JObj (event_to_dict e)) = Inr b" "map_of (d_files D) (event_path L e) = Some b"
    using assms(1) by (auto simp: holds_event_def)
  note r = event_file_read[OF b lib_okD(1)[OF assms(4)] assms(5)]
  have p: "event_payload_file L (d_files D) e = Inr payload"
    using assms(1,6) by (simp add: holds_event_def event_payload_file_def)
  note path = event_path_parts[OF assms(4), of e]
  show ?thesis
    unfolding get_event_file_def d
    by (simp add: assms(3) there id f(2,3) path r event_parse_stored[OF assms(2)] p json_tests Let_def)
qed

lemma indexed_event_holds:
  assumes "holds_event L e payload D" and "event_ok e" and "utf8_valid (fe_event_id e)" and "lib_ok L"
    and "fixed (nfc L) (JObj (event_to_dict e))" and "upper_sha256 L payload = fe_payload_sha256 e"
  shows "indexed_event L (d_files D) (event_index_path L (fe_event_id e)) = Inr e"
proof -
  have rec: "has_record L (event_index_path L (fe_event_id e)) (index_record L e) D"
    using assms(1) by (simp add: holds_event_def)
  then obtain d where d: "read_object_file L (d_files D) (event_index_path L (fe_event_id e)) = Inr d"
    by (auto simp: has_record_def)
  have "dget_null d ''event_id'' = JStr (fe_event_id e)"
    using index_fields(1)[OF rec assms(4) d] fixed_event_id[OF assms(5)] by simp
  then have "dget d ''event_id'' = Inr (JStr (fe_event_id e))"
    by (cases "map_of d ''event_id''") (simp_all add: dget_def dget_null_def)
  then show ?thesis using get_event_holds[OF assms] d by (simp add: indexed_event_def)
qed

text \<open>The same event again: only its delivery is recorded.\<close>

lemma resubmit:
  assumes "holds_event L e payload D" and "event_ok e" and "utf8_valid (fe_event_id e)" and "lib_ok L"
    and "fixed (nfc L) (JObj (event_to_dict e))" and "validate_submission L cfg e payload = Inr ()"
    and "did \<noteq> []" and "utf8_valid did"
  shows "submit L cfg e payload did D = record_duplicate L e did D"
proof -
  have rec: "has_record L (event_index_path L (fe_event_id e)) (index_record L e) D"
    using assms(1) by (simp add: holds_event_def)
  then obtain d where d: "read_object_file L (d_files D) (event_index_path L (fe_event_id e)) = Inr d"
    by (auto simp: has_record_def)
  have there: "path_exists (d_files D) (event_index_path L (fe_event_id e))"
    using d by (auto simp: read_object_file_def path_exists_def is_file_def split: option.splits)
  have enc: "encodable L e" using assms(1) by (auto simp: holds_event_def encodable_def)
  have get: "get_event_file L (d_files D) (fe_event_id e) = Inr e"
    by (rule get_event_holds[OF assms(1-5) payload_checked[OF assms(6)]])
  have pay: "map_of (d_files D) (payload_path e) = Some payload" using assms(1) by (simp add: holds_event_def)
  show ?thesis
    by (simp add: submit_def submit_again_def thenS_def bindS_def liftS_def getS_def existsS_def read_object_def
        get_event_def read_bytes_def read_file_def assms(2,3,6-8) enc there d index_fields(3)[OF rec assms(4) d] get pay)
qed

lemma duplicate_written:
  assumes "d_others D = []" and "\<not> under_file (d_files D) p" and "\<not> path_exists (d_files D) p"
    and "p = duplicate_path L (fe_event_id e) did" and "canonical_bytes L (JObj (duplicate_record L e did)) = Inr b"
  shows "\<exists>r. record_duplicate L e did D = (D\<lparr>d_files := d_files D @ [(p, b)]\<rparr>, Inr r) \<and> sr_kind r = ''duplicate''"
  using assms(3-5) free_publication[OF assms(1-3)]
  by (simp add: record_duplicate_def record_once_def publish_json_def Let_def thenS_def bindS_def existsS_def getS_def
      liftS_def retS_def)

lemma duplicate_kept:
  assumes "map_of (d_files D) p = Some b" and "p = duplicate_path L (fe_event_id e) did" and "lib_ok L"
    and "canonical_bytes L (JObj (duplicate_record L e did)) = Inr b"
    and "fixed (nfc L) (JObj (duplicate_record L e did))"
  shows "\<exists>r. record_duplicate L e did D = (D, Inr r) \<and> sr_kind r = ''duplicate'' \<and> sr_duplicate_path r = Some p"
proof -
  let ?r = "duplicate_record L e did"
  obtain w where w: "normalize (nfc L) (JObj ?r) = Inr w" using assms(4) by (rule canonical_bytes_Inr)
  then have "normalize (nfc L) (JObj ?r) = Inr (JObj ?r)" using normalize_keeps(1)[OF w assms(5)] by simp
  then have o: "object_of_bytes L b = Inr (stored ?r)"
    using object_round_trip[OF assms(4) lib_okD(1)[OF assms(3)]] by auto
  have "py_eq (JObj (stored ?r)) (JObj ?r)" using py_eq_sort_keys(1)[of "JObj ?r" "JObj ?r"] by simp
  then show ?thesis
    using assms(1,2) o
    by (simp add: record_duplicate_def record_once_def Let_def thenS_def bindS_def existsS_def getS_def retS_def
        read_object_def read_object_file_def path_exists_def is_file_def)
qed

text \<open>The index of an event whose id is not in normal form carries another id.\<close>

lemma unnormalized_index:
  assumes "holds_event L e payload D" and "lib_ok L" and "nfc L (fe_event_id e) \<noteq> fe_event_id e"
  obtains d b where "map_of (d_files D) (event_index_path L (fe_event_id e)) = Some b"
    and "read_object_file L (d_files D) (event_index_path L (fe_event_id e)) = Inr d"
    and "dget_null d ''event_id'' = JStr (nfc L (fe_event_id e))"
proof -
  let ?p = "event_index_path L (fe_event_id e)"
  have rec: "has_record L ?p (index_record L e) D" using assms(1) by (simp add: holds_event_def)
  then obtain d where d: "read_object_file L (d_files D) ?p = Inr d" by (auto simp: has_record_def)
  then obtain b where b: "map_of (d_files D) ?p = Some b" "object_of_bytes L b = Inr d"
    by (auto simp: read_object_file_def split: option.splits)
  have "dget_null d ''event_id'' \<noteq> JStr (fe_event_id e)"
  proof
    assume "dget_null d ''event_id'' = JStr (fe_event_id e)"
    then have "map_of d ''event_id'' = Some (JStr (fe_event_id e))"
      by (cases "map_of d ''event_id''") (simp_all add: dget_null_def)
    then have "(''event_id'', JStr (fe_event_id e)) \<in> set d" by (rule map_of_SomeD)
    then show False
      using canonical_object(2)[OF b(2) lib_okD(1)[OF assms(2)]] assms(3) by (fastforce simp: list_all_iff)
  qed
  then show ?thesis using index_fields(1)[OF rec assms(2) d] by (intro that[OF b(1) d]) blast
qed

lemma unreadable_index:
  assumes "read_object_file L fs (event_index_path L x) = Inr d" and "map_of fs (event_index_path L x) = Some b"
    and "dget_null d ''event_id'' = JStr y" and "\<not> is_file fs (event_index_path L y)"
  shows "\<exists>err. events_file L fs = Inl err"
proof (cases "events_file L fs")
  case (Inr es)
  then obtain xs where "mapR (indexed_event L fs) (glob_json fs [''indexes'', ''events'']) = Inr xs"
    by (auto simp: events_file_def bindR_Inr_iff)
  then have all: "list_all2 (\<lambda>p e. indexed_event L fs p = Inr e) (glob_json fs [''indexes'', ''events'']) xs"
    by (simp add: mapR_Inr_iff)
  have "[''indexes'', ''events''] @ [event_key L x @ ''.json''] \<in> set (glob_json fs [''indexes'', ''events''])"
    using assms(2) by (intro glob_json_mem) (auto simp: event_index_path_def endswith_iff)
  then obtain e where e: "indexed_event L fs (event_index_path L x) = Inr e"
    using all by (auto simp: list_all2_conv_all_nth in_set_conv_nth event_index_path_def)
  have "dget d ''event_id'' = Inr (JStr y)"
    using assms(3) by (cases "map_of d ''event_id''") (simp_all add: dget_def dget_null_def)
  then show ?thesis using e assms(1,4) by (simp add: indexed_event_def get_event_file_def split: if_splits)
qed simp

text \<open>After any accepted submission the disk holds its payload.\<close>

lemma submit_stores_payload:
  assumes "submit L cfg e payload did D = (D', Inr r)"
  shows "map_of (d_files D') (payload_path e) = Some payload"
proof (cases "path_exists (d_files D) (event_index_path L (fe_event_id e))")
  case True
  with submit_Inr[OF assms] have "submit_again L e payload did D = (D', Inr r)" by simp
  then obtain s1 where "read_bytes (payload_path e) s1 = (s1, Inr payload)" "record_duplicate L e did s1 = (D', Inr r)"
    unfolding submit_again_def by (elim bindS_InrE) (auto simp: get_event_def read_bytes_def elim!: bindS_InrE split: if_splits)
  then show ?thesis
    using grows_get[OF immutable_grows[OF immutable_duplicate]]
    by (auto simp: read_bytes_def read_file_def split: option.splits)
next
  case False
  with submit_Inr[OF assms] have "submit_new L e payload did D = (D', Inr r)" by simp
  then obtain created D1 D2 D3 D4 D5 u2 u4 u5 where d2: "submit_payload e payload D1 = (D2, Inr u2)"
    and d: "submit_event L e D2 = (D3, Inr created)"
      "publish_checked L (sequence_index_path L e) (sequence_record L e) (sequence_clash L e) D3 = (D4, Inr u4)"
      "submit_index L e D4 = (D5, Inr u5)" "grows D5 D'"
    by (rule submit_new_Inr)
  have "grows D2 D'"
    using immutable_grows[OF immutable_submit_event d(1)] d(4) immutable_grows[OF immutable_submit_index d(3)]
      immutable_grows[OF immutable_publish_checked[OF immutable_sequence_clash] d(2)] grows_trans by blast
  then show ?thesis using grows_get submit_payload_Inr[OF d2] by blast
qed

section \<open>Properties\<close>

text \<open>The files a submission may add: those of its event, and a quarantine record.\<close>

definition quarantine_files :: "path set" where
  "quarantine_files = range (\<lambda>name. [''quarantine'', name])"

definition event_files :: "lib \<Rightarrow> FederatedEvent \<Rightarrow> string \<Rightarrow> path set" where
  "event_files L e did = {payload_path e, event_path L e, sequence_index_path L e, event_index_path L (fe_event_id e),
     duplicate_path L (fe_event_id e) did} \<union> quarantine_files"

lemma only_adds_quarantine: "only_adds quarantine_files (quarantine L c e d i)"
  unfolding quarantine_def Let_def by (intro adds_intros) (simp add: quarantine_files_def)

lemma only_adds_refuse [adds_intros]: "quarantine_files \<subseteq> F \<Longrightarrow> only_adds F (refuse L c e d i)"
  unfolding refuse_def quarantine_def Let_def by (intro adds_intros) (auto simp: quarantine_files_def)

lemma only_adds_read_event [adds_intros]: "only_adds F (get_event L x)" "only_adds F (get_conflict L x)"
  by (simp add: only_adds_def get_event_def) (unfold get_conflict_def, intro adds_intros)

lemma only_adds_submit: "only_adds (event_files L e did) (submit L cfg e payload did)"
proof -
  let ?F = "event_files L e did"
  have q: "quarantine_files \<subseteq> ?F" unfolding event_files_def by blast
  have p: "payload_path e \<in> ?F" "event_path L e \<in> ?F" "sequence_index_path L e \<in> ?F"
    "event_index_path L (fe_event_id e) \<in> ?F" "duplicate_path L (fe_event_id e) did \<in> ?F"
    by (simp_all add: event_files_def)
  show ?thesis
    unfolding submit_def submit_again_def submit_new_def check_sequence_def sequence_clash_def submit_payload_def
      submit_event_def submit_index_def record_duplicate_def Let_def
    by (intro adds_intros q p)
qed

text \<open>
  C22: the store is append-only. Whatever a submission, an observation, a conflict, a resolution or a quarantine
  record returns or raises, and whatever other processes publish meanwhile, every file that was on the disk is
  there afterwards with the same bytes, and every new file is the operation's own or was published by another
  process: a submission adds only the payload, the event, the two indexes and the duplicate record of its event or
  a quarantine record, and it leaves the disk as it is when a check of the submission fails; each of the other
  operations adds the one file of its record. A publication would replace what its path holds if \<open>link_new\<close> did
  not refuse a path that is taken.
\<close>

theorem store_append_only:
  "(if validate_submission L cfg e payload = Inr () \<and> did \<noteq> []
      then adds (event_files L e did) D (fst (submit L cfg e payload did D))
      else fst (submit L cfg e payload did D) = D)
   \<and> adds {observation_path L event_id observer_id} D (fst (record_observation L event_id observer_id record D))
   \<and> adds {conflict_path L conflict_id} D (fst (record_conflict L conflict_id record D))
   \<and> adds {resolution_path L conflict_id event_id} D (fst (record_resolution L conflict_id event_id record D))
   \<and> adds quarantine_files D (fst (quarantine_event L code e D))"
proof -
  have "only_adds {observation_path L event_id observer_id} (record_observation L event_id observer_id record)"
    "only_adds {conflict_path L conflict_id} (record_conflict L conflict_id record)"
    "only_adds {resolution_path L conflict_id event_id} (record_resolution L conflict_id event_id record)"
    unfolding record_observation_def record_conflict_def record_resolution_def by (intro adds_intros singletonI)+
  moreover have "fst (submit L cfg e payload did D) = D" if "validate_submission L cfg e payload \<noteq> Inr () \<or> did = []"
    using that unfolding submit_def by (cases "validate_submission L cfg e payload") (auto simp: op_defs)
  ultimately show ?thesis
    using only_adds_submit only_adds_quarantine unfolding only_adds_def quarantine_event_def by simp
qed

text \<open>
  C23: what was created is read back. Once \<open>submit\<close> has answered \<open>created\<close> for an event in normal
  form, \<open>get_event\<close> gives back that event and \<open>event_payload\<close> its payload, on every later disk.
\<close>

theorem created_event_read_back:
  assumes "submit L cfg e payload did D = (D', Inr r)" and "sr_kind r = ''created''" and "lib_ok L"
    and "fixed (nfc L) (JObj (event_to_dict e))" and "grows D' D''"
  shows "get_event L (fe_event_id e) D'' = (D'', Inr e) \<and> event_payload L e D'' = (D'', Inr payload)"
proof -
  note s = submit_Inr[OF assms(1)]
  have h: "holds_event L e payload D''"
    by (rule holds_event_grows[OF assms(5) submit_created(1)[OF assms(1,2) lib_okD(1)[OF assms(3)]]])
  then show ?thesis
    using get_event_holds[OF h _ _ assms(3,4)] s payload_checked[of L cfg e payload]
    by (simp add: get_event_def event_payload_def event_payload_file_def holds_event_def)
qed

text \<open>
  C24: a sequence number is given once. After an event was created under a replica, generation and
  sequence number, no later submission with the same three creates one: it answers \<open>duplicate\<close> or
  raises, whatever other processes have published in between.
\<close>

theorem sequence_given_once:
  assumes "submit L cfg e payload did D = (D', Inr r)" and "sr_kind r = ''created''" and "lib_ok L"
    and "sequence_key e2 = sequence_key e" and "grows D' D''"
  shows "\<not> (\<exists>D3 r2. submit L cfg2 e2 payload2 did2 D'' = (D3, Inr r2) \<and> sr_kind r2 = ''created'')"
proof clarify
  fix D3 r2
  assume s2: "submit L cfg2 e2 payload2 did2 D'' = (D3, Inr r2)" "sr_kind r2 = ''created''"
  note nfc = lib_okD(1)[OF assms(3)]
  note h2 = submit_created[OF s2 nfc]
  have h1: "holds_event L e payload D''"
    by (rule holds_event_grows[OF assms(5) submit_created(1)[OF assms(1,2) nfc]])
  have g: "grows D'' D3" using immutable_grows[OF immutable_submit s2(1)] .
  have path: "sequence_index_path L e2 = sequence_index_path L e"
    using assms(4) by (simp add: sequence_index_path_def replica_key_def sequence_key_def)
  have r1: "has_record L (sequence_index_path L e) (sequence_record L e) D3"
    using has_record_grows[OF g] h1 by (simp add: holds_event_def)
  have r2: "has_record L (sequence_index_path L e) (sequence_record L e2) D3"
    using h2(1) by (simp add: holds_event_def path)
  obtain d where d: "read_object_file L (d_files D3) (sequence_index_path L e) = Inr d"
    using r1 by (auto simp: has_record_def)
  have "posix (event_path L e) = posix (event_path L e2)"
    using sequence_fields[OF r1 assms(3) d] sequence_fields[OF r2 assms(3) d] by simp
  then have "event_path L e = event_path L e2" using event_path_parts(1)[OF assms(3)] by metis
  then show False using h1 h2(2) by (auto simp: holds_event_def)
qed

text \<open>
  A redelivery is recorded once. Delivering a created event again answers \<open>duplicate\<close> and adds
  one file, the record of that delivery; delivering it once more under the same delivery id answers
  \<open>duplicate\<close> and changes nothing.
\<close>

theorem redelivery_recorded_once:
  assumes "submit L cfg e payload did D = (D', Inr r)" and "sr_kind r = ''created''" and "lib_ok L"
    and "fixed (nfc L) (JObj (event_to_dict e))" and "fixed (nfc L) (JObj (duplicate_record L e did2))"
    and "grows D' D''" and "d_others D'' = []" and "did2 \<noteq> []" and "utf8_valid did2"
    and "p = duplicate_path L (fe_event_id e) did2" and "\<not> path_exists (d_files D'') p"
    and "\<not> under_file (d_files D'') p" and "canonical_bytes L (JObj (duplicate_record L e did2)) = Inr b"
  shows "\<exists>r2 r3. submit L cfg e payload did2 D'' = (D''\<lparr>d_files := d_files D'' @ [(p, b)]\<rparr>, Inr r2)
    \<and> sr_kind r2 = ''duplicate''
    \<and> submit L cfg e payload did2 (D''\<lparr>d_files := d_files D'' @ [(p, b)]\<rparr>)
        = (D''\<lparr>d_files := d_files D'' @ [(p, b)]\<rparr>, Inr r3) \<and> sr_kind r3 = ''duplicate''"
proof -
  let ?D = "D''\<lparr>d_files := d_files D'' @ [(p, b)]\<rparr>"
  have ok: "event_ok e" "utf8_valid (fe_event_id e)" "validate_submission L cfg e payload = Inr ()"
    using submit_Inr[OF assms(1)] by simp_all
  have h: "holds_event L e payload D''"
    by (rule holds_event_grows[OF assms(6) submit_created(1)[OF assms(1,2) lib_okD(1)[OF assms(3)]]])
  have "grows D'' ?D" using map_of_append_le by (simp add: grows_def)
  note h' = holds_event_grows[OF this h]
  have "map_of (d_files D'') p = None" using assms(11) by (simp add: path_exists_def is_file_def)
  then have m: "map_of (d_files ?D) p = Some b" by (simp add: map_add_def)
  show ?thesis
    unfolding resubmit[OF h ok(1,2) assms(3,4) ok(3) assms(8,9)] resubmit[OF h' ok(1,2) assms(3,4) ok(3) assms(8,9)]
    using duplicate_written[OF assms(7,12,11,10,13)] duplicate_kept[OF m assms(10,3,13,5)] by blast
qed

text \<open>
  C39: an event whose id is not in normal form is created but cannot be read. \<open>submit\<close> files it
  under the id as it is and writes the id in normal form into the index; afterwards \<open>get_event\<close>
  raises for that id, and \<open>events\<close> raises for the whole store, until an event of the normal id
  exists.
\<close>

theorem unnormalized_event_hidden:
  assumes "submit L cfg e payload did D = (D', Inr r)" and "sr_kind r = ''created''" and "lib_ok L"
    and "nfc L (fe_event_id e) \<noteq> fe_event_id e" and "grows D' D''"
  shows "get_event L (fe_event_id e) D'' = (D'', Inl (Coded ''event_index_mismatch''))
    \<and> (is_file (d_files D'') (event_index_path L (nfc L (fe_event_id e))) \<or> (\<exists>err. events L D'' = (D'', Inl err)))"
proof -
  have h: "holds_event L e payload D''"
    by (rule holds_event_grows[OF assms(5) submit_created(1)[OF assms(1,2) lib_okD(1)[OF assms(3)]]])
  from h assms(3,4) obtain d b where b: "map_of (d_files D'') (event_index_path L (fe_event_id e)) = Some b"
    and d: "read_object_file L (d_files D'') (event_index_path L (fe_event_id e)) = Inr d"
    and id: "dget_null d ''event_id'' = JStr (nfc L (fe_event_id e))"
    by (rule unnormalized_index)
  have "get_event L (fe_event_id e) D'' = (D'', Inl (Coded ''event_index_mismatch''))"
    using submit_Inr[OF assms(1)] b d id assms(4) by (simp add: get_event_def get_event_file_def is_file_def)
  then show ?thesis using unreadable_index[OF d b id] by (auto simp: events_def)
qed

section \<open>A submission\<close>

definition empty_disk :: disk where
  "empty_disk = \<lparr>d_files = [], d_others = []\<rparr>"

definition sample_submit :: "string \<Rightarrow> (disk, SubmissionResult) op" where
  "sample_submit did = submit plain_lib sample_config (sample_event ''a'' 1 []) [] did"

definition sample_disk :: disk where
  "sample_disk = fst (sample_submit ''delivery:1'' empty_disk)"

lemma sample_created:
  obtains r where "sample_submit ''delivery:1'' empty_disk = (sample_disk, Inr r)" and "sr_kind r = ''created''"
    and "\<not> path_exists (d_files sample_disk) (duplicate_path plain_lib ''a'' ''delivery:2'')"
    and "\<not> under_file (d_files sample_disk) (duplicate_path plain_lib ''a'' ''delivery:2'')"
    and "d_others sample_disk = []"
proof -
  let ?p = "duplicate_path plain_lib ''a'' ''delivery:2''"
  have "(case sample_submit ''delivery:1'' empty_disk of (D, Inr r) \<Rightarrow> sr_kind r = ''created''
      \<and> \<not> path_exists (d_files D) ?p \<and> \<not> under_file (d_files D) ?p \<and> d_others D = [] | (D, Inl _) \<Rightarrow> False)"
    by code_simp
  then show ?thesis
    by (cases "sample_submit ''delivery:1'' empty_disk") (auto simp: sample_disk_def split: sum.splits intro: that)
qed

theorem created_event_read_back_witness:
  "get_event plain_lib ''a'' sample_disk = (sample_disk, Inr (sample_event ''a'' 1 []))"
proof -
  obtain r where r: "sample_submit ''delivery:1'' empty_disk = (sample_disk, Inr r)" "sr_kind r = ''created''"
    by (rule sample_created)
  from created_event_read_back[OF r(1)[unfolded sample_submit_def] r(2) plain_lib_lib_ok fixed_plain grows_refl]
  show ?thesis by (simp add: sample_event_def)
qed

theorem sequence_given_once_witness:
  "\<not> (\<exists>D3 r2. submit plain_lib sample_config (sample_event ''b'' 1 []) [] ''delivery:2'' sample_disk = (D3, Inr r2)
     \<and> sr_kind r2 = ''created'')"
proof -
  obtain r where r: "sample_submit ''delivery:1'' empty_disk = (sample_disk, Inr r)" "sr_kind r = ''created''"
    by (rule sample_created)
  have "sequence_key (sample_event ''b'' 1 []) = sequence_key (sample_event ''a'' 1 [])"
    by (simp add: sequence_key_def sample_event_def)
  from sequence_given_once[OF r(1)[unfolded sample_submit_def] r(2) plain_lib_lib_ok this grows_refl]
  show ?thesis .
qed

theorem redelivery_recorded_once_witness:
  "\<exists>D r. submit plain_lib sample_config (sample_event ''a'' 1 []) [] ''delivery:2'' sample_disk = (D, Inr r)
     \<and> sr_kind r = ''duplicate''"
proof -
  let ?e = "sample_event ''a'' 1 []" and ?p = "duplicate_path plain_lib ''a'' ''delivery:2''"
  obtain r where r: "sample_submit ''delivery:1'' empty_disk = (sample_disk, Inr r)" "sr_kind r = ''created''"
    and free: "\<not> path_exists (d_files sample_disk) ?p" "\<not> under_file (d_files sample_disk) ?p" "d_others sample_disk = []"
    by (rule sample_created)
  have "(case canonical_bytes plain_lib (JObj (duplicate_record plain_lib ?e ''delivery:2'')) of Inr _ \<Rightarrow> True | Inl _ \<Rightarrow> False)"
    by code_simp
  then obtain b where b: "canonical_bytes plain_lib (JObj (duplicate_record plain_lib ?e ''delivery:2'')) = Inr b"
    by (auto split: sum.splits)
  have p: "?p = duplicate_path plain_lib (fe_event_id ?e) ''delivery:2''" by (simp add: sample_event_def)
  have d: "''delivery:2'' \<noteq> []" "utf8_valid ''delivery:2''" by code_simp+
  from redelivery_recorded_once[OF r(1)[unfolded sample_submit_def] r(2) plain_lib_lib_ok fixed_plain fixed_plain
      grows_refl free(3) d p free(1,2) b]
  show ?thesis by blast
qed

text \<open>A library whose normal form composes one accented letter.\<close>

definition accent_lib :: lib where
  "accent_lib = \<lparr>sha256_hex = (\<lambda>s. if s = [CHR ''e'', CHR 0xCC, CHR 0x81] then replicate 64 CHR ''1'' else replicate 64 CHR ''0''),
     nfc = (\<lambda>s. if s = [CHR ''e'', CHR 0xCC, CHR 0x81] then [CHR 0xC3, CHR 0xA9] else s)\<rparr>"

lemma accent_lib_ok: "lib_ok accent_lib"
  by (simp add: lib_ok_def nfc_ok_def accent_lib_def list_all_iff is_hex_lower_def is_digit_def in_rng_def byte_def)

definition accent_disk :: disk where
  "accent_disk = fst (submit accent_lib sample_config (sample_event [CHR ''e'', CHR 0xCC, CHR 0x81] 1 []) []
     ''delivery:1'' empty_disk)"

theorem unnormalized_event_hidden_witness: "\<exists>err. events accent_lib accent_disk = (accent_disk, Inl err)"
proof -
  let ?e = "sample_event [CHR ''e'', CHR 0xCC, CHR 0x81] 1 []"
  let ?s = "submit accent_lib sample_config ?e [] ''delivery:1'' empty_disk"
  let ?q = "event_index_path accent_lib (nfc accent_lib (fe_event_id ?e))"
  have "(case ?s of (D, Inr r) \<Rightarrow> sr_kind r = ''created'' \<and> \<not> is_file (d_files D) ?q | (D, Inl _) \<Rightarrow> False)" by code_simp
  then obtain r where r: "?s = (accent_disk, Inr r)" "sr_kind r = ''created''"
    and q: "\<not> is_file (d_files accent_disk) ?q"
    by (cases ?s) (auto simp: accent_disk_def split: sum.splits)
  have n: "nfc accent_lib (fe_event_id ?e) \<noteq> fe_event_id ?e" by code_simp
  from unnormalized_event_hidden[OF r accent_lib_ok n grows_refl] q show ?thesis by blast
qed

end
