(* ===== verification/Fed_Projection.thy ===== *)
theory Fed_Projection
  imports Fed_Store
begin

text \<open>
  \<open>src/eml_pmw/federation/projector.py\<close>: the projection of a store, rebuilt from its files alone, as a
  JSON value and as the rows of an SQLite database, and the comparison of two projections. A field
  of a subject shows the value of one event, or its events are listed as unresolved.
\<close>

section \<open>What the events say\<close>

definition PROJECTION_SCHEMA :: string where
  "PROJECTION_SCHEMA = ''pmw-federation-projection/v1''"

definition PROJECTION_NONCLAIMS :: "string list" where
  "PROJECTION_NONCLAIMS = [''global_causal_order'', ''source_history_rewritten'', ''ral_head_mutated'',
     ''resident_identity_continuity'']"

text \<open>\<open>_payload_value\<close>: every failure is one code, and a value other than an object is no payload.\<close>

definition payload_value :: "lib \<Rightarrow> files \<Rightarrow> FederatedEvent \<Rightarrow> dict option res" where
  "payload_value L fs e = (case bindR (event_payload_file L fs e) loads_strict of
      Inl _ \<Rightarrow> Inl (Coded ''projection_payload_invalid'')
    | Inr v \<Rightarrow> Inr (case v of JObj d \<Rightarrow> Some d | _ \<Rightarrow> None))"

text \<open>
  \<open>_selected_events\<close>: the members and the selected event of every resolution. Of the members only
  the strings are ever looked up; a list or an object among them cannot enter a set.
\<close>

definition resolution_marks :: "dict \<Rightarrow> (string list \<times> string) res" where
  "resolution_marks r = (case (map_of r ''member_event_ids'', dget_null r ''selected_event_id'') of
      (None, JStr s) \<Rightarrow> Inr ([], s)
    | (Some (JList ms), JStr s) \<Rightarrow> if list_all hashable ms then Inr (map the_str (filter is_str ms), s) else Inl TypeError
    | _ \<Rightarrow> Inl (Coded ''resolution_record_invalid''))"

definition selected_events :: "dict list \<Rightarrow> (string list \<times> string list) res" where
  "selected_events rs = bindR (mapR resolution_marks rs) (\<lambda>marks. Inr (concat (map fst marks), map snd marks))"

text \<open>\<open>by_id\<close>, \<open>withdrawn\<close> and \<open>corrected\<close>.\<close>

definition by_id :: "FederatedEvent list \<Rightarrow> event_dict" where
  "by_id es = fold (\<lambda>e m. AList.update (fe_event_id e) e m) es []"

definition withdrawn :: "FederatedEvent list \<Rightarrow> string list" where
  "withdrawn es = List.map_filter fe_withdraws es"

definition corrected :: "FederatedEvent list \<Rightarrow> string list" where
  "corrected es = List.map_filter fe_correction_of es"

definition describes :: "FederatedEvent \<Rightarrow> bool" where
  "describes e = (fe_event_kind e \<noteq> ''pmw.conflict.resolution'')"

definition retracted :: "FederatedEvent list \<Rightarrow> FederatedEvent \<Rightarrow> bool" where
  "retracted es e = (fe_event_id e \<in> set (withdrawn es) \<or> fe_event_id e \<in> set (corrected es) \<or> fe_withdraws e \<noteq> None)"

text \<open>
  The entry an event adds to \<open>candidate_fields\<close>: its subject and field, with the event and the value.
  The dict is the list of the entries in the order of the events.
\<close>

type_synonym proposal = "(string \<times> string) \<times> (FederatedEvent \<times> json)"

definition proposal_of :: "lib \<Rightarrow> files \<Rightarrow> FederatedEvent list \<Rightarrow> FederatedEvent \<Rightarrow> proposal list res" where
  "proposal_of L fs es e =
     (if \<not> describes e \<or> retracted es e then Inr []
      else bindR (payload_value L fs e) (\<lambda>p. case p of
          None \<Rightarrow> Inr []
        | Some d \<Rightarrow>
            if set (dkeys d) \<noteq> {''field'', ''value''} then Inr []
            else if \<not> nonempty_str (dget_null d ''field'') then Inl (Coded ''projection_field_invalid'')
            else Inr [((fe_subject_ref e, the_str (dget_null d ''field'')), (e, dget_null d ''value''))]))"

definition proposals :: "lib \<Rightarrow> files \<Rightarrow> FederatedEvent list \<Rightarrow> proposal list res" where
  "proposals L fs es = bindR (mapR (proposal_of L fs es) es) (\<lambda>ps. Inr (concat ps))"

section \<open>The value of a field\<close>

definition item_id :: "FederatedEvent \<times> json \<Rightarrow> string" where
  "item_id x = fe_event_id (fst x)"

text \<open>The candidates of a field that are left once its conflicts are resolved.\<close>

definition active_items ::
    "string list \<Rightarrow> string list \<Rightarrow> (FederatedEvent \<times> json) list \<Rightarrow> (FederatedEvent \<times> json) list" where
  "active_items resolved selected items =
     (if \<exists>x\<in>set items. item_id x \<in> set resolved then filter (\<lambda>x. item_id x \<in> set selected) items else items)"

definition dominates :: "event_dict \<Rightarrow> (FederatedEvent \<times> json) list \<Rightarrow> FederatedEvent \<times> json \<Rightarrow> bool" where
  "dominates m active c = list_all (\<lambda>x. item_id x = item_id c \<or> is_ancestor m (item_id x) (item_id c)) active"

definition chosen :: "event_dict \<Rightarrow> (FederatedEvent \<times> json) list \<Rightarrow> (FederatedEvent \<times> json) option" where
  "chosen m active = (case active of [x] \<Rightarrow> Some x | _ \<Rightarrow> find (dominates m active) active)"

section \<open>Subjects\<close>

record subject_view =
  sv_fields :: "(string \<times> (string \<times> json)) list"
  sv_unresolved_conflict_ids :: "string list"
  sv_unresolved_event_ids :: "string list"

text \<open>
  An unresolved conflict of a known subject. A conflict id that is not a string is followed no
  further.
\<close>

definition resolved_conflict_ids :: "dict list \<Rightarrow> json list res" where
  "resolved_conflict_ids rs = mapR (\<lambda>r. bindR (dget r ''conflict_id'') (\<lambda>v.
     if hashable v then Inr v else Inl TypeError)) rs"

definition open_conflict :: "string list \<Rightarrow> json list \<Rightarrow> dict \<Rightarrow> (string \<times> string) list res" where
  "open_conflict subjects resolved c = bindR (dget c ''subject_ref'') (\<lambda>s.
     if \<not> hashable s then Inl TypeError
     else if \<not> is_str s \<or> the_str s \<notin> set subjects then Inr []
     else bindR (dget c ''conflict_id'') (\<lambda>i.
       if \<not> hashable i then Inl TypeError
       else if list_ex (py_eq i) resolved then Inr []
       else if is_str i then Inr [(the_str s, the_str i)] else Inl (Untyped ''conflict_id'')))"

text \<open>The active candidates of each field, in the order of \<open>sorted(candidate_fields.items())\<close>.\<close>

definition field_items :: "proposal list \<Rightarrow> string \<times> string \<Rightarrow> (FederatedEvent \<times> json) list" where
  "field_items ps key = map snd (filter (\<lambda>p. fst p = key) ps)"

definition subject_keys :: "proposal list \<Rightarrow> string \<Rightarrow> string list" where
  "subject_keys ps s = sorted_set (map (snd \<circ> fst) (filter (\<lambda>p. fst (fst p) = s) ps))"

definition subject_of ::
    "event_dict \<Rightarrow> string list \<Rightarrow> string list \<Rightarrow> proposal list \<Rightarrow> (string \<times> string) list \<Rightarrow> string \<Rightarrow> subject_view" where
  "subject_of m resolved selected ps opened s =
     (let active = (\<lambda>f. active_items resolved selected (field_items ps (s, f)));
          names = subject_keys ps s
      in \<lparr>sv_fields = concat (map (\<lambda>f. case chosen m (active f) of
              None \<Rightarrow> [] | Some c \<Rightarrow> [(f, (item_id c, snd c))]) names),
          sv_unresolved_conflict_ids = sorted_set (map snd (filter (\<lambda>c. fst c = s) opened)),
          sv_unresolved_event_ids = sorted_set (concat (map (\<lambda>f. if chosen m (active f) = None
              then map item_id (active f) else []) names))\<rparr>)"

section \<open>The projection\<close>

record projection =
  pj_events :: "FederatedEvent list"
  pj_heads :: "string list"
  pj_subjects :: "(string \<times> subject_view) list"
  pj_conflicts :: "dict list"
  pj_resolutions :: "dict list"

definition projection_of :: "lib \<Rightarrow> files \<Rightarrow> projection res" where
  "projection_of L fs =
     bindR (events_file L fs) (\<lambda>es.
     bindR (mapR (read_object_file L fs) (glob_json2 fs [''resolutions''])) (\<lambda>rs.
     bindR (selected_events rs) (\<lambda>(resolved, selected).
     bindR (mapR (read_object_file L fs) (glob_json fs [''conflicts''])) (\<lambda>cs.
     bindR (resolved_conflict_ids rs) (\<lambda>closed.
     bindR (proposals L fs es) (\<lambda>ps.
     let subjects = sorted_set (map fe_subject_ref (filter describes es))
     in bindR (mapR (open_conflict subjects closed) cs) (\<lambda>opened.
        Inr \<lparr>pj_events = es,
          pj_heads = sort (map fe_event_id (filter (\<lambda>e. fe_event_id e \<notin> set (concat (map fe_causal_parents es))) es)),
          pj_subjects = map (\<lambda>s. (s, subject_of (by_id es) resolved selected ps (concat opened) s)) subjects,
          pj_conflicts = cs, pj_resolutions = rs\<rparr>)))))))"

definition field_json :: "string \<times> json \<Rightarrow> json" where
  "field_json x = JObj [(''source_event_id'', JStr (fst x)), (''value'', snd x)]"

definition subject_json :: "subject_view \<Rightarrow> json" where
  "subject_json s = JObj
     [(''fields'', JObj (map (\<lambda>(f, x). (f, field_json x)) (sv_fields s))),
      (''unresolved_conflict_ids'', str_list_json (sv_unresolved_conflict_ids s)),
      (''unresolved_event_ids'', str_list_json (sv_unresolved_event_ids s))]"

definition event_record :: "lib \<Rightarrow> FederatedEvent \<Rightarrow> dict" where
  "event_record L e =
     [(''event_id'', JStr (fe_event_id e)),
      (''event_digest'', JStr (core_digest L e)),
      (''event_kind'', JStr (fe_event_kind e)),
      (''subject_ref'', JStr (fe_subject_ref e)),
      (''fabric_payload_class'', JStr (fe_fabric_payload_class e)),
      (''correction_of'', opt_json (fe_correction_of e)),
      (''withdraws'', opt_json (fe_withdraws e))]"

definition projection_json :: "lib \<Rightarrow> projection \<Rightarrow> dict" where
  "projection_json L p =
     [(''schema'', JStr PROJECTION_SCHEMA),
      (''event_records'', JList (map (\<lambda>e. JObj (event_record L e)) (pj_events p))),
      (''causal_heads'', str_list_json (pj_heads p)),
      (''subjects'', JObj (map (\<lambda>(s, v). (s, subject_json v)) (pj_subjects p))),
      (''conflicts'', JList (map JObj (pj_conflicts p))),
      (''resolutions'', JList (map JObj (pj_resolutions p))),
      (''not_claimed'', str_list_json PROJECTION_NONCLAIMS)]"

definition rebuild_json :: "lib \<Rightarrow> (disk, string) op" where
  "rebuild_json L = (\<lambda>D. (D, bindR (projection_of L (d_files D)) (\<lambda>p. canonical_bytes L (JObj (projection_json L p)))))"

section \<open>The database\<close>

text \<open>
  The rows of the tables: every column is TEXT, a row is the list of its values. A primary key that
  is given twice and a missing value in a NOT NULL column raise \<open>IntegrityError\<close>; after any
  exception the file is removed, so a database is there only when the rebuild returns.
\<close>

type_synonym row = "string option list"

record database =
  db_meta :: "row list"
  db_events :: "row list"
  db_fields :: "row list"
  db_unresolved_conflicts :: "row list"
  db_conflicts :: "row list"
  db_resolutions :: "row list"

definition column :: "json \<Rightarrow> string option res" where
  "column v = (case v of JStr s \<Rightarrow> Inr (Some s) | JNull \<Rightarrow> Inr None | _ \<Rightarrow> Inl (Untyped ''column''))"

definition insert_rows :: "nat list \<Rightarrow> nat list \<Rightarrow> row list \<Rightarrow> row list res" where
  "insert_rows key not_null rows =
     (if list_all (\<lambda>r. list_all (\<lambda>i. r ! i \<noteq> None) not_null) rows
        \<and> distinct (filter (\<lambda>k. None \<notin> set k) (map (\<lambda>r. map ((!) r) key) rows))
      then Inr rows else Inl IntegrityError)"

definition dict_row :: "dict \<Rightarrow> string list \<Rightarrow> row res" where
  "dict_row d names = mapR (\<lambda>n. bindR (dget d n) column) names"

definition conflict_row :: "lib \<Rightarrow> dict \<Rightarrow> row res" where
  "conflict_row L c = bindR (dict_row c [''conflict_id'', ''conflict_class'', ''subject_ref'']) (\<lambda>r.
     bindR (dget c ''member_event_ids'') (\<lambda>v. bindR (canonical_bytes L v) (\<lambda>b. Inr (r @ [Some b]))))"

definition field_rows :: "lib \<Rightarrow> projection \<Rightarrow> row list res" where
  "field_rows L p = bindR (mapR (\<lambda>(s, view). mapR (\<lambda>(f, x, v). bindR (canonical_bytes L v) (\<lambda>b.
       Inr [Some s, Some f, Some b, Some x])) (sv_fields view)) (pj_subjects p)) (\<lambda>rows. Inr (concat rows))"

definition unresolved_rows :: "projection \<Rightarrow> row list" where
  "unresolved_rows p =
     concat (map (\<lambda>(s, view). map (\<lambda>c. [Some c, Some s]) (sv_unresolved_conflict_ids view)) (pj_subjects p))"

definition rebuild_sqlite :: "lib \<Rightarrow> bool \<Rightarrow> files \<Rightarrow> database res" where
  "rebuild_sqlite L there fs =
     (if there then Inl (Coded ''projection_path_exists'')
      else bindR (projection_of L fs) (\<lambda>p.
        bindR (canonical_bytes L (JObj (projection_json L p))) (\<lambda>b.
        bindR (insert_rows [0] [0, 1, 2, 3, 4] (map (\<lambda>e. [Some (fe_event_id e), Some (core_digest L e),
          Some (fe_event_kind e), Some (fe_subject_ref e), Some (fe_fabric_payload_class e),
          fe_correction_of e, fe_withdraws e]) (pj_events p))) (\<lambda>events.
        bindR (bindR (field_rows L p) (insert_rows [0, 1] [0, 1, 2, 3])) (\<lambda>field_table.
        bindR (insert_rows [0] [1] (unresolved_rows p)) (\<lambda>unresolved.
        bindR (bindR (mapR (conflict_row L) (pj_conflicts p)) (insert_rows [0] [1, 2, 3])) (\<lambda>conflict_table.
        bindR (bindR (mapR (\<lambda>r. dict_row r [''conflict_id'', ''resolution_event_id'', ''selected_event_id''])
          (pj_resolutions p)) (insert_rows [1] [0, 2])) (\<lambda>resolution_table.
        Inr \<lparr>db_meta = [[Some ''projection_digest'', Some (sha256_hex L b)], [Some ''schema'', Some PROJECTION_SCHEMA]],
          db_events = events, db_fields = field_table, db_unresolved_conflicts = unresolved,
          db_conflicts = conflict_table, db_resolutions = resolution_table\<rparr>))))))))"

section \<open>Comparing projections\<close>

lemma json_sizes:
  "i < length vs \<Longrightarrow> size (vs ! i) < Suc (size_list size (vs :: json list))"
  "(k, v) \<in> set d \<Longrightarrow> size (v :: json) < Suc (size_list (size_prod (\<lambda>x. 0) size) d)"
  using size_list_estimation'[OF nth_mem order_refl, of i vs size] json_size_snd[of "(k, v)" d] by simp_all

record ProjectionDifference =
  pd_path :: string
  pd_kind :: string

record ProjectionComparison =
  pc_status :: string
  pc_differences :: "ProjectionDifference list"

definition contradiction :: "string \<Rightarrow> ProjectionDifference" where
  "contradiction p = \<lparr>pd_path = p, pd_kind = ''contradiction''\<rparr>"

definition unmapped :: "string \<Rightarrow> ProjectionDifference" where
  "unmapped p = \<lparr>pd_path = p, pd_kind = ''unmapped''\<rparr>"

definition child_path :: "string \<Rightarrow> string \<Rightarrow> string" where
  "child_path path k = path @ CHR ''/'' # k"

text \<open>
  \<open>_compare\<close> on JSON values, with the list of differences as its result. Values of different types
  differ, a bool and a number among them.
\<close>

function compare_values :: "json \<Rightarrow> json \<Rightarrow> string \<Rightarrow> ProjectionDifference list" where
  "compare_values x y path = (case x of
      JObj e \<Rightarrow> (case y of
          JObj a \<Rightarrow>
            concat (map (\<lambda>kv. case map_of a (fst kv) of
                None \<Rightarrow> [contradiction (child_path path (fst kv))]
              | Some w \<Rightarrow> compare_values (snd kv) w (child_path path (fst kv))) (sort_key fst e))
            @ map (\<lambda>k. unmapped (child_path path k)) (filter (\<lambda>k. map_of e k = None) (sorted_set (map fst a)))
        | _ \<Rightarrow> [contradiction path])
    | JList es \<Rightarrow> (case y of
          JList as \<Rightarrow>
            concat (map (\<lambda>i. compare_values (es ! i) (as ! i) (child_path path (show_nat i))) [0..<min (length es) (length as)])
            @ map (\<lambda>i. unmapped (child_path path (show_nat i))) [length es..<length as]
            @ map (\<lambda>i. contradiction (child_path path (show_nat i))) [length as..<length es]
        | _ \<Rightarrow> [contradiction path])
    | _ \<Rightarrow> if x = y then [] else [contradiction path])"
  by pat_completeness auto
termination by (relation "measure (\<lambda>(x, _). size x)") (auto intro: json_sizes)

declare compare_values.simps [simp del]

definition compare_projection :: "json \<Rightarrow> json \<Rightarrow> ProjectionComparison" where
  "compare_projection expected actual =
     (let differences = compare_values expected actual []; kinds = pd_kind ` set differences
      in \<lparr>pc_status = (if ''contradiction'' \<in> kinds then ''contradiction''
            else if ''unmapped'' \<in> kinds then ''unmapped'' else ''expected_by_mapping''),
          pc_differences = differences\<rparr>)"

text \<open>
  Reference: \<open>actual\<close> extends \<open>expected\<close> when it has every key and every element of it with an
  extension of its value, and may have more.
\<close>

function extends :: "json \<Rightarrow> json \<Rightarrow> bool" where
  "extends x y = (case x of
      JObj e \<Rightarrow> (case y of
          JObj a \<Rightarrow> (\<forall>kv\<in>set e. case map_of a (fst kv) of None \<Rightarrow> False | Some w \<Rightarrow> extends (snd kv) w)
        | _ \<Rightarrow> False)
    | JList es \<Rightarrow> (case y of
          JList as \<Rightarrow> length es \<le> length as \<and> (\<forall>i\<in>set [0..<length es]. extends (es ! i) (as ! i))
        | _ \<Rightarrow> False)
    | _ \<Rightarrow> x = y)"
  by pat_completeness auto
termination by (relation "measure (\<lambda>(x, _). size x)") (auto intro: json_sizes)

declare extends.simps [simp del]

lemmas compare_list = compare_values.simps[of "JList es" "JList as" for es as, unfolded json.case]
lemmas compare_object = compare_values.simps[of "JObj e" "JObj a" for e a, unfolded json.case]
lemmas extends_list = extends.simps[of "JList es" "JList as" for es as, unfolded json.case]
lemmas extends_object = extends.simps[of "JObj e" "JObj a" for e a, unfolded json.case]

lemmas compare_leaf = compare_values.simps[of JNull] compare_values.simps[of "JBool b" for b]
  compare_values.simps[of "JInt n" for n] compare_values.simps[of "JStr s" for s] compare_values.simps[of "JOther s" for s]
lemmas extends_leaf = extends.simps[of JNull] extends.simps[of "JBool b" for b]
  extends.simps[of "JInt n" for n] extends.simps[of "JStr s" for s] extends.simps[of "JOther s" for s]

definition clash :: "ProjectionDifference list \<Rightarrow> bool" where
  "clash ds \<longleftrightarrow> ''contradiction'' \<in> pd_kind ` set ds"

lemma clash_simps [simp]:
  "\<not> clash []" "clash [contradiction p]" "clash (ds @ ds') \<longleftrightarrow> clash ds \<or> clash ds'"
  "clash (concat (map f xs)) \<longleftrightarrow> (\<exists>x\<in>set xs. clash (f x))"
  "\<not> clash (map (\<lambda>k. unmapped (g k)) xs)" "clash (map (\<lambda>k. contradiction (g k)) xs) \<longleftrightarrow> xs \<noteq> []"
  by (auto simp: clash_def contradiction_def unmapped_def image_iff) (auto simp: neq_Nil_conv)

lemma compare_clash: "clash (compare_values x y p) \<longleftrightarrow> \<not> extends x y"
proof (induction x y p rule: compare_values.induct)
  case (1 x y p)
  show ?case
  proof (cases x)
    case (JList es)
    show ?thesis
    proof (cases y)
      case (JList as)
      have "clash (compare_values (es ! i) (as ! i) q) \<longleftrightarrow> \<not> extends (es ! i) (as ! i)"
        if "i < min (length es) (length as)" and "q = child_path p (show_nat i)" for i q
        using 1(1)[OF \<open>x = JList es\<close> JList, of i] that by simp
      then show ?thesis
        unfolding \<open>x = JList es\<close> JList compare_list extends_list
        by (cases "length es \<le> length as") (auto simp: min_def)
    qed (simp_all add: compare_values.simps[of "JList es"] extends.simps[of "JList es"] JList)
  next
    case (JObj e)
    show ?thesis
    proof (cases y)
      case (JObj a)
      have "clash (case map_of a (fst kv) of None \<Rightarrow> [contradiction (child_path p (fst kv))]
            | Some w \<Rightarrow> compare_values (snd kv) w (child_path p (fst kv)))
          \<longleftrightarrow> \<not> (case map_of a (fst kv) of None \<Rightarrow> False | Some w \<Rightarrow> extends (snd kv) w)" if "kv \<in> set e" for kv
        using 1(2)[OF \<open>x = JObj e\<close> JObj, of kv] that by (auto split: option.split)
      then show ?thesis
        unfolding \<open>x = JObj e\<close> JObj compare_object extends_object by simp
    qed (simp_all add: compare_values.simps[of "JObj e"] extends.simps[of "JObj e"] JObj)
  qed (simp_all add: compare_leaf extends_leaf)
qed


text \<open>Two objects have the same stored form when their keys have values of the same stored form.\<close>

lemma stored_eq_iff:
  assumes "distinct (map fst d)" and "distinct (map fst e)"
  shows "stored d = stored e \<longleftrightarrow> (\<forall>k. map_option sort_keys (map_of d k) = map_option sort_keys (map_of e k))"
proof -
  have m: "map_of (stored x) k = map_option sort_keys (map_of x k)" if "distinct (map fst x)" for x k
    using that by (simp add: stored_def map_of_sort_key o_def map_of_map_snd)
  have k: "sorted (map fst (stored x)) \<and> distinct (map fst (stored x))" if "distinct (map fst x)" for x
    using that stored_keys(2)[of x] sorted_sort_key[of fst] unfolding stored_def by blast
  have "stored d = stored e" if "\<And>k. map_of (stored d) k = map_of (stored e) k"
  proof (rule map_sorted_distinct_set_unique[of fst])
    have "(k, v) \<in> set (stored d) \<longleftrightarrow> (k, v) \<in> set (stored e)" for k v
      using that[of k] k[OF assms(1)] k[OF assms(2)] by (metis map_of_eq_Some_iff)
    then show s: "set (stored d) = set (stored e)" by auto
    show "inj_on fst (set (stored d) \<union> set (stored e))"
      using k[OF assms(1)] unfolding s by (simp add: s[symmetric] distinct_map)
  qed (use k assms in auto)
  then show ?thesis using m[OF assms(1)] m[OF assms(2)] by metis
qed


lemma map_option_agree:
  "(\<forall>k. map_option f (m k) = map_option f (n k)) \<longleftrightarrow>
     (\<forall>k v. m k = Some v \<longrightarrow> (\<exists>w. n k = Some w \<and> f v = f w)) \<and> (\<forall>k. n k \<noteq> None \<longrightarrow> m k \<noteq> None)"
proof -
  have "map_option f x = map_option f y \<longleftrightarrow> (\<forall>v. x = Some v \<longrightarrow> (\<exists>w. y = Some w \<and> f v = f w)) \<and> (y \<noteq> None \<longrightarrow> x \<noteq> None)"
    for x y by (cases x; cases y) auto
  then show ?thesis by (simp only: all_conj_distrib)
qed

lemma compare_object_nothing:
  assumes "distinct (map fst e)" and "distinct (map fst a)"
    and "\<And>k v w. map_of e k = Some v \<Longrightarrow> map_of a k = Some w \<Longrightarrow>
      compare_values v w (child_path p k) = [] \<longleftrightarrow> sort_keys v = sort_keys w"
  shows "compare_values (JObj e) (JObj a) p = [] \<longleftrightarrow> stored e = stored a"
proof -
  have e: "kv \<in> set e \<longleftrightarrow> map_of e (fst kv) = Some (snd kv)" for kv
    using map_of_eq_Some_iff[OF assms(1), of "fst kv" "snd kv"] by simp
  have c: "(case map_of a k of None \<Rightarrow> [contradiction q] | Some w \<Rightarrow> g w) = [] \<longleftrightarrow> (\<exists>w. map_of a k = Some w \<and> g w = [])"
    for k q g by (cases "map_of a k") simp_all
  have n: "filter (\<lambda>k. map_of e k = None) (sorted_set (map fst a)) = [] \<longleftrightarrow> (\<forall>k. map_of a k \<noteq> None \<longrightarrow> map_of e k \<noteq> None)"
    by (auto simp: filter_empty_conv map_of_eq_None_iff)
  have "compare_values (JObj e) (JObj a) p = [] \<longleftrightarrow>
      (\<forall>kv\<in>set e. \<exists>w. map_of a (fst kv) = Some w \<and> compare_values (snd kv) w (child_path p (fst kv)) = [])
      \<and> (\<forall>k. map_of a k \<noteq> None \<longrightarrow> map_of e k \<noteq> None)"
    unfolding compare_object append_is_Nil_conv map_is_Nil_conv n concat_eq_Nil_conv set_map set_sort ball_simps c ..
  also have "(\<forall>kv\<in>set e. \<exists>w. map_of a (fst kv) = Some w \<and> compare_values (snd kv) w (child_path p (fst kv)) = [])
      \<longleftrightarrow> (\<forall>k v. map_of e k = Some v \<longrightarrow> (\<exists>w. map_of a k = Some w \<and> sort_keys v = sort_keys w))"
    unfolding Ball_def e split_paired_All fst_conv snd_conv
  proof (intro iff_allI imp_cong refl)
    fix k v assume "map_of e k = Some v"
    from assms(3)[OF this] show "(\<exists>w. map_of a k = Some w \<and> compare_values v w (child_path p k) = [])
        \<longleftrightarrow> (\<exists>w. map_of a k = Some w \<and> sort_keys v = sort_keys w)" by auto
  qed
  finally show ?thesis unfolding stored_eq_iff[OF assms(1,2)] map_option_agree .
qed

lemma compare_list_nothing:
  assumes "\<And>i. i < length es \<Longrightarrow> i < length as \<Longrightarrow>
      compare_values (es ! i) (as ! i) (child_path p (show_nat i)) = [] \<longleftrightarrow> sort_keys (es ! i) = sort_keys (as ! i)"
  shows "compare_values (JList es) (JList as) p = [] \<longleftrightarrow> map sort_keys es = map sort_keys as"
proof (cases "length es = length as")
  case True
  have "compare_values (JList es) (JList as) p = [] \<longleftrightarrow> (\<forall>i<length es. sort_keys (es ! i) = sort_keys (as ! i))"
    unfolding compare_list using assms True by auto
  also have "\<dots> \<longleftrightarrow> map sort_keys es = map sort_keys as" using True by (simp add: list_eq_iff_nth_eq[of "map sort_keys es"])
  finally show ?thesis .
next
  case False
  then show ?thesis unfolding compare_list by (auto dest: map_eq_imp_length_eq)
qed

lemma compare_nothing:
  "printable x \<Longrightarrow> printable y \<Longrightarrow> compare_values x y p = [] \<longleftrightarrow> sort_keys x = sort_keys y"
proof (induction x y p rule: compare_values.induct)
  case (1 x y p)
  show ?case
  proof (cases x)
    case (JList es)
    show ?thesis
    proof (cases y)
      case (JList as)
      have "compare_values (es ! i) (as ! i) (child_path p (show_nat i)) = [] \<longleftrightarrow> sort_keys (es ! i) = sort_keys (as ! i)"
        if "i < length es" "i < length as" for i
        using 1(1)[OF \<open>x = JList es\<close> JList, of i] that 1(3,4) by (simp add: \<open>x = JList es\<close> JList list_all_length)
      from compare_list_nothing[OF this] show ?thesis by (simp add: \<open>x = JList es\<close> JList)
    qed (simp_all add: compare_values.simps[of "JList es"] JList)
  next
    case (JObj e)
    show ?thesis
    proof (cases y)
      case (JObj a)
      note d = 1(3,4)[unfolded \<open>x = JObj e\<close> JObj printable.simps]
      have "compare_values v w (child_path p k) = [] \<longleftrightarrow> sort_keys v = sort_keys w"
        if "map_of e k = Some v" and "map_of a k = Some w" for k v w
      proof -
        have "(k, v) \<in> set e" "(k, w) \<in> set a" using that by (auto dest: map_of_SomeD)
        with d have "printable v" "printable w" by (auto simp: list_all_iff)
        with 1(2)[OF \<open>x = JObj e\<close> JObj, of "(k, v)" w] that \<open>(k, v) \<in> set e\<close> show ?thesis by simp
      qed
      from compare_object_nothing[OF _ _ this] d show ?thesis by (simp add: \<open>x = JObj e\<close> JObj)
    qed (simp_all add: compare_values.simps[of "JObj e"] JObj)
  qed (cases y; simp add: compare_leaf)+
qed


lemma compare_kinds: "d \<in> set (compare_values x y p) \<Longrightarrow> pd_kind d = ''contradiction'' \<or> pd_kind d = ''unmapped''"
proof (induction x y p rule: compare_values.induct)
  case (1 x y p)
  show ?case
  proof (cases x)
    case (JList es)
    show ?thesis
    proof (cases y)
      case (JList as)
      show ?thesis
        using 1(3) 1(1)[OF \<open>x = JList es\<close> JList] unfolding \<open>x = JList es\<close> JList compare_list
        by (auto simp: contradiction_def unmapped_def)
    qed (use 1(3) in \<open>simp_all add: compare_values.simps[of "JList es"] JList contradiction_def\<close>)
  next
    case (JObj e)
    show ?thesis
    proof (cases y)
      case (JObj a)
      show ?thesis
        using 1(3) 1(2)[OF \<open>x = JObj e\<close> JObj] unfolding \<open>x = JObj e\<close> JObj compare_object
        by (auto simp: contradiction_def unmapped_def split: option.splits)
    qed (use 1(3) in \<open>simp_all add: compare_values.simps[of "JObj e"] JObj contradiction_def\<close>)
  qed (use 1(3) in \<open>simp_all add: compare_leaf contradiction_def split: if_splits\<close>)
qed

text \<open>
  The status of a comparison is exact. Two JSON values are \<open>expected_by_mapping\<close> when they
  differ at most in the order of keys, \<open>unmapped\<close> when the actual value only adds keys and elements
  to the expected one, and in contradiction otherwise.
\<close>

theorem compare_projection_status:
  assumes "printable x" and "printable y"
  shows "pc_status (compare_projection x y) =
    (if sort_keys x = sort_keys y then ''expected_by_mapping''
     else if extends x y then ''unmapped'' else ''contradiction'')"
proof -
  let ?ds = "compare_values x y []"
  have "?ds = [] \<longleftrightarrow> sort_keys x = sort_keys y" by (rule compare_nothing[OF assms])
  moreover have "clash ?ds \<longleftrightarrow> \<not> extends x y" by (rule compare_clash)
  moreover have "''unmapped'' \<in> pd_kind ` set ?ds" if "?ds \<noteq> []" "\<not> clash ?ds"
    using that compare_kinds[of "hd ?ds" x y "[]"] by (cases ?ds) (auto simp: clash_def)
  ultimately show ?thesis by (auto simp: compare_projection_def Let_def clash_def)
qed

theorem compare_projection_status_witness:
  "pc_status (compare_projection (JObj [(''a'', JInt 1), (''b'', JList [])]) (JObj [(''b'', JList [JNull]), (''a'', JInt 1)]))
    = ''unmapped''"
proof -
  have "printable (JObj [(''a'', JInt 1), (''b'', JList [])])" "printable (JObj [(''b'', JList [JNull]), (''a'', JInt 1)])"
    by code_simp+
  note compare_projection_status[OF this]
  moreover have "sort_keys (JObj [(''a'', JInt 1), (''b'', JList [])]) \<noteq> sort_keys (JObj [(''b'', JList [JNull]), (''a'', JInt 1)])"
    "extends (JObj [(''a'', JInt 1), (''b'', JList [])]) (JObj [(''b'', JList [JNull]), (''a'', JInt 1)])"
    by code_simp+
  ultimately show ?thesis by simp
qed

section \<open>The same files give the same projection\<close>

lemma same_keys: "map_of fs = map_of fs' \<Longrightarrow> set (map fst fs) = set (map fst fs')"
  using dom_map_of_conv_image_fst[of fs] dom_map_of_conv_image_fst[of fs'] by simp

lemma same_entries:
  assumes "map_of fs = map_of fs'"
  shows "entries fs dir = entries fs' dir"
  unfolding entries_def
proof (rule sorted_set_eqI)
  have "set (filter P (map fst fs)) = set (filter P (map fst fs'))" for P
    using same_keys[OF assms] by (simp only: set_filter)
  then show "set (map (\<lambda>p. p ! length dir) (filter (\<lambda>p. length dir < length p \<and> take (length dir) p = dir) (map fst fs)))
      = set (map (\<lambda>p. p ! length dir) (filter (\<lambda>p. length dir < length p \<and> take (length dir) p = dir) (map fst fs')))"
    by (simp only: set_map[of "\<lambda>p. p ! length dir"])
qed

lemma same_reads:
  assumes "map_of fs = map_of fs'"
  shows "glob_json fs dir = glob_json fs' dir" and "glob_json2 fs dir = glob_json2 fs' dir"
    and "read_object_file L fs = read_object_file L fs'" and "event_payload_file L fs = event_payload_file L fs'"
    and "is_file fs = is_file fs'"
  using same_entries[OF assms]
  by (simp_all add: glob_json_def glob_json2_def read_object_file_def event_payload_file_def is_file_def assms fun_eq_iff)

lemma same_events:
  assumes "map_of fs = map_of fs'"
  shows "events_file L fs = events_file L fs'" and "proposals L fs es = proposals L fs' es"
proof -
  have "get_event_file L fs = get_event_file L fs'"
    by (intro ext) (simp only: get_event_file_def same_reads[OF assms])
  then have "indexed_event L fs = indexed_event L fs'"
    by (intro ext) (simp only: indexed_event_def same_reads[OF assms])
  then show "events_file L fs = events_file L fs'"
    by (simp only: events_file_def same_reads[OF assms])
  have "proposal_of L fs = proposal_of L fs'"
    by (intro ext) (simp only: proposal_of_def payload_value_def same_reads[OF assms])
  then show "proposals L fs es = proposals L fs' es" by (simp add: proposals_def)
qed

text \<open>
  C31: the projection is a function of the files alone. Two replicas whose stores hold the same files,
  in whatever order and by whatever operations they came there, rebuild the same projection, the
  same bytes and the same database, or fail in the same way.
\<close>

theorem rebuild_deterministic:
  assumes "map_of (d_files D) = map_of (d_files D')"
  shows "projection_of L (d_files D) = projection_of L (d_files D')
    \<and> snd (rebuild_json L D) = snd (rebuild_json L D')
    \<and> rebuild_sqlite L there (d_files D) = rebuild_sqlite L there (d_files D')"
proof -
  have "projection_of L (d_files D) = projection_of L (d_files D')"
    by (simp add: projection_of_def same_events[OF assms] same_reads[OF assms])
  then show ?thesis by (simp add: rebuild_json_def rebuild_sqlite_def)
qed

section \<open>Where a field comes from\<close>

text \<open>An event is in force when it withdraws nothing and no event withdraws or corrects it.\<close>

definition in_force :: "FederatedEvent list \<Rightarrow> FederatedEvent \<Rightarrow> bool" where
  "in_force es e \<longleftrightarrow> fe_withdraws e = None
     \<and> (\<forall>e'\<in>set es. fe_withdraws e' \<noteq> Some (fe_event_id e) \<and> fe_correction_of e' \<noteq> Some (fe_event_id e))"

lemma map_filter_mem: "x \<in> set (List.map_filter f es) \<longleftrightarrow> (\<exists>e\<in>set es. f e = Some x)"
  by (induction es) (auto simp: List.map_filter_simps split: option.splits)

lemma retracted_iff: "retracted es e \<longleftrightarrow> \<not> in_force es e"
  by (auto simp: retracted_def in_force_def withdrawn_def corrected_def map_filter_mem)

text \<open>An event in force proposes a value for a field of its subject.\<close>

definition proposes :: "lib \<Rightarrow> files \<Rightarrow> FederatedEvent list \<Rightarrow> string \<times> string \<Rightarrow> FederatedEvent \<Rightarrow> json \<Rightarrow> bool" where
  "proposes L fs es key e v \<longleftrightarrow> e \<in> set es \<and> describes e \<and> in_force es e \<and> fe_subject_ref e = fst key
     \<and> (\<exists>d. payload_value L fs e = Inr (Some d) \<and> set (dkeys d) = {''field'', ''value''}
          \<and> dget_null d ''field'' = JStr (snd key) \<and> dget_null d ''value'' = v)"

lemma nonempty_str_iff: "nonempty_str v \<longleftrightarrow> (\<exists>s. v = JStr s \<and> s \<noteq> [])"
  by (cases v) (auto simp: nonempty_str_def)

lemma proposal_of_Inr:
  assumes "proposal_of L fs es e = Inr ps" and "e \<in> set es"
  shows "(key, x) \<in> set ps \<longleftrightarrow> fst x = e \<and> proposes L fs es key e (snd x)"
proof (cases "describes e \<and> in_force es e")
  case False
  then show ?thesis using assms(1) by (auto simp: proposal_of_def retracted_iff proposes_def)
next
  case True
  with assms(1) obtain q where q: "payload_value L fs e = Inr q"
    by (cases "payload_value L fs e") (simp_all add: proposal_of_def retracted_iff)
  show ?thesis
  proof (cases q)
    case None
    then show ?thesis using assms(1) True q by (auto simp: proposal_of_def retracted_iff proposes_def)
  next
    case (Some d)
    define ok where "ok = (set (dkeys d) = {''field'', ''value''})"
    define f w where "f = dget_null d ''field''" and "w = dget_null d ''value''"
    have ps: "(if \<not> ok then Inr [] else if \<not> nonempty_str f then Inl (Coded ''projection_field_invalid'')
        else Inr [((fe_subject_ref e, the_str f), (e, w))]) = Inr ps"
      using assms(1) True q Some unfolding proposal_of_def retracted_iff ok_def f_def w_def by simp
    have p: "proposes L fs es key e v \<longleftrightarrow> fe_subject_ref e = fst key \<and> ok \<and> f = JStr (snd key) \<and> w = v" for v
      using True q Some assms(2) unfolding proposes_def ok_def f_def w_def by simp
    show ?thesis
    proof (cases ok)
      case False
      with ps have "ps = []" by simp
      with False show ?thesis by (simp add: p)
    next
      case k: True
      with ps obtain n where f: "f = JStr n" by (auto simp: nonempty_str_iff split: if_splits)
      with ps k have "ps = [((fe_subject_ref e, n), (e, w))]"
        by (simp add: the_str_def split: if_splits)
      with k f p[of "snd x"] show ?thesis by (cases key; cases x) auto
    qed
  qed
qed

lemma proposals_Inr:
  assumes "proposals L fs es = Inr ps"
  shows "(key, (e, v)) \<in> set ps \<longleftrightarrow> proposes L fs es key e v"
proof -
  from assms obtain pss where m: "mapR (proposal_of L fs es) es = Inr pss" and ps: "ps = concat pss"
    by (auto simp: proposals_def elim: bindR_InrE)
  show ?thesis
  proof
    assume "(key, (e, v)) \<in> set ps"
    then obtain q where q: "q \<in> set pss" "(key, (e, v)) \<in> set q" by (auto simp: ps)
    from mapR_mem(2)[OF m q(1)] obtain x where "x \<in> set es" "proposal_of L fs es x = Inr q" by blast
    with proposal_of_Inr[of L fs es x q key "(e, v)"] q(2) show "proposes L fs es key e v" by simp
  next
    assume p: "proposes L fs es key e v"
    then have e: "e \<in> set es" by (simp add: proposes_def)
    from mapR_mem(1)[OF m e] obtain q where "q \<in> set pss" "proposal_of L fs es e = Inr q" by blast
    with proposal_of_Inr[of L fs es e q key "(e, v)"] e p show "(key, (e, v)) \<in> set ps" by (auto simp: ps)
  qed
qed

text \<open>Members and selections of the resolutions.\<close>

definition settled :: "dict list \<Rightarrow> string set" where
  "settled rs = {x. \<exists>r\<in>set rs. \<exists>ms. map_of r ''member_event_ids'' = Some (JList ms) \<and> JStr x \<in> set ms}"

definition selections :: "dict list \<Rightarrow> string set" where
  "selections rs = {x. \<exists>r\<in>set rs. dget_null r ''selected_event_id'' = JStr x}"

lemma resolution_marks_Inr:
  assumes "resolution_marks r = Inr (ms, s)"
  shows "x \<in> set ms \<longleftrightarrow> (\<exists>vs. map_of r ''member_event_ids'' = Some (JList vs) \<and> JStr x \<in> set vs)"
    and "dget_null r ''selected_event_id'' = JStr s"
proof -
  define v where "v = map_of r ''member_event_ids''"
  define w where "w = dget_null r ''selected_event_id''"
  have r: "(case (v, w) of (None, JStr s) \<Rightarrow> Inr ([], s)
    | (Some (JList ms), JStr s) \<Rightarrow> if list_all hashable ms then Inr (map the_str (filter is_str ms), s) else Inl TypeError
    | _ \<Rightarrow> Inl (Coded ''resolution_record_invalid'')) = Inr (ms, s)"
    using assms unfolding resolution_marks_def v_def w_def .
  have i: "x \<in> the_str ` {y \<in> set vs. is_str y} \<longleftrightarrow> JStr x \<in> set vs" for vs
  proof -
    have s: "is_str y \<longleftrightarrow> y = JStr (the_str y)" for y by (cases y) (simp_all add: is_str_def the_str_def)
    have "the_str (JStr x) = x" "is_str (JStr x)" by (simp_all add: is_str_def the_str_def)
    then show ?thesis using s by (auto simp: image_iff intro!: bexI[of _ "JStr x"])
  qed
  show "dget_null r ''selected_event_id'' = JStr s"
    using r unfolding w_def[symmetric] by (auto split: option.splits json.splits if_splits)
  show "x \<in> set ms \<longleftrightarrow> (\<exists>vs. map_of r ''member_event_ids'' = Some (JList vs) \<and> JStr x \<in> set vs)"
    using r unfolding v_def[symmetric]
    by (cases v; cases w) (auto simp: i[simplified] split: json.splits if_splits)
qed

lemma selected_events_Inr:
  assumes "selected_events rs = Inr (resolved, selected)"
  shows "set resolved = settled rs" and "set selected = selections rs"
proof -
  from assms obtain marks where m: "mapR resolution_marks rs = Inr marks"
    and e: "resolved = concat (map fst marks)" "selected = map snd marks"
    by (auto simp: selected_events_def elim: bindR_InrE)
  have f: "\<exists>mk\<in>set marks. resolution_marks r = Inr mk" if "r \<in> set rs" for r using mapR_mem(1)[OF m that] .
  have b: "\<exists>r\<in>set rs. resolution_marks r = Inr mk" if "mk \<in> set marks" for mk using mapR_mem(2)[OF m that] .
  show "set resolved = settled rs"
  proof (intro equalityI subsetI)
    fix x assume "x \<in> set resolved"
    then obtain mk where "mk \<in> set marks" "x \<in> set (fst mk)" by (auto simp: e)
    from b[OF this(1)] obtain r where "r \<in> set rs" "resolution_marks r = Inr mk" by blast
    with resolution_marks_Inr(1)[of r "fst mk" "snd mk" x] \<open>x \<in> set (fst mk)\<close> show "x \<in> settled rs"
      unfolding settled_def by auto
  next
    fix x assume "x \<in> settled rs"
    then obtain r vs where r: "r \<in> set rs" "map_of r ''member_event_ids'' = Some (JList vs)" "JStr x \<in> set vs"
      unfolding settled_def by blast
    from f[OF r(1)] obtain mk where "mk \<in> set marks" "resolution_marks r = Inr mk" by blast
    with resolution_marks_Inr(1)[of r "fst mk" "snd mk" x] r show "x \<in> set resolved" by (auto simp: e)
  qed
  show "set selected = selections rs"
  proof (intro equalityI subsetI)
    fix x assume "x \<in> set selected"
    then obtain mk where "mk \<in> set marks" "x = snd mk" by (auto simp: e)
    from b[OF this(1)] obtain r where "r \<in> set rs" "resolution_marks r = Inr mk" by blast
    with resolution_marks_Inr(2)[of r "fst mk" "snd mk"] \<open>x = snd mk\<close> show "x \<in> selections rs"
      unfolding selections_def by auto
  next
    fix x assume "x \<in> selections rs"
    then obtain r where r: "r \<in> set rs" "dget_null r ''selected_event_id'' = JStr x" unfolding selections_def by blast
    from f[OF r(1)] obtain mk where "mk \<in> set marks" "resolution_marks r = Inr mk" by blast
    with resolution_marks_Inr(2)[of r "fst mk" "snd mk"] r show "x \<in> set selected" by (auto simp: e)
  qed
qed

text \<open>The causal order of the stored events.\<close>

definition precedes :: "FederatedEvent list \<Rightarrow> string \<Rightarrow> string \<Rightarrow> bool" where
  "precedes es a d \<longleftrightarrow> (d, a) \<in> (edges (map fst (by_id es)) (parents_of (by_id es)))\<^sup>+"

lemma by_id_keys: "set (map fst (by_id es)) = fe_event_id ` set es"
proof -
  have "set (map fst (fold (\<lambda>e m. AList.update (fe_event_id e) e m) es m)) = set (map fst m) \<union> fe_event_id ` set es" for m
    by (induction es arbitrary: m) (simp_all add: dom_update)
  then show ?thesis by (simp add: by_id_def)
qed

lemma is_ancestor_precedes:
  assumes "d \<in> fe_event_id ` set es"
  shows "is_ancestor (by_id es) a d \<longleftrightarrow> precedes es a d"
proof -
  let ?m = "by_id es"
  let ?E = "edges (map fst ?m) (parents_of ?m)"
  have "is_ancestor ?m a d \<longleftrightarrow> (\<exists>p\<in>set (parents_of ?m d). (p, a) \<in> ?E\<^sup>*)"
    unfolding is_ancestor_def using ancestor_search_iff[of "[]" a "map fst ?m" "parents_of ?m"] by simp
  also have "\<dots> \<longleftrightarrow> (\<exists>p. (d, p) \<in> ?E \<and> (p, a) \<in> ?E\<^sup>*)"
    using assms by_id_keys[of es] by (auto simp: edges_def)
  also have "\<dots> \<longleftrightarrow> (d, a) \<in> ?E\<^sup>+" by (meson rtrancl_into_trancl2 tranclD)
  finally show ?thesis by (simp add: precedes_def)
qed

section \<open>Every value is shown or accounted for\<close>

text \<open>A candidate that a resolution has set aside: another event was selected.\<close>

definition overruled :: "lib \<Rightarrow> files \<Rightarrow> projection \<Rightarrow> string \<times> string \<Rightarrow> string \<Rightarrow> bool" where
  "overruled L fs p key x \<longleftrightarrow> (\<exists>e v. proposes L fs (pj_events p) key e v \<and> fe_event_id e \<in> settled (pj_resolutions p))
     \<and> x \<notin> selections (pj_resolutions p)"

lemma chosen_Some:
  "chosen m active = Some c \<Longrightarrow> c \<in> set active \<and> (\<forall>x\<in>set active. item_id x = item_id c \<or> is_ancestor m (item_id x) (item_id c))"
proof -
  assume c: "chosen m active = Some c"
  have "c \<in> set active \<and> dominates m active c" if "find (dominates m active) active = Some c"
    using that by (auto simp: find_Some_iff)
  then show ?thesis
    using c unfolding chosen_def
    by (cases active rule: remdups_adj.cases) (auto simp: dominates_def list_all_iff simp del: find.simps(2))
qed

text \<open>The parts of a projection that was built.\<close>

lemma projection_of_Inr:
  assumes "projection_of L fs = Inr p"
  obtains resolved selected ps opened where "proposals L fs (pj_events p) = Inr ps"
    and "selected_events (pj_resolutions p) = Inr (resolved, selected)"
    and "pj_subjects p = map (\<lambda>s. (s, subject_of (by_id (pj_events p)) resolved selected ps opened s))
        (sorted_set (map fe_subject_ref (filter describes (pj_events p))))"
proof -
  from assms obtain es rs rsel cs closed ps opened where "events_file L fs = Inr es" and sel: "selected_events rs = Inr rsel"
    and ps: "proposals L fs es = Inr ps"
    and p: "\<lparr>pj_events = es,
          pj_heads = sort (map fe_event_id (filter (\<lambda>e. fe_event_id e \<notin> set (concat (map fe_causal_parents es))) es)),
          pj_subjects = map (\<lambda>s. (s, subject_of (by_id es) (fst rsel) (snd rsel) ps (concat opened) s))
            (sorted_set (map fe_subject_ref (filter describes es))),
          pj_conflicts = cs, pj_resolutions = rs\<rparr> = p"
    unfolding projection_of_def Let_def bindR_Inr_iff split_beta sum.inject by blast
  show thesis by (rule that[of ps "fst rsel" "snd rsel" "concat opened"]) (simp_all add: p[symmetric] sel ps)
qed

lemma field_items_mem: "x \<in> set (field_items ps key) \<longleftrightarrow> (key, x) \<in> set ps"
  by (force simp: field_items_def)

lemma subject_keys_mem: "f \<in> set (subject_keys ps s) \<longleftrightarrow> (\<exists>x. ((s, f), x) \<in> set ps)"
  by (force simp: subject_keys_def)

lemma active_items_mem:
  assumes "proposals L fs (pj_events p) = Inr ps" and "selected_events (pj_resolutions p) = Inr (resolved, selected)"
  shows "(e, v) \<in> set (active_items resolved selected (field_items ps key))
    \<longleftrightarrow> proposes L fs (pj_events p) key e v \<and> \<not> overruled L fs p key (fe_event_id e)"
proof -
  have m: "(e, v) \<in> set (field_items ps key) \<longleftrightarrow> proposes L fs (pj_events p) key e v" for e v
    using proposals_Inr[OF assms(1)] by (simp add: field_items_mem)
  have "(\<exists>x\<in>set (field_items ps key). item_id x \<in> set resolved)
      \<longleftrightarrow> (\<exists>e v. proposes L fs (pj_events p) key e v \<and> fe_event_id e \<in> settled (pj_resolutions p))"
    using m selected_events_Inr(1)[OF assms(2)] by (force simp: item_id_def)
  then show ?thesis
    using m selected_events_Inr(2)[OF assms(2)] by (auto simp: active_items_def overruled_def item_id_def)
qed

text \<open>
  C30: a field shows what the causal order and the resolutions say, and no proposal is lost. The value
  of a field is that of an event in force (it withdraws nothing and no event withdraws or corrects it)
  which no resolution set aside and which every other such proposal causally precedes; and every
  proposal for a field is shown, dominated or set aside there, or its event is listed as unresolved.
  No field of a subject has two values.
\<close>

theorem projection_fields:
  assumes "projection_of L fs = Inr p"
  shows "((s, view) \<in> set (pj_subjects p) \<longrightarrow> distinct (map fst (sv_fields view))
      \<and> ((f, (x, v)) \<in> set (sv_fields view) \<longrightarrow>
        (\<exists>e. fe_event_id e = x \<and> proposes L fs (pj_events p) (s, f) e v \<and> \<not> overruled L fs p (s, f) x)
        \<and> (\<forall>e w. proposes L fs (pj_events p) (s, f) e w \<longrightarrow> fe_event_id e = x
             \<or> precedes (pj_events p) (fe_event_id e) x \<or> overruled L fs p (s, f) (fe_event_id e))))
    \<and> (proposes L fs (pj_events p) (s, f) e w \<longrightarrow> (\<exists>view'. (s, view') \<in> set (pj_subjects p)
        \<and> ((\<exists>y u. (f, (y, u)) \<in> set (sv_fields view')) \<or> overruled L fs p (s, f) (fe_event_id e)
           \<or> fe_event_id e \<in> set (sv_unresolved_event_ids view'))))"
proof -
  from assms obtain resolved selected ps opened where ps: "proposals L fs (pj_events p) = Inr ps"
    and sel: "selected_events (pj_resolutions p) = Inr (resolved, selected)"
    and subj: "pj_subjects p = map (\<lambda>s. (s, subject_of (by_id (pj_events p)) resolved selected ps opened s))
        (sorted_set (map fe_subject_ref (filter describes (pj_events p))))" by (rule projection_of_Inr)
  let ?m = "by_id (pj_events p)" and ?view = "subject_of (by_id (pj_events p)) resolved selected ps opened s"
  let ?active = "\<lambda>f. active_items resolved selected (field_items ps (s, f))"
  note mem = active_items_mem[OF ps sel, of _ _ "(s, f)"]
  have view: "view = ?view" if "(s, view) \<in> set (pj_subjects p)" for view
    using that by (auto simp: subj)
  have shape: "sv_fields ?view = map (\<lambda>f. (f, item_id (the (chosen ?m (?active f))), snd (the (chosen ?m (?active f)))))
      (filter (\<lambda>f. chosen ?m (?active f) \<noteq> None) (subject_keys ps s))"
  proof -
    have "concat (map (\<lambda>f. case c f of None \<Rightarrow> [] | Some c \<Rightarrow> [(f, item_id c, snd c)]) fs) =
        map (\<lambda>f. (f, item_id (the (c f)), snd (the (c f)))) (filter (\<lambda>f. c f \<noteq> None) fs)"
      for c :: "string \<Rightarrow> (FederatedEvent \<times> json) option" and fs
      by (induction fs) (auto split: option.split)
    then show ?thesis by (simp add: subject_of_def Let_def)
  qed
  have d: "distinct (map fst (sv_fields ?view))" unfolding shape by (simp add: o_def subject_keys_def)
  have fields_iff: "(f, (x, v)) \<in> set (sv_fields ?view) \<longleftrightarrow> f \<in> set (subject_keys ps s)
      \<and> (\<exists>c. chosen ?m (?active f) = Some c \<and> x = item_id c \<and> v = snd c)" for x v
    unfolding shape by (auto simp: image_iff)
  have shown: "(\<exists>e. fe_event_id e = x \<and> proposes L fs (pj_events p) (s, f) e v \<and> \<not> overruled L fs p (s, f) x)
      \<and> (\<forall>e w. proposes L fs (pj_events p) (s, f) e w \<longrightarrow> fe_event_id e = x
             \<or> precedes (pj_events p) (fe_event_id e) x \<or> overruled L fs p (s, f) (fe_event_id e))"
    if "(f, (x, v)) \<in> set (sv_fields ?view)"
  proof -
    from that obtain c where c: "chosen ?m (?active f) = Some c" "x = item_id c" "v = snd c" unfolding fields_iff by blast
    note dom = chosen_Some[OF c(1)]
    obtain e where e: "c = (e, v)" using c(3) by (cases c) simp
    have pe: "proposes L fs (pj_events p) (s, f) e v" "\<not> overruled L fs p (s, f) x" "x = fe_event_id e"
      using dom mem[of e v] c(2) by (auto simp: e item_id_def)
    then have k: "x \<in> fe_event_id ` set (pj_events p)" by (auto simp: proposes_def)
    have "fe_event_id e' = x \<or> precedes (pj_events p) (fe_event_id e') x \<or> overruled L fs p (s, f) (fe_event_id e')"
      if "proposes L fs (pj_events p) (s, f) e' w" for e' w
      using dom mem[of e' w] that c(2) is_ancestor_precedes[OF k] by (fastforce simp: item_id_def)
    with pe show ?thesis by blast
  qed
  have kept: "\<exists>view'. (s, view') \<in> set (pj_subjects p)
        \<and> ((\<exists>y u. (f, (y, u)) \<in> set (sv_fields view')) \<or> overruled L fs p (s, f) (fe_event_id e)
           \<or> fe_event_id e \<in> set (sv_unresolved_event_ids view'))" if "proposes L fs (pj_events p) (s, f) e w"
  proof -
    have "(s, ?view) \<in> set (pj_subjects p)" using that by (auto simp: subj proposes_def)
    moreover have f: "f \<in> set (subject_keys ps s)" using that proposals_Inr[OF ps] by (auto simp: subject_keys_mem)
    moreover have "fe_event_id e \<in> set (sv_unresolved_event_ids ?view)"
      if "chosen ?m (?active f) = None" "\<not> overruled L fs p (s, f) (fe_event_id e)"
    proof -
      have "(e, w) \<in> set (?active f)" using mem[of e w] \<open>proposes L fs (pj_events p) (s, f) e w\<close> that(2) by simp
      then have "fe_event_id e \<in> item_id ` set (?active f)" by (force simp: item_id_def)
      with f that(1) show ?thesis by (auto simp: subject_of_def Let_def intro!: bexI[of _ f])
    qed
    ultimately show ?thesis using fields_iff by (cases "chosen ?m (?active f)") auto
  qed
  show ?thesis using view d shown kept by blast
qed

end
