(* ===== verification/Fed_Authority.thy ===== *)
theory Fed_Authority
  imports Fed_Models
begin

text \<open>
  \<open>src/eml_pmw/federation/authority.py\<close>: the verification of the authority that an event claims. The
  verifier is the deployment's: an argument, which may be absent, may raise, and may answer
  something that is not an \<open>AuthorityVerification\<close> (\<open>None\<close>).
\<close>

record AuthorityVerification =
  av_status :: string
  av_authority_ref :: "string option"
  av_action :: string
  av_subject_ref :: string
  av_evidence_ref :: "string option"

text \<open>\<open>__post_init__\<close>: every object of the class has passed these checks.\<close>

definition verification_checks :: "AuthorityVerification \<Rightarrow> unit res" where
  "verification_checks v =
     bindR (check (av_status v \<in> {''verified'', ''rejected'', ''unmeasured'', ''not_required''})
              ''authority_verification_status_invalid'') (\<lambda>_.
     bindR (check (\<not> (av_status v = ''verified'' \<and> av_evidence_ref v \<in> {None, Some []}))
              ''authority_evidence_missing'') (\<lambda>_.
     check (\<not> (av_status v \<noteq> ''verified'' \<and> av_evidence_ref v \<noteq> None)) ''authority_evidence_unexpected''))"

definition authority_verification ::
    "string \<Rightarrow> string option \<Rightarrow> string \<Rightarrow> string \<Rightarrow> string option \<Rightarrow> AuthorityVerification res" where
  "authority_verification status authority_ref action subject evidence =
     (let v = \<lparr>av_status = status, av_authority_ref = authority_ref, av_action = action,
               av_subject_ref = subject, av_evidence_ref = evidence\<rparr>
      in bindR (verification_checks v) (\<lambda>_. Inr v))"

text \<open>\<open>verify(authority_ref, action, subject_ref)\<close>.\<close>

type_synonym verifier = "string option \<Rightarrow> string \<Rightarrow> string \<Rightarrow> AuthorityVerification option res"

text \<open>What an object of the class promises of every verifier that answers with one.\<close>

definition verifier_ok :: "verifier \<Rightarrow> bool" where
  "verifier_ok vf \<longleftrightarrow> (\<forall>a act s v. vf a act s = Inr (Some v) \<longrightarrow> verification_checks v = Inr ())"

text \<open>\<open>subject_ref or event.subject_ref\<close>.\<close>

definition target_subject :: "FederatedEvent \<Rightarrow> string option \<Rightarrow> string" where
  "target_subject event subject_ref = (case subject_ref of None \<Rightarrow> fe_subject_ref event
     | Some s \<Rightarrow> if s = [] then fe_subject_ref event else s)"

definition verify_event_authority ::
    "FederatedEvent \<Rightarrow> FederationConfig \<Rightarrow> verifier option \<Rightarrow> string \<Rightarrow> string option \<Rightarrow> AuthorityVerification res" where
  "verify_event_authority event config verifier action subject_ref =
     (let target = target_subject event subject_ref
      in if fe_event_kind event \<notin> set (cfg_authority_required_event_kinds config)
         then authority_verification ''not_required'' (fe_authority_ref event) action target None
         else case verifier of
           None \<Rightarrow> authority_verification ''unmeasured'' (fe_authority_ref event) action target None
         | Some vf \<Rightarrow> bindR (vf (fe_authority_ref event) action target) (\<lambda>answer. case answer of
               None \<Rightarrow> Inl (Coded ''authority_verifier_result_invalid'')
             | Some v \<Rightarrow>
                 if av_authority_ref v \<noteq> fe_authority_ref event \<or> av_action v \<noteq> action \<or> av_subject_ref v \<noteq> target
                 then Inl (Coded ''authority_verification_scope_mismatch'')
                 else Inr v))"

section \<open>Correctness\<close>

lemma verification_checks_iff:
  "verification_checks v = Inr () \<longleftrightarrow>
     av_status v \<in> {''verified'', ''rejected'', ''unmeasured'', ''not_required''}
     \<and> (av_status v = ''verified'' \<longleftrightarrow> (\<exists>r. av_evidence_ref v = Some r \<and> r \<noteq> []))
     \<and> (av_status v \<noteq> ''verified'' \<longrightarrow> av_evidence_ref v = None)"
proof (cases "av_evidence_ref v")
  case None
  then show ?thesis by (simp add: verification_checks_def bindR_Inr_iff)
next
  case (Some r)
  then show ?thesis by (cases "r = []") (simp_all add: verification_checks_def bindR_Inr_iff)
qed

lemma unverified_answer:
  assumes "st = ''not_required'' \<or> st = ''unmeasured''"
  shows "authority_verification st a act s None =
     Inr \<lparr>av_status = st, av_authority_ref = a, av_action = act, av_subject_ref = s, av_evidence_ref = None\<rparr>"
  using assms by (auto simp: authority_verification_def verification_checks_def check_def)

text \<open>The three ways to an answer: no authority is required, nobody verifies, the verifier answers.\<close>

lemma verify_event_authority_cases:
  assumes "verify_event_authority e cfg vf act subj = Inr v"
  obtains (not_required) "fe_event_kind e \<notin> set (cfg_authority_required_event_kinds cfg)"
      "v = \<lparr>av_status = ''not_required'', av_authority_ref = fe_authority_ref e, av_action = act,
            av_subject_ref = target_subject e subj, av_evidence_ref = None\<rparr>"
    | (unmeasured) "vf = None"
      "v = \<lparr>av_status = ''unmeasured'', av_authority_ref = fe_authority_ref e, av_action = act,
            av_subject_ref = target_subject e subj, av_evidence_ref = None\<rparr>"
    | (answered) g where "fe_event_kind e \<in> set (cfg_authority_required_event_kinds cfg)" "vf = Some g"
      "g (fe_authority_ref e) act (target_subject e subj) = Inr (Some v)"
      "av_authority_ref v = fe_authority_ref e" "av_action v = act" "av_subject_ref v = target_subject e subj"
proof (cases "fe_event_kind e \<in> set (cfg_authority_required_event_kinds cfg)")
  case False
  with assms have "v = \<lparr>av_status = ''not_required'', av_authority_ref = fe_authority_ref e, av_action = act,
            av_subject_ref = target_subject e subj, av_evidence_ref = None\<rparr>"
    by (simp add: verify_event_authority_def unverified_answer Let_def)
  with False show ?thesis by (rule not_required)
next
  case True
  show ?thesis
  proof (cases vf)
    case None
    with assms True show ?thesis
      by (intro unmeasured) (simp_all add: verify_event_authority_def unverified_answer Let_def)
  next
    case (Some g)
    have "bindR (g (fe_authority_ref e) act (target_subject e subj)) (\<lambda>answer. case answer of
         None \<Rightarrow> Inl (Coded ''authority_verifier_result_invalid'')
       | Some w \<Rightarrow> if av_authority_ref w \<noteq> fe_authority_ref e \<or> av_action w \<noteq> act \<or> av_subject_ref w \<noteq> target_subject e subj
           then Inl (Coded ''authority_verification_scope_mismatch'') else Inr w) = Inr v"
      using assms unfolding verify_event_authority_def Let_def Some by (simp only: True not_True_eq_False if_False option.case)
    then obtain answer where a: "g (fe_authority_ref e) act (target_subject e subj) = Inr answer"
      and r: "(case answer of None \<Rightarrow> Inl (Coded ''authority_verifier_result_invalid'')
         | Some w \<Rightarrow> if av_authority_ref w \<noteq> fe_authority_ref e \<or> av_action w \<noteq> act \<or> av_subject_ref w \<noteq> target_subject e subj
             then Inl (Coded ''authority_verification_scope_mismatch'') else Inr w) = Inr v"
      by (rule bindR_InrE)
    from r obtain w where "answer = Some w" by (cases answer) auto
    with a r True Some show ?thesis by (intro answered[of g]) (auto split: if_splits)
  qed
qed

lemma authority_verified:
  assumes "verify_event_authority e cfg vf act subj = Inr v" and "av_status v = ''verified''"
  shows "fe_event_kind e \<in> set (cfg_authority_required_event_kinds cfg)
    \<and> (\<exists>g. vf = Some g \<and> g (fe_authority_ref e) act (target_subject e subj) = Inr (Some v))"
  using assms(1) by (cases rule: verify_event_authority_cases) (use assms(2) in simp_all)

text \<open>
  C27: a verified authority was verified for this event. \<open>verify_event_authority\<close> answers an object
  whose scope is the event's own authority, the asked action and the asked subject; \<open>verified\<close>
  comes with a non-empty evidence reference, for a kind that needs an authority, as the verifier's
  own answer, never from its absence.
\<close>

theorem verify_event_authority_scope:
  assumes "verify_event_authority e cfg vf act subj = Inr v" and "\<And>g. vf = Some g \<Longrightarrow> verifier_ok g"
  shows "av_authority_ref v = fe_authority_ref e \<and> av_action v = act \<and> av_subject_ref v = target_subject e subj
    \<and> (av_status v = ''verified'' \<longleftrightarrow> (\<exists>r. av_evidence_ref v = Some r \<and> r \<noteq> []))
    \<and> (av_status v = ''verified'' \<longrightarrow> fe_event_kind e \<in> set (cfg_authority_required_event_kinds cfg)
         \<and> (\<exists>g. vf = Some g \<and> g (fe_authority_ref e) act (target_subject e subj) = Inr (Some v)))"
  using assms(1)
proof (cases rule: verify_event_authority_cases)
  case (answered g)
  then have "verification_checks v = Inr ()" using assms(2) unfolding verifier_ok_def by blast
  then have "av_status v = ''verified'' \<longleftrightarrow> (\<exists>r. av_evidence_ref v = Some r \<and> r \<noteq> [])"
    unfolding verification_checks_iff by blast
  with answered show ?thesis by blast
next
  case not_required
  then show ?thesis by simp
next
  case unmeasured
  then show ?thesis by simp
qed

section \<open>A verifier\<close>

definition sample_verifier :: verifier where
  "sample_verifier a act s = Inr (Some \<lparr>av_status = (if a = Some ''authority:fixture'' then ''verified'' else ''rejected''),
     av_authority_ref = a, av_action = act, av_subject_ref = s,
     av_evidence_ref = (if a = Some ''authority:fixture'' then Some ''evidence:fixture'' else None)\<rparr>)"

lemma sample_verifier_ok: "verifier_ok sample_verifier"
  by (simp add: verifier_ok_def sample_verifier_def verification_checks_def check_def)

theorem verify_event_authority_scope_witness:
  "\<exists>v. verify_event_authority (sample_event ''a'' 1 []) sample_config (Some sample_verifier) ''adopt_event'' None = Inr v
     \<and> av_status v = ''verified'' \<and> av_subject_ref v = ''pmw-task:fixture''"
proof -
  let ?v = "\<lparr>av_status = ''verified'', av_authority_ref = Some ''authority:fixture'', av_action = ''adopt_event'',
      av_subject_ref = ''pmw-task:fixture'', av_evidence_ref = Some ''evidence:fixture''\<rparr>"
  have v: "verify_event_authority (sample_event ''a'' 1 []) sample_config (Some sample_verifier) ''adopt_event'' None = Inr ?v"
    by code_simp
  have "\<And>g. Some sample_verifier = Some g \<Longrightarrow> verifier_ok g" using sample_verifier_ok by simp
  from verify_event_authority_scope[OF v this] v show ?thesis
    by (simp add: target_subject_def sample_event_def)
qed

end
