(* ===== verification/Fed_Reconcile.thy ===== *)
theory Fed_Reconcile
  imports Fed_Store Fed_Authority
begin

text \<open>
  \<open>src/eml_pmw/federation/reconcile.py\<close>: the classification of a pair of events, the reconciliation of
  a stored event against all others, and the resolution of a recorded conflict by an authorised
  event. The payloads and the store are those of \<open>Fed_Store\<close>; the authority verifier is an argument.
\<close>

section \<open>Conflicts of a pair\<close>

record ConflictAnalysis =
  ca_status :: string
  ca_conflict_class :: string
  ca_member_event_ids :: "string list"
  ca_subject_ref :: string

record ReconciliationDecision =
  rd_status :: string
  rd_event_id :: string
  rd_conflict_id :: "string option"
  rd_conflict_class :: "string option"
  rd_reason_codes :: "string list"

record ResolutionResult =
  rr_status :: string
  rr_conflict_id :: string
  rr_resolution_event_id :: string
  rr_resolution_path :: path

definition CONFLICT_PRIORITY :: "(string \<times> nat) list" where
  "CONFLICT_PRIORITY = [(''content_collision'', 0), (''causal_history_conflict'', 1), (''authority_conflict'', 2),
     (''identity_reference_conflict'', 3), (''state_transition_conflict'', 4), (''field_value_conflict'', 5),
     (''concurrent_nonexclusive'', 6)]"

text \<open>\<open>_payload_object\<close>: any failure to read is \<open>conflict_payload_invalid\<close>.\<close>

definition payload_object :: "string \<Rightarrow> dict res" where
  "payload_object data = (case loads_strict data of
      Inr (JObj d) \<Rightarrow> Inr d | _ \<Rightarrow> Inl (Coded ''conflict_payload_invalid''))"

definition analysis :: "string \<Rightarrow> string \<Rightarrow> FederatedEvent \<Rightarrow> FederatedEvent \<Rightarrow> ConflictAnalysis" where
  "analysis status cls left right =
     \<lparr>ca_status = status, ca_conflict_class = cls,
      ca_member_event_ids = sort [fe_event_id left, fe_event_id right],
      ca_subject_ref = (if fe_subject_ref left = fe_subject_ref right then fe_subject_ref left else ''multiple'')\<rparr>"

text \<open>
  The causal part: a missing history is a conflict (\<open>None\<close>); otherwise, whether the events are
  ordered.
\<close>

definition ordered_pair ::
    "lib \<Rightarrow> FederatedEvent \<Rightarrow> FederatedEvent \<Rightarrow> FederatedEvent list option \<Rightarrow> bool option res" where
  "ordered_pair L left right known = (case known of
      None \<Rightarrow>
        if \<exists>e\<in>set [left, right]. \<exists>p\<in>set (fe_causal_parents e). p \<notin> {fe_event_id left, fe_event_id right}
        then Inr None
        else Inr (Some (fe_event_id left \<in> set (fe_causal_parents right) \<or> fe_event_id right \<in> set (fe_causal_parents left)))
    | Some es \<Rightarrow>
        if \<not> cv_valid (validate_graph L es) then Inr None
        else bindR (classify_relation L es (fe_event_id left) (fe_event_id right)) (\<lambda>rel.
          Inr (Some (rel \<in> {''before'', ''after'', ''same''}))))"

definition concurrent_conflict ::
    "FederatedEvent \<Rightarrow> string \<Rightarrow> FederatedEvent \<Rightarrow> string \<Rightarrow> ConflictAnalysis res" where
  "concurrent_conflict left left_payload right right_payload =
     bindR (payload_object left_payload) (\<lambda>left_value.
     bindR (payload_object right_payload) (\<lambda>right_value.
     if startswith (fe_event_kind left) ''ral.identity.'' \<or> startswith (fe_event_kind right) ''ral.identity.''
     then Inr (analysis ''conflict'' ''identity_reference_conflict'' left right)
     else if endswith (fe_event_kind left) ''state_transition'' \<or> endswith (fe_event_kind right) ''state_transition''
     then Inr (analysis ''conflict'' ''state_transition_conflict'' left right)
     else if py_eq (dget_null left_value ''field'') (dget_null right_value ''field'')
       \<and> \<not> py_eq (dget_null left_value ''value'') (dget_null right_value ''value'')
     then Inr (analysis ''conflict'' ''field_value_conflict'' left right)
     else Inr (analysis ''parallel_branch'' ''concurrent_nonexclusive'' left right)))"

definition detect_conflict ::
    "lib \<Rightarrow> FederatedEvent \<Rightarrow> string \<Rightarrow> FederatedEvent \<Rightarrow> string \<Rightarrow> FederatedEvent list option \<Rightarrow> ConflictAnalysis res" where
  "detect_conflict L left left_payload right right_payload known =
     (if fe_event_id left = fe_event_id right \<and> core_digest L left \<noteq> core_digest L right
      then Inr (analysis ''conflict'' ''content_collision'' left right)
      else bindR (ordered_pair L left right known) (\<lambda>ordered. case ordered of
          None \<Rightarrow> Inr (analysis ''conflict'' ''causal_history_conflict'' left right)
        | Some True \<Rightarrow> Inr (analysis ''ordered'' ''concurrent_nonexclusive'' left right)
        | Some False \<Rightarrow>
            if fe_subject_ref left \<noteq> fe_subject_ref right
            then Inr (analysis ''parallel_branch'' ''concurrent_nonexclusive'' left right)
            else if fe_authority_ref left \<noteq> fe_authority_ref right
            then Inr (analysis ''conflict'' ''authority_conflict'' left right)
            else concurrent_conflict left left_payload right right_payload))"

definition conflict_core :: "lib \<Rightarrow> ConflictAnalysis \<Rightarrow> FederatedEvent \<Rightarrow> FederatedEvent \<Rightarrow> dict" where
  "conflict_core L a left right =
     [(''conflict_class'', JStr (ca_conflict_class a)),
      (''subject_ref'', JStr (ca_subject_ref a)),
      (''member_event_ids'', str_list_json (ca_member_event_ids a)),
      (''member_event_digests'', str_list_json (map (\<lambda>x.
         if x = fe_event_id right then core_digest L right else core_digest L left) (ca_member_event_ids a)))]"

definition conflict_id_of :: "lib \<Rightarrow> dict \<Rightarrow> string res" where
  "conflict_id_of L core = bindR (canonical_bytes L (JObj core)) (\<lambda>b. Inr (''conflict:sha256:'' @ sha256_hex L b))"

definition conflict_record :: "lib \<Rightarrow> ConflictAnalysis \<Rightarrow> FederatedEvent \<Rightarrow> FederatedEvent \<Rightarrow> (string \<times> dict) res" where
  "conflict_record L a left right =
     (let core = conflict_core L a left right
      in bindR (conflict_id_of L core) (\<lambda>cid.
        Inr (cid, [(''schema'', JStr ''pmw-federation-conflict/v1''), (''conflict_id'', JStr cid)] @ core @
          [(''not_claimed'', str_list_json [''conflict_resolved'', ''authority_to_execute'', ''resident_identity_continuity''])])))"

section \<open>Reconciliation\<close>

text \<open>\<open>min(xs, key=f)\<close>: the first of the least elements.\<close>

fun min_by :: "('a \<Rightarrow> 'b::linorder) \<Rightarrow> 'a \<Rightarrow> 'a list \<Rightarrow> 'a" where
  "min_by f x [] = x"
| "min_by f x (y # ys) = (if f y < f x then min_by f y ys else min_by f x ys)"

definition priority :: "ConflictAnalysis \<times> FederatedEvent \<Rightarrow> nat" where
  "priority c = (case map_of CONFLICT_PRIORITY (ca_conflict_class (fst c)) of None \<Rightarrow> 7 | Some n \<Rightarrow> n)"

text \<open>The analysis of every other event against this one, in the order of the store.\<close>

definition analyse_other ::
    "lib \<Rightarrow> files \<Rightarrow> FederatedEvent list \<Rightarrow> FederatedEvent \<Rightarrow> string \<Rightarrow> FederatedEvent \<Rightarrow> (ConflictAnalysis \<times> FederatedEvent) res" where
  "analyse_other L fs es event payload other =
     bindR (event_payload_file L fs other) (\<lambda>other_payload.
     bindR (detect_conflict L other other_payload event payload (Some es)) (\<lambda>a. Inr (a, other)))"

definition conflict_candidates ::
    "lib \<Rightarrow> files \<Rightarrow> FederatedEvent list \<Rightarrow> FederatedEvent \<Rightarrow> string \<Rightarrow> (ConflictAnalysis \<times> FederatedEvent) list res" where
  "conflict_candidates L fs es event payload =
     bindR (mapR (analyse_other L fs es event payload) (filter (\<lambda>other. fe_event_id other \<noteq> fe_event_id event) es)) (\<lambda>found.
       Inr (filter (\<lambda>c. ca_conflict_class (fst c) \<noteq> ''concurrent_nonexclusive'') found))"

definition decision :: "string \<Rightarrow> string \<Rightarrow> string list \<Rightarrow> ReconciliationDecision" where
  "decision status event_id reasons = \<lparr>rd_status = status, rd_event_id = event_id, rd_conflict_id = None,
     rd_conflict_class = None, rd_reason_codes = reasons\<rparr>"

definition reconcile_adoption :: "lib \<Rightarrow> string \<Rightarrow> FederatedEvent \<Rightarrow> (disk, ReconciliationDecision) op" where
  "reconcile_adoption L event_id event =
     bindS (event_payload L event) (\<lambda>payload.
     bindS (events L) (\<lambda>es.
     bindS (\<lambda>D. (D, conflict_candidates L (d_files D) es event payload)) (\<lambda>candidates.
       case candidates of
         [] \<Rightarrow> retS (decision ''adopted'' event_id [])
       | c # cs \<Rightarrow> (let (a, other) = min_by priority c cs
           in bindS (liftS (conflict_record L a other event)) (\<lambda>(cid, record).
             thenS (record_conflict L cid record)
               (retS \<lparr>rd_status = ''conflict'', rd_event_id = event_id, rd_conflict_id = Some cid,
                  rd_conflict_class = Some (ca_conflict_class a), rd_reason_codes = []\<rparr>))))))"

definition reconcile_event ::
    "lib \<Rightarrow> FederationConfig \<Rightarrow> string \<Rightarrow> verifier option \<Rightarrow> (disk, ReconciliationDecision) op" where
  "reconcile_event L cfg event_id vf =
     bindS (get_event L event_id) (\<lambda>event.
     bindS (liftS (verify_event_authority event cfg vf ''adopt_event'' None)) (\<lambda>authority.
     if av_status authority = ''unmeasured'' then retS (decision ''unmeasured'' event_id [''authority_unmeasured''])
     else if av_status authority = ''rejected'' then retS (decision ''rejected'' event_id [''authority_rejected''])
     else reconcile_adoption L event_id event))"

section \<open>Resolution\<close>

text \<open>The checks on the payload of a resolution; the selected event is returned.\<close>

definition resolution_selection :: "string \<Rightarrow> FederatedEvent \<Rightarrow> string list \<Rightarrow> dict \<Rightarrow> json res" where
  "resolution_selection conflict_id event members value =
     bindR (check (dget_null value ''conflict_id'' = JStr conflict_id) ''resolution_subject_mismatch'') (\<lambda>_.
     bindR (strs_field value ''member_event_ids'') (\<lambda>named.
     bindR (check (sort named = sort members) ''conflict_members_incomplete'') (\<lambda>_.
     bindR (check (dget_null value ''selected_event_id'' \<in> JStr ` set members) ''resolution_selection_invalid'') (\<lambda>_.
     bindR (check (set (fe_causal_parents event) = set members) ''resolution_parents_incomplete'') (\<lambda>_.
     Inr (dget_null value ''selected_event_id''))))))"

definition resolution_record ::
    "lib \<Rightarrow> string \<Rightarrow> FederatedEvent \<Rightarrow> AuthorityVerification \<Rightarrow> string list \<Rightarrow> json \<Rightarrow> dict" where
  "resolution_record L conflict_id event authority members selected =
     [(''schema'', JStr ''pmw-federation-resolution/v1''),
      (''conflict_id'', JStr conflict_id),
      (''resolution_event_id'', JStr (fe_event_id event)),
      (''resolution_event_digest'', JStr (core_digest L event)),
      (''authority_ref'', opt_json (fe_authority_ref event)),
      (''authority_evidence_ref'', opt_json (av_evidence_ref authority)),
      (''member_event_ids'', str_list_json (sort members)),
      (''selected_event_id'', selected),
      (''not_claimed'', str_list_json [''source_events_rewritten'', ''ral_head_mutated'', ''resident_identity_continuity''])]"

definition resolve_conflict ::
    "lib \<Rightarrow> FederationConfig \<Rightarrow> string \<Rightarrow> FederatedEvent \<Rightarrow> string \<Rightarrow> verifier option \<Rightarrow> (disk, ResolutionResult) op" where
  "resolve_conflict L cfg conflict_id event payload vf =
     bindS (get_conflict L conflict_id) (\<lambda>conflict.
     thenS (liftS (check (fe_event_kind event = ''pmw.conflict.resolution'' \<and> fe_subject_ref event = conflict_id)
              ''resolution_subject_mismatch''))
     (bindS (liftS (verify_event_authority event cfg vf ''resolve_conflict'' (Some conflict_id))) (\<lambda>authority.
      thenS (liftS (check (av_status authority = ''verified'') ''resolution_authority_unverified''))
     (bindS (liftS (payload_object payload)) (\<lambda>value.
      thenS (liftS (check (set (dkeys value) = {''conflict_id'', ''member_event_ids'', ''selected_event_id''})
               ''resolution_payload_invalid''))
     (bindS (liftS (bindR (dget conflict ''member_event_ids'') (\<lambda>_. strs_field conflict ''member_event_ids''))) (\<lambda>members.
      bindS (liftS (resolution_selection conflict_id event members value)) (\<lambda>selected.
      thenS (submit L cfg event payload (''resolution:'' @ fe_event_id event))
     (bindS (record_resolution L conflict_id (fe_event_id event)
               (resolution_record L conflict_id event authority members selected)) (\<lambda>p.
      retS \<lparr>rr_status = ''resolved'', rr_conflict_id = conflict_id, rr_resolution_event_id = fe_event_id event,
         rr_resolution_path = p\<rparr>))))))))))"

section \<open>Correctness\<close>

lemma sort_pair: "sort [x, y] = sort [y, x::string]"
  by auto

lemma analysis_sym: "analysis st cls l r = analysis st cls r l"
  unfolding analysis_def by (subst sort_pair) simp

lemma classify_sym:
  "bindR (classify_relation L es l r) (\<lambda>rel. Inr (Some (rel \<in> {''before'', ''after'', ''same''})))
   = bindR (classify_relation L es r l) (\<lambda>rel. Inr (Some (rel \<in> {''before'', ''after'', ''same''})))"
proof (cases "require_valid L es")
  case (Inr u)
  show ?thesis
  proof (cases "event_map L es")
    case (Inr m)
    then show ?thesis using \<open>require_valid L es = Inr u\<close>
      by (cases "map_of m l = None"; cases "map_of m r = None"; cases "l = r"; cases "is_ancestor m l r";
          cases "is_ancestor m r l") (simp_all add: classify_relation_def)
  qed (simp add: classify_relation_def Inr)
qed (simp add: classify_relation_def)

lemma ordered_pair_sym: "ordered_pair L l r known = ordered_pair L r l known"
proof (cases known)
  case None
  then show ?thesis by (auto simp: ordered_pair_def)
next
  case (Some es)
  show ?thesis unfolding ordered_pair_def Some option.case by (subst classify_sym) (rule refl)
qed

lemma payload_object_error: "payload_object b = Inl e \<Longrightarrow> e = Coded ''conflict_payload_invalid''"
  by (auto simp: payload_object_def split: sum.splits json.splits)

lemma concurrent_conflict_sym: "concurrent_conflict l lp r rp = concurrent_conflict r rp l lp"
proof (cases "payload_object lp")
  case (Inl e)
  then show ?thesis
    using payload_object_error[of lp e] payload_object_error[of rp]
    by (cases "payload_object rp") (simp_all add: concurrent_conflict_def)
next
  case (Inr lv)
  then show ?thesis
  proof (cases "payload_object rp")
    case (Inl e)
    with Inr show ?thesis by (simp add: concurrent_conflict_def)
  next
    case (Inr rv)
    have "py_eq (dget_null lv f) (dget_null rv f) = py_eq (dget_null rv f) (dget_null lv f)" for f
      using py_eq_sym by blast
    then show ?thesis
      using Inr \<open>payload_object lp = Inr lv\<close>
      by (simp only: concurrent_conflict_def bindR_simps analysis_sym[of _ _ l r] disj_commute)
  qed
qed

text \<open>
  Conflict detection does not depend on the order of the pair. The two calls give the same
  analysis, or the same error, with or without the known history.
\<close>

theorem detect_conflict_symmetric:
  "detect_conflict L l lp r rp known = detect_conflict L r rp l lp known"
  unfolding detect_conflict_def ordered_pair_sym[of L l r] concurrent_conflict_sym[of l lp r rp]
    analysis_sym[of _ _ l r]
  by (simp only: eq_commute[of "fe_event_id l"] eq_commute[of "core_digest L l"] eq_commute[of "fe_subject_ref l"]
      eq_commute[of "fe_authority_ref l"])

section \<open>Reconciliation is complete\<close>

lemma min_by_least: "min_by f x xs \<in> set (x # xs) \<and> (\<forall>y\<in>set (x # xs). f (min_by f x xs) \<le> f y)"
proof (induction xs arbitrary: x)
  case (Cons y ys)
  from Cons.IH[of y] Cons.IH[of x] show ?case by (cases "f y < f x") (auto intro: order_trans)
qed simp

text \<open>\<open>pair_analysis\<close>: what the loop of \<open>reconcile_event\<close> finds for one other event.\<close>

definition pair_analysis ::
    "lib \<Rightarrow> disk \<Rightarrow> FederatedEvent list \<Rightarrow> FederatedEvent \<Rightarrow> string \<Rightarrow> FederatedEvent \<Rightarrow> ConflictAnalysis \<Rightarrow> bool" where
  "pair_analysis L D es e payload other a \<longleftrightarrow> other \<in> set es \<and> fe_event_id other \<noteq> fe_event_id e
     \<and> (\<exists>q. event_payload L other D = (D, Inr q) \<and> detect_conflict L other q e payload (Some es) = Inr a)"

text \<open>Status and class agree: only \<open>concurrent_nonexclusive\<close> is no conflict.\<close>

lemma detect_conflict_status:
  assumes "detect_conflict L l lp r rp known = Inr a"
  shows "ca_status a = ''conflict'' \<longleftrightarrow> ca_conflict_class a \<noteq> ''concurrent_nonexclusive''"
proof -
  have "ca_status a = ''conflict'' \<longleftrightarrow> ca_conflict_class a \<noteq> ''concurrent_nonexclusive''"
    if "concurrent_conflict l lp r rp = Inr a"
    using that unfolding concurrent_conflict_def
    by (elim bindR_InrE) (auto simp: analysis_def split: if_splits)
  note concurrent = this
  show ?thesis
  proof (cases "fe_event_id l = fe_event_id r \<and> core_digest L l \<noteq> core_digest L r")
    case True
    with assms show ?thesis by (auto simp: detect_conflict_def analysis_def)
  next
    case False
    from assms obtain ord where
      k: "(case ord of
          None \<Rightarrow> Inr (analysis ''conflict'' ''causal_history_conflict'' l r)
        | Some True \<Rightarrow> Inr (analysis ''ordered'' ''concurrent_nonexclusive'' l r)
        | Some False \<Rightarrow>
            if fe_subject_ref l \<noteq> fe_subject_ref r
            then Inr (analysis ''parallel_branch'' ''concurrent_nonexclusive'' l r)
            else if fe_authority_ref l \<noteq> fe_authority_ref r
            then Inr (analysis ''conflict'' ''authority_conflict'' l r)
            else concurrent_conflict l lp r rp) = Inr a"
      unfolding detect_conflict_def if_not_P[OF False] by (rule bindR_InrE)
    show ?thesis
    proof (cases ord)
      case None
      with k show ?thesis by (auto simp: analysis_def)
    next
      case (Some b)
      with k concurrent show ?thesis
        by (cases b; cases "fe_subject_ref l = fe_subject_ref r"; cases "fe_authority_ref l = fe_authority_ref r")
          (auto simp: analysis_def)
    qed
  qed
qed

lemma candidates_complete:
  assumes "conflict_candidates L (d_files D) es e payload = Inr cs"
  shows "fe_event_id other \<noteq> fe_event_id e \<Longrightarrow> other \<in> set es \<Longrightarrow> \<exists>a. pair_analysis L D es e payload other a"
    and "pair_analysis L D es e payload other a \<Longrightarrow> (a, other) \<in> set cs \<longleftrightarrow> ca_status a = ''conflict''"
    and "(a, other) \<in> set cs \<Longrightarrow> pair_analysis L D es e payload other a"
proof -
  let ?others = "filter (\<lambda>other. fe_event_id other \<noteq> fe_event_id e) es"
  obtain found where f: "mapR (analyse_other L (d_files D) es e payload) ?others = Inr found"
    and cs: "cs = filter (\<lambda>c. ca_conflict_class (fst c) \<noteq> ''concurrent_nonexclusive'') found"
    using assms by (auto simp: conflict_candidates_def bindR_Inr_iff)
  have one: "analyse_other L (d_files D) es e payload x = Inr c \<longleftrightarrow>
      snd c = x \<and> (\<exists>q. event_payload L x D = (D, Inr q) \<and> detect_conflict L x q e payload (Some es) = Inr (fst c))" for x c
    by (cases c) (auto simp: analyse_other_def bindR_Inr_iff event_payload_def)
  have found: "c \<in> set found \<longleftrightarrow> pair_analysis L D es e payload (snd c) (fst c)" for c
  proof
    assume "c \<in> set found"
    then obtain x where "x \<in> set ?others" "analyse_other L (d_files D) es e payload x = Inr c"
      using mapR_mem(2)[OF f] by blast
    then show "pair_analysis L D es e payload (snd c) (fst c)" by (auto simp: pair_analysis_def one)
  next
    assume p: "pair_analysis L D es e payload (snd c) (fst c)"
    then have "snd c \<in> set ?others" by (simp add: pair_analysis_def)
    then obtain c' where c': "c' \<in> set found" "analyse_other L (d_files D) es e payload (snd c) = Inr c'"
      using mapR_mem(1)[OF f] by blast
    moreover have "analyse_other L (d_files D) es e payload (snd c) = Inr c" using p by (simp add: one pair_analysis_def)
    ultimately show "c \<in> set found" by simp
  qed
  show "(a, other) \<in> set cs \<Longrightarrow> pair_analysis L D es e payload other a"
    using found[of "(a, other)"] by (simp add: cs)
  show "pair_analysis L D es e payload other a \<Longrightarrow> (a, other) \<in> set cs \<longleftrightarrow> ca_status a = ''conflict''"
    using found[of "(a, other)"] detect_conflict_status by (auto simp: cs pair_analysis_def)
  assume "fe_event_id other \<noteq> fe_event_id e" "other \<in> set es"
  then have "other \<in> set ?others" by simp
  then obtain c where "c \<in> set found" "analyse_other L (d_files D) es e payload other = Inr c"
    using mapR_mem(1)[OF f] by blast
  then have "pair_analysis L D es e payload other (fst c)" using found[of c] one by simp
  then show "\<exists>a. pair_analysis L D es e payload other a" ..
qed

lemma reconcile_Inr:
  assumes "reconcile_event L cfg eid vf D = (D', Inr r)"
  obtains (refused) "D' = D" "rd_status r \<in> {''unmeasured'', ''rejected''}"
  | (decided) e v payload es cs where "get_event L eid D = (D, Inr e)"
    "verify_event_authority e cfg vf ''adopt_event'' None = Inr v" "av_status v \<notin> {''unmeasured'', ''rejected''}"
    "event_payload L e D = (D, Inr payload)" "events L D = (D, Inr es)"
    "conflict_candidates L (d_files D) es e payload = Inr cs"
    "(case cs of [] \<Rightarrow> retS (decision ''adopted'' eid [])
       | c # cs \<Rightarrow> (let (a, other) = min_by priority c cs
           in bindS (liftS (conflict_record L a other e)) (\<lambda>(cid, record).
             thenS (record_conflict L cid record)
               (retS \<lparr>rd_status = ''conflict'', rd_event_id = eid, rd_conflict_id = Some cid,
                  rd_conflict_class = Some (ca_conflict_class a), rd_reason_codes = []\<rparr>)))) D = (D', Inr r)"
proof -
  from assms obtain e D1 where e: "get_event L eid D = (D1, Inr e)"
    and k: "bindS (liftS (verify_event_authority e cfg vf ''adopt_event'' None)) (\<lambda>authority.
     if av_status authority = ''unmeasured'' then retS (decision ''unmeasured'' eid [''authority_unmeasured''])
     else if av_status authority = ''rejected'' then retS (decision ''rejected'' eid [''authority_rejected''])
     else reconcile_adoption L eid e) D1 = (D', Inr r)"
    unfolding reconcile_event_def by (rule bindS_InrE)
  have D1: "D1 = D" using e by (simp add: get_event_def)
  from k obtain v where v: "verify_event_authority e cfg vf ''adopt_event'' None = Inr v"
    and k2: "(if av_status v = ''unmeasured'' then retS (decision ''unmeasured'' eid [''authority_unmeasured''])
     else if av_status v = ''rejected'' then retS (decision ''rejected'' eid [''authority_rejected''])
     else reconcile_adoption L eid e) D = (D', Inr r)"
    by (elim bindS_InrE) (auto simp: D1)
  show ?thesis
  proof (cases "av_status v \<in> {''unmeasured'', ''rejected''}")
    case True
    with k2 have "D' = D" "rd_status r \<in> {''unmeasured'', ''rejected''}"
      by (auto simp: decision_def split: if_splits)
    then show ?thesis by (rule refused)
  next
    case False
    with k2 have "reconcile_adoption L eid e D = (D', Inr r)" by (simp split: if_splits)
    then show ?thesis
      unfolding reconcile_adoption_def
      by (elim bindS_InrE) (rule decided, (use e D1 v False in \<open>auto simp: event_payload_def events_def\<close>))
  qed
qed

text \<open>
  What keeps two events of a history from a conflict: one causally precedes the other, or they are about different
  subjects, or they carry the same authority, neither is about an identity or a state transition, and where their
  payloads name the same field they set it to values that Python's \<open>==\<close> calls equal.
\<close>

definition compatible :: "lib \<Rightarrow> FederatedEvent list \<Rightarrow> FederatedEvent \<Rightarrow> string \<Rightarrow> FederatedEvent \<Rightarrow> string \<Rightarrow> bool" where
  "compatible L es l lp r rp \<longleftrightarrow> (\<exists>m. event_map L es = Inr m
     \<and> ((fe_event_id l, fe_event_id r) \<in> (parent_rel m)\<^sup>+ \<or> (fe_event_id r, fe_event_id l) \<in> (parent_rel m)\<^sup>+
        \<or> fe_subject_ref l \<noteq> fe_subject_ref r
        \<or> fe_authority_ref l = fe_authority_ref r \<and> (\<exists>lv rv. payload_object lp = Inr lv \<and> payload_object rp = Inr rv
            \<and> (\<forall>e\<in>{l, r}. \<not> startswith (fe_event_kind e) ''ral.identity.'' \<and> \<not> endswith (fe_event_kind e) ''state_transition'')
            \<and> (py_eq (dget_null lv ''field'') (dget_null rv ''field'') \<longrightarrow>
                 py_eq (dget_null lv ''value'') (dget_null rv ''value'')))))"

lemma concurrent_compatible:
  assumes "concurrent_conflict l lp r rp = Inr a" and "ca_status a \<noteq> ''conflict''"
  shows "\<exists>lv rv. payload_object lp = Inr lv \<and> payload_object rp = Inr rv
     \<and> (\<forall>e\<in>{l, r}. \<not> startswith (fe_event_kind e) ''ral.identity.'' \<and> \<not> endswith (fe_event_kind e) ''state_transition'')
     \<and> (py_eq (dget_null lv ''field'') (dget_null rv ''field'') \<longrightarrow> py_eq (dget_null lv ''value'') (dget_null rv ''value''))"
  using assms unfolding concurrent_conflict_def
  by (elim bindR_InrE) (auto simp: analysis_def split: if_splits)

lemma classify_ordered:
  assumes "cv_valid (validate_graph L es)" and "event_map L es = Inr m" and "l \<noteq> r"
    and "classify_relation L es l r = Inr rel" and "rel \<in> {''before'', ''after'', ''same''}"
  shows "(l, r) \<in> (parent_rel m)\<^sup>+ \<or> (r, l) \<in> (parent_rel m)\<^sup>+"
proof -
  note full = parent_rel_full(2)[OF assms(2) valid_acyclic(1)[OF assms(1,2)]]
  from assms have k: "l \<in> set (map fst m)" "r \<in> set (map fst m)" and "is_ancestor m l r \<or> is_ancestor m r l"
    by (auto simp: classify_relation_def bindR_Inr_iff map_of_eq_None_iff split: if_splits)
  with is_ancestor_iff[OF full k(1)] is_ancestor_iff[OF full k(2)] show ?thesis by blast
qed

lemma detect_conflict_compatible:
  assumes "detect_conflict L l lp r rp (Some es) = Inr a" and "ca_status a \<noteq> ''conflict''"
    and "fe_event_id l \<noteq> fe_event_id r"
  shows "cv_valid (validate_graph L es) \<and> compatible L es l lp r rp"
proof -
  from assms obtain ord where o: "ordered_pair L l r (Some es) = Inr ord"
    and k: "(case ord of
          None \<Rightarrow> Inr (analysis ''conflict'' ''causal_history_conflict'' l r)
        | Some True \<Rightarrow> Inr (analysis ''ordered'' ''concurrent_nonexclusive'' l r)
        | Some False \<Rightarrow>
            if fe_subject_ref l \<noteq> fe_subject_ref r
            then Inr (analysis ''parallel_branch'' ''concurrent_nonexclusive'' l r)
            else if fe_authority_ref l \<noteq> fe_authority_ref r
            then Inr (analysis ''conflict'' ''authority_conflict'' l r)
            else concurrent_conflict l lp r rp) = Inr a"
    unfolding detect_conflict_def by (auto elim: bindR_InrE)
  from k assms(2) obtain b where b: "ord = Some b" by (cases ord) (auto simp: analysis_def)
  from o b have valid: "cv_valid (validate_graph L es)" by (auto simp: ordered_pair_def split: if_splits)
  with o b obtain rel where rel: "classify_relation L es (fe_event_id l) (fe_event_id r) = Inr rel"
    "b = (rel \<in> {''before'', ''after'', ''same''})" by (auto simp: ordered_pair_def bindR_Inr_iff)
  from rel(1) obtain m where m: "event_map L es = Inr m" by (auto simp: classify_relation_def bindR_Inr_iff)
  show ?thesis
  proof (cases b)
    case True
    with classify_ordered[OF valid m assms(3) rel(1)] rel(2) have
      "(fe_event_id l, fe_event_id r) \<in> (parent_rel m)\<^sup>+ \<or> (fe_event_id r, fe_event_id l) \<in> (parent_rel m)\<^sup>+" by blast
    with valid m show ?thesis unfolding compatible_def by blast
  next
    case False
    show ?thesis
    proof (cases "fe_subject_ref l = fe_subject_ref r")
      case True
      with k False b assms(2) have "fe_authority_ref l = fe_authority_ref r" "concurrent_conflict l lp r rp = Inr a"
        by (auto simp: analysis_def split: if_splits)
      with concurrent_compatible[OF this(2) assms(2)] valid m show ?thesis unfolding compatible_def by blast
    next
      case False
      with valid m show ?thesis unfolding compatible_def by blast
    qed
  qed
qed

text \<open>
  C6: an event is adopted only with an authority that was not refused and only beside events it does not conflict
  with. When \<open>reconcile_event\<close> answers \<open>adopted\<close>, the kind of the event needs no authority or the verifier answered
  for this event and neither refused it nor left it open; the disk is unchanged; and every other stored event was
  analysed against it, in a valid history, and is \<open>compatible\<close> with it in the sense above. There equal values are
  those of Python's \<open>==\<close>, for which \<open>true\<close> is \<open>1\<close>: two concurrent edits to these values are both adopted.
\<close>

theorem adopted_without_conflict:
  assumes "reconcile_event L cfg eid vf D = (D', Inr r)" and "rd_status r = ''adopted''"
  shows "D' = D \<and> (\<exists>e v payload es. get_event L eid D = (D, Inr e)
    \<and> verify_event_authority e cfg vf ''adopt_event'' None = Inr v \<and> av_status v \<notin> {''unmeasured'', ''rejected''}
    \<and> (fe_event_kind e \<notin> set (cfg_authority_required_event_kinds cfg)
       \<or> (\<exists>g. vf = Some g \<and> g (fe_authority_ref e) ''adopt_event'' (fe_subject_ref e) = Inr (Some v)))
    \<and> event_payload L e D = (D, Inr payload) \<and> events L D = (D, Inr es)
    \<and> (\<forall>other\<in>set es. fe_event_id other \<noteq> fe_event_id e \<longrightarrow>
         (\<exists>a q. pair_analysis L D es e payload other a \<and> ca_status a \<noteq> ''conflict''
            \<and> event_payload L other D = (D, Inr q) \<and> cv_valid (validate_graph L es) \<and> compatible L es other q e payload)))"
  using assms(1)
proof (cases rule: reconcile_Inr)
  case refused
  then show ?thesis using assms(2) by simp
next
  case (decided e v payload es cs)
  have cs: "cs = []"
  proof (cases cs)
    case (Cons c cs')
    with decided(7) assms(2) show ?thesis
      by (auto simp: Let_def split: prod.splits elim!: bindS_InrE thenS_InrE)
  qed
  with decided(7) have "D' = D" by simp
  moreover have "fe_event_kind e \<notin> set (cfg_authority_required_event_kinds cfg)
       \<or> (\<exists>g. vf = Some g \<and> g (fe_authority_ref e) ''adopt_event'' (fe_subject_ref e) = Inr (Some v))"
    using decided(2) decided(3) by (cases rule: verify_event_authority_cases) (auto simp: target_subject_def)
  moreover have "\<exists>a q. pair_analysis L D es e payload other a \<and> ca_status a \<noteq> ''conflict''
            \<and> event_payload L other D = (D, Inr q) \<and> cv_valid (validate_graph L es) \<and> compatible L es other q e payload"
    if o: "other \<in> set es" "fe_event_id other \<noteq> fe_event_id e" for other
  proof -
    obtain a where a1: "pair_analysis L D es e payload other a"
      using candidates_complete(1)[OF decided(6) o(2,1)] by blast
    with candidates_complete(2)[OF decided(6) this] cs have a: "pair_analysis L D es e payload other a" "ca_status a \<noteq> ''conflict''"
      by simp_all
    from a1 obtain q where "event_payload L other D = (D, Inr q)" "detect_conflict L other q e payload (Some es) = Inr a"
      by (auto simp: pair_analysis_def)
    with a o(2) detect_conflict_compatible show ?thesis by blast
  qed
  ultimately show ?thesis using decided(1-5) by blast
qed

text \<open>
  C28: a conflict is recorded in its most serious class. When \<open>reconcile_event\<close> answers
  \<open>conflict\<close>, some stored event conflicts with this one in the answered class, no other event
  conflicts in a class of higher priority, and the disk holds the record under the answered id.
\<close>

theorem conflict_recorded:
  assumes "reconcile_event L cfg eid vf D = (D', Inr r)" and "rd_status r = ''conflict''" and "nfc_ok L"
  shows "\<exists>e payload es other a cid record. get_event L eid D = (D, Inr e) \<and> event_payload L e D = (D, Inr payload)
    \<and> events L D = (D, Inr es) \<and> pair_analysis L D es e payload other a \<and> ca_status a = ''conflict''
    \<and> (\<forall>other' a'. pair_analysis L D es e payload other' a' \<and> ca_status a' = ''conflict'' \<longrightarrow>
         priority (a, other) \<le> priority (a', other'))
    \<and> conflict_record L a other e = Inr (cid, record) \<and> has_record L (conflict_path L cid) record D'
    \<and> rd_conflict_id r = Some cid \<and> rd_conflict_class r = Some (ca_conflict_class a)"
  using assms(1)
proof (cases rule: reconcile_Inr)
  case refused
  then show ?thesis using assms(2) by simp
next
  case (decided e v payload es cs)
  obtain c cs' where cs: "cs = c # cs'"
    using decided(7) assms(2) by (cases cs) (auto simp: decision_def)
  obtain a other where m: "min_by priority c cs' = (a, other)" by (cases "min_by priority c cs'")
  have least: "(a, other) \<in> set cs" "\<forall>y\<in>set cs. priority (a, other) \<le> priority y"
    using min_by_least[of priority c cs'] by (simp_all add: cs m)
  from decided(7) obtain cid cr where rec: "conflict_record L a other e = Inr (cid, cr)"
    and k: "thenS (record_conflict L cid cr)
         (retS \<lparr>rd_status = ''conflict'', rd_event_id = eid, rd_conflict_id = Some cid,
            rd_conflict_class = Some (ca_conflict_class a), rd_reason_codes = []\<rparr>) D = (D', Inr r)"
    by (auto simp: cs m elim!: bindS_InrE)
  from k obtain p where p: "record_conflict L cid cr D = (D', Inr p)"
    and r: "rd_conflict_id r = Some cid" "rd_conflict_class r = Some (ca_conflict_class a)"
    by (auto elim!: thenS_InrE)
  have "has_record L (conflict_path L cid) cr D'"
    using p by (auto simp: record_conflict_def elim!: thenS_InrE intro: record_once_Inr[OF _ assms(3)])
  then show ?thesis
    using decided(1,4,5) least rec r candidates_complete(2,3)[OF decided(6)] by blast
qed

section \<open>Resolution\<close>

lemma get_conflict_state: "get_conflict L cid D = (D', x) \<Longrightarrow> D' = D"
  by (auto simp: get_conflict_def bindS_def raiseS_def retS_def is_fileS_def getS_def read_object_def
      split: if_splits sum.splits)

lemma immutable_get_conflict [immutable_intros]: "immutable (get_conflict L x)"
  unfolding get_conflict_def by (intro immutable_intros)

lemma immutable_record_resolution: "immutable (record_resolution L cid eid rec)"
  unfolding record_resolution_def by (intro immutable_intros)

lemma resolution_selection_Inr:
  assumes "resolution_selection cid e members value = Inr sel"
  shows "set (fe_causal_parents e) = set members \<and> sel \<in> JStr ` set members"
  using assms unfolding resolution_selection_def by (elim bindR_InrE) auto

lemma record_resolution_Inr:
  assumes "record_resolution L cid eid rec D = (D', Inr p)" and "nfc_ok L"
  shows "has_record L (resolution_path L cid eid) rec D' \<and> p = resolution_path L cid eid"
  using assms(1) unfolding record_resolution_def
  by (elim bindS_InrE thenS_InrE) (auto intro: record_once_Inr[OF _ assms(2)])

text \<open>
  C29: only a verified authority resolves a conflict. A resolution that returns had a recorded
  conflict, an authority that the verifier itself verified for this event, this conflict and the
  action \<open>resolve_conflict\<close>, exactly the members of the conflict as causal parents, and selects one
  of them; the disk then holds the payload of the event and the resolution record.
\<close>

theorem resolve_conflict_authorised:
  assumes "resolve_conflict L cfg cid e payload vf D = (D', Inr r)" and "nfc_ok L"
  shows "\<exists>conflict v members sel g. get_conflict L cid D = (D, Inr conflict)
    \<and> strs_field conflict ''member_event_ids'' = Inr members
    \<and> fe_event_kind e \<in> set (cfg_authority_required_event_kinds cfg)
    \<and> vf = Some g \<and> g (fe_authority_ref e) ''resolve_conflict'' cid = Inr (Some v) \<and> av_status v = ''verified''
    \<and> set (fe_causal_parents e) = set members \<and> sel \<in> JStr ` set members
    \<and> map_of (d_files D') (payload_path e) = Some payload
    \<and> has_record L (resolution_path L cid (fe_event_id e)) (resolution_record L cid e v members sel) D'"
proof -
  from assms(1) obtain conflict D1 v val members sel D2 sr D3 p where c: "get_conflict L cid D = (D1, Inr conflict)"
    and subj: "fe_subject_ref e = cid" and v: "verify_event_authority e cfg vf ''resolve_conflict'' (Some cid) = Inr v"
    and st: "av_status v = ''verified''"
    and m: "bindR (dget conflict ''member_event_ids'') (\<lambda>_. strs_field conflict ''member_event_ids'') = Inr members"
    and sel: "resolution_selection cid e members val = Inr sel"
    and sub: "submit L cfg e payload (''resolution:'' @ fe_event_id e) D1 = (D2, Inr sr)"
    and rec: "record_resolution L cid (fe_event_id e) (resolution_record L cid e v members sel) D2 = (D3, Inr p)"
    and D': "D' = D3"
    unfolding resolve_conflict_def
    by (elim bindS_InrE thenS_InrE) (simp only: basic_Inr check_Inr, elim conjE, hypsubst, blast)
  have D1: "D1 = D" using c by (rule get_conflict_state)
  have target: "target_subject e (Some cid) = cid" using subj by (simp add: target_subject_def)
  obtain g where g: "fe_event_kind e \<in> set (cfg_authority_required_event_kinds cfg)" "vf = Some g"
    "g (fe_authority_ref e) ''resolve_conflict'' cid = Inr (Some v)"
    using authority_verified[OF v st] target by auto
  have members: "strs_field conflict ''member_event_ids'' = Inr members" using m by (auto simp: bindR_Inr_iff)
  have "map_of (d_files D') (payload_path e) = Some payload"
    using grows_get[OF immutable_grows[OF immutable_record_resolution rec]] submit_stores_payload[OF sub] D' by simp
  moreover have "has_record L (resolution_path L cid (fe_event_id e)) (resolution_record L cid e v members sel) D'"
    using record_resolution_Inr[OF rec assms(2)] D' by simp
  ultimately show ?thesis using c[unfolded D1] members g st resolution_selection_Inr[OF sel] by blast
qed

text \<open>
  A truth value and a number are not told apart. Two concurrent edits of one field, one to
  \<open>true\<close> and one to \<open>1\<close> (or \<open>false\<close> and \<open>0\<close>), are no conflict for \<open>detect_conflict\<close>: Python's \<open>==\<close>
  compares them equal although their canonical texts differ.
\<close>

theorem bool_int_conflict_missed:
  assumes "fe_event_id l \<noteq> fe_event_id r" and "ordered_pair L l r known = Inr (Some False)"
    and "fe_subject_ref l = fe_subject_ref r" and "fe_authority_ref l = fe_authority_ref r"
    and "fe_event_kind l = ''pmw.task.field_set''" and "fe_event_kind r = ''pmw.task.field_set''"
    and "payload_object lp = Inr [(''field'', JStr f), (''value'', JBool b)]"
    and "payload_object rp = Inr [(''field'', JStr f), (''value'', JInt (if b then 1 else 0))]"
  shows "detect_conflict L l lp r rp known = Inr (analysis ''parallel_branch'' ''concurrent_nonexclusive'' l r)"
proof -
  have "py_eq (JBool b) (JInt (if b then 1 else 0))" by (simp add: py_eq_def)
  moreover have "\<not> startswith ''pmw.task.field_set'' ''ral.identity.''" "\<not> endswith ''pmw.task.field_set'' ''state_transition''"
    by (simp_all add: startswith_def endswith_def)
  ultimately have "concurrent_conflict l lp r rp = Inr (analysis ''parallel_branch'' ''concurrent_nonexclusive'' l r)"
    by (simp add: concurrent_conflict_def assms(5-8) dget_null_def)
  then show ?thesis by (simp add: detect_conflict_def assms(1-4))
qed

end
