(* ===== verification/Fed_Reconcile_Runs.thy ===== *)
theory Fed_Reconcile_Runs
  imports Fed_Reconcile
begin

text \<open>
  Runs of the reconciliation on small stores: two concurrent edits, with and without a conflict, and
  the resolution of a recorded conflict. They are the concrete cases of the theorems of
  \<open>Fed_Reconcile\<close>. The long texts on the disks stay folded; the runs are put together from the lemmas.
\<close>

section \<open>Two events in a store\<close>

text \<open>A library that tells the ids \<open>a\<close> and \<open>b\<close> apart.\<close>

definition ab_lib :: lib where
  "ab_lib = \<lparr>sha256_hex = (\<lambda>s. if s = ''b'' then replicate 64 CHR ''1'' else replicate 64 CHR ''0''), nfc = (\<lambda>s. s)\<rparr>"

lemma ab_lib_ok: "lib_ok ab_lib"
  by (simp add: lib_ok_def nfc_ok_def ab_lib_def list_all_iff is_hex_lower_def is_digit_def in_rng_def byte_def)

lemma ab_fixed: "fixed (nfc ab_lib) v"
  using fixed_plain[of v] by (simp add: plain_lib_def ab_lib_def)

definition event_a :: FederatedEvent where
  "event_a = sample_event ''a'' 1 []"

definition event_b :: FederatedEvent where
  "event_b = sample_event ''b'' 2 []"

definition event_files :: "FederatedEvent \<Rightarrow> string \<Rightarrow> files" where
  "event_files e payload =
     [(payload_path e, payload),
      (event_path ab_lib e, projr (canonical_bytes ab_lib (JObj (event_to_dict e)))),
      (sequence_index_path ab_lib e, projr (canonical_bytes ab_lib (JObj (sequence_record ab_lib e)))),
      (event_index_path ab_lib (fe_event_id e), projr (canonical_bytes ab_lib (JObj (index_record ab_lib e))))]"

definition ab_disk :: "string \<Rightarrow> string \<Rightarrow> disk" where
  "ab_disk pa pb = \<lparr>d_files = event_files event_a pa @ event_files event_b pb, d_others = []\<rparr>"

definition printable_event :: "FederatedEvent \<Rightarrow> bool" where
  "printable_event e \<longleftrightarrow> event_ok e \<and> utf8_valid (fe_event_id e) \<and> fe_payload_sha256 e = replicate 64 CHR ''0''
     \<and> \<not> isl (canonical_bytes ab_lib (JObj (event_to_dict e)))
     \<and> \<not> isl (canonical_bytes ab_lib (JObj (sequence_record ab_lib e)))
     \<and> \<not> isl (canonical_bytes ab_lib (JObj (index_record ab_lib e)))"

lemma ab_printable: "printable_event event_a" "printable_event event_b"
  by code_simp+

lemma event_files_hold:
  assumes "printable_event e" and "\<And>p b. (p, b) \<in> set (event_files e payload) \<Longrightarrow> map_of (d_files D) p = Some b"
  shows "holds_event ab_lib e payload D"
proof -
  have n: "nfc_ok ab_lib" using ab_lib_ok by (rule lib_okD)
  obtain b1 b2 b3 where b: "canonical_bytes ab_lib (JObj (event_to_dict e)) = Inr b1"
    "canonical_bytes ab_lib (JObj (sequence_record ab_lib e)) = Inr b2"
    "canonical_bytes ab_lib (JObj (index_record ab_lib e)) = Inr b3"
    using assms(1) unfolding printable_event_def by (metis sum.collapse(2))
  have f: "map_of (d_files D) (payload_path e) = Some payload" "map_of (d_files D) (event_path ab_lib e) = Some b1"
    "map_of (d_files D) (sequence_index_path ab_lib e) = Some b2"
    "map_of (d_files D) (event_index_path ab_lib (fe_event_id e)) = Some b3"
    using assms(2) by (simp_all add: event_files_def b)
  show ?thesis
    unfolding holds_event_def using f b record_file[OF b(2) f(3) n] record_file[OF b(3) f(4) n] by blast
qed

lemma ab_paths: "distinct (map fst (d_files (ab_disk pa pb)))"
  "glob_json (d_files (ab_disk pa pb)) [''indexes'', ''events''] = [event_index_path ab_lib ''a'', event_index_path ab_lib ''b'']"
proof -
  let ?ps = "\<lambda>e. [payload_path e, event_path ab_lib e, sequence_index_path ab_lib e, event_index_path ab_lib (fe_event_id e)]"
  have f: "map fst (d_files (ab_disk pa pb)) = ?ps event_a @ ?ps event_b"
    by (simp add: ab_disk_def event_files_def)
  show "distinct (map fst (d_files (ab_disk pa pb)))" unfolding f by code_simp
  have "map (\<lambda>n. [''indexes'', ''events''] @ [n]) (filter (\<lambda>n. endswith n ''.json'')
      (sorted_set (map (\<lambda>p. p ! length [''indexes'', ''events''])
        (filter (\<lambda>p. length [''indexes'', ''events''] < length p \<and> take (length [''indexes'', ''events'']) p = [''indexes'', ''events''])
          (?ps event_a @ ?ps event_b))))) = [event_index_path ab_lib ''a'', event_index_path ab_lib ''b'']"
    by code_simp
  then show "glob_json (d_files (ab_disk pa pb)) [''indexes'', ''events''] =
      [event_index_path ab_lib ''a'', event_index_path ab_lib ''b'']"
    unfolding glob_json_def entries_def f .
qed

lemma ab_holds: "holds_event ab_lib event_a pa (ab_disk pa pb)" "holds_event ab_lib event_b pb (ab_disk pa pb)"
  using ab_paths(1)[of pa pb]
  by (auto intro!: event_files_hold ab_printable map_of_is_SomeI simp: ab_disk_def)

lemma ab_reads:
  assumes "pa \<noteq> ''b''" and "pb \<noteq> ''b''"
  shows "get_event ab_lib ''b'' (ab_disk pa pb) = (ab_disk pa pb, Inr event_b)"
    and "event_payload ab_lib event_a (ab_disk pa pb) = (ab_disk pa pb, Inr pa)"
    and "event_payload ab_lib event_b (ab_disk pa pb) = (ab_disk pa pb, Inr pb)"
    and "events ab_lib (ab_disk pa pb) = (ab_disk pa pb, Inr [event_a, event_b])"
proof -
  let ?D = "ab_disk pa pb"
  have "upper (replicate 64 CHR ''0'') = replicate 64 CHR ''0''" by code_simp
  then have sha: "upper_sha256 ab_lib p = replicate 64 CHR ''0''" if "p \<noteq> ''b''" for p
    using that by (simp add: upper_sha256_def ab_lib_def)
  have a: "event_ok event_a" "utf8_valid (fe_event_id event_a)" "upper_sha256 ab_lib pa = fe_payload_sha256 event_a"
    and b: "event_ok event_b" "utf8_valid (fe_event_id event_b)" "upper_sha256 ab_lib pb = fe_payload_sha256 event_b"
    using ab_printable sha assms by (simp_all add: printable_event_def)
  have ids: "fe_event_id event_a = ''a''" "fe_event_id event_b = ''b''"
    by (simp_all add: event_a_def event_b_def sample_event_def)
  note ga = get_event_holds[OF ab_holds(1) a(1,2) ab_lib_ok ab_fixed a(3)]
    and gb = get_event_holds[OF ab_holds(2) b(1,2) ab_lib_ok ab_fixed b(3)]
  show "get_event ab_lib ''b'' ?D = (?D, Inr event_b)" using gb ids by (simp add: get_event_def)
  show "event_payload ab_lib event_a ?D = (?D, Inr pa)" "event_payload ab_lib event_b ?D = (?D, Inr pb)"
    using ab_holds[of pa pb] a(3) b(3) ab_holds(2)[of pb pa]
    by (simp_all add: event_payload_def event_payload_file_def holds_event_def)
  have "mapR (indexed_event ab_lib (d_files ?D)) (glob_json (d_files ?D) [''indexes'', ''events'']) = Inr [event_a, event_b]"
    using indexed_event_holds[OF ab_holds(1) a(1,2) ab_lib_ok ab_fixed a(3)]
      indexed_event_holds[OF ab_holds(2) b(1,2) ab_lib_ok ab_fixed b(3)]
    by (simp add: ab_paths(2) ids)
  moreover have "sort_key event_order [event_a, event_b] = [event_a, event_b]" by code_simp
  ultimately show "events ab_lib ?D = (?D, Inr [event_a, event_b])"
    by (simp add: events_def events_file_def)
qed

text \<open>Two edits of one field, to different values: a conflict; of two fields: none.\<close>

definition edit_text :: "string \<Rightarrow> string \<Rightarrow> string" where
  "edit_text field val = [CHR ''{'', CHR 0x22] @ ''field'' @ [CHR 0x22, CHR '':'', CHR 0x22] @ field @
     [CHR 0x22, CHR '','', CHR 0x22] @ ''value'' @ [CHR 0x22, CHR '':''] @ val @ ''}''"

lemma ab_candidates:
  assumes "pa \<noteq> ''b''" and "pb \<noteq> ''b''"
  shows "conflict_candidates ab_lib (d_files (ab_disk pa pb)) [event_a, event_b] event_b pb =
    bindR (detect_conflict ab_lib event_a pa event_b pb (Some [event_a, event_b])) (\<lambda>a.
      Inr (if ca_conflict_class a \<noteq> ''concurrent_nonexclusive'' then [(a, event_a)] else []))"
proof -
  have o: "filter (\<lambda>other. fe_event_id other \<noteq> fe_event_id event_b) [event_a, event_b] = [event_a]"
    by (simp add: event_a_def event_b_def sample_event_def)
  have "event_payload_file ab_lib (d_files (ab_disk pa pb)) event_a = Inr pa"
    using ab_reads(2)[OF assms] by (simp add: event_payload_def)
  then show ?thesis
    unfolding conflict_candidates_def o
    by (cases "detect_conflict ab_lib event_a pa event_b pb (Some [event_a, event_b])") (simp_all add: analyse_other_def)
qed

definition reconcile_b :: "string \<Rightarrow> string \<Rightarrow> disk \<times> ReconciliationDecision res" where
  "reconcile_b pa pb = reconcile_event ab_lib sample_config ''b'' (Some sample_verifier) (ab_disk pa pb)"

lemma reconcile_b_run:
  assumes "pa \<noteq> ''b''" and "pb \<noteq> ''b''"
  shows "reconcile_b pa pb = (case detect_conflict ab_lib event_a pa event_b pb (Some [event_a, event_b]) of
      Inl e \<Rightarrow> (ab_disk pa pb, Inl e)
    | Inr a \<Rightarrow> if ca_conflict_class a = ''concurrent_nonexclusive'' then (ab_disk pa pb, Inr (decision ''adopted'' ''b'' []))
        else bindS (liftS (conflict_record ab_lib a event_a event_b)) (\<lambda>(cid, record).
             thenS (record_conflict ab_lib cid record)
               (retS \<lparr>rd_status = ''conflict'', rd_event_id = ''b'', rd_conflict_id = Some cid,
                  rd_conflict_class = Some (ca_conflict_class a), rd_reason_codes = []\<rparr>)) (ab_disk pa pb))"
proof -
  have v: "(case verify_event_authority event_b sample_config (Some sample_verifier) ''adopt_event'' None of
      Inr v \<Rightarrow> av_status v = ''verified'' | Inl _ \<Rightarrow> False)" by code_simp
  then obtain v where v: "verify_event_authority event_b sample_config (Some sample_verifier) ''adopt_event'' None = Inr v"
    "av_status v = ''verified''" by (auto split: sum.splits)
  show ?thesis
    unfolding reconcile_b_def reconcile_event_def reconcile_adoption_def
    by (cases "detect_conflict ab_lib event_a pa event_b pb (Some [event_a, event_b])")
      (simp_all add: bindS_def liftS_def retS_def ab_reads[OF assms] ab_candidates[OF assms] v)
qed

theorem adopted_without_conflict_witness:
  "\<exists>a. pair_analysis ab_lib (ab_disk (edit_text ''title'' ''1'') (edit_text ''done'' ''true'')) [event_a, event_b] event_b
     (edit_text ''done'' ''true'') event_a a \<and> ca_status a \<noteq> ''conflict''
     \<and> (\<exists>q. compatible ab_lib [event_a, event_b] event_a q event_b (edit_text ''done'' ''true''))"
proof -
  let ?pa = "edit_text ''title'' ''1''" and ?pb = "edit_text ''done'' ''true''"
  have p: "?pa \<noteq> ''b''" "?pb \<noteq> ''b''" by code_simp+
  have "(case detect_conflict ab_lib event_a ?pa event_b ?pb (Some [event_a, event_b]) of
      Inr a \<Rightarrow> ca_conflict_class a = ''concurrent_nonexclusive'' | Inl _ \<Rightarrow> False)" by code_simp
  then have r: "reconcile_b ?pa ?pb = (ab_disk ?pa ?pb, Inr (decision ''adopted'' ''b'' []))"
    by (auto simp: reconcile_b_run[OF p] split: sum.splits)
  have "rd_status (decision ''adopted'' ''b'' []) = ''adopted''" by (simp add: decision_def)
  from adopted_without_conflict[OF r[unfolded reconcile_b_def] this] ab_reads[OF p]
  have "\<forall>other\<in>set [event_a, event_b]. fe_event_id other \<noteq> fe_event_id event_b \<longrightarrow>
      (\<exists>a. pair_analysis ab_lib (ab_disk ?pa ?pb) [event_a, event_b] event_b ?pb other a \<and> ca_status a \<noteq> ''conflict''
        \<and> (\<exists>q. compatible ab_lib [event_a, event_b] other q event_b ?pb))"
    by fastforce
  moreover have "fe_event_id event_a \<noteq> fe_event_id event_b" by (simp add: event_a_def event_b_def sample_event_def)
  ultimately show ?thesis by simp
qed

theorem conflict_recorded_witness:
  "\<exists>D r cid record. reconcile_b (edit_text ''done'' ''2'') (edit_text ''done'' ''1'') = (D, Inr r)
     \<and> rd_conflict_id r = Some cid \<and> has_record ab_lib (conflict_path ab_lib cid) record D"
proof -
  let ?pa = "edit_text ''done'' ''2''" and ?pb = "edit_text ''done'' ''1''"
  let ?D = "ab_disk ?pa ?pb" and ?a = "analysis ''conflict'' ''field_value_conflict'' event_a event_b"
  have p: "?pa \<noteq> ''b''" "?pb \<noteq> ''b''" by code_simp+
  have d: "detect_conflict ab_lib event_a ?pa event_b ?pb (Some [event_a, event_b]) = Inr ?a" by code_simp
  have "(case conflict_record ab_lib ?a event_a event_b of Inl _ \<Rightarrow> False
      | Inr (cid, rec) \<Rightarrow> \<not> isl (canonical_bytes ab_lib (JObj rec)) \<and> cid \<noteq> ''b'')" by code_simp
  then obtain cid rec b where rec: "conflict_record ab_lib ?a event_a event_b = Inr (cid, rec)"
    and b: "canonical_bytes ab_lib (JObj rec) = Inr b" and cid: "cid \<noteq> ''b''"
    by (auto simp: isl_def split: sum.splits) (metis sum.exhaust)
  have keys: "map fst (d_files ?D) = map fst (event_files event_a []) @ map fst (event_files event_b [])"
    by (simp add: ab_disk_def event_files_def)
  have path: "conflict_path ab_lib cid = [''conflicts'', replicate 64 CHR ''0'' @ ''.json'']"
    using cid by (simp add: conflict_path_def event_key_def ab_lib_def)
  have free: "\<not> path_exists (d_files ?D) (conflict_path ab_lib cid)" "\<not> under_file (d_files ?D) (conflict_path ab_lib cid)"
    unfolding path path_exists_keys under_file_keys keys by code_simp+
  have "publish_bytes (conflict_path ab_lib cid) b ?D = (?D\<lparr>d_files := d_files ?D @ [(conflict_path ab_lib cid, b)]\<rparr>, Inr ())"
    by (rule free_publication[OF _ free(2,1)]) (simp add: ab_disk_def)
  then have "\<exists>D'. record_conflict ab_lib cid rec ?D = (D', Inr (conflict_path ab_lib cid))"
    using free b by (simp add: record_conflict_def record_once_def publish_json_def thenS_def bindS_def existsS_def getS_def
        liftS_def retS_def)
  then obtain D' where D': "record_conflict ab_lib cid rec ?D = (D', Inr (conflict_path ab_lib cid))" by blast
  have "ca_conflict_class ?a \<noteq> ''concurrent_nonexclusive''" by (simp add: analysis_def)
  then obtain r where r: "reconcile_b ?pa ?pb = (D', Inr r)" "rd_status r = ''conflict''"
    by (simp add: reconcile_b_run[OF p] d rec D' thenS_def bindS_def liftS_def retS_def)
  from conflict_recorded[OF r(1)[unfolded reconcile_b_def] r(2) lib_okD(1)[OF ab_lib_ok]] r(1) show ?thesis by blast
qed

theorem bool_int_conflict_missed_witness:
  "detect_conflict ab_lib event_a (edit_text ''done'' ''true'') event_b (edit_text ''done'' ''1'') None
     = Inr (analysis ''parallel_branch'' ''concurrent_nonexclusive'' event_a event_b)"
proof (rule bool_int_conflict_missed[where f = "''done''" and b = True])
  show "payload_object (edit_text ''done'' ''true'') = Inr [(''field'', JStr ''done''), (''value'', JBool True)]"
    "payload_object (edit_text ''done'' ''1'') = Inr [(''field'', JStr ''done''), (''value'', JInt (if True then 1 else 0))]"
    by code_simp+
qed (simp_all add: event_a_def event_b_def sample_event_def ordered_pair_def)

text \<open>A resolution of a conflict of \<open>a\<close> and \<open>b\<close>.\<close>

definition resolution_event :: FederatedEvent where
  "resolution_event = (sample_event ''r'' 3 [''a'', ''b''])\<lparr>fe_event_kind := ''pmw.conflict.resolution'', fe_subject_ref := ''c''\<rparr>"

definition quoted :: "string \<Rightarrow> string" where
  "quoted s = [CHR 0x22] @ s @ [CHR 0x22]"

definition conflict_disk :: disk where
  "conflict_disk = \<lparr>d_files = [(conflict_path ab_lib ''c'', ''{'' @ quoted ''conflict_id'' @ '':'' @ quoted ''c'' @ '',''
     @ quoted ''member_event_ids'' @ '':['' @ quoted ''a'' @ '','' @ quoted ''b'' @ '']}'')], d_others = []\<rparr>"

definition resolution_payload :: string where
  "resolution_payload = ''{'' @ quoted ''conflict_id'' @ '':'' @ quoted ''c'' @ '','' @ quoted ''member_event_ids'' @ '':[''
     @ quoted ''b'' @ '','' @ quoted ''a'' @ ''],'' @ quoted ''selected_event_id'' @ '':'' @ quoted ''a'' @ ''}''"

definition resolution_config :: FederationConfig where
  "resolution_config = sample_config\<lparr>cfg_authority_required_event_kinds := [''pmw.conflict.resolution'']\<rparr>"

definition resolution_run :: "disk \<times> ResolutionResult res" where
  "resolution_run = resolve_conflict ab_lib resolution_config ''c'' resolution_event resolution_payload
     (Some sample_verifier) conflict_disk"

lemma conflict_read:
  assumes "grows conflict_disk D"
  shows "get_conflict ab_lib ''c'' D = (D, Inr [(''conflict_id'', JStr ''c''), (''member_event_ids'', JList [JStr ''a'', JStr ''b''])])"
proof -
  let ?p = "conflict_path ab_lib ''c''" and ?d = "[(''conflict_id'', JStr ''c''), (''member_event_ids'', JList [JStr ''a'', JStr ''b''])]"
  have d: "read_object_file ab_lib (d_files conflict_disk) ?p = Inr ?d" by code_simp
  have r: "read_object_file ab_lib (d_files D) ?p = Inr ?d" by (rule read_object_file_grows[OF assms d])
  then have "is_file (d_files D) ?p"
    by (auto simp: read_object_file_def is_file_def split: option.splits)
  moreover have "utf8_valid ''c''" by code_simp
  ultimately show ?thesis
    using r by (simp add: get_conflict_def is_fileS_def bindS_def getS_def read_object_def retS_def dget_null_def)
qed

lemma resolution_submitted:
  obtains D r where "submit ab_lib resolution_config resolution_event resolution_payload (''resolution:'' @ fe_event_id resolution_event)
      conflict_disk = (D, Inr r)"
    and "\<not> path_exists (d_files D) (resolution_path ab_lib ''c'' ''r'')"
    and "\<not> under_file (d_files D) (resolution_path ab_lib ''c'' ''r'')" and "d_others D = []"
proof -
  let ?s = "submit ab_lib resolution_config resolution_event resolution_payload (''resolution:'' @ fe_event_id resolution_event) conflict_disk"
  let ?p = "resolution_path ab_lib ''c'' ''r''"
  have "(case ?s of (D, Inr r) \<Rightarrow> \<not> path_exists (d_files D) ?p \<and> \<not> under_file (d_files D) ?p \<and> d_others D = []
      | (D, Inl _) \<Rightarrow> False)" by code_simp
  then show ?thesis by (cases ?s) (auto split: sum.splits intro: that)
qed

theorem resolve_conflict_authorised_witness:
  "\<exists>D r. resolution_run = (D, Inr r)
     \<and> map_of (d_files D) (payload_path resolution_event) = Some resolution_payload"
proof -
  let ?v = "\<lparr>av_status = ''verified'', av_authority_ref = Some ''authority:fixture'', av_action = ''resolve_conflict'',
      av_subject_ref = ''c'', av_evidence_ref = Some ''evidence:fixture''\<rparr>"
  let ?val = "[(''conflict_id'', JStr ''c''), (''member_event_ids'', JList [JStr ''b'', JStr ''a'']), (''selected_event_id'', JStr ''a'')]"
  have v: "verify_event_authority resolution_event resolution_config (Some sample_verifier) ''resolve_conflict'' (Some ''c'') = Inr ?v"
    and val: "payload_object resolution_payload = Inr ?val"
    and sel: "resolution_selection ''c'' resolution_event [''a'', ''b''] ?val = Inr (JStr ''a'')"
    and rec: "\<not> isl (canonical_bytes ab_lib (JObj (resolution_record ab_lib ''c'' resolution_event ?v [''a'', ''b''] (JStr ''a''))))"
    by code_simp+
  from rec obtain b where b: "canonical_bytes ab_lib (JObj (resolution_record ab_lib ''c'' resolution_event ?v [''a'', ''b''] (JStr ''a''))) = Inr b"
    by (metis sum.collapse(2))
  obtain D r where s: "submit ab_lib resolution_config resolution_event resolution_payload (''resolution:'' @ fe_event_id resolution_event)
      conflict_disk = (D, Inr r)"
    and free: "\<not> path_exists (d_files D) (resolution_path ab_lib ''c'' ''r'')"
      "\<not> under_file (d_files D) (resolution_path ab_lib ''c'' ''r'')" "d_others D = []"
    by (rule resolution_submitted)
  have g: "grows conflict_disk D" by (rule immutable_grows[OF immutable_submit s])
  note w = free_publication[OF free(3,2,1)]
  have e: "fe_event_id resolution_event = ''r''" "fe_event_kind resolution_event = ''pmw.conflict.resolution''"
    "fe_subject_ref resolution_event = ''c''"
    by (simp_all add: resolution_event_def sample_event_def)
  have s': "submit ab_lib resolution_config resolution_event resolution_payload ''resolution:r'' conflict_disk = (D, Inr r)"
    using s by (simp add: e)
  have "\<exists>D' r'. resolution_run = (D', Inr r')"
    unfolding resolution_run_def resolve_conflict_def record_resolution_def record_once_def publish_json_def
    by (simp add: thenS_def bindS_def liftS_def retS_def existsS_def getS_def conflict_read[OF grows_refl] conflict_read[OF g]
        v val sel s' e b free w check_def dkeys_def dget_def strs_field_def dget_null_def json_tests insert_commute)
  then obtain D' r' where r: "resolution_run = (D', Inr r')" by blast
  from resolve_conflict_authorised[OF r[unfolded resolution_run_def] lib_okD(1)[OF ab_lib_ok]] r show ?thesis by blast
qed

end
