(* ===== verification/Fed_Projection_Runs.thy ===== *)
theory Fed_Projection_Runs
  imports Fed_Projection Fed_Reconcile_Runs
begin

text \<open>
  The projection of a store with two edits of one subject, to two fields: the concrete case of the
  theorems of \<open>Fed_Projection\<close>.
\<close>

definition edits_disk :: disk where
  "edits_disk = ab_disk (edit_text ''title'' ''1'') (edit_text ''done'' ''true'')"

definition edits_fields :: "(string \<times> (string \<times> json)) list" where
  "edits_fields = [(''done'', (''b'', JBool True)), (''title'', (''a'', JInt 1))]"

lemma edits_reads:
  "events_file ab_lib (d_files edits_disk) = Inr [event_a, event_b]"
  "payload_value ab_lib (d_files edits_disk) event_a = Inr (Some [(''field'', JStr ''title''), (''value'', JInt 1)])"
  "payload_value ab_lib (d_files edits_disk) event_b = Inr (Some [(''field'', JStr ''done''), (''value'', JBool True)])"
proof -
  let ?pa = "edit_text ''title'' ''1''" and ?pb = "edit_text ''done'' ''true''"
  have p: "?pa \<noteq> ''b''" "?pb \<noteq> ''b''" by code_simp+
  note r = ab_reads[OF p, folded edits_disk_def]
  show "events_file ab_lib (d_files edits_disk) = Inr [event_a, event_b]" using r(4) by (simp add: events_def)
  have "loads_strict ?pa = Inr (JObj [(''field'', JStr ''title''), (''value'', JInt 1)])"
    "loads_strict ?pb = Inr (JObj [(''field'', JStr ''done''), (''value'', JBool True)])" by code_simp+
  then show "payload_value ab_lib (d_files edits_disk) event_a = Inr (Some [(''field'', JStr ''title''), (''value'', JInt 1)])"
    "payload_value ab_lib (d_files edits_disk) event_b = Inr (Some [(''field'', JStr ''done''), (''value'', JBool True)])"
    using r(2,3) by (simp_all add: payload_value_def event_payload_def)
qed

lemma edits_dirs: "glob_json2 (d_files edits_disk) [''resolutions''] = []" "glob_json (d_files edits_disk) [''conflicts''] = []"
proof -
  have keys: "map fst (d_files edits_disk) = map fst (event_files event_a []) @ map fst (event_files event_b [])"
    by (simp add: edits_disk_def ab_disk_def event_files_def)
  have e: "entries (d_files edits_disk) [''resolutions''] = []" "entries (d_files edits_disk) [''conflicts''] = []"
    unfolding entries_def keys by code_simp+
  show "glob_json2 (d_files edits_disk) [''resolutions''] = []" "glob_json (d_files edits_disk) [''conflicts''] = []"
    by (simp_all add: glob_json_def glob_json2_def e)
qed

definition edits_proposals :: "proposal list" where
  "edits_proposals = [((''pmw-task:fixture'', ''title''), (event_a, JInt 1)), ((''pmw-task:fixture'', ''done''), (event_b, JBool True))]"

lemma edits_proposed: "proposals ab_lib (d_files edits_disk) [event_a, event_b] = Inr edits_proposals"
proof -
  have d: "describes event_a" "describes event_b" "\<not> retracted [event_a, event_b] event_a" "\<not> retracted [event_a, event_b] event_b"
    by code_simp+
  have s: "fe_subject_ref event_a = ''pmw-task:fixture''" "fe_subject_ref event_b = ''pmw-task:fixture''" by code_simp+
  show ?thesis
    unfolding proposals_def by (simp add: proposal_of_def d edits_reads s dkeys_def dget_null_def nonempty_str_def the_str_def
      edits_proposals_def)
qed

lemma edits_projection:
  obtains p view where "projection_of ab_lib (d_files edits_disk) = Inr p" and "pj_events p = [event_a, event_b]"
    and "pj_resolutions p = []" and "(''pmw-task:fixture'', view) \<in> set (pj_subjects p)" and "sv_fields view = edits_fields"
proof -
  let ?view = "subject_of (by_id [event_a, event_b]) [] [] edits_proposals [] ''pmw-task:fixture''"
  have s: "sorted_set (map fe_subject_ref (filter describes [event_a, event_b])) = [''pmw-task:fixture'']" by code_simp
  have f: "sv_fields ?view = edits_fields" by code_simp
  show thesis
    by (rule that[of "\<lparr>pj_events = [event_a, event_b],
        pj_heads = sort (map fe_event_id (filter (\<lambda>e. fe_event_id e \<notin> set (concat (map fe_causal_parents [event_a, event_b]))) [event_a, event_b])),
        pj_subjects = [(''pmw-task:fixture'', ?view)], pj_conflicts = [], pj_resolutions = []\<rparr>" ?view])
      (simp_all only: projection_of_def edits_reads edits_dirs edits_proposed mapR.simps selected_events_def
        resolved_conflict_ids_def bindR_simps Let_def s f list.map concat.simps prod.case projection.select_convs list.set insertI1)
qed

theorem projection_fields_witness:
  "\<exists>p view. projection_of ab_lib (d_files edits_disk) = Inr p \<and> (''pmw-task:fixture'', view) \<in> set (pj_subjects p)
    \<and> sv_fields view = edits_fields
    \<and> (\<exists>e. fe_event_id e = ''a'' \<and> proposes ab_lib (d_files edits_disk) (pj_events p) (''pmw-task:fixture'', ''title'') e (JInt 1))"
proof -
  obtain p view where p: "projection_of ab_lib (d_files edits_disk) = Inr p" "(''pmw-task:fixture'', view) \<in> set (pj_subjects p)"
    and f: "sv_fields view = edits_fields" by (rule edits_projection)
  have "(''title'', (''a'', JInt 1)) \<in> set (sv_fields view)" unfolding f by (simp add: edits_fields_def)
  with projection_fields[OF p(1)] p(2) f p(1) show ?thesis by blast
qed

theorem rebuild_deterministic_witness:
  "snd (rebuild_json ab_lib edits_disk) = snd (rebuild_json ab_lib (edits_disk\<lparr>d_files := rev (d_files edits_disk)\<rparr>))"
proof -
  have "map_of (rev (d_files edits_disk)) = map_of (d_files edits_disk)"
    using ab_paths(1) by (subst map_of_inject_set) (simp_all add: edits_disk_def rev_map[symmetric])
  then show ?thesis
    using rebuild_deterministic[of edits_disk "edits_disk\<lparr>d_files := rev (d_files edits_disk)\<rparr>"] by simp
qed

end
