(* ===== verification/Fed_Import.thy ===== *)
theory Fed_Import
  imports Fed_Store
begin

text \<open>
  \<open>src/eml_pmw/federation/importer.py\<close>: the import of an event that another realm sent, as canonical
  bytes with its payload, under the declaration of an observer. The import validates the causal
  graph with the new event before anything is stored.
\<close>

record ImportResult =
  ir_status :: string
  ir_event_id :: string
  ir_missing_parent_ids :: "string list"
  ir_observation_path :: path

definition OBSERVER_FIELDS :: "string list" where
  "OBSERVER_FIELDS = [''observer_id'', ''realm_id'', ''method'', ''observed_origin'', ''observed_time_ref'',
     ''advertised_missing_parent_ids'']"

definition distinct_strings :: "json \<Rightarrow> bool" where
  "distinct_strings v = (case v of
      JList vs \<Rightarrow> list_all nonempty_str vs \<and> distinct (map the_str vs) | _ \<Rightarrow> False)"

definition observer_checks :: "dict \<Rightarrow> unit res" where
  "observer_checks d =
     bindR (check (\<forall>k\<in>set (dkeys d). k \<in> set OBSERVER_FIELDS) ''observer_unknown_field'') (\<lambda>_.
     bindR (check (\<forall>k\<in>set OBSERVER_FIELDS. k \<in> set (dkeys d)) ''observer_missing_field'') (\<lambda>_.
     bindR (check (list_all (\<lambda>f. nonempty_str (dget_null d f)) [''observer_id'', ''realm_id'', ''method''])
              ''observer_field_invalid'') (\<lambda>_.
     bindR (check (the_str (dget_null d ''method'') \<in> {''local_file_read'', ''provider_adapter'', ''fixture''})
              ''observer_method_invalid'') (\<lambda>_.
     bindR (check (dget_null d ''observed_origin'' = JNull \<or> nonempty_str (dget_null d ''observed_origin''))
              ''observed_origin_invalid'') (\<lambda>_.
     bindR (check (dget_null d ''observed_time_ref'' = JNull \<or>
              (is_str (dget_null d ''observed_time_ref'') \<and> is_ctcl (the_str (dget_null d ''observed_time_ref''))))
              ''observed_time_ref_invalid'') (\<lambda>_.
     check (distinct_strings (dget_null d ''advertised_missing_parent_ids'')) ''advertised_parent_ids_invalid''))))))"

definition validate_observer :: "json \<Rightarrow> dict res" where
  "validate_observer v = (case v of
      JObj d \<Rightarrow> bindR (observer_checks d) (\<lambda>_. Inr d)
    | _ \<Rightarrow> Inl (Coded ''observer_type_invalid''))"

text \<open>The event of the bytes: canonical, an object, accepted by \<open>from_dict\<close>.\<close>

definition parse_event :: "lib \<Rightarrow> string \<Rightarrow> FederatedEvent res" where
  "parse_event L data = (case loads_strict data of
      Inr (JObj d) \<Rightarrow> bindR (canonical_bytes L (JObj d)) (\<lambda>b.
        if data \<noteq> b then Inl (Coded ''event_not_canonical'') else event_from_dict d)
    | _ \<Rightarrow> Inl (Coded ''event_input_invalid''))"

definition import_status :: "string list \<Rightarrow> SubmissionResult \<Rightarrow> string" where
  "import_status missing s = (if missing \<noteq> [] then ''pending_dependencies''
     else if sr_kind s = ''duplicate'' then ''duplicate'' else ''imported'')"

definition observation_record :: "lib \<Rightarrow> FederatedEvent \<Rightarrow> dict \<Rightarrow> string \<Rightarrow> string list \<Rightarrow> dict" where
  "observation_record L event receiver status missing =
     [(''schema'', JStr ''pmw-federation-import-observation/v1''),
      (''event_id'', JStr (fe_event_id event)),
      (''event_digest'', JStr (core_digest L event)),
      (''observer_id'', dget_null receiver ''observer_id''),
      (''observer_realm_id'', dget_null receiver ''realm_id''),
      (''method'', dget_null receiver ''method''),
      (''observed_origin'', dget_null receiver ''observed_origin''),
      (''observed_time_ref'', dget_null receiver ''observed_time_ref''),
      (''status'', JStr status),
      (''missing_parent_ids'', str_list_json missing),
      (''not_claimed'', str_list_json [''sender_authorship_verified'', ''resident_identity_continuity'',
         ''remote_adoption'', ''authority_to_execute''])]"

definition import_stored ::
    "lib \<Rightarrow> FederationConfig \<Rightarrow> FederatedEvent \<Rightarrow> string \<Rightarrow> dict \<Rightarrow> string list \<Rightarrow> (disk, ImportResult) op" where
  "import_stored L cfg event payload receiver missing =
     (let observer = the_str (dget_null receiver ''observer_id'')
      in bindS (submit L cfg event payload (''import:'' @ observer @ '':'' @ fe_event_id event)) (\<lambda>s.
         bindS (record_observation L (fe_event_id event) observer
                  (observation_record L event receiver (import_status missing s) missing)) (\<lambda>p.
         retS \<lparr>ir_status = import_status missing s, ir_event_id = fe_event_id event,
               ir_missing_parent_ids = missing, ir_observation_path = p\<rparr>)))"

definition import_event ::
    "lib \<Rightarrow> FederationConfig \<Rightarrow> string \<Rightarrow> string \<Rightarrow> json \<Rightarrow> (disk, ImportResult) op" where
  "import_event L cfg event_bytes payload observer =
     bindS (liftS (validate_observer observer)) (\<lambda>receiver.
     bindS (liftS (parse_event L event_bytes)) (\<lambda>event.
     thenS (liftS (check (upper_sha256 L payload = fe_payload_sha256 event) ''payload_integrity_failed''))
     (bindS (events L) (\<lambda>es.
      let v = validate_graph L (es @ [event])
      in case cv_code v of
          Some code \<Rightarrow>
            if code \<in> {''causal_cycle'', ''replica_sequence_collision'', ''event_content_collision''}
            then thenS (quarantine_event L code event) (raiseS (Coded code))
            else if \<not> set (cv_missing_parent_ids v) \<subseteq> the_str ` set
                (case dget_null receiver ''advertised_missing_parent_ids'' of JList vs \<Rightarrow> vs | _ \<Rightarrow> [])
            then raiseS (Coded ''missing_parent_not_advertised'')
            else import_stored L cfg event payload receiver (cv_missing_parent_ids v)
        | None \<Rightarrow> import_stored L cfg event payload receiver (cv_missing_parent_ids v)))))"

section \<open>Correctness\<close>

lemma validate_graph_codes:
  shows "cv_code (validate_graph L es) = None \<longleftrightarrow> cv_valid (validate_graph L es)"
    and "cv_valid (validate_graph L es) \<Longrightarrow> cv_missing_parent_ids (validate_graph L es) = []"
proof -
  show "cv_code (validate_graph L es) = None \<longleftrightarrow> cv_valid (validate_graph L es)"
    by (cases "event_map L es") (simp_all add: validate_graph_def invalid_def)
  show "cv_valid (validate_graph L es) \<Longrightarrow> cv_missing_parent_ids (validate_graph L es) = []"
    by (cases "event_map L es") (simp_all add: validate_graph_def invalid_def split: if_splits)
qed

lemma event_map_error: "event_map_from L m es = Inl x \<Longrightarrow> x = Coded ''event_content_collision''"
  by (induction es arbitrary: m) (auto split: option.splits if_splits)

lemma validate_graph_pending:
  assumes "cv_code (validate_graph L es) = Some code"
    and "code \<notin> {''causal_cycle'', ''replica_sequence_collision'', ''event_content_collision''}"
  shows "code = ''pending_dependencies'' \<and> cv_missing_parent_ids (validate_graph L es) \<noteq> []"
  using assms by (auto simp: validate_graph_def invalid_def event_map_def split: sum.splits if_splits
      dest: event_map_error)

lemma get_event_state: "get_event L x D = (D', r) \<Longrightarrow> D' = D"
  by (simp add: get_event_def)

lemma immutable_record_observation: "immutable (record_observation L x y rec)"
  unfolding record_observation_def by (intro immutable_intros)

lemma record_observation_Inr:
  assumes "record_observation L eid obs rec D = (D', Inr p)" and "nfc_ok L"
  shows "has_record L (observation_path L eid obs) rec D'"
  using assms(1) unfolding record_observation_def
  by (elim bindS_InrE thenS_InrE) (auto intro: record_once_Inr[OF _ assms(2)])

lemma import_stored_Inr:
  assumes "import_stored L cfg e payload receiver missing D = (D', Inr r)" and "nfc_ok L"
  obtains s D1 where
    "submit L cfg e payload (''import:'' @ the_str (dget_null receiver ''observer_id'') @ '':'' @ fe_event_id e) D = (D1, Inr s)"
    "grows D1 D'" "ir_status r = import_status missing s" "ir_event_id r = fe_event_id e" "ir_missing_parent_ids r = missing"
    "has_record L (observation_path L (fe_event_id e) (the_str (dget_null receiver ''observer_id'')))
       (observation_record L e receiver (import_status missing s) missing) D'"
proof -
  let ?o = "the_str (dget_null receiver ''observer_id'')"
  from assms(1) obtain s D1 where s: "submit L cfg e payload (''import:'' @ ?o @ '':'' @ fe_event_id e) D = (D1, Inr s)"
    and k: "bindS (record_observation L (fe_event_id e) ?o (observation_record L e receiver (import_status missing s) missing))
       (\<lambda>p. retS \<lparr>ir_status = import_status missing s, ir_event_id = fe_event_id e,
               ir_missing_parent_ids = missing, ir_observation_path = p\<rparr>) D1 = (D', Inr r)"
    unfolding import_stored_def Let_def by (rule bindS_InrE)
  from k obtain p where p: "record_observation L (fe_event_id e) ?o
      (observation_record L e receiver (import_status missing s) missing) D1 = (D', Inr p)"
    and r: "r = \<lparr>ir_status = import_status missing s, ir_event_id = fe_event_id e,
               ir_missing_parent_ids = missing, ir_observation_path = p\<rparr>"
    by (auto elim!: bindS_InrE)
  show ?thesis
    using s immutable_grows[OF immutable_record_observation p] record_observation_Inr[OF p assms(2)]
    by (intro that) (simp_all add: r)
qed

lemma import_event_Inr:
  assumes "import_event L cfg b payload obs D = (D', Inr r)"
  obtains receiver e es where "validate_observer obs = Inr receiver" "parse_event L b = Inr e"
    "upper_sha256 L payload = fe_payload_sha256 e" "events L D = (D, Inr es)"
    "cv_valid (validate_graph L (es @ [e])) \<or> (cv_code (validate_graph L (es @ [e])) = Some ''pending_dependencies''
       \<and> cv_missing_parent_ids (validate_graph L (es @ [e])) \<noteq> [])"
    "import_stored L cfg e payload receiver (cv_missing_parent_ids (validate_graph L (es @ [e]))) D = (D', Inr r)"
proof -
  from assms obtain receiver e es D1 where a: "validate_observer obs = Inr receiver" "parse_event L b = Inr e"
    "upper_sha256 L payload = fe_payload_sha256 e" and es: "events L D = (D1, Inr es)"
    and k: "(let v = validate_graph L (es @ [e])
      in case cv_code v of
          Some code \<Rightarrow>
            if code \<in> {''causal_cycle'', ''replica_sequence_collision'', ''event_content_collision''}
            then thenS (quarantine_event L code e) (raiseS (Coded code))
            else if \<not> set (cv_missing_parent_ids v) \<subseteq> the_str ` set
                (case dget_null receiver ''advertised_missing_parent_ids'' of JList vs \<Rightarrow> vs | _ \<Rightarrow> [])
            then raiseS (Coded ''missing_parent_not_advertised'')
            else import_stored L cfg e payload receiver (cv_missing_parent_ids v)
        | None \<Rightarrow> import_stored L cfg e payload receiver (cv_missing_parent_ids v)) D1 = (D', Inr r)"
    unfolding import_event_def
    by (elim bindS_InrE thenS_InrE) (rule that; simp only: basic_Inr check_Inr; blast)
  have D1: "D1 = D" using es by (simp add: events_def)
  show ?thesis
  proof (cases "cv_code (validate_graph L (es @ [e]))")
    case None
    then show ?thesis
      using k validate_graph_codes(1)[of L "es @ [e]"] a es by (intro that) (simp_all add: D1 Let_def)
  next
    case (Some code)
    have c: "code \<notin> {''causal_cycle'', ''replica_sequence_collision'', ''event_content_collision''}"
      using k Some by (auto simp: Let_def elim!: thenS_InrE)
    with k Some have "import_stored L cfg e payload receiver (cv_missing_parent_ids (validate_graph L (es @ [e]))) D1 = (D', Inr r)"
      by (auto simp: Let_def split: if_splits)
    then show ?thesis
      using validate_graph_pending[OF Some c] Some a es by (intro that) (simp_all add: D1)
  qed
qed

text \<open>The canonical text of an event in normal form is accepted as that event.\<close>

lemma parse_event_canonical:
  assumes "event_ok e" and "fixed (nfc L) (JObj (event_to_dict e))" and "nfc_ok L"
    and "canonical_bytes L (JObj (event_to_dict e)) = Inr b"
  shows "parse_event L b = Inr e"
proof -
  obtain w where w: "normalize (nfc L) (JObj (event_to_dict e)) = Inr w" using assms(4) by (rule canonical_bytes_Inr)
  then have n: "normalize (nfc L) (JObj (event_to_dict e)) = Inr (JObj (event_to_dict e))"
    using normalize_keeps(1)[OF w assms(2)] by simp
  show ?thesis
    using canonical_read_back[OF assms(4,3) n] event_parse_stored[OF assms(1)]
    by (simp add: parse_event_def)
qed

lemma submit_kind: "submit L cfg e payload did D = (D', Inr r) \<Longrightarrow> sr_kind r \<in> {''created'', ''duplicate''}"
  using submit_Inr[of L cfg e payload did D D' r] submit_again_kind[of L e payload did D D' r]
  by (auto split: if_splits elim!: submit_new_Inr)

text \<open>The status an observation on disk shows.\<close>

lemma observation_status:
  assumes "has_record L p (observation_record L e receiver st missing) D" and "lib_ok L"
    and "st \<in> {''imported'', ''duplicate'', ''pending_dependencies''}"
  shows "\<exists>d. read_object_file L (d_files D) p = Inr d \<and> dget_null d ''status'' = JStr st"
proof -
  obtain d where d: "read_object_file L (d_files D) p = Inr d" using assms(1) by (auto simp: has_record_def)
  have keys: "distinct (map fst (observation_record L e receiver st missing))"
    "list_all ascii (map fst (observation_record L e receiver st missing))"
    "map_of (observation_record L e receiver st missing) ''status'' = Some (JStr st)"
    by (simp_all add: observation_record_def byte_def)
  have "nfc L st = st" using lib_okD(2)[OF assms(2), of st] assms(3) by (auto simp: byte_def)
  with record_field[OF assms(1,2) d keys] d show ?thesis by auto
qed

lemma parse_event_Inr:
  assumes "parse_event L b = Inr e"
  shows "\<exists>d. loads_strict b = Inr (JObj d) \<and> canonical_bytes L (JObj d) = Inr b \<and> event_from_dict d = Inr e"
  using assms by (auto simp: parse_event_def bindR_Inr_iff split: sum.splits json.splits if_splits)

section \<open>Properties\<close>

text \<open>
  C5: an import is sound. When \<open>import_event\<close> returns, the bytes were the canonical text of a valid
  event with this payload; together with the stored events it closes no cycle, reuses no sequence
  number and contradicts no stored content; the answer lists exactly the missing parents, and is
  \<open>pending_dependencies\<close> when and only when there are any; the disk holds the payload and the
  observation.
\<close>

theorem import_event_sound:
  assumes "import_event L cfg b payload obs D = (D', Inr r)" and "nfc_ok L"
  shows "\<exists>e es. (\<exists>d. loads_strict b = Inr (JObj d) \<and> canonical_bytes L (JObj d) = Inr b \<and> event_from_dict d = Inr e)
    \<and> upper_sha256 L payload = fe_payload_sha256 e \<and> events L D = (D, Inr es)
    \<and> ir_event_id r = fe_event_id e
    \<and> ir_missing_parent_ids r = cv_missing_parent_ids (validate_graph L (es @ [e]))
    \<and> cv_code (validate_graph L (es @ [e])) \<in> {None, Some ''pending_dependencies''}
    \<and> (ir_status r = ''pending_dependencies'' \<longleftrightarrow> \<not> cv_valid (validate_graph L (es @ [e])))
    \<and> map_of (d_files D') (payload_path e) = Some payload
    \<and> (\<exists>observer record. has_record L (observation_path L (fe_event_id e) observer) record D')"
proof -
  from assms(1) obtain receiver e es where i: "parse_event L b = Inr e"
    "upper_sha256 L payload = fe_payload_sha256 e" "events L D = (D, Inr es)"
    and v: "cv_valid (validate_graph L (es @ [e])) \<or> (cv_code (validate_graph L (es @ [e])) = Some ''pending_dependencies''
       \<and> cv_missing_parent_ids (validate_graph L (es @ [e])) \<noteq> [])"
    and k: "import_stored L cfg e payload receiver (cv_missing_parent_ids (validate_graph L (es @ [e]))) D = (D', Inr r)"
    by (rule import_event_Inr)
  let ?v = "validate_graph L (es @ [e])"
  from k assms(2) obtain s D1 where
    s: "submit L cfg e payload (''import:'' @ the_str (dget_null receiver ''observer_id'') @ '':'' @ fe_event_id e) D = (D1, Inr s)"
    and g: "grows D1 D'" and r: "ir_status r = import_status (cv_missing_parent_ids ?v) s" "ir_event_id r = fe_event_id e"
      "ir_missing_parent_ids r = cv_missing_parent_ids ?v"
    and h: "has_record L (observation_path L (fe_event_id e) (the_str (dget_null receiver ''observer_id'')))
       (observation_record L e receiver (import_status (cv_missing_parent_ids ?v) s) (cv_missing_parent_ids ?v)) D'"
    by (rule import_stored_Inr)
  have c: "cv_code ?v \<in> {None, Some ''pending_dependencies''}" using v validate_graph_codes(1)[of L "es @ [e]"] by auto
  have st: "ir_status r = ''pending_dependencies'' \<longleftrightarrow> \<not> cv_valid ?v"
    using v validate_graph_codes[of L "es @ [e]"] by (auto simp: r(1) import_status_def)
  have hx: "\<exists>observer record. has_record L (observation_path L (fe_event_id e) observer) record D'"
    using h by blast
  show ?thesis
    by (rule exI[of _ e], rule exI[of _ es]) (intro conjI parse_event_Inr[OF i(1)] i(2,3) r(2,3) c st grows_get[OF g submit_stores_payload[OF s]] hx)
qed

text \<open>
  C40: an event is imported once by each observer. After an import answered \<open>imported\<close>, importing
  the same event again under the same observer id never returns, on any later disk: the second
  observation would carry the status \<open>duplicate\<close> and collides with the first.
\<close>

theorem reimport_raises:
  assumes "import_event L cfg b payload obs D = (D', Inr r)" and "ir_status r = ''imported''" and "lib_ok L"
    and "grows D' D''"
  shows "\<exists>D3 err. import_event L cfg b payload obs D'' = (D3, Inl err)"
proof (cases "import_event L cfg b payload obs D''")
  case (Pair D3 x)
  note nfc = lib_okD(1)[OF assms(3)]
  show ?thesis
  proof (cases x)
    case (Inr r2)
    from assms(1) obtain receiver e es where obs: "validate_observer obs = Inr receiver" and e: "parse_event L b = Inr e"
      and k: "import_stored L cfg e payload receiver (cv_missing_parent_ids (validate_graph L (es @ [e]))) D = (D', Inr r)"
      by (rule import_event_Inr)
    let ?o = "the_str (dget_null receiver ''observer_id'')" and ?m = "cv_missing_parent_ids (validate_graph L (es @ [e]))"
    let ?p = "observation_path L (fe_event_id e) ?o"
    from k nfc obtain s D1 where s: "submit L cfg e payload (''import:'' @ ?o @ '':'' @ fe_event_id e) D = (D1, Inr s)"
      and g: "grows D1 D'" and st: "ir_status r = import_status ?m s"
      and h: "has_record L ?p (observation_record L e receiver (import_status ?m s) ?m) D'"
      by (rule import_stored_Inr)
    have new: "import_status ?m s = ''imported''" using st assms(2) by simp
    then have "sr_kind s \<noteq> ''duplicate''" by (auto simp: import_status_def split: if_splits)
    moreover have "sr_kind s \<in> {''created'', ''duplicate''}" using submit_kind[OF s] by simp
    ultimately have "sr_kind s = ''created''" by simp
    then have held: "holds_event L e payload D''"
      using submit_created(1)[OF s _ nfc] holds_event_grows g assms(4) by blast
    from Pair Inr have "import_event L cfg b payload obs D'' = (D3, Inr r2)" by simp
    then obtain receiver' e' es' where "validate_observer obs = Inr receiver'" "parse_event L b = Inr e'"
      and k': "import_stored L cfg e' payload receiver' (cv_missing_parent_ids (validate_graph L (es' @ [e']))) D'' = (D3, Inr r2)"
      by (rule import_event_Inr)
    with obs e have same: "receiver' = receiver" "e' = e" by simp_all
    let ?m' = "cv_missing_parent_ids (validate_graph L (es' @ [e]))"
    from k'[unfolded same] nfc obtain s' D2 where
      s': "submit L cfg e payload (''import:'' @ ?o @ '':'' @ fe_event_id e) D'' = (D2, Inr s')"
      and g': "grows D2 D3"
      and h': "has_record L ?p (observation_record L e receiver (import_status ?m' s') ?m') D3"
      by (rule import_stored_Inr)
    have "sr_kind s' \<noteq> ''created''" using submit_created(2)[OF s' _ nfc] held by (auto simp: holds_event_def)
    then have dup: "import_status ?m' s' \<in> {''duplicate'', ''pending_dependencies''}"
      using submit_kind[OF s'] by (auto simp: import_status_def)
    have "grows D'' D3" using immutable_grows[OF immutable_submit s'] g' grows_trans by blast
    then have h3: "has_record L ?p (observation_record L e receiver (import_status ?m s) ?m) D3"
      using h assms(4) has_record_grows grows_trans by blast
    have "import_status ?m s \<in> {''imported'', ''duplicate'', ''pending_dependencies''}"
      "import_status ?m' s' \<in> {''imported'', ''duplicate'', ''pending_dependencies''}" using new dup by auto
    with observation_status[OF h3 assms(3)] observation_status[OF h' assms(3)]
    have "import_status ?m s = import_status ?m' s'" by auto
    then show ?thesis using new dup by auto
  qed (use Pair in simp)
qed

section \<open>An import\<close>

definition sample_observer :: dict where
  "sample_observer = [(''observer_id'', JStr ''o''), (''realm_id'', JStr ''realm:b''), (''method'', JStr ''fixture''),
     (''observed_origin'', JNull), (''observed_time_ref'', JNull), (''advertised_missing_parent_ids'', JList [])]"

definition sample_bytes :: string where
  "sample_bytes = projr (canonical_bytes plain_lib (JObj (event_to_dict (sample_event ''a'' 1 []))))"

lemma sample_bytes: "canonical_bytes plain_lib (JObj (event_to_dict (sample_event ''a'' 1 []))) = Inr sample_bytes"
proof -
  have "\<not> isl (canonical_bytes plain_lib (JObj (event_to_dict (sample_event ''a'' 1 []))))" by code_simp
  then show ?thesis unfolding sample_bytes_def by (metis sum.collapse(2))
qed

definition import_disk :: disk where
  "import_disk = fst (sample_submit ''import:o:a'' empty_disk)"

lemma import_submitted:
  obtains s where "sample_submit ''import:o:a'' empty_disk = (import_disk, Inr s)" and "sr_kind s = ''created''"
    and "\<not> path_exists (d_files import_disk) (observation_path plain_lib ''a'' ''o'')"
    and "\<not> under_file (d_files import_disk) (observation_path plain_lib ''a'' ''o'')"
    and "d_others import_disk = []"
proof -
  let ?p = "observation_path plain_lib ''a'' ''o''"
  have "(case sample_submit ''import:o:a'' empty_disk of (D, Inr s) \<Rightarrow> sr_kind s = ''created''
      \<and> \<not> path_exists (d_files D) ?p \<and> \<not> under_file (d_files D) ?p \<and> d_others D = [] | (D, Inl _) \<Rightarrow> False)"
    by code_simp
  then show ?thesis
    by (cases "sample_submit ''import:o:a'' empty_disk") (auto simp: import_disk_def split: sum.splits intro: that)
qed

lemma import_run:
  obtains D r where "import_event plain_lib sample_config sample_bytes [] (JObj sample_observer) empty_disk = (D, Inr r)"
    and "ir_status r = ''imported''"
proof -
  let ?e = "sample_event ''a'' 1 []" and ?p = "observation_path plain_lib ''a'' ''o''"
  let ?rec = "observation_record plain_lib ?e sample_observer ''imported'' []"
  obtain s where s: "sample_submit ''import:o:a'' empty_disk = (import_disk, Inr s)" "sr_kind s = ''created''"
    and free: "\<not> path_exists (d_files import_disk) ?p" "\<not> under_file (d_files import_disk) ?p" "d_others import_disk = []"
    by (rule import_submitted)
  note sub = s(1)[unfolded sample_submit_def]
  have ok: "event_ok ?e" by code_simp
  have u: "utf8_valid (fe_event_id ?e)" by code_simp
  have sha: "upper_sha256 plain_lib [] = fe_payload_sha256 ?e" by code_simp
  have obs: "validate_observer (JObj sample_observer) = Inr sample_observer" by code_simp
  have ev: "events plain_lib empty_disk = (empty_disk, Inr [])" by code_simp
  have g: "cv_code (validate_graph plain_lib [?e]) = None" "cv_missing_parent_ids (validate_graph plain_lib [?e]) = []"
    by code_simp+
  have "\<not> isl (canonical_bytes plain_lib (JObj ?rec))" by code_simp
  then obtain b where b: "canonical_bytes plain_lib (JObj ?rec) = Inr b" by (metis sum.collapse(2))
  have h: "holds_event plain_lib ?e [] import_disk" by (rule submit_created(1)[OF sub s(2) plain_lib_ok])
  have e: "fe_event_id ?e = ''a''" by (simp add: sample_event_def)
  have get: "get_event plain_lib ''a'' import_disk = (import_disk, Inr ?e)"
    using get_event_holds[OF h ok u plain_lib_lib_ok fixed_plain sha] by (simp add: get_event_def e)
  have o: "the_str (dget_null sample_observer ''observer_id'') = ''o''" by (simp add: sample_observer_def dget_null_def json_tests)
  have st: "import_status [] s = ''imported''" using s(2) by (simp add: import_status_def)
  have rec: "\<exists>D. record_observation plain_lib ''a'' ''o'' ?rec import_disk = (D, Inr ?p)"
    using free_publication[OF free(3,2,1)] free b get
    by (simp add: record_observation_def record_once_def publish_json_def thenS_def bindS_def existsS_def getS_def liftS_def retS_def)
  then obtain D where D: "record_observation plain_lib ''a'' ''o'' ?rec import_disk = (D, Inr ?p)" by blast
  have k: "import_stored plain_lib sample_config ?e [] sample_observer [] empty_disk =
      (D, Inr \<lparr>ir_status = ''imported'', ir_event_id = ''a'', ir_missing_parent_ids = [], ir_observation_path = ?p\<rparr>)"
    using sub D by (simp add: import_stored_def Let_def o e st bindS_def retS_def)
  show ?thesis
    using k by (intro that[of D "\<lparr>ir_status = ''imported'', ir_event_id = ''a'', ir_missing_parent_ids = [], ir_observation_path = ?p\<rparr>"])
      (simp_all add: import_event_def bindS_def thenS_def liftS_def obs ev g sha check_def Let_def
        parse_event_canonical[OF ok fixed_plain plain_lib_ok sample_bytes])
qed

theorem import_event_sound_witness:
  "\<exists>D r. import_event plain_lib sample_config sample_bytes [] (JObj sample_observer) empty_disk = (D, Inr r)
     \<and> map_of (d_files D) (payload_path (sample_event ''a'' 1 [])) = Some []"
proof -
  have e: "parse_event plain_lib sample_bytes = Inr (sample_event ''a'' 1 [])"
    by (rule parse_event_canonical[OF _ fixed_plain plain_lib_ok sample_bytes]) code_simp
  obtain D r where r: "import_event plain_lib sample_config sample_bytes [] (JObj sample_observer) empty_disk = (D, Inr r)"
    by (rule import_run)
  have "event = sample_event ''a'' 1 []"
    if "loads_strict sample_bytes = Inr (JObj d)" "canonical_bytes plain_lib (JObj d) = Inr sample_bytes"
      "event_from_dict d = Inr event" for d event
    using e that by (simp add: parse_event_def)
  with import_event_sound[OF r plain_lib_ok] r show ?thesis by blast
qed

theorem reimport_raises_witness:
  "\<exists>D r D3 err. import_event plain_lib sample_config sample_bytes [] (JObj sample_observer) empty_disk = (D, Inr r)
     \<and> import_event plain_lib sample_config sample_bytes [] (JObj sample_observer) D = (D3, Inl err)"
proof -
  obtain D r where r: "import_event plain_lib sample_config sample_bytes [] (JObj sample_observer) empty_disk = (D, Inr r)"
    "ir_status r = ''imported''" by (rule import_run)
  from reimport_raises[OF r plain_lib_lib_ok grows_refl] r(1) show ?thesis by blast
qed

end
