(* ===== verification/Fed_Visibility.thy ===== *)
theory Fed_Visibility
  imports Fed_Models
begin

text \<open>
  \<open>src/eml_pmw/federation/visibility.py\<close>: evidence on what an adapter made visible of a turn, checked in the
  order of the code, so that delivery and authorship are never claimed from weaker observations. The class keeps
  a field that the code has not checked yet as the JSON value it got. The field checks at the start are shared
  with the other evidence records of the federation (\<open>Fed_Adoption\<close>, \<open>Fed_Ral\<close>).
\<close>

section \<open>Field checks of evidence records\<close>

text \<open>\<open>value in {...}\<close> for a set of strings: an unhashable value raises.\<close>

definition in_strings :: "json \<Rightarrow> string list \<Rightarrow> bool res" where
  "in_strings v allowed = (if hashable v then Inr (v \<in> JStr ` set allowed) else Inl TypeError)"

definition enum_check :: "string list \<Rightarrow> string \<Rightarrow> json \<Rightarrow> unit res" where
  "enum_check allowed code v = bindR (in_strings v allowed) (\<lambda>b. check b code)"

text \<open>\<open>tuple(value)\<close>: the items of a list, the characters of a string, the keys of a dict.\<close>

definition tuple_of :: "json \<Rightarrow> json list res" where
  "tuple_of v = (case v of JList vs \<Rightarrow> Inr vs | JStr s \<Rightarrow> Inr (map JStr (chars s)) | JObj d \<Rightarrow> Inr (map (\<lambda>kv. JStr (fst kv)) d)
     | JOther t \<Rightarrow> Inl (Untyped t) | _ \<Rightarrow> Inl TypeError)"

definition nonempty :: "json \<Rightarrow> string res" where
  "nonempty v = (case v of JStr s \<Rightarrow> if s = [] then Inl (Coded ''field_type_invalid'') else Inr s
     | _ \<Rightarrow> Inl (Coded ''field_type_invalid''))"

definition nonnegative_int :: "json \<Rightarrow> int res" where
  "nonnegative_int v = (case v of JInt n \<Rightarrow> if n < 0 then Inl (Coded ''field_type_invalid'') else Inr n
     | _ \<Rightarrow> Inl (Coded ''field_type_invalid''))"

text \<open>A prefix and a number of lower-case hexadecimal digits, matched in full.\<close>

definition hex_after :: "string \<Rightarrow> nat \<Rightarrow> string \<Rightarrow> bool" where
  "hex_after p n s \<longleftrightarrow> startswith s p \<and> length s = length p + n \<and> list_all is_hex_lower (drop (length p) s)"

text \<open>\<open>re.fullmatch\<close> of a field: a value that is no string raises.\<close>

definition hex_match :: "string \<Rightarrow> nat \<Rightarrow> string \<Rightarrow> json \<Rightarrow> unit res" where
  "hex_match p n code v = (case v of JStr s \<Rightarrow> check (hex_after p n s) code | _ \<Rightarrow> Inl TypeError)"

lemma in_strings_Inr: "in_strings v allowed = Inr b \<longleftrightarrow> hashable v \<and> b = (v \<in> JStr ` set allowed)"
  by (auto simp: in_strings_def)

lemma enum_check_Inr [simp]: "enum_check allowed code v = Inr u \<longleftrightarrow> v \<in> JStr ` set allowed"
  by (auto simp: enum_check_def bindR_Inr_iff in_strings_Inr hashable_def)

lemma nonempty_Inr: "nonempty v = Inr s \<longleftrightarrow> v = JStr s \<and> s \<noteq> []"
  by (auto simp: nonempty_def split: json.splits)

lemma nonnegative_int_Inr: "nonnegative_int v = Inr n \<longleftrightarrow> v = JInt n \<and> 0 \<le> n"
  by (auto simp: nonnegative_int_def split: json.splits)

text \<open>
  The digest of a record binds its fields: two values with the same tagged digest have the same normal form,
  unless SHA-256 collides on their two texts.
\<close>

definition no_collision :: "string \<Rightarrow> string \<Rightarrow> lib \<Rightarrow> json \<Rightarrow> json \<Rightarrow> bool" where
  "no_collision domain version L v w \<longleftrightarrow> (case (canonical_bytes L v, canonical_bytes L w) of
      (Inr b, Inr c) \<Rightarrow> sha256_hex L (domain @ [CHR 0x00] @ version @ [CHR 0x00] @ b)
          = sha256_hex L (domain @ [CHR 0x00] @ version @ [CHR 0x00] @ c) \<longrightarrow> b = c
    | _ \<Rightarrow> True)"

definition normal_form :: "lib \<Rightarrow> json \<Rightarrow> json res" where
  "normal_form L v = bindR (normalize (nfc L) v) (\<lambda>w. Inr (sort_keys w))"

lemma digest_binding:
  assumes v: "tagged_digest domain version L v = Inr g" and w: "tagged_digest domain version L w = Inr g"
    and "no_collision domain version L v w" and "nfc_ok L"
  shows "\<exists>u. normal_form L v = Inr u \<and> normal_form L w = Inr u"
proof -
  from v obtain b where b: "canonical_bytes L v = Inr b"
    "g = ''sha256:'' @ version @ '':'' @ sha256_hex L (domain @ [CHR 0x00] @ version @ [CHR 0x00] @ b)"
    by (auto simp: tagged_digest_def bindR_Inr_iff)
  from w obtain c where c: "canonical_bytes L w = Inr c"
    "g = ''sha256:'' @ version @ '':'' @ sha256_hex L (domain @ [CHR 0x00] @ version @ [CHR 0x00] @ c)"
    by (auto simp: tagged_digest_def bindR_Inr_iff)
  have "b = c" using assms(3) b c by (simp add: no_collision_def)
  from b(1) obtain x where x: "normalize (nfc L) v = Inr x" by (rule canonical_bytes_Inr)
  from c(1) obtain y where y: "normalize (nfc L) w = Inr y" by (rule canonical_bytes_Inr)
  from canonical_read_back(1)[OF b(1) assms(4) x] canonical_read_back(1)[OF c(1) assms(4) y] \<open>b = c\<close>
  have "sort_keys x = sort_keys y" by simp
  with x y show ?thesis by (simp add: normal_form_def)
qed

lemma hex_match_Inr: "hex_match p n code v = Inr u \<longleftrightarrow> (\<exists>s. v = JStr s \<and> hex_after p n s)"
  by (auto simp: hex_match_def split: json.splits)

section \<open>The record\<close>

definition VISIBILITY_CANON :: string where
  "VISIBILITY_CANON = ''pmw-adapter-visibility-json-nfc-codepoint-v1''"

definition VISIBILITY_FIELDS :: "string list" where
  "VISIBILITY_FIELDS = [''schema'', ''evidence_id'', ''subject_task_ref'', ''subject_turn_ref'', ''adapter_kind'',
     ''adapter_call_count'', ''execution_state'', ''adapter_read_outcome'', ''adapter_item_count'',
     ''adapter_error_code'', ''local_capture_state'', ''local_capture_kind'', ''local_capture_portability'',
     ''materialization_state'', ''materialized_artifact_ref'', ''materialized_artifact_sha256'',
     ''materialized_artifact_bytes'', ''portable_delivery_state'', ''authorship_state'', ''reconciliation_state'',
     ''inference_barriers'', ''observed_time_ref'', ''evidence_digest'']"

definition INFERENCE_BARRIERS :: "string list" where
  "INFERENCE_BARRIERS = [''turn_completed_does_not_imply_adapter_body_available'',
     ''empty_projection_does_not_imply_no_response'', ''local_capture_does_not_prove_portable_delivery'',
     ''materialized_handoff_does_not_prove_original_adapter_delivery'',
     ''delivery_or_materialization_does_not_prove_authorship_or_identity'',
     ''no_automatic_resend_from_empty_projection'']"

record AdapterVisibilityEvidence =
  ve_schema :: json
  ve_evidence_id :: string
  ve_subject_task_ref :: string
  ve_subject_turn_ref :: string
  ve_adapter_kind :: string
  ve_adapter_call_count :: int
  ve_execution_state :: json
  ve_adapter_read_outcome :: json
  ve_adapter_item_count :: int
  ve_adapter_error_code :: json
  ve_local_capture_state :: json
  ve_local_capture_kind :: json
  ve_local_capture_portability :: json
  ve_materialization_state :: json
  ve_artifact_ref :: json
  ve_artifact_sha256 :: json
  ve_artifact_bytes :: json
  ve_portable_delivery_state :: json
  ve_authorship_state :: json
  ve_reconciliation_state :: json
  ve_inference_barriers :: "json list"
  ve_observed_time_ref :: json
  ve_evidence_digest :: json

definition visibility_core_dict :: "AdapterVisibilityEvidence \<Rightarrow> dict" where
  "visibility_core_dict e =
     [(''schema'', ve_schema e), (''evidence_id'', JStr (ve_evidence_id e)),
      (''subject_task_ref'', JStr (ve_subject_task_ref e)), (''subject_turn_ref'', JStr (ve_subject_turn_ref e)),
      (''adapter_kind'', JStr (ve_adapter_kind e)), (''adapter_call_count'', JInt (ve_adapter_call_count e)),
      (''execution_state'', ve_execution_state e), (''adapter_read_outcome'', ve_adapter_read_outcome e),
      (''adapter_item_count'', JInt (ve_adapter_item_count e)), (''adapter_error_code'', ve_adapter_error_code e),
      (''local_capture_state'', ve_local_capture_state e), (''local_capture_kind'', ve_local_capture_kind e),
      (''local_capture_portability'', ve_local_capture_portability e), (''materialization_state'', ve_materialization_state e),
      (''materialized_artifact_ref'', ve_artifact_ref e), (''materialized_artifact_sha256'', ve_artifact_sha256 e),
      (''materialized_artifact_bytes'', ve_artifact_bytes e), (''portable_delivery_state'', ve_portable_delivery_state e),
      (''authorship_state'', ve_authorship_state e), (''reconciliation_state'', ve_reconciliation_state e),
      (''inference_barriers'', JList (ve_inference_barriers e)), (''observed_time_ref'', ve_observed_time_ref e)]"

definition visibility_to_dict :: "AdapterVisibilityEvidence \<Rightarrow> dict" where
  "visibility_to_dict e = visibility_core_dict e @ [(''evidence_digest'', ve_evidence_digest e)]"

definition visibility_digest :: "lib \<Rightarrow> dict \<Rightarrow> string res" where
  "visibility_digest L core = tagged_digest ''PMW-ADAPTER-VISIBILITY'' VISIBILITY_CANON L (JObj core)"

section \<open>Validation\<close>

definition validate_adapter_read :: "AdapterVisibilityEvidence \<Rightarrow> unit res" where
  "validate_adapter_read e =
     (let outcome = ve_adapter_read_outcome e; err = ve_adapter_error_code e; n = ve_adapter_item_count e
      in bindR (check (err = JNull \<or> nonempty_str err) ''adapter_error_code_invalid'') (\<lambda>_.
         if outcome = JStr ''body_available'' then check (\<not> (n < 1 \<or> err \<noteq> JNull)) ''adapter_read_evidence_mismatch''
         else if outcome = JStr ''read_failed'' then check (\<not> (n \<noteq> 0 \<or> err = JNull)) ''adapter_read_evidence_mismatch''
         else if outcome \<in> JStr ` {''empty_projection'', ''unmeasured''}
         then check (\<not> (n \<noteq> 0 \<or> err \<noteq> JNull)) ''adapter_read_evidence_mismatch''
         else check (err = JNull) ''adapter_read_evidence_mismatch''))"

definition validate_local_capture :: "AdapterVisibilityEvidence \<Rightarrow> unit res" where
  "validate_local_capture e =
     (let kind = ve_local_capture_kind e; portability = ve_local_capture_portability e
      in if ve_local_capture_state e \<in> JStr ` {''not_observed'', ''unmeasured''}
         then check (\<not> (kind \<noteq> JStr ''none'' \<or> portability \<noteq> JStr ''unmeasured'')) ''local_capture_evidence_mismatch''
         else check (\<not> (kind = JStr ''none'' \<or> portability = JStr ''unmeasured'')) ''local_capture_evidence_mismatch'')"

definition relative_artifact_ref :: "string \<Rightarrow> bool" where
  "relative_artifact_ref s \<longleftrightarrow> s \<noteq> [] \<and> \<not> startswith s ''/'' \<and> \<not> startswith s [CHR 0x5C] \<and> CHR '':'' \<notin> set s
     \<and> CHR 0x5C \<notin> set s \<and> ''..'' \<notin> set (split_on CHR ''/'' s)"

definition artifact_complete :: "AdapterVisibilityEvidence \<Rightarrow> bool" where
  "artifact_complete e \<longleftrightarrow> is_str (ve_artifact_ref e) \<and> relative_artifact_ref (the_str (ve_artifact_ref e))
     \<and> is_str (ve_artifact_sha256 e) \<and> is_hex64 (the_str (ve_artifact_sha256 e))
     \<and> is_int (ve_artifact_bytes e) \<and> 1 \<le> the_int (ve_artifact_bytes e)"

definition validate_materialization :: "AdapterVisibilityEvidence \<Rightarrow> unit res" where
  "validate_materialization e =
     (if ve_materialization_state e \<in> JStr ` {''verified'', ''present_unverified''}
      then check (artifact_complete e) ''materialization_evidence_incomplete''
      else check (ve_artifact_ref e = JNull \<and> ve_artifact_sha256 e = JNull \<and> ve_artifact_bytes e = JNull)
             ''materialization_evidence_unexpected'')"

definition validate_inference_barriers :: "AdapterVisibilityEvidence \<Rightarrow> unit res" where
  "validate_inference_barriers e =
     bindR (check (ve_inference_barriers e = map JStr INFERENCE_BARRIERS) ''inference_barrier_missing'') (\<lambda>_.
     bindR (check (\<not> (ve_portable_delivery_state e \<in> JStr ` {''acknowledged_structured'', ''materialized''}
              \<and> (ve_adapter_read_outcome e = JStr ''empty_projection'' \<or> ve_local_capture_portability e = JStr ''local_only'')))
              ''delivery_inference_forbidden'') (\<lambda>_.
     check (\<not> (ve_authorship_state e = JStr ''receiver_observed'' \<and> ve_local_capture_portability e = JStr ''local_only''))
              ''authorship_inference_forbidden''))"

definition validate_visibility :: "lib \<Rightarrow> AdapterVisibilityEvidence \<Rightarrow> unit res" where
  "validate_visibility L e =
     bindR (check (ve_schema e = JStr ''pmw.adapter-visibility-evidence/0.1'') ''schema_version_unsupported'') (\<lambda>_.
     bindR (check (1 \<le> ve_adapter_call_count e) ''adapter_call_count_invalid'') (\<lambda>_.
     bindR (enum_check [''completed'', ''incomplete'', ''unmeasured''] ''execution_state_invalid'' (ve_execution_state e)) (\<lambda>_.
     bindR (enum_check [''body_available'', ''metadata_only'', ''empty_projection'', ''read_failed'', ''unmeasured'']
              ''adapter_read_outcome_invalid'' (ve_adapter_read_outcome e)) (\<lambda>_.
     bindR (validate_adapter_read e) (\<lambda>_.
     bindR (enum_check [''body_observed'', ''metadata_only'', ''not_observed'', ''unmeasured'']
              ''local_capture_state_invalid'' (ve_local_capture_state e)) (\<lambda>_.
     bindR (enum_check [''native_transcript'', ''host_log'', ''none''] ''local_capture_kind_invalid'' (ve_local_capture_kind e)) (\<lambda>_.
     bindR (enum_check [''local_only'', ''portable_verified'', ''unmeasured'']
              ''local_capture_portability_invalid'' (ve_local_capture_portability e)) (\<lambda>_.
     bindR (validate_local_capture e) (\<lambda>_.
     bindR (enum_check [''verified'', ''present_unverified'', ''absent'', ''unmeasured'']
              ''materialization_state_invalid'' (ve_materialization_state e)) (\<lambda>_.
     bindR (validate_materialization e) (\<lambda>_.
     bindR (enum_check [''acknowledged_structured'', ''materialized'', ''uncertain'', ''not_proven'']
              ''portable_delivery_state_invalid'' (ve_portable_delivery_state e)) (\<lambda>_.
     bindR (enum_check [''receiver_observed'', ''claimed'', ''unmeasured''] ''authorship_state_invalid'' (ve_authorship_state e)) (\<lambda>_.
     bindR (enum_check [''locally_reconciled'', ''needs_reconciliation'', ''not_applicable'']
              ''reconciliation_state_invalid'' (ve_reconciliation_state e)) (\<lambda>_.
     bindR (validate_inference_barriers e) (\<lambda>_.
     bindR (check (ve_observed_time_ref e = JNull \<or> is_str (ve_observed_time_ref e) \<and> is_ctcl (the_str (ve_observed_time_ref e)))
              ''observed_time_ref_invalid'') (\<lambda>_.
     bindR (check (is_str (ve_evidence_digest e)
              \<and> hex_after (''sha256:'' @ VISIBILITY_CANON @ '':'') 64 (the_str (ve_evidence_digest e)))
              ''evidence_digest_invalid'') (\<lambda>_.
     bindR (visibility_digest L (visibility_core_dict e)) (\<lambda>expected.
     check (ve_evidence_digest e = JStr expected) ''evidence_digest_mismatch''))))))))))))))))))"

definition visibility_from_dict :: "lib \<Rightarrow> dict \<Rightarrow> AdapterVisibilityEvidence res" where
  "visibility_from_dict L d =
     bindR (exact VISIBILITY_FIELDS d) (\<lambda>_.
     bindR (nonempty (dget_null d ''evidence_id'')) (\<lambda>evidence_id.
     bindR (nonempty (dget_null d ''subject_task_ref'')) (\<lambda>task.
     bindR (nonempty (dget_null d ''subject_turn_ref'')) (\<lambda>turn.
     bindR (nonempty (dget_null d ''adapter_kind'')) (\<lambda>kind.
     bindR (nonnegative_int (dget_null d ''adapter_call_count'')) (\<lambda>calls.
     bindR (nonnegative_int (dget_null d ''adapter_item_count'')) (\<lambda>item_count.
     bindR (tuple_of (dget_null d ''inference_barriers'')) (\<lambda>barriers.
     let e = \<lparr>ve_schema = dget_null d ''schema'', ve_evidence_id = evidence_id, ve_subject_task_ref = task,
       ve_subject_turn_ref = turn, ve_adapter_kind = kind, ve_adapter_call_count = calls,
       ve_execution_state = dget_null d ''execution_state'', ve_adapter_read_outcome = dget_null d ''adapter_read_outcome'',
       ve_adapter_item_count = item_count, ve_adapter_error_code = dget_null d ''adapter_error_code'',
       ve_local_capture_state = dget_null d ''local_capture_state'', ve_local_capture_kind = dget_null d ''local_capture_kind'',
       ve_local_capture_portability = dget_null d ''local_capture_portability'',
       ve_materialization_state = dget_null d ''materialization_state'',
       ve_artifact_ref = dget_null d ''materialized_artifact_ref'',
       ve_artifact_sha256 = dget_null d ''materialized_artifact_sha256'',
       ve_artifact_bytes = dget_null d ''materialized_artifact_bytes'',
       ve_portable_delivery_state = dget_null d ''portable_delivery_state'',
       ve_authorship_state = dget_null d ''authorship_state'', ve_reconciliation_state = dget_null d ''reconciliation_state'',
       ve_inference_barriers = barriers, ve_observed_time_ref = dget_null d ''observed_time_ref'',
       ve_evidence_digest = dget_null d ''evidence_digest''\<rparr>
     in bindR (validate_visibility L e) (\<lambda>_. Inr e)))))))))"

text \<open>The answer does not depend on the evidence.\<close>

definition automatic_replay_allowed :: "AdapterVisibilityEvidence \<Rightarrow> bool" where
  "automatic_replay_allowed e = False"

section \<open>Accepted evidence\<close>

lemma visibility_keys: "map fst (visibility_to_dict e) = VISIBILITY_FIELDS"
  by (simp add: visibility_to_dict_def visibility_core_dict_def VISIBILITY_FIELDS_def)

lemma visibility_exact: "exact VISIBILITY_FIELDS (visibility_to_dict e) = Inr ()"
  by (simp add: exact_def dkeys_def visibility_keys)

lemma visibility_fields:
  "dget_null (visibility_to_dict e) ''schema'' = ve_schema e"
  "dget_null (visibility_to_dict e) ''evidence_id'' = JStr (ve_evidence_id e)"
  "dget_null (visibility_to_dict e) ''subject_task_ref'' = JStr (ve_subject_task_ref e)"
  "dget_null (visibility_to_dict e) ''subject_turn_ref'' = JStr (ve_subject_turn_ref e)"
  "dget_null (visibility_to_dict e) ''adapter_kind'' = JStr (ve_adapter_kind e)"
  "dget_null (visibility_to_dict e) ''adapter_call_count'' = JInt (ve_adapter_call_count e)"
  "dget_null (visibility_to_dict e) ''execution_state'' = ve_execution_state e"
  "dget_null (visibility_to_dict e) ''adapter_read_outcome'' = ve_adapter_read_outcome e"
  "dget_null (visibility_to_dict e) ''adapter_item_count'' = JInt (ve_adapter_item_count e)"
  "dget_null (visibility_to_dict e) ''adapter_error_code'' = ve_adapter_error_code e"
  "dget_null (visibility_to_dict e) ''local_capture_state'' = ve_local_capture_state e"
  "dget_null (visibility_to_dict e) ''local_capture_kind'' = ve_local_capture_kind e"
  "dget_null (visibility_to_dict e) ''local_capture_portability'' = ve_local_capture_portability e"
  "dget_null (visibility_to_dict e) ''materialization_state'' = ve_materialization_state e"
  "dget_null (visibility_to_dict e) ''materialized_artifact_ref'' = ve_artifact_ref e"
  "dget_null (visibility_to_dict e) ''materialized_artifact_sha256'' = ve_artifact_sha256 e"
  "dget_null (visibility_to_dict e) ''materialized_artifact_bytes'' = ve_artifact_bytes e"
  "dget_null (visibility_to_dict e) ''portable_delivery_state'' = ve_portable_delivery_state e"
  "dget_null (visibility_to_dict e) ''authorship_state'' = ve_authorship_state e"
  "dget_null (visibility_to_dict e) ''reconciliation_state'' = ve_reconciliation_state e"
  "dget_null (visibility_to_dict e) ''inference_barriers'' = JList (ve_inference_barriers e)"
  "dget_null (visibility_to_dict e) ''observed_time_ref'' = ve_observed_time_ref e"
  "dget_null (visibility_to_dict e) ''evidence_digest'' = ve_evidence_digest e"
  by (simp_all add: dget_null_def visibility_to_dict_def visibility_core_dict_def)

lemma visibility_from_dict_Inr:
  assumes "visibility_from_dict L d = Inr e"
  shows "validate_visibility L e = Inr ()" and "ve_evidence_id e \<noteq> []" and "ve_subject_task_ref e \<noteq> []"
    and "ve_subject_turn_ref e \<noteq> []" and "ve_adapter_kind e \<noteq> []" and "0 \<le> ve_adapter_call_count e"
    and "0 \<le> ve_adapter_item_count e"
  using assms unfolding visibility_from_dict_def Let_def
  by (elim bindR_InrE; force simp: nonempty_Inr nonnegative_int_Inr)+

lemma visibility_parse:
  assumes "validate_visibility L e = Inr ()" and "ve_evidence_id e \<noteq> []" and "ve_subject_task_ref e \<noteq> []"
    and "ve_subject_turn_ref e \<noteq> []" and "ve_adapter_kind e \<noteq> []" and "0 \<le> ve_adapter_call_count e"
    and "0 \<le> ve_adapter_item_count e"
  shows "visibility_from_dict L (visibility_to_dict e) = Inr e"
  using assms unfolding visibility_from_dict_def visibility_fields
  by (cases e) (simp add: visibility_exact nonempty_def nonnegative_int_def tuple_of_def del: One_nat_def)

text \<open>
  What accepted evidence keeps to: a delivery is not called acknowledged or materialized with an empty projection or
  a capture local to the host, nor authorship observed by the receiver with a capture local to the host (a failed
  read or an unobserved capture is not excluded); an unobserved capture has no portability; a materialized artifact
  is given by a relative path below its root with digest and size; all six inference barriers are stated; the
  digest is the one of the other fields; and no evidence allows an automatic replay.
\<close>

theorem visibility_claims_bounded:
  assumes "visibility_from_dict L d = Inr e"
  shows "(ve_portable_delivery_state e \<in> JStr ` {''acknowledged_structured'', ''materialized''} \<longrightarrow>
      ve_adapter_read_outcome e \<noteq> JStr ''empty_projection'' \<and> ve_local_capture_portability e \<noteq> JStr ''local_only'')
    \<and> (ve_authorship_state e = JStr ''receiver_observed'' \<longrightarrow> ve_local_capture_portability e \<noteq> JStr ''local_only'')
    \<and> (ve_local_capture_state e \<in> JStr ` {''not_observed'', ''unmeasured''} \<longrightarrow>
      ve_local_capture_portability e = JStr ''unmeasured'')
    \<and> (ve_materialization_state e = JStr ''verified'' \<longrightarrow> (\<exists>p sha n. ve_artifact_ref e = JStr p
      \<and> relative_artifact_ref p \<and> ve_artifact_sha256 e = JStr sha \<and> is_hex64 sha \<and> ve_artifact_bytes e = JInt n \<and> 1 \<le> n))
    \<and> ve_inference_barriers e = map JStr INFERENCE_BARRIERS
    \<and> (\<exists>g. visibility_digest L (visibility_core_dict e) = Inr g \<and> ve_evidence_digest e = JStr g)
    \<and> \<not> automatic_replay_allowed e"
proof -
  have v: "validate_visibility L e = Inr ()" by (rule visibility_from_dict_Inr[OF assms])
  then have cap: "validate_local_capture e = Inr ()" and mat: "validate_materialization e = Inr ()"
    and bar: "validate_inference_barriers e = Inr ()"
    and dig: "\<exists>g. visibility_digest L (visibility_core_dict e) = Inr g \<and> ve_evidence_digest e = JStr g"
    unfolding validate_visibility_def by (elim bindR_InrE; simp)+
  have "ve_local_capture_portability e = JStr ''unmeasured''"
    if "ve_local_capture_state e \<in> JStr ` {''not_observed'', ''unmeasured''}"
    using cap unfolding validate_local_capture_def Let_def if_P[OF that] by simp
  moreover have "\<exists>p sha n. ve_artifact_ref e = JStr p \<and> relative_artifact_ref p \<and> ve_artifact_sha256 e = JStr sha
      \<and> is_hex64 sha \<and> ve_artifact_bytes e = JInt n \<and> 1 \<le> n" if "ve_materialization_state e = JStr ''verified''"
  proof -
    from that mat have "artifact_complete e" by (simp add: validate_materialization_def)
    then show ?thesis by (auto simp: artifact_complete_def json_tests split: json.splits)
  qed
  moreover from bar have "ve_inference_barriers e = map JStr INFERENCE_BARRIERS"
    "ve_portable_delivery_state e \<in> JStr ` {''acknowledged_structured'', ''materialized''} \<longrightarrow>
      ve_adapter_read_outcome e \<noteq> JStr ''empty_projection'' \<and> ve_local_capture_portability e \<noteq> JStr ''local_only''"
    "ve_authorship_state e = JStr ''receiver_observed'' \<longrightarrow> ve_local_capture_portability e \<noteq> JStr ''local_only''"
    unfolding validate_inference_barriers_def by (elim bindR_InrE; simp only: check_Inr; blast)+
  ultimately show ?thesis using dig by (simp only: automatic_replay_allowed_def) blast
qed

text \<open>
  Evidence that was accepted is accepted again from its own dictionary, as the same evidence.
\<close>

theorem visibility_round_trip:
  assumes "visibility_from_dict L d = Inr e"
  shows "visibility_from_dict L (visibility_to_dict e) = Inr e"
  by (rule visibility_parse) (rule visibility_from_dict_Inr[OF assms])+

section \<open>An example\<close>

text \<open>The incident of \<open>examples/federation/incidents\<close>: a completed turn, an empty projection, a local transcript.\<close>

definition empty_projection_evidence :: AdapterVisibilityEvidence where
  "empty_projection_evidence = \<lparr>ve_schema = JStr ''pmw.adapter-visibility-evidence/0.1'', ve_evidence_id = ''e'',
     ve_subject_task_ref = ''t'', ve_subject_turn_ref = ''u'', ve_adapter_kind = ''k'', ve_adapter_call_count = 2,
     ve_execution_state = JStr ''completed'', ve_adapter_read_outcome = JStr ''empty_projection'',
     ve_adapter_item_count = 0, ve_adapter_error_code = JNull, ve_local_capture_state = JStr ''body_observed'',
     ve_local_capture_kind = JStr ''native_transcript'', ve_local_capture_portability = JStr ''local_only'',
     ve_materialization_state = JStr ''verified'', ve_artifact_ref = JStr ''a/b'',
     ve_artifact_sha256 = JStr (replicate 64 CHR ''0''), ve_artifact_bytes = JInt 3,
     ve_portable_delivery_state = JStr ''not_proven'', ve_authorship_state = JStr ''unmeasured'',
     ve_reconciliation_state = JStr ''locally_reconciled'', ve_inference_barriers = map JStr INFERENCE_BARRIERS,
     ve_observed_time_ref = JNull,
     ve_evidence_digest = JStr (''sha256:'' @ VISIBILITY_CANON @ '':'' @ replicate 64 CHR ''0'')\<rparr>"

lemma empty_projection_accepted:
  "visibility_from_dict plain_lib (visibility_to_dict empty_projection_evidence) = Inr empty_projection_evidence"
proof (rule visibility_parse)
  have "isl (validate_visibility plain_lib empty_projection_evidence) = False" by code_simp
  then show "validate_visibility plain_lib empty_projection_evidence = Inr ()"
    by (cases "validate_visibility plain_lib empty_projection_evidence") auto
qed (simp_all add: empty_projection_evidence_def)

lemma visibility_claims_bounded_witness:
  "ve_portable_delivery_state empty_projection_evidence \<notin> JStr ` {''acknowledged_structured'', ''materialized''}
    \<and> ve_authorship_state empty_projection_evidence \<noteq> JStr ''receiver_observed''"
proof -
  have "ve_local_capture_portability empty_projection_evidence = JStr ''local_only''"
    by (simp add: empty_projection_evidence_def)
  with visibility_claims_bounded[OF empty_projection_accepted] show ?thesis by blast
qed

lemma visibility_round_trip_witness:
  "visibility_from_dict plain_lib (visibility_to_dict empty_projection_evidence) = Inr empty_projection_evidence"
  by (rule visibility_round_trip[OF empty_projection_accepted])

end
