(* ===== verification/Fed_Adoption.thy ===== *)
theory Fed_Adoption
  imports Fed_Visibility
begin

text \<open>
  \<open>src/eml_pmw/federation/adoption.py\<close>: the receipt of a receiver on an event it adopted, rejected or kept
  apart, checked in the order of the code. A field is kept as the JSON value it came as.
\<close>

section \<open>The receipt\<close>

definition RECEIPT_CANON :: string where
  "RECEIPT_CANON = ''pmw-receiver-adoption-json-nfc-codepoint-v1''"

definition RECEIPT_FIELDS :: "string list" where
  "RECEIPT_FIELDS = [''schema'', ''receipt_id'', ''event_id'', ''event_digest'', ''receiver_realm_id'', ''source_schema_id'',
     ''source_schema_sha256'', ''source_ledger_head'', ''source_view_digest'', ''decision'', ''reason_codes'',
     ''receiver_observation_refs'', ''authority_verification_status'', ''not_claimed'', ''receipt_digest'']"

definition ADOPTION_NOT_CLAIMED :: "string list" where
  "ADOPTION_NOT_CLAIMED = [''ral_head_mutated'', ''registry_commit'', ''authority_granted'',
     ''resident_identity_continuity'', ''source_history_rewritten'']"

record ReceiverAdoptionReceipt =
  ar_schema :: json
  ar_receipt_id :: json
  ar_event_id :: json
  ar_event_digest :: json
  ar_receiver_realm_id :: json
  ar_source_schema_id :: json
  ar_source_schema_sha256 :: json
  ar_source_ledger_head :: json
  ar_source_view_digest :: json
  ar_decision :: json
  ar_reason_codes :: "json list"
  ar_receiver_observation_refs :: "json list"
  ar_authority_status :: json
  ar_not_claimed :: "json list"
  ar_receipt_digest :: json

definition receipt_core_dict :: "ReceiverAdoptionReceipt \<Rightarrow> dict" where
  "receipt_core_dict r =
     [(''schema'', ar_schema r), (''receipt_id'', ar_receipt_id r), (''event_id'', ar_event_id r),
      (''event_digest'', ar_event_digest r), (''receiver_realm_id'', ar_receiver_realm_id r),
      (''source_schema_id'', ar_source_schema_id r), (''source_schema_sha256'', ar_source_schema_sha256 r),
      (''source_ledger_head'', ar_source_ledger_head r), (''source_view_digest'', ar_source_view_digest r),
      (''decision'', ar_decision r), (''reason_codes'', JList (ar_reason_codes r)),
      (''receiver_observation_refs'', JList (ar_receiver_observation_refs r)),
      (''authority_verification_status'', ar_authority_status r), (''not_claimed'', JList (ar_not_claimed r))]"

definition receipt_to_dict :: "ReceiverAdoptionReceipt \<Rightarrow> dict" where
  "receipt_to_dict r = receipt_core_dict r @ [(''receipt_digest'', ar_receipt_digest r)]"

text \<open>\<open>digest_for\<close>: the digest over every field but the digest itself.\<close>

definition receipt_digest_for :: "lib \<Rightarrow> dict \<Rightarrow> string res" where
  "receipt_digest_for L d = tagged_digest ''PMW-RECEIVER-ADOPTION'' RECEIPT_CANON L (JObj (ddel ''receipt_digest'' d))"

section \<open>Validation\<close>

text \<open>\<open>len(set(values))\<close>: the items must be hashable; items outside JSON are followed no further.\<close>

definition all_hashable :: "json list \<Rightarrow> unit res" where
  "all_hashable vs = (if \<not> list_all hashable vs then Inl TypeError else Inr ())"

definition distinct_values :: "json list \<Rightarrow> bool res" where
  "distinct_values vs = bindR (all_hashable vs) (\<lambda>_.
     if \<exists>v\<in>set vs. (case v of JOther t \<Rightarrow> True | _ \<Rightarrow> False) then Inl (Untyped ''set'') else Inr (distinct (map py_key vs)))"

definition receipt_fields_ok :: "ReceiverAdoptionReceipt \<Rightarrow> bool" where
  "receipt_fields_ok r \<longleftrightarrow> nonempty_str (ar_receipt_id r) \<and> nonempty_str (ar_event_id r)
     \<and> nonempty_str (ar_receiver_realm_id r) \<and> nonempty_str (ar_source_schema_id r)"

definition ADOPTION_DECISIONS :: "string list" where
  "ADOPTION_DECISIONS = [''adopted'', ''rejected'', ''conflict'', ''quarantined'', ''pending_dependencies'', ''unmeasured'']"

definition validate_receipt :: "lib \<Rightarrow> ReceiverAdoptionReceipt \<Rightarrow> unit res" where
  "validate_receipt L r =
     bindR (check (ar_schema r = JStr ''pmw.receiver-adoption-receipt/v1'') ''schema_version_unsupported'') (\<lambda>_.
     bindR (check (receipt_fields_ok r) ''receipt_field_invalid'') (\<lambda>_.
     bindR (hex_match (''sha256:'' @ EVENT_CANON @ '':'') 64 ''event_digest_invalid'' (ar_event_digest r)) (\<lambda>_.
     bindR (hex_match [] 64 ''source_schema_digest_invalid'' (ar_source_schema_sha256 r)) (\<lambda>_.
     bindR (hex_match ''sha256:sedb-ral-chain-v1:'' 64 ''source_ledger_head_invalid'' (ar_source_ledger_head r)) (\<lambda>_.
     bindR (hex_match ''sha256:sedb-ral-json-nfc-codepoint-v1:'' 64 ''source_view_digest_invalid'' (ar_source_view_digest r)) (\<lambda>_.
     bindR (enum_check ADOPTION_DECISIONS ''adoption_decision_invalid'' (ar_decision r)) (\<lambda>_.
     bindR (all_hashable (ar_reason_codes r)) (\<lambda>_.
     bindR (check (list_all nonempty_str (ar_reason_codes r) \<and> distinct (ar_reason_codes r)) ''reason_codes_invalid'') (\<lambda>_.
     bindR (check (ar_receiver_observation_refs r \<noteq> []) ''receiver_observation_refs_invalid'') (\<lambda>_.
     bindR (bindR (distinct_values (ar_receiver_observation_refs r)) (\<lambda>b. check b ''receiver_observation_refs_invalid'')) (\<lambda>_.
     bindR (enum_check [''not_required'', ''verified'', ''rejected'', ''unmeasured'']
              ''authority_verification_status_invalid'' (ar_authority_status r)) (\<lambda>_.
     bindR (check (ar_not_claimed r = map JStr ADOPTION_NOT_CLAIMED) ''not_claimed_incomplete'') (\<lambda>_.
     bindR (receipt_digest_for L (receipt_to_dict r)) (\<lambda>expected.
     check (ar_receipt_digest r = JStr expected) ''receipt_digest_mismatch''))))))))))))))"

definition receipt_from_dict :: "lib \<Rightarrow> dict \<Rightarrow> ReceiverAdoptionReceipt res" where
  "receipt_from_dict L d =
     bindR (exact RECEIPT_FIELDS d) (\<lambda>_.
     bindR (tuple_of (dget_null d ''reason_codes'')) (\<lambda>reasons.
     bindR (tuple_of (dget_null d ''receiver_observation_refs'')) (\<lambda>refs.
     bindR (tuple_of (dget_null d ''not_claimed'')) (\<lambda>nonclaims.
     let r = \<lparr>ar_schema = dget_null d ''schema'', ar_receipt_id = dget_null d ''receipt_id'', ar_event_id = dget_null d ''event_id'',
       ar_event_digest = dget_null d ''event_digest'', ar_receiver_realm_id = dget_null d ''receiver_realm_id'',
       ar_source_schema_id = dget_null d ''source_schema_id'', ar_source_schema_sha256 = dget_null d ''source_schema_sha256'',
       ar_source_ledger_head = dget_null d ''source_ledger_head'', ar_source_view_digest = dget_null d ''source_view_digest'',
       ar_decision = dget_null d ''decision'', ar_reason_codes = reasons, ar_receiver_observation_refs = refs,
       ar_authority_status = dget_null d ''authority_verification_status'', ar_not_claimed = nonclaims,
       ar_receipt_digest = dget_null d ''receipt_digest''\<rparr>
     in bindR (validate_receipt L r) (\<lambda>_. Inr r)))))"

section \<open>Accepted receipts\<close>

lemma receipt_keys: "map fst (receipt_to_dict r) = RECEIPT_FIELDS"
  by (simp add: receipt_to_dict_def receipt_core_dict_def RECEIPT_FIELDS_def)

lemma receipt_exact: "exact RECEIPT_FIELDS (receipt_to_dict r) = Inr ()"
  by (simp add: exact_def dkeys_def receipt_keys)

lemma receipt_core: "ddel ''receipt_digest'' (receipt_to_dict r) = receipt_core_dict r"
  by (simp add: ddel_def receipt_to_dict_def receipt_core_dict_def)

lemma receipt_fields:
  "dget_null (receipt_to_dict r) ''schema'' = ar_schema r"
  "dget_null (receipt_to_dict r) ''receipt_id'' = ar_receipt_id r"
  "dget_null (receipt_to_dict r) ''event_id'' = ar_event_id r"
  "dget_null (receipt_to_dict r) ''event_digest'' = ar_event_digest r"
  "dget_null (receipt_to_dict r) ''receiver_realm_id'' = ar_receiver_realm_id r"
  "dget_null (receipt_to_dict r) ''source_schema_id'' = ar_source_schema_id r"
  "dget_null (receipt_to_dict r) ''source_schema_sha256'' = ar_source_schema_sha256 r"
  "dget_null (receipt_to_dict r) ''source_ledger_head'' = ar_source_ledger_head r"
  "dget_null (receipt_to_dict r) ''source_view_digest'' = ar_source_view_digest r"
  "dget_null (receipt_to_dict r) ''decision'' = ar_decision r"
  "dget_null (receipt_to_dict r) ''reason_codes'' = JList (ar_reason_codes r)"
  "dget_null (receipt_to_dict r) ''receiver_observation_refs'' = JList (ar_receiver_observation_refs r)"
  "dget_null (receipt_to_dict r) ''authority_verification_status'' = ar_authority_status r"
  "dget_null (receipt_to_dict r) ''not_claimed'' = JList (ar_not_claimed r)"
  "dget_null (receipt_to_dict r) ''receipt_digest'' = ar_receipt_digest r"
  by (simp_all add: dget_null_def receipt_to_dict_def receipt_core_dict_def)

lemma receipt_from_dict_Inr: "receipt_from_dict L d = Inr r \<Longrightarrow> validate_receipt L r = Inr ()"
  unfolding receipt_from_dict_def Let_def by (elim bindR_InrE; simp)

lemma receipt_parse: "validate_receipt L r = Inr () \<Longrightarrow> receipt_from_dict L (receipt_to_dict r) = Inr r"
  unfolding receipt_from_dict_def receipt_fields by (cases r) (simp add: receipt_exact tuple_of_def)

lemma receipt_digest_Inr:
  assumes "receipt_from_dict L d = Inr r"
  shows "\<exists>g. receipt_digest_for L (receipt_to_dict r) = Inr g \<and> ar_receipt_digest r = JStr g"
  using receipt_from_dict_Inr[OF assms] unfolding validate_receipt_def by (elim bindR_InrE) simp

text \<open>
  C36: a receipt that was accepted is accepted again from its own dictionary, and two accepted receipts with the
  same digest agree in every field up to the Unicode normal form of their strings, unless SHA-256 collides on
  their two texts.
\<close>

theorem receipt_binding:
  assumes "receipt_from_dict L d = Inr r" and "receipt_from_dict L d' = Inr r'"
    and "ar_receipt_digest r = ar_receipt_digest r'" and "nfc_ok L"
    and "no_collision ''PMW-RECEIVER-ADOPTION'' RECEIPT_CANON L (JObj (receipt_core_dict r)) (JObj (receipt_core_dict r'))"
  shows "receipt_from_dict L (receipt_to_dict r) = Inr r
    \<and> (\<exists>u. normal_form L (JObj (receipt_core_dict r)) = Inr u \<and> normal_form L (JObj (receipt_core_dict r')) = Inr u)"
proof
  show "receipt_from_dict L (receipt_to_dict r) = Inr r"
    by (rule receipt_parse[OF receipt_from_dict_Inr[OF assms(1)]])
  from receipt_digest_Inr[OF assms(1)] receipt_digest_Inr[OF assms(2)] assms(3) obtain g
    where "receipt_digest_for L (receipt_to_dict r) = Inr g" "receipt_digest_for L (receipt_to_dict r') = Inr g" by auto
  then show "\<exists>u. normal_form L (JObj (receipt_core_dict r)) = Inr u \<and> normal_form L (JObj (receipt_core_dict r')) = Inr u"
    unfolding receipt_digest_for_def receipt_core using assms(4,5) by (blast intro: digest_binding)
qed

section \<open>An example\<close>

definition zeros :: string where
  "zeros = replicate 64 CHR ''0''"

definition example_receipt :: "json \<Rightarrow> ReceiverAdoptionReceipt" where
  "example_receipt decision = \<lparr>ar_schema = JStr ''pmw.receiver-adoption-receipt/v1'', ar_receipt_id = JStr ''r'',
     ar_event_id = JStr ''e'', ar_event_digest = JStr (''sha256:'' @ EVENT_CANON @ '':'' @ zeros),
     ar_receiver_realm_id = JStr ''m'', ar_source_schema_id = JStr ''s'', ar_source_schema_sha256 = JStr zeros,
     ar_source_ledger_head = JStr (''sha256:sedb-ral-chain-v1:'' @ zeros),
     ar_source_view_digest = JStr (''sha256:sedb-ral-json-nfc-codepoint-v1:'' @ zeros), ar_decision = decision,
     ar_reason_codes = [], ar_receiver_observation_refs = [JStr ''o''], ar_authority_status = JStr ''not_required'',
     ar_not_claimed = map JStr ADOPTION_NOT_CLAIMED,
     ar_receipt_digest = JStr (''sha256:'' @ RECEIPT_CANON @ '':'' @ zeros)\<rparr>"

lemma example_receipt_accepted:
  "receipt_from_dict plain_lib (receipt_to_dict (example_receipt (JStr ''adopted''))) = Inr (example_receipt (JStr ''adopted''))"
proof (rule receipt_parse)
  have "isl (validate_receipt plain_lib (example_receipt (JStr ''adopted''))) = False" by code_simp
  then show "validate_receipt plain_lib (example_receipt (JStr ''adopted'')) = Inr ()"
    by (cases "validate_receipt plain_lib (example_receipt (JStr ''adopted''))") auto
qed

lemma receipt_binding_witness:
  "\<exists>u. normal_form plain_lib (JObj (receipt_core_dict (example_receipt (JStr ''adopted'')))) = Inr u"
proof -
  have "no_collision ''PMW-RECEIVER-ADOPTION'' RECEIPT_CANON plain_lib (JObj (receipt_core_dict (example_receipt (JStr ''adopted''))))
      (JObj (receipt_core_dict (example_receipt (JStr ''adopted''))))"
    by (simp add: no_collision_def split: sum.split)
  with receipt_binding[OF example_receipt_accepted example_receipt_accepted refl plain_lib_ok] show ?thesis by blast
qed

end
