(* ===== verification/Fed_Ral.thy ===== *)
theory Fed_Ral
  imports Fed_Store Fed_Visibility
begin

text \<open>
  \<open>src/eml_pmw/federation/ral_adapter.py\<close>: the manifest of the adapter that carries public views of another
  system (RAL) into the federation, the pin of the source schema, and the event made of a view. A field of the
  manifest is kept as the JSON value it came as.
\<close>

section \<open>The manifest\<close>

definition ADAPTER_CANON :: string where
  "ADAPTER_CANON = ''pmw-ral-adapter-json-nfc-codepoint-v1''"

definition RAL_FIELDS :: "string list" where
  "RAL_FIELDS = [''schema'', ''adapter_profile_id'', ''source_manifest_schema'', ''source_manifest_digest'',
     ''source_schema_id'', ''source_schema_version'', ''source_repository'', ''source_commit'', ''source_schema_bytes'',
     ''source_schema_sha256'', ''source_profile_ref'', ''carrier_event_kind'', ''subject_mapping'', ''ral_disclosure_class'',
     ''fabric_payload_class'', ''correction_mapping'', ''tombstone_mapping'', ''not_claimed'', ''manifest_digest'']"

definition RAL_NOT_CLAIMED :: "string list" where
  "RAL_NOT_CLAIMED = [''ral_schema_vendored'', ''ral_authority_activated'', ''ral_head_mutated'', ''private_access'']"

record RalAdapterManifest =
  rl_schema :: json
  rl_adapter_profile_id :: json
  rl_source_manifest_schema :: json
  rl_source_manifest_digest :: json
  rl_source_schema_id :: json
  rl_source_schema_version :: json
  rl_source_repository :: json
  rl_source_commit :: json
  rl_source_schema_bytes :: json
  rl_source_schema_sha256 :: json
  rl_source_profile_ref :: json
  rl_carrier_event_kind :: json
  rl_subject_mapping :: json
  rl_disclosure_class :: json
  rl_fabric_payload_class :: json
  rl_correction_mapping :: json
  rl_tombstone_mapping :: json
  rl_not_claimed :: "json list"
  rl_manifest_digest :: json

definition ral_to_dict :: "RalAdapterManifest \<Rightarrow> dict" where
  "ral_to_dict m =
     [(''schema'', rl_schema m), (''adapter_profile_id'', rl_adapter_profile_id m),
      (''source_manifest_schema'', rl_source_manifest_schema m), (''source_manifest_digest'', rl_source_manifest_digest m),
      (''source_schema_id'', rl_source_schema_id m), (''source_schema_version'', rl_source_schema_version m),
      (''source_repository'', rl_source_repository m), (''source_commit'', rl_source_commit m),
      (''source_schema_bytes'', rl_source_schema_bytes m), (''source_schema_sha256'', rl_source_schema_sha256 m),
      (''source_profile_ref'', rl_source_profile_ref m), (''carrier_event_kind'', rl_carrier_event_kind m),
      (''subject_mapping'', rl_subject_mapping m), (''ral_disclosure_class'', rl_disclosure_class m),
      (''fabric_payload_class'', rl_fabric_payload_class m), (''correction_mapping'', rl_correction_mapping m),
      (''tombstone_mapping'', rl_tombstone_mapping m), (''not_claimed'', JList (rl_not_claimed m)),
      (''manifest_digest'', rl_manifest_digest m)]"

definition ral_adapter_digest :: "lib \<Rightarrow> dict \<Rightarrow> string res" where
  "ral_adapter_digest L d = tagged_digest ''PMW-RAL-ADAPTER'' ADAPTER_CANON L (JObj (ddel ''manifest_digest'' d))"

definition SUBJECT_MAPPING :: dict where
  "SUBJECT_MAPPING = [(''source_field'', JStr ''view_id''), (''target_template'', JStr ''ral-public-view:{realm_id}:{view_id}'')]"

definition ral_strings_ok :: "RalAdapterManifest \<Rightarrow> bool" where
  "ral_strings_ok m \<longleftrightarrow> list_all nonempty_str [rl_adapter_profile_id m, rl_source_manifest_schema m, rl_source_schema_id m,
     rl_source_schema_version m, rl_source_repository m, rl_source_profile_ref m, rl_carrier_event_kind m]"

definition validate_ral :: "lib \<Rightarrow> RalAdapterManifest \<Rightarrow> unit res" where
  "validate_ral L m =
     bindR (check (ral_strings_ok m) ''manifest_field_invalid'') (\<lambda>_.
     bindR (check (rl_schema m = JStr ''pmw.ral-public-projection-adapter/v1'') ''schema_version_unsupported'') (\<lambda>_.
     bindR (hex_match ''sha256:sedb-ral-json-nfc-codepoint-v1:'' 64 ''source_manifest_digest_invalid'' (rl_source_manifest_digest m)) (\<lambda>_.
     bindR (hex_match [] 40 ''source_commit_invalid'' (rl_source_commit m)) (\<lambda>_.
     bindR (check (is_int (rl_source_schema_bytes m) \<and> 1 \<le> the_int (rl_source_schema_bytes m)) ''source_schema_bytes_invalid'') (\<lambda>_.
     bindR (hex_match [] 64 ''source_schema_digest_invalid'' (rl_source_schema_sha256 m)) (\<lambda>_.
     bindR (check (py_eq (rl_subject_mapping m) (JObj SUBJECT_MAPPING)) ''subject_mapping_unsupported'') (\<lambda>_.
     bindR (check (rl_disclosure_class m = JStr ''public'') ''ral_disclosure_not_public'') (\<lambda>_.
     bindR (check (rl_fabric_payload_class m = JStr ''P0'') ''fabric_payload_class_invalid'') (\<lambda>_.
     bindR (check (rl_correction_mapping m = JStr ''source_semantics_preserved''
              \<and> rl_tombstone_mapping m = JStr ''source_semantics_preserved'') ''source_semantics_mapping_invalid'') (\<lambda>_.
     bindR (check (rl_not_claimed m = map JStr RAL_NOT_CLAIMED) ''not_claimed_incomplete'') (\<lambda>_.
     bindR (check (is_str (rl_manifest_digest m)
              \<and> hex_after (''sha256:'' @ ADAPTER_CANON @ '':'') 64 (the_str (rl_manifest_digest m))) ''manifest_digest_invalid'') (\<lambda>_.
     bindR (ral_adapter_digest L (ral_to_dict m)) (\<lambda>expected.
     check (rl_manifest_digest m = JStr expected) ''manifest_digest_mismatch'')))))))))))))"

definition ral_from_dict :: "lib \<Rightarrow> dict \<Rightarrow> RalAdapterManifest res" where
  "ral_from_dict L d =
     bindR (exact RAL_FIELDS d) (\<lambda>_.
     bindR (tuple_of (dget_null d ''not_claimed'')) (\<lambda>nonclaims.
     let m = \<lparr>rl_schema = dget_null d ''schema'', rl_adapter_profile_id = dget_null d ''adapter_profile_id'',
       rl_source_manifest_schema = dget_null d ''source_manifest_schema'', rl_source_manifest_digest = dget_null d ''source_manifest_digest'',
       rl_source_schema_id = dget_null d ''source_schema_id'', rl_source_schema_version = dget_null d ''source_schema_version'',
       rl_source_repository = dget_null d ''source_repository'', rl_source_commit = dget_null d ''source_commit'',
       rl_source_schema_bytes = dget_null d ''source_schema_bytes'', rl_source_schema_sha256 = dget_null d ''source_schema_sha256'',
       rl_source_profile_ref = dget_null d ''source_profile_ref'', rl_carrier_event_kind = dget_null d ''carrier_event_kind'',
       rl_subject_mapping = dget_null d ''subject_mapping'', rl_disclosure_class = dget_null d ''ral_disclosure_class'',
       rl_fabric_payload_class = dget_null d ''fabric_payload_class'', rl_correction_mapping = dget_null d ''correction_mapping'',
       rl_tombstone_mapping = dget_null d ''tombstone_mapping'', rl_not_claimed = nonclaims,
       rl_manifest_digest = dget_null d ''manifest_digest''\<rparr>
     in bindR (validate_ral L m) (\<lambda>_. Inr m)))"

section \<open>The pin of the source schema\<close>

definition verify_ral_schema_pin :: "lib \<Rightarrow> RalAdapterManifest \<Rightarrow> string \<Rightarrow> dict res" where
  "verify_ral_schema_pin L m b =
     (if \<not> py_eq (JInt (int (length b))) (rl_source_schema_bytes m) \<or> rl_source_schema_sha256 m \<noteq> JStr (sha256_hex L b)
      then Inl (Coded ''ral_schema_digest_mismatch'')
      else case loads_strict b of
        Inl e \<Rightarrow> Inl (Coded ''ral_schema_invalid'')
      | Inr (JObj d) \<Rightarrow> if py_eq (dget_null d ''$id'') (rl_source_schema_id m) then Inr d
          else Inl (Coded ''ral_schema_id_mismatch'')
      | Inr v \<Rightarrow> Inl (Coded ''ral_schema_id_mismatch''))"

section \<open>The event of a view\<close>

definition ral_view :: "lib \<Rightarrow> string \<Rightarrow> dict res" where
  "ral_view L b = (case loads_strict b of
      Inl e \<Rightarrow> Inl (Coded ''ral_view_invalid'')
    | Inr (JObj d) \<Rightarrow> bindR (canonical_bytes L (JObj d)) (\<lambda>c. if b \<noteq> c then Inl (Coded ''ral_view_not_canonical'') else Inr d)
    | Inr v \<Rightarrow> Inl (Coded ''ral_view_not_canonical''))"

text \<open>\<open>format\<close> of the supported template; another mapping, which no accepted manifest has, is followed no further.\<close>

definition ral_subject :: "RalAdapterManifest \<Rightarrow> string \<Rightarrow> dict \<Rightarrow> string res" where
  "ral_subject m realm_id d =
     (if py_eq (rl_subject_mapping m) (JObj SUBJECT_MAPPING)
      then Inr (''ral-public-view:'' @ realm_id @ '':'' @ the_str (dget_null d ''view_id''))
      else Inl (Untyped ''subject_mapping''))"

definition ral_event_dict ::
    "RalAdapterManifest \<Rightarrow> string \<Rightarrow> string \<Rightarrow> RealmRef \<Rightarrow> ReplicaRef \<Rightarrow> int \<Rightarrow> dict" where
  "ral_event_dict m digest subject realm replica replica_seq =
     [(''schema'', JStr ''pmw-federated-event/v1''), (''event_id'', JStr (''event:ral-public-view:'' @ digest)),
      (''event_kind'', rl_carrier_event_kind m), (''subject_ref'', JStr subject),
      (''realm_ref'', JObj (realm_to_dict realm)), (''replica_ref'', JObj (replica_to_dict replica)),
      (''replica_seq'', JInt replica_seq), (''causal_parents'', JList []), (''claimed_actor_ref'', JNull),
      (''claimed_instance_ref'', JNull), (''authority_ref'', JNull),
      (''payload_ref'', JStr (''payloads/'' @ digest @ ''.json'')), (''payload_sha256'', JStr (upper digest)),
      (''payload_media_type'', JStr ''application/json''), (''fabric_payload_class'', rl_fabric_payload_class m),
      (''created_time_ref'', JNull), (''temporal_evidence_status'', JStr ''unmeasured''),
      (''local_recorded_at'', JStr ''unmeasured''), (''correction_of'', JNull), (''withdraws'', JNull),
      (''not_claimed'', str_list_json (sort REQUIRED_NONCLAIMS))]"

definition ral_view_to_event ::
    "lib \<Rightarrow> RalAdapterManifest \<Rightarrow> string \<Rightarrow> RealmRef \<Rightarrow> ReplicaRef \<Rightarrow> int \<Rightarrow> FederatedEvent res" where
  "ral_view_to_event L m b realm replica replica_seq =
     bindR (ral_view L b) (\<lambda>d.
     bindR (check (dget_null d ''schema'' = JStr ''limen.ral-view/0.2'' \<and> nonempty_str (dget_null d ''view_id''))
              ''ral_view_contract_mismatch'') (\<lambda>_.
     bindR (check (''ledger_head'' \<in> set (dkeys d) \<and> ''not_claimed'' \<in> set (dkeys d)) ''ral_view_contract_mismatch'') (\<lambda>_.
     bindR (ral_subject m (rm_realm_id realm) d) (\<lambda>subject.
     event_from_dict (ral_event_dict m (sha256_hex L b) subject realm replica replica_seq)))))"

section \<open>What a view becomes\<close>

definition ral_event :: "lib \<Rightarrow> RalAdapterManifest \<Rightarrow> string \<Rightarrow> dict \<Rightarrow> RealmRef \<Rightarrow> ReplicaRef \<Rightarrow> int \<Rightarrow> FederatedEvent" where
  "ral_event L m b d realm replica n = \<lparr>fe_event_id = ''event:ral-public-view:'' @ sha256_hex L b,
     fe_event_kind = the_str (rl_carrier_event_kind m),
     fe_subject_ref = ''ral-public-view:'' @ rm_realm_id realm @ '':'' @ the_str (dget_null d ''view_id''),
     fe_realm_ref = realm, fe_replica_ref = replica, fe_replica_seq = n, fe_causal_parents = [],
     fe_claimed_actor_ref = None, fe_claimed_instance_ref = None, fe_authority_ref = None,
     fe_payload_ref = ''payloads/'' @ sha256_hex L b @ ''.json'', fe_payload_sha256 = upper_sha256 L b,
     fe_payload_media_type = ''application/json'', fe_fabric_payload_class = ''P0'', fe_created_time_ref = None,
     fe_temporal_evidence_status = ''unmeasured'', fe_local_recorded_at = ''unmeasured'', fe_correction_of = None,
     fe_withdraws = None, fe_not_claimed = sort REQUIRED_NONCLAIMS\<rparr>"

definition view_contract :: "dict \<Rightarrow> bool" where
  "view_contract d \<longleftrightarrow> dget_null d ''schema'' = JStr ''limen.ral-view/0.2'' \<and> nonempty_str (dget_null d ''view_id'')
     \<and> ''ledger_head'' \<in> set (dkeys d) \<and> ''not_claimed'' \<in> set (dkeys d)"

lemma ral_from_dict_Inr: "ral_from_dict L x = Inr m \<Longrightarrow> validate_ral L m = Inr ()"
  unfolding ral_from_dict_def Let_def by (elim bindR_InrE; simp)

lemma validate_ral_Inr:
  assumes v: "validate_ral L m = Inr ()"
  shows "\<exists>k. rl_carrier_event_kind m = JStr k \<and> k \<noteq> []" and "rl_fabric_payload_class m = JStr ''P0''"
    and "py_eq (rl_subject_mapping m) (JObj SUBJECT_MAPPING)" and "\<exists>h. rl_source_schema_sha256 m = JStr h"
    and "\<exists>n. rl_source_schema_bytes m = JInt n \<and> 1 \<le> n"
proof -
  from v show "rl_fabric_payload_class m = JStr ''P0''" "py_eq (rl_subject_mapping m) (JObj SUBJECT_MAPPING)"
    "\<exists>h. rl_source_schema_sha256 m = JStr h"
    unfolding validate_ral_def hex_match_Inr by (elim bindR_InrE; simp only: check_Inr hex_match_Inr; blast)+
  from v have s: "ral_strings_ok m" and n: "is_int (rl_source_schema_bytes m) \<and> 1 \<le> the_int (rl_source_schema_bytes m)"
    unfolding validate_ral_def hex_match_Inr by (elim bindR_InrE; simp only: check_Inr hex_match_Inr; blast)+
  from s show "\<exists>k. rl_carrier_event_kind m = JStr k \<and> k \<noteq> []"
    by (auto simp: ral_strings_ok_def nonempty_str_def split: json.splits)
  from n show "\<exists>n. rl_source_schema_bytes m = JInt n \<and> 1 \<le> n" by (auto simp: json_tests split: json.splits)
qed

lemma realm_parse_iff: "realm_from_dict (realm_to_dict r) = Inr r' \<longleftrightarrow> r' = r \<and> realm_ok r"
proof
  assume a: "realm_from_dict (realm_to_dict r) = Inr r'"
  then have "r' = r"
    by (cases r) (auto simp: realm_from_dict_def realm_to_dict_def str_field_def strs_json_field dget_null_def bindR_Inr_iff)
  with realm_from_dict_ok[OF a] show "r' = r \<and> realm_ok r" by simp
qed (simp add: realm_parse)

lemma replica_parse_iff: "replica_from_dict (replica_to_dict r) = Inr r' \<longleftrightarrow> r' = r \<and> replica_ok r"
proof
  assume a: "replica_from_dict (replica_to_dict r) = Inr r'"
  then have "r' = r"
    by (cases r) (auto simp: replica_from_dict_def replica_to_dict_def str_field_def strs_json_field dget_null_def bindR_Inr_iff)
  with replica_from_dict_ok[OF a] show "r' = r \<and> replica_ok r" by simp
qed (simp add: replica_parse)

lemma event_parse_iff: "event_from_dict (event_to_dict e) = Inr e' \<longleftrightarrow> e' = e \<and> event_ok e"
proof
  assume a: "event_from_dict (event_to_dict e) = Inr e'"
  then have "e' = e"
    unfolding event_from_dict_def Let_def event_fields
    by (elim bindR_InrE) (cases e, auto simp: realm_parse_iff replica_parse_iff json_tests)
  with event_from_dict_ok[OF a] show "e' = e \<and> event_ok e" by simp
qed (simp add: event_parse)

lemma hex_dots: "list_all is_hex_lower h \<Longrightarrow> \<not> contains (''payloads/'' @ h @ ''.json'') ''..''"
proof -
  assume h: "list_all is_hex_lower h"
  have "\<not> contains (h @ ''.json'') ''..''"
    using h by (induction h) (auto simp: is_hex_lower_def is_digit_def in_rng_def byte_def)
  then show ?thesis by simp
qed

lemma hex_backslash: "list_all is_hex_lower h \<Longrightarrow> \<not> contains (''payloads/'' @ h @ ''.json'') [CHR 0x5C]"
proof -
  assume h: "list_all is_hex_lower h"
  have "\<not> contains (h @ ''.json'') [CHR 0x5C]"
    using h by (induction h) (auto simp: is_hex_lower_def is_digit_def in_rng_def byte_def)
  then show ?thesis by simp
qed

lemma upper_hex64: "lib_ok L \<Longrightarrow> is_hex64 (upper_sha256 L b)"
proof -
  assume "lib_ok L"
  then have "list_all is_hex_lower (sha256_hex L b)" "length (sha256_hex L b) = 64" by (simp_all add: lib_okD)
  then show ?thesis
    by (auto simp: is_hex64_def upper_sha256_def upper_def list_all_iff upper_char_def is_hex_lower_def is_hex_upper_def
        is_digit_def in_rng_def byte_def)
qed

lemma ral_event_ok:
  assumes "lib_ok L"
  shows "event_ok (ral_event L m b d realm replica n) \<longleftrightarrow>
    realm_ok realm \<and> replica_ok replica \<and> 1 \<le> n \<and> rm_realm_id realm = rp_realm_id replica"
  unfolding event_ok_def event_checks_def bindR_Inr_iff check_Inr
  using upper_hex64[OF assms, of b] hex_dots[of "sha256_hex L b"] hex_backslash[of "sha256_hex L b"] lib_okD(4)[OF assms, of b]
  by (simp add: ral_event_def temporal_check_def check_def)

lemma ral_event_dict:
  assumes "rl_carrier_event_kind m = JStr k" and "rl_fabric_payload_class m = JStr ''P0''"
  shows "ral_event_dict m (sha256_hex L b) (''ral-public-view:'' @ rm_realm_id realm @ '':'' @ the_str (dget_null d ''view_id''))
    realm replica n = event_to_dict (ral_event L m b d realm replica n)"
  using assms
  by (simp add: ral_event_dict_def event_to_dict_def ral_event_def upper_sha256_def opt_json_def str_list_json_def the_str_def)

lemma ral_view_to_event_sound:
  assumes "ral_from_dict L x = Inr m" and "lib_ok L"
  shows "ral_view_to_event L m b realm replica n = Inr e \<longleftrightarrow>
    (\<exists>d. ral_view L b = Inr d \<and> view_contract d \<and> realm_ok realm \<and> replica_ok replica \<and> 1 \<le> n
      \<and> rm_realm_id realm = rp_realm_id replica \<and> e = ral_event L m b d realm replica n)"
proof -
  have v: "validate_ral L m = Inr ()" by (rule ral_from_dict_Inr[OF assms(1)])
  from validate_ral_Inr(1)[OF v] obtain k where k: "rl_carrier_event_kind m = JStr k" by blast
  have "event_from_dict (ral_event_dict m (sha256_hex L b)
      (''ral-public-view:'' @ rm_realm_id realm @ '':'' @ the_str (dget_null d ''view_id'')) realm replica n) = Inr e \<longleftrightarrow>
    e = ral_event L m b d realm replica n \<and> realm_ok realm \<and> replica_ok replica \<and> 1 \<le> n
      \<and> rm_realm_id realm = rp_realm_id replica" for d
    unfolding ral_event_dict[OF k validate_ral_Inr(2)[OF v]] event_parse_iff ral_event_ok[OF assms(2)] ..
  then have "ral_view_to_event L m b realm replica n = Inr e \<longleftrightarrow>
    (\<exists>d. ral_view L b = Inr d \<and> view_contract d \<and> (e = ral_event L m b d realm replica n \<and> realm_ok realm \<and> replica_ok replica
      \<and> 1 \<le> n \<and> rm_realm_id realm = rp_realm_id replica))"
    unfolding ral_view_to_event_def bindR_Inr_iff check_Inr ral_subject_def if_P[OF validate_ral_Inr(3)[OF v]]
    by (simp add: view_contract_def)
  then show ?thesis by blast
qed

text \<open>
  With an accepted manifest, a view becomes an event exactly when its bytes are canonical JSON, it meets the
  contract of a view, the realm and the replica are well formed and belong together and the sequence number is
  positive; and then the event is determined by the bytes: its id, payload path and digest come from their hash.
\<close>

theorem ral_view_to_event_iff:
  assumes "ral_from_dict L x = Inr m" and "lib_ok L"
  shows "ral_view_to_event L m b realm replica n = Inr e \<longleftrightarrow>
    (\<exists>d. ral_view L b = Inr d \<and> view_contract d \<and> realm_ok realm \<and> replica_ok replica \<and> 1 \<le> n
      \<and> rm_realm_id realm = rp_realm_id replica \<and> e = ral_event L m b d realm replica n)"
  by (rule ral_view_to_event_sound[OF assms])

section \<open>Submission of a view\<close>

text \<open>Canonical bytes hold no control character.\<close>

definition high :: "string \<Rightarrow> bool" where
  "high s \<longleftrightarrow> list_all (\<lambda>c. 32 \<le> byte c) s"

lemma high_simps [simp]: "high []" "high (c # s) = (32 \<le> byte c \<and> high s)" "high (s @ t) = (high s \<and> high t)"
  by (simp_all add: high_def)

lemma high_digits: "list_all is_digit s \<Longrightarrow> high s"
  by (auto simp: high_def list_all_iff is_digit_def in_rng_def)

lemma high_hex_digit: "n < 16 \<Longrightarrow> 32 \<le> byte (hex_digit n)"
  by (auto simp: hex_digit_def byte_def)

lemma high_escape: "high (escape_char c)"
proof -
  have "byte c < 256" by (cases c) (simp add: byte_def)
  then have "byte c div 16 < 16" "byte c mod 16 < 16" by simp_all
  then have "32 \<le> byte (hex_digit (byte c div 16))" "32 \<le> byte (hex_digit (byte c mod 16))"
    by (simp_all add: high_hex_digit)
  then show ?thesis unfolding escape_char_def by (auto simp: byte_def)
qed

lemma high_quote [simp]: "high (quote_str s)"
proof -
  have "high (concat (map escape_char s))" by (induction s) (simp_all add: high_escape)
  then show ?thesis by (simp add: quote_str_def byte_def)
qed

lemma high_join: "list_all high xs \<Longrightarrow> high (join xs)"
  by (induction xs rule: join.induct) (simp_all add: byte_def)

lemma high_print: "high (print_json v)"
proof (induction v rule: print_json.induct)
  case (3 n)
  show ?case using high_digits[OF show_nat_digits] by (simp add: show_int_def byte_def)
next
  case (5 vs)
  then have "high (join (map print_json vs))" by (intro high_join) (simp add: list_all_iff)
  then show ?case by (simp add: byte_def)
next
  case (6 d)
  then have "high (join (map (\<lambda>kv. quote_str (fst kv) @ CHR '':'' # print_json (snd kv)) d))"
    by (intro high_join) (auto simp: list_all_iff byte_def)
  then show ?case by (simp add: byte_def)
qed (simp_all add: byte_def)

lemma canonical_text: "canonical_bytes L v = Inr b \<Longrightarrow> utf8_valid b \<and> \<not> has_control b"
proof -
  assume "canonical_bytes L v = Inr b"
  then obtain w where "b = print_json (sort_keys w)" "utf8_valid b" by (rule canonical_bytes_Inr)
  with high_print[of "sort_keys w"] show ?thesis by (auto simp: has_control_def list_ex_iff high_def list_all_iff)
qed

text \<open>
  C37: an event made of a public view and the bytes of the view pass the checks of submission of every store that
  allows the kind of the event, asks no authority for it and takes payloads of that size.
\<close>

theorem ral_view_submittable:
  assumes "ral_from_dict L x = Inr m" and "lib_ok L"
    and "ral_view_to_event L m b realm replica n = Inr e"
    and "fe_event_kind e \<in> set (cfg_allowed_event_kinds cfg)"
    and "fe_event_kind e \<notin> set (cfg_authority_required_event_kinds cfg)"
    and "int (length b) \<le> cfg_default_max_payload_bytes cfg"
  shows "validate_submission L cfg e b = Inr () \<and> event_ok e"
proof -
  from assms(3) obtain d where d: "ral_view L b = Inr d" "e = ral_event L m b d realm replica n"
    unfolding ral_view_to_event_sound[OF assms(1,2)] by blast
  from d(1) have "canonical_bytes L (JObj d) = Inr b"
    by (auto simp: ral_view_def bindR_Inr_iff split: sum.splits json.splits if_splits)
  from canonical_text[OF this] have "utf8_valid b" "\<not> has_control b" by simp_all
  moreover have "endswith (''payloads/'' @ sha256_hex L b @ ''.json'') ''.json''"
    by (auto simp: endswith_iff intro: exI[of _ "''payloads/'' @ sha256_hex L b"])
  moreover have "event_ok e" using assms(3) unfolding ral_view_to_event_def
    by (elim bindR_InrE) (rule event_from_dict_ok)
  ultimately show ?thesis
    using assms(4-6) by (simp add: d(2) validate_submission_def check_def ral_event_def expected_suffix_def authority_allowed_def)
qed

section \<open>An example\<close>

definition example_manifest :: RalAdapterManifest where
  "example_manifest = \<lparr>rl_schema = JStr ''pmw.ral-public-projection-adapter/v1'', rl_adapter_profile_id = JStr ''p'',
     rl_source_manifest_schema = JStr ''m'',
     rl_source_manifest_digest = JStr (''sha256:sedb-ral-json-nfc-codepoint-v1:'' @ replicate 64 CHR ''0''),
     rl_source_schema_id = JStr ''i'', rl_source_schema_version = JStr ''v'', rl_source_repository = JStr ''r'',
     rl_source_commit = JStr (replicate 40 CHR ''0''), rl_source_schema_bytes = JInt 1,
     rl_source_schema_sha256 = JStr (replicate 64 CHR ''0''), rl_source_profile_ref = JStr ''f'',
     rl_carrier_event_kind = JStr ''k'', rl_subject_mapping = JObj SUBJECT_MAPPING, rl_disclosure_class = JStr ''public'',
     rl_fabric_payload_class = JStr ''P0'', rl_correction_mapping = JStr ''source_semantics_preserved'',
     rl_tombstone_mapping = JStr ''source_semantics_preserved'', rl_not_claimed = map JStr RAL_NOT_CLAIMED,
     rl_manifest_digest = JStr (''sha256:'' @ ADAPTER_CANON @ '':'' @ replicate 64 CHR ''0'')\<rparr>"

definition example_view :: string where
  "example_view = projr (canonical_bytes plain_lib (JObj [(''ledger_head'', JStr ''h''), (''not_claimed'', JList []),
     (''schema'', JStr ''limen.ral-view/0.2''), (''view_id'', JStr ''v'')]))"

definition example_realm :: RealmRef where
  "example_realm = \<lparr>rm_realm_id = ''R'', rm_realm_kind = ''fixture'', rm_issuer = ''i'', rm_verification_status = ''claimed'',
     rm_evidence_refs = []\<rparr>"

definition example_replica :: ReplicaRef where
  "example_replica = \<lparr>rp_replica_id = ''P'', rp_realm_id = ''R'', rp_store_generation = ''g'',
     rp_verification_status = ''claimed'', rp_evidence_refs = []\<rparr>"

definition example_config :: FederationConfig where
  "example_config = \<lparr>cfg_local_realm_id = ''R'', cfg_local_replica_id = ''P'', cfg_allowed_source_roots = [''x''],
     cfg_allowed_event_kinds = [''k''], cfg_authority_required_event_kinds = [], cfg_allowed_authority_refs = [],
     cfg_default_max_payload_bytes = 4096, cfg_hard_max_payload_bytes = 4096, cfg_strict_reparse_checks = True\<rparr>"

lemma ral_parse: "validate_ral L m = Inr () \<Longrightarrow> ral_from_dict L (ral_to_dict m) = Inr m"
proof -
  assume v: "validate_ral L m = Inr ()"
  have k: "map fst (ral_to_dict m) = RAL_FIELDS" by (simp add: ral_to_dict_def RAL_FIELDS_def)
  have e: "exact RAL_FIELDS (ral_to_dict m) = Inr ()" by (simp add: exact_def dkeys_def k)
  show ?thesis unfolding ral_from_dict_def e using v
    by (cases m) (simp add: tuple_of_def dget_null_def ral_to_dict_def)
qed

lemma example_manifest_accepted: "ral_from_dict plain_lib (ral_to_dict example_manifest) = Inr example_manifest"
proof (rule ral_parse)
  have "isl (validate_ral plain_lib example_manifest) = False" by code_simp
  then show "validate_ral plain_lib example_manifest = Inr ()" by (cases "validate_ral plain_lib example_manifest") auto
qed

lemma ral_view_to_event_iff_witness:
  "\<exists>d. ral_view plain_lib example_view = Inr d \<and> view_contract d
    \<and> ral_view_to_event plain_lib example_manifest example_view example_realm example_replica 1
      = Inr (ral_event plain_lib example_manifest example_view d example_realm example_replica 1)"
proof -
  have "isl (ral_view_to_event plain_lib example_manifest example_view example_realm example_replica 1) = False" by code_simp
  then obtain e where e: "ral_view_to_event plain_lib example_manifest example_view example_realm example_replica 1 = Inr e"
    by (cases "ral_view_to_event plain_lib example_manifest example_view example_realm example_replica 1") auto
  with ral_view_to_event_iff[OF example_manifest_accepted plain_lib_lib_ok] show ?thesis by blast
qed

lemma ral_view_submittable_witness:
  "\<exists>e. ral_view_to_event plain_lib example_manifest example_view example_realm example_replica 1 = Inr e
    \<and> validate_submission plain_lib example_config e example_view = Inr ()"
proof -
  have c: "(case ral_view_to_event plain_lib example_manifest example_view example_realm example_replica 1 of
      Inl x \<Rightarrow> False | Inr e \<Rightarrow> fe_event_kind e = ''k'') \<and> length example_view \<le> 4096" by code_simp
  then obtain e where e: "ral_view_to_event plain_lib example_manifest example_view example_realm example_replica 1 = Inr e"
    "fe_event_kind e = ''k''"
    by (cases "ral_view_to_event plain_lib example_manifest example_view example_realm example_replica 1") auto
  have "validate_submission plain_lib example_config e example_view = Inr () \<and> event_ok e"
    using c e(2) by (intro ral_view_submittable[OF example_manifest_accepted plain_lib_lib_ok e(1)])
      (simp_all add: example_config_def)
  with e show ?thesis by blast
qed

end
