(* ===== verification/Fed_Inventory.thy ===== *)
theory Fed_Inventory
  imports Fed_Store "HOL-Library.Multiset"
begin

text \<open>
  \<open>src/eml_pmw/federation/inventory.py\<close>: the inventory of the events of a store, its dictionary and the checks
  on a received one, and the difference of two inventories. The JSON schema of an inventory, checked by the
  package \<open>jsonschema\<close>, is an argument; a field of another type than the schema demands is answered \<open>Untyped\<close>.
\<close>

section \<open>Records\<close>

definition INVENTORY_CANON :: string where
  "INVENTORY_CANON = ''pmw-federation-inventory-json-nfc-codepoint-v1''"

definition INVENTORY_NONCLAIMS :: "string list" where
  "INVENTORY_NONCLAIMS = [''payload_body_included'', ''bearer_token_included'', ''private_memory_included'',
     ''resident_identity_verified'', ''global_causal_order'', ''remote_adoption'']"

record InventoryEventRecord =
  ir_event_id :: string
  ir_event_digest :: string
  ir_replica_id :: string
  ir_store_generation :: string
  ir_replica_seq :: int
  ir_causal_parents :: "string list"
  ir_payload_sha256 :: string
  ir_payload_bytes :: int
  ir_fabric_payload_class :: string
  ir_availability :: string

record ReplicaRange =
  rr_replica_id :: string
  rr_store_generation :: string
  rr_minimum_sequence :: int
  rr_maximum_sequence :: int
  rr_event_count :: int

record FederationInventory =
  fi_schema :: string
  fi_inventory_id :: string
  fi_generated_by_realm_id :: string
  fi_events :: "InventoryEventRecord list"
  fi_replica_ranges :: "ReplicaRange list"
  fi_causal_heads :: "string list"
  fi_not_claimed :: "string list"
  fi_inventory_digest :: string

definition event_record_to_dict :: "InventoryEventRecord \<Rightarrow> dict" where
  "event_record_to_dict r =
     [(''event_id'', JStr (ir_event_id r)), (''event_digest'', JStr (ir_event_digest r)),
      (''replica_id'', JStr (ir_replica_id r)), (''store_generation'', JStr (ir_store_generation r)),
      (''replica_seq'', JInt (ir_replica_seq r)), (''causal_parents'', str_list_json (ir_causal_parents r)),
      (''payload_sha256'', JStr (ir_payload_sha256 r)), (''payload_bytes'', JInt (ir_payload_bytes r)),
      (''fabric_payload_class'', JStr (ir_fabric_payload_class r)), (''availability'', JStr (ir_availability r))]"

definition range_to_dict :: "ReplicaRange \<Rightarrow> dict" where
  "range_to_dict r =
     [(''replica_id'', JStr (rr_replica_id r)), (''store_generation'', JStr (rr_store_generation r)),
      (''minimum_sequence'', JInt (rr_minimum_sequence r)), (''maximum_sequence'', JInt (rr_maximum_sequence r)),
      (''event_count'', JInt (rr_event_count r))]"

definition inventory_to_dict :: "FederationInventory \<Rightarrow> dict" where
  "inventory_to_dict i =
     [(''schema'', JStr (fi_schema i)), (''inventory_id'', JStr (fi_inventory_id i)),
      (''generated_by_realm_id'', JStr (fi_generated_by_realm_id i)),
      (''events'', JList (map (\<lambda>r. JObj (event_record_to_dict r)) (fi_events i))),
      (''replica_ranges'', JList (map (\<lambda>r. JObj (range_to_dict r)) (fi_replica_ranges i))),
      (''causal_heads'', str_list_json (fi_causal_heads i)), (''not_claimed'', str_list_json (fi_not_claimed i)),
      (''inventory_digest'', JStr (fi_inventory_digest i))]"

definition inventory_bytes :: "lib \<Rightarrow> FederationInventory \<Rightarrow> string res" where
  "inventory_bytes L i = canonical_bytes L (JObj (inventory_to_dict i))"

definition inventory_digest :: "lib \<Rightarrow> dict \<Rightarrow> string res" where
  "inventory_digest L d = tagged_digest ''PMW-FEDERATION-INVENTORY'' INVENTORY_CANON L (JObj d)"

text \<open>\<open>digest.rsplit(":", 1)[-1]\<close>.\<close>

definition last_part :: "string \<Rightarrow> string" where
  "last_part s = last (split_on CHR '':'' s)"

definition inventory_id_of :: "string \<Rightarrow> string" where
  "inventory_id_of digest = ''inventory:sha256:'' @ last_part digest"

section \<open>Reading an inventory\<close>

definition int_field :: "dict \<Rightarrow> string \<Rightarrow> int res" where
  "int_field d f = (case dget_null d f of JInt n \<Rightarrow> Inr n | _ \<Rightarrow> Inl (Untyped f))"

definition event_record_from_dict :: "dict \<Rightarrow> InventoryEventRecord res" where
  "event_record_from_dict d =
     bindR (str_field d ''event_id'') (\<lambda>event_id.
     bindR (str_field d ''event_digest'') (\<lambda>digest.
     bindR (str_field d ''replica_id'') (\<lambda>replica_id.
     bindR (str_field d ''store_generation'') (\<lambda>generation.
     bindR (int_field d ''replica_seq'') (\<lambda>n.
     bindR (strs_field d ''causal_parents'') (\<lambda>parents.
     bindR (str_field d ''payload_sha256'') (\<lambda>sha.
     bindR (int_field d ''payload_bytes'') (\<lambda>size.
     bindR (str_field d ''fabric_payload_class'') (\<lambda>cls.
     bindR (str_field d ''availability'') (\<lambda>availability.
     Inr \<lparr>ir_event_id = event_id, ir_event_digest = digest, ir_replica_id = replica_id, ir_store_generation = generation,
       ir_replica_seq = n, ir_causal_parents = parents, ir_payload_sha256 = sha, ir_payload_bytes = size,
       ir_fabric_payload_class = cls, ir_availability = availability\<rparr>))))))))))"

definition range_from_dict :: "dict \<Rightarrow> ReplicaRange res" where
  "range_from_dict d =
     bindR (str_field d ''replica_id'') (\<lambda>replica_id.
     bindR (str_field d ''store_generation'') (\<lambda>generation.
     bindR (int_field d ''minimum_sequence'') (\<lambda>lo.
     bindR (int_field d ''maximum_sequence'') (\<lambda>hi.
     bindR (int_field d ''event_count'') (\<lambda>n.
     Inr \<lparr>rr_replica_id = replica_id, rr_store_generation = generation, rr_minimum_sequence = lo,
       rr_maximum_sequence = hi, rr_event_count = n\<rparr>)))))"

definition dicts_field :: "dict \<Rightarrow> string \<Rightarrow> (dict \<Rightarrow> 'a res) \<Rightarrow> 'a list res" where
  "dicts_field d f g = (case dget_null d f of
      JList vs \<Rightarrow> mapR (\<lambda>v. case v of JObj e \<Rightarrow> g e | _ \<Rightarrow> Inl (Untyped f)) vs
    | _ \<Rightarrow> Inl (Untyped f))"

definition inventory_checks :: "lib \<Rightarrow> FederationInventory \<Rightarrow> unit res" where
  "inventory_checks L i = (let core = ddel ''inventory_digest'' (inventory_to_dict i) in
     bindR (inventory_digest L core) (\<lambda>digest.
     bindR (check (digest = fi_inventory_digest i) ''inventory_digest_mismatch'') (\<lambda>_.
     bindR (inventory_digest L (ddel ''inventory_id'' core)) (\<lambda>identity.
     check (inventory_id_of identity = fi_inventory_id i) ''inventory_id_mismatch''))))"

definition inventory_from_dict :: "(json \<Rightarrow> bool) \<Rightarrow> lib \<Rightarrow> dict \<Rightarrow> FederationInventory res" where
  "inventory_from_dict schema_valid L d =
     bindR (check (schema_valid (JObj d)) ''inventory_schema_invalid'') (\<lambda>_.
     bindR (dicts_field d ''events'' event_record_from_dict) (\<lambda>es.
     bindR (dicts_field d ''replica_ranges'' range_from_dict) (\<lambda>ranges.
     bindR (str_field d ''schema'') (\<lambda>schema.
     bindR (str_field d ''inventory_id'') (\<lambda>inventory_id.
     bindR (str_field d ''generated_by_realm_id'') (\<lambda>realm.
     bindR (strs_field d ''causal_heads'') (\<lambda>hs.
     bindR (strs_field d ''not_claimed'') (\<lambda>nonclaims.
     bindR (str_field d ''inventory_digest'') (\<lambda>digest.
     let i = \<lparr>fi_schema = schema, fi_inventory_id = inventory_id, fi_generated_by_realm_id = realm, fi_events = es,
       fi_replica_ranges = ranges, fi_causal_heads = hs, fi_not_claimed = nonclaims, fi_inventory_digest = digest\<rparr>
     in bindR (inventory_checks L i) (\<lambda>_. Inr i))))))))))"

section \<open>Building an inventory\<close>

definition payload_size :: "files \<Rightarrow> FederatedEvent \<Rightarrow> int" where
  "payload_size fs e = (case map_of fs (payload_path e) of None \<Rightarrow> 0 | Some data \<Rightarrow> int (length data))"

definition event_record_of :: "lib \<Rightarrow> files \<Rightarrow> FederatedEvent \<Rightarrow> InventoryEventRecord" where
  "event_record_of L fs e = \<lparr>ir_event_id = fe_event_id e, ir_event_digest = core_digest L e,
     ir_replica_id = rp_replica_id (fe_replica_ref e), ir_store_generation = rp_store_generation (fe_replica_ref e),
     ir_replica_seq = fe_replica_seq e, ir_causal_parents = fe_causal_parents e, ir_payload_sha256 = fe_payload_sha256 e,
     ir_payload_bytes = payload_size fs e, ir_fabric_payload_class = fe_fabric_payload_class e,
     ir_availability = (if is_file fs (payload_path e) then ''available'' else ''unavailable'')\<rparr>"

definition range_key :: "FederatedEvent \<Rightarrow> string \<times> string" where
  "range_key e = (rp_replica_id (fe_replica_ref e), rp_store_generation (fe_replica_ref e))"

definition range_of :: "FederatedEvent list \<Rightarrow> string \<times> string \<Rightarrow> ReplicaRange" where
  "range_of es key = (let ns = map fe_replica_seq (filter (\<lambda>e. range_key e = key) es)
     in \<lparr>rr_replica_id = fst key, rr_store_generation = snd key, rr_minimum_sequence = Min (set ns),
       rr_maximum_sequence = Max (set ns), rr_event_count = int (length ns)\<rparr>)"

definition ranges_of :: "FederatedEvent list \<Rightarrow> ReplicaRange list" where
  "ranges_of es = map (range_of es) (sorted_set (map range_key es))"

definition heads_of :: "FederatedEvent list \<Rightarrow> string list" where
  "heads_of es = sort (map fe_event_id (filter (\<lambda>e. fe_event_id e \<notin> set (concat (map fe_causal_parents es))) es))"

definition inventory_base :: "string \<Rightarrow> InventoryEventRecord list \<Rightarrow> ReplicaRange list \<Rightarrow> string list \<Rightarrow> dict" where
  "inventory_base realm records ranges hs =
     [(''schema'', JStr ''pmw-federation-inventory/v1''), (''generated_by_realm_id'', JStr realm),
      (''events'', JList (map (\<lambda>r. JObj (event_record_to_dict r)) records)),
      (''replica_ranges'', JList (map (\<lambda>r. JObj (range_to_dict r)) ranges)),
      (''causal_heads'', str_list_json hs), (''not_claimed'', str_list_json INVENTORY_NONCLAIMS)]"

definition inventory_of :: "lib \<Rightarrow> string \<Rightarrow> files \<Rightarrow> FederatedEvent list \<Rightarrow> FederationInventory res" where
  "inventory_of L realm fs es =
     (let records = map (event_record_of L fs) es; ranges = ranges_of es; hs = heads_of es;
          base = inventory_base realm records ranges hs
      in bindR (inventory_digest L base) (\<lambda>identity.
         bindR (inventory_digest L (base @ [(''inventory_id'', JStr (inventory_id_of identity))])) (\<lambda>digest.
         Inr \<lparr>fi_schema = ''pmw-federation-inventory/v1'', fi_inventory_id = inventory_id_of identity,
           fi_generated_by_realm_id = realm, fi_events = records, fi_replica_ranges = ranges, fi_causal_heads = hs,
           fi_not_claimed = INVENTORY_NONCLAIMS, fi_inventory_digest = digest\<rparr>)))"

definition build_inventory :: "lib \<Rightarrow> FederationConfig \<Rightarrow> (disk, FederationInventory) op" where
  "build_inventory L cfg = bindS (events L) (\<lambda>es. bindS (getS d_files) (\<lambda>fs.
     liftS (inventory_of L (cfg_local_realm_id cfg) fs es)))"

section \<open>Difference\<close>

record InventoryDiff =
  vd_missing_from_local :: "string list"
  vd_missing_from_remote :: "string list"
  vd_digest_mismatches :: "string list"

text \<open>\<open>{record.event_id: record for record in events}\<close>: of two records of an id the last counts.\<close>

definition records_of :: "FederationInventory \<Rightarrow> string \<Rightarrow> InventoryEventRecord option" where
  "records_of i = map_of (rev (map (\<lambda>r. (ir_event_id r, r)) (fi_events i)))"

definition event_ids_of :: "FederationInventory \<Rightarrow> string list" where
  "event_ids_of i = map ir_event_id (fi_events i)"

definition diff_inventories :: "FederationInventory \<Rightarrow> FederationInventory \<Rightarrow> InventoryDiff" where
  "diff_inventories lhs rhs = \<lparr>
     vd_missing_from_local = sorted_set (filter (\<lambda>k. k \<notin> set (event_ids_of lhs)) (event_ids_of rhs)),
     vd_missing_from_remote = sorted_set (filter (\<lambda>k. k \<notin> set (event_ids_of rhs)) (event_ids_of lhs)),
     vd_digest_mismatches = sorted_set (filter (\<lambda>k. k \<in> set (event_ids_of rhs)
        \<and> map_option ir_event_digest (records_of lhs k) \<noteq> map_option ir_event_digest (records_of rhs k)) (event_ids_of lhs))\<rparr>"

section \<open>The order of keys does not matter to a digest\<close>

lemma normalize_items_map:
  assumes "\<And>k. k \<in> set (map fst d) \<Longrightarrow> f k = k" and "distinct (map fst d)" and "set seen \<inter> set (map fst d) = {}"
  shows "normalize_items f seen d = Inr e \<longleftrightarrow>
    (\<forall>kv\<in>set d. \<not> isl (normalize f (snd kv))) \<and> e = map (\<lambda>kv. (fst kv, projr (normalize f (snd kv)))) d"
  using assms
proof (induction d arbitrary: seen e)
  case (Cons kv d)
  have ih: "normalize_items f (fst kv # seen) d = Inr e' \<longleftrightarrow>
      (\<forall>kv\<in>set d. \<not> isl (normalize f (snd kv))) \<and> e' = map (\<lambda>kv. (fst kv, projr (normalize f (snd kv)))) d" for e'
    using Cons.prems by (intro Cons.IH) auto
  have k: "f (fst kv) = fst kv" "fst kv \<notin> set seen" using Cons.prems by auto
  show ?case
    by (cases kv; cases "normalize f (snd kv)") (use ih k in \<open>auto simp: bindR_Inr_iff\<close>)
qed auto

lemma sort_key_mset: "mset xs = mset ys \<Longrightarrow> distinct (map fst xs) \<Longrightarrow> sort_key fst xs = sort_key fst ys"
  by (intro sort_key_inj_key_eq) (simp_all add: distinct_map)

text \<open>Two dicts with the same items, their keys in normal form, have the same canonical bytes.\<close>

lemma canonical_permute:
  assumes b: "canonical_bytes L (JObj d) = Inr b" and perm: "mset d = mset d'" and keys: "distinct (map fst d)"
    and fixed: "\<And>k. k \<in> set (map fst d) \<Longrightarrow> nfc L k = k"
  shows "canonical_bytes L (JObj d') = Inr b"
proof -
  let ?g = "\<lambda>kv. (fst kv, projr (normalize (nfc L) (snd kv)))" and ?s = "\<lambda>kv. (fst kv, sort_keys (snd kv))"
  from b obtain w where w: "normalize (nfc L) (JObj d) = Inr w" "ints_ok w" "b = print_json (sort_keys w)" "utf8_valid b"
    by (rule canonical_bytes_Inr)
  have set: "set d' = set d" using perm by (rule mset_eq_setD[symmetric])
  have "mset (map fst d) = mset (map fst d')" using perm by simp
  then have keys': "distinct (map fst d')" using keys by (metis mset_eq_imp_distinct_iff)
  from w(1) have e: "\<forall>kv\<in>set d. \<not> isl (normalize (nfc L) (snd kv))" "w = JObj (map ?g d)"
    using normalize_items_map[of d "nfc L" "[]"] fixed keys by (auto simp: bindR_Inr_iff)
  with set have "normalize (nfc L) (JObj d') = Inr (JObj (map ?g d'))"
    using normalize_items_map[of d' "nfc L" "[]" "map ?g d'"] fixed keys' by auto
  moreover have "ints_ok (JObj (map ?g d'))" using w(2) e(2) set by (auto simp: list_all_iff)
  moreover have "sort_keys (JObj (map ?g d')) = sort_keys w"
  proof -
    have "mset (map ?s (map ?g d')) = mset (map ?s (map ?g d))" using perm by simp
    moreover have "distinct (map fst (map ?s (map ?g d')))" using keys' by (simp add: o_def)
    ultimately have "sort_key fst (map ?s (map ?g d')) = sort_key fst (map ?s (map ?g d))" by (rule sort_key_mset)
    then show ?thesis by (simp only: e(2) sort_keys.simps(2))
  qed
  ultimately show ?thesis using w(3,4) by (simp only: canonical_bytes_def Let_def bindR_simps if_True if_False not_True_eq_False)
qed

section \<open>An inventory is accepted by its reader\<close>

lemma int_field_simp [simp]: "dget_null d f = JInt n \<Longrightarrow> int_field d f = Inr n"
  by (simp add: int_field_def)

lemma event_record_parse: "event_record_from_dict (event_record_to_dict r) = Inr r"
  by (cases r) (simp add: event_record_from_dict_def event_record_to_dict_def str_field_def int_field_def strs_json_field
      dget_null_def)

lemma range_parse: "range_from_dict (range_to_dict r) = Inr r"
  by (cases r) (simp add: range_from_dict_def range_to_dict_def str_field_def int_field_def dget_null_def)

lemma dicts_parse:
  assumes "dget_null d f = JList (map (\<lambda>r. JObj (to r)) rs)" and "\<And>r. parse (to r) = Inr r"
  shows "dicts_field d f parse = Inr rs"
proof -
  have "mapR (\<lambda>v. case v of JObj e \<Rightarrow> parse e | _ \<Rightarrow> Inl (Untyped f)) (map (\<lambda>r. JObj (to r)) rs) = Inr rs"
    by (induction rs) (simp_all add: assms(2))
  with assms(1) show ?thesis by (simp add: dicts_field_def)
qed

lemma inventory_fields:
  "dget_null (inventory_to_dict i) ''schema'' = JStr (fi_schema i)"
  "dget_null (inventory_to_dict i) ''inventory_id'' = JStr (fi_inventory_id i)"
  "dget_null (inventory_to_dict i) ''generated_by_realm_id'' = JStr (fi_generated_by_realm_id i)"
  "dget_null (inventory_to_dict i) ''events'' = JList (map (\<lambda>r. JObj (event_record_to_dict r)) (fi_events i))"
  "dget_null (inventory_to_dict i) ''replica_ranges'' = JList (map (\<lambda>r. JObj (range_to_dict r)) (fi_replica_ranges i))"
  "dget_null (inventory_to_dict i) ''causal_heads'' = str_list_json (fi_causal_heads i)"
  "dget_null (inventory_to_dict i) ''not_claimed'' = str_list_json (fi_not_claimed i)"
  "dget_null (inventory_to_dict i) ''inventory_digest'' = JStr (fi_inventory_digest i)"
  by (simp_all add: dget_null_def inventory_to_dict_def)

lemma inventory_parse:
  assumes "schema_valid (JObj (inventory_to_dict i))" and "inventory_checks L i = Inr ()"
  shows "inventory_from_dict schema_valid L (inventory_to_dict i) = Inr i"
proof -
  have "dicts_field (inventory_to_dict i) ''events'' event_record_from_dict = Inr (fi_events i)"
    "dicts_field (inventory_to_dict i) ''replica_ranges'' range_from_dict = Inr (fi_replica_ranges i)"
    by (rule dicts_parse[OF inventory_fields(4) event_record_parse], rule dicts_parse[OF inventory_fields(5) range_parse])
  moreover have "str_field (inventory_to_dict i) ''schema'' = Inr (fi_schema i)"
    "str_field (inventory_to_dict i) ''inventory_id'' = Inr (fi_inventory_id i)"
    "str_field (inventory_to_dict i) ''generated_by_realm_id'' = Inr (fi_generated_by_realm_id i)"
    "strs_field (inventory_to_dict i) ''causal_heads'' = Inr (fi_causal_heads i)"
    "strs_field (inventory_to_dict i) ''not_claimed'' = Inr (fi_not_claimed i)"
    "str_field (inventory_to_dict i) ''inventory_digest'' = Inr (fi_inventory_digest i)"
    by (simp_all add: str_field_def strs_json_field inventory_fields)
  moreover define j where "j = \<lparr>fi_schema = fi_schema i, fi_inventory_id = fi_inventory_id i,
      fi_generated_by_realm_id = fi_generated_by_realm_id i, fi_events = fi_events i,
      fi_replica_ranges = fi_replica_ranges i, fi_causal_heads = fi_causal_heads i, fi_not_claimed = fi_not_claimed i,
      fi_inventory_digest = fi_inventory_digest i\<rparr>"
  ultimately have "inventory_from_dict schema_valid L (inventory_to_dict i) = bindR (inventory_checks L j) (\<lambda>_. Inr j)"
    using assms(1) by (simp add: inventory_from_dict_def check_def Let_def)
  moreover have "j = i" unfolding j_def by (cases i) simp
  ultimately show ?thesis using assms(2) by simp
qed

lemma ascii_keys: "lib_ok L \<Longrightarrow> list_all ascii (map fst d) \<Longrightarrow> k \<in> set (map fst d) \<Longrightarrow> nfc L k = k"
  by (auto simp: list_all_iff lib_okD(2))

lemma inventory_of_checks:
  assumes "inventory_of L realm fs es = Inr i" and "lib_ok L"
  shows "inventory_checks L i = Inr ()"
proof -
  define records ranges hs where "records = map (event_record_of L fs) es" and "ranges = ranges_of es" and "hs = heads_of es"
  define base where "base = inventory_base realm records ranges hs"
  from assms(1) obtain identity digest where identity: "inventory_digest L base = Inr identity"
    and digest: "inventory_digest L (base @ [(''inventory_id'', JStr (inventory_id_of identity))]) = Inr digest"
    and i: "i = \<lparr>fi_schema = ''pmw-federation-inventory/v1'', fi_inventory_id = inventory_id_of identity,
      fi_generated_by_realm_id = realm, fi_events = records, fi_replica_ranges = ranges, fi_causal_heads = hs,
      fi_not_claimed = INVENTORY_NONCLAIMS, fi_inventory_digest = digest\<rparr>"
    by (auto simp: inventory_of_def Let_def bindR_Inr_iff records_def ranges_def hs_def base_def)
  let ?core = "ddel ''inventory_digest'' (inventory_to_dict i)"
  let ?with = "base @ [(''inventory_id'', JStr (inventory_id_of identity))]"
  have core: "mset ?with = mset ?core" "ddel ''inventory_id'' ?core = base"
    by (simp_all add: i inventory_to_dict_def ddel_def base_def inventory_base_def)
  have keys: "distinct (map fst ?with)" "list_all ascii (map fst ?with)"
    by (simp_all add: base_def inventory_base_def) code_simp
  from digest obtain b where b: "canonical_bytes L (JObj ?with) = Inr b"
    by (auto simp: inventory_digest_def tagged_digest_def bindR_Inr_iff)
  have "canonical_bytes L (JObj ?core) = Inr b"
    by (rule canonical_permute[OF b core(1) keys(1) ascii_keys[OF assms(2) keys(2)]])
  with b digest have "inventory_digest L ?core = Inr digest" by (simp add: inventory_digest_def tagged_digest_def)
  with identity show ?thesis by (simp add: inventory_checks_def Let_def core(2)) (simp add: i check_def)
qed

text \<open>
  An inventory that a store builds is accepted by \<open>from_dict\<close> from its own dictionary, as the same inventory,
  wherever the schema of the contract admits it: the digest and the id are recomputed over another order of keys.
\<close>

theorem inventory_round_trip:
  assumes "build_inventory L cfg D = (D', Inr i)" and "lib_ok L" and "schema_valid (JObj (inventory_to_dict i))"
  shows "inventory_from_dict schema_valid L (inventory_to_dict i) = Inr i"
proof -
  from assms(1) obtain fs es where "inventory_of L (cfg_local_realm_id cfg) fs es = Inr i"
    by (auto simp: build_inventory_def elim!: bindS_InrE)
  then have "inventory_checks L i = Inr ()" using assms(2) by (rule inventory_of_checks)
  with assms(3) show ?thesis by (rule inventory_parse)
qed

text \<open>The events of a range record, and what it must say of them.\<close>

definition in_range :: "ReplicaRange \<Rightarrow> FederatedEvent \<Rightarrow> bool" where
  "in_range r e \<longleftrightarrow> rp_replica_id (fe_replica_ref e) = rr_replica_id r
     \<and> rp_store_generation (fe_replica_ref e) = rr_store_generation r"

definition range_exact :: "FederatedEvent list \<Rightarrow> ReplicaRange \<Rightarrow> bool" where
  "range_exact es r \<longleftrightarrow> rr_event_count r = int (length (filter (in_range r) es)) \<and> 0 < rr_event_count r
     \<and> (\<exists>e\<in>set es. in_range r e \<and> fe_replica_seq e = rr_minimum_sequence r)
     \<and> (\<exists>e\<in>set es. in_range r e \<and> fe_replica_seq e = rr_maximum_sequence r)
     \<and> (\<forall>e\<in>set es. in_range r e \<longrightarrow> rr_minimum_sequence r \<le> fe_replica_seq e \<and> fe_replica_seq e \<le> rr_maximum_sequence r)"

lemma in_range_of: "in_range (range_of es key) = (\<lambda>e. range_key e = key)"
  by (cases key) (auto simp: in_range_def range_of_def range_key_def Let_def fun_eq_iff)

lemma range_of_exact:
  assumes "e \<in> set es" and "range_key e = key"
  shows "range_exact es (range_of es key)"
proof -
  define ns where "ns = map fe_replica_seq (filter (\<lambda>e. range_key e = key) es)"
  have ns: "set ns \<noteq> {}" "finite (set ns)" using assms by (auto simp: ns_def filter_empty_conv)
  have r: "rr_minimum_sequence (range_of es key) = Min (set ns)" "rr_maximum_sequence (range_of es key) = Max (set ns)"
    "rr_event_count (range_of es key) = int (length ns)" by (simp_all add: range_of_def ns_def Let_def)
  have m: "n \<in> set ns \<longleftrightarrow> (\<exists>e\<in>set es. range_key e = key \<and> fe_replica_seq e = n)" for n by (auto simp: ns_def)
  have "length ns = length (filter (\<lambda>e. range_key e = key) es)" "0 < length ns" using ns(1) by (simp add: ns_def, auto)
  moreover have "Min (set ns) \<in> set ns" "Max (set ns) \<in> set ns" using ns by simp_all
  moreover have "Min (set ns) \<le> fe_replica_seq e \<and> fe_replica_seq e \<le> Max (set ns)"
    if "e \<in> set es" "range_key e = key" for e using that m by (intro conjI Min_le Max_ge ns(2)) blast+
  ultimately show ?thesis unfolding range_exact_def in_range_of r m by simp
qed

lemma ranges_exact:
  "map (\<lambda>r. (rr_replica_id r, rr_store_generation r)) (ranges_of es) = sorted_set (map range_key es)"
  "r \<in> set (ranges_of es) \<Longrightarrow> range_exact es r"
proof -
  have "(\<lambda>key. (rr_replica_id (range_of es key), rr_store_generation (range_of es key))) = id"
    by (auto simp: range_of_def Let_def fun_eq_iff)
  then show "map (\<lambda>r. (rr_replica_id r, rr_store_generation r)) (ranges_of es) = sorted_set (map range_key es)"
    by (simp add: ranges_of_def o_def)
  assume "r \<in> set (ranges_of es)"
  then obtain e where "e \<in> set es" "r = range_of es (range_key e)" by (auto simp: ranges_of_def)
  then show "range_exact es r" using range_of_exact by simp
qed

text \<open>
  C38: an inventory lists exactly the events of the store, in their order, each with its digest; every one of them
  is available, with the size of the payload whose digest the event has, so that no inventory of this code ever
  says \<open>unavailable\<close>. There is one range for each replica and generation of the events, in ascending order, with the
  least and the greatest of their sequence numbers and the number of the events. The heads are the ids that are no
  event's parent, in ascending order; where the history is a valid graph they are those of \<open>derive_heads\<close>.
\<close>

theorem inventory_matches_store:
  assumes "build_inventory L cfg D = (D', Inr i)"
  shows "D' = D \<and> (\<exists>es. events L D = (D, Inr es)
    \<and> map ir_event_id (fi_events i) = map fe_event_id es \<and> map ir_event_digest (fi_events i) = map (core_digest L) es
    \<and> (\<forall>r\<in>set (fi_events i). ir_availability r = ''available'' \<and> (\<exists>e\<in>set es. \<exists>data. ir_event_id r = fe_event_id e
        \<and> map_of (d_files D) (payload_path e) = Some data \<and> upper_sha256 L data = ir_payload_sha256 r
        \<and> ir_payload_bytes r = int (length data)))
    \<and> map (\<lambda>r. (rr_replica_id r, rr_store_generation r)) (fi_replica_ranges i)
        = sorted_list_of_set ((\<lambda>e. (rp_replica_id (fe_replica_ref e), rp_store_generation (fe_replica_ref e))) ` set es)
    \<and> (\<forall>r\<in>set (fi_replica_ranges i). range_exact es r)
    \<and> set (fi_causal_heads i) = fe_event_id ` set es - (\<Union>e\<in>set es. set (fe_causal_parents e))
    \<and> sorted (fi_causal_heads i)
    \<and> (\<forall>hs. derive_heads L es = Inr hs \<longrightarrow> fi_causal_heads i = hs))"
proof -
  from assms obtain es where D: "D' = D" and es: "events_file L (d_files D) = Inr es"
    and i: "inventory_of L (cfg_local_realm_id cfg) (d_files D) es = Inr i"
    by (auto simp: build_inventory_def events_def elim!: bindS_InrE)
  have fi: "fi_events i = map (event_record_of L (d_files D)) es" "fi_causal_heads i = heads_of es"
    and ranges: "fi_replica_ranges i = ranges_of es"
    using i by (auto simp: inventory_of_def Let_def bindR_Inr_iff)
  have keys: "map (\<lambda>r. (rr_replica_id r, rr_store_generation r)) (fi_replica_ranges i)
      = sorted_list_of_set ((\<lambda>e. (rp_replica_id (fe_replica_ref e), rp_store_generation (fe_replica_ref e))) ` set es)"
    unfolding ranges ranges_exact(1) sorted_set_def by (simp add: sorted_list_of_set_sort_remdups[symmetric] range_key_def[abs_def])
  have heads: "set (fi_causal_heads i) = fe_event_id ` set es - (\<Union>e\<in>set es. set (fe_causal_parents e))"
    "sorted (fi_causal_heads i)" by (auto simp: fi heads_of_def)
  have payload: "\<exists>data. map_of (d_files D) (payload_path e) = Some data \<and> upper_sha256 L data = fe_payload_sha256 e"
    if "e \<in> set es" for e
  proof -
    from es that obtain p where "indexed_event L (d_files D) p = Inr e"
      by (auto simp: events_file_def bindR_Inr_iff dest: mapR_mem(2))
    then obtain v where "(case v of JStr x \<Rightarrow> get_event_file L (d_files D) x | _ \<Rightarrow> Inl AttributeError) = Inr e"
      by (auto simp: indexed_event_def bindR_Inr_iff)
    then obtain x where "get_event_file L (d_files D) x = Inr e" by (cases v) auto
    then obtain data where "event_payload_file L (d_files D) e = Inr data"
      by (auto simp: get_event_file_def Let_def bindR_Inr_iff split: if_splits)
    then show ?thesis by (auto simp: event_payload_file_def split: option.splits if_splits)
  qed
  have "heads_of es = hs" if "derive_heads L es = Inr hs" for hs
    using that by (auto simp: derive_heads_def heads_of_def bindR_Inr_iff)
  moreover have "ir_availability r = ''available'' \<and> (\<exists>e\<in>set es. \<exists>data. ir_event_id r = fe_event_id e
      \<and> map_of (d_files D) (payload_path e) = Some data \<and> upper_sha256 L data = ir_payload_sha256 r
      \<and> ir_payload_bytes r = int (length data))" if "r \<in> set (fi_events i)" for r
  proof -
    from that obtain e where e: "e \<in> set es" "r = event_record_of L (d_files D) e" by (auto simp: fi)
    from payload[OF e(1)] obtain data where "map_of (d_files D) (payload_path e) = Some data"
      "upper_sha256 L data = fe_payload_sha256 e" by blast
    then have "ir_availability r = ''available''" "ir_event_id r = fe_event_id e" "upper_sha256 L data = ir_payload_sha256 r"
      "ir_payload_bytes r = int (length data)"
      by (simp_all add: e(2) event_record_of_def is_file_def payload_size_def)
    with e(1) \<open>map_of (d_files D) (payload_path e) = Some data\<close> show ?thesis by blast
  qed
  moreover have "events L D = (D, Inr es)" by (simp add: events_def es)
  moreover have "map ir_event_id (fi_events i) = map fe_event_id es" "map ir_event_digest (fi_events i) = map (core_digest L) es"
    by (simp_all add: fi event_record_of_def)
  ultimately show ?thesis using D fi(2) ranges_exact(2)[of _ es] keys heads unfolding ranges by blast
qed

text \<open>
  The difference of two inventories names exactly the ids only one of them has, each once and in order, is
  mirrored when the sides are swapped, and is empty exactly when both give every id the same digest.
\<close>

theorem diff_inventories_exact:
  "set (vd_missing_from_local (diff_inventories lhs rhs)) = set (event_ids_of rhs) - set (event_ids_of lhs)
    \<and> sorted (vd_missing_from_local (diff_inventories lhs rhs)) \<and> distinct (vd_missing_from_local (diff_inventories lhs rhs))
    \<and> diff_inventories rhs lhs = \<lparr>vd_missing_from_local = vd_missing_from_remote (diff_inventories lhs rhs),
        vd_missing_from_remote = vd_missing_from_local (diff_inventories lhs rhs),
        vd_digest_mismatches = vd_digest_mismatches (diff_inventories lhs rhs)\<rparr>
    \<and> (diff_inventories lhs rhs = \<lparr>vd_missing_from_local = [], vd_missing_from_remote = [], vd_digest_mismatches = []\<rparr>
        \<longleftrightarrow> (\<forall>k. map_option ir_event_digest (records_of lhs k) = map_option ir_event_digest (records_of rhs k)))"
proof -
  let ?d = "diff_inventories lhs rhs"
  have none: "records_of i k = None \<longleftrightarrow> k \<notin> set (event_ids_of i)" for i k
    by (simp add: records_of_def event_ids_of_def map_of_eq_None_iff image_image)
  have local: "set (vd_missing_from_local ?d) = set (event_ids_of rhs) - set (event_ids_of lhs)"
    by (auto simp: diff_inventories_def)
  have remote: "set (vd_missing_from_remote ?d) = set (event_ids_of lhs) - set (event_ids_of rhs)"
    by (auto simp: diff_inventories_def)
  have both: "set (vd_digest_mismatches ?d) = {k \<in> set (event_ids_of lhs) \<inter> set (event_ids_of rhs).
      map_option ir_event_digest (records_of lhs k) \<noteq> map_option ir_event_digest (records_of rhs k)}"
    by (auto simp: diff_inventories_def)
  have swap: "vd_digest_mismatches (diff_inventories rhs lhs) = vd_digest_mismatches ?d"
    unfolding diff_inventories_def by (simp, intro sorted_set_eqI) auto
  have mirror: "diff_inventories rhs lhs = \<lparr>vd_missing_from_local = vd_missing_from_remote ?d,
      vd_missing_from_remote = vd_missing_from_local ?d, vd_digest_mismatches = vd_digest_mismatches ?d\<rparr>"
    using swap by (simp add: diff_inventories_def)
  have empty: "?d = \<lparr>vd_missing_from_local = [], vd_missing_from_remote = [], vd_digest_mismatches = []\<rparr> \<longleftrightarrow>
      set (vd_missing_from_local ?d) = {} \<and> set (vd_missing_from_remote ?d) = {} \<and> set (vd_digest_mismatches ?d) = {}"
    by (cases ?d) simp
  have "?d = \<lparr>vd_missing_from_local = [], vd_missing_from_remote = [], vd_digest_mismatches = []\<rparr> \<longleftrightarrow>
      (\<forall>k. map_option ir_event_digest (records_of lhs k) = map_option ir_event_digest (records_of rhs k))"
    (is "_ \<longleftrightarrow> ?same")
  proof
    assume "?d = \<lparr>vd_missing_from_local = [], vd_missing_from_remote = [], vd_digest_mismatches = []\<rparr>"
    then have ids: "set (event_ids_of lhs) = set (event_ids_of rhs)"
      and "\<forall>k\<in>set (event_ids_of lhs). map_option ir_event_digest (records_of lhs k) = map_option ir_event_digest (records_of rhs k)"
      unfolding empty local remote both by blast+
    then show ?same using none by (metis option.map_disc_iff)
  next
    assume same: ?same
    then have "records_of lhs k = None \<longleftrightarrow> records_of rhs k = None" for k by (metis option.map_disc_iff)
    then have "set (event_ids_of lhs) = set (event_ids_of rhs)" using none by blast
    then show "?d = \<lparr>vd_missing_from_local = [], vd_missing_from_remote = [], vd_digest_mismatches = []\<rparr>"
      unfolding empty local remote both using same by blast
  qed
  moreover have "sorted (vd_missing_from_local ?d) \<and> distinct (vd_missing_from_local ?d)" by (simp add: diff_inventories_def)
  ultimately show ?thesis using local mirror by blast
qed

section \<open>An example\<close>

lemma inventory_of_files:
  assumes "\<forall>e\<in>set es. map_of fs (payload_path e) = map_of fs' (payload_path e)"
  shows "inventory_of L R fs es = inventory_of L R fs' es"
proof -
  have "map (event_record_of L fs) es = map (event_record_of L fs') es"
    using assms by (auto simp: event_record_of_def payload_size_def is_file_def)
  then show ?thesis unfolding inventory_of_def by (simp only:)
qed

lemma sample_inventory:
  obtains i where "build_inventory plain_lib sample_config sample_disk = (sample_disk, Inr i)" and "length (fi_events i) = 1"
proof -
  let ?e = "sample_event ''a'' 1 []"
  obtain r where r: "sample_submit ''delivery:1'' empty_disk = (sample_disk, Inr r)" "sr_kind r = ''created''"
    by (rule sample_created)
  note s = r(1)[unfolded sample_submit_def]
  have h: "holds_event plain_lib ?e [] sample_disk" by (rule submit_created(1)[OF s r(2) plain_lib_ok])
  have "indexed_event plain_lib (d_files sample_disk) (event_index_path plain_lib (fe_event_id ?e)) = Inr ?e"
    using submit_Inr[OF s] payload_checked[of plain_lib sample_config ?e "[]"]
    by (intro indexed_event_holds[OF h _ _ plain_lib_lib_ok fixed_plain]) simp_all
  moreover have "glob_json (d_files sample_disk) [''indexes'', ''events''] = [event_index_path plain_lib (fe_event_id ?e)]"
    by code_simp
  ultimately have es: "events_file plain_lib (d_files sample_disk) = Inr [?e]" by (simp add: events_file_def)
  have "map_of (d_files sample_disk) (payload_path ?e) = map_of [(payload_path ?e, [])] (payload_path ?e)"
    using h by (simp add: holds_event_def)
  then have fs: "inventory_of plain_lib R (d_files sample_disk) [?e] = inventory_of plain_lib R [(payload_path ?e, [])] [?e]" for R
    by (intro inventory_of_files) simp
  have "isl (inventory_of plain_lib (cfg_local_realm_id sample_config) [(payload_path ?e, [])] [?e]) = False" by code_simp
  then obtain i where "inventory_of plain_lib (cfg_local_realm_id sample_config) (d_files sample_disk) [?e] = Inr i"
    unfolding fs by (cases "inventory_of plain_lib (cfg_local_realm_id sample_config) [(payload_path ?e, [])] [?e]") auto
  moreover from this have "length (fi_events i) = 1" by (auto simp: inventory_of_def Let_def bindR_Inr_iff)
  ultimately show ?thesis using that es by (simp add: build_inventory_def events_def op_defs)
qed

lemma inventory_round_trip_witness:
  "\<exists>i. build_inventory plain_lib sample_config sample_disk = (sample_disk, Inr i)
    \<and> inventory_from_dict (\<lambda>v. True) plain_lib (inventory_to_dict i) = Inr i"
proof -
  obtain i where i: "build_inventory plain_lib sample_config sample_disk = (sample_disk, Inr i)" by (rule sample_inventory)
  from inventory_round_trip[OF i plain_lib_lib_ok, of "\<lambda>v. True"] i show ?thesis by blast
qed

lemma inventory_matches_store_witness:
  "\<exists>i r. build_inventory plain_lib sample_config sample_disk = (sample_disk, Inr i) \<and> fi_events i = [r]
    \<and> ir_availability r = ''available''"
proof -
  obtain i where i: "build_inventory plain_lib sample_config sample_disk = (sample_disk, Inr i)" "length (fi_events i) = 1"
    by (rule sample_inventory)
  then obtain r where "fi_events i = [r]" by (cases "fi_events i") auto
  with inventory_matches_store[OF i(1)] i(1) show ?thesis by auto
qed

end
