(* ===== verification/Times.thy ===== *)
theory Times
  imports PyText "HOL-Library.Product_Lexorder"
begin

text \<open>
  UTC times as the wake and handoff contracts write them: \<open>isoformat()\<close> with a \<open>Z\<close> suffix, and
  \<open>datetime.fromisoformat\<close> on the texts of that shape, \<open>YYYY-MM-DDThh:mm:ss\<close> with an optional
  fraction of six digits. \<open>fromisoformat\<close> accepts a few more shapes (a date alone, week dates, other
  separators); for a text of another shape the model answers \<open>Untyped\<close>. An instant is the tuple of
  its fields; all are UTC, so the order of instants is the lexicographic order of the tuples.
\<close>

type_synonym instant = "nat \<times> nat \<times> nat \<times> nat \<times> nat \<times> nat \<times> nat"

definition leap :: "nat \<Rightarrow> bool" where
  "leap y = (4 dvd y \<and> (\<not> 100 dvd y \<or> 400 dvd y))"

definition days_in :: "nat \<Rightarrow> nat \<Rightarrow> nat" where
  "days_in y m = (if m = 2 then (if leap y then 29 else 28) else if m \<in> {4, 6, 9, 11} then 30 else 31)"

text \<open>The ranges of \<open>datetime\<close>.\<close>

definition instant_ok :: "instant \<Rightarrow> bool" where
  "instant_ok t = (case t of (y, m, d, h, mi, s, us) \<Rightarrow>
     1 \<le> y \<and> y \<le> 9999 \<and> 1 \<le> m \<and> m \<le> 12 \<and> 1 \<le> d \<and> d \<le> days_in y m
     \<and> h < 24 \<and> mi < 60 \<and> s < 60 \<and> us < 1000000)"

lemma instant_ok_code [code]:
  "instant_ok t = (case t of (y, m, d, h, mi, s, us) \<Rightarrow>
     1 \<le> int y \<and> int y \<le> 9999 \<and> 1 \<le> m \<and> m \<le> 12 \<and> 1 \<le> d \<and> d \<le> days_in y m
     \<and> h < 24 \<and> mi < 60 \<and> s < 60 \<and> int us < 1000000)"
  by (auto simp: instant_ok_def split: prod.splits)

fun digits :: "nat \<Rightarrow> nat \<Rightarrow> string" where
  "digits 0 n = []"
| "digits (Suc k) n = digits k (n div 10) @ [digit (n mod 10)]"

text \<open>\<open>value.isoformat().replace("+00:00", "Z")\<close>.\<close>

definition iso_text :: "instant \<Rightarrow> string" where
  "iso_text t = (case t of (y, m, d, h, mi, s, us) \<Rightarrow>
     digits 4 y @ ''-'' @ digits 2 m @ ''-'' @ digits 2 d @ ''T'' @ digits 2 h @ '':'' @ digits 2 mi @ '':'' @ digits 2 s
     @ (if us = 0 then [] else ''.'' @ digits 6 us) @ ''Z'')"

text \<open>Reading a fixed number of digits, and a fixed character.\<close>

definition take_digits_opt :: "nat \<Rightarrow> string \<Rightarrow> (nat \<times> string) option" where
  "take_digits_opt k s = (if k \<le> length s \<and> list_all is_digit (take k s)
     then Some (foldl (\<lambda>n c. 10 * n + (byte c - 48)) 0 (take k s), drop k s) else None)"

definition expect :: "char \<Rightarrow> string \<Rightarrow> string option" where
  "expect c s = (case s of [] \<Rightarrow> None | x # r \<Rightarrow> if x = c then Some r else None)"

definition number_then :: "nat \<Rightarrow> char \<Rightarrow> string \<Rightarrow> (nat \<times> string) option" where
  "number_then k c s = (case take_digits_opt k s of None \<Rightarrow> None | Some (n, r) \<Rightarrow>
     (case expect c r of None \<Rightarrow> None | Some r' \<Rightarrow> Some (n, r')))"

text \<open>What follows the seconds: nothing, or a fraction.\<close>

definition fraction :: "string \<Rightarrow> nat option" where
  "fraction s = (if s = [] then Some 0 else case expect CHR ''.'' s of None \<Rightarrow> None
     | Some r \<Rightarrow> (case take_digits_opt 6 r of Some (us, []) \<Rightarrow> Some us | _ \<Rightarrow> None))"

definition time_shape :: "string \<Rightarrow> instant option" where
  "time_shape s =
     (case number_then 4 CHR ''-'' s of None \<Rightarrow> None | Some (y, s) \<Rightarrow>
     (case number_then 2 CHR ''-'' s of None \<Rightarrow> None | Some (m, s) \<Rightarrow>
     (case number_then 2 CHR ''T'' s of None \<Rightarrow> None | Some (d, s) \<Rightarrow>
     (case number_then 2 CHR '':'' s of None \<Rightarrow> None | Some (h, s) \<Rightarrow>
     (case number_then 2 CHR '':'' s of None \<Rightarrow> None | Some (mi, s) \<Rightarrow>
     (case take_digits_opt 2 s of None \<Rightarrow> None | Some (sec, s) \<Rightarrow>
     (case fraction s of None \<Rightarrow> None | Some us \<Rightarrow> Some (y, m, d, h, mi, sec, us))))))))"

text \<open>\<open>datetime.fromisoformat(text + "+00:00")\<close>.\<close>

definition from_iso :: "string \<Rightarrow> instant res" where
  "from_iso s = (case time_shape s of
      None \<Rightarrow> Inl (Untyped ''time'')
    | Some t \<Rightarrow> if instant_ok t then Inr t else Inl ValueError)"

section \<open>A written time is read back\<close>

lemma digits_length [simp]: "length (digits k n) = k"
  by (induction k n rule: digits.induct) simp_all

lemma byte_of_digit: "n < 10 \<Longrightarrow> byte (digit n) = 48 + n"
  by (simp add: byte_def digit_def)

lemma digits_are_digits: "list_all is_digit (digits k n)"
  by (induction k n rule: digits.induct) (simp_all add: is_digit_def in_rng_def byte_of_digit)

lemma digits_value: "n < 10 ^ k \<Longrightarrow> foldl (\<lambda>n c. 10 * n + (byte c - 48)) 0 (digits k n) = n"
proof (induction k n rule: digits.induct)
  case (2 k n)
  then have "n div 10 < 10 ^ k" by (simp add: div_less_iff_less_mult mult.commute)
  with 2 show ?case by (simp add: byte_of_digit)
qed simp

lemma take_digits_written: "n < 10 ^ k \<Longrightarrow> take_digits_opt k (digits k n @ r) = Some (n, r)"
  by (simp add: take_digits_opt_def digits_are_digits digits_value)

lemma number_written: "n < 10 ^ k \<Longrightarrow> number_then k c (digits k n @ c # r) = Some (n, r)"
  by (simp add: number_then_def take_digits_written expect_def)

lemma days_in_bound: "days_in y m \<le> 31"
  by (simp add: days_in_def)

lemma from_iso_text:
  assumes "instant_ok t"
  shows "endswith (iso_text t) ''Z''" and "from_iso (take (length (iso_text t) - 1) (iso_text t)) = Inr t"
proof -
  obtain y m d h mi s us where t: "t = (y, m, d, h, mi, s, us)" by (cases t)
  let ?body = "digits 4 y @ ''-'' @ digits 2 m @ ''-'' @ digits 2 d @ ''T'' @ digits 2 h @ '':'' @ digits 2 mi @ '':'' @ digits 2 s
     @ (if us = 0 then [] else ''.'' @ digits 6 us)"
  have whole: "iso_text t = ?body @ ''Z''" by (simp add: iso_text_def t)
  then show "endswith (iso_text t) ''Z''" by (auto simp: endswith_iff)
  have b: "y < 10 ^ 4" "m < 10 ^ 2" "d < 10 ^ 2" "h < 10 ^ 2" "mi < 10 ^ 2" "s < 10 ^ 2" "us < 10 ^ 6"
    using assms days_in_bound[of y m] by (auto simp: instant_ok_def t)
  have f: "fraction (if us = 0 then [] else ''.'' @ digits 6 us) = Some us"
    using take_digits_written[OF b(7), of "[]"] by (simp add: fraction_def expect_def)
  have "time_shape ?body = Some t"
    using number_written[OF b(1)] number_written[OF b(2)] number_written[OF b(3)] number_written[OF b(4)]
      number_written[OF b(5)] take_digits_written[OF b(6)] f
    by (simp add: time_shape_def t del: digits.simps)
  moreover have "take (length (iso_text t) - 1) (iso_text t) = ?body" unfolding whole by simp
  ultimately show "from_iso (take (length (iso_text t) - 1) (iso_text t)) = Inr t"
    using assms by (simp only: from_iso_def option.case if_True)
qed

end
