(* ===== verification/Wake_Models.thy ===== *)
theory Wake_Models
  imports Canonical Times
begin

text \<open>
  \<open>src/eml_wake/contracts.py\<close> and \<open>src/eml_wake/models.py\<close>: the wake request and the watchdog
  configuration with their validation in the order of the code, and the records the watchdog
  builds. The lemmas show that a request that was accepted is accepted again from its own \<open>to_dict\<close>.
\<close>

section \<open>Field checks\<close>

definition wcheck :: "bool \<Rightarrow> string \<Rightarrow> unit res" where
  "wcheck b code = (if b then Inr () else Inl (Coded code))"

definition wexact :: "string list \<Rightarrow> dict \<Rightarrow> unit res" where
  "wexact expected d =
     bindR (wcheck (\<forall>k\<in>set (dkeys d). k \<in> set expected) ''unknown_field'') (\<lambda>_.
     wcheck (\<forall>k\<in>set expected. k \<in> set (dkeys d)) ''missing_field'')"

text \<open>\<open>_string\<close>, \<open>_integer\<close> and \<open>_string_list\<close> on the value of a field.\<close>

definition wstring :: "json \<Rightarrow> string res" where
  "wstring v = (if nonempty_str v then Inr (the_str v) else Inl (Coded ''field_type_invalid''))"

definition winteger :: "json \<Rightarrow> int res" where
  "winteger v = (case v of
      JInt n \<Rightarrow> if n < 1 then Inl (Coded ''field_value_invalid'') else Inr n
    | _ \<Rightarrow> Inl (Coded ''field_type_invalid''))"

definition wbool :: "json \<Rightarrow> bool res" where
  "wbool v = (case v of JBool b \<Rightarrow> Inr b | _ \<Rightarrow> Inl (Coded ''field_type_invalid''))"

definition wstrings :: "bool \<Rightarrow> json \<Rightarrow> string list res" where
  "wstrings allow_empty v = (case v of
      JList vs \<Rightarrow>
        if \<not> list_all nonempty_str vs then Inl (Coded ''field_type_invalid'')
        else if \<not> allow_empty \<and> vs = [] then Inl (Coded ''config_allowlist_empty'')
        else if \<not> distinct (map the_str vs) then Inl (Coded ''field_value_invalid'')
        else Inr (map the_str vs)
    | _ \<Rightarrow> Inl (Coded ''field_type_invalid''))"

text \<open>\<open>_utc_time\<close>.\<close>

definition utc_time :: "json \<Rightarrow> string res" where
  "utc_time v = bindR (wstring v) (\<lambda>t.
     if \<not> endswith t ''Z'' then Inl (Coded ''utc_time_required'')
     else case from_iso (take (length t - 1) t) of
         Inl ValueError \<Rightarrow> Inl (Coded ''utc_time_invalid'')
       | Inl e \<Rightarrow> Inl e
       | Inr _ \<Rightarrow> Inr t)"

text \<open>\<open>ctcl:instant:\<close> and a UUID, in any case.\<close>

definition hex_char :: "string \<Rightarrow> bool" where
  "hex_char x = (case x of [c] \<Rightarrow> is_hex_any c | _ \<Rightarrow> False)"

definition uuid_shape :: "string list \<Rightarrow> bool" where
  "uuid_shape cs = (length cs = 36
     \<and> list_all (\<lambda>i. if i \<in> {8, 13, 18, 23} then cs ! i = ''-'' else hex_char (cs ! i)) [0..<36])"

definition is_ctcl_id :: "string \<Rightarrow> bool" where
  "is_ctcl_id s = (let cs = chars s; p = ''ctcl:instant:''
     in list_all2 folds_to p (take (length p) cs) \<and> uuid_shape (drop (length p) cs))"

definition is_hex64_any :: "string \<Rightarrow> bool" where
  "is_hex64_any s = (length s = 64 \<and> list_all is_hex_any s)"

section \<open>Requests\<close>

record WakeRequest =
  wq_wake_id :: string
  wq_delivery_id :: string
  wq_created_time_ref :: string
  wq_expires_at :: string
  wq_sender_claim :: string
  wq_target_kind :: string
  wq_target_ref :: string
  wq_spawn_allowed :: bool
  wq_authority_ref :: string
  wq_payload_ref :: string
  wq_payload_sha256 :: string
  wq_context_package_ref :: "string option"
  wq_model :: string
  wq_allowed_tools :: "string list"
  wq_max_budget_microusd :: int
  wq_timeout_ms :: int
  wq_not_claimed :: "string list"

text \<open>
  The fields \<open>schema_version\<close>, \<open>reply_policy\<close>, \<open>provider\<close>, \<open>permission_mode\<close> and
  \<open>requested_output_format\<close> have one accepted value each; the record leaves them out.
\<close>

definition REQUEST_FIELDS :: "string list" where
  "REQUEST_FIELDS = [''schema_version'', ''wake_id'', ''delivery_id'', ''created_time_ref'', ''expires_at'',
     ''sender_claim'', ''target_kind'', ''target_ref'', ''spawn_allowed'', ''authority_ref'', ''payload_ref'',
     ''payload_sha256'', ''context_package_ref'', ''reply_policy'', ''provider'', ''model'', ''allowed_tools'',
     ''permission_mode'', ''max_budget_microusd'', ''timeout_ms'', ''requested_output_format'', ''not_claimed'']"

definition target_check :: "string \<Rightarrow> bool \<Rightarrow> unit res" where
  "target_check kind spawn =
     bindR (wcheck (\<not> (kind = ''exact_instance'' \<and> spawn)) ''exact_instance_spawn_forbidden'') (\<lambda>_.
     wcheck (\<not> (kind \<in> {''line'', ''generic_worker''} \<and> \<not> spawn)) ''spawn_authority_missing'')"

definition context_field :: "string \<Rightarrow> json \<Rightarrow> string option res" where
  "context_field kind v =
     (if v \<noteq> JNull \<and> \<not> nonempty_str v then Inl (Coded ''field_type_invalid'')
      else if kind = ''line'' \<and> v = JNull then Inl (Coded ''line_context_missing'')
      else Inr (if v = JNull then None else Some (the_str v)))"

definition request_from_dict :: "dict \<Rightarrow> WakeRequest res" where
  "request_from_dict d =
     bindR (wexact REQUEST_FIELDS d) (\<lambda>_.
     bindR (wcheck (dget_null d ''schema_version'' = JStr ''eml-wake/request-0.1'') ''schema_version_unsupported'') (\<lambda>_.
     bindR (wstring (dget_null d ''wake_id'')) (\<lambda>wake_id.
     bindR (wstring (dget_null d ''delivery_id'')) (\<lambda>delivery_id.
     bindR (wstring (dget_null d ''sender_claim'')) (\<lambda>sender.
     bindR (wstring (dget_null d ''target_ref'')) (\<lambda>target.
     bindR (wstring (dget_null d ''authority_ref'')) (\<lambda>authority.
     bindR (wstring (dget_null d ''payload_ref'')) (\<lambda>payload.
     bindR (wstring (dget_null d ''model'')) (\<lambda>model.
     bindR (wstring (dget_null d ''created_time_ref'')) (\<lambda>created.
     bindR (wcheck (is_ctcl_id created) ''ctcl_ref_invalid'') (\<lambda>_.
     bindR (utc_time (dget_null d ''expires_at'')) (\<lambda>expires.
     bindR (wstring (dget_null d ''target_kind'')) (\<lambda>kind.
     bindR (wcheck (kind \<in> {''exact_instance'', ''line'', ''generic_worker''}) ''target_kind_unsupported'') (\<lambda>_.
     bindR (wbool (dget_null d ''spawn_allowed'')) (\<lambda>spawn.
     bindR (target_check kind spawn) (\<lambda>_.
     bindR (wstring (dget_null d ''payload_sha256'')) (\<lambda>sha.
     bindR (wcheck (is_hex64_any sha) ''payload_digest_invalid'') (\<lambda>_.
     bindR (context_field kind (dget_null d ''context_package_ref'')) (\<lambda>context.
     bindR (wcheck (dget_null d ''reply_policy'' = JStr ''durable_ack_only'') ''reply_policy_unsupported'') (\<lambda>_.
     bindR (wcheck (dget_null d ''provider'' = JStr ''claude'') ''provider_unsupported'') (\<lambda>_.
     bindR (wstrings True (dget_null d ''allowed_tools'')) (\<lambda>tools.
     bindR (wcheck (dget_null d ''permission_mode'' = JStr ''dontAsk'') ''permission_mode_unsupported'') (\<lambda>_.
     bindR (winteger (dget_null d ''max_budget_microusd'')) (\<lambda>budget.
     bindR (winteger (dget_null d ''timeout_ms'')) (\<lambda>timeout.
     bindR (wcheck (dget_null d ''requested_output_format'' = JStr ''json'') ''output_format_unsupported'') (\<lambda>_.
     bindR (wstrings True (dget_null d ''not_claimed'')) (\<lambda>not_claimed.
     Inr \<lparr>wq_wake_id = wake_id, wq_delivery_id = delivery_id, wq_created_time_ref = created, wq_expires_at = expires,
          wq_sender_claim = sender, wq_target_kind = kind, wq_target_ref = target, wq_spawn_allowed = spawn,
          wq_authority_ref = authority, wq_payload_ref = payload, wq_payload_sha256 = upper sha,
          wq_context_package_ref = context, wq_model = model, wq_allowed_tools = tools,
          wq_max_budget_microusd = budget, wq_timeout_ms = timeout, wq_not_claimed = not_claimed\<rparr>)))))))))))))))))))))))))))"

definition request_core_dict :: "WakeRequest \<Rightarrow> dict" where
  "request_core_dict q =
     [(''schema_version'', JStr ''eml-wake/request-0.1''),
      (''wake_id'', JStr (wq_wake_id q)),
      (''created_time_ref'', JStr (wq_created_time_ref q)),
      (''expires_at'', JStr (wq_expires_at q)),
      (''sender_claim'', JStr (wq_sender_claim q)),
      (''target_kind'', JStr (wq_target_kind q)),
      (''target_ref'', JStr (wq_target_ref q)),
      (''spawn_allowed'', JBool (wq_spawn_allowed q)),
      (''authority_ref'', JStr (wq_authority_ref q)),
      (''payload_ref'', JStr (wq_payload_ref q)),
      (''payload_sha256'', JStr (wq_payload_sha256 q)),
      (''context_package_ref'', opt_json (wq_context_package_ref q)),
      (''reply_policy'', JStr ''durable_ack_only''),
      (''provider'', JStr ''claude''),
      (''model'', JStr (wq_model q)),
      (''allowed_tools'', str_list_json (wq_allowed_tools q)),
      (''permission_mode'', JStr ''dontAsk''),
      (''max_budget_microusd'', JInt (wq_max_budget_microusd q)),
      (''timeout_ms'', JInt (wq_timeout_ms q)),
      (''requested_output_format'', JStr ''json''),
      (''not_claimed'', str_list_json (wq_not_claimed q))]"

text \<open>\<open>to_dict\<close>: the third item is the delivery id, which \<open>core_dict\<close> takes out again.\<close>

definition request_to_dict :: "WakeRequest \<Rightarrow> dict" where
  "request_to_dict q = take 2 (request_core_dict q) @ [(''delivery_id'', JStr (wq_delivery_id q))]
     @ drop 2 (request_core_dict q)"

definition request_core_digest :: "lib \<Rightarrow> WakeRequest \<Rightarrow> string res" where
  "request_core_digest L q = wake_digest_ref L (JObj (request_core_dict q))"

section \<open>Configuration\<close>

record WakeConfig =
  wc_allowed_payload_roots :: "string list"
  wc_allowed_context_roots :: "string list"
  wc_allowed_target_kinds :: "string list"
  wc_allowed_models :: "string list"
  wc_allowed_tools_by_policy :: "(string \<times> string list) list"
  wc_permission_modes :: "string list"
  wc_maximum_budget_microusd :: int
  wc_maximum_timeout_ms :: int
  wc_claude_binary :: string
  wc_poll_interval_ms :: int
  wc_ctcl_endpoint :: string
  wc_strict_reparse_checks :: bool

definition WAKE_CONFIG_FIELDS :: "string list" where
  "WAKE_CONFIG_FIELDS = [''schema_version'', ''allowed_payload_roots'', ''allowed_context_roots'',
     ''allowed_target_kinds'', ''allowed_models'', ''allowed_tools_by_policy'', ''permission_modes'',
     ''maximum_budget_microusd'', ''maximum_timeout_ms'', ''claude_binary'', ''poll_interval_ms'',
     ''ctcl_endpoint'', ''strict_reparse_checks'']"

definition tool_policies :: "json \<Rightarrow> (string \<times> string list) list res" where
  "tool_policies v = (case v of
      JObj d \<Rightarrow> if d = [] then Inl (Coded ''config_allowlist_empty'')
        else mapR (\<lambda>kv. bindR (wstring (JStr (fst kv))) (\<lambda>name. bindR (wstrings True (snd kv)) (\<lambda>tools. Inr (name, tools)))) d
    | _ \<Rightarrow> Inl (Coded ''config_allowlist_empty''))"

definition wake_config_from_dict :: "dict \<Rightarrow> WakeConfig res" where
  "wake_config_from_dict d =
     bindR (wexact WAKE_CONFIG_FIELDS d) (\<lambda>_.
     bindR (wcheck (dget_null d ''schema_version'' = JStr ''eml-wake/config-0.1'') ''schema_version_unsupported'') (\<lambda>_.
     bindR (wstrings False (dget_null d ''allowed_payload_roots'')) (\<lambda>payload_roots.
     bindR (wstrings True (dget_null d ''allowed_context_roots'')) (\<lambda>context_roots.
     bindR (wstrings False (dget_null d ''allowed_target_kinds'')) (\<lambda>kinds.
     bindR (wcheck (set kinds \<subseteq> {''line'', ''generic_worker''}) ''target_kind_unsupported'') (\<lambda>_.
     bindR (wstrings False (dget_null d ''allowed_models'')) (\<lambda>models.
     bindR (tool_policies (dget_null d ''allowed_tools_by_policy'')) (\<lambda>policies.
     bindR (wstrings False (dget_null d ''permission_modes'')) (\<lambda>modes.
     bindR (winteger (dget_null d ''maximum_budget_microusd'')) (\<lambda>budget.
     bindR (winteger (dget_null d ''maximum_timeout_ms'')) (\<lambda>timeout.
     bindR (wstring (dget_null d ''claude_binary'')) (\<lambda>binary.
     bindR (winteger (dget_null d ''poll_interval_ms'')) (\<lambda>poll.
     bindR (wstring (dget_null d ''ctcl_endpoint'')) (\<lambda>endpoint.
     bindR (wcheck (startswith endpoint ''https://'') ''ctcl_endpoint_invalid'') (\<lambda>_.
     bindR (wbool (dget_null d ''strict_reparse_checks'')) (\<lambda>strict.
     Inr \<lparr>wc_allowed_payload_roots = payload_roots, wc_allowed_context_roots = context_roots,
          wc_allowed_target_kinds = kinds, wc_allowed_models = models, wc_allowed_tools_by_policy = policies,
          wc_permission_modes = modes, wc_maximum_budget_microusd = budget, wc_maximum_timeout_ms = timeout,
          wc_claude_binary = binary, wc_poll_interval_ms = poll, wc_ctcl_endpoint = endpoint,
          wc_strict_reparse_checks = strict\<rparr>))))))))))))))))"

definition wake_config_to_dict :: "WakeConfig \<Rightarrow> dict" where
  "wake_config_to_dict c =
     [(''schema_version'', JStr ''eml-wake/config-0.1''),
      (''allowed_payload_roots'', str_list_json (wc_allowed_payload_roots c)),
      (''allowed_context_roots'', str_list_json (wc_allowed_context_roots c)),
      (''allowed_target_kinds'', str_list_json (wc_allowed_target_kinds c)),
      (''allowed_models'', str_list_json (wc_allowed_models c)),
      (''allowed_tools_by_policy'', JObj (map (\<lambda>kv. (fst kv, str_list_json (snd kv))) (wc_allowed_tools_by_policy c))),
      (''permission_modes'', str_list_json (wc_permission_modes c)),
      (''maximum_budget_microusd'', JInt (wc_maximum_budget_microusd c)),
      (''maximum_timeout_ms'', JInt (wc_maximum_timeout_ms c)),
      (''claude_binary'', JStr (wc_claude_binary c)),
      (''poll_interval_ms'', JInt (wc_poll_interval_ms c)),
      (''ctcl_endpoint'', JStr (wc_ctcl_endpoint c)),
      (''strict_reparse_checks'', JBool (wc_strict_reparse_checks c))]"

section \<open>Accepted requests\<close>

definition request_ok :: "WakeRequest \<Rightarrow> bool" where
  "request_ok q \<longleftrightarrow> wq_wake_id q \<noteq> [] \<and> wq_delivery_id q \<noteq> [] \<and> wq_sender_claim q \<noteq> [] \<and> wq_target_ref q \<noteq> []
     \<and> wq_authority_ref q \<noteq> [] \<and> wq_payload_ref q \<noteq> [] \<and> wq_model q \<noteq> []
     \<and> wq_created_time_ref q \<noteq> [] \<and> is_ctcl_id (wq_created_time_ref q)
     \<and> utc_time (JStr (wq_expires_at q)) = Inr (wq_expires_at q)
     \<and> wq_target_kind q \<in> {''exact_instance'', ''line'', ''generic_worker''}
     \<and> (wq_spawn_allowed q \<longleftrightarrow> wq_target_kind q \<noteq> ''exact_instance'')
     \<and> length (wq_payload_sha256 q) = 64 \<and> list_all is_hex_upper (wq_payload_sha256 q)
     \<and> wq_context_package_ref q \<noteq> Some [] \<and> (wq_target_kind q = ''line'' \<longrightarrow> wq_context_package_ref q \<noteq> None)
     \<and> list_all (\<lambda>s. s \<noteq> []) (wq_allowed_tools q) \<and> distinct (wq_allowed_tools q)
     \<and> 1 \<le> wq_max_budget_microusd q \<and> 1 \<le> wq_timeout_ms q
     \<and> list_all (\<lambda>s. s \<noteq> []) (wq_not_claimed q) \<and> distinct (wq_not_claimed q)"

lemma wcheck_Inr [simp]: "wcheck b c = Inr u \<longleftrightarrow> b"
  by (simp add: wcheck_def)

lemma wstring_Inr: "wstring v = Inr s \<longleftrightarrow> v = JStr s \<and> s \<noteq> []"
  by (cases v) (auto simp: wstring_def json_tests)

lemma wbool_Inr: "wbool v = Inr b \<longleftrightarrow> v = JBool b"
  by (cases v) (auto simp: wbool_def)

lemma winteger_Inr: "winteger v = Inr n \<longleftrightarrow> v = JInt n \<and> 1 \<le> n"
  by (cases v) (auto simp: winteger_def)

lemma nonempty_strs: "list_all nonempty_str vs \<longleftrightarrow> (\<exists>ss. vs = map JStr ss \<and> list_all (\<lambda>s. s \<noteq> []) ss)"
proof (induction vs)
  case (Cons v vs)
  then show ?case by (cases v) (auto simp: nonempty_str_def Cons_eq_map_conv)
qed simp

lemma map_the_str [simp]: "map (the_str \<circ> JStr) ss = ss"
  by (induction ss) (simp_all add: the_str_def)

lemma wstrings_Inr:
  "wstrings allow v = Inr ss \<longleftrightarrow> v = str_list_json ss \<and> list_all (\<lambda>s. s \<noteq> []) ss \<and> distinct ss \<and> (allow \<or> ss \<noteq> [])"
proof (cases v)
  case (JList vs)
  show ?thesis
  proof (cases "list_all nonempty_str vs")
    case True
    then obtain xs where "vs = map JStr xs" "list_all (\<lambda>s. s \<noteq> []) xs" by (auto simp: nonempty_strs)
    moreover have "map JStr xs = map JStr ss \<longleftrightarrow> xs = ss" by (simp add: inj_map_eq_map inj_def)
    ultimately show ?thesis using True JList by (auto simp: wstrings_def str_list_json_def)
  next
    case False
    then have "vs \<noteq> map JStr ss \<or> \<not> list_all (\<lambda>s. s \<noteq> []) ss" by (auto simp: nonempty_strs)
    then show ?thesis using False JList by (auto simp: wstrings_def str_list_json_def)
  qed
qed (auto simp: wstrings_def str_list_json_def)

lemma utc_time_Inr: "utc_time v = Inr t \<Longrightarrow> v = JStr t \<and> utc_time (JStr t) = Inr t"
  by (auto simp: utc_time_def bindR_Inr_iff wstring_Inr split: if_splits sum.splits exn.splits)

lemma context_field_Inr:
  "context_field kind v = Inr c \<longleftrightarrow> v = opt_json c \<and> c \<noteq> Some [] \<and> (kind = ''line'' \<longrightarrow> c \<noteq> None)"
  by (cases v) (auto simp: context_field_def opt_json_def json_tests split: option.splits)

lemma upper_hex: "is_hex_any c \<Longrightarrow> is_hex_upper (upper_char c)"
  by (auto simp: is_hex_any_def is_hex_lower_def is_hex_upper_def is_digit_def in_rng_def upper_char_def byte_def)

lemma hex_upper_fixed: "list_all is_hex_upper s \<Longrightarrow> upper s = s \<and> list_all is_hex_any s"
  by (induction s) (auto simp: upper_def upper_char_def is_hex_upper_def is_hex_any_def is_digit_def in_rng_def)

lemma target_check_Inr:
  assumes "target_check kind spawn = Inr u" and "kind \<in> {''exact_instance'', ''line'', ''generic_worker''}"
  shows "spawn \<longleftrightarrow> kind \<noteq> ''exact_instance''"
proof -
  have "\<not> (kind = ''exact_instance'' \<and> spawn)" "\<not> (kind \<in> {''line'', ''generic_worker''} \<and> \<not> spawn)"
    using assms(1) by (simp_all add: target_check_def bindR_Inr_iff)
  then show ?thesis using assms(2) by blast
qed

lemma upper_digest: "is_hex64_any s \<Longrightarrow> length (upper s) = 64 \<and> list_all is_hex_upper (upper s)"
  using upper_hex by (auto simp: is_hex64_any_def upper_def list_all_iff)

lemma request_from_dict_ok:
  assumes "request_from_dict d = Inr q"
  shows "request_ok q"
  using assms unfolding request_from_dict_def
  apply (elim bindR_InrE)
  apply (simp only: wstring_Inr wbool_Inr winteger_Inr wstrings_Inr context_field_Inr wcheck_Inr sum.inject)
  apply (drule target_check_Inr, assumption)
  apply (drule upper_digest)
  apply (drule utc_time_Inr)
  apply (elim conjE)
  apply hypsubst
  apply (unfold request_ok_def WakeRequest.simps)
  apply (intro conjI; (assumption | rule refl))
  done

section \<open>Requests read back\<close>

lemma request_keys: "map fst (request_to_dict q) = take 2 REQUEST_FIELDS @ [''delivery_id''] @ drop 3 REQUEST_FIELDS"
  by (simp add: request_to_dict_def request_core_dict_def REQUEST_FIELDS_def)

lemma request_distinct: "distinct (map fst (request_to_dict q))"
  by (simp add: request_keys REQUEST_FIELDS_def)

lemma wexact_request: "wexact REQUEST_FIELDS (request_to_dict q) = Inr ()"
  by (simp add: wexact_def dkeys_def request_keys bindR_Inr_iff) (simp add: REQUEST_FIELDS_def)

lemma request_fields:
  "dget_null (request_to_dict q) ''schema_version'' = JStr ''eml-wake/request-0.1''"
  "dget_null (request_to_dict q) ''wake_id'' = JStr (wq_wake_id q)"
  "dget_null (request_to_dict q) ''delivery_id'' = JStr (wq_delivery_id q)"
  "dget_null (request_to_dict q) ''created_time_ref'' = JStr (wq_created_time_ref q)"
  "dget_null (request_to_dict q) ''expires_at'' = JStr (wq_expires_at q)"
  "dget_null (request_to_dict q) ''sender_claim'' = JStr (wq_sender_claim q)"
  "dget_null (request_to_dict q) ''target_kind'' = JStr (wq_target_kind q)"
  "dget_null (request_to_dict q) ''target_ref'' = JStr (wq_target_ref q)"
  "dget_null (request_to_dict q) ''spawn_allowed'' = JBool (wq_spawn_allowed q)"
  "dget_null (request_to_dict q) ''authority_ref'' = JStr (wq_authority_ref q)"
  "dget_null (request_to_dict q) ''payload_ref'' = JStr (wq_payload_ref q)"
  "dget_null (request_to_dict q) ''payload_sha256'' = JStr (wq_payload_sha256 q)"
  "dget_null (request_to_dict q) ''context_package_ref'' = opt_json (wq_context_package_ref q)"
  "dget_null (request_to_dict q) ''reply_policy'' = JStr ''durable_ack_only''"
  "dget_null (request_to_dict q) ''provider'' = JStr ''claude''"
  "dget_null (request_to_dict q) ''model'' = JStr (wq_model q)"
  "dget_null (request_to_dict q) ''allowed_tools'' = str_list_json (wq_allowed_tools q)"
  "dget_null (request_to_dict q) ''permission_mode'' = JStr ''dontAsk''"
  "dget_null (request_to_dict q) ''max_budget_microusd'' = JInt (wq_max_budget_microusd q)"
  "dget_null (request_to_dict q) ''timeout_ms'' = JInt (wq_timeout_ms q)"
  "dget_null (request_to_dict q) ''requested_output_format'' = JStr ''json''"
  "dget_null (request_to_dict q) ''not_claimed'' = str_list_json (wq_not_claimed q)"
  by (simp_all add: dget_null_def request_to_dict_def request_core_dict_def)

lemma wstring_JStr: "s \<noteq> [] \<Longrightarrow> wstring (JStr s) = Inr s"
  and wbool_JBool: "wbool (JBool b) = Inr b"
  and winteger_JInt: "1 \<le> n \<Longrightarrow> winteger (JInt n) = Inr n"
  and wstrings_json: "list_all (\<lambda>s. s \<noteq> []) ss \<Longrightarrow> distinct ss \<Longrightarrow> wstrings True (str_list_json ss) = Inr ss"
  by (simp_all add: wstring_Inr wbool_Inr winteger_Inr wstrings_Inr)

lemma request_parse:
  assumes "request_ok q"
  shows "request_from_dict (request_to_dict q) = Inr q"
proof -
  note ok = assms[unfolded request_ok_def]
  have kind: "wq_target_kind q \<in> {''exact_instance'', ''line'', ''generic_worker''}" "wq_target_kind q \<noteq> []"
    and spawn: "wq_spawn_allowed q \<longleftrightarrow> wq_target_kind q \<noteq> ''exact_instance''"
    using ok by (blast, auto)
  have strs: "wstring (JStr (wq_wake_id q)) = Inr (wq_wake_id q)" "wstring (JStr (wq_delivery_id q)) = Inr (wq_delivery_id q)"
    "wstring (JStr (wq_sender_claim q)) = Inr (wq_sender_claim q)" "wstring (JStr (wq_target_ref q)) = Inr (wq_target_ref q)"
    "wstring (JStr (wq_authority_ref q)) = Inr (wq_authority_ref q)" "wstring (JStr (wq_payload_ref q)) = Inr (wq_payload_ref q)"
    "wstring (JStr (wq_model q)) = Inr (wq_model q)" "wstring (JStr (wq_created_time_ref q)) = Inr (wq_created_time_ref q)"
    "wstring (JStr (wq_target_kind q)) = Inr (wq_target_kind q)"
    "wstring (JStr (wq_payload_sha256 q)) = Inr (wq_payload_sha256 q)"
    using ok kind(2) by (auto simp: wstring_Inr)
  have sha: "is_hex64_any (wq_payload_sha256 q)" "upper (wq_payload_sha256 q) = wq_payload_sha256 q"
    using ok hex_upper_fixed[of "wq_payload_sha256 q"] by (simp_all add: is_hex64_any_def)
  have tc: "target_check (wq_target_kind q) (wq_spawn_allowed q) = Inr ()"
    by (simp add: target_check_def bindR_Inr_iff spawn) (use kind(1) in auto)
  have ctx: "context_field (wq_target_kind q) (opt_json (wq_context_package_ref q)) = Inr (wq_context_package_ref q)"
    using ok by (simp only: context_field_Inr) blast
  have rest: "is_ctcl_id (wq_created_time_ref q)" "utc_time (JStr (wq_expires_at q)) = Inr (wq_expires_at q)"
    "winteger (JInt (wq_max_budget_microusd q)) = Inr (wq_max_budget_microusd q)"
    "winteger (JInt (wq_timeout_ms q)) = Inr (wq_timeout_ms q)"
    "wstrings True (str_list_json (wq_allowed_tools q)) = Inr (wq_allowed_tools q)"
    "wstrings True (str_list_json (wq_not_claimed q)) = Inr (wq_not_claimed q)"
    using ok by (auto simp: winteger_Inr wstrings_Inr)
  show ?thesis
    unfolding request_from_dict_def wexact_request request_fields bindR_simps strs rest tc ctx wbool_JBool
    using kind(1) sha rest(1) by (simp only: wcheck_def if_True bindR_simps sha(2)) simp
qed

lemma request_stored:
  assumes "distinct (map fst d)"
  shows "request_from_dict (stored d) = request_from_dict d"
proof -
  have f: "wstring (sort_keys v) = wstring v" "wbool (sort_keys v) = wbool v" "winteger (sort_keys v) = winteger v"
    "sort_keys v = JStr s \<longleftrightarrow> v = JStr s" "sort_keys v = JNull \<longleftrightarrow> v = JNull" "utc_time (sort_keys v) = utc_time v" for v s
    by (cases v; simp add: wstring_def wbool_def winteger_def utc_time_def json_tests)+
  have n: "nonempty_str (sort_keys v) = nonempty_str v" "the_str (sort_keys v) = the_str v" for v
    by (cases v; simp add: json_tests)+
  have s: "wstrings a (sort_keys v) = wstrings a v" for a v
    by (cases v) (simp_all add: wstrings_def list_all_iff n o_def)
  have c: "context_field k (sort_keys v) = context_field k v" for k v
    by (simp add: context_field_def f(5) n)
  have e: "wexact fs (stored d) = wexact fs d" for fs
    by (simp only: wexact_def dkeys_def stored_keys)
  show ?thesis
    unfolding request_from_dict_def e dget_stored[OF assms] f s c ..
qed

text \<open>
  C17: accepted wake requests are well formed and stable. A request that \<open>from_dict\<close> accepted has
  non-empty names, a spawn permission exactly when its target is not an exact instance, positive
  limits and an upper-case digest; and \<open>from_dict\<close> of its own \<open>to_dict\<close>, also with sorted keys, gives
  the same request.
\<close>

theorem wake_request_round_trip:
  assumes "request_from_dict d = Inr q"
  shows "wq_wake_id q \<noteq> [] \<and> (wq_spawn_allowed q \<longleftrightarrow> wq_target_kind q \<noteq> ''exact_instance'')
    \<and> 1 \<le> wq_max_budget_microusd q \<and> 1 \<le> wq_timeout_ms q
    \<and> length (wq_payload_sha256 q) = 64 \<and> list_all is_hex_upper (wq_payload_sha256 q)
    \<and> request_from_dict (request_to_dict q) = Inr q \<and> request_from_dict (stored (request_to_dict q)) = Inr q"
proof -
  note ok = request_from_dict_ok[OF assms]
  show ?thesis
    using ok request_parse[OF ok] request_stored[OF request_distinct] unfolding request_ok_def by simp
qed

section \<open>A request\<close>

definition sample_request :: WakeRequest where
  "sample_request = \<lparr>wq_wake_id = ''w'', wq_delivery_id = ''d'',
     wq_created_time_ref = ''ctcl:instant:00000000-0000-0000-0000-000000000000'', wq_expires_at = ''2026-08-25T00:00:00Z'',
     wq_sender_claim = ''s'', wq_target_kind = ''generic_worker'', wq_target_ref = ''t'', wq_spawn_allowed = True,
     wq_authority_ref = ''a'', wq_payload_ref = ''/p/x'', wq_payload_sha256 = replicate 64 CHR ''0'',
     wq_context_package_ref = None, wq_model = ''m'', wq_allowed_tools = [], wq_max_budget_microusd = 1,
     wq_timeout_ms = 1, wq_not_claimed = []\<rparr>"

lemma sample_request_parse: "request_from_dict (request_to_dict sample_request) = Inr sample_request"
  by code_simp

theorem wake_request_round_trip_witness:
  "request_from_dict (stored (request_to_dict sample_request)) = Inr sample_request"
  using wake_request_round_trip[OF sample_request_parse] by simp

end
