(* ===== verification/Wake_Store.thy ===== *)
theory Wake_Store
  imports FileStore Wake_Models
begin

text \<open>
  \<open>src/eml_wake/store.py\<close>: the requests, claims, acknowledgements, failures, duplicates and
  notifications of the wake mailbox, one immutable file each. \<open>_now_iso\<close> is the argument \<open>now\<close>.
\<close>

definition wake_key :: "lib \<Rightarrow> string \<Rightarrow> string" where
  "wake_key L wake_id = sha256_hex L wake_id"

definition wake_path :: "lib \<Rightarrow> string \<Rightarrow> string \<Rightarrow> path" where
  "wake_path L dir wake_id = [dir, wake_key L wake_id @ ''.json'']"

definition request_path :: "lib \<Rightarrow> string \<Rightarrow> path" where
  "request_path L = wake_path L ''requests''"

definition claim_path :: "lib \<Rightarrow> string \<Rightarrow> path" where
  "claim_path L = wake_path L ''claims''"

definition ack_path :: "lib \<Rightarrow> string \<Rightarrow> path" where
  "ack_path L = wake_path L ''acks''"

definition failure_path :: "lib \<Rightarrow> string \<Rightarrow> path" where
  "failure_path L = wake_path L ''failures''"

definition wake_duplicate_path :: "lib \<Rightarrow> string \<Rightarrow> string \<Rightarrow> path" where
  "wake_duplicate_path L wake_id delivery_id = [''duplicates'', wake_key L wake_id, wake_key L delivery_id @ ''.json'']"

definition notification_path :: "lib \<Rightarrow> string \<Rightarrow> string \<Rightarrow> path" where
  "notification_path L wake_id notification_id =
     [''notifications'', wake_key L wake_id, wake_key L notification_id @ ''.json'']"

record WakeSubmission =
  wsub_kind :: string
  wsub_wake_id :: string
  wsub_delivery_id :: string
  wsub_request_path :: path
  wsub_duplicate_path :: "path option"

definition get_request :: "lib \<Rightarrow> string \<Rightarrow> (disk, WakeRequest) op" where
  "get_request L wake_id =
     thenS (encoded wake_id)
     (bindS (is_fileS (request_path L wake_id)) (\<lambda>there.
      if \<not> there then raiseS (Coded ''wake_not_found'')
      else bindS (read_dict (request_path L wake_id)) (\<lambda>d.
        bindS (liftS (request_from_dict d)) (\<lambda>q.
        if wq_wake_id q \<noteq> wake_id then raiseS (Coded ''wake_filename_mismatch'') else retS q))))"

definition wake_duplicate_record :: "WakeRequest \<Rightarrow> string \<Rightarrow> instant \<Rightarrow> dict" where
  "wake_duplicate_record q digest now =
     [(''schema_version'', JStr ''eml-wake/duplicate-0.1''),
      (''wake_id'', JStr (wq_wake_id q)),
      (''delivery_id'', JStr (wq_delivery_id q)),
      (''request_core_digest'', JStr digest),
      (''observed_at'', JStr (iso_text now))]"

definition submit_wake_again :: "lib \<Rightarrow> instant \<Rightarrow> WakeRequest \<Rightarrow> (disk, WakeSubmission) op" where
  "submit_wake_again L now q =
     bindS (get_request L (wq_wake_id q)) (\<lambda>existing.
     bindS (liftS (request_core_digest L existing)) (\<lambda>old.
     bindS (liftS (request_core_digest L q)) (\<lambda>new.
     if old \<noteq> new then raiseS (Coded ''wake_content_collision'')
     else let p = wake_duplicate_path L (wq_wake_id q) (wq_delivery_id q);
              record = wake_duplicate_record q new now;
              result = retS \<lparr>wsub_kind = ''duplicate'', wsub_wake_id = wq_wake_id q, wsub_delivery_id = wq_delivery_id q,
                wsub_request_path = request_path L (wq_wake_id q), wsub_duplicate_path = Some p\<rparr>
       in thenS (encoded (wq_delivery_id q))
       (bindS (existsS p) (\<lambda>there.
          if there then bindS (read_dict p) (\<lambda>old_record.
            if \<not> py_eq (JObj old_record) (JObj record) \<and> dget_null old_record ''request_core_digest'' \<noteq> JStr new
            then raiseS (Coded ''duplicate_content_collision'') else result)
          else thenS (publish_json L p (JObj record)) result)))))"

definition submit_wake :: "lib \<Rightarrow> instant \<Rightarrow> WakeRequest \<Rightarrow> (disk, WakeSubmission) op" where
  "submit_wake L now q =
     thenS (encoded (wq_wake_id q))
     (bindS (existsS (request_path L (wq_wake_id q))) (\<lambda>there.
      if \<not> there then thenS (publish_json L (request_path L (wq_wake_id q)) (JObj (request_to_dict q)))
        (retS \<lparr>wsub_kind = ''created'', wsub_wake_id = wq_wake_id q, wsub_delivery_id = wq_delivery_id q,
           wsub_request_path = request_path L (wq_wake_id q), wsub_duplicate_path = None\<rparr>)
      else submit_wake_again L now q))"

definition claim_record :: "string \<Rightarrow> string \<Rightarrow> string \<Rightarrow> instant \<Rightarrow> dict" where
  "claim_record wake_id watchdog_id digest now =
     [(''schema_version'', JStr ''eml-wake/claim-0.1''),
      (''wake_id'', JStr wake_id),
      (''watchdog_id'', JStr watchdog_id),
      (''request_core_digest'', JStr digest),
      (''claimed_at'', JStr (iso_text now))]"

definition claim :: "lib \<Rightarrow> instant \<Rightarrow> string \<Rightarrow> string \<Rightarrow> (disk, dict) op" where
  "claim L now wake_id watchdog_id =
     bindS (get_request L wake_id) (\<lambda>q.
     bindS (liftS (request_core_digest L q)) (\<lambda>digest.
     let record = claim_record wake_id watchdog_id digest now
     in thenS (catchS (publish_json L (claim_path L wake_id) (JObj record)) (\<lambda>err.
          raiseS (if err = Coded ''immutable_file_exists'' then Coded ''wake_already_claimed'' else err)))
        (retS record)))"

definition commit_ack :: "lib \<Rightarrow> string \<Rightarrow> dict \<Rightarrow> (disk, path) op" where
  "commit_ack L wake_id ack =
     (if dget_null ack ''wake_id'' \<noteq> JStr wake_id then raiseS (Coded ''ack_wake_mismatch'')
      else thenS (encoded wake_id)
      (bindS (is_fileS (claim_path L wake_id)) (\<lambda>claimed.
       if \<not> claimed then raiseS (Coded ''wake_not_claimed'')
       else thenS (publish_json L (ack_path L wake_id) (JObj ack)) (retS (ack_path L wake_id)))))"

definition record_failure :: "lib \<Rightarrow> string \<Rightarrow> dict \<Rightarrow> (disk, path) op" where
  "record_failure L wake_id failure =
     (if dget_null failure ''wake_id'' \<noteq> JStr wake_id then raiseS (Coded ''failure_wake_mismatch'')
      else bindS (get_request L wake_id) (\<lambda>_.
        thenS (publish_json L (failure_path L wake_id) (JObj failure)) (retS (failure_path L wake_id))))"

definition record_notification :: "lib \<Rightarrow> string \<Rightarrow> dict \<Rightarrow> (disk, path) op" where
  "record_notification L wake_id notification =
     (if dget_null notification ''wake_id'' \<noteq> JStr wake_id then raiseS (Coded ''notification_wake_mismatch'')
      else if \<not> nonempty_str (dget_null notification ''notification_id'') then raiseS (Coded ''notification_id_missing'')
      else bindS (get_request L wake_id) (\<lambda>_.
        let nid = the_str (dget_null notification ''notification_id''); p = notification_path L wake_id nid
        in thenS (encoded nid) (thenS (publish_json L p (JObj notification)) (retS p))))"

record WakeStatus =
  wst_status :: string
  wst_record :: dict

definition wake_status :: "lib \<Rightarrow> string \<Rightarrow> (disk, WakeStatus) op" where
  "wake_status L wake_id =
     bindS (get_request L wake_id) (\<lambda>q.
     bindS (is_fileS (ack_path L wake_id)) (\<lambda>acked.
     if acked then bindS (read_dict (ack_path L wake_id)) (\<lambda>d. retS \<lparr>wst_status = ''acknowledged'', wst_record = d\<rparr>)
     else bindS (is_fileS (failure_path L wake_id)) (\<lambda>failed.
     if failed then bindS (read_dict (failure_path L wake_id)) (\<lambda>d. retS \<lparr>wst_status = ''failed'', wst_record = d\<rparr>)
     else bindS (is_fileS (claim_path L wake_id)) (\<lambda>claimed.
     if claimed then bindS (read_dict (claim_path L wake_id)) (\<lambda>d. retS \<lparr>wst_status = ''claimed_incomplete'', wst_record = d\<rparr>)
     else retS \<lparr>wst_status = ''pending'', wst_record = request_to_dict q\<rparr>))))"

text \<open>\<open>pending_wake_ids\<close>, one entry of the directory after the other.\<close>

definition pending_entry :: "lib \<Rightarrow> files \<Rightarrow> path \<Rightarrow> string list res" where
  "pending_entry L fs p = bindR (read_dict_file fs p) (\<lambda>d. bindR (request_from_dict d) (\<lambda>q.
     if \<not> utf8_valid (wq_wake_id q) then Inl UnicodeEncodeError
     else Inr (if path_exists fs (claim_path L (wq_wake_id q)) \<or> path_exists fs (failure_path L (wq_wake_id q))
       then [] else [wq_wake_id q])))"

definition pending_wake_ids :: "lib \<Rightarrow> (disk, string list) op" where
  "pending_wake_ids L = (\<lambda>D. (D, bindR (mapR (pending_entry L (d_files D)) (glob_json (d_files D) [''requests'']))
     (\<lambda>ids. Inr (concat ids))))"

section \<open>The store only grows\<close>

lemma immutable_get_request [immutable_intros]: "immutable (get_request L w)"
  unfolding get_request_def by (intro immutable_intros)

lemma immutable_submit_wake [immutable_intros]: "immutable (submit_wake L now q)"
  unfolding submit_wake_def submit_wake_again_def Let_def by (intro immutable_intros)

lemma immutable_claim [immutable_intros]: "immutable (claim L now w wd)"
  unfolding claim_def Let_def by (intro immutable_intros)

lemma immutable_commit_ack [immutable_intros]: "immutable (commit_ack L w a)"
  unfolding commit_ack_def by (intro immutable_intros)

lemma immutable_record_failure [immutable_intros]: "immutable (record_failure L w f)"
  unfolding record_failure_def by (intro immutable_intros)

lemma immutable_record_notification [immutable_intros]: "immutable (record_notification L w n)"
  unfolding record_notification_def Let_def by (intro immutable_intros)

lemma immutable_wake_status [immutable_intros]: "immutable (wake_status L w)"
  unfolding wake_status_def by (intro immutable_intros)

section \<open>Claims\<close>

lemma claim_Inr:
  assumes "claim L now w wd D = (D', Inr r)"
  shows "map_of (d_files D) (claim_path L w) = None \<and> map_of (d_files D') (claim_path L w) \<noteq> None"
proof -
  from assms obtain q D1 digest D2 where g: "get_request L w D = (D1, Inr q)"
    and k: "thenS (catchS (publish_json L (claim_path L w) (JObj (claim_record w wd digest now))) (\<lambda>err.
          raiseS (if err = Coded ''immutable_file_exists'' then Coded ''wake_already_claimed'' else err)))
        (retS (claim_record w wd digest now)) D1 = (D2, Inr r)" and D2: "D' = D2"
    unfolding claim_def Let_def by (elim bindS_InrE) auto
  from k obtain u where "publish_json L (claim_path L w) (JObj (claim_record w wd digest now)) D1 = (D2, Inr u)"
    by (auto elim!: thenS_InrE catchS_InrE)
  then obtain b where "map_of (d_files D2) (claim_path L w) = Some b" "map_of (d_files D1) (claim_path L w) = None"
    by (rule publish_json_Inr)
  moreover have "grows D D1" by (rule immutable_grows[OF immutable_get_request g])
  ultimately show ?thesis
    using D2 grows_get[of D D1 "claim_path L w"] by (cases "map_of (d_files D) (claim_path L w)") auto
qed

end
