(* ===== verification/Wake_Watchdog.thy ===== *)
theory Wake_Watchdog
  imports Wake_Store
begin

text \<open>
  \<open>src/eml_wake/watchdog.py\<close> with \<open>read_allowlisted_payload\<close> of \<open>filesystem.py\<close>: the processing of one
  wake id, from the policy checks to the claim, the single invocation of the provider, the
  acknowledgement and the notification. The provider, the notifier and the temporal service are
  adapters on a world of their own; the file system outside the store, the texts of caught
  exceptions and the readings of the clock are arguments.
\<close>

section \<open>Adapters\<close>

record ProviderResult =
  pr_provider :: string
  pr_model :: string
  pr_session_id :: string
  pr_invocation_id :: string
  pr_result_text :: string
  pr_is_error :: bool
  pr_subtype :: "string option"
  pr_stop_reason :: "string option"
  pr_permission_denials :: "string list"
  pr_cost_microusd :: int
  pr_duration_ms :: int
  pr_api_error_status :: "int option"

record NotificationResult =
  nt_notification_id :: string
  nt_attempted :: bool
  nt_accepted :: bool
  nt_route_kind :: "string option"
  nt_ephemeral_route_ref :: "string option"
  nt_error_code :: "string option"

record TemporalReceipt =
  tr_status :: string
  tr_instant_id :: "string option"
  tr_receipt :: "dict option"
  tr_error_code :: "string option"

record WatchdogResult =
  wr_wake_id :: string
  wr_status :: string
  wr_details :: dict

record 'w adapters =
  invoke :: "WakeRequest \<Rightarrow> string \<Rightarrow> ('w, ProviderResult) op"
  notify :: "dict \<Rightarrow> ('w, NotificationResult) op"
  register :: "string \<Rightarrow> dict \<Rightarrow> ('w, TemporalReceipt) op"

text \<open>\<open>Path.resolve(strict=True)\<close>, \<open>is_symlink\<close> and the regular files of the host, on a POSIX system.\<close>

record host =
  hs_resolve :: "string \<Rightarrow> path option"
  hs_symlink :: "path \<Rightarrow> bool"
  hs_file :: "path \<Rightarrow> string option"

record 'w watchdog =
  wd_lib :: lib
  wd_config :: WakeConfig
  wd_id :: string
  wd_adapters :: "'w adapters"
  wd_host :: host
  wd_explain :: "exn \<Rightarrow> string \<times> dict"

text \<open>What the clock shows in one run.\<close>

record ticks =
  tk_check :: instant
  tk_failure :: instant
  tk_claim :: instant
  tk_ack :: instant
  tk_notify :: instant

record 'w wstate =
  ws_disk :: disk
  ws_world :: 'w

definition on_disk :: "(disk, 'a) op \<Rightarrow> ('w wstate, 'a) op" where
  "on_disk m = (\<lambda>s. let (D, r) = m (ws_disk s) in (s\<lparr>ws_disk := D\<rparr>, r))"

definition on_world :: "('w, 'a) op \<Rightarrow> ('w wstate, 'a) op" where
  "on_world m = (\<lambda>s. let (w, r) = m (ws_world s) in (s\<lparr>ws_world := w\<rparr>, r))"

definition attempt :: "('s, 'a) op \<Rightarrow> ('s, 'a res) op" where
  "attempt m = (\<lambda>s. let (s', r) = m s in (s', Inr r))"

section \<open>Checks before the claim\<close>

definition policy_refusal :: "WakeConfig \<Rightarrow> WakeRequest \<Rightarrow> (string \<times> string) option" where
  "policy_refusal cfg q =
     (if wq_target_kind q = ''exact_instance''
      then Some (''exact_instance_spawn_refused'', ''Version 1 never spawns for exact-instance targets'')
      else if wq_target_kind q \<notin> set (wc_allowed_target_kinds cfg)
      then Some (''target_kind_not_allowed'', ''target kind is not allowed by watchdog config'')
      else if \<not> wq_spawn_allowed q then Some (''spawn_authority_missing'', ''spawn_allowed is false'')
      else if wq_model q \<notin> set (wc_allowed_models cfg)
      then Some (''model_not_allowed'', ''model is not allowed by watchdog config'')
      else if wq_allowed_tools q \<notin> snd ` set (wc_allowed_tools_by_policy cfg)
      then Some (''tools_policy_not_allowed'', ''allowed_tools do not match an allowed policy'')
      else if ''dontAsk'' \<notin> set (wc_permission_modes cfg)
      then Some (''permission_mode_not_allowed'', ''permission mode is not allowed'')
      else if wc_maximum_budget_microusd cfg < wq_max_budget_microusd q
      then Some (''budget_exceeds_policy'', ''request budget exceeds configured maximum'')
      else if wc_maximum_timeout_ms cfg < wq_timeout_ms q
      then Some (''timeout_exceeds_policy'', ''request timeout exceeds configured maximum'')
      else None)"

definition expired :: "instant \<Rightarrow> WakeRequest \<Rightarrow> bool res" where
  "expired now q = bindR (from_iso (take (length (wq_expires_at q) - 1) (wq_expires_at q))) (\<lambda>t. Inr (t \<le> now))"

text \<open>\<open>read_allowlisted_payload\<close>.\<close>

definition matched_root :: "host \<Rightarrow> path \<Rightarrow> string list \<Rightarrow> path option" where
  "matched_root h target roots = (case filter (\<lambda>r. case hs_resolve h r of None \<Rightarrow> False | Some p \<Rightarrow> below p target) roots of
      [] \<Rightarrow> None | r # _ \<Rightarrow> hs_resolve h r)"

definition read_allowlisted_payload :: "lib \<Rightarrow> host \<Rightarrow> WakeConfig \<Rightarrow> WakeRequest \<Rightarrow> string res" where
  "read_allowlisted_payload L h cfg q = (case hs_resolve h (wq_payload_ref q) of
      None \<Rightarrow> Inl (Coded ''payload_unreadable'')
    | Some target \<Rightarrow> (case matched_root h target (wc_allowed_payload_roots cfg) of
        None \<Rightarrow> Inl (Coded ''payload_outside_allowlist'')
      | Some root \<Rightarrow>
          if wc_strict_reparse_checks cfg \<and> (hs_symlink h root \<or> hs_symlink h target)
          then Inl (Coded ''payload_reparse_refused'')
          else (case hs_file h target of
              None \<Rightarrow> Inl (Coded ''payload_unreadable'')
            | Some data \<Rightarrow> if upper (sha256_hex L data) \<noteq> wq_payload_sha256 q
                then Inl (Coded ''payload_integrity_failed'') else Inr data)))"

section \<open>Processing\<close>

definition wresult :: "string \<Rightarrow> string \<Rightarrow> dict \<Rightarrow> ('s, WatchdogResult) op" where
  "wresult wake_id status details = retS \<lparr>wr_wake_id = wake_id, wr_status = status, wr_details = details\<rparr>"

definition failure_record :: "instant \<Rightarrow> string \<Rightarrow> string \<Rightarrow> string \<Rightarrow> dict \<Rightarrow> dict" where
  "failure_record now wake_id code message details =
     [(''schema_version'', JStr ''eml-wake/failure-0.1''),
      (''wake_id'', JStr wake_id),
      (''code'', JStr code),
      (''message'', JStr message),
      (''recorded_at'', JStr (iso_text now)),
      (''details'', JObj details)]"

text \<open>\<open>_failure\<close>.\<close>

definition wfail :: "'w watchdog \<Rightarrow> ticks \<Rightarrow> WakeRequest \<Rightarrow> string \<Rightarrow> string \<times> dict \<Rightarrow> ('w wstate, WatchdogResult) op" where
  "wfail W tk q code why = thenS
     (on_disk (record_failure (wd_lib W) (wq_wake_id q)
        (failure_record (tk_failure tk) (wq_wake_id q) code (fst why) (snd why))))
     (wresult (wq_wake_id q) code (snd why))"

definition ack_record ::
    "WakeRequest \<Rightarrow> string \<Rightarrow> string \<Rightarrow> ProviderResult \<Rightarrow> TemporalReceipt \<Rightarrow> instant \<Rightarrow> string \<Rightarrow> dict" where
  "ack_record q request_digest core pr tr now reply_digest =
     [(''schema_version'', JStr ''eml-wake/ack-0.1''),
      (''wake_id'', JStr (wq_wake_id q)),
      (''request_time_ref'', JStr (wq_created_time_ref q)),
      (''request_digest'', JStr request_digest),
      (''request_core_digest'', JStr core),
      (''payload_sha256'', JStr (wq_payload_sha256 q)),
      (''status'', JStr ''acknowledged''),
      (''provider'', JStr (pr_provider pr)),
      (''model'', JStr (pr_model pr)),
      (''provider_session_id'', JStr (pr_session_id pr)),
      (''watchdog_invocation_id'', JStr (pr_invocation_id pr)),
      (''result_text'', JStr (pr_result_text pr)),
      (''provider_is_error'', JBool (pr_is_error pr)),
      (''provider_subtype'', opt_json (pr_subtype pr)),
      (''provider_stop_reason'', opt_json (pr_stop_reason pr)),
      (''permission_denials'', str_list_json (pr_permission_denials pr)),
      (''cost_microusd'', JInt (pr_cost_microusd pr)),
      (''duration_ms'', JInt (pr_duration_ms pr)),
      (''api_error_status'', (case pr_api_error_status pr of None \<Rightarrow> JNull | Some n \<Rightarrow> JInt n)),
      (''temporal_evidence_status'', JStr (tr_status tr)),
      (''temporal_instant_id'', opt_json (tr_instant_id tr)),
      (''temporal_receipt'', (case tr_receipt tr of None \<Rightarrow> JNull | Some d \<Rightarrow> JObj d)),
      (''temporal_error_code'', opt_json (tr_error_code tr)),
      (''weak_recorded_time'', JStr (iso_text now)),
      (''reply_digest'', JStr reply_digest),
      (''not_claimed'', str_list_json [''resident continuity'', ''identity of a historical interactive instance'',
         ''phenomenal subjectivity''])]"

definition notification_record :: "NotificationResult \<Rightarrow> string \<Rightarrow> instant \<Rightarrow> dict" where
  "notification_record n wake_id now =
     [(''notification_id'', JStr (nt_notification_id n)),
      (''attempted'', JBool (nt_attempted n)),
      (''accepted'', JBool (nt_accepted n)),
      (''route_kind'', opt_json (nt_route_kind n)),
      (''ephemeral_route_ref'', opt_json (nt_ephemeral_route_ref n)),
      (''error_code'', opt_json (nt_error_code n)),
      (''schema_version'', JStr ''eml-wake/notification-0.1''),
      (''wake_id'', JStr wake_id),
      (''recorded_at'', JStr (iso_text now))]"

definition wnotify :: "'w watchdog \<Rightarrow> ticks \<Rightarrow> WakeRequest \<Rightarrow> dict \<Rightarrow> ('w wstate, unit) op" where
  "wnotify W tk q ack = catchS
     (bindS (on_world (notify (wd_adapters W) ack)) (\<lambda>n.
        thenS (on_disk (record_notification (wd_lib W) (wq_wake_id q) (notification_record n (wq_wake_id q) (tk_notify tk))))
          (retS ())))
     (\<lambda>_. retS ())"

definition wack :: "'w watchdog \<Rightarrow> ticks \<Rightarrow> WakeRequest \<Rightarrow> ProviderResult \<Rightarrow> ('w wstate, WatchdogResult) op" where
  "wack W tk q pr =
     (if \<not> utf8_valid (pr_result_text pr) then raiseS UnicodeEncodeError
      else let reply_digest = ''sha256:'' @ sha256_hex (wd_lib W) (pr_result_text pr)
       in bindS (catchS
             (bindS (liftS (request_core_digest (wd_lib W) q)) (\<lambda>core.
              on_world (register (wd_adapters W) ''EML wake ACK''
               [(''wake_id'', JStr (wq_wake_id q)), (''request_core_digest'', JStr core),
                (''payload_sha256'', JStr (wq_payload_sha256 q)), (''provider_session_id'', JStr (pr_session_id pr)),
                (''reply_digest'', JStr reply_digest)])))
             (\<lambda>_. retS \<lparr>tr_status = ''unavailable'', tr_instant_id = None, tr_receipt = None,
                tr_error_code = Some ''ctcl_adapter_failed''\<rparr>)) (\<lambda>tr.
          bindS (liftS (wake_digest_ref (wd_lib W) (JObj (request_to_dict q)))) (\<lambda>request_digest.
          bindS (liftS (request_core_digest (wd_lib W) q)) (\<lambda>core.
          let ack = ack_record q request_digest core pr tr (tk_ack tk) reply_digest
          in bindS (on_disk (commit_ack (wd_lib W) (wq_wake_id q) ack)) (\<lambda>p.
             thenS (wnotify W tk q ack)
               (wresult (wq_wake_id q) ''acknowledged'' [(''ack_path'', JStr (posix p))]))))))"

definition winvoke :: "'w watchdog \<Rightarrow> ticks \<Rightarrow> WakeRequest \<Rightarrow> string \<Rightarrow> ('w wstate, WatchdogResult) op" where
  "winvoke W tk q prompt = bindS (attempt (on_world (invoke (wd_adapters W) q prompt))) (\<lambda>outcome. case outcome of
      Inl (Coded code) \<Rightarrow> wfail W tk q code (wd_explain W (Coded code))
    | Inl e \<Rightarrow> wfail W tk q ''provider_failed'' (fst (wd_explain W e), [])
    | Inr pr \<Rightarrow>
        if pr_is_error pr
        then wfail W tk q (if pr_api_error_status pr = Some 529 then ''provider_busy'' else ''provider_failed'')
          (''provider returned an error result'', [])
        else wack W tk q pr)"

definition try_claim :: "'w watchdog \<Rightarrow> ticks \<Rightarrow> WakeRequest \<Rightarrow> ('w wstate, bool) op" where
  "try_claim W tk q = catchS
     (thenS (on_disk (claim (wd_lib W) (tk_claim tk) (wq_wake_id q) (wd_id W))) (retS True))
     (\<lambda>e. if e = Coded ''wake_already_claimed'' then retS False else raiseS e)"

definition wclaim :: "'w watchdog \<Rightarrow> ticks \<Rightarrow> WakeRequest \<Rightarrow> string \<Rightarrow> ('w wstate, WatchdogResult) op" where
  "wclaim W tk q prompt = bindS (try_claim W tk q) (\<lambda>won.
     if \<not> won then wresult (wq_wake_id q) ''claimed_incomplete'' [(''concurrent_claim_lost'', JBool True)]
     else winvoke W tk q prompt)"

definition wpending :: "'w watchdog \<Rightarrow> ticks \<Rightarrow> WakeRequest \<Rightarrow> ('w wstate, WatchdogResult) op" where
  "wpending W tk q = (case policy_refusal (wd_config W) q of
      Some (code, message) \<Rightarrow> wfail W tk q code (message, [])
    | None \<Rightarrow> bindS (liftS (expired (tk_check tk) q)) (\<lambda>late.
        if late then wfail W tk q ''request_expired'' (''wake request expired before claim'', [])
        else case read_allowlisted_payload (wd_lib W) (wd_host W) (wd_config W) q of
            Inl e \<Rightarrow> (case e of Coded code \<Rightarrow> wfail W tk q code (wd_explain W e) | _ \<Rightarrow> raiseS e)
          | Inr data \<Rightarrow>
              if \<not> utf8_valid data
              then wfail W tk q ''payload_invalid_utf8'' (''Version 1 payload must be UTF-8 text'', [])
              else wclaim W tk q data))"

text \<open>\<open>str(record.get("code", "failed"))\<close>; every failure of the watchdog has a string there.\<close>

definition failed_code :: "dict \<Rightarrow> string res" where
  "failed_code d = (case map_of d ''code'' of
      None \<Rightarrow> Inr ''failed'' | Some (JStr s) \<Rightarrow> Inr s | Some _ \<Rightarrow> Inl (Untyped ''code''))"

definition wprocess :: "'w watchdog \<Rightarrow> ticks \<Rightarrow> string \<Rightarrow> ('w wstate, WatchdogResult) op" where
  "wprocess W tk wake_id = bindS (on_disk (wake_status (wd_lib W) wake_id)) (\<lambda>st.
     if wst_status st = ''acknowledged'' then wresult wake_id ''acknowledged'' [(''already_complete'', JBool True)]
     else if wst_status st = ''failed''
     then bindS (liftS (failed_code (wst_record st))) (\<lambda>code. wresult wake_id code [(''already_complete'', JBool True)])
     else if wst_status st = ''claimed_incomplete'' then wresult wake_id ''claimed_incomplete'' []
     else bindS (on_disk (get_request (wd_lib W) wake_id)) (wpending W tk))"

text \<open>\<open>run_once\<close>, with the readings of the clock for each id.\<close>

fun process_all :: "'w watchdog \<Rightarrow> (string \<Rightarrow> ticks) \<Rightarrow> string list \<Rightarrow> ('w wstate, WatchdogResult list) op" where
  "process_all W tks [] = retS []"
| "process_all W tks (w # ws) = bindS (wprocess W (tks w) w) (\<lambda>r. bindS (process_all W tks ws) (\<lambda>rs. retS (r # rs)))"

definition run_once :: "'w watchdog \<Rightarrow> (string \<Rightarrow> ticks) \<Rightarrow> ('w wstate, WatchdogResult list) op" where
  "run_once W tks = bindS (on_disk (pending_wake_ids (wd_lib W))) (process_all W tks)"

end
