(* ===== verification/Wake_Runs.thy ===== *)
theory Wake_Runs
  imports Wake_Watchdog
begin

text \<open>
  What the watchdog guarantees: \<open>process\<close> is a preparation, a claim and an invocation; the
  provider is called at most once for a wake id, whatever watchdogs run side by side; a wake id
  that was processed is never pending again. The adapters are a contract, with the fakes of
  \<open>src/eml_wake/provider.py\<close> and \<open>temporal.py\<close> as their model.
\<close>

section \<open>The phases of a run\<close>

text \<open>
  The part of \<open>process\<close> before the claim answers a result, or the request and the prompt with
  which the watchdog goes on.
\<close>

type_synonym prepared = "WatchdogResult + WakeRequest \<times> string"

definition settled :: "('s, WatchdogResult) op \<Rightarrow> ('s, prepared) op" where
  "settled m = bindS m (\<lambda>r. retS (Inl r))"

definition prepare_pending :: "'w watchdog \<Rightarrow> ticks \<Rightarrow> WakeRequest \<Rightarrow> ('w wstate, prepared) op" where
  "prepare_pending W tk q = (case policy_refusal (wd_config W) q of
      Some (code, message) \<Rightarrow> settled (wfail W tk q code (message, []))
    | None \<Rightarrow> bindS (liftS (expired (tk_check tk) q)) (\<lambda>late.
        if late then settled (wfail W tk q ''request_expired'' (''wake request expired before claim'', []))
        else case read_allowlisted_payload (wd_lib W) (wd_host W) (wd_config W) q of
            Inl e \<Rightarrow> (case e of Coded code \<Rightarrow> settled (wfail W tk q code (wd_explain W e)) | _ \<Rightarrow> raiseS e)
          | Inr data \<Rightarrow>
              if \<not> utf8_valid data
              then settled (wfail W tk q ''payload_invalid_utf8'' (''Version 1 payload must be UTF-8 text'', []))
              else retS (Inr (q, data))))"

definition prepare :: "'w watchdog \<Rightarrow> ticks \<Rightarrow> string \<Rightarrow> ('w wstate, prepared) op" where
  "prepare W tk wake_id = bindS (on_disk (wake_status (wd_lib W) wake_id)) (\<lambda>st.
     if wst_status st = ''acknowledged'' then settled (wresult wake_id ''acknowledged'' [(''already_complete'', JBool True)])
     else if wst_status st = ''failed''
     then bindS (liftS (failed_code (wst_record st)))
       (\<lambda>code. settled (wresult wake_id code [(''already_complete'', JBool True)]))
     else if wst_status st = ''claimed_incomplete'' then settled (wresult wake_id ''claimed_incomplete'' [])
     else bindS (on_disk (get_request (wd_lib W) wake_id)) (prepare_pending W tk))"

definition proceed :: "'w watchdog \<Rightarrow> ticks \<Rightarrow> prepared \<Rightarrow> ('w wstate, WatchdogResult) op" where
  "proceed W tk x = (case x of Inl r \<Rightarrow> retS r | Inr (q, prompt) \<Rightarrow> wclaim W tk q prompt)"

lemma settled_proceed: "bindS (settled m) (proceed W tk) = m"
  by (rule ext) (simp add: settled_def bindS_assoc proceed_def, simp add: op_defs split: prod.splits sum.splits)

lemma bindS_raiseS [simp]: "bindS (raiseS e) f = raiseS e"
  by (simp add: op_defs)

lemma wpending_prepared: "wpending W tk q = bindS (prepare_pending W tk q) (proceed W tk)"
proof (cases "policy_refusal (wd_config W) q")
  case (Some cm)
  then show ?thesis by (simp add: wpending_def prepare_pending_def settled_proceed split_beta)
next
  case None
  show ?thesis
    unfolding wpending_def prepare_pending_def None option.case bindS_assoc
    by (rule arg_cong[where f = "bindS _"], rule ext)
      (simp add: settled_proceed proceed_def split: sum.split exn.split)
qed

text \<open>
  The phases of a run. \<open>process\<close> of a wake id is its preparation, followed by the claim and the
  invocation exactly when the preparation handed over a request and its prompt.
\<close>

theorem process_phases: "wprocess W tk w = bindS (prepare W tk w) (proceed W tk)"
proof -
  have "wpending W tk = (\<lambda>q. bindS (prepare_pending W tk q) (proceed W tk))"
    by (rule ext) (rule wpending_prepared)
  then show ?thesis
    unfolding wprocess_def prepare_def bindS_assoc
    by (intro arg_cong[where f = "bindS _"] ext) (simp add: settled_proceed bindS_assoc)
qed

section \<open>Calls of the provider, as a contract\<close>

text \<open>
  The watchdog's client sees a log of the calls: \<open>invoke\<close> adds its own call, whatever it returns
  or raises, and the two other adapters add none.
\<close>

locale provider_contract =
  fixes adapters :: "'w adapters" and calls :: "'w \<Rightarrow> (WakeRequest \<times> string) list"
  assumes invoke_calls: "calls (fst (invoke adapters q prompt w)) = calls w @ [(q, prompt)]"
    and notify_calls: "calls (fst (notify adapters ack w)) = calls w"
    and register_calls: "calls (fst (register adapters label meta w)) = calls w"
begin

definition silent :: "'w wstate \<Rightarrow> 'w wstate \<Rightarrow> bool" where
  "silent s s' \<longleftrightarrow> calls (ws_world s') = calls (ws_world s) \<and> grows (ws_disk s) (ws_disk s')"

definition quiet :: "('w wstate, 'a) op \<Rightarrow> bool" where
  "quiet k \<longleftrightarrow> (\<forall>s. silent s (fst (k s)))"

lemma silent_refl: "silent s s"
  by (simp add: silent_def)

lemma silent_trans: "silent s s' \<Longrightarrow> silent s' s'' \<Longrightarrow> silent s s''"
  by (auto simp: silent_def intro: grows_trans)

lemma quietD: "quiet k \<Longrightarrow> k s = (s', r) \<Longrightarrow> silent s s'"
  unfolding quiet_def by (metis fst_conv)

lemma quiet_bindS: "quiet m \<Longrightarrow> (\<And>x. quiet (f x)) \<Longrightarrow> quiet (bindS m f)"
  unfolding quiet_def bindS_def
  by (auto split: prod.splits sum.splits) (metis fst_conv silent_trans)+

lemma quiet_catchS: "quiet m \<Longrightarrow> (\<And>e. quiet (h e)) \<Longrightarrow> quiet (catchS m h)"
  unfolding quiet_def catchS_def
  by (auto split: prod.splits sum.splits) (metis fst_conv silent_trans)+

lemma quiet_thenS: "quiet m \<Longrightarrow> quiet k \<Longrightarrow> quiet (thenS m k)"
  by (simp add: thenS_def quiet_bindS)

lemma quiet_basic: "quiet (retS x)" "quiet (raiseS e)" "quiet (liftS r)"
  by (simp_all add: quiet_def op_defs silent_refl)

lemma quiet_on_disk: "immutable m \<Longrightarrow> quiet (on_disk m)"
  by (auto simp: quiet_def on_disk_def silent_def immutable_def split_beta)

lemma quiet_notify: "quiet (on_world (notify adapters a))" "quiet (on_world (register adapters l m))"
  by (simp_all add: quiet_def on_world_def silent_def split_beta notify_calls register_calls)

lemma quiet_if: "quiet k \<Longrightarrow> quiet k' \<Longrightarrow> quiet (if c then k else k')"
  by simp

lemmas quiet_intros = quiet_bindS quiet_catchS quiet_thenS quiet_basic quiet_on_disk quiet_notify quiet_if immutable_intros

lemma quiet_wfail: "quiet (wfail W tk q c why)"
  unfolding wfail_def wresult_def by (intro quiet_intros)

lemma quiet_wack: "wd_adapters W = adapters \<Longrightarrow> quiet (wack W tk q pr)"
  unfolding wack_def wnotify_def wresult_def Let_def by (simp only:) (intro quiet_intros)

lemma quiet_try_claim: "quiet (try_claim W tk q)"
  unfolding try_claim_def by (intro quiet_intros)

lemma quiet_settled: "quiet m \<Longrightarrow> quiet (settled m)"
  unfolding settled_def by (intro quiet_intros)

lemma quiet_prepare: "quiet (prepare W tk w)"
proof -
  have w: "quiet (wresult i st d)" for i st d by (simp add: wresult_def quiet_basic)
  have "quiet (prepare_pending W tk q)" for q
    unfolding prepare_pending_def
    by (cases "policy_refusal (wd_config W) q")
      (auto intro!: quiet_intros quiet_settled quiet_wfail split: sum.split exn.split)
  then show ?thesis
    unfolding prepare_def by (intro quiet_intros quiet_settled w)
qed

lemma winvoke_bind:
  assumes "wd_adapters W = adapters"
  obtains k where "winvoke W tk q prompt = bindS (attempt (on_world (invoke adapters q prompt))) k" and "\<And>x. quiet (k x)"
proof (rule that[OF winvoke_def[of W tk q prompt, unfolded assms]])
  show "quiet (case outcome of
      Inl (Coded code) \<Rightarrow> wfail W tk q code (wd_explain W (Coded code))
    | Inl e \<Rightarrow> wfail W tk q ''provider_failed'' (fst (wd_explain W e), [])
    | Inr pr \<Rightarrow>
        if pr_is_error pr
        then wfail W tk q (if pr_api_error_status pr = Some 529 then ''provider_busy'' else ''provider_failed'')
          (''provider returned an error result'', [])
        else wack W tk q pr)" for outcome :: "ProviderResult res"
  proof (cases outcome)
    case (Inl e)
    then show ?thesis by (cases e) (simp_all add: quiet_wfail)
  next
    case (Inr pr)
    then show ?thesis by (simp add: quiet_wfail quiet_wack[OF assms])
  qed
qed

lemma winvoke_calls:
  assumes "wd_adapters W = adapters" and "winvoke W tk q prompt s = (s', r)"
  shows "calls (ws_world s') = calls (ws_world s) @ [(q, prompt)] \<and> grows (ws_disk s) (ws_disk s')"
proof -
  obtain k where k: "winvoke W tk q prompt = bindS (attempt (on_world (invoke adapters q prompt))) k" "\<And>x. quiet (k x)"
    using winvoke_bind[OF assms(1)] by blast
  have "attempt (on_world (invoke adapters q prompt)) s = (s\<lparr>ws_world := fst (invoke adapters q prompt (ws_world s))\<rparr>,
      Inr (snd (invoke adapters q prompt (ws_world s))))"
    by (simp add: attempt_def on_world_def split_beta)
  with assms(2) k(1) have "k (snd (invoke adapters q prompt (ws_world s)))
      (s\<lparr>ws_world := fst (invoke adapters q prompt (ws_world s))\<rparr>) = (s', r)"
    by (simp add: bindS_def)
  from quietD[OF k(2) this] show ?thesis by (simp add: silent_def invoke_calls)
qed

end

section \<open>What the phases leave\<close>

lemma on_disk_eq: "on_disk m s = (s\<lparr>ws_disk := fst (m (ws_disk s))\<rparr>, snd (m (ws_disk s)))"
  by (simp add: on_disk_def split_beta)

lemma get_request_Inr:
  assumes "get_request L w D = (D', Inr q)"
  shows "D' = D \<and> wq_wake_id q = w \<and> (\<exists>d. read_dict_file (d_files D) (request_path L w) = Inr d \<and> request_from_dict d = Inr q)"
  using assms unfolding get_request_def
  by (elim thenS_InrE bindS_InrE) (auto simp: encoded_def is_fileS_def read_dict_def elim!: bindS_InrE split: if_splits)

lemma wake_status_Inr:
  assumes "wake_status L w D = (D', Inr st)"
  shows "D' = D \<and> (wst_status st = ''acknowledged'' \<and> is_file (d_files D) (ack_path L w)
     \<or> wst_status st = ''failed'' \<and> is_file (d_files D) (failure_path L w)
     \<or> wst_status st = ''claimed_incomplete'' \<and> is_file (d_files D) (claim_path L w)
     \<or> wst_status st = ''pending'' \<and> \<not> is_file (d_files D) (claim_path L w))"
  using assms unfolding wake_status_def
  by (elim bindS_InrE) (auto dest!: get_request_Inr simp: is_fileS_def read_dict_def elim!: bindS_InrE split: if_splits)

lemma read_allowlisted_Inr:
  assumes "read_allowlisted_payload L h cfg q = Inr prompt"
  shows "upper (sha256_hex L prompt) = wq_payload_sha256 q
    \<and> (\<exists>target r root. hs_resolve h (wq_payload_ref q) = Some target \<and> hs_file h target = Some prompt
        \<and> r \<in> set (wc_allowed_payload_roots cfg) \<and> hs_resolve h r = Some root \<and> below root target)"
proof -
  from assms obtain target root where t: "hs_resolve h (wq_payload_ref q) = Some target"
    and m: "matched_root h target (wc_allowed_payload_roots cfg) = Some root"
    and f: "hs_file h target = Some prompt" "upper (sha256_hex L prompt) = wq_payload_sha256 q"
    by (auto simp: read_allowlisted_payload_def split: option.splits if_splits)
  from m obtain r rs where r: "filter (\<lambda>r. case hs_resolve h r of None \<Rightarrow> False | Some p \<Rightarrow> below p target)
      (wc_allowed_payload_roots cfg) = r # rs" "hs_resolve h r = Some root"
    by (auto simp: matched_root_def split: list.splits)
  from r(1) have "r \<in> set (filter (\<lambda>r. case hs_resolve h r of None \<Rightarrow> False | Some p \<Rightarrow> below p target)
      (wc_allowed_payload_roots cfg))" by simp
  with r(2) t f show ?thesis by auto
qed

text \<open>The grounds on which a watchdog hands a prompt to the provider.\<close>

definition admitted :: "'w watchdog \<Rightarrow> WakeRequest \<times> string \<Rightarrow> bool" where
  "admitted W c = (case c of (q, prompt) \<Rightarrow> policy_refusal (wd_config W) q = None
     \<and> read_allowlisted_payload (wd_lib W) (wd_host W) (wd_config W) q = Inr prompt \<and> utf8_valid prompt)"

lemma settled_not_ready: "settled m s \<noteq> (s', Inr (Inr c))"
  by (simp add: settled_def op_defs split: prod.splits sum.splits)

lemma prepare_pending_ready:
  assumes "prepare_pending W tk q s = (s', Inr (Inr c))"
  shows "s' = s \<and> fst c = q \<and> admitted W c \<and> expired (tk_check tk) q = Inr False"
proof (cases "policy_refusal (wd_config W) q")
  case (Some cm)
  with assms show ?thesis by (simp add: prepare_pending_def split_beta settled_not_ready)
next
  case None
  with assms obtain late s1 where e: "liftS (expired (tk_check tk) q) s = (s1, Inr late)"
    and k: "(if late then settled (wfail W tk q ''request_expired'' (''wake request expired before claim'', []))
        else case read_allowlisted_payload (wd_lib W) (wd_host W) (wd_config W) q of
            Inl e \<Rightarrow> (case e of Coded code \<Rightarrow> settled (wfail W tk q code (wd_explain W e)) | _ \<Rightarrow> raiseS e)
          | Inr data \<Rightarrow>
              if \<not> utf8_valid data
              then settled (wfail W tk q ''payload_invalid_utf8'' (''Version 1 payload must be UTF-8 text'', []))
              else retS (Inr (q, data))) s1 = (s', Inr (Inr c))"
    by (auto simp: prepare_pending_def elim!: bindS_InrE)
  then show ?thesis
    by (auto simp: settled_not_ready admitted_def None split: if_splits sum.splits exn.splits)
qed

lemma on_disk_bindE:
  assumes "bindS (on_disk m) f s = (s', Inr b)"
  obtains a D where "m (ws_disk s) = (D, Inr a)" and "f a (s\<lparr>ws_disk := D\<rparr>) = (s', Inr b)"
  using assms by (elim bindS_InrE) (auto simp: on_disk_eq prod_eq_iff)

lemma prepare_ready:
  assumes "prepare W tk w s = (s', Inr (Inr c))"
  shows "s' = s \<and> wq_wake_id (fst c) = w \<and> admitted W c \<and> expired (tk_check tk) (fst c) = Inr False
    \<and> get_request (wd_lib W) w (ws_disk s) = (ws_disk s, Inr (fst c))
    \<and> \<not> is_file (d_files (ws_disk s)) (claim_path (wd_lib W) w)"
proof -
  from assms[unfolded prepare_def] obtain st D where st: "wake_status (wd_lib W) w (ws_disk s) = (D, Inr st)"
    and k: "(if wst_status st = ''acknowledged''
       then settled (wresult w ''acknowledged'' [(''already_complete'', JBool True)])
     else if wst_status st = ''failed''
     then bindS (liftS (failed_code (wst_record st)))
       (\<lambda>code. settled (wresult w code [(''already_complete'', JBool True)]))
     else if wst_status st = ''claimed_incomplete'' then settled (wresult w ''claimed_incomplete'' [])
     else bindS (on_disk (get_request (wd_lib W) w)) (prepare_pending W tk)) (s\<lparr>ws_disk := D\<rparr>) = (s', Inr (Inr c))"
    by (rule on_disk_bindE)
  note D = wake_status_Inr[OF st]
  from k D have pending: "wst_status st = ''pending''" "\<not> is_file (d_files (ws_disk s)) (claim_path (wd_lib W) w)"
    by (auto simp: settled_not_ready elim!: bindS_InrE)
  with k D have "bindS (on_disk (get_request (wd_lib W) w)) (prepare_pending W tk) s = (s', Inr (Inr c))"
    by simp
  then obtain q D' where q: "get_request (wd_lib W) w (ws_disk s) = (D', Inr q)"
    and p: "prepare_pending W tk q (s\<lparr>ws_disk := D'\<rparr>) = (s', Inr (Inr c))"
    by (rule on_disk_bindE)
  with get_request_Inr[OF q] prepare_pending_ready[OF p] pending(2) show ?thesis by auto
qed

lemma claim_lost:
  assumes "claim L now w wd D = (D', Inl (Coded ''wake_already_claimed''))" and "get_request L w D = (D, Inr q)"
  shows "path_exists (d_files D') (claim_path L w)"
proof (cases "request_core_digest L q")
  case (Inl e)
  with assms show ?thesis
    using canonical_bytes_Inl[of L _ e]
    by (auto simp: claim_def op_defs request_core_digest_def wake_digest_ref_def tagged_digest_def bindR_Inl_iff)
next
  case (Inr digest)
  let ?p = "publish_json L (claim_path L w) (JObj (claim_record w wd digest now)) D"
  from assms Inr have "?p = (D', Inl (Coded ''immutable_file_exists'')) \<or> ?p = (D', Inl (Coded ''wake_already_claimed''))"
    by (cases ?p) (auto simp: claim_def op_defs Let_def split: sum.splits if_splits)
  moreover have "?p \<noteq> (D', Inl (Coded ''wake_already_claimed''))"
    using canonical_bytes_Inl[of L _ "Coded ''wake_already_claimed''"]
    by (auto simp: publish_json_def op_defs publish_bytes_def link_new_eq Let_def split: sum.splits if_splits)
  ultimately show ?thesis by (auto intro: publish_json_taken)
qed

lemma try_claim_won:
  assumes "try_claim W tk q s = (s', Inr True)"
  shows "map_of (d_files (ws_disk s)) (claim_path (wd_lib W) (wq_wake_id q)) = None
    \<and> map_of (d_files (ws_disk s')) (claim_path (wd_lib W) (wq_wake_id q)) \<noteq> None"
proof -
  from assms obtain u where "on_disk (claim (wd_lib W) (tk_claim tk) (wq_wake_id q) (wd_id W)) s = (s', Inr u)"
    unfolding try_claim_def by (elim catchS_InrE) (auto elim!: thenS_InrE split: if_splits)
  then have "claim (wd_lib W) (tk_claim tk) (wq_wake_id q) (wd_id W) (ws_disk s) = (ws_disk s', Inr u)"
    by (auto simp: on_disk_eq prod_eq_iff)
  then show ?thesis by (rule claim_Inr)
qed

lemma try_claim_lost:
  assumes "try_claim W tk q s = (s', Inr False)"
    and "get_request (wd_lib W) (wq_wake_id q) (ws_disk s) = (ws_disk s, Inr q)"
  shows "path_exists (d_files (ws_disk s')) (claim_path (wd_lib W) (wq_wake_id q))"
proof -
  from assms(1) have "on_disk (claim (wd_lib W) (tk_claim tk) (wq_wake_id q) (wd_id W)) s
      = (s', Inl (Coded ''wake_already_claimed''))"
    unfolding try_claim_def by (auto simp: thenS_def bindS_def catchS_def op_defs split: prod.splits sum.splits if_splits)
  then have "claim (wd_lib W) (tk_claim tk) (wq_wake_id q) (wd_id W) (ws_disk s)
      = (ws_disk s', Inl (Coded ''wake_already_claimed''))"
    by (auto simp: on_disk_eq prod_eq_iff)
  then show ?thesis using assms(2) by (rule claim_lost)
qed

section \<open>One process\<close>

context provider_contract
begin

lemma process_calls:
  assumes A: "wd_adapters W = adapters" and run: "wprocess W tk w s = (s', r)"
  shows "grows (ws_disk s) (ws_disk s') \<and> (calls (ws_world s') = calls (ws_world s)
    \<or> (\<exists>q prompt. calls (ws_world s') = calls (ws_world s) @ [(q, prompt)] \<and> wq_wake_id q = w
        \<and> admitted W (q, prompt) \<and> expired (tk_check tk) q = Inr False
        \<and> get_request (wd_lib W) w (ws_disk s) = (ws_disk s, Inr q)
        \<and> map_of (d_files (ws_disk s)) (claim_path (wd_lib W) w) = None
        \<and> map_of (d_files (ws_disk s')) (claim_path (wd_lib W) w) \<noteq> None))"
proof (cases "\<exists>c. snd (prepare W tk w s) = Inr (Inr c)")
  case False
  then have "(s', r) = (fst (prepare W tk w s), r)"
    using run by (auto simp: process_phases bindS_def proceed_def retS_def split: prod.splits sum.splits)
  then have "silent s s'" using quiet_prepare unfolding quiet_def by (metis fst_conv)
  then show ?thesis by (simp add: silent_def)
next
  case True
  then obtain q prompt s1 where p: "prepare W tk w s = (s1, Inr (Inr (q, prompt)))"
    by (metis surj_pair prod.collapse)
  note ready = prepare_ready[OF p, unfolded fst_conv]
  from run p ready have c: "wclaim W tk q prompt s = (s', r)"
    by (simp add: process_phases bindS_def proceed_def)
  show ?thesis
  proof (cases "snd (try_claim W tk q s) = Inr True")
    case False
    with c have "s' = fst (try_claim W tk q s)"
      by (auto simp: wclaim_def bindS_def wresult_def retS_def split: prod.splits sum.splits if_splits)
    then have "silent s s'" using quiet_try_claim unfolding quiet_def by simp
    then show ?thesis by (simp add: silent_def)
  next
    case True
    then obtain s2 where t: "try_claim W tk q s = (s2, Inr True)" by (metis prod.collapse)
    with c have v: "winvoke W tk q prompt s2 = (s', r)" by (simp add: wclaim_def bindS_def)
    have "silent s s2" by (rule quietD[OF quiet_try_claim t])
    moreover note winvoke_calls[OF A v] try_claim_won[OF t] ready
    moreover have "map_of (d_files (ws_disk s')) p \<noteq> None"
      if "grows (ws_disk s2) (ws_disk s')" "map_of (d_files (ws_disk s2)) p \<noteq> None" for p
      using that by (auto dest: grows_get)
    ultimately show ?thesis by (auto simp: silent_def intro: grows_trans)
  qed
qed

end

section \<open>What a process that returned leaves\<close>

definition wake_settled :: "lib \<Rightarrow> string \<Rightarrow> files \<Rightarrow> bool" where
  "wake_settled L w fs \<longleftrightarrow> is_file fs (ack_path L w) \<or> is_file fs (failure_path L w) \<or> path_exists fs (claim_path L w)"

lemma record_failure_Inr:
  assumes "record_failure L w f D = (D', Inr p)"
  shows "is_file (d_files D') (failure_path L w)"
proof -
  from assms obtain q D1 where
    "thenS (publish_json L (failure_path L w) (JObj f)) (retS (failure_path L w)) D1 = (D', Inr p)"
    unfolding record_failure_def by (auto elim!: bindS_InrE split: if_splits)
  then show ?thesis by (auto simp: is_file_def elim!: thenS_InrE publish_json_Inr)
qed

lemma commit_ack_Inr:
  assumes "commit_ack L w a D = (D', Inr p)"
  shows "is_file (d_files D') (ack_path L w)"
proof -
  from assms obtain D1 where
    "thenS (publish_json L (ack_path L w) (JObj a)) (retS (ack_path L w)) D1 = (D', Inr p)"
    unfolding commit_ack_def by (auto elim!: thenS_InrE bindS_InrE split: if_splits)
  then show ?thesis by (auto simp: is_file_def elim!: thenS_InrE publish_json_Inr)
qed

lemma wfail_Inr:
  assumes "wfail W tk q c why s = (s', Inr r)"
  shows "is_file (d_files (ws_disk s')) (failure_path (wd_lib W) (wq_wake_id q)) \<and> wr_status r = c"
proof -
  from assms obtain p s1 where f: "on_disk (record_failure (wd_lib W) (wq_wake_id q)
        (failure_record (tk_failure tk) (wq_wake_id q) c (fst why) (snd why))) s = (s1, Inr p)"
    and k: "wresult (wq_wake_id q) c (snd why) s1 = (s', Inr r)"
    unfolding wfail_def by (rule thenS_InrE)
  from f have "record_failure (wd_lib W) (wq_wake_id q)
      (failure_record (tk_failure tk) (wq_wake_id q) c (fst why) (snd why)) (ws_disk s) = (ws_disk s1, Inr p)"
    by (auto simp: on_disk_eq prod_eq_iff)
  from record_failure_Inr[OF this] k show ?thesis by (auto simp: wresult_def)
qed

lemma wfail_settled: "wfail W tk q c why s = (s', Inr r) \<Longrightarrow> wake_settled (wd_lib W) (wq_wake_id q) (d_files (ws_disk s'))"
  using wfail_Inr unfolding wake_settled_def by blast

lemma settled_InrE:
  assumes "settled m s = (s', Inr (Inl r))"
  shows "m s = (s', Inr r)"
  using assms by (auto simp: settled_def elim!: bindS_InrE)

lemma prepare_pending_settled:
  assumes "prepare_pending W tk q s = (s', Inr (Inl r))"
  shows "wake_settled (wd_lib W) (wq_wake_id q) (d_files (ws_disk s'))"
proof (cases "policy_refusal (wd_config W) q")
  case (Some cm)
  with assms show ?thesis by (auto simp: prepare_pending_def split_beta dest!: settled_InrE wfail_settled)
next
  case None
  with assms show ?thesis
    by (auto simp: prepare_pending_def elim!: bindS_InrE dest!: settled_InrE wfail_settled
      split: if_splits sum.splits exn.splits)
qed

lemma prepare_settled:
  assumes "prepare W tk w s = (s', Inr (Inl r))"
  shows "wake_settled (wd_lib W) w (d_files (ws_disk s'))"
proof -
  from assms[unfolded prepare_def] obtain st D where st: "wake_status (wd_lib W) w (ws_disk s) = (D, Inr st)"
    and k: "(if wst_status st = ''acknowledged''
       then settled (wresult w ''acknowledged'' [(''already_complete'', JBool True)])
     else if wst_status st = ''failed''
     then bindS (liftS (failed_code (wst_record st)))
       (\<lambda>code. settled (wresult w code [(''already_complete'', JBool True)]))
     else if wst_status st = ''claimed_incomplete'' then settled (wresult w ''claimed_incomplete'' [])
     else bindS (on_disk (get_request (wd_lib W) w)) (prepare_pending W tk)) (s\<lparr>ws_disk := D\<rparr>) = (s', Inr (Inl r))"
    by (rule on_disk_bindE)
  note D = wake_status_Inr[OF st]
  consider "wst_status st = ''pending''" | "ws_disk s' = ws_disk s" "wst_status st \<noteq> ''pending''"
    using k D by (auto simp: wresult_def elim!: bindS_InrE dest!: settled_InrE)
  then show ?thesis
  proof cases
    case 1
    with k have "bindS (on_disk (get_request (wd_lib W) w)) (prepare_pending W tk) (s\<lparr>ws_disk := D\<rparr>) = (s', Inr (Inl r))"
      by simp
    then obtain q D' where "get_request (wd_lib W) w (ws_disk (s\<lparr>ws_disk := D\<rparr>)) = (D', Inr q)"
      and p: "prepare_pending W tk q (s\<lparr>ws_disk := D, ws_disk := D'\<rparr>) = (s', Inr (Inl r))"
      by (rule on_disk_bindE)
    then have "wq_wake_id q = w" using get_request_Inr by blast
    with prepare_pending_settled[OF p] show ?thesis by simp
  next
    case 2
    with D show ?thesis by (auto simp: wake_settled_def path_exists_def)
  qed
qed

lemma settled_grows: "wake_settled L w (d_files D) \<Longrightarrow> grows D D' \<Longrightarrow> map_of (d_files D) (claim_path L w) \<noteq> None \<Longrightarrow>
    wake_settled L w (d_files D')"
  by (auto simp: wake_settled_def path_exists_def is_file_def dest: grows_get)

lemma settled_not_pending:
  assumes "wake_settled L w (d_files D)" and "pending_wake_ids L D = (D', Inr ids)"
  shows "w \<notin> set ids \<or> is_file (d_files D) (ack_path L w)"
proof -
  from assms(2) obtain xs where xs: "mapR (pending_entry L (d_files D)) (glob_json (d_files D) [''requests'']) = Inr xs"
    and ids: "ids = concat xs" by (auto simp: pending_wake_ids_def bindR_Inr_iff)
  have "\<not> path_exists (d_files D) (claim_path L w) \<and> \<not> path_exists (d_files D) (failure_path L w)"
    if "w \<in> set x" "x \<in> set xs" for x
    using mapR_mem(2)[OF xs that(2)] that(1) by (auto simp: pending_entry_def bindR_Inr_iff split: if_splits)
  then have "\<not> path_exists (d_files D) (claim_path L w) \<and> \<not> path_exists (d_files D) (failure_path L w)" if "w \<in> set ids"
    using that unfolding ids by auto
  with assms(1) show ?thesis unfolding wake_settled_def by (auto simp: path_exists_def)
qed

context provider_contract
begin

lemma process_settled:
  assumes A: "wd_adapters W = adapters" and run: "wprocess W tk w s = (s', Inr r)"
  shows "wake_settled (wd_lib W) w (d_files (ws_disk s'))"
proof -
  from run obtain x s1 where p: "prepare W tk w s = (s1, Inr x)" and k: "proceed W tk x s1 = (s', Inr r)"
    unfolding process_phases by (rule bindS_InrE)
  show ?thesis
  proof (cases x)
    case (Inl r')
    with p k show ?thesis by (auto simp: proceed_def dest: prepare_settled)
  next
    case (Inr c)
    obtain q prompt where c: "c = (q, prompt)" by (cases c)
    note ready = prepare_ready[OF p[unfolded Inr c], unfolded fst_conv]
    from k have "bindS (try_claim W tk q) (\<lambda>won.
       if \<not> won then wresult (wq_wake_id q) ''claimed_incomplete'' [(''concurrent_claim_lost'', JBool True)]
       else winvoke W tk q prompt) s = (s', Inr r)" using ready by (simp add: Inr c proceed_def wclaim_def)
    then obtain won s2 where t: "try_claim W tk q s = (s2, Inr won)"
      and v: "(if \<not> won then wresult (wq_wake_id q) ''claimed_incomplete'' [(''concurrent_claim_lost'', JBool True)]
       else winvoke W tk q prompt) s2 = (s', Inr r)" by (rule bindS_InrE)
    show ?thesis
    proof (cases won)
      case False
      with v have "s' = s2" by (simp add: wresult_def)
      with try_claim_lost[of W tk q s s2] t False ready show ?thesis by (simp add: wake_settled_def)
    next
      case True
      with t have "map_of (d_files (ws_disk s2)) (claim_path (wd_lib W) (wq_wake_id q)) \<noteq> None"
        using try_claim_won[of W tk q s s2] by simp
      moreover from this have "wake_settled (wd_lib W) (wq_wake_id q) (d_files (ws_disk s2))"
        by (simp add: wake_settled_def path_exists_def is_file_def)
      moreover have "grows (ws_disk s2) (ws_disk s')" using winvoke_calls[OF A] v True by simp
      ultimately show ?thesis using ready settled_grows by blast
    qed
  qed
qed

end

section \<open>Watchdogs side by side\<close>

datatype phase = Idle | Ready WakeRequest string | Won WakeRequest string

record 'w fleet =
  fl_state :: "'w wstate"
  fl_phase :: "nat \<Rightarrow> phase"

text \<open>
  Any number of watchdogs, each of which runs a phase at a time on one file system and one world:
  it looks at a wake id, claims what it is ready for, calls the provider, or dies and starts
  again; and other processes add files.
\<close>

inductive fleet_step :: "(nat \<Rightarrow> 'w watchdog) \<Rightarrow> 'w fleet \<Rightarrow> 'w fleet \<Rightarrow> bool"
  for Ws :: "nat \<Rightarrow> 'w watchdog" where
  look_ready: "fl_phase F i = Idle \<Longrightarrow> prepare (Ws i) tk w (fl_state F) = (s', Inr (Inr (q, prompt))) \<Longrightarrow>
    fleet_step Ws F \<lparr>fl_state = s', fl_phase = (fl_phase F)(i := Ready q prompt)\<rparr>"
| look_done: "fl_phase F i = Idle \<Longrightarrow> prepare (Ws i) tk w (fl_state F) = (s', r) \<Longrightarrow> (\<And>c. r \<noteq> Inr (Inr c)) \<Longrightarrow>
    fleet_step Ws F \<lparr>fl_state = s', fl_phase = fl_phase F\<rparr>"
| win: "fl_phase F i = Ready q prompt \<Longrightarrow> try_claim (Ws i) tk q (fl_state F) = (s', Inr True) \<Longrightarrow>
    fleet_step Ws F \<lparr>fl_state = s', fl_phase = (fl_phase F)(i := Won q prompt)\<rparr>"
| lose: "fl_phase F i = Ready q prompt \<Longrightarrow> try_claim (Ws i) tk q (fl_state F) = (s', r) \<Longrightarrow> r \<noteq> Inr True \<Longrightarrow>
    fleet_step Ws F \<lparr>fl_state = s', fl_phase = (fl_phase F)(i := Idle)\<rparr>"
| call: "fl_phase F i = Won q prompt \<Longrightarrow> winvoke (Ws i) tk q prompt (fl_state F) = (s', r) \<Longrightarrow>
    fleet_step Ws F \<lparr>fl_state = s', fl_phase = (fl_phase F)(i := Idle)\<rparr>"
| crash: "fleet_step Ws F \<lparr>fl_state = fl_state F, fl_phase = (fl_phase F)(i := Idle)\<rparr>"
| foreign: "grows (ws_disk (fl_state F)) D \<Longrightarrow>
    fleet_step Ws F \<lparr>fl_state = (fl_state F)\<lparr>ws_disk := D\<rparr>, fl_phase = fl_phase F\<rparr>"

inductive fleet_run :: "(nat \<Rightarrow> 'w watchdog) \<Rightarrow> 'w fleet \<Rightarrow> 'w fleet \<Rightarrow> bool"
  for Ws :: "nat \<Rightarrow> 'w watchdog" where
  start: "fleet_run Ws F F"
| step: "fleet_run Ws F G \<Longrightarrow> fleet_step Ws G H \<Longrightarrow> fleet_run Ws F H"

definition calls_of :: "string \<Rightarrow> (WakeRequest \<times> string) list \<Rightarrow> (WakeRequest \<times> string) list" where
  "calls_of w cs = filter (\<lambda>c. wq_wake_id (fst c) = w) cs"

text \<open>No call without a claim, one call at most, and one winner at most, before its call.\<close>

definition fleet_inv :: "lib \<Rightarrow> (WakeRequest \<times> string) list \<Rightarrow> disk \<Rightarrow> (nat \<Rightarrow> phase) \<Rightarrow> bool" where
  "fleet_inv L cs D ph \<longleftrightarrow> (\<forall>w. length (calls_of w cs) \<le> 1)
     \<and> (\<forall>w. map_of (d_files D) (claim_path L w) = None \<longrightarrow> calls_of w cs = [])
     \<and> (\<forall>i q p. ph i = Won q p \<longrightarrow> map_of (d_files D) (claim_path L (wq_wake_id q)) \<noteq> None
          \<and> calls_of (wq_wake_id q) cs = [])
     \<and> (\<forall>i j q p q' p'. ph i = Won q p \<longrightarrow> ph j = Won q' p' \<longrightarrow> wq_wake_id q = wq_wake_id q' \<longrightarrow> i = j)"

lemma inv_grows: "fleet_inv L cs D ph \<Longrightarrow> grows D D' \<Longrightarrow> fleet_inv L cs D' ph"
proof -
  assume i: "fleet_inv L cs D ph" and g: "grows D D'"
  have "map_of (d_files D) p = None" if "map_of (d_files D') p = None" for p
    using grows_get[OF g] that by (cases "map_of (d_files D) p") auto
  with i show ?thesis unfolding fleet_inv_def by (metis)
qed

lemma inv_phase: "fleet_inv L cs D ph \<Longrightarrow> (\<And>q p. x \<noteq> Won q p) \<Longrightarrow> fleet_inv L cs D (ph(i := x))"
  unfolding fleet_inv_def by (auto split: if_splits)

lemma inv_win:
  assumes "fleet_inv L cs D ph" and "grows D D'" and "map_of (d_files D) (claim_path L (wq_wake_id q)) = None"
    and "map_of (d_files D') (claim_path L (wq_wake_id q)) \<noteq> None"
  shows "fleet_inv L cs D' (ph(i := Won q p))"
proof -
  have "calls_of (wq_wake_id q) cs = []" and "\<And>j q' p'. ph j = Won q' p' \<Longrightarrow> wq_wake_id q' \<noteq> wq_wake_id q"
    using assms(1,3) unfolding fleet_inv_def by metis+
  with inv_grows[OF assms(1,2)] assms(4) show ?thesis
    unfolding fleet_inv_def by (auto split: if_splits) metis+
qed

lemma inv_call:
  assumes "fleet_inv L cs D ph" and "ph i = Won q p"
  shows "fleet_inv L (cs @ [(q, p)]) D (ph(i := Idle))"
proof -
  have "calls_of (wq_wake_id q) cs = []" and "map_of (d_files D) (claim_path L (wq_wake_id q)) \<noteq> None"
    and "\<And>j q' p'. ph j = Won q' p' \<Longrightarrow> wq_wake_id q' = wq_wake_id q \<Longrightarrow> j = i"
    using assms unfolding fleet_inv_def by metis+
  moreover have "calls_of w (cs @ [(q, p)]) = (if w = wq_wake_id q then calls_of w cs @ [(q, p)] else calls_of w cs)" for w
    by (simp add: calls_of_def)
  ultimately show ?thesis using assms(1) unfolding fleet_inv_def by (auto split: if_splits)
qed

definition grounds :: "(nat \<Rightarrow> 'w watchdog) \<Rightarrow> (WakeRequest \<times> string) list \<Rightarrow> (nat \<Rightarrow> phase) \<Rightarrow> bool" where
  "grounds Ws cs ph \<longleftrightarrow> (\<forall>c\<in>set cs. \<exists>i. admitted (Ws i) c)
     \<and> (\<forall>i q p. ph i = Ready q p \<or> ph i = Won q p \<longrightarrow> admitted (Ws i) (q, p))"

lemma grounds_phase:
  "grounds Ws cs ph \<Longrightarrow> grounds Ws cs (ph(i := Idle))"
  "grounds Ws cs ph \<Longrightarrow> admitted (Ws i) (q, p) \<Longrightarrow> grounds Ws cs (ph(i := Ready q p))"
  "grounds Ws cs ph \<Longrightarrow> ph i = Ready q p \<Longrightarrow> grounds Ws cs (ph(i := Won q p))"
  "grounds Ws cs ph \<Longrightarrow> ph i = Won q p \<Longrightarrow> grounds Ws (cs @ [(q, p)]) (ph(i := Idle))"
  unfolding grounds_def by (auto split: if_splits) blast

context provider_contract
begin

definition log :: "'w fleet \<Rightarrow> (WakeRequest \<times> string) list" where
  "log F = calls (ws_world (fl_state F))"

definition safe :: "lib \<Rightarrow> (nat \<Rightarrow> 'w watchdog) \<Rightarrow> 'w fleet \<Rightarrow> bool" where
  "safe L Ws F \<longleftrightarrow> fleet_inv L (log F) (ws_disk (fl_state F)) (fl_phase F) \<and> grounds Ws (log F) (fl_phase F)"

lemma safe_silent:
  "safe L Ws F \<Longrightarrow> silent (fl_state F) s' \<Longrightarrow> safe L Ws \<lparr>fl_state = s', fl_phase = fl_phase F\<rparr>"
  unfolding safe_def log_def silent_def by (auto intro: inv_grows)

lemma safe_idle:
  "safe L Ws F \<Longrightarrow> safe L Ws \<lparr>fl_state = fl_state F, fl_phase = (fl_phase F)(i := Idle)\<rparr>"
  unfolding safe_def log_def by (auto intro: inv_phase grounds_phase)

lemma safe_step:
  assumes "fleet_step Ws F G" and "safe L Ws F" and "\<And>i. wd_adapters (Ws i) = adapters" and "\<And>i. wd_lib (Ws i) = L"
  shows "safe L Ws G"
  using assms(1,2)
proof (cases rule: fleet_step.cases)
  case (look_ready i tk w s' q prompt)
  from prepare_ready[OF look_ready(3)] assms(2) show ?thesis
    by (auto simp: look_ready safe_def log_def intro: inv_phase grounds_phase)
next
  case (look_done i tk w s' r)
  show ?thesis unfolding look_done(1)
    by (rule safe_silent[OF assms(2) quietD[OF quiet_prepare look_done(3)]])
next
  case (win i q prompt tk s')
  have "silent (fl_state F) s'" by (rule quietD[OF quiet_try_claim win(3)])
  with try_claim_won[OF win(3)] assms(2,4) win(2) show ?thesis
    by (auto simp: win(1) safe_def log_def silent_def intro: inv_win grounds_phase)
next
  case (lose i q prompt tk s' r)
  have "silent (fl_state F) s'" by (rule quietD[OF quiet_try_claim lose(3)])
  from safe_idle[OF safe_silent[OF assms(2) this], of i] show ?thesis by (simp add: lose(1))
next
  case (call i q prompt tk s' r)
  from winvoke_calls[OF assms(3) call(3)] assms(2) call(2) show ?thesis
    by (auto simp: call(1) safe_def log_def intro: inv_grows inv_call grounds_phase)
next
  case (crash i)
  then show ?thesis using safe_idle assms(2) by simp
next
  case (foreign D)
  then show ?thesis using safe_silent[OF assms(2), of "(fl_state F)\<lparr>ws_disk := D\<rparr>"] by (simp add: silent_def)
qed

lemma safe_run:
  assumes "fleet_run Ws F G" and "safe L Ws F" and "\<And>i. wd_adapters (Ws i) = adapters" and "\<And>i. wd_lib (Ws i) = L"
  shows "safe L Ws G"
  using assms(1,2) by (induction rule: fleet_run.induct) (auto intro: safe_step[OF _ _ assms(3,4)])

lemma safe_start: "log F = [] \<Longrightarrow> (\<And>i. fl_phase F i = Idle) \<Longrightarrow> safe L Ws F"
  by (simp add: safe_def fleet_inv_def grounds_def calls_of_def)

lemma run_calls:
  assumes "fleet_run Ws F G" and "log F = []" and "\<And>i. fl_phase F i = Idle"
    and "\<And>i. wd_adapters (Ws i) = adapters" and "\<And>i. wd_lib (Ws i) = L"
  shows "length (calls_of w (log G)) \<le> 1 \<and> (\<forall>c\<in>set (log G). \<exists>i. admitted (Ws i) c)"
  using safe_run[OF assms(1) safe_start[OF assms(2,3)] assms(4,5)]
  by (simp add: safe_def fleet_inv_def grounds_def)

end

section \<open>The fake adapters\<close>

text \<open>
  \<open>FakeProviderAdapter\<close>, \<open>FakeNotifier\<close> and \<open>FakeTemporalProvider\<close>: queues of outcomes, and the
  calls seen: \<open>requests\<close> and \<open>prompts\<close> are the two columns of \<open>fk_calls\<close>, \<open>invocation_count\<close> its
  length. The random notification id is an argument.
\<close>

record fakes =
  fk_outcomes :: "ProviderResult res list"
  fk_calls :: "(WakeRequest \<times> string) list"
  fk_notifications :: "NotificationResult res list"
  fk_notification_count :: nat
  fk_receipts :: "TemporalReceipt res list"
  fk_registrations :: "(string \<times> dict) list"

definition fake_invoke :: "WakeRequest \<Rightarrow> string \<Rightarrow> (fakes, ProviderResult) op" where
  "fake_invoke q prompt = (\<lambda>w.
     let w' = w\<lparr>fk_calls := fk_calls w @ [(q, prompt)]\<rparr>
     in case fk_outcomes w of
         [] \<Rightarrow> (w', Inl (Coded ''fake_provider_empty''))
       | r # rs \<Rightarrow> (w'\<lparr>fk_outcomes := rs\<rparr>, r))"

definition fake_notify :: "string \<Rightarrow> dict \<Rightarrow> (fakes, NotificationResult) op" where
  "fake_notify nid ack = (\<lambda>w.
     let w' = w\<lparr>fk_notification_count := fk_notification_count w + 1\<rparr>
     in case fk_notifications w of
         [] \<Rightarrow> (w', Inr \<lparr>nt_notification_id = nid, nt_attempted = False, nt_accepted = False, nt_route_kind = None,
             nt_ephemeral_route_ref = None, nt_error_code = None\<rparr>)
       | r # rs \<Rightarrow> (w'\<lparr>fk_notifications := rs\<rparr>, r))"

definition fake_register :: "string \<Rightarrow> dict \<Rightarrow> (fakes, TemporalReceipt) op" where
  "fake_register label meta = (\<lambda>w.
     let w' = w\<lparr>fk_registrations := fk_registrations w @ [(label, meta)]\<rparr>
     in case fk_receipts w of
         [] \<Rightarrow> (w', Inr \<lparr>tr_status = ''unavailable'', tr_instant_id = None, tr_receipt = None,
             tr_error_code = Some ''fake_temporal_empty''\<rparr>)
       | r # rs \<Rightarrow> (w'\<lparr>fk_receipts := rs\<rparr>, r))"

definition fake_adapters :: "string \<Rightarrow> fakes adapters" where
  "fake_adapters nid = \<lparr>invoke = fake_invoke, notify = fake_notify nid, register = fake_register\<rparr>"

interpretation fake: provider_contract "fake_adapters nid" fk_calls
  by unfold_locales (simp_all add: fake_adapters_def fake_invoke_def fake_notify_def fake_register_def Let_def
    split: list.split)

text \<open>
  C15: one run of the watchdog. \<open>process\<close> keeps every file, and it calls the provider at most once. When
  it does, the request is the one stored under the wake id, it passes the policy of the
  configuration and has not expired, the prompt is the allow-listed payload with the digest the
  request names, and this run published the claim: there was none before it.
\<close>

theorem process_calls_once:
  assumes "provider_contract A calls" and "wd_adapters W = A" and "wprocess W tk w s = (s', r)"
  shows "grows (ws_disk s) (ws_disk s') \<and> (calls (ws_world s') = calls (ws_world s)
    \<or> (\<exists>q prompt. calls (ws_world s') = calls (ws_world s) @ [(q, prompt)] \<and> wq_wake_id q = w
        \<and> admitted W (q, prompt) \<and> expired (tk_check tk) q = Inr False
        \<and> get_request (wd_lib W) w (ws_disk s) = (ws_disk s, Inr q)
        \<and> map_of (d_files (ws_disk s)) (claim_path (wd_lib W) w) = None
        \<and> map_of (d_files (ws_disk s')) (claim_path (wd_lib W) w) \<noteq> None))"
  using assms by (rule provider_contract.process_calls)

text \<open>
  C2: at most one invocation per wake id, over every interleaving. Whatever watchdogs look, claim and
  call side by side on one store, die between two phases and start again, and whatever files
  other processes add, the provider sees each wake id at most once, and only requests that the
  policy of some watchdog admits with a payload of the digest they name. It holds for every
  provider whose log of calls grows by one per invocation.
\<close>

theorem one_invocation:
  assumes "provider_contract A calls" and "fleet_run Ws F G"
    and "calls (ws_world (fl_state F)) = []" and "\<And>i. fl_phase F i = Idle"
    and "\<And>i. wd_adapters (Ws i) = A" and "\<And>i. wd_lib (Ws i) = L"
  shows "length (calls_of w (calls (ws_world (fl_state G)))) \<le> 1
    \<and> (\<forall>c\<in>set (calls (ws_world (fl_state G))). \<exists>i. admitted (Ws i) c)"
  using provider_contract.run_calls[OF assms(1,2), unfolded provider_contract.log_def[OF assms(1)], OF assms(3-6)] .

text \<open>
  C16: a processed wake id is settled. When \<open>process\<close> returns, the store holds an acknowledgement, a
  failure or a claim of the wake id; and the next round of \<open>pending_wake_ids\<close> leaves it out, or it is
  acknowledged.
\<close>

theorem process_settles:
  assumes "provider_contract A calls" and "wd_adapters W = A" and "wprocess W tk w s = (s', Inr r)"
    and "pending_wake_ids (wd_lib W) (ws_disk s') = (D, Inr ids)"
  shows "wake_settled (wd_lib W) w (d_files (ws_disk s'))
    \<and> (w \<notin> set ids \<or> is_file (d_files (ws_disk s')) (ack_path (wd_lib W) w))"
  using provider_contract.process_settled[OF assms(1-3)] settled_not_pending[OF _ assms(4)] by blast

end
