(* ===== verification/Wake_Examples.thy ===== *)
theory Wake_Examples
  imports Wake_Runs
begin

text \<open>
  A watchdog with the fake adapters on a store that holds one request, and its runs: the theorems
  of \<open>Wake_Runs\<close> at work.
\<close>

definition sample_wake_config :: WakeConfig where
  "sample_wake_config = \<lparr>wc_allowed_payload_roots = [''/p''], wc_allowed_context_roots = [], wc_allowed_target_kinds = [''generic_worker''],
     wc_allowed_models = [''m''], wc_allowed_tools_by_policy = [(''none'', [])], wc_permission_modes = [''dontAsk''],
     wc_maximum_budget_microusd = 1, wc_maximum_timeout_ms = 1, wc_claude_binary = ''c'', wc_poll_interval_ms = 1,
     wc_ctcl_endpoint = ''https://e'', wc_strict_reparse_checks = True\<rparr>"

definition sample_host :: host where
  "sample_host = \<lparr>hs_resolve = (\<lambda>s. if s = ''/p'' then Some [''p''] else if s = ''/p/x'' then Some [''p'', ''x''] else None),
     hs_symlink = (\<lambda>_. False), hs_file = (\<lambda>p. if p = [''p'', ''x''] then Some ''hi'' else None)\<rparr>"

definition sample_watchdog :: "fakes watchdog" where
  "sample_watchdog = \<lparr>wd_lib = plain_lib, wd_config = sample_wake_config, wd_id = ''a'', wd_adapters = fake_adapters ''n'',
     wd_host = sample_host, wd_explain = (\<lambda>_. ([], []))\<rparr>"

definition sample_request_file :: files where
  "sample_request_file = (case canonical_bytes plain_lib (JObj (request_to_dict sample_request)) of
     Inr b \<Rightarrow> [(request_path plain_lib ''w'', b)] | Inl _ \<Rightarrow> [])"

definition t0 :: instant where "t0 = (case from_iso ''2026-08-24T00:00:00'' of Inr t \<Rightarrow> t)"

definition sample_ticks :: ticks where
  "sample_ticks = \<lparr>tk_check = t0, tk_failure = t0, tk_claim = t0, tk_ack = t0, tk_notify = t0\<rparr>"

definition sample_state :: "fakes wstate" where
  "sample_state = \<lparr>ws_disk = \<lparr>d_files = sample_request_file, d_others = []\<rparr>,
     ws_world = \<lparr>fk_outcomes = [], fk_calls = [], fk_notifications = [], fk_notification_count = 0,
       fk_receipts = [], fk_registrations = []\<rparr>\<rparr>"

lemma sample_wake_bytes: "sample_request_file = [(request_path plain_lib ''w'',
    projr (canonical_bytes plain_lib (JObj (request_to_dict sample_request))))]"
proof -
  have "\<not> isl (canonical_bytes plain_lib (JObj (request_to_dict sample_request)))" by code_simp
  then show ?thesis by (auto simp: sample_request_file_def split: sum.splits)
qed

lemma sample_get: "get_request plain_lib ''w'' (ws_disk sample_state) = (ws_disk sample_state, Inr sample_request)"
proof -
  have "snd (get_request plain_lib ''w'' (ws_disk sample_state)) = Inr sample_request" by code_simp
  then show ?thesis using get_request_Inr by (metis prod.collapse)
qed

lemma get_request_grows:
  assumes "get_request L w D = (D, Inr q)" and "grows D D'"
  shows "get_request L w D' = (D', Inr q)"
proof -
  obtain b where b: "map_of (d_files D) (request_path L w) = Some b" and u: "utf8_valid w"
    using assms(1) by (auto simp: get_request_def encoded_def op_defs is_fileS_def is_file_def split: if_splits)
  have "map_of (d_files D') (request_path L w) = Some b" by (rule grows_get[OF assms(2) b])
  with assms(1) b u show ?thesis
    by (auto simp: get_request_def encoded_def op_defs is_fileS_def is_file_def read_dict_def read_dict_file_def
      split: sum.splits if_splits)
qed

lemma sample_status: "wake_status plain_lib ''w'' (ws_disk sample_state)
    = (ws_disk sample_state, Inr \<lparr>wst_status = ''pending'', wst_record = request_to_dict sample_request\<rparr>)"
proof -
  have "\<not> is_file (d_files (ws_disk sample_state)) (d plain_lib ''w'')"
    if "d \<in> {ack_path, failure_path, claim_path}" for d
    using that by (auto simp: sample_state_def sample_wake_bytes is_file_def ack_path_def failure_path_def claim_path_def
      request_path_def wake_path_def)
  then show ?thesis by (simp add: wake_status_def sample_get bindS_def is_fileS_def getS_def retS_def)
qed

lemma sample_checks:
  "policy_refusal sample_wake_config sample_request = None"
  "expired (tk_check sample_ticks) sample_request = Inr False"
  "read_allowlisted_payload plain_lib sample_host sample_wake_config sample_request = Inr ''hi''"
  "utf8_valid ''hi''"
  by code_simp+

lemma sample_prepare:
  "prepare sample_watchdog sample_ticks ''w'' sample_state = (sample_state, Inr (Inr (sample_request, ''hi'')))"
proof -
  have W: "wd_lib sample_watchdog = plain_lib" "wd_config sample_watchdog = sample_wake_config"
    "wd_host sample_watchdog = sample_host" by (simp_all add: sample_watchdog_def)
  have "prepare_pending sample_watchdog sample_ticks sample_request sample_state
      = (sample_state, Inr (Inr (sample_request, ''hi'')))"
    by (simp add: prepare_pending_def W sample_checks bindS_def liftS_def retS_def)
  then show ?thesis
    by (simp add: prepare_def W bindS_def on_disk_def sample_status sample_get)
qed

section \<open>The claim, the call and the failure\<close>

lemma sample_claim:
  obtains D where "try_claim sample_watchdog sample_ticks sample_request sample_state
      = (sample_state\<lparr>ws_disk := D\<rparr>, Inr True)" and "grows (ws_disk sample_state) D"
    and "map fst (d_files D) = [request_path plain_lib ''w'', claim_path plain_lib ''w'']" and "d_others D = []"
proof -
  let ?D = "ws_disk sample_state"
  have "case request_core_digest plain_lib sample_request of Inl _ \<Rightarrow> False
    | Inr d \<Rightarrow> \<not> isl (canonical_bytes plain_lib (JObj (claim_record ''w'' ''a'' d t0)))" by code_simp
  then obtain d b where d: "request_core_digest plain_lib sample_request = Inr d"
    and b: "canonical_bytes plain_lib (JObj (claim_record ''w'' ''a'' d t0)) = Inr b"
    by (auto split: sum.splits) (metis sum.collapse(2))
  have free: "d_others ?D = []" "\<not> under_file (d_files ?D) (claim_path plain_lib ''w'')"
    "\<not> path_exists (d_files ?D) (claim_path plain_lib ''w'')"
    by (simp_all add: sample_state_def sample_wake_bytes under_file_keys path_exists_keys claim_path_def request_path_def
      wake_path_def upt_rec)
  let ?D' = "?D\<lparr>d_files := d_files ?D @ [(claim_path plain_lib ''w'', b)]\<rparr>"
  have p: "publish_json plain_lib (claim_path plain_lib ''w'') (JObj (claim_record ''w'' ''a'' d t0)) ?D = (?D', Inr ())"
    by (rule free_json[OF free b])
  have "claim plain_lib t0 ''w'' ''a'' ?D = (?D', Inr (claim_record ''w'' ''a'' d t0))"
    by (simp add: claim_def sample_get d p Let_def op_defs)
  then have c: "try_claim sample_watchdog sample_ticks sample_request sample_state = (sample_state\<lparr>ws_disk := ?D'\<rparr>, Inr True)"
    by (simp add: try_claim_def sample_watchdog_def sample_ticks_def sample_request_def on_disk_def op_defs)
  show ?thesis
  proof
    show "try_claim sample_watchdog sample_ticks sample_request sample_state = (sample_state\<lparr>ws_disk := ?D'\<rparr>, Inr True)"
      by (rule c)
    show "grows ?D ?D'" by (simp add: grows_def map_of_append_le)
    show "map fst (d_files ?D') = [request_path plain_lib ''w'', claim_path plain_lib ''w'']"
      by (simp add: sample_state_def sample_wake_bytes)
    show "d_others ?D' = []" using free by simp
  qed
qed

lemma sample_process:
  obtains s r where "wprocess sample_watchdog sample_ticks ''w'' sample_state = (s, Inr r)"
    and "wr_status r = ''fake_provider_empty''" and "fk_calls (ws_world s) = [(sample_request, ''hi'')]"
    and "map fst (d_files (ws_disk s)) = [request_path plain_lib ''w'', claim_path plain_lib ''w'', failure_path plain_lib ''w'']"
    and "grows (ws_disk sample_state) (ws_disk s)"
proof -
  obtain D where c: "try_claim sample_watchdog sample_ticks sample_request sample_state
      = (sample_state\<lparr>ws_disk := D\<rparr>, Inr True)" and g: "grows (ws_disk sample_state) D"
    and k: "map fst (d_files D) = [request_path plain_lib ''w'', claim_path plain_lib ''w'']" and o: "d_others D = []"
    by (rule sample_claim)
  let ?f = "failure_record t0 ''w'' ''fake_provider_empty'' [] []" and ?p = "failure_path plain_lib ''w''"
  have "\<not> isl (canonical_bytes plain_lib (JObj ?f))" by code_simp
  then obtain b where b: "canonical_bytes plain_lib (JObj ?f) = Inr b" by (metis sum.collapse(2))
  have free: "\<not> under_file (d_files D) ?p" "\<not> path_exists (d_files D) ?p"
    unfolding under_file_keys path_exists_keys k
    by (simp_all add: claim_path_def request_path_def failure_path_def wake_path_def upt_rec)
  let ?D = "D\<lparr>d_files := d_files D @ [(?p, b)]\<rparr>"
  have w: "dget_null ?f ''wake_id'' = JStr ''w''" by (simp add: failure_record_def dget_null_def)
  have f: "record_failure plain_lib ''w'' ?f D = (?D, Inr ?p)"
    by (simp add: record_failure_def w get_request_grows[OF sample_get g] free_json[OF o free b] op_defs)
  let ?w = "(ws_world sample_state)\<lparr>fk_calls := [(sample_request, ''hi'')]\<rparr>"
  let ?r = "\<lparr>wr_wake_id = ''w'', wr_status = ''fake_provider_empty'', wr_details = []\<rparr>"
  have v: "winvoke sample_watchdog sample_ticks sample_request ''hi'' (sample_state\<lparr>ws_disk := D\<rparr>)
      = (\<lparr>ws_disk = ?D, ws_world = ?w\<rparr>, Inr ?r)"
    by (simp add: winvoke_def attempt_def on_world_def on_disk_def sample_watchdog_def fake_adapters_def fake_invoke_def
      sample_state_def wfail_def sample_ticks_def sample_request_def f[unfolded sample_request_def] wresult_def op_defs)
  have "wprocess sample_watchdog sample_ticks ''w'' sample_state = (\<lparr>ws_disk = ?D, ws_world = ?w\<rparr>, Inr ?r)"
    by (simp add: process_phases proceed_def wclaim_def sample_prepare c v bindS_def)
  moreover have "grows (ws_disk sample_state) ?D"
    using g by (rule grows_trans) (simp add: grows_def map_of_append_le)
  ultimately show ?thesis using that k by simp
qed

section \<open>The theorems at work\<close>

lemma sample_adapters: "wd_adapters sample_watchdog = fake_adapters ''n''" "wd_lib sample_watchdog = plain_lib"
  by (simp_all add: sample_watchdog_def)

theorem process_calls_once_witness:
  "grows (ws_disk sample_state) (ws_disk (fst (wprocess sample_watchdog sample_ticks ''w'' sample_state)))
    \<and> fk_calls (ws_world (fst (wprocess sample_watchdog sample_ticks ''w'' sample_state))) = [(sample_request, ''hi'')]
    \<and> map_of (d_files (ws_disk sample_state)) (claim_path plain_lib ''w'') = None"
proof -
  obtain s r where p: "wprocess sample_watchdog sample_ticks ''w'' sample_state = (s, Inr r)"
    and c: "fk_calls (ws_world s) = [(sample_request, ''hi'')]"
    by (rule sample_process)
  have "fk_calls (ws_world sample_state) = []" by (simp add: sample_state_def)
  with process_calls_once[OF fake.provider_contract_axioms sample_adapters(1) p] c p sample_adapters(2)
  show ?thesis by auto
qed

definition sample_fleet :: "fakes fleet" where
  "sample_fleet = \<lparr>fl_state = sample_state, fl_phase = (\<lambda>_. Idle)\<rparr>"

text \<open>Two watchdogs see the request pending; one wins the claim and calls, the other loses it.\<close>

lemma sample_race:
  obtains G where "fleet_run (\<lambda>_. sample_watchdog) sample_fleet G"
    and "fk_calls (ws_world (fl_state G)) = [(sample_request, ''hi'')]"
proof -
  obtain D where c: "try_claim sample_watchdog sample_ticks sample_request sample_state
      = (sample_state\<lparr>ws_disk := D\<rparr>, Inr True)" by (rule sample_claim)
  let ?W = "\<lambda>_::nat. sample_watchdog" and ?ready = "Ready sample_request ''hi''" and ?won = "Won sample_request ''hi''"
    and ?s = "sample_state\<lparr>ws_disk := D\<rparr>"
  obtain s2 r2 where l: "try_claim sample_watchdog sample_ticks sample_request ?s = (s2, r2)" by (metis surj_pair)
  have lost: "r2 \<noteq> Inr True"
    using try_claim_won[OF c] try_claim_won[of sample_watchdog sample_ticks sample_request ?s s2] l by auto
  obtain s3 r3 where v: "winvoke sample_watchdog sample_ticks sample_request ''hi'' s2 = (s3, r3)" by (metis surj_pair)
  have w: "fk_calls (ws_world s2) = []"
    using fake.quietD[OF fake.quiet_try_claim l] by (simp add: fake.silent_def sample_state_def)
  define p1 :: "nat \<Rightarrow> phase" where "p1 = (\<lambda>_. Idle)(0 := ?ready)"
  define p2 where "p2 = p1(1 := ?ready)"
  define p3 where "p3 = p2(0 := ?won)"
  define p4 where "p4 = p3(1 := Idle)"
  have ph: "p1 1 = Idle" "p2 0 = ?ready" "p3 1 = ?ready" "p4 0 = ?won"
    by (simp_all add: p1_def p2_def p3_def p4_def)
  have st1: "fleet_step ?W sample_fleet \<lparr>fl_state = sample_state, fl_phase = p1\<rparr>"
    using fleet_step.look_ready[of sample_fleet 0 ?W sample_ticks "''w''" sample_state sample_request "''hi''"] sample_prepare
    by (simp add: sample_fleet_def p1_def)
  have st2: "fleet_step ?W \<lparr>fl_state = sample_state, fl_phase = p1\<rparr> \<lparr>fl_state = sample_state, fl_phase = p2\<rparr>"
    using fleet_step.look_ready[of "\<lparr>fl_state = sample_state, fl_phase = p1\<rparr>" 1 ?W sample_ticks "''w''" sample_state
        sample_request "''hi''"] sample_prepare ph(1)
    by (simp add: p2_def)
  have st3: "fleet_step ?W \<lparr>fl_state = sample_state, fl_phase = p2\<rparr> \<lparr>fl_state = ?s, fl_phase = p3\<rparr>"
    using fleet_step.win[of "\<lparr>fl_state = sample_state, fl_phase = p2\<rparr>" 0 _ _ ?W sample_ticks ?s] c ph(2)
    by (simp add: p3_def)
  have st4: "fleet_step ?W \<lparr>fl_state = ?s, fl_phase = p3\<rparr> \<lparr>fl_state = s2, fl_phase = p4\<rparr>"
    using fleet_step.lose[of "\<lparr>fl_state = ?s, fl_phase = p3\<rparr>" 1 _ _ ?W sample_ticks s2 r2] l lost ph(3)
    by (simp add: p4_def)
  have st5: "fleet_step ?W \<lparr>fl_state = s2, fl_phase = p4\<rparr> \<lparr>fl_state = s3, fl_phase = p4(0 := Idle)\<rparr>"
    using fleet_step.call[of "\<lparr>fl_state = s2, fl_phase = p4\<rparr>" 0 _ _ ?W sample_ticks s3 r3] v ph(4) by simp
  note fleet_run.step[OF fleet_run.step[OF fleet_run.step[OF fleet_run.step[OF fleet_run.step[OF fleet_run.start st1] st2] st3] st4] st5]
  moreover have "fk_calls (ws_world s3) = [(sample_request, ''hi'')]"
    using fake.winvoke_calls[OF sample_adapters(1) v] w by simp
  ultimately show ?thesis using that by simp
qed

theorem one_invocation_witness:
  "\<exists>G. fleet_run (\<lambda>_. sample_watchdog) sample_fleet G \<and> fk_calls (ws_world (fl_state G)) = [(sample_request, ''hi'')]
    \<and> length (calls_of ''w'' (fk_calls (ws_world (fl_state G)))) \<le> 1 \<and> admitted sample_watchdog (sample_request, ''hi'')"
proof -
  obtain G where g: "fleet_run (\<lambda>_. sample_watchdog) sample_fleet G"
    and c: "fk_calls (ws_world (fl_state G)) = [(sample_request, ''hi'')]" by (rule sample_race)
  have e: "fk_calls (ws_world (fl_state sample_fleet)) = []" "fl_phase sample_fleet i = Idle" for i
    by (simp_all add: sample_fleet_def sample_state_def)
  from one_invocation[OF fake.provider_contract_axioms g e sample_adapters, of "''w''"] g c show ?thesis by auto
qed

lemma sample_pending:
  assumes k: "map fst (d_files D) = [request_path plain_lib ''w'', claim_path plain_lib ''w'', failure_path plain_lib ''w'']"
    and g: "grows (ws_disk sample_state) D"
  shows "pending_wake_ids plain_lib D = (D, Inr [])"
proof -
  let ?keys = "[request_path plain_lib ''w'', claim_path plain_lib ''w'', failure_path plain_lib ''w'']"
  have "map (\<lambda>n. [''requests''] @ [n]) (filter (\<lambda>n. endswith n ''.json'')
      (sorted_set (map (\<lambda>p. p ! length [''requests''])
        (filter (\<lambda>p. length [''requests''] < length p \<and> take (length [''requests'']) p = [''requests'']) ?keys))))
      = [request_path plain_lib ''w'']" by code_simp
  then have e: "glob_json (d_files D) [''requests''] = [request_path plain_lib ''w'']"
    unfolding glob_json_def entries_def k .
  from get_request_Inr[OF get_request_grows[OF sample_get g]] obtain d where
    "read_dict_file (d_files D) (request_path plain_lib ''w'') = Inr d" "request_from_dict d = Inr sample_request" by blast
  moreover have "path_exists (d_files D) (claim_path plain_lib ''w'')" unfolding path_exists_keys k by simp
  moreover have u: "utf8_valid ''w''" by code_simp
  ultimately show ?thesis
    by (simp add: pending_wake_ids_def e pending_entry_def sample_request_def u)
qed

theorem process_settles_witness:
  "\<exists>s r. wprocess sample_watchdog sample_ticks ''w'' sample_state = (s, Inr r)
    \<and> wr_status r = ''fake_provider_empty'' \<and> wake_settled plain_lib ''w'' (d_files (ws_disk s))"
proof -
  obtain s r where p: "wprocess sample_watchdog sample_ticks ''w'' sample_state = (s, Inr r)"
    and r: "wr_status r = ''fake_provider_empty''"
    and k: "map fst (d_files (ws_disk s)) = [request_path plain_lib ''w'', claim_path plain_lib ''w'', failure_path plain_lib ''w'']"
    and g: "grows (ws_disk sample_state) (ws_disk s)" by (rule sample_process)
  have "pending_wake_ids (wd_lib sample_watchdog) (ws_disk s) = (ws_disk s, Inr [])"
    using sample_pending[OF k g] by (simp add: sample_adapters)
  from process_settles[OF fake.provider_contract_axioms sample_adapters(1) p this] p r show ?thesis
    by (auto simp: sample_adapters)
qed

end
