(* ===== verification/Handoff_Models.thy ===== *)
theory Handoff_Models
  imports FileStore Wake_Models
begin

text \<open>
  \<open>src/eml_handoff/contracts.py\<close> and \<open>src/eml_handoff/models.py\<close>: the configuration, the envelope
  and the claim, materialization and receipt records, each checked in the order of the code. The
  checks return the dictionary unchanged, so a record holds the values of its dictionary; the
  lemmas show that an accepted record is accepted again from its own \<open>to_dict\<close>.
\<close>

section \<open>Field checks\<close>

text \<open>\<open>_shape\<close>, \<open>_text\<close>, \<open>_time\<close> and \<open>_strings\<close>.\<close>

definition hshape :: "string list \<Rightarrow> string \<Rightarrow> dict \<Rightarrow> unit res" where
  "hshape names schema d = bindR (wexact names d) (\<lambda>_.
     wcheck (dget_null d ''schema_version'' = JStr schema) ''schema_version_unsupported'')"

definition htext :: "json \<Rightarrow> unit res" where
  "htext v = wcheck (nonempty_str v) ''field_type_invalid''"

definition htext_opt :: "json \<Rightarrow> unit res" where
  "htext_opt v = wcheck (v = JNull \<or> nonempty_str v) ''field_type_invalid''"

text \<open>
  \<open>datetime.fromisoformat(value.replace("Z", "+00:00"))\<close>, where a text without offset is refused. On
  the shapes of \<open>Times\<close>; another shape is answered \<open>Untyped\<close>.
\<close>

definition htime :: "json \<Rightarrow> unit res" where
  "htime v = bindR (htext v) (\<lambda>_.
     let t = the_str v
     in if endswith t ''Z''
        then (case from_iso (take (length t - 1) t) of
            Inl ValueError \<Rightarrow> Inl (Coded ''time_invalid'') | Inl e \<Rightarrow> Inl e | Inr _ \<Rightarrow> Inr ())
        else (case from_iso t of
            Inl (Untyped u) \<Rightarrow> Inl (Untyped u) | _ \<Rightarrow> Inl (Coded ''time_invalid'')))"

definition hstrings :: "bool \<Rightarrow> json \<Rightarrow> unit res" where
  "hstrings allow_empty v = (case v of
      JList vs \<Rightarrow>
        if \<not> list_all nonempty_str vs then Inl (Coded ''field_type_invalid'')
        else if \<not> allow_empty \<and> vs = [] then Inl (Coded ''field_empty'')
        else if \<not> distinct vs then Inl (Coded ''duplicate_list_item'')
        else Inr ()
    | _ \<Rightarrow> Inl (Coded ''field_type_invalid''))"

text \<open>A loop of checks over the fields of a tuple, and \<open>value in {...}\<close>.\<close>

fun each :: "('a \<Rightarrow> unit res) \<Rightarrow> 'a list \<Rightarrow> unit res" where
  "each f [] = Inr ()"
| "each f (x # xs) = bindR (f x) (\<lambda>_. each f xs)"

definition one_of :: "string list \<Rightarrow> string \<Rightarrow> json \<Rightarrow> unit res" where
  "one_of allowed code v = (if \<not> hashable v then Inl TypeError else wcheck (v \<in> JStr ` set allowed) code)"

definition TARGET_KINDS :: "string list" where
  "TARGET_KINDS = [''shared_topic'', ''task'', ''arcp_entity'', ''exact_instance'']"

definition BINDING_KINDS :: "string list" where
  "BINDING_KINDS = [''codex_thread'', ''session_uuid'', ''provider_session'', ''unresolved'']"

definition DECISIONS :: "string list" where
  "DECISIONS = [''ACK'', ''NO_ACTION'', ''ACTION'', ''ERROR'']"

definition MEDIA_BY_EXTENSION :: "(string \<times> string) list" where
  "MEDIA_BY_EXTENSION = [(''.md'', ''text/markdown''), (''.json'', ''application/json''), (''.txt'', ''text/plain'')]"

definition REQUIRED_NOT_CLAIMED :: "string list" where
  "REQUIRED_NOT_CLAIMED = [''sender_authorship_verified'', ''recipient_awake'', ''recipient_identity_continuity'',
     ''payload_understood'', ''authority_to_act_on_payload'', ''fast_transport_delivered'']"

definition is_hex64_upper :: "string \<Rightarrow> bool" where
  "is_hex64_upper s = (length s = 64 \<and> list_all is_hex_upper s)"

definition is_core_digest :: "string \<Rightarrow> bool" where
  "is_core_digest s = (let p = ''sha256:'' @ HANDOFF_VERSION @ '':''
     in startswith s p \<and> length s = length p + 64 \<and> list_all is_hex_lower (drop (length p) s))"

text \<open>\<open>PurePath.suffix\<close> of a file name.\<close>

definition path_suffix :: "string \<Rightarrow> string" where
  "path_suffix name = (case rfind name ''.'' of
      None \<Rightarrow> [] | Some i \<Rightarrow> if 0 < i \<and> i + 1 < length name then drop i name else [])"

definition path_name :: "string \<Rightarrow> string" where
  "path_name s = (let ps = path_parts s in if ps = [] then [] else last ps)"

section \<open>Configuration\<close>

record HandoffConfig =
  hc_allowed_source_roots :: "string list"
  hc_allowed_payload_extensions :: "string list"
  hc_allowed_target_kinds :: "string list"
  hc_allowed_authority_refs :: "string list"
  hc_default_max_payload_bytes :: int
  hc_hard_max_payload_bytes :: int
  hc_ctcl_endpoint :: string
  hc_strict_reparse_checks :: bool

definition HANDOFF_CONFIG_FIELDS :: "string list" where
  "HANDOFF_CONFIG_FIELDS = [''schema_version'', ''allowed_source_roots'', ''allowed_payload_extensions'',
     ''allowed_target_kinds'', ''allowed_authority_refs'', ''default_max_payload_bytes'', ''hard_max_payload_bytes'',
     ''ctcl_endpoint'', ''strict_reparse_checks'']"

text \<open>
  \<open>urlsplit\<close>: scheme and network location. A location with a bracket or a character above ASCII is
  checked further by \<open>urlsplit\<close>; the model answers \<open>Untyped\<close> there.
\<close>

definition scheme_char :: "char \<Rightarrow> bool" where
  "scheme_char c = (in_rng 97 122 c \<or> in_rng 65 90 c \<or> is_digit c \<or> c \<in> {CHR ''+'', CHR ''-'', CHR ''.''})"

definition url_scheme :: "string \<Rightarrow> string \<times> string" where
  "url_scheme u = (let s = takeWhile (\<lambda>c. c \<noteq> CHR '':'') u
     in if length s < length u \<and> s \<noteq> [] \<and> (in_rng 97 122 (hd s) \<or> in_rng 65 90 (hd s)) \<and> list_all scheme_char s
        then (lower s, drop (length s + 1) u) else ([], u))"

definition urlsplit :: "string \<Rightarrow> (string \<times> string) res" where
  "urlsplit s =
     (let u = filter (\<lambda>c. byte c \<notin> {9, 10, 13}) (dropWhile (\<lambda>c. byte c \<le> 32) s);
          (scheme, rest) = url_scheme u;
          netloc = (if startswith rest ''//'' then takeWhile (\<lambda>c. c \<notin> {CHR ''/'', CHR ''?'', CHR ''#''}) (drop 2 rest) else [])
      in if \<not> ascii netloc \<or> CHR ''['' \<in> set netloc \<or> CHR '']'' \<in> set netloc then Inl (Untyped ''url'')
         else Inr (scheme, netloc))"

definition payload_limits :: "json \<Rightarrow> json \<Rightarrow> unit res" where
  "payload_limits standard hard =
     bindR (wcheck (is_int standard \<and> is_int hard) ''field_type_invalid'') (\<lambda>_.
     wcheck (0 < the_int standard \<and> the_int standard \<le> the_int hard \<and> the_int hard \<le> 4194304) ''payload_limit_invalid'')"

definition strs :: "json \<Rightarrow> string list" where
  "strs v = (case v of JList vs \<Rightarrow> map the_str vs | _ \<Rightarrow> [])"

definition validate_config_dict :: "dict \<Rightarrow> unit res" where
  "validate_config_dict d =
     bindR (hshape HANDOFF_CONFIG_FIELDS ''eml-handoff/config-0.1'' d) (\<lambda>_.
     bindR (each (\<lambda>f. hstrings False (dget_null d f)) [''allowed_source_roots'', ''allowed_payload_extensions'',
       ''allowed_target_kinds'', ''allowed_authority_refs'']) (\<lambda>_.
     bindR (wcheck (set (strs (dget_null d ''allowed_target_kinds'')) \<subseteq> set TARGET_KINDS) ''target_kind_unsupported'') (\<lambda>_.
     bindR (wcheck (set (strs (dget_null d ''allowed_payload_extensions'')) \<subseteq> fst ` set MEDIA_BY_EXTENSION)
       ''payload_extension_unsupported'') (\<lambda>_.
     bindR (wcheck (\<forall>x\<in>set (strs (dget_null d ''allowed_payload_extensions'')). x = lower x)
       ''payload_extension_unsupported'') (\<lambda>_.
     bindR (payload_limits (dget_null d ''default_max_payload_bytes'') (dget_null d ''hard_max_payload_bytes'')) (\<lambda>_.
     bindR (htext (dget_null d ''ctcl_endpoint'')) (\<lambda>_.
     bindR (urlsplit (the_str (dget_null d ''ctcl_endpoint''))) (\<lambda>(scheme, netloc).
     bindR (wcheck (scheme = ''https'' \<and> netloc \<noteq> []) ''ctcl_endpoint_invalid'') (\<lambda>_.
     wcheck (is_bool (dget_null d ''strict_reparse_checks'')) ''field_type_invalid'')))))))))"

definition handoff_config_from_dict :: "dict \<Rightarrow> HandoffConfig res" where
  "handoff_config_from_dict d = bindR (validate_config_dict d) (\<lambda>_. Inr
     \<lparr>hc_allowed_source_roots = strs (dget_null d ''allowed_source_roots''),
      hc_allowed_payload_extensions = strs (dget_null d ''allowed_payload_extensions''),
      hc_allowed_target_kinds = strs (dget_null d ''allowed_target_kinds''),
      hc_allowed_authority_refs = strs (dget_null d ''allowed_authority_refs''),
      hc_default_max_payload_bytes = the_int (dget_null d ''default_max_payload_bytes''),
      hc_hard_max_payload_bytes = the_int (dget_null d ''hard_max_payload_bytes''),
      hc_ctcl_endpoint = the_str (dget_null d ''ctcl_endpoint''),
      hc_strict_reparse_checks = the_bool (dget_null d ''strict_reparse_checks'')\<rparr>)"

definition handoff_config_to_dict :: "HandoffConfig \<Rightarrow> dict" where
  "handoff_config_to_dict c =
     [(''schema_version'', JStr ''eml-handoff/config-0.1''),
      (''allowed_source_roots'', str_list_json (hc_allowed_source_roots c)),
      (''allowed_payload_extensions'', str_list_json (hc_allowed_payload_extensions c)),
      (''allowed_target_kinds'', str_list_json (hc_allowed_target_kinds c)),
      (''allowed_authority_refs'', str_list_json (hc_allowed_authority_refs c)),
      (''default_max_payload_bytes'', JInt (hc_default_max_payload_bytes c)),
      (''hard_max_payload_bytes'', JInt (hc_hard_max_payload_bytes c)),
      (''ctcl_endpoint'', JStr (hc_ctcl_endpoint c)),
      (''strict_reparse_checks'', JBool (hc_strict_reparse_checks c))]"

section \<open>Envelopes\<close>

record HandoffEnvelope =
  hv_handoff_id :: string
  hv_delivery_id :: string
  hv_created_time_ref :: "string option"
  hv_temporal_evidence_status :: string
  hv_local_recorded_at :: string
  hv_claimed_sender_ref :: string
  hv_claimed_sender_instance_ref :: string
  hv_target_kind :: string
  hv_target_ref :: string
  hv_authority_ref :: string
  hv_payload_ref :: string
  hv_payload_media_type :: string
  hv_payload_sha256 :: string
  hv_payload_bytes :: int
  hv_sensitivity :: string
  hv_reply_to_handoff_id :: "string option"
  hv_expires_at :: "string option"
  hv_not_claimed :: "string list"

text \<open>The schema version has one accepted value in each record, and is left out.\<close>

definition ENVELOPE_FIELDS :: "string list" where
  "ENVELOPE_FIELDS = [''schema_version'', ''handoff_id'', ''delivery_id'', ''created_time_ref'',
     ''temporal_evidence_status'', ''local_recorded_at'', ''claimed_sender_ref'', ''claimed_sender_instance_ref'',
     ''target_kind'', ''target_ref'', ''authority_ref'', ''payload_ref'', ''payload_media_type'', ''payload_sha256'',
     ''payload_bytes'', ''sensitivity'', ''reply_to_handoff_id'', ''expires_at'', ''not_claimed'']"

definition temporal_evidence :: "json \<Rightarrow> json \<Rightarrow> unit res" where
  "temporal_evidence status ref =
     (if status = JStr ''registered_anchor''
      then wcheck (is_str ref \<and> is_ctcl_id (the_str ref)) ''temporal_evidence_mismatch''
      else if status = JStr ''unavailable'' then wcheck (ref = JNull) ''temporal_evidence_mismatch''
      else Inl (Coded ''temporal_evidence_status_invalid''))"

definition payload_ref_ok :: "string \<Rightarrow> bool" where
  "payload_ref_ok r = (\<not> startswith r ''/'' \<and> ''..'' \<notin> set (path_parts r) \<and> CHR 0x5C \<notin> set r
     \<and> startswith r ''payloads/'')"

definition opt_time :: "json \<Rightarrow> unit res" where
  "opt_time v = (if v = JNull then Inr () else htime v)"

definition validate_envelope_dict :: "dict \<Rightarrow> unit res" where
  "validate_envelope_dict d =
     bindR (hshape ENVELOPE_FIELDS ''eml-handoff/envelope-0.1'' d) (\<lambda>_.
     bindR (each (\<lambda>f. htext (dget_null d f)) [''handoff_id'', ''delivery_id'', ''local_recorded_at'',
       ''claimed_sender_ref'', ''claimed_sender_instance_ref'', ''target_ref'', ''authority_ref'', ''payload_ref'',
       ''payload_media_type'']) (\<lambda>_.
     bindR (htime (dget_null d ''local_recorded_at'')) (\<lambda>_.
     bindR (opt_time (dget_null d ''expires_at'')) (\<lambda>_.
     bindR (temporal_evidence (dget_null d ''temporal_evidence_status'') (dget_null d ''created_time_ref'')) (\<lambda>_.
     bindR (one_of TARGET_KINDS ''target_kind_unsupported'' (dget_null d ''target_kind'')) (\<lambda>_.
     bindR (one_of [''P0'', ''P1''] ''sensitivity_not_shareable'' (dget_null d ''sensitivity'')) (\<lambda>_.
     bindR (one_of (map snd MEDIA_BY_EXTENSION) ''payload_media_type_unsupported'' (dget_null d ''payload_media_type'')) (\<lambda>_.
     bindR (wcheck (is_str (dget_null d ''payload_sha256'') \<and> is_hex64_upper (the_str (dget_null d ''payload_sha256'')))
       ''payload_digest_invalid'') (\<lambda>_.
     bindR (wcheck (is_int (dget_null d ''payload_bytes'') \<and> 0 \<le> the_int (dget_null d ''payload_bytes''))
       ''payload_size_invalid'') (\<lambda>_.
     bindR (htext_opt (dget_null d ''reply_to_handoff_id'')) (\<lambda>_.
     bindR (wcheck (payload_ref_ok (the_str (dget_null d ''payload_ref''))) ''payload_ref_invalid'') (\<lambda>_.
     bindR (wcheck (map_of MEDIA_BY_EXTENSION (lower (path_suffix (path_name (the_str (dget_null d ''payload_ref'')))))
       = Some (the_str (dget_null d ''payload_media_type''))) ''payload_media_mismatch'') (\<lambda>_.
     bindR (hstrings False (dget_null d ''not_claimed'')) (\<lambda>_.
     wcheck (set REQUIRED_NOT_CLAIMED \<subseteq> set (strs (dget_null d ''not_claimed''))) ''not_claimed_incomplete''))))))))))))))"

text \<open>The value of an optional string field.\<close>

definition opt_of :: "json \<Rightarrow> string option" where
  "opt_of v = (case v of JStr s \<Rightarrow> Some s | _ \<Rightarrow> None)"

definition envelope_of :: "dict \<Rightarrow> HandoffEnvelope" where
  "envelope_of d =
     \<lparr>hv_handoff_id = the_str (dget_null d ''handoff_id''),
      hv_delivery_id = the_str (dget_null d ''delivery_id''),
      hv_created_time_ref = opt_of (dget_null d ''created_time_ref''),
      hv_temporal_evidence_status = the_str (dget_null d ''temporal_evidence_status''),
      hv_local_recorded_at = the_str (dget_null d ''local_recorded_at''),
      hv_claimed_sender_ref = the_str (dget_null d ''claimed_sender_ref''),
      hv_claimed_sender_instance_ref = the_str (dget_null d ''claimed_sender_instance_ref''),
      hv_target_kind = the_str (dget_null d ''target_kind''),
      hv_target_ref = the_str (dget_null d ''target_ref''),
      hv_authority_ref = the_str (dget_null d ''authority_ref''),
      hv_payload_ref = the_str (dget_null d ''payload_ref''),
      hv_payload_media_type = the_str (dget_null d ''payload_media_type''),
      hv_payload_sha256 = the_str (dget_null d ''payload_sha256''),
      hv_payload_bytes = the_int (dget_null d ''payload_bytes''),
      hv_sensitivity = the_str (dget_null d ''sensitivity''),
      hv_reply_to_handoff_id = opt_of (dget_null d ''reply_to_handoff_id''),
      hv_expires_at = opt_of (dget_null d ''expires_at''),
      hv_not_claimed = strs (dget_null d ''not_claimed'')\<rparr>"

definition envelope_from_dict :: "dict \<Rightarrow> HandoffEnvelope res" where
  "envelope_from_dict d = bindR (validate_envelope_dict d) (\<lambda>_. Inr (envelope_of d))"

definition envelope_core_dict :: "HandoffEnvelope \<Rightarrow> dict" where
  "envelope_core_dict e =
     [(''schema_version'', JStr ''eml-handoff/envelope-0.1''),
      (''handoff_id'', JStr (hv_handoff_id e)),
      (''created_time_ref'', opt_json (hv_created_time_ref e)),
      (''temporal_evidence_status'', JStr (hv_temporal_evidence_status e)),
      (''local_recorded_at'', JStr (hv_local_recorded_at e)),
      (''claimed_sender_ref'', JStr (hv_claimed_sender_ref e)),
      (''claimed_sender_instance_ref'', JStr (hv_claimed_sender_instance_ref e)),
      (''target_kind'', JStr (hv_target_kind e)),
      (''target_ref'', JStr (hv_target_ref e)),
      (''authority_ref'', JStr (hv_authority_ref e)),
      (''payload_ref'', JStr (hv_payload_ref e)),
      (''payload_media_type'', JStr (hv_payload_media_type e)),
      (''payload_sha256'', JStr (hv_payload_sha256 e)),
      (''payload_bytes'', JInt (hv_payload_bytes e)),
      (''sensitivity'', JStr (hv_sensitivity e)),
      (''reply_to_handoff_id'', opt_json (hv_reply_to_handoff_id e)),
      (''expires_at'', opt_json (hv_expires_at e)),
      (''not_claimed'', str_list_json (hv_not_claimed e))]"

text \<open>\<open>to_dict\<close>: the third item is the delivery id, which \<open>core_dict\<close> takes out again.\<close>

definition envelope_to_dict :: "HandoffEnvelope \<Rightarrow> dict" where
  "envelope_to_dict e = take 2 (envelope_core_dict e) @ [(''delivery_id'', JStr (hv_delivery_id e))]
     @ drop 2 (envelope_core_dict e)"

definition envelope_core_digest :: "lib \<Rightarrow> HandoffEnvelope \<Rightarrow> string res" where
  "envelope_core_digest L e = handoff_digest_ref L (JObj (envelope_core_dict e))"

section \<open>Claims\<close>

record ClaimRecord =
  hk_handoff_id :: string
  hk_envelope_core_digest :: string
  hk_receiver_instance_ref :: "string option"
  hk_receiver_binding_kind :: string
  hk_receiver_entity_ref :: "string option"
  hk_binding_evidence_ref :: "string option"
  hk_claim_authority_ref :: string
  hk_observed_origin :: "string option"
  hk_claimed_at :: string

definition CLAIM_FIELDS :: "string list" where
  "CLAIM_FIELDS = [''schema_version'', ''handoff_id'', ''envelope_core_digest'', ''receiver_instance_ref'',
     ''receiver_binding_kind'', ''receiver_entity_ref'', ''binding_evidence_ref'', ''claim_authority_ref'',
     ''observed_origin'', ''claimed_at'']"

definition validate_claim_dict :: "dict \<Rightarrow> unit res" where
  "validate_claim_dict d =
     bindR (hshape CLAIM_FIELDS ''eml-handoff/claim-0.1'' d) (\<lambda>_.
     bindR (each (\<lambda>f. htext (dget_null d f)) [''handoff_id'', ''envelope_core_digest'', ''receiver_binding_kind'',
       ''claim_authority_ref'', ''claimed_at'']) (\<lambda>_.
     bindR (wcheck (is_core_digest (the_str (dget_null d ''envelope_core_digest''))) ''digest_invalid'') (\<lambda>_.
     bindR (one_of BINDING_KINDS ''binding_kind_unsupported'' (dget_null d ''receiver_binding_kind'')) (\<lambda>_.
     bindR (each (\<lambda>f. htext_opt (dget_null d f)) [''receiver_instance_ref'', ''receiver_entity_ref'',
       ''binding_evidence_ref'', ''observed_origin'']) (\<lambda>_.
     bindR (wcheck (\<not> (dget_null d ''receiver_binding_kind'' = JStr ''unresolved''
       \<and> dget_null d ''receiver_instance_ref'' \<noteq> JNull)) ''unresolved_binding_has_instance'') (\<lambda>_.
     htime (dget_null d ''claimed_at'')))))))"

definition claim_of :: "dict \<Rightarrow> ClaimRecord" where
  "claim_of d =
     \<lparr>hk_handoff_id = the_str (dget_null d ''handoff_id''),
      hk_envelope_core_digest = the_str (dget_null d ''envelope_core_digest''),
      hk_receiver_instance_ref = opt_of (dget_null d ''receiver_instance_ref''),
      hk_receiver_binding_kind = the_str (dget_null d ''receiver_binding_kind''),
      hk_receiver_entity_ref = opt_of (dget_null d ''receiver_entity_ref''),
      hk_binding_evidence_ref = opt_of (dget_null d ''binding_evidence_ref''),
      hk_claim_authority_ref = the_str (dget_null d ''claim_authority_ref''),
      hk_observed_origin = opt_of (dget_null d ''observed_origin''),
      hk_claimed_at = the_str (dget_null d ''claimed_at'')\<rparr>"

definition claim_from_dict :: "dict \<Rightarrow> ClaimRecord res" where
  "claim_from_dict d = bindR (validate_claim_dict d) (\<lambda>_. Inr (claim_of d))"

definition claim_to_dict :: "ClaimRecord \<Rightarrow> dict" where
  "claim_to_dict c =
     [(''schema_version'', JStr ''eml-handoff/claim-0.1''),
      (''handoff_id'', JStr (hk_handoff_id c)),
      (''envelope_core_digest'', JStr (hk_envelope_core_digest c)),
      (''receiver_instance_ref'', opt_json (hk_receiver_instance_ref c)),
      (''receiver_binding_kind'', JStr (hk_receiver_binding_kind c)),
      (''receiver_entity_ref'', opt_json (hk_receiver_entity_ref c)),
      (''binding_evidence_ref'', opt_json (hk_binding_evidence_ref c)),
      (''claim_authority_ref'', JStr (hk_claim_authority_ref c)),
      (''observed_origin'', opt_json (hk_observed_origin c)),
      (''claimed_at'', JStr (hk_claimed_at c))]"

section \<open>Materializations and receipts\<close>

record MaterializationRecord =
  hm_handoff_id :: string
  hm_envelope_core_digest :: string
  hm_payload_sha256 :: string
  hm_receiver_instance_ref :: "string option"
  hm_materialized_at :: string
  hm_materialization_method :: string

definition MATERIALIZATION_FIELDS :: "string list" where
  "MATERIALIZATION_FIELDS = [''schema_version'', ''handoff_id'', ''envelope_core_digest'', ''payload_sha256'',
     ''receiver_instance_ref'', ''materialized_at'', ''materialization_method'']"

definition validate_materialization_dict :: "dict \<Rightarrow> unit res" where
  "validate_materialization_dict d =
     bindR (hshape MATERIALIZATION_FIELDS ''eml-handoff/materialization-0.1'' d) (\<lambda>_.
     bindR (each (\<lambda>f. htext (dget_null d f)) [''handoff_id'', ''envelope_core_digest'', ''payload_sha256'',
       ''materialized_at'', ''materialization_method'']) (\<lambda>_.
     bindR (htext_opt (dget_null d ''receiver_instance_ref'')) (\<lambda>_.
     bindR (wcheck (is_core_digest (the_str (dget_null d ''envelope_core_digest''))) ''digest_invalid'') (\<lambda>_.
     bindR (wcheck (is_hex64_upper (the_str (dget_null d ''payload_sha256''))) ''payload_digest_invalid'') (\<lambda>_.
     bindR (htime (dget_null d ''materialized_at'')) (\<lambda>_.
     wcheck (dget_null d ''materialization_method'' = JStr ''local_file_read'') ''materialization_method_unsupported''))))))"

definition materialization_of :: "dict \<Rightarrow> MaterializationRecord" where
  "materialization_of d =
     \<lparr>hm_handoff_id = the_str (dget_null d ''handoff_id''),
      hm_envelope_core_digest = the_str (dget_null d ''envelope_core_digest''),
      hm_payload_sha256 = the_str (dget_null d ''payload_sha256''),
      hm_receiver_instance_ref = opt_of (dget_null d ''receiver_instance_ref''),
      hm_materialized_at = the_str (dget_null d ''materialized_at''),
      hm_materialization_method = the_str (dget_null d ''materialization_method'')\<rparr>"

definition materialization_from_dict :: "dict \<Rightarrow> MaterializationRecord res" where
  "materialization_from_dict d = bindR (validate_materialization_dict d) (\<lambda>_. Inr (materialization_of d))"

definition materialization_to_dict :: "MaterializationRecord \<Rightarrow> dict" where
  "materialization_to_dict m =
     [(''schema_version'', JStr ''eml-handoff/materialization-0.1''),
      (''handoff_id'', JStr (hm_handoff_id m)),
      (''envelope_core_digest'', JStr (hm_envelope_core_digest m)),
      (''payload_sha256'', JStr (hm_payload_sha256 m)),
      (''receiver_instance_ref'', opt_json (hm_receiver_instance_ref m)),
      (''materialized_at'', JStr (hm_materialized_at m)),
      (''materialization_method'', JStr (hm_materialization_method m))]"

record ReceiptRecord =
  hr_handoff_id :: string
  hr_envelope_core_digest :: string
  hr_payload_sha256 :: string
  hr_receiver_instance_ref :: "string option"
  hr_decision :: string
  hr_response_handoff_id :: "string option"
  hr_evidence_refs :: "string list"
  hr_recorded_time_ref :: "string option"
  hr_local_recorded_at :: string
  hr_not_claimed :: "string list"

definition RECEIPT_FIELDS :: "string list" where
  "RECEIPT_FIELDS = [''schema_version'', ''handoff_id'', ''envelope_core_digest'', ''payload_sha256'',
     ''receiver_instance_ref'', ''decision'', ''response_handoff_id'', ''evidence_refs'', ''recorded_time_ref'',
     ''local_recorded_at'', ''not_claimed'']"

definition validate_receipt_dict :: "dict \<Rightarrow> unit res" where
  "validate_receipt_dict d =
     bindR (hshape RECEIPT_FIELDS ''eml-handoff/receipt-0.1'' d) (\<lambda>_.
     bindR (each (\<lambda>f. htext (dget_null d f)) [''handoff_id'', ''envelope_core_digest'', ''payload_sha256'',
       ''local_recorded_at'']) (\<lambda>_.
     bindR (htext_opt (dget_null d ''receiver_instance_ref'')) (\<lambda>_.
     bindR (wcheck (is_core_digest (the_str (dget_null d ''envelope_core_digest''))) ''digest_invalid'') (\<lambda>_.
     bindR (wcheck (is_hex64_upper (the_str (dget_null d ''payload_sha256''))) ''payload_digest_invalid'') (\<lambda>_.
     bindR (one_of DECISIONS ''decision_invalid'' (dget_null d ''decision'')) (\<lambda>_.
     bindR (htext_opt (dget_null d ''response_handoff_id'')) (\<lambda>_.
     bindR (hstrings False (dget_null d ''evidence_refs'')) (\<lambda>_.
     bindR (hstrings True (dget_null d ''not_claimed'')) (\<lambda>_.
     bindR (htext_opt (dget_null d ''recorded_time_ref'')) (\<lambda>_.
     bindR (wcheck (dget_null d ''recorded_time_ref'' = JNull \<or> is_ctcl_id (the_str (dget_null d ''recorded_time_ref'')))
       ''ctcl_ref_invalid'') (\<lambda>_.
     htime (dget_null d ''local_recorded_at''))))))))))))"

definition receipt_of :: "dict \<Rightarrow> ReceiptRecord" where
  "receipt_of d =
     \<lparr>hr_handoff_id = the_str (dget_null d ''handoff_id''),
      hr_envelope_core_digest = the_str (dget_null d ''envelope_core_digest''),
      hr_payload_sha256 = the_str (dget_null d ''payload_sha256''),
      hr_receiver_instance_ref = opt_of (dget_null d ''receiver_instance_ref''),
      hr_decision = the_str (dget_null d ''decision''),
      hr_response_handoff_id = opt_of (dget_null d ''response_handoff_id''),
      hr_evidence_refs = strs (dget_null d ''evidence_refs''),
      hr_recorded_time_ref = opt_of (dget_null d ''recorded_time_ref''),
      hr_local_recorded_at = the_str (dget_null d ''local_recorded_at''),
      hr_not_claimed = strs (dget_null d ''not_claimed'')\<rparr>"

definition receipt_from_dict :: "dict \<Rightarrow> ReceiptRecord res" where
  "receipt_from_dict d = bindR (validate_receipt_dict d) (\<lambda>_. Inr (receipt_of d))"

definition receipt_to_dict :: "ReceiptRecord \<Rightarrow> dict" where
  "receipt_to_dict r =
     [(''schema_version'', JStr ''eml-handoff/receipt-0.1''),
      (''handoff_id'', JStr (hr_handoff_id r)),
      (''envelope_core_digest'', JStr (hr_envelope_core_digest r)),
      (''payload_sha256'', JStr (hr_payload_sha256 r)),
      (''receiver_instance_ref'', opt_json (hr_receiver_instance_ref r)),
      (''decision'', JStr (hr_decision r)),
      (''response_handoff_id'', opt_json (hr_response_handoff_id r)),
      (''evidence_refs'', str_list_json (hr_evidence_refs r)),
      (''recorded_time_ref'', opt_json (hr_recorded_time_ref r)),
      (''local_recorded_at'', JStr (hr_local_recorded_at r)),
      (''not_claimed'', str_list_json (hr_not_claimed r))]"

section \<open>Accepted records read back\<close>

text \<open>
  The checks read a dictionary only through its key set and its fields. Two dictionaries agree on
  the fields when they have the same keys and equal values there.
\<close>

definition agree :: "string list \<Rightarrow> dict \<Rightarrow> dict \<Rightarrow> bool" where
  "agree names d e \<longleftrightarrow> set (dkeys d) = set (dkeys e) \<and> (\<forall>k\<in>set names. dget_null d k = dget_null e k)"

lemma agree_get: "agree names d e \<Longrightarrow> k \<in> set names \<Longrightarrow> dget_null d k = dget_null e k"
  by (simp add: agree_def)

lemma agree_shape: "agree names d e \<Longrightarrow> ''schema_version'' \<in> set names \<Longrightarrow> hshape names sch d = hshape names sch e"
  by (simp add: agree_def hshape_def wexact_def)

lemma htext_Inr [simp]: "htext v = Inr u \<longleftrightarrow> nonempty_str v"
  and htext_opt_Inr [simp]: "htext_opt v = Inr u \<longleftrightarrow> v = JNull \<or> nonempty_str v"
  by (simp_all add: htext_def htext_opt_def)

lemma each_Inr [simp]: "each f xs = Inr u \<longleftrightarrow> (\<forall>x\<in>set xs. f x = Inr ())"
  by (induction xs) (auto simp: bindR_Inr_iff)

lemma bindR_unit: "bindR x (\<lambda>_. k) = Inr u \<longleftrightarrow> x = Inr () \<and> k = Inr u"
  by (auto simp: bindR_Inr_iff)

lemma one_of_Inr [simp]: "one_of S c v = Inr u \<longleftrightarrow> v \<in> JStr ` set S"
  by (auto simp: one_of_def hashable_def split: json.splits)

lemma nonempty_str_json: "nonempty_str v \<Longrightarrow> JStr (the_str v) = v"
  and is_str_json: "is_str v \<Longrightarrow> JStr (the_str v) = v"
  and is_int_json: "is_int v \<Longrightarrow> JInt (the_int v) = v"
  and opt_str_json: "v = JNull \<or> nonempty_str v \<Longrightarrow> opt_json (opt_of v) = v"
  by (cases v; simp add: json_tests opt_of_def opt_json_def)+

lemma hstrings_json: "hstrings a v = Inr u \<Longrightarrow> str_list_json (strs v) = v"
proof (cases v)
  case (JList vs)
  assume "hstrings a v = Inr u"
  then have "list_all nonempty_str vs" by (simp add: hstrings_def JList split: if_splits)
  then show ?thesis by (auto simp: JList str_list_json_def strs_def nonempty_strs the_str_def)
qed (simp_all add: hstrings_def)

lemma one_of_json: "v \<in> JStr ` S \<Longrightarrow> JStr (the_str v) = v"
  by (auto simp: the_str_def)

lemma agree_all: "agree names d e \<Longrightarrow> list_all (\<lambda>k. dget_null d k = dget_null e k) names"
  by (simp add: agree_def list_all_iff)

lemma shape_keys: "hshape names sch d = Inr u \<Longrightarrow> set (dkeys d) = set names \<and> dget_null d ''schema_version'' = JStr sch"
  by (auto simp: hshape_def wexact_def bindR_Inr_iff)

lemma agreeI:
  assumes "map fst e = names'" and "set names' = set names" and "hshape names sch d = Inr u"
    and "list_all (\<lambda>k. dget_null e k = dget_null d k) names"
  shows "agree names e d"
  using assms shape_keys[OF assms(3)] by (simp add: agree_def dkeys_def list_all_iff flip: set_map)

lemma envelope_agree:
  assumes "agree ENVELOPE_FIELDS d e"
  shows "validate_envelope_dict d = validate_envelope_dict e" and "envelope_of d = envelope_of e"
proof -
  have s: "hshape ENVELOPE_FIELDS sch d = hshape ENVELOPE_FIELDS sch e" for sch
    using assms by (rule agree_shape) (simp add: ENVELOPE_FIELDS_def)
  note f = agree_all[OF assms, unfolded ENVELOPE_FIELDS_def list.pred_inject]
  show "validate_envelope_dict d = validate_envelope_dict e"
    unfolding validate_envelope_dict_def s each.simps by (simp only: f)
  show "envelope_of d = envelope_of e" unfolding envelope_of_def by (simp only: f)
qed

lemma envelope_fields:
  "dget_null (envelope_to_dict e) ''schema_version'' = JStr ''eml-handoff/envelope-0.1''"
  "dget_null (envelope_to_dict e) ''handoff_id'' = JStr (hv_handoff_id e)"
  "dget_null (envelope_to_dict e) ''delivery_id'' = JStr (hv_delivery_id e)"
  "dget_null (envelope_to_dict e) ''created_time_ref'' = opt_json (hv_created_time_ref e)"
  "dget_null (envelope_to_dict e) ''temporal_evidence_status'' = JStr (hv_temporal_evidence_status e)"
  "dget_null (envelope_to_dict e) ''local_recorded_at'' = JStr (hv_local_recorded_at e)"
  "dget_null (envelope_to_dict e) ''claimed_sender_ref'' = JStr (hv_claimed_sender_ref e)"
  "dget_null (envelope_to_dict e) ''claimed_sender_instance_ref'' = JStr (hv_claimed_sender_instance_ref e)"
  "dget_null (envelope_to_dict e) ''target_kind'' = JStr (hv_target_kind e)"
  "dget_null (envelope_to_dict e) ''target_ref'' = JStr (hv_target_ref e)"
  "dget_null (envelope_to_dict e) ''authority_ref'' = JStr (hv_authority_ref e)"
  "dget_null (envelope_to_dict e) ''payload_ref'' = JStr (hv_payload_ref e)"
  "dget_null (envelope_to_dict e) ''payload_media_type'' = JStr (hv_payload_media_type e)"
  "dget_null (envelope_to_dict e) ''payload_sha256'' = JStr (hv_payload_sha256 e)"
  "dget_null (envelope_to_dict e) ''payload_bytes'' = JInt (hv_payload_bytes e)"
  "dget_null (envelope_to_dict e) ''sensitivity'' = JStr (hv_sensitivity e)"
  "dget_null (envelope_to_dict e) ''reply_to_handoff_id'' = opt_json (hv_reply_to_handoff_id e)"
  "dget_null (envelope_to_dict e) ''expires_at'' = opt_json (hv_expires_at e)"
  "dget_null (envelope_to_dict e) ''not_claimed'' = str_list_json (hv_not_claimed e)"
  by (simp_all add: dget_null_def envelope_to_dict_def envelope_core_dict_def)

lemma envelope_keys: "map fst (envelope_to_dict e) = ENVELOPE_FIELDS"
  by (simp add: envelope_to_dict_def envelope_core_dict_def ENVELOPE_FIELDS_def)

lemma htime_text: "htime v = Inr u \<Longrightarrow> nonempty_str v"
  by (auto simp: htime_def bindR_Inr_iff)

lemma opt_time_text: "opt_time v = Inr u \<Longrightarrow> v = JNull \<or> nonempty_str v"
  by (auto simp: opt_time_def htime_text split: if_splits)

lemma temporal_evidence_str:
  "temporal_evidence st r = Inr u \<Longrightarrow> is_str st \<and> opt_json (opt_of r) = r"
  by (cases r) (auto simp: temporal_evidence_def opt_of_def opt_json_def json_tests split: if_splits)

lemma envelope_written:
  assumes "validate_envelope_dict d = Inr u"
  shows "agree ENVELOPE_FIELDS (envelope_to_dict (envelope_of d)) d"
proof -
  let ?g = "dget_null d"
  note all = assms[unfolded validate_envelope_dict_def bindR_unit each_Inr htext_Inr htext_opt_Inr one_of_Inr wcheck_Inr]
  have sh: "hshape ENVELOPE_FIELDS ''eml-handoff/envelope-0.1'' d = Inr ()" using all by (elim conjE) simp_all
  have tx: "\<forall>f\<in>set [''handoff_id'', ''delivery_id'', ''local_recorded_at'', ''claimed_sender_ref'',
       ''claimed_sender_instance_ref'', ''target_ref'', ''authority_ref'', ''payload_ref'', ''payload_media_type''].
       nonempty_str (?g f)" using all by (elim conjE)
  have ex: "opt_time (?g ''expires_at'') = Inr ()" using all by (elim conjE) simp_all
  have te: "temporal_evidence (?g ''temporal_evidence_status'') (?g ''created_time_ref'') = Inr ()" using all by (elim conjE) simp_all
  have tk: "?g ''target_kind'' \<in> JStr ` set TARGET_KINDS" using all by (elim conjE)
  have se: "?g ''sensitivity'' \<in> JStr ` set [''P0'', ''P1'']" using all by (elim conjE)
  have sha: "is_str (?g ''payload_sha256'')" using all by (elim conjE)
  have pb: "is_int (?g ''payload_bytes'')" using all by (elim conjE)
  have re: "?g ''reply_to_handoff_id'' = JNull \<or> nonempty_str (?g ''reply_to_handoff_id'')" using all by (elim conjE)
  have nc: "hstrings False (?g ''not_claimed'') = Inr ()" using all by (elim conjE) simp_all
  show ?thesis
  proof (rule agreeI[OF envelope_keys refl sh])
    show "list_all (\<lambda>k. dget_null (envelope_to_dict (envelope_of d)) k = dget_null d k) ENVELOPE_FIELDS"
      unfolding ENVELOPE_FIELDS_def list.pred_inject envelope_fields
      using tx by (simp add: envelope_of_def nonempty_str_json is_str_json[OF sha] is_int_json[OF pb]
        opt_str_json[OF re] opt_str_json[OF opt_time_text[OF ex]] hstrings_json[OF nc] one_of_json[OF tk] one_of_json[OF se]
        is_str_json[OF conjunct1[OF temporal_evidence_str[OF te]]] conjunct2[OF temporal_evidence_str[OF te]]
        shape_keys[OF sh])
  qed
qed

lemma claim_agree:
  assumes "agree CLAIM_FIELDS d e"
  shows "validate_claim_dict d = validate_claim_dict e" and "claim_of d = claim_of e"
proof -
  have s: "hshape CLAIM_FIELDS sch d = hshape CLAIM_FIELDS sch e" for sch
    using assms by (rule agree_shape) (simp add: CLAIM_FIELDS_def)
  note f = agree_all[OF assms, unfolded CLAIM_FIELDS_def list.pred_inject]
  show "validate_claim_dict d = validate_claim_dict e"
    unfolding validate_claim_dict_def s each.simps by (simp only: f)
  show "claim_of d = claim_of e" unfolding claim_of_def by (simp only: f)
qed

lemma materialization_agree:
  assumes "agree MATERIALIZATION_FIELDS d e"
  shows "validate_materialization_dict d = validate_materialization_dict e" and "materialization_of d = materialization_of e"
proof -
  have s: "hshape MATERIALIZATION_FIELDS sch d = hshape MATERIALIZATION_FIELDS sch e" for sch
    using assms by (rule agree_shape) (simp add: MATERIALIZATION_FIELDS_def)
  note f = agree_all[OF assms, unfolded MATERIALIZATION_FIELDS_def list.pred_inject]
  show "validate_materialization_dict d = validate_materialization_dict e"
    unfolding validate_materialization_dict_def s each.simps by (simp only: f)
  show "materialization_of d = materialization_of e" unfolding materialization_of_def by (simp only: f)
qed

lemma receipt_agree:
  assumes "agree RECEIPT_FIELDS d e"
  shows "validate_receipt_dict d = validate_receipt_dict e" and "receipt_of d = receipt_of e"
proof -
  have s: "hshape RECEIPT_FIELDS sch d = hshape RECEIPT_FIELDS sch e" for sch
    using assms by (rule agree_shape) (simp add: RECEIPT_FIELDS_def)
  note f = agree_all[OF assms, unfolded RECEIPT_FIELDS_def list.pred_inject]
  show "validate_receipt_dict d = validate_receipt_dict e"
    unfolding validate_receipt_dict_def s each.simps by (simp only: f)
  show "receipt_of d = receipt_of e" unfolding receipt_of_def by (simp only: f)
qed

lemma claim_written:
  assumes "validate_claim_dict d = Inr u"
  shows "agree CLAIM_FIELDS (claim_to_dict (claim_of d)) d"
proof -
  note all = assms[unfolded validate_claim_dict_def bindR_unit each_Inr htext_Inr htext_opt_Inr one_of_Inr wcheck_Inr]
  have sh: "hshape CLAIM_FIELDS ''eml-handoff/claim-0.1'' d = Inr ()" using all by (elim conjE) simp_all
  have tx: "\<forall>f\<in>set [''handoff_id'', ''envelope_core_digest'', ''receiver_binding_kind'', ''claim_authority_ref'',
      ''claimed_at'']. nonempty_str (dget_null d f)" using all by (elim conjE)
  have op: "\<forall>f\<in>set [''receiver_instance_ref'', ''receiver_entity_ref'', ''binding_evidence_ref'', ''observed_origin''].
      dget_null d f = JNull \<or> nonempty_str (dget_null d f)" using all by (elim conjE)
  show ?thesis
  proof (rule agreeI[OF _ refl sh])
    show "map fst (claim_to_dict (claim_of d)) = CLAIM_FIELDS" by (simp add: claim_to_dict_def CLAIM_FIELDS_def)
    show "list_all (\<lambda>k. dget_null (claim_to_dict (claim_of d)) k = dget_null d k) CLAIM_FIELDS"
      unfolding CLAIM_FIELDS_def list.pred_inject
      using tx op shape_keys[OF sh] by (simp add: claim_to_dict_def claim_of_def dget_null_def[of "_ # _"] nonempty_str_json opt_str_json)
  qed
qed

lemma materialization_written:
  assumes "validate_materialization_dict d = Inr u"
  shows "agree MATERIALIZATION_FIELDS (materialization_to_dict (materialization_of d)) d"
proof -
  note all = assms[unfolded validate_materialization_dict_def bindR_unit each_Inr htext_Inr htext_opt_Inr one_of_Inr wcheck_Inr]
  have sh: "hshape MATERIALIZATION_FIELDS ''eml-handoff/materialization-0.1'' d = Inr ()" using all by (elim conjE) simp_all
  have tx: "\<forall>f\<in>set [''handoff_id'', ''envelope_core_digest'', ''payload_sha256'', ''materialized_at'',
      ''materialization_method'']. nonempty_str (dget_null d f)" using all by (elim conjE)
  have op: "dget_null d ''receiver_instance_ref'' = JNull \<or> nonempty_str (dget_null d ''receiver_instance_ref'')"
    using all by (elim conjE)
  show ?thesis
  proof (rule agreeI[OF _ refl sh])
    show "map fst (materialization_to_dict (materialization_of d)) = MATERIALIZATION_FIELDS"
      by (simp add: materialization_to_dict_def MATERIALIZATION_FIELDS_def)
    show "list_all (\<lambda>k. dget_null (materialization_to_dict (materialization_of d)) k = dget_null d k) MATERIALIZATION_FIELDS"
      unfolding MATERIALIZATION_FIELDS_def list.pred_inject
      using tx op shape_keys[OF sh]
      by (simp add: materialization_to_dict_def materialization_of_def dget_null_def[of "_ # _"] nonempty_str_json opt_str_json)
  qed
qed

lemma receipt_written:
  assumes "validate_receipt_dict d = Inr u"
  shows "agree RECEIPT_FIELDS (receipt_to_dict (receipt_of d)) d"
proof -
  note all = assms[unfolded validate_receipt_dict_def bindR_unit each_Inr htext_Inr htext_opt_Inr one_of_Inr wcheck_Inr]
  have sh: "hshape RECEIPT_FIELDS ''eml-handoff/receipt-0.1'' d = Inr ()" using all by (elim conjE) simp_all
  have tx: "\<forall>f\<in>set [''handoff_id'', ''envelope_core_digest'', ''payload_sha256'', ''local_recorded_at''].
      nonempty_str (dget_null d f)" using all by (elim conjE)
  have op: "dget_null d ''receiver_instance_ref'' = JNull \<or> nonempty_str (dget_null d ''receiver_instance_ref'')"
    using all by (elim conjE)
  have op': "dget_null d ''response_handoff_id'' = JNull \<or> nonempty_str (dget_null d ''response_handoff_id'')"
    using all by (elim conjE)
  have op'': "dget_null d ''recorded_time_ref'' = JNull \<or> nonempty_str (dget_null d ''recorded_time_ref'')"
    using all by (elim conjE)
  have de: "dget_null d ''decision'' \<in> JStr ` set DECISIONS" using all by (elim conjE)
  have ls: "hstrings False (dget_null d ''evidence_refs'') = Inr ()" "hstrings True (dget_null d ''not_claimed'') = Inr ()"
    using all by simp_all
  show ?thesis
  proof (rule agreeI[OF _ refl sh])
    show "map fst (receipt_to_dict (receipt_of d)) = RECEIPT_FIELDS" by (simp add: receipt_to_dict_def RECEIPT_FIELDS_def)
    show "list_all (\<lambda>k. dget_null (receipt_to_dict (receipt_of d)) k = dget_null d k) RECEIPT_FIELDS"
      unfolding RECEIPT_FIELDS_def list.pred_inject
      using tx op op' op'' shape_keys[OF sh]
      by (simp add: receipt_to_dict_def receipt_of_def dget_null_def[of "_ # _"] nonempty_str_json opt_str_json
        one_of_json[OF de] hstrings_json[OF ls(1)] hstrings_json[OF ls(2)])
  qed
qed

text \<open>Sorting the keys changes no field of a record.\<close>

lemma agree_stored:
  "distinct (map fst e) \<Longrightarrow> list_all (\<lambda>k. sort_keys (dget_null e k) = dget_null e k) names \<Longrightarrow> agree names (stored e) e"
  using stored_keys[of e] by (simp add: agree_def dget_stored list_all_iff dkeys_def del: set_map)

lemma sort_fields [simp]: "sort_keys (opt_json x) = opt_json x" "sort_keys (str_list_json xs) = str_list_json xs"
  by (cases x) (simp_all add: opt_json_def str_list_json_def)

lemma envelope_stored: "agree ENVELOPE_FIELDS (stored (envelope_to_dict e)) (envelope_to_dict e)"
proof (rule agree_stored)
  show "distinct (map fst (envelope_to_dict e))" unfolding envelope_keys by (simp add: ENVELOPE_FIELDS_def)
  show "list_all (\<lambda>k. sort_keys (dget_null (envelope_to_dict e) k) = dget_null (envelope_to_dict e) k) ENVELOPE_FIELDS"
    unfolding ENVELOPE_FIELDS_def list.pred_inject envelope_fields by simp
qed

lemma claim_stored: "agree CLAIM_FIELDS (stored (claim_to_dict c)) (claim_to_dict c)"
  by (rule agree_stored) (simp_all add: claim_to_dict_def CLAIM_FIELDS_def dget_null_def)

lemma materialization_stored: "agree MATERIALIZATION_FIELDS (stored (materialization_to_dict m)) (materialization_to_dict m)"
  by (rule agree_stored) (simp_all add: materialization_to_dict_def MATERIALIZATION_FIELDS_def dget_null_def)

lemma receipt_stored: "agree RECEIPT_FIELDS (stored (receipt_to_dict r)) (receipt_to_dict r)"
  by (rule agree_stored) (simp_all add: receipt_to_dict_def RECEIPT_FIELDS_def dget_null_def)

lemma envelope_again:
  assumes "envelope_from_dict d = Inr e"
  shows "envelope_from_dict (envelope_to_dict e) = Inr e" and "envelope_from_dict (stored (envelope_to_dict e)) = Inr e"
proof -
  from assms have v: "validate_envelope_dict d = Inr ()" and e: "e = envelope_of d"
    by (auto simp: envelope_from_dict_def bindR_Inr_iff)
  show 1: "envelope_from_dict (envelope_to_dict e) = Inr e"
    using envelope_agree[OF envelope_written[OF v]] v by (simp add: envelope_from_dict_def e)
  show "envelope_from_dict (stored (envelope_to_dict e)) = Inr e"
    using envelope_agree[OF envelope_stored[of e]] 1 by (simp add: envelope_from_dict_def)
qed

lemma claim_again:
  assumes "claim_from_dict d = Inr c"
  shows "claim_from_dict (stored (claim_to_dict c)) = Inr c"
proof -
  from assms have v: "validate_claim_dict d = Inr ()" and c: "c = claim_of d"
    by (auto simp: claim_from_dict_def bindR_Inr_iff)
  then show ?thesis
    using claim_agree[OF claim_written[OF v]] claim_agree[OF claim_stored[of c]] by (simp add: claim_from_dict_def)
qed

lemma materialization_again:
  assumes "materialization_from_dict d = Inr m"
  shows "materialization_from_dict (stored (materialization_to_dict m)) = Inr m"
proof -
  from assms have v: "validate_materialization_dict d = Inr ()" and m: "m = materialization_of d"
    by (auto simp: materialization_from_dict_def bindR_Inr_iff)
  then show ?thesis
    using materialization_agree[OF materialization_written[OF v]] materialization_agree[OF materialization_stored[of m]]
    by (simp add: materialization_from_dict_def)
qed

lemma receipt_again:
  assumes "receipt_from_dict d = Inr r"
  shows "receipt_from_dict (stored (receipt_to_dict r)) = Inr r"
proof -
  from assms have v: "validate_receipt_dict d = Inr ()" and r: "r = receipt_of d"
    by (auto simp: receipt_from_dict_def bindR_Inr_iff)
  then show ?thesis
    using receipt_agree[OF receipt_written[OF v]] receipt_agree[OF receipt_stored[of r]]
    by (simp add: receipt_from_dict_def)
qed

end
