(* ===== verification/Handoff_Files.thy ===== *)
theory Handoff_Files
  imports Handoff_Models
begin

text \<open>
  \<open>src/eml_handoff/filesystem.py\<close>: the reading of a payload from the allow-listed source roots, on a
  POSIX host; and \<open>src/eml_handoff/identity.py\<close>: who may claim a handoff. The file system of the
  sender and the verifiers of the receiver are arguments.
\<close>

section \<open>Payloads\<close>

text \<open>\<open>os.path.abspath\<close>, \<open>Path.resolve(strict=True)\<close>, \<open>is_symlink\<close>, \<open>is_file\<close> and \<open>read_bytes\<close>.\<close>

record source_host =
  sh_abspath :: "string \<Rightarrow> path"
  sh_resolve :: "path \<Rightarrow> path option"
  sh_symlink :: "path \<Rightarrow> bool"
  sh_regular :: "path \<Rightarrow> bool"
  sh_bytes :: "path \<Rightarrow> string option"

record PayloadSnapshot =
  ps_source_path :: path
  ps_data :: string
  ps_sha256 :: string
  ps_byte_count :: int
  ps_extension :: string
  ps_media_type :: string

definition validate_text_document :: "string \<Rightarrow> unit res" where
  "validate_text_document data =
     bindR (wcheck (utf8_valid data) ''payload_binary_unsupported'') (\<lambda>_.
     wcheck (\<not> has_control data) ''payload_binary_unsupported'')"

text \<open>The loop over the roots: the first root that holds the path before and after its resolution.\<close>

fun source_root :: "source_host \<Rightarrow> bool \<Rightarrow> path \<Rightarrow> path \<Rightarrow> string list \<Rightarrow> path option res" where
  "source_root h strict requested target [] = Inr None"
| "source_root h strict requested target (raw # roots) =
     (let unresolved = sh_abspath h raw
      in if \<not> below unresolved requested then source_root h strict requested target roots
         else if strict \<and> (sh_symlink h unresolved \<or> sh_symlink h requested) then Inl (Coded ''payload_reparse_refused'')
         else case sh_resolve h unresolved of
             None \<Rightarrow> source_root h strict requested target roots
           | Some root \<Rightarrow> if below root target then Inr (Some root) else source_root h strict requested target roots)"

definition read_source_payload :: "lib \<Rightarrow> source_host \<Rightarrow> HandoffConfig \<Rightarrow> string \<Rightarrow> PayloadSnapshot res" where
  "read_source_payload L h cfg p =
     (let requested = sh_abspath h p
      in case sh_resolve h requested of
          None \<Rightarrow> Inl (Coded ''input_unreadable'')
        | Some target \<Rightarrow>
            bindR (source_root h (hc_strict_reparse_checks cfg) requested target (hc_allowed_source_roots cfg)) (\<lambda>root.
            bindR (wcheck (root \<noteq> None) ''payload_outside_allowlist'') (\<lambda>_.
            bindR (wcheck (sh_regular h target) ''input_unreadable'') (\<lambda>_.
            let extension = lower (path_suffix (if target = [] then [] else last target))
            in bindR (wcheck (extension \<in> set (hc_allowed_payload_extensions cfg)) ''payload_extension_unsupported'') (\<lambda>_.
               case map_of MEDIA_BY_EXTENSION extension of
                   None \<Rightarrow> Inl (Coded ''payload_extension_unsupported'')
                 | Some media_type \<Rightarrow> (case sh_bytes h target of
                     None \<Rightarrow> Inl (Coded ''input_unreadable'')
                   | Some data \<Rightarrow>
                       bindR (validate_text_document data) (\<lambda>_.
                       bindR (wcheck (int (length data) \<le> hc_default_max_payload_bytes cfg) ''payload_too_large'') (\<lambda>_.
                       Inr \<lparr>ps_source_path = target, ps_data = data, ps_sha256 = upper (sha256_hex L data),
                            ps_byte_count = int (length data), ps_extension = extension,
                            ps_media_type = media_type\<rparr>))))))))"

section \<open>Claims\<close>

text \<open>\<open>TargetBindingVerifier\<close>.\<close>

record binding_verifier =
  bv_exact_instance :: "string \<Rightarrow> string \<Rightarrow> string \<Rightarrow> string \<Rightarrow> bool res"
  bv_entity :: "string \<Rightarrow> string \<Rightarrow> string \<Rightarrow> bool res"

text \<open>The keyword arguments of a claim.\<close>

record claim_args =
  cl_receiver_instance_ref :: "string option"
  cl_binding_kind :: string
  cl_receiver_entity_ref :: "string option"
  cl_claim_authority_ref :: string
  cl_evidence_ref :: "string option"
  cl_observed_origin :: "string option"
  cl_verifier :: "binding_verifier option"

definition missing :: "string option \<Rightarrow> bool" where
  "missing x = (x = None \<or> x = Some [])"

definition authorize_exact :: "HandoffEnvelope \<Rightarrow> claim_args \<Rightarrow> unit res" where
  "authorize_exact e a = (case cl_verifier a of
      None \<Rightarrow> Inl (Coded ''host_binding_verifier_unavailable'')
    | Some v \<Rightarrow>
        if missing (cl_receiver_instance_ref a) \<or> missing (cl_evidence_ref a)
        then Inl (Coded ''host_binding_evidence_missing'')
        else bindR (bv_exact_instance v (hv_target_ref e) (the (cl_receiver_instance_ref a)) (cl_binding_kind a)
               (the (cl_evidence_ref a))) (\<lambda>ok. wcheck ok ''exact_instance_target_mismatch''))"

definition authorize_entity :: "HandoffEnvelope \<Rightarrow> claim_args \<Rightarrow> unit res" where
  "authorize_entity e a = (case cl_verifier a of
      None \<Rightarrow> Inl (Coded ''entity_binding_verifier_unavailable'')
    | Some v \<Rightarrow>
        if missing (cl_receiver_entity_ref a) \<or> missing (cl_evidence_ref a)
        then Inl (Coded ''entity_binding_evidence_missing'')
        else bindR (bv_entity v (hv_target_ref e) (the (cl_receiver_entity_ref a)) (the (cl_evidence_ref a)))
               (\<lambda>ok. wcheck ok ''entity_target_mismatch''))"

definition authorize_claim :: "HandoffEnvelope \<Rightarrow> HandoffConfig \<Rightarrow> claim_args \<Rightarrow> unit res" where
  "authorize_claim e cfg a =
     bindR (wcheck (cl_claim_authority_ref a \<in> set (hc_allowed_authority_refs cfg)) ''claim_authority_not_allowed'') (\<lambda>_.
     bindR (wcheck (cl_binding_kind a \<in> set BINDING_KINDS) ''binding_kind_unsupported'') (\<lambda>_.
     bindR (wcheck (\<not> (cl_binding_kind a = ''unresolved'' \<and> cl_receiver_instance_ref a \<noteq> None))
       ''unresolved_binding_has_instance'') (\<lambda>_.
     bindR (wcheck (\<not> (cl_binding_kind a \<noteq> ''unresolved'' \<and> missing (cl_receiver_instance_ref a)))
       ''receiver_instance_missing'') (\<lambda>_.
     if hv_target_kind e \<in> {''shared_topic'', ''task''} then Inr ()
     else if hv_target_kind e = ''exact_instance'' then authorize_exact e a
     else if hv_target_kind e = ''arcp_entity'' then authorize_entity e a
     else Inl (Coded ''target_kind_unsupported'')))))"

end
