(* ===== verification/Handoff_Store.thy ===== *)
theory Handoff_Store
  imports Handoff_Files
begin

text \<open>
  \<open>src/eml_handoff/store.py\<close>: envelopes, payloads, claims, materializations, receipts and
  notifications of the handoff store, one immutable file each. \<open>_now_iso\<close> is the argument \<open>now\<close>. The
  wake errors that \<open>_convert\<close> turns into handoff errors keep their code.
\<close>

section \<open>Paths and reading\<close>

definition handoff_path :: "lib \<Rightarrow> string \<Rightarrow> string \<Rightarrow> path" where
  "handoff_path L dir handoff_id = [dir, sha256_hex L handoff_id @ ''.json'']"

definition envelope_path :: "lib \<Rightarrow> string \<Rightarrow> path" where
  "envelope_path L = handoff_path L ''envelopes''"

definition handoff_claim_path :: "lib \<Rightarrow> string \<Rightarrow> path" where
  "handoff_claim_path L = handoff_path L ''claims''"

definition materialization_path :: "lib \<Rightarrow> string \<Rightarrow> path" where
  "materialization_path L = handoff_path L ''materializations''"

definition receipt_path :: "lib \<Rightarrow> string \<Rightarrow> path" where
  "receipt_path L = handoff_path L ''receipts''"

definition handoff_failure_path :: "lib \<Rightarrow> string \<Rightarrow> path" where
  "handoff_failure_path L = handoff_path L ''failures''"

definition handoff_payload_path :: "HandoffEnvelope \<Rightarrow> path" where
  "handoff_payload_path e = path_parts (hv_payload_ref e)"

definition handoff_duplicate_path :: "lib \<Rightarrow> string \<Rightarrow> string \<Rightarrow> path" where
  "handoff_duplicate_path L handoff_id delivery_id =
     [''duplicates'', sha256_hex L handoff_id, sha256_hex L delivery_id @ ''.json'']"

definition handoff_notification_path :: "lib \<Rightarrow> string \<Rightarrow> string \<Rightarrow> path" where
  "handoff_notification_path L handoff_id notification_id =
     [''notifications'', sha256_hex L handoff_id, sha256_hex L notification_id @ ''.json'']"

definition handoff_quarantine_path :: "lib \<Rightarrow> HandoffEnvelope \<Rightarrow> string \<Rightarrow> path" where
  "handoff_quarantine_path L e core = [''quarantine'',
     sha256_hex L (hv_handoff_id e @ [CHR 0x00] @ hv_delivery_id e @ [CHR 0x00] @ core) @ ''.json'']"

text \<open>\<open>get_envelope\<close>, and the reading of the three other records.\<close>

definition get_envelope :: "lib \<Rightarrow> string \<Rightarrow> (disk, HandoffEnvelope) op" where
  "get_envelope L handoff_id =
     thenS (encoded handoff_id)
     (bindS (is_fileS (envelope_path L handoff_id)) (\<lambda>there.
      if \<not> there then raiseS (Coded ''handoff_not_found'')
      else bindS (read_dict (envelope_path L handoff_id)) (\<lambda>d.
        bindS (liftS (envelope_from_dict d)) (\<lambda>e.
        if hv_handoff_id e \<noteq> handoff_id then raiseS (Coded ''handoff_filename_mismatch'') else retS e))))"

definition get_record :: "(dict \<Rightarrow> 'a res) \<Rightarrow> string \<Rightarrow> path \<Rightarrow> (disk, 'a) op" where
  "get_record parse absent p = bindS (is_fileS p) (\<lambda>there.
     if \<not> there then raiseS (Coded absent) else bindS (read_dict p) (\<lambda>d. liftS (parse d)))"

definition get_claim :: "lib \<Rightarrow> string \<Rightarrow> (disk, ClaimRecord) op" where
  "get_claim L handoff_id = thenS (encoded handoff_id)
     (get_record claim_from_dict ''handoff_not_claimed'' (handoff_claim_path L handoff_id))"

definition get_materialization :: "lib \<Rightarrow> string \<Rightarrow> (disk, MaterializationRecord) op" where
  "get_materialization L handoff_id = thenS (encoded handoff_id)
     (get_record materialization_from_dict ''payload_not_materialized'' (materialization_path L handoff_id))"

definition get_receipt :: "lib \<Rightarrow> string \<Rightarrow> (disk, ReceiptRecord) op" where
  "get_receipt L handoff_id = thenS (encoded handoff_id)
     (get_record receipt_from_dict ''receipt_not_found'' (receipt_path L handoff_id))"

section \<open>Submission\<close>

record HandoffSubmission =
  hsub_kind :: string
  hsub_handoff_id :: string
  hsub_delivery_id :: string
  hsub_envelope_path :: path
  hsub_payload_path :: path
  hsub_duplicate_path :: "path option"

text \<open>\<open>_verify_submission\<close>; the key of the handoff id is computed after the first two checks.\<close>

definition verify_submission :: "lib \<Rightarrow> HandoffConfig \<Rightarrow> HandoffEnvelope \<Rightarrow> PayloadSnapshot \<Rightarrow> path res" where
  "verify_submission L cfg e snap =
     bindR (wcheck (hv_target_kind e \<in> set (hc_allowed_target_kinds cfg)) ''target_kind_not_allowed'') (\<lambda>_.
     bindR (wcheck (hv_authority_ref e \<in> set (hc_allowed_authority_refs cfg)) ''authority_not_allowed'') (\<lambda>_.
     bindR (if utf8_valid (hv_handoff_id e) then Inr () else Inl UnicodeEncodeError) (\<lambda>_.
     bindR (wcheck (hv_payload_ref e = ''payloads/'' @ sha256_hex L (hv_handoff_id e) @ ps_extension snap)
       ''payload_ref_mismatch'') (\<lambda>_.
     bindR (wcheck (hv_payload_sha256 e = ps_sha256 snap) ''payload_integrity_failed'') (\<lambda>_.
     bindR (wcheck (hv_payload_bytes e = ps_byte_count snap) ''payload_size_mismatch'') (\<lambda>_.
     bindR (wcheck (hv_payload_media_type e = ps_media_type snap) ''payload_media_mismatch'') (\<lambda>_.
     Inr (handoff_payload_path e))))))))"

definition collision_record :: "HandoffEnvelope \<Rightarrow> string \<Rightarrow> string \<Rightarrow> instant \<Rightarrow> dict" where
  "collision_record e old new now =
     [(''schema_version'', JStr ''eml-handoff/quarantine-0.1''),
      (''handoff_id'', JStr (hv_handoff_id e)),
      (''delivery_id'', JStr (hv_delivery_id e)),
      (''existing_core_digest'', JStr old),
      (''submitted_core_digest'', JStr new),
      (''observed_at'', JStr (iso_text now)),
      (''code'', JStr ''handoff_content_collision'')]"

definition quarantine_collision :: "lib \<Rightarrow> instant \<Rightarrow> HandoffEnvelope \<Rightarrow> string \<Rightarrow> string \<Rightarrow> (disk, unit) op" where
  "quarantine_collision L now e old new =
     (let p = handoff_quarantine_path L e new
      in thenS (encoded (hv_handoff_id e)) (thenS (encoded (hv_delivery_id e))
        (bindS (existsS p) (\<lambda>there. if there then retS () else publish_json L p (JObj (collision_record e old new now))))))"

definition handoff_duplicate_record :: "HandoffEnvelope \<Rightarrow> string \<Rightarrow> instant \<Rightarrow> dict" where
  "handoff_duplicate_record e digest now =
     [(''schema_version'', JStr ''eml-handoff/duplicate-0.1''),
      (''handoff_id'', JStr (hv_handoff_id e)),
      (''delivery_id'', JStr (hv_delivery_id e)),
      (''envelope_core_digest'', JStr digest),
      (''observed_at'', JStr (iso_text now))]"

text \<open>\<open>is_file() and read_bytes() == data\<close>.\<close>

definition stored_bytes :: "path \<Rightarrow> string \<Rightarrow> (disk, bool) op" where
  "stored_bytes p data = getS (\<lambda>D. map_of (d_files D) p = Some data)"

definition classify_existing :: "lib \<Rightarrow> instant \<Rightarrow> HandoffEnvelope \<Rightarrow> PayloadSnapshot \<Rightarrow> path \<Rightarrow> (disk, HandoffSubmission) op" where
  "classify_existing L now e snap payload =
     bindS (get_envelope L (hv_handoff_id e)) (\<lambda>existing.
     bindS (liftS (envelope_core_digest L existing)) (\<lambda>old.
     bindS (liftS (envelope_core_digest L e)) (\<lambda>new.
     if old \<noteq> new
     then thenS (quarantine_collision L now e old new) (raiseS (Coded ''handoff_content_collision''))
     else bindS (stored_bytes payload (ps_data snap)) (\<lambda>same.
       if \<not> same then raiseS (Coded ''payload_integrity_failed'')
       else let p = handoff_duplicate_path L (hv_handoff_id e) (hv_delivery_id e)
         in thenS (encoded (hv_delivery_id e))
           (bindS (existsS p) (\<lambda>there.
            thenS (if there then retS ()
                else catchS (publish_json L p (JObj (handoff_duplicate_record e new now)))
                  (\<lambda>err. if err \<noteq> Coded ''immutable_file_exists'' then raiseS err else retS ()))
              (retS \<lparr>hsub_kind = ''duplicate'', hsub_handoff_id = hv_handoff_id e, hsub_delivery_id = hv_delivery_id e,
                hsub_envelope_path = envelope_path L (hv_handoff_id e), hsub_payload_path = payload,
                hsub_duplicate_path = Some p\<rparr>)))))))"

definition submit_handoff_payload :: "path \<Rightarrow> string \<Rightarrow> (disk, unit) op" where
  "submit_handoff_payload p data = bindS (existsS p) (\<lambda>there.
     if there then bindS (read_bytes p) (\<lambda>old.
       if old \<noteq> data then raiseS (Coded ''payload_integrity_failed'') else retS ())
     else catchS (publish_bytes p data) (\<lambda>err.
       if err \<noteq> Coded ''immutable_file_exists'' then raiseS err
       else bindS (stored_bytes p data) (\<lambda>same.
         if \<not> same then raiseS (Coded ''payload_integrity_failed'') else retS ())))"

definition submit_handoff ::
    "lib \<Rightarrow> HandoffConfig \<Rightarrow> instant \<Rightarrow> HandoffEnvelope \<Rightarrow> PayloadSnapshot \<Rightarrow> (disk, HandoffSubmission) op" where
  "submit_handoff L cfg now e snap =
     bindS (liftS (verify_submission L cfg e snap)) (\<lambda>payload.
     bindS (existsS (envelope_path L (hv_handoff_id e))) (\<lambda>there.
     if there then classify_existing L now e snap payload
     else thenS (submit_handoff_payload payload (ps_data snap))
       (catchS
         (thenS (publish_json L (envelope_path L (hv_handoff_id e)) (JObj (envelope_to_dict e)))
           (retS \<lparr>hsub_kind = ''created'', hsub_handoff_id = hv_handoff_id e, hsub_delivery_id = hv_delivery_id e,
              hsub_envelope_path = envelope_path L (hv_handoff_id e), hsub_payload_path = payload, hsub_duplicate_path = None\<rparr>))
         (\<lambda>err. if err \<noteq> Coded ''immutable_file_exists'' then raiseS err
            else classify_existing L now e snap payload))))"

section \<open>Claim, materialization and receipt\<close>

definition claim_dict :: "string \<Rightarrow> string \<Rightarrow> claim_args \<Rightarrow> instant \<Rightarrow> dict" where
  "claim_dict handoff_id core a now =
     [(''schema_version'', JStr ''eml-handoff/claim-0.1''),
      (''handoff_id'', JStr handoff_id),
      (''envelope_core_digest'', JStr core),
      (''receiver_instance_ref'', opt_json (cl_receiver_instance_ref a)),
      (''receiver_binding_kind'', JStr (cl_binding_kind a)),
      (''receiver_entity_ref'', opt_json (cl_receiver_entity_ref a)),
      (''binding_evidence_ref'', opt_json (cl_evidence_ref a)),
      (''claim_authority_ref'', JStr (cl_claim_authority_ref a)),
      (''observed_origin'', opt_json (cl_observed_origin a)),
      (''claimed_at'', JStr (iso_text now))]"

definition handoff_claim :: "lib \<Rightarrow> HandoffConfig \<Rightarrow> instant \<Rightarrow> string \<Rightarrow> claim_args \<Rightarrow> (disk, ClaimRecord) op" where
  "handoff_claim L cfg now handoff_id a =
     bindS (get_envelope L handoff_id) (\<lambda>e.
     bindS (existsS (handoff_claim_path L handoff_id)) (\<lambda>there.
     if there then raiseS (Coded ''handoff_already_claimed'')
     else thenS (liftS (authorize_claim e cfg a))
       (bindS (liftS (envelope_core_digest L e)) (\<lambda>core.
        bindS (liftS (claim_from_dict (claim_dict handoff_id core a now))) (\<lambda>record.
        thenS (publish_json L (handoff_claim_path L handoff_id) (JObj (claim_to_dict record)))
          (retS record))))))"

definition materialization_dict :: "string \<Rightarrow> string \<Rightarrow> string \<Rightarrow> string option \<Rightarrow> instant \<Rightarrow> dict" where
  "materialization_dict handoff_id core actual receiver now =
     [(''schema_version'', JStr ''eml-handoff/materialization-0.1''),
      (''handoff_id'', JStr handoff_id),
      (''envelope_core_digest'', JStr core),
      (''payload_sha256'', JStr actual),
      (''receiver_instance_ref'', opt_json receiver),
      (''materialized_at'', JStr (iso_text now)),
      (''materialization_method'', JStr ''local_file_read'')]"

definition payload_data :: "path \<Rightarrow> (disk, string) op" where
  "payload_data p = catchS (read_bytes p) (\<lambda>err. if err = OSError then raiseS (Coded ''payload_unreadable'') else raiseS err)"

definition materialize :: "lib \<Rightarrow> instant \<Rightarrow> string \<Rightarrow> string option \<Rightarrow> (disk, MaterializationRecord) op" where
  "materialize L now handoff_id receiver =
     bindS (get_envelope L handoff_id) (\<lambda>e.
     bindS (get_claim L handoff_id) (\<lambda>c.
     if hk_receiver_instance_ref c \<noteq> receiver then raiseS (Coded ''receiver_instance_mismatch'')
     else bindS (payload_data (handoff_payload_path e)) (\<lambda>data.
       let actual = upper (sha256_hex L data)
       in if actual \<noteq> hv_payload_sha256 e \<or> int (length data) \<noteq> hv_payload_bytes e
          then raiseS (Coded ''payload_integrity_failed'')
          else bindS (liftS (envelope_core_digest L e)) (\<lambda>core.
            bindS (liftS (materialization_from_dict (materialization_dict handoff_id core actual receiver now))) (\<lambda>record.
            thenS (publish_json L (materialization_path L handoff_id) (JObj (materialization_to_dict record)))
              (retS record))))))"

definition preflight_receipt :: "lib \<Rightarrow> string \<Rightarrow> string option \<Rightarrow> (disk, HandoffEnvelope \<times> MaterializationRecord) op" where
  "preflight_receipt L handoff_id receiver =
     bindS (get_envelope L handoff_id) (\<lambda>e.
     bindS (is_fileS (receipt_path L handoff_id)) (\<lambda>there.
     if there then raiseS (Coded ''handoff_already_acknowledged'')
     else bindS (get_materialization L handoff_id) (\<lambda>m.
       if hm_receiver_instance_ref m \<noteq> receiver then raiseS (Coded ''receiver_instance_mismatch'')
       else retS (e, m))))"

record receipt_args =
  rc_decision :: string
  rc_receiver_instance_ref :: "string option"
  rc_response_handoff_id :: "string option"
  rc_evidence_refs :: "string list"
  rc_recorded_time_ref :: "string option"

definition receipt_dict :: "string \<Rightarrow> string \<Rightarrow> string \<Rightarrow> receipt_args \<Rightarrow> instant \<Rightarrow> dict" where
  "receipt_dict handoff_id core sha a now =
     [(''schema_version'', JStr ''eml-handoff/receipt-0.1''),
      (''handoff_id'', JStr handoff_id),
      (''envelope_core_digest'', JStr core),
      (''payload_sha256'', JStr sha),
      (''receiver_instance_ref'', opt_json (rc_receiver_instance_ref a)),
      (''decision'', JStr (rc_decision a)),
      (''response_handoff_id'', opt_json (rc_response_handoff_id a)),
      (''evidence_refs'', str_list_json (rc_evidence_refs a)),
      (''recorded_time_ref'', opt_json (rc_recorded_time_ref a)),
      (''local_recorded_at'', JStr (iso_text now)),
      (''not_claimed'', str_list_json [''payload_understood'', ''sender_authorship_verified''])]"

text \<open>A response must be a stored handoff that names this one as the handoff it answers.\<close>

definition check_response :: "lib \<Rightarrow> string \<Rightarrow> string option \<Rightarrow> (disk, unit) op" where
  "check_response L handoff_id response = (case response of
      None \<Rightarrow> retS ()
    | Some r \<Rightarrow> bindS (catchS (get_envelope L r) (\<lambda>err.
          if err = Coded ''handoff_not_found'' then raiseS (Coded ''response_handoff_not_found'') else raiseS err))
        (\<lambda>e. if hv_reply_to_handoff_id e \<noteq> Some handoff_id then raiseS (Coded ''response_handoff_link_mismatch'')
          else retS ()))"

definition commit_receipt :: "lib \<Rightarrow> instant \<Rightarrow> string \<Rightarrow> receipt_args \<Rightarrow> (disk, ReceiptRecord) op" where
  "commit_receipt L now handoff_id a =
     bindS (preflight_receipt L handoff_id (rc_receiver_instance_ref a)) (\<lambda>(e, m).
     thenS (check_response L handoff_id (rc_response_handoff_id a))
     (bindS (liftS (envelope_core_digest L e)) (\<lambda>core.
      bindS (liftS (receipt_from_dict (receipt_dict handoff_id core (hv_payload_sha256 e) a now))) (\<lambda>record.
      thenS (publish_json L (receipt_path L handoff_id) (JObj (receipt_to_dict record)))
        (retS record)))))"

section \<open>Notifications, listing and status\<close>

record notification_args =
  na_notification_id :: string
  na_route_kind :: string
  na_status :: string
  na_error_code :: "string option"
  na_ephemeral_route_ref :: "string option"

definition notification_checks :: "notification_args \<Rightarrow> unit res" where
  "notification_checks a =
     bindR (wcheck (na_notification_id a \<noteq> [] \<and> na_route_kind a \<noteq> []) ''notification_field_missing'') (\<lambda>_.
     bindR (wcheck (na_status a \<in> {''attempted'', ''accepted'', ''failed'', ''uncertain''}) ''notification_status_invalid'') (\<lambda>_.
     bindR (wcheck (na_error_code a \<noteq> Some []) ''notification_error_invalid'') (\<lambda>_.
     wcheck (na_ephemeral_route_ref a \<noteq> Some []) ''notification_route_invalid'')))"

definition notification_core :: "string \<Rightarrow> notification_args \<Rightarrow> string \<Rightarrow> dict" where
  "notification_core handoff_id a core =
     [(''handoff_id'', JStr handoff_id),
      (''notification_id'', JStr (na_notification_id a)),
      (''route_kind'', JStr (na_route_kind a)),
      (''status'', JStr (na_status a)),
      (''error_code'', opt_json (na_error_code a)),
      (''ephemeral_route_ref'', opt_json (na_ephemeral_route_ref a)),
      (''envelope_core_digest'', JStr core)]"

definition record_handoff_notification :: "lib \<Rightarrow> instant \<Rightarrow> string \<Rightarrow> notification_args \<Rightarrow> (disk, dict) op" where
  "record_handoff_notification L now handoff_id a =
     bindS (get_envelope L handoff_id) (\<lambda>e.
     thenS (liftS (notification_checks a))
     (let p = handoff_notification_path L handoff_id (na_notification_id a)
      in thenS (encoded (na_notification_id a))
        (bindS (existsS p) (\<lambda>there.
         if there
         then bindS (read_dict p) (\<lambda>old.
           bindS (liftS (envelope_core_digest L e)) (\<lambda>core.
           if \<not> py_eq (JObj (map (\<lambda>(k, _). (k, dget_null old k)) (notification_core handoff_id a core)))
                (JObj (notification_core handoff_id a core))
           then raiseS (Coded ''notification_content_collision'') else retS old))
         else bindS (liftS (envelope_core_digest L e)) (\<lambda>core.
           let record = [(''schema_version'', JStr ''eml-handoff/notification-0.1'')] @ notification_core handoff_id a core
             @ [(''observed_at'', JStr (iso_text now))]
           in thenS (publish_json L p (JObj record)) (retS record))))))"

definition handoff_pending_entry :: "lib \<Rightarrow> files \<Rightarrow> string \<Rightarrow> string \<Rightarrow> path \<Rightarrow> string list res" where
  "handoff_pending_entry L fs kind target p =
     bindR (read_dict_file fs p) (\<lambda>d. bindR (envelope_from_dict d) (\<lambda>e.
     if hv_target_kind e \<noteq> kind \<or> hv_target_ref e \<noteq> target then Inr []
     else if \<not> utf8_valid (hv_handoff_id e) then Inl UnicodeEncodeError
     else if path_exists fs (handoff_claim_path L (hv_handoff_id e)) then Inr []
     else if path_exists fs (handoff_failure_path L (hv_handoff_id e)) then Inr []
     else Inr [hv_handoff_id e]))"

definition handoff_pending :: "lib \<Rightarrow> string \<Rightarrow> string \<Rightarrow> (disk, string list) op" where
  "handoff_pending L kind target = (\<lambda>D. (D,
     bindR (mapR (handoff_pending_entry L (d_files D) kind target) (glob_json (d_files D) [''envelopes'']))
       (\<lambda>ids. Inr (concat ids))))"

record HandoffStatus =
  hst_status :: string
  hst_record :: dict

definition handoff_status :: "lib \<Rightarrow> string \<Rightarrow> (disk, HandoffStatus) op" where
  "handoff_status L handoff_id =
     bindS (get_envelope L handoff_id) (\<lambda>e.
     bindS (is_fileS (receipt_path L handoff_id)) (\<lambda>acknowledged.
     if acknowledged then bindS (get_receipt L handoff_id)
       (\<lambda>r. retS \<lparr>hst_status = ''acknowledged'', hst_record = receipt_to_dict r\<rparr>)
     else bindS (is_fileS (materialization_path L handoff_id)) (\<lambda>materialized.
     if materialized then bindS (get_materialization L handoff_id)
       (\<lambda>m. retS \<lparr>hst_status = ''materialized'', hst_record = materialization_to_dict m\<rparr>)
     else bindS (is_fileS (handoff_claim_path L handoff_id)) (\<lambda>claimed.
     if claimed then bindS (get_claim L handoff_id)
       (\<lambda>c. retS \<lparr>hst_status = ''claimed_incomplete'', hst_record = claim_to_dict c\<rparr>)
     else bindS (is_fileS (handoff_failure_path L handoff_id)) (\<lambda>failed.
     if failed then bindS (read_dict (handoff_failure_path L handoff_id))
       (\<lambda>d. retS \<lparr>hst_status = ''failed'', hst_record = d\<rparr>)
     else retS \<lparr>hst_status = ''pending'', hst_record = envelope_to_dict e\<rparr>)))))"

section \<open>The store only grows\<close>

lemma immutable_getters [immutable_intros]:
  "immutable (get_envelope L h)" "immutable (get_record parse c p)" "immutable (get_claim L h)"
  "immutable (get_materialization L h)" "immutable (get_receipt L h)" "immutable (stored_bytes p b)"
  "immutable (payload_data p)"
proof -
  show r: "immutable (get_record parse c p)" for parse c p unfolding get_record_def by (intro immutable_intros)
  show "immutable (get_envelope L h)" unfolding get_envelope_def by (intro immutable_intros)
  show "immutable (get_claim L h)" "immutable (get_materialization L h)" "immutable (get_receipt L h)"
    unfolding get_claim_def get_materialization_def get_receipt_def by (intro immutable_intros r)+
  show "immutable (stored_bytes p b)" unfolding stored_bytes_def by (intro immutable_intros)
  show "immutable (payload_data p)" unfolding payload_data_def by (intro immutable_intros)
qed

lemma immutable_submit_handoff [immutable_intros]: "immutable (submit_handoff L cfg now e snap)"
proof -
  have c: "immutable (classify_existing L now e snap p)" for p
    unfolding classify_existing_def quarantine_collision_def Let_def by (intro immutable_intros)
  show ?thesis unfolding submit_handoff_def submit_handoff_payload_def by (intro immutable_intros c)
qed

lemma immutable_handoff_ops [immutable_intros]:
  "immutable (handoff_claim L cfg now h a)" "immutable (materialize L now h rc)"
  "immutable (preflight_receipt L h rc)" "immutable (record_handoff_notification L now h na)"
  unfolding handoff_claim_def materialize_def preflight_receipt_def record_handoff_notification_def Let_def
  by (intro immutable_intros)+

lemma immutable_check_response [immutable_intros]: "immutable (check_response L h r)"
  unfolding check_response_def by (intro immutable_intros)

lemma immutable_commit_receipt [immutable_intros]: "immutable (commit_receipt L now h a)"
  unfolding commit_receipt_def split_beta by (intro immutable_intros)

end
