(* ===== verification/Handoff_Runs.thy ===== *)
theory Handoff_Runs
  imports Handoff_Store
begin

text \<open>
  What the handoff store guarantees: a claim is authorised and the only one, a payload arrives as it
  was sent, and a receipt rests on a materialization of the same receiver.
\<close>

section \<open>What an operation read and wrote\<close>

lemma get_envelope_Inr:
  assumes "get_envelope L h D = (D', Inr e)"
  shows "D' = D \<and> hv_handoff_id e = h \<and> utf8_valid h
    \<and> (\<exists>d. read_dict_file (d_files D) (envelope_path L h) = Inr d \<and> envelope_from_dict d = Inr e)"
  using assms unfolding get_envelope_def
  by (elim thenS_InrE bindS_InrE) (auto simp: encoded_def is_fileS_def read_dict_def elim!: bindS_InrE split: if_splits)

lemma get_record_Inr:
  assumes "get_record parse c p D = (D', Inr x)"
  shows "D' = D \<and> (\<exists>d. read_dict_file (d_files D) p = Inr d \<and> parse d = Inr x)"
  using assms unfolding get_record_def
  by (elim bindS_InrE) (auto simp: is_fileS_def read_dict_def elim!: bindS_InrE split: if_splits)

lemma record_is_file: "read_dict_file fs p = Inr d \<Longrightarrow> is_file fs p"
  by (auto simp: read_dict_file_def is_file_def split: option.splits)

lemma read_dict_grows: "grows D D' \<Longrightarrow> read_dict_file (d_files D) p = Inr d \<Longrightarrow> read_dict_file (d_files D') p = Inr d"
  by (auto simp: read_dict_file_def dest: grows_get split: option.splits)

lemma get_envelope_there:
  assumes "read_dict_file (d_files D) (envelope_path L h) = Inr d" and "envelope_from_dict d = Inr e"
    and "hv_handoff_id e = h" and "utf8_valid h"
  shows "get_envelope L h D = (D, Inr e)"
  using assms record_is_file[OF assms(1)]
  by (simp add: get_envelope_def encoded_def op_defs is_fileS_def read_dict_def)

lemma get_envelope_grows: "get_envelope L h D = (D, Inr e) \<Longrightarrow> grows D D' \<Longrightarrow> get_envelope L h D' = (D', Inr e)"
  using get_envelope_Inr[of L h D D e] by (auto intro: get_envelope_there read_dict_grows)

text \<open>\<open>getters\<close>: each returned record was parsed from its file.\<close>

lemma getters_Inr:
  "get_claim L h D = (D', Inr c) \<Longrightarrow> D' = D \<and> utf8_valid h
     \<and> (\<exists>d. read_dict_file (d_files D) (handoff_claim_path L h) = Inr d \<and> claim_from_dict d = Inr c)"
  "get_materialization L h D = (D', Inr m) \<Longrightarrow> D' = D \<and> utf8_valid h
     \<and> (\<exists>d. read_dict_file (d_files D) (materialization_path L h) = Inr d \<and> materialization_from_dict d = Inr m)"
  "get_receipt L h D = (D', Inr r) \<Longrightarrow> D' = D \<and> utf8_valid h
     \<and> (\<exists>d. read_dict_file (d_files D) (receipt_path L h) = Inr d \<and> receipt_from_dict d = Inr r)"
  unfolding get_claim_def get_materialization_def get_receipt_def
  by (elim thenS_InrE; auto simp: encoded_def dest!: get_record_Inr split: if_splits)+

lemma payload_data_Inr: "payload_data p D = (D', Inr b) \<Longrightarrow> D' = D \<and> map_of (d_files D) p = Some b"
  by (auto simp: payload_data_def read_bytes_def read_file_def split: option.splits if_splits elim!: catchS_InrE)

lemma handoff_claim_Inr:
  assumes "handoff_claim L cfg now h a D = (D', Inr r)"
  obtains e core where "get_envelope L h D = (D, Inr e)" and "authorize_claim e cfg a = Inr ()"
    and "envelope_core_digest L e = Inr core" and "claim_from_dict (claim_dict h core a now) = Inr r"
    and "\<not> path_exists (d_files D) (handoff_claim_path L h)"
    and "publish_json L (handoff_claim_path L h) (JObj (claim_to_dict r)) D = (D', Inr ())"
proof -
  from assms obtain e D1 where e: "get_envelope L h D = (D1, Inr e)"
    and k: "bindS (existsS (handoff_claim_path L h)) (\<lambda>there.
     if there then raiseS (Coded ''handoff_already_claimed'')
     else thenS (liftS (authorize_claim e cfg a))
       (bindS (liftS (envelope_core_digest L e)) (\<lambda>core.
        bindS (liftS (claim_from_dict (claim_dict h core a now))) (\<lambda>record.
        thenS (publish_json L (handoff_claim_path L h) (JObj (claim_to_dict record))) (retS record))))) D1 = (D', Inr r)"
    unfolding handoff_claim_def by (rule bindS_InrE)
  have D1: "D1 = D" using get_envelope_Inr[OF e] by simp
  from k obtain core where "authorize_claim e cfg a = Inr ()" "envelope_core_digest L e = Inr core"
    "claim_from_dict (claim_dict h core a now) = Inr r" "\<not> path_exists (d_files D) (handoff_claim_path L h)"
    "publish_json L (handoff_claim_path L h) (JObj (claim_to_dict r)) D = (D', Inr ())"
    by (auto simp: D1 existsS_def elim!: bindS_InrE thenS_InrE split: if_splits)
  with e D1 that show ?thesis by blast
qed

lemma materialize_Inr:
  assumes "materialize L now h rc D = (D', Inr m)"
  obtains e c data core where "get_envelope L h D = (D, Inr e)" and "get_claim L h D = (D, Inr c)"
    and "hk_receiver_instance_ref c = rc" and "map_of (d_files D) (handoff_payload_path e) = Some data"
    and "upper (sha256_hex L data) = hv_payload_sha256 e" and "int (length data) = hv_payload_bytes e"
    and "envelope_core_digest L e = Inr core"
    and "materialization_from_dict (materialization_dict h core (hv_payload_sha256 e) rc now) = Inr m"
    and "publish_json L (materialization_path L h) (JObj (materialization_to_dict m)) D = (D', Inr ())"
proof -
  from assms obtain e D1 c D2 where e: "get_envelope L h D = (D1, Inr e)" and c: "get_claim L h D1 = (D2, Inr c)"
    and k: "(if hk_receiver_instance_ref c \<noteq> rc then raiseS (Coded ''receiver_instance_mismatch'')
     else bindS (payload_data (handoff_payload_path e)) (\<lambda>data.
       let actual = upper (sha256_hex L data)
       in if actual \<noteq> hv_payload_sha256 e \<or> int (length data) \<noteq> hv_payload_bytes e
          then raiseS (Coded ''payload_integrity_failed'')
          else bindS (liftS (envelope_core_digest L e)) (\<lambda>core.
            bindS (liftS (materialization_from_dict (materialization_dict h core actual rc now))) (\<lambda>record.
            thenS (publish_json L (materialization_path L h) (JObj (materialization_to_dict record)))
              (retS record))))) D2 = (D', Inr m)"
    unfolding materialize_def by (elim bindS_InrE)
  have D: "D1 = D" "D2 = D" using get_envelope_Inr[OF e] getters_Inr(1)[OF c] by simp_all
  from k have rc: "hk_receiver_instance_ref c = rc" by (auto split: if_splits)
  with k obtain data D3 where d: "payload_data (handoff_payload_path e) D = (D3, Inr data)"
    and k': "(let actual = upper (sha256_hex L data)
       in if actual \<noteq> hv_payload_sha256 e \<or> int (length data) \<noteq> hv_payload_bytes e
          then raiseS (Coded ''payload_integrity_failed'')
          else bindS (liftS (envelope_core_digest L e)) (\<lambda>core.
            bindS (liftS (materialization_from_dict (materialization_dict h core actual rc now))) (\<lambda>record.
            thenS (publish_json L (materialization_path L h) (JObj (materialization_to_dict record)))
              (retS record)))) D3 = (D', Inr m)"
    by (auto simp: D elim: bindS_InrE)
  from k' have s: "upper (sha256_hex L data) = hv_payload_sha256 e" "int (length data) = hv_payload_bytes e"
    by (auto simp: Let_def split: if_splits)
  from k' obtain core where "envelope_core_digest L e = Inr core"
    "materialization_from_dict (materialization_dict h core (hv_payload_sha256 e) rc now) = Inr m"
    "publish_json L (materialization_path L h) (JObj (materialization_to_dict m)) D3 = (D', Inr ())"
    by (auto simp: s Let_def elim!: bindS_InrE thenS_InrE)
  with that e c D rc s payload_data_Inr[OF d] show ?thesis by blast
qed

lemma commit_receipt_Inr:
  assumes "commit_receipt L now h a D = (D', Inr r)"
  obtains e m core where "get_envelope L h D = (D, Inr e)" and "get_materialization L h D = (D, Inr m)"
    and "hm_receiver_instance_ref m = rc_receiver_instance_ref a"
    and "\<And>x. rc_response_handoff_id a = Some x \<Longrightarrow>
      \<exists>y. get_envelope L x D = (D, Inr y) \<and> hv_reply_to_handoff_id y = Some h"
    and "envelope_core_digest L e = Inr core"
    and "receipt_from_dict (receipt_dict h core (hv_payload_sha256 e) a now) = Inr r"
    and "publish_json L (receipt_path L h) (JObj (receipt_to_dict r)) D = (D', Inr ())"
proof -
  from assms obtain em D1 where p: "preflight_receipt L h (rc_receiver_instance_ref a) D = (D1, Inr em)"
    and k: "(case em of (e, m) \<Rightarrow> thenS (check_response L h (rc_response_handoff_id a))
     (bindS (liftS (envelope_core_digest L e)) (\<lambda>core.
      bindS (liftS (receipt_from_dict (receipt_dict h core (hv_payload_sha256 e) a now))) (\<lambda>record.
      thenS (publish_json L (receipt_path L h) (JObj (receipt_to_dict record))) (retS record))))) D1 = (D', Inr r)"
    unfolding commit_receipt_def by (rule bindS_InrE)
  obtain e m where em: "em = (e, m)" by (cases em)
  from p obtain s1 s2 where g: "get_envelope L h D = (s1, Inr e)" "get_materialization L h s1 = (s2, Inr m)" "D1 = s2"
    "hm_receiver_instance_ref m = rc_receiver_instance_ref a"
    unfolding preflight_receipt_def em by (auto simp: is_fileS_def elim!: bindS_InrE split: if_splits)
  have s: "s1 = D" "s2 = D" using get_envelope_Inr[OF g(1)] getters_Inr(2)[OF g(2)] by simp_all
  note pre = g(3)[unfolded s] g(1,2,4)[unfolded s]
  from k obtain D2 core u where c: "check_response L h (rc_response_handoff_id a) D = (D2, Inr u)"
    and "envelope_core_digest L e = Inr core"
    and "receipt_from_dict (receipt_dict h core (hv_payload_sha256 e) a now) = Inr r"
    and "publish_json L (receipt_path L h) (JObj (receipt_to_dict r)) D2 = (D', Inr ())"
    by (auto simp: em pre(1) elim!: bindS_InrE thenS_InrE)
  moreover have "D2 = D \<and> (\<forall>x. rc_response_handoff_id a = Some x \<longrightarrow>
      (\<exists>y. get_envelope L x D = (D, Inr y) \<and> hv_reply_to_handoff_id y = Some h))"
  proof (cases "rc_response_handoff_id a")
    case None
    with c show ?thesis by (simp add: check_response_def)
  next
    case (Some x)
    with c obtain y D3 where "get_envelope L x D = (D3, Inr y)" "hv_reply_to_handoff_id y = Some h" "D2 = D3"
      by (auto simp: check_response_def elim!: bindS_InrE catchS_InrE split: if_splits)
    with get_envelope_Inr[of L x D D3 y] Some show ?thesis by simp
  qed
  ultimately show ?thesis using that pre by blast
qed

section \<open>One writer for each record\<close>

lemma published_once:
  assumes "publish_json L p v D = (D', Inr u)" and "grows D' D2"
  shows "publish_json L p w D2 \<noteq> (D3, Inr u')"
proof
  assume "publish_json L p w D2 = (D3, Inr u')"
  then obtain b where b: "publish_bytes p b D2 = (D3, Inr ())"
    by (cases "canonical_bytes L w") (auto simp: publish_json_def op_defs)
  from assms(1) obtain c where "publish_bytes p c D = (D', Inr ())"
    by (cases "canonical_bytes L v") (auto simp: publish_json_def op_defs)
  from disk_files.one_winner[OF this] assms(2) b show False by (simp add: later_grows)
qed

lemma published_new:
  "publish_json L p v D = (D', Inr u) \<Longrightarrow> map_of (d_files D) p = None \<and> is_file (d_files D') p"
  by (auto simp: is_file_def elim!: publish_json_Inr)

lemma claim_of_dict: "claim_from_dict (claim_dict h core a now) = Inr r \<Longrightarrow>
    hk_handoff_id r = h \<and> hk_envelope_core_digest r = core \<and> hk_receiver_instance_ref r = cl_receiver_instance_ref a
    \<and> hk_receiver_binding_kind r = cl_binding_kind a"
  by (cases "cl_receiver_instance_ref a")
    (auto simp: claim_from_dict_def bindR_Inr_iff claim_of_def claim_dict_def dget_null_def the_str_def opt_of_def opt_json_def)

lemma materialization_of_dict: "materialization_from_dict (materialization_dict h core sha rc now) = Inr m \<Longrightarrow>
    hm_handoff_id m = h \<and> hm_envelope_core_digest m = core \<and> hm_payload_sha256 m = sha \<and> hm_receiver_instance_ref m = rc"
  by (cases rc) (auto simp: materialization_from_dict_def bindR_Inr_iff materialization_of_def materialization_dict_def
    dget_null_def the_str_def opt_of_def opt_json_def)

lemma receipt_of_dict: "receipt_from_dict (receipt_dict h core sha a now) = Inr r \<Longrightarrow>
    hr_handoff_id r = h \<and> hr_envelope_core_digest r = core \<and> hr_payload_sha256 r = sha
    \<and> hr_receiver_instance_ref r = rc_receiver_instance_ref a \<and> hr_decision r = rc_decision a
    \<and> hr_response_handoff_id r = rc_response_handoff_id a"
  by (cases "rc_receiver_instance_ref a"; cases "rc_response_handoff_id a")
    (auto simp: receipt_from_dict_def bindR_Inr_iff receipt_of_def receipt_dict_def dget_null_def the_str_def opt_of_def
      opt_json_def)

section \<open>Who may claim\<close>

text \<open>
  The grounds of a claim: the authority is allow-listed, an instance is named exactly when the
  binding is resolved, and the verifier of the host or of the entity confirmed the target where the
  envelope asks for one.
\<close>

definition claim_grounds :: "HandoffEnvelope \<Rightarrow> HandoffConfig \<Rightarrow> claim_args \<Rightarrow> bool" where
  "claim_grounds e cfg a \<longleftrightarrow> cl_claim_authority_ref a \<in> set (hc_allowed_authority_refs cfg)
     \<and> cl_binding_kind a \<in> set BINDING_KINDS
     \<and> (if cl_binding_kind a = ''unresolved'' then cl_receiver_instance_ref a = None else \<not> missing (cl_receiver_instance_ref a))
     \<and> (hv_target_kind e \<in> {''shared_topic'', ''task''}
        \<or> hv_target_kind e = ''exact_instance'' \<and> (\<exists>v i x. cl_verifier a = Some v \<and> cl_receiver_instance_ref a = Some i
            \<and> cl_evidence_ref a = Some x \<and> bv_exact_instance v (hv_target_ref e) i (cl_binding_kind a) x = Inr True)
        \<or> hv_target_kind e = ''arcp_entity'' \<and> (\<exists>v i x. cl_verifier a = Some v \<and> cl_receiver_entity_ref a = Some i
            \<and> cl_evidence_ref a = Some x \<and> bv_entity v (hv_target_ref e) i x = Inr True))"

lemma missing_simps [simp]: "missing None" "missing (Some s) \<longleftrightarrow> s = []"
  by (simp_all add: missing_def)

lemma authorize_exact_Inr:
  "authorize_exact e a = Inr u \<Longrightarrow> \<exists>v i x. cl_verifier a = Some v \<and> cl_receiver_instance_ref a = Some i
     \<and> cl_evidence_ref a = Some x \<and> bv_exact_instance v (hv_target_ref e) i (cl_binding_kind a) x = Inr True"
  by (auto simp: authorize_exact_def bindR_Inr_iff missing_def split: option.splits if_splits)

lemma authorize_entity_Inr:
  "authorize_entity e a = Inr u \<Longrightarrow> \<exists>v i x. cl_verifier a = Some v \<and> cl_receiver_entity_ref a = Some i
     \<and> cl_evidence_ref a = Some x \<and> bv_entity v (hv_target_ref e) i x = Inr True"
  by (auto simp: authorize_entity_def bindR_Inr_iff missing_def split: option.splits if_splits)

lemma authorize_claim_Inr:
  assumes "authorize_claim e cfg a = Inr u"
  shows "claim_grounds e cfg a"
proof -
  note all = assms[unfolded authorize_claim_def bindR_unit wcheck_Inr]
  have t: "hv_target_kind e \<in> {''shared_topic'', ''task''}
      \<or> hv_target_kind e = ''exact_instance'' \<and> authorize_exact e a = Inr u
      \<or> hv_target_kind e = ''arcp_entity'' \<and> authorize_entity e a = Inr u"
    using all by (auto split: if_splits)
  have b: "cl_claim_authority_ref a \<in> set (hc_allowed_authority_refs cfg) \<and> cl_binding_kind a \<in> set BINDING_KINDS
      \<and> (if cl_binding_kind a = ''unresolved'' then cl_receiver_instance_ref a = None else \<not> missing (cl_receiver_instance_ref a))"
    using all by (simp split: if_split) blast
  show ?thesis
    unfolding claim_grounds_def using t b authorize_exact_Inr authorize_entity_Inr by blast
qed

text \<open>
  C3: a handoff is claimed once, on the grounds above. When \<open>claim\<close> returns, the authority of the claim is allow-listed
  and it names a receiver instance exactly when its binding is resolved; a handoff to an exact instance or to an
  ARCP entity was confirmed by its verifier for this target and claim, while one to a shared topic or a task asks
  no verifier and goes to the first claim. The record names the handoff, its core digest and the receiver, and no
  claim was there before; on every later disk, whatever other processes wrote, no claim of this handoff returns
  again.
\<close>

theorem handoff_claimed_once:
  assumes "handoff_claim L cfg now h a D = (D', Inr r)" and "grows D' D2"
  shows "(\<exists>e. get_envelope L h D = (D, Inr e) \<and> claim_grounds e cfg a
      \<and> envelope_core_digest L e = Inr (hk_envelope_core_digest r))
    \<and> hk_handoff_id r = h \<and> hk_receiver_instance_ref r = cl_receiver_instance_ref a
    \<and> map_of (d_files D) (handoff_claim_path L h) = None \<and> is_file (d_files D2) (handoff_claim_path L h)
    \<and> (\<forall>cfg' now' a' D3 r'. handoff_claim L cfg' now' h a' D2 \<noteq> (D3, Inr r'))"
proof -
  from assms(1) obtain e core where e: "get_envelope L h D = (D, Inr e)" "authorize_claim e cfg a = Inr ()"
    "envelope_core_digest L e = Inr core" and r: "claim_from_dict (claim_dict h core a now) = Inr r"
    and p: "publish_json L (handoff_claim_path L h) (JObj (claim_to_dict r)) D = (D', Inr ())"
    by (rule handoff_claim_Inr)
  have "is_file (d_files D2) (handoff_claim_path L h)"
    using published_new[OF p] grows_get[OF assms(2)] by (auto simp: is_file_def)
  moreover have "handoff_claim L cfg' now' h a' D2 \<noteq> (D3, Inr r')" for cfg' now' a' D3 r'
    using published_once[OF p assms(2)] by (auto elim: handoff_claim_Inr)
  ultimately show ?thesis
    using e r claim_of_dict[OF r] authorize_claim_Inr[OF e(2)] published_new[OF p] by auto
qed

section \<open>Receipts\<close>

text \<open>
  C19: a receipt rests on a materialization. When \<open>commit_receipt\<close> returns, the payload was
  materialized before by the same receiver, the receipt names the digests of the stored envelope,
  a response handoff is stored and answers this handoff, and it is the first receipt; none follows
  on any later disk.
\<close>

theorem receipt_backed:
  assumes "commit_receipt L now h a D = (D', Inr r)" and "grows D' D2"
  shows "(\<exists>e m. get_envelope L h D = (D, Inr e) \<and> get_materialization L h D = (D, Inr m)
      \<and> hm_receiver_instance_ref m = hr_receiver_instance_ref r
      \<and> envelope_core_digest L e = Inr (hr_envelope_core_digest r) \<and> hr_payload_sha256 r = hv_payload_sha256 e)
    \<and> (\<forall>x. hr_response_handoff_id r = Some x \<longrightarrow>
        (\<exists>y. get_envelope L x D = (D, Inr y) \<and> hv_reply_to_handoff_id y = Some h))
    \<and> map_of (d_files D) (receipt_path L h) = None \<and> is_file (d_files D2) (receipt_path L h)
    \<and> (\<forall>now' a' D3 r'. commit_receipt L now' h a' D2 \<noteq> (D3, Inr r'))"
proof -
  from assms(1) obtain e m core where e: "get_envelope L h D = (D, Inr e)" "get_materialization L h D = (D, Inr m)"
    "hm_receiver_instance_ref m = rc_receiver_instance_ref a"
    and y: "\<And>x. rc_response_handoff_id a = Some x \<Longrightarrow> \<exists>y. get_envelope L x D = (D, Inr y) \<and> hv_reply_to_handoff_id y = Some h"
    and d: "envelope_core_digest L e = Inr core" and r: "receipt_from_dict (receipt_dict h core (hv_payload_sha256 e) a now) = Inr r"
    and p: "publish_json L (receipt_path L h) (JObj (receipt_to_dict r)) D = (D', Inr ())"
    by (rule commit_receipt_Inr) blast
  have "is_file (d_files D2) (receipt_path L h)"
    using published_new[OF p] grows_get[OF assms(2)] by (auto simp: is_file_def)
  moreover have "commit_receipt L now' h a' D2 \<noteq> (D3, Inr r')" for now' a' D3 r'
    using published_once[OF p assms(2)] by (auto elim: commit_receipt_Inr)
  ultimately show ?thesis
    using e d y receipt_of_dict[OF r] published_new[OF p] by auto
qed

section \<open>The payload arrives as it was sent\<close>

lemma verify_submission_Inr:
  assumes "verify_submission L cfg e snap = Inr p"
  shows "p = handoff_payload_path e \<and> hv_payload_sha256 e = ps_sha256 snap \<and> hv_payload_bytes e = ps_byte_count snap
    \<and> hv_payload_ref e = ''payloads/'' @ sha256_hex L (hv_handoff_id e) @ ps_extension snap \<and> utf8_valid (hv_handoff_id e)"
  using assms unfolding verify_submission_def by (auto simp: bindR_Inr_iff split: if_splits)

lemma submit_handoff_payload_Inr:
  "submit_handoff_payload p b D = (D', Inr u) \<Longrightarrow> map_of (d_files D') p = Some b"
  unfolding submit_handoff_payload_def
  by (auto simp: existsS_def stored_bytes_def read_bytes_def read_file_def elim!: bindS_InrE catchS_InrE
    split: if_splits option.splits) (blast dest: publish_bytes_Inr)

lemma classify_existing_kind: "classify_existing L now e snap p D = (D', Inr s) \<Longrightarrow> hsub_kind s = ''duplicate''"
  unfolding classify_existing_def Let_def
  by (auto elim!: bindS_InrE thenS_InrE split: if_splits)

lemma handoff_submit_created:
  assumes "submit_handoff L cfg now e snap D = (D', Inr s)" and "hsub_kind s = ''created''"
  shows "\<exists>D1 v. verify_submission L cfg e snap = Inr (handoff_payload_path e)
    \<and> map_of (d_files D1) (handoff_payload_path e) = Some (ps_data snap)
    \<and> publish_json L (envelope_path L (hv_handoff_id e)) (JObj (envelope_to_dict e)) D1 = (D', Inr v)
    \<and> hsub_payload_path s = handoff_payload_path e"
proof -
  from assms(1) obtain p D0 where v': "liftS (verify_submission L cfg e snap) D = (D0, Inr p)"
    and k: "bindS (existsS (envelope_path L (hv_handoff_id e))) (\<lambda>there.
     if there then classify_existing L now e snap p
     else thenS (submit_handoff_payload p (ps_data snap))
       (catchS
         (thenS (publish_json L (envelope_path L (hv_handoff_id e)) (JObj (envelope_to_dict e)))
           (retS \<lparr>hsub_kind = ''created'', hsub_handoff_id = hv_handoff_id e, hsub_delivery_id = hv_delivery_id e,
              hsub_envelope_path = envelope_path L (hv_handoff_id e), hsub_payload_path = p, hsub_duplicate_path = None\<rparr>))
         (\<lambda>err. if err \<noteq> Coded ''immutable_file_exists'' then raiseS err
            else classify_existing L now e snap p))) D0 = (D', Inr s)"
    unfolding submit_handoff_def by (rule bindS_InrE)
  from v' have v: "verify_submission L cfg e snap = Inr p" by simp
  from k obtain there D1 where k1: "(if there then classify_existing L now e snap p
     else thenS (submit_handoff_payload p (ps_data snap))
       (catchS
         (thenS (publish_json L (envelope_path L (hv_handoff_id e)) (JObj (envelope_to_dict e)))
           (retS \<lparr>hsub_kind = ''created'', hsub_handoff_id = hv_handoff_id e, hsub_delivery_id = hv_delivery_id e,
              hsub_envelope_path = envelope_path L (hv_handoff_id e), hsub_payload_path = p, hsub_duplicate_path = None\<rparr>))
         (\<lambda>err. if err \<noteq> Coded ''immutable_file_exists'' then raiseS err
            else classify_existing L now e snap p))) D1 = (D', Inr s)"
    by (rule bindS_InrE)
  have "\<not> there" using k1 assms(2) classify_existing_kind[of L now e snap p D1 D' s] by (cases there) auto
  with k1 obtain u D2 where pl: "submit_handoff_payload p (ps_data snap) D1 = (D2, Inr u)"
    and c: "catchS
         (thenS (publish_json L (envelope_path L (hv_handoff_id e)) (JObj (envelope_to_dict e)))
           (retS \<lparr>hsub_kind = ''created'', hsub_handoff_id = hv_handoff_id e, hsub_delivery_id = hv_delivery_id e,
              hsub_envelope_path = envelope_path L (hv_handoff_id e), hsub_payload_path = p, hsub_duplicate_path = None\<rparr>))
         (\<lambda>err. if err \<noteq> Coded ''immutable_file_exists'' then raiseS err
            else classify_existing L now e snap p) D2 = (D', Inr s)"
    by (auto elim!: thenS_InrE)
  from c have "\<exists>v. publish_json L (envelope_path L (hv_handoff_id e)) (JObj (envelope_to_dict e)) D2 = (D', Inr v)
      \<and> hsub_payload_path s = p"
  proof (cases rule: catchS_InrE)
    case returned
    then show ?thesis by (auto elim!: thenS_InrE)
  next
    case (raised err s')
    then show ?thesis using assms(2) by (auto dest: classify_existing_kind split: if_splits)
  qed
  with v submit_handoff_payload_Inr[OF pl] verify_submission_Inr[OF v] show ?thesis by auto
qed

lemma envelope_read_back:
  assumes "publish_json L (envelope_path L (hv_handoff_id e)) (JObj (envelope_to_dict e)) D = (D', Inr v)"
    and "envelope_from_dict d = Inr e" and "fixed (nfc L) (JObj (envelope_to_dict e))" and "nfc_ok L"
    and "utf8_valid (hv_handoff_id e)"
  shows "get_envelope L (hv_handoff_id e) D' = (D', Inr e)"
proof -
  from assms(1) obtain b where b: "canonical_bytes L (JObj (envelope_to_dict e)) = Inr b"
    "map_of (d_files D') (envelope_path L (hv_handoff_id e)) = Some b" by (rule publish_json_Inr)
  show ?thesis
    by (rule get_envelope_there[OF published_dict[OF b assms(4,3)] envelope_again(2)[OF assms(2)] refl assms(5)])
qed

text \<open>
  C18: a handoff arrives intact. The sender submits an accepted envelope in normal form and the answer
  is \<open>created\<close>; on any later disk a receiver materializes the handoff. Then the bytes the receiver
  read are the snapshot's, the record carries their digest and the core digest of the sender's
  envelope, and the receiver is the one that holds the claim.
\<close>

theorem handoff_delivered_intact:
  assumes "submit_handoff L cfg now e snap D = (D1, Inr s)" and "hsub_kind s = ''created''"
    and "envelope_from_dict d = Inr e" and "fixed (nfc L) (JObj (envelope_to_dict e))" and "nfc_ok L"
    and "grows D1 D2" and "materialize L now' (hv_handoff_id e) receiver D2 = (D3, Inr m)"
  shows "map_of (d_files D3) (hsub_payload_path s) = Some (ps_data snap)
    \<and> upper (sha256_hex L (ps_data snap)) = hm_payload_sha256 m \<and> hm_payload_sha256 m = ps_sha256 snap
    \<and> int (length (ps_data snap)) = ps_byte_count snap
    \<and> envelope_core_digest L e = Inr (hm_envelope_core_digest m) \<and> hm_receiver_instance_ref m = receiver
    \<and> (\<exists>c. get_claim L (hv_handoff_id e) D2 = (D2, Inr c) \<and> hk_receiver_instance_ref c = receiver)"
proof -
  from handoff_submit_created[OF assms(1,2)] obtain D0 v where vs: "verify_submission L cfg e snap = Inr (handoff_payload_path e)"
    and p0: "map_of (d_files D0) (handoff_payload_path e) = Some (ps_data snap)"
    and p: "publish_json L (envelope_path L (hv_handoff_id e)) (JObj (envelope_to_dict e)) D0 = (D1, Inr v)"
    and s: "hsub_payload_path s = handoff_payload_path e" by blast
  note v = verify_submission_Inr[OF vs]
  have g: "grows D0 D1" using immutable_publish(2) p by (rule immutable_grows)
  have e: "get_envelope L (hv_handoff_id e) D2 = (D2, Inr e)"
    by (rule get_envelope_grows[OF envelope_read_back[OF p assms(3-5)] assms(6)]) (simp add: v)
  have pl: "map_of (d_files D2) (handoff_payload_path e) = Some (ps_data snap)"
    by (rule grows_get[OF assms(6) grows_get[OF g p0]])
  from assms(7) obtain e' c data core where m: "get_envelope L (hv_handoff_id e) D2 = (D2, Inr e')"
    "get_claim L (hv_handoff_id e) D2 = (D2, Inr c)" "hk_receiver_instance_ref c = receiver"
    "map_of (d_files D2) (handoff_payload_path e') = Some data" "upper (sha256_hex L data) = hv_payload_sha256 e'"
    "int (length data) = hv_payload_bytes e'" "envelope_core_digest L e' = Inr core"
    and r: "materialization_from_dict (materialization_dict (hv_handoff_id e) core (hv_payload_sha256 e') receiver now') = Inr m"
    by (rule materialize_Inr)
  have e': "e' = e" using m(1) unfolding e by (simp only: prod.inject sum.inject)
  have data: "data = ps_data snap" using m(4) unfolding e' pl by (simp only: option.inject)
  have "grows D2 D3" using immutable_handoff_ops(2) assms(7) by (rule immutable_grows)
  then have "map_of (d_files D3) (hsub_payload_path s) = Some (ps_data snap)" unfolding s using pl by (rule grows_get)
  moreover have "\<exists>c. get_claim L (hv_handoff_id e) D2 = (D2, Inr c) \<and> hk_receiver_instance_ref c = receiver"
    using m(2,3) by blast
  moreover have "upper (sha256_hex L (ps_data snap)) = ps_sha256 snap" "int (length (ps_data snap)) = ps_byte_count snap"
    using m(5,6) v unfolding e' data by simp_all
  moreover have "envelope_core_digest L e = Inr core" using m(7) unfolding e' .
  moreover have "hm_payload_sha256 m = ps_sha256 snap" "hm_envelope_core_digest m = core" "hm_receiver_instance_ref m = receiver"
    using materialization_of_dict[OF r] v unfolding e' by simp_all
  ultimately show ?thesis by simp
qed

end
