(* ===== verification/Handoff_Life.thy ===== *)
theory Handoff_Life
  imports Handoff_Runs
begin

text \<open>
  The life of a handoff: the runs of any number of senders and receivers on one store, as a step
  relation whose steps are whole operations, and the order in which the records of a handoff appear.
\<close>

section \<open>Reading changes nothing, and a failed write either\<close>

definition pure_op :: "(disk, 'a) op \<Rightarrow> bool" where
  "pure_op k \<longleftrightarrow> (\<forall>D. fst (k D) = D)"

text \<open>Without interference, an \<open>atomic\<close> operation that raises leaves the files as they were.\<close>

definition atomic :: "(disk, 'a) op \<Rightarrow> bool" where
  "atomic k \<longleftrightarrow> (\<forall>D D' e. d_others D = [] \<longrightarrow> k D = (D', Inl e) \<longrightarrow> d_files D' = d_files D \<and> d_others D' = [])"

named_theorems pure_intros "operations that only read"

lemma pure_bindS [pure_intros]: "pure_op m \<Longrightarrow> (\<And>x. pure_op (f x)) \<Longrightarrow> pure_op (bindS m f)"
  unfolding pure_op_def bindS_def by (auto split: prod.splits sum.splits) (metis fst_conv)+

lemma pure_thenS [pure_intros]: "pure_op m \<Longrightarrow> pure_op k \<Longrightarrow> pure_op (thenS m k)"
  by (simp add: thenS_def pure_bindS)

lemma pure_catchS [pure_intros]: "pure_op m \<Longrightarrow> (\<And>e. pure_op (h e)) \<Longrightarrow> pure_op (catchS m h)"
  unfolding pure_op_def catchS_def by (auto split: prod.splits sum.splits) (metis fst_conv)+

lemma pure_if [pure_intros]: "pure_op m \<Longrightarrow> pure_op k \<Longrightarrow> pure_op (if c then m else k)"
  by simp

lemma pure_basic [pure_intros]:
  "pure_op (retS x)" "pure_op (raiseS e)" "pure_op (getS g)" "pure_op (liftS r)" "pure_op (encoded s)"
  "pure_op (existsS p)" "pure_op (is_fileS p)" "pure_op (read_bytes p)" "pure_op (read_dict p)"
  by (simp_all add: pure_op_def op_defs encoded_def existsS_def is_fileS_def read_bytes_def read_dict_def)

lemma pure_getters [pure_intros]:
  "pure_op (get_envelope L h)" "pure_op (get_claim L h)" "pure_op (get_materialization L h)"
  "pure_op (stored_bytes p b)" "pure_op (payload_data p)" "pure_op (preflight_receipt L h rc)" "pure_op (check_response L h r)"
proof -
  have r: "pure_op (get_record parse c p)" for parse :: "dict \<Rightarrow> 'b res" and c p
    unfolding get_record_def by (intro pure_intros)
  show e: "pure_op (get_envelope L h)" for h unfolding get_envelope_def by (intro pure_intros)
  show "pure_op (get_claim L h)" unfolding get_claim_def get_record_def by (intro pure_intros)
  show m: "pure_op (get_materialization L h)" unfolding get_materialization_def get_record_def by (intro pure_intros)
  show "pure_op (stored_bytes p b)" unfolding stored_bytes_def by (intro pure_intros)
  show "pure_op (payload_data p)" unfolding payload_data_def by (intro pure_intros)
  show "pure_op (preflight_receipt L h rc)" unfolding preflight_receipt_def by (intro pure_intros e m)
  show "pure_op (check_response L h r)"
    unfolding check_response_def by (cases r) (simp_all, intro pure_intros e, intro pure_intros e)
qed

lemma atomic_pure: "pure_op k \<Longrightarrow> atomic k"
  unfolding pure_op_def atomic_def by (metis fst_conv)

lemma atomic_bindS: "pure_op m \<Longrightarrow> (\<And>x. atomic (f x)) \<Longrightarrow> atomic (bindS m f)"
  unfolding pure_op_def atomic_def bindS_def by (auto split: prod.splits sum.splits) (metis fst_conv)+

lemma atomic_if: "atomic m \<Longrightarrow> atomic k \<Longrightarrow> atomic (if c then m else k)"
  by simp

lemma publish_free:
  "d_others D = [] \<Longrightarrow> publish_json L p v D = (D', Inr u) \<Longrightarrow> \<exists>b. d_files D' = d_files D @ [(p, b)] \<and> d_others D' = []"
  by (cases "canonical_bytes L v")
    (auto simp: publish_json_def op_defs publish_bytes_def interfere_def link_new_eq Let_def split: if_splits)

lemma atomic_publish: "atomic (thenS (publish_json L p v) (retS x))"
  unfolding atomic_def publish_json_def publish_bytes_def interfere_def link_new_eq
  by (auto simp: op_defs Let_def split: sum.splits if_splits)

lemmas atomic_intros = atomic_bindS atomic_if atomic_publish pure_intros

lemma atomic_handoff_claim: "atomic (handoff_claim L cfg now h a)"
  unfolding handoff_claim_def thenS_def[of "liftS _"] by (intro atomic_intros atomic_pure)

lemma atomic_materialize: "atomic (materialize L now h rc)"
  unfolding materialize_def Let_def by (intro atomic_intros atomic_pure)

lemma atomic_commit_receipt: "atomic (commit_receipt L now h a)"
  unfolding commit_receipt_def thenS_def[of "check_response _ _ _"] split_beta by (intro atomic_intros atomic_pure)

section \<open>Where an operation writes\<close>

text \<open>Without interference, \<open>within dirs\<close> adds files only below the directories \<open>dirs\<close>.\<close>

definition elsewhere :: "string set \<Rightarrow> disk \<Rightarrow> disk \<Rightarrow> bool" where
  "elsewhere dirs D D' \<longleftrightarrow> d_others D' = [] \<and> (\<forall>p. hd p \<notin> dirs \<longrightarrow> map_of (d_files D') p = map_of (d_files D) p)"

definition within :: "string set \<Rightarrow> (disk, 'a) op \<Rightarrow> bool" where
  "within dirs k \<longleftrightarrow> (\<forall>D. d_others D = [] \<longrightarrow> elsewhere dirs D (fst (k D)))"

named_theorems within_intros "where an operation writes"

lemma elsewhere_trans: "elsewhere dirs D D' \<Longrightarrow> elsewhere dirs D' D'' \<Longrightarrow> elsewhere dirs D D''"
  by (simp add: elsewhere_def)

lemma elsewhere_others: "elsewhere dirs D D' \<Longrightarrow> d_others D' = []"
  by (simp add: elsewhere_def)

lemma within_bindS [within_intros]: "within dirs m \<Longrightarrow> (\<And>x. within dirs (f x)) \<Longrightarrow> within dirs (bindS m f)"
  unfolding within_def bindS_def
  by (auto split: prod.splits sum.splits) (metis elsewhere_others elsewhere_trans fst_conv)+

lemma within_catchS [within_intros]: "within dirs m \<Longrightarrow> (\<And>e. within dirs (h e)) \<Longrightarrow> within dirs (catchS m h)"
  unfolding within_def catchS_def
  by (auto split: prod.splits sum.splits) (metis elsewhere_others elsewhere_trans fst_conv)+

lemma within_thenS [within_intros]: "within dirs m \<Longrightarrow> within dirs k \<Longrightarrow> within dirs (thenS m k)"
  by (simp add: thenS_def within_bindS)

lemma within_if [within_intros]: "within dirs m \<Longrightarrow> within dirs k \<Longrightarrow> within dirs (if c then m else k)"
  by simp

lemma within_pure: "pure_op k \<Longrightarrow> within dirs k"
  by (simp add: within_def pure_op_def elsewhere_def)

lemma within_publish [within_intros]:
  "hd p \<in> dirs \<Longrightarrow> within dirs (publish_bytes p b)" "hd p \<in> dirs \<Longrightarrow> within dirs (publish_json L p v)"
proof -
  have w: "within dirs (publish_bytes p b)" if "hd p \<in> dirs" for b
    unfolding within_def elsewhere_def publish_bytes_def interfere_def link_new_eq
    using that by (auto simp: Let_def map_add_def split: option.split)
  show "hd p \<in> dirs \<Longrightarrow> within dirs (publish_bytes p b)" by (rule w)
  show "hd p \<in> dirs \<Longrightarrow> within dirs (publish_json L p v)"
    unfolding publish_json_def by (intro within_intros w within_pure pure_intros)
qed

lemma payload_dir:
  assumes "verify_submission L cfg e snap = Inr p"
  shows "hd p = ''payloads''"
proof -
  have "''payloads/'' @ r = ''payloads'' @ CHR ''/'' # r" for r by simp
  then have "path_parts (''payloads/'' @ r) = ''payloads'' # filter (\<lambda>p. p \<noteq> [] \<and> p \<noteq> ''.'') (split_on CHR ''/'' r)" for r
    unfolding path_parts_def by (simp only: split_on_append[of "CHR ''/''" "''payloads''"]) simp
  with verify_submission_Inr[OF assms] show ?thesis by (simp add: handoff_payload_path_def)
qed

abbreviation submission_dirs :: "string set" where
  "submission_dirs \<equiv> {''payloads'', ''envelopes'', ''duplicates'', ''quarantine''}"

lemma within_submit: "within submission_dirs (submit_handoff L cfg now e snap)"
proof -
  let ?dirs = submission_dirs
  have d: "hd (envelope_path L h) \<in> ?dirs" "hd (handoff_duplicate_path L h x) \<in> ?dirs" "hd (handoff_quarantine_path L e x) \<in> ?dirs" for h x
    by (simp_all add: envelope_path_def handoff_path_def handoff_duplicate_path_def handoff_quarantine_path_def)
  have c: "within ?dirs (classify_existing L now e snap p)" for p
    unfolding classify_existing_def quarantine_collision_def Let_def
    by (intro within_intros d within_pure pure_intros)
  have k: "within ?dirs (bindS (existsS (envelope_path L (hv_handoff_id e))) (\<lambda>there.
     if there then classify_existing L now e snap p
     else thenS (submit_handoff_payload p (ps_data snap))
       (catchS
         (thenS (publish_json L (envelope_path L (hv_handoff_id e)) (JObj (envelope_to_dict e)))
           (retS \<lparr>hsub_kind = ''created'', hsub_handoff_id = hv_handoff_id e, hsub_delivery_id = hv_delivery_id e,
              hsub_envelope_path = envelope_path L (hv_handoff_id e), hsub_payload_path = p, hsub_duplicate_path = None\<rparr>))
         (\<lambda>err. if err \<noteq> Coded ''immutable_file_exists'' then raiseS err
            else classify_existing L now e snap p))))" if "hd p = ''payloads''" for p
  proof -
    have "hd p \<in> ?dirs" using that by simp
    then show ?thesis
      unfolding submit_handoff_payload_def by (intro within_intros d c within_pure pure_intros)
  qed
  show ?thesis
  proof (cases "verify_submission L cfg e snap")
    case (Inl err)
    then show ?thesis by (simp add: within_def submit_handoff_def op_defs elsewhere_def)
  next
    case (Inr p)
    with k[OF payload_dir[OF Inr]] show ?thesis
      unfolding submit_handoff_def by (simp add: bindS_def liftS_def)
  qed
qed

lemma within_notification: "within {''notifications''} (record_handoff_notification L now h a)"
proof -
  have d: "hd (handoff_notification_path L h x) \<in> {''notifications''}" for x by (simp add: handoff_notification_path_def)
  show ?thesis
    unfolding record_handoff_notification_def Let_def by (intro within_intros d within_pure pure_intros)
qed

section \<open>Runs\<close>

text \<open>
  One step: an operation of some party, with its own configuration and arguments, returning or
  raising. No file is written beside these operations.
\<close>

inductive handoff_step :: "lib \<Rightarrow> disk \<Rightarrow> disk \<Rightarrow> bool" for L :: lib where
  submitted: "handoff_step L D (fst (submit_handoff L cfg now e snap D))"
| claimed: "handoff_step L D (fst (handoff_claim L cfg now h a D))"
| materialized: "handoff_step L D (fst (materialize L now h rc D))"
| acknowledged: "handoff_step L D (fst (commit_receipt L now h ra D))"
| notified: "handoff_step L D (fst (record_handoff_notification L now h na D))"

inductive handoff_run :: "lib \<Rightarrow> disk \<Rightarrow> disk \<Rightarrow> bool" for L :: lib where
  start: "handoff_run L D D"
| step: "handoff_run L D D' \<Longrightarrow> handoff_step L D' D'' \<Longrightarrow> handoff_run L D D''"

text \<open>A receipt has its materialization, a materialization its claim, a claim its envelope.\<close>

definition lifecycle :: "lib \<Rightarrow> files \<Rightarrow> bool" where
  "lifecycle L fs \<longleftrightarrow> (\<forall>h. (is_file fs (receipt_path L h) \<longrightarrow> is_file fs (materialization_path L h))
     \<and> (is_file fs (materialization_path L h) \<longrightarrow> is_file fs (handoff_claim_path L h))
     \<and> (is_file fs (handoff_claim_path L h) \<longrightarrow> is_file fs (envelope_path L h)))"

lemmas life_paths = receipt_path_def materialization_path_def handoff_claim_path_def envelope_path_def handoff_path_def

lemma is_file_snoc: "is_file (fs @ [(p, b)]) q \<longleftrightarrow> is_file fs q \<or> q = p"
  by (auto simp: is_file_def map_add_def split: option.splits)

text \<open>The file that may come next in the life of a handoff.\<close>

definition next_record :: "lib \<Rightarrow> files \<Rightarrow> path \<Rightarrow> bool" where
  "next_record L fs p \<longleftrightarrow> (\<exists>h. p = handoff_claim_path L h \<and> is_file fs (envelope_path L h)
      \<or> p = materialization_path L h \<and> is_file fs (handoff_claim_path L h)
      \<or> p = receipt_path L h \<and> is_file fs (materialization_path L h))"

lemma next_recordI:
  "is_file fs (envelope_path L h) \<Longrightarrow> next_record L fs (handoff_claim_path L h)"
  "is_file fs (handoff_claim_path L h) \<Longrightarrow> next_record L fs (materialization_path L h)"
  "is_file fs (materialization_path L h) \<Longrightarrow> next_record L fs (receipt_path L h)"
  unfolding next_record_def by blast+

lemma life_add:
  assumes "lifecycle L fs" and "next_record L fs p"
  shows "lifecycle L (fs @ [(p, b)])"
  using assms unfolding lifecycle_def next_record_def by (elim exE disjE) (auto simp: is_file_snoc life_paths)

lemma life_elsewhere:
  assumes "lifecycle L (d_files D)" and "elsewhere dirs D D'" and "grows D D'"
    and "{''receipts'', ''materializations'', ''claims''} \<inter> dirs = {}"
  shows "lifecycle L (d_files D')"
proof -
  have same: "map_of (d_files D') p = map_of (d_files D) p" if "hd p \<in> {''receipts'', ''materializations'', ''claims''}" for p
    using assms(2,4) that by (auto simp: elsewhere_def)
  have "is_file (d_files D') (receipt_path L h) = is_file (d_files D) (receipt_path L h)"
    "is_file (d_files D') (materialization_path L h) = is_file (d_files D) (materialization_path L h)"
    "is_file (d_files D') (handoff_claim_path L h) = is_file (d_files D) (handoff_claim_path L h)" for h
    by (simp_all add: is_file_def same life_paths)
  moreover have "is_file (d_files D) p \<Longrightarrow> is_file (d_files D') p" for p
    using grows_get[OF assms(3)] by (auto simp: is_file_def)
  ultimately show ?thesis using assms(1) unfolding lifecycle_def by blast
qed

text \<open>An atomic operation that, when it returns, has published the next record of a handoff.\<close>

lemma life_atomic:
  assumes "atomic k" and "d_others D = []" and "lifecycle L (d_files D)"
    and "\<And>D' r. k D = (D', Inr r) \<Longrightarrow> \<exists>p v u. publish_json L p v D = (D', Inr u) \<and> next_record L (d_files D) p"
  shows "lifecycle L (d_files (fst (k D))) \<and> d_others (fst (k D)) = []"
proof (cases "k D")
  case (Pair D' x)
  show ?thesis
  proof (cases x)
    case (Inl e)
    have "k D = (D', Inl e)" using Pair Inl by simp
    with assms(1,2) have "d_files D' = d_files D" "d_others D' = []" unfolding atomic_def by blast+
    with Pair assms(3) show ?thesis by simp
  next
    case (Inr r)
    from assms(4)[OF Pair[unfolded Inr]] obtain p v u where p: "publish_json L p v D = (D', Inr u)" and h: "next_record L (d_files D) p"
      by blast
    from publish_free[OF assms(2) p] obtain b where "d_files D' = d_files D @ [(p, b)]" "d_others D' = []" by blast
    with life_add[OF assms(3) h] Pair show ?thesis by simp
  qed
qed

lemma life_step:
  assumes "handoff_step L D D'" and "d_others D = []" and "lifecycle L (d_files D)"
  shows "lifecycle L (d_files D') \<and> d_others D' = [] \<and> grows D D'"
  using assms(1)
proof (cases rule: handoff_step.cases)
  case (submitted cfg now e snap)
  have g: "grows D D'" unfolding submitted using immutable_submit_handoff unfolding immutable_def by blast
  have w: "elsewhere submission_dirs D D'" unfolding submitted using within_submit assms(2) by (simp only: within_def)
  show ?thesis using life_elsewhere[OF assms(3) w g] elsewhere_others[OF w] g by simp
next
  case (notified now h na)
  have g: "grows D D'" unfolding notified using immutable_handoff_ops(4) unfolding immutable_def by blast
  have w: "elsewhere {''notifications''} D D'" unfolding notified using within_notification assms(2) by (simp only: within_def)
  show ?thesis using life_elsewhere[OF assms(3) w g] elsewhere_others[OF w] g by simp
next
  case (claimed cfg now h a)
  have g: "grows D D'" unfolding claimed using immutable_handoff_ops(1) unfolding immutable_def by blast
  have "lifecycle L (d_files (fst (handoff_claim L cfg now h a D))) \<and> d_others (fst (handoff_claim L cfg now h a D)) = []"
  proof (rule life_atomic[OF atomic_handoff_claim assms(2,3)])
    fix D'' r assume "handoff_claim L cfg now h a D = (D'', Inr r)"
    then obtain e where "get_envelope L h D = (D, Inr e)"
      "publish_json L (handoff_claim_path L h) (JObj (claim_to_dict r)) D = (D'', Inr ())"
      by (rule handoff_claim_Inr)
    note g' = this(1) and p = this(2)
    have "next_record L (d_files D) (handoff_claim_path L h)"
      using get_envelope_Inr[OF g'] by (auto intro: next_recordI(1) record_is_file)
    with p show "\<exists>p v u. publish_json L p v D = (D'', Inr u) \<and> next_record L (d_files D) p" by blast
  qed
  with g show ?thesis by (simp add: claimed)
next
  case (materialized now h rc)
  have g: "grows D D'" unfolding materialized using immutable_handoff_ops(2) unfolding immutable_def by blast
  have "lifecycle L (d_files (fst (materialize L now h rc D))) \<and> d_others (fst (materialize L now h rc D)) = []"
  proof (rule life_atomic[OF atomic_materialize assms(2,3)])
    fix D'' m assume "materialize L now h rc D = (D'', Inr m)"
    then obtain c where "get_claim L h D = (D, Inr c)"
      "publish_json L (materialization_path L h) (JObj (materialization_to_dict m)) D = (D'', Inr ())"
      by (rule materialize_Inr)
    note g' = this(1) and p = this(2)
    have "next_record L (d_files D) (materialization_path L h)"
      using getters_Inr(1)[OF g'] by (auto intro: next_recordI(2) record_is_file)
    with p show "\<exists>p v u. publish_json L p v D = (D'', Inr u) \<and> next_record L (d_files D) p" by blast
  qed
  with g show ?thesis by (simp add: materialized)
next
  case (acknowledged now h ra)
  have g: "grows D D'" unfolding acknowledged using immutable_commit_receipt unfolding immutable_def by blast
  have "lifecycle L (d_files (fst (commit_receipt L now h ra D))) \<and> d_others (fst (commit_receipt L now h ra D)) = []"
  proof (rule life_atomic[OF atomic_commit_receipt assms(2,3)])
    fix D'' r assume "commit_receipt L now h ra D = (D'', Inr r)"
    then obtain m where "get_materialization L h D = (D, Inr m)"
      "publish_json L (receipt_path L h) (JObj (receipt_to_dict r)) D = (D'', Inr ())"
      by (rule commit_receipt_Inr)
    note g' = this(1) and p = this(2)
    have "next_record L (d_files D) (receipt_path L h)"
      using getters_Inr(2)[OF g'] by (auto intro: next_recordI(3) record_is_file)
    with p show "\<exists>p v u. publish_json L p v D = (D'', Inr u) \<and> next_record L (d_files D) p" by blast
  qed
  with g show ?thesis by (simp add: acknowledged)
qed

lemma life_run:
  assumes "handoff_run L D D'" and "d_others D = []" and "lifecycle L (d_files D)"
  shows "lifecycle L (d_files D') \<and> d_others D' = [] \<and> grows D D'"
  using assms by (induction rule: handoff_run.induct) (auto dest: life_step intro: grows_trans)

section \<open>The status only moves forward\<close>

definition status_rank :: "string \<Rightarrow> nat" where
  "status_rank s = (if s = ''acknowledged'' then 4 else if s = ''materialized'' then 3
     else if s = ''claimed_incomplete'' then 2 else if s = ''failed'' then 1 else 0)"

definition files_rank :: "lib \<Rightarrow> string \<Rightarrow> files \<Rightarrow> nat" where
  "files_rank L h fs = (if is_file fs (receipt_path L h) then 4 else if is_file fs (materialization_path L h) then 3
     else if is_file fs (handoff_claim_path L h) then 2 else if is_file fs (handoff_failure_path L h) then 1 else 0)"

lemma handoff_status_rank:
  assumes "handoff_status L h D = (D', Inr s)"
  shows "status_rank (hst_status s) = files_rank L h (d_files D)"
  using assms unfolding handoff_status_def
  by (elim bindS_InrE)
    (auto dest!: get_envelope_Inr simp: is_fileS_def status_rank_def files_rank_def elim!: bindS_InrE split: if_splits)

lemma files_rank_grows: "grows D D' \<Longrightarrow> files_rank L h (d_files D) \<le> files_rank L h (d_files D')"
proof -
  assume g: "grows D D'"
  have "is_file (d_files D) p \<Longrightarrow> is_file (d_files D') p" for p
    using grows_get[OF g] by (auto simp: is_file_def)
  then show ?thesis unfolding files_rank_def by simp
qed

text \<open>
  C20: the life of a handoff. From a store in order, every run of submissions, claims,
  materializations, receipts and notifications of any parties, returning or raising, leaves the
  store in order: no receipt without its materialization, no materialization without its claim, no
  claim without its envelope; no file is lost, and the status of a handoff never falls back.
\<close>

theorem handoff_life:
  assumes "handoff_run L D D'" and "d_others D = []" and "lifecycle L (d_files D)"
    and "handoff_status L h D = (D1, Inr s)" and "handoff_status L h D' = (D2, Inr s')"
  shows "lifecycle L (d_files D') \<and> grows D D' \<and> status_rank (hst_status s) \<le> status_rank (hst_status s')"
  using life_run[OF assms(1-3)] files_rank_grows[of D D' L h]
  by (simp add: handoff_status_rank[OF assms(4)] handoff_status_rank[OF assms(5)])

section \<open>Payloads are bounded and come from the allowed roots\<close>

lemma source_root_Inr:
  "source_root h strict requested target roots = Inr (Some root) \<Longrightarrow>
     \<exists>raw\<in>set roots. below (sh_abspath h raw) requested \<and> sh_resolve h (sh_abspath h raw) = Some root \<and> below root target
       \<and> (strict \<longrightarrow> \<not> sh_symlink h (sh_abspath h raw) \<and> \<not> sh_symlink h requested)"
  by (induction roots) (auto simp: Let_def split: if_splits option.splits)

lemma config_limits:
  "handoff_config_from_dict d = Inr cfg \<Longrightarrow>
     0 < hc_default_max_payload_bytes cfg \<and> hc_default_max_payload_bytes cfg \<le> hc_hard_max_payload_bytes cfg
     \<and> hc_hard_max_payload_bytes cfg \<le> 4194304"
  unfolding handoff_config_from_dict_def validate_config_dict_def
  by (auto simp: payload_limits_def bindR_unit elim!: bindR_InrE)

text \<open>
  C21: a payload read for a handoff is bounded. With an accepted configuration the snapshot holds at
  most 4 MiB and no more than the configured default, it is text without control characters and of
  an allowed type, its digest and length are those of its bytes, and it lies, before and after the
  resolution of links, below an allow-listed root; in strict mode neither that root nor the path is
  a link.
\<close>

theorem payload_bounded:
  assumes "handoff_config_from_dict d = Inr cfg" and "read_source_payload L h cfg p = Inr snap"
  shows "ps_byte_count snap = int (length (ps_data snap)) \<and> ps_byte_count snap \<le> hc_default_max_payload_bytes cfg
    \<and> ps_byte_count snap \<le> 4194304 \<and> utf8_valid (ps_data snap) \<and> \<not> has_control (ps_data snap)
    \<and> ps_sha256 snap = upper (sha256_hex L (ps_data snap)) \<and> ps_extension snap \<in> set (hc_allowed_payload_extensions cfg)
    \<and> map_of MEDIA_BY_EXTENSION (ps_extension snap) = Some (ps_media_type snap)
    \<and> sh_resolve h (sh_abspath h p) = Some (ps_source_path snap) \<and> sh_bytes h (ps_source_path snap) = Some (ps_data snap)
    \<and> (\<exists>raw\<in>set (hc_allowed_source_roots cfg). \<exists>root. below (sh_abspath h raw) (sh_abspath h p)
        \<and> sh_resolve h (sh_abspath h raw) = Some root \<and> below root (ps_source_path snap)
        \<and> (hc_strict_reparse_checks cfg \<longrightarrow> \<not> sh_symlink h (sh_abspath h raw) \<and> \<not> sh_symlink h (sh_abspath h p)))"
proof -
  from assms(2) obtain target where t: "sh_resolve h (sh_abspath h p) = Some target"
    by (auto simp: read_source_payload_def Let_def split: option.splits)
  with assms(2) obtain root where r: "source_root h (hc_strict_reparse_checks cfg) (sh_abspath h p) target (hc_allowed_source_roots cfg) = Inr (Some root)"
    and k: "ps_source_path snap = target" "sh_bytes h target = Some (ps_data snap)" "utf8_valid (ps_data snap)"
      "\<not> has_control (ps_data snap)" "int (length (ps_data snap)) \<le> hc_default_max_payload_bytes cfg"
      "ps_sha256 snap = upper (sha256_hex L (ps_data snap))" "ps_byte_count snap = int (length (ps_data snap))"
      "ps_extension snap \<in> set (hc_allowed_payload_extensions cfg)"
      "map_of MEDIA_BY_EXTENSION (ps_extension snap) = Some (ps_media_type snap)"
    by (auto simp: read_source_payload_def Let_def validate_text_document_def bindR_unit elim!: bindR_InrE split: option.splits)
  from source_root_Inr[OF r] k t config_limits[OF assms(1)] show ?thesis by auto
qed

end
