(* ===== verification/Handoff_Examples.thy ===== *)
theory Handoff_Examples
  imports Handoff_Life
begin

text \<open>
  A handoff from its submission to its receipt, on a store without interference: the operations
  return under the conditions below, and the theorems of \<open>Handoff_Runs\<close> and \<open>Handoff_Life\<close> apply.
\<close>

section \<open>When the operations return\<close>

lemma claim_returns:
  assumes "get_envelope L h D = (D, Inr e)" and "d_others D = []" and "authorize_claim e cfg a = Inr ()"
    and "envelope_core_digest L e = Inr core" and "claim_from_dict (claim_dict h core a now) = Inr r"
    and "canonical_bytes L (JObj (claim_to_dict r)) = Inr b"
    and "\<not> under_file (d_files D) (handoff_claim_path L h)" and "\<not> path_exists (d_files D) (handoff_claim_path L h)"
  shows "handoff_claim L cfg now h a D = (D\<lparr>d_files := d_files D @ [(handoff_claim_path L h, b)]\<rparr>, Inr r)"
  using assms free_json[OF assms(2,7,8,6)]
  by (simp add: handoff_claim_def op_defs existsS_def)

lemma materialize_returns:
  assumes "get_envelope L h D = (D, Inr e)" and "get_claim L h D = (D, Inr c)" and "hk_receiver_instance_ref c = rc"
    and "d_others D = []" and "map_of (d_files D) (handoff_payload_path e) = Some data"
    and "upper (sha256_hex L data) = hv_payload_sha256 e" and "int (length data) = hv_payload_bytes e"
    and "envelope_core_digest L e = Inr core"
    and "materialization_from_dict (materialization_dict h core (hv_payload_sha256 e) rc now) = Inr m"
    and "canonical_bytes L (JObj (materialization_to_dict m)) = Inr b"
    and "\<not> under_file (d_files D) (materialization_path L h)" and "\<not> path_exists (d_files D) (materialization_path L h)"
  shows "materialize L now h rc D = (D\<lparr>d_files := d_files D @ [(materialization_path L h, b)]\<rparr>, Inr m)"
  using assms free_json[OF assms(4,11,12,10)]
  by (simp add: materialize_def op_defs payload_data_def read_bytes_def read_file_def Let_def)

lemma receipt_returns:
  assumes "get_envelope L h D = (D, Inr e)" and "get_materialization L h D = (D, Inr m)"
    and "hm_receiver_instance_ref m = rc_receiver_instance_ref a" and "rc_response_handoff_id a = None"
    and "d_others D = []" and "envelope_core_digest L e = Inr core"
    and "receipt_from_dict (receipt_dict h core (hv_payload_sha256 e) a now) = Inr r"
    and "canonical_bytes L (JObj (receipt_to_dict r)) = Inr b"
    and "\<not> under_file (d_files D) (receipt_path L h)" and "\<not> path_exists (d_files D) (receipt_path L h)"
  shows "commit_receipt L now h a D = (D\<lparr>d_files := d_files D @ [(receipt_path L h, b)]\<rparr>, Inr r)"
  using assms free_json[OF assms(5,9,10,8)]
  by (simp add: commit_receipt_def preflight_receipt_def check_response_def op_defs is_fileS_def path_exists_def)

lemma submit_returns:
  assumes "verify_submission L cfg e snap = Inr p" and "d_others D = []" and "p \<noteq> envelope_path L (hv_handoff_id e)"
    and "canonical_bytes L (JObj (envelope_to_dict e)) = Inr b" and "d_files D = []"
    and "\<not> under_file [(p, ps_data snap)] (envelope_path L (hv_handoff_id e))"
    and "\<not> path_exists [(p, ps_data snap)] (envelope_path L (hv_handoff_id e))"
  shows "\<exists>s. submit_handoff L cfg now e snap D
      = (D\<lparr>d_files := [(p, ps_data snap), (envelope_path L (hv_handoff_id e), b)]\<rparr>, Inr s) \<and> hsub_kind s = ''created''
      \<and> hsub_payload_path s = p"
proof -
  have n: "\<not> under_file [] q" "\<not> path_exists [] q" for q
    by (simp_all add: under_file_def is_file_def path_exists_def is_dir_def list_ex_iff)
  have p: "publish_bytes p (ps_data snap) D = (D\<lparr>d_files := [(p, ps_data snap)]\<rparr>, Inr ())"
    using free_publication[of D p "ps_data snap"] assms(2,5) n by simp
  have e: "publish_json L (envelope_path L (hv_handoff_id e)) (JObj (envelope_to_dict e)) (D\<lparr>d_files := [(p, ps_data snap)]\<rparr>)
      = (D\<lparr>d_files := [(p, ps_data snap), (envelope_path L (hv_handoff_id e), b)]\<rparr>, Inr ())"
    using free_json[of "D\<lparr>d_files := [(p, ps_data snap)]\<rparr>" _ L] assms(2,4,6,7) by simp
  show ?thesis
    using assms(1,5) n p e
    by (simp add: submit_handoff_def submit_handoff_payload_def existsS_def thenS_def bindS_def getS_def liftS_def retS_def
      catchS_def)
qed

section \<open>One handoff\<close>

definition sample_handoff_config :: HandoffConfig where
  "sample_handoff_config = \<lparr>hc_allowed_source_roots = [''/p''], hc_allowed_payload_extensions = [''.md''],
     hc_allowed_target_kinds = [''shared_topic''], hc_allowed_authority_refs = [''a''],
     hc_default_max_payload_bytes = 2, hc_hard_max_payload_bytes = 2, hc_ctcl_endpoint = ''https://e'',
     hc_strict_reparse_checks = True\<rparr>"

definition sample_envelope :: HandoffEnvelope where
  "sample_envelope = \<lparr>hv_handoff_id = ''h'', hv_delivery_id = ''d'', hv_created_time_ref = None,
     hv_temporal_evidence_status = ''unavailable'', hv_local_recorded_at = ''0001-01-01T00:00:00Z'',
     hv_claimed_sender_ref = ''s'', hv_claimed_sender_instance_ref = ''i'', hv_target_kind = ''shared_topic'',
     hv_target_ref = ''t'', hv_authority_ref = ''a'', hv_payload_ref = ''payloads/'' @ replicate 64 CHR ''0'' @ ''.md'',
     hv_payload_media_type = ''text/markdown'', hv_payload_sha256 = replicate 64 CHR ''0'', hv_payload_bytes = 2,
     hv_sensitivity = ''P0'', hv_reply_to_handoff_id = None, hv_expires_at = None,
     hv_not_claimed = REQUIRED_NOT_CLAIMED\<rparr>"

definition sample_snapshot :: PayloadSnapshot where
  "sample_snapshot = \<lparr>ps_source_path = [''p'', ''x.md''], ps_data = ''hi'', ps_sha256 = replicate 64 CHR ''0'',
     ps_byte_count = 2, ps_extension = ''.md'', ps_media_type = ''text/markdown''\<rparr>"

definition sample_source :: source_host where
  "sample_source = \<lparr>sh_abspath = (\<lambda>s. path_parts s), sh_resolve = Some, sh_symlink = (\<lambda>_. False),
     sh_regular = (\<lambda>p. p = [''p'', ''x.md'']), sh_bytes = (\<lambda>p. if p = [''p'', ''x.md''] then Some ''hi'' else None)\<rparr>"

definition sample_claim_args :: claim_args where
  "sample_claim_args = \<lparr>cl_receiver_instance_ref = None, cl_binding_kind = ''unresolved'', cl_receiver_entity_ref = None,
     cl_claim_authority_ref = ''a'', cl_evidence_ref = None, cl_observed_origin = None, cl_verifier = None\<rparr>"

definition sample_receipt_args :: receipt_args where
  "sample_receipt_args = \<lparr>rc_decision = ''ACK'', rc_receiver_instance_ref = None, rc_response_handoff_id = None,
     rc_evidence_refs = [''x''], rc_recorded_time_ref = None\<rparr>"

definition first_instant :: instant where
  "first_instant = (1, 1, 1, 0, 0, 0, 0)"

definition sample_core :: string where
  "sample_core = ''sha256:'' @ HANDOFF_VERSION @ '':'' @ replicate 64 CHR ''0''"

lemma sample_config_accepted:
  "handoff_config_from_dict (handoff_config_to_dict sample_handoff_config) = Inr sample_handoff_config"
  by code_simp

lemma sample_snapshot_read:
  "read_source_payload plain_lib sample_source sample_handoff_config ''/p/x.md'' = Inr sample_snapshot"
  by code_simp

theorem payload_bounded_witness:
  "read_source_payload plain_lib sample_source sample_handoff_config ''/p/x.md'' = Inr sample_snapshot
    \<and> ps_byte_count sample_snapshot \<le> hc_default_max_payload_bytes sample_handoff_config"
  using payload_bounded[OF sample_config_accepted sample_snapshot_read] sample_snapshot_read by blast

lemma sample_envelope_accepted: "envelope_from_dict (envelope_to_dict sample_envelope) = Inr sample_envelope"
  by code_simp

lemma sample_verified:
  "verify_submission plain_lib sample_handoff_config sample_envelope sample_snapshot
    = Inr [''payloads'', replicate 64 CHR ''0'' @ ''.md'']"
  by code_simp

lemma sample_core_digest: "envelope_core_digest plain_lib sample_envelope = Inr sample_core"
  by code_simp

lemma sample_records:
  "authorize_claim sample_envelope sample_handoff_config sample_claim_args = Inr ()"
  "claim_from_dict (claim_dict ''h'' sample_core sample_claim_args first_instant)
    = Inr (claim_of (claim_dict ''h'' sample_core sample_claim_args first_instant))"
  "materialization_from_dict (materialization_dict ''h'' sample_core (hv_payload_sha256 sample_envelope) None first_instant)
    = Inr (materialization_of (materialization_dict ''h'' sample_core (hv_payload_sha256 sample_envelope) None first_instant))"
  "receipt_from_dict (receipt_dict ''h'' sample_core (hv_payload_sha256 sample_envelope) sample_receipt_args first_instant)
    = Inr (receipt_of (receipt_dict ''h'' sample_core (hv_payload_sha256 sample_envelope) sample_receipt_args first_instant))"
  by code_simp+

section \<open>Its disks\<close>

definition sample_claim :: ClaimRecord where
  "sample_claim = claim_of (claim_dict ''h'' sample_core sample_claim_args first_instant)"

definition sample_materialization :: MaterializationRecord where
  "sample_materialization = materialization_of
     (materialization_dict ''h'' sample_core (hv_payload_sha256 sample_envelope) None first_instant)"

definition sample_receipt :: ReceiptRecord where
  "sample_receipt = receipt_of
     (receipt_dict ''h'' sample_core (hv_payload_sha256 sample_envelope) sample_receipt_args first_instant)"

text \<open>The bytes of a record, and the files after each operation.\<close>

definition written :: "dict \<Rightarrow> string" where
  "written d = (case canonical_bytes plain_lib (JObj d) of Inr b \<Rightarrow> b | Inl _ \<Rightarrow> [])"

definition in_dir :: "string \<Rightarrow> path" where
  "in_dir dir = [dir, replicate 64 CHR ''0'' @ ''.json'']"

definition submitted_disk :: disk where
  "submitted_disk = \<lparr>d_files = [([''payloads'', replicate 64 CHR ''0'' @ ''.md''], ''hi''),
     (in_dir ''envelopes'', written (envelope_to_dict sample_envelope))], d_others = []\<rparr>"

definition claimed_disk :: disk where
  "claimed_disk = submitted_disk\<lparr>d_files := d_files submitted_disk
     @ [(in_dir ''claims'', written (claim_to_dict sample_claim))]\<rparr>"

definition materialized_disk :: disk where
  "materialized_disk = claimed_disk\<lparr>d_files := d_files claimed_disk
     @ [(in_dir ''materializations'', written (materialization_to_dict sample_materialization))]\<rparr>"

definition acknowledged_disk :: disk where
  "acknowledged_disk = materialized_disk\<lparr>d_files := d_files materialized_disk
     @ [(in_dir ''receipts'', written (receipt_to_dict sample_receipt))]\<rparr>"

lemmas sample_disks = submitted_disk_def claimed_disk_def materialized_disk_def acknowledged_disk_def

lemma sample_paths:
  "envelope_path plain_lib h = in_dir ''envelopes''" "handoff_claim_path plain_lib h = in_dir ''claims''"
  "materialization_path plain_lib h = in_dir ''materializations''" "receipt_path plain_lib h = in_dir ''receipts''"
  "handoff_failure_path plain_lib h = in_dir ''failures''"
  "handoff_payload_path sample_envelope = [''payloads'', replicate 64 CHR ''0'' @ ''.md'']"
proof -
  show "handoff_payload_path sample_envelope = [''payloads'', replicate 64 CHR ''0'' @ ''.md'']" by code_simp
qed (simp_all add: life_paths handoff_failure_path_def in_dir_def plain_lib_def)

lemma in_dir_simps [simp]: "length (in_dir d) = 2" "take (Suc 0) (in_dir d) = [d]" "in_dir d = in_dir d' \<longleftrightarrow> d = d'"
  "[x] \<noteq> in_dir d"
  by (auto simp: in_dir_def)

lemma payload_not_in_dir: "[''payloads'', replicate 64 CHR ''0'' @ ''.md''] \<noteq> in_dir d"
  by (simp add: in_dir_def)

lemma sample_written:
  "canonical_bytes plain_lib (JObj (envelope_to_dict sample_envelope)) = Inr (written (envelope_to_dict sample_envelope))"
  "canonical_bytes plain_lib (JObj (claim_to_dict sample_claim)) = Inr (written (claim_to_dict sample_claim))"
  "canonical_bytes plain_lib (JObj (materialization_to_dict sample_materialization))
    = Inr (written (materialization_to_dict sample_materialization))"
  "canonical_bytes plain_lib (JObj (receipt_to_dict sample_receipt)) = Inr (written (receipt_to_dict sample_receipt))"
proof -
  have w: "\<not> isl (canonical_bytes plain_lib (JObj d)) \<Longrightarrow> canonical_bytes plain_lib (JObj d) = Inr (written d)" for d
    by (cases "canonical_bytes plain_lib (JObj d)") (simp_all add: written_def)
  show "canonical_bytes plain_lib (JObj (envelope_to_dict sample_envelope)) = Inr (written (envelope_to_dict sample_envelope))"
    by (rule w) code_simp
  show "canonical_bytes plain_lib (JObj (claim_to_dict sample_claim)) = Inr (written (claim_to_dict sample_claim))"
    by (rule w) code_simp
  show "canonical_bytes plain_lib (JObj (materialization_to_dict sample_materialization))
      = Inr (written (materialization_to_dict sample_materialization))"
    by (rule w) code_simp
  show "canonical_bytes plain_lib (JObj (receipt_to_dict sample_receipt)) = Inr (written (receipt_to_dict sample_receipt))"
    by (rule w) code_simp
qed

lemma free_sample:
  "\<not> under_file (d_files submitted_disk) (in_dir ''claims'')" "\<not> path_exists (d_files submitted_disk) (in_dir ''claims'')"
  "\<not> under_file (d_files claimed_disk) (in_dir ''materializations'')"
  "\<not> path_exists (d_files claimed_disk) (in_dir ''materializations'')"
  "\<not> under_file (d_files materialized_disk) (in_dir ''receipts'')"
  "\<not> path_exists (d_files materialized_disk) (in_dir ''receipts'')"
  unfolding under_file_keys path_exists_keys sample_disks
  by (simp_all add: payload_not_in_dir upt_conv_Cons)

section \<open>Its records read back\<close>

lemma sample_envelope_there: "map_of (d_files D) (in_dir ''envelopes'') = Some (written (envelope_to_dict sample_envelope))
    \<Longrightarrow> get_envelope plain_lib ''h'' D = (D, Inr sample_envelope)"
  using published_dict[OF sample_written(1) _ plain_lib_ok fixed_plain] envelope_again(2)[OF sample_envelope_accepted]
  by (intro get_envelope_there) (simp_all add: sample_paths, simp_all add: sample_envelope_def, code_simp)

lemma get_record_there:
  "read_dict_file (d_files D) p = Inr d \<Longrightarrow> parse d = Inr x \<Longrightarrow> get_record parse c p D = (D, Inr x)"
  using record_is_file[of "d_files D" p d] by (simp add: get_record_def op_defs is_fileS_def read_dict_def)

lemma sample_id: "encoded ''h'' D = (D, Inr ())"
  by code_simp


lemma sample_getters:
  "get_envelope plain_lib ''h'' submitted_disk = (submitted_disk, Inr sample_envelope)"
  "get_envelope plain_lib ''h'' claimed_disk = (claimed_disk, Inr sample_envelope)"
  "get_envelope plain_lib ''h'' materialized_disk = (materialized_disk, Inr sample_envelope)"
  "get_claim plain_lib ''h'' claimed_disk = (claimed_disk, Inr sample_claim)"
  "get_materialization plain_lib ''h'' materialized_disk = (materialized_disk, Inr sample_materialization)"
proof -
  show "get_envelope plain_lib ''h'' submitted_disk = (submitted_disk, Inr sample_envelope)"
    "get_envelope plain_lib ''h'' claimed_disk = (claimed_disk, Inr sample_envelope)"
    "get_envelope plain_lib ''h'' materialized_disk = (materialized_disk, Inr sample_envelope)"
    by (rule sample_envelope_there, simp add: sample_disks payload_not_in_dir[symmetric])+
  have "read_dict_file (d_files claimed_disk) (in_dir ''claims'') = Inr (stored (claim_to_dict sample_claim))"
    by (rule published_dict[OF sample_written(2) _ plain_lib_ok fixed_plain])
      (simp add: sample_disks payload_not_in_dir[symmetric])
  then show "get_claim plain_lib ''h'' claimed_disk = (claimed_disk, Inr sample_claim)"
    using claim_again[OF sample_records(2)]
    by (simp add: get_claim_def op_defs sample_id sample_paths get_record_there sample_claim_def)
  have "read_dict_file (d_files materialized_disk) (in_dir ''materializations'')
      = Inr (stored (materialization_to_dict sample_materialization))"
    by (rule published_dict[OF sample_written(3) _ plain_lib_ok fixed_plain])
      (simp add: sample_disks payload_not_in_dir[symmetric])
  then show "get_materialization plain_lib ''h'' materialized_disk = (materialized_disk, Inr sample_materialization)"
    using materialization_again[OF sample_records(3)]
    by (simp add: get_materialization_def op_defs sample_id sample_paths get_record_there sample_materialization_def)
qed

section \<open>Its operations\<close>

lemma sample_claimed:
  "handoff_claim plain_lib sample_handoff_config first_instant ''h'' sample_claim_args submitted_disk
    = (claimed_disk, Inr sample_claim)"
  using claim_returns[OF sample_getters(1) _ sample_records(1) sample_core_digest sample_records(2)[folded sample_claim_def]
      sample_written(2)] free_sample(1,2)
  by (simp add: sample_paths claimed_disk_def submitted_disk_def)

lemma sample_materialized:
  "materialize plain_lib first_instant ''h'' None claimed_disk = (materialized_disk, Inr sample_materialization)"
proof -
  have r: "hk_receiver_instance_ref sample_claim = None" by code_simp
  have p: "map_of (d_files claimed_disk) (handoff_payload_path sample_envelope) = Some ''hi''"
    by (simp add: sample_disks sample_paths)
  have i: "upper (sha256_hex plain_lib ''hi'') = hv_payload_sha256 sample_envelope" "int (length ''hi'') = hv_payload_bytes sample_envelope"
    by code_simp+
  show ?thesis
    using materialize_returns[OF sample_getters(2,4) r _ p i sample_core_digest
        sample_records(3)[folded sample_materialization_def] sample_written(3)] free_sample(3,4)
    by (simp add: sample_paths materialized_disk_def claimed_disk_def submitted_disk_def)
qed

lemma sample_acknowledged:
  "commit_receipt plain_lib first_instant ''h'' sample_receipt_args materialized_disk = (acknowledged_disk, Inr sample_receipt)"
proof -
  have r: "hm_receiver_instance_ref sample_materialization = rc_receiver_instance_ref sample_receipt_args"
    "rc_response_handoff_id sample_receipt_args = None" by code_simp+
  show ?thesis
    using receipt_returns[OF sample_getters(3,5) r _ sample_core_digest
        sample_records(4)[folded sample_receipt_def] sample_written(4)] free_sample(5,6)
    by (simp add: sample_paths acknowledged_disk_def materialized_disk_def claimed_disk_def submitted_disk_def)
qed

lemma sample_submitted:
  "\<exists>s. submit_handoff plain_lib sample_handoff_config first_instant sample_envelope sample_snapshot \<lparr>d_files = [], d_others = []\<rparr>
    = (submitted_disk, Inr s) \<and> hsub_kind s = ''created'' \<and> hsub_payload_path s = handoff_payload_path sample_envelope"
proof -
  have "ps_data sample_snapshot = ''hi''" by (simp add: sample_snapshot_def)
  moreover have "\<not> under_file [([''payloads'', replicate 64 CHR ''0'' @ ''.md''], ''hi'')] (in_dir ''envelopes'')"
    "\<not> path_exists [([''payloads'', replicate 64 CHR ''0'' @ ''.md''], ''hi'')] (in_dir ''envelopes'')"
    unfolding under_file_keys path_exists_keys by (simp_all add: payload_not_in_dir upt_conv_Cons)
  ultimately show ?thesis
    using submit_returns[OF sample_verified _ _ sample_written(1), of "\<lparr>d_files = [], d_others = []\<rparr>" first_instant]
    by (simp add: sample_paths payload_not_in_dir submitted_disk_def)
qed


section \<open>What the theorems say of it\<close>

theorem handoff_claimed_once_witness:
  "handoff_claim plain_lib sample_handoff_config first_instant ''h'' sample_claim_args submitted_disk
      = (claimed_disk, Inr sample_claim)
    \<and> (\<forall>cfg now a D r. handoff_claim plain_lib cfg now ''h'' a materialized_disk \<noteq> (D, Inr r))"
proof -
  have "grows claimed_disk materialized_disk" by (simp add: grows_def materialized_disk_def map_of_append_le)
  from handoff_claimed_once[OF sample_claimed this] sample_claimed show ?thesis by simp
qed

theorem receipt_backed_witness:
  "commit_receipt plain_lib first_instant ''h'' sample_receipt_args materialized_disk = (acknowledged_disk, Inr sample_receipt)
    \<and> (\<forall>now a D r. commit_receipt plain_lib now ''h'' a acknowledged_disk \<noteq> (D, Inr r))"
  using receipt_backed[OF sample_acknowledged grows_refl] sample_acknowledged by simp

theorem handoff_delivered_intact_witness:
  "\<exists>s. submit_handoff plain_lib sample_handoff_config first_instant sample_envelope sample_snapshot \<lparr>d_files = [], d_others = []\<rparr>
      = (submitted_disk, Inr s)
    \<and> materialize plain_lib first_instant ''h'' None claimed_disk = (materialized_disk, Inr sample_materialization)
    \<and> map_of (d_files materialized_disk) (hsub_payload_path s) = Some (ps_data sample_snapshot)"
proof -
  from sample_submitted obtain s where s: "submit_handoff plain_lib sample_handoff_config first_instant sample_envelope
      sample_snapshot \<lparr>d_files = [], d_others = []\<rparr> = (submitted_disk, Inr s)" "hsub_kind s = ''created''" by blast
  have g: "grows submitted_disk claimed_disk" by (simp add: grows_def claimed_disk_def map_of_append_le)
  have m: "materialize plain_lib first_instant (hv_handoff_id sample_envelope) None claimed_disk
      = (materialized_disk, Inr sample_materialization)"
    using sample_materialized by (simp add: sample_envelope_def)
  from handoff_delivered_intact[OF s sample_envelope_accepted fixed_plain plain_lib_ok g m] s(1) sample_materialized
  show ?thesis by blast
qed

lemma sample_run: "handoff_run plain_lib submitted_disk acknowledged_disk"
proof -
  have "handoff_step plain_lib submitted_disk claimed_disk"
    using handoff_step.claimed[of plain_lib submitted_disk sample_handoff_config first_instant "''h''" sample_claim_args]
    by (simp add: sample_claimed)
  moreover have "handoff_step plain_lib claimed_disk materialized_disk"
    using handoff_step.materialized[of plain_lib claimed_disk first_instant "''h''" None] by (simp add: sample_materialized)
  moreover have "handoff_step plain_lib materialized_disk acknowledged_disk"
    using handoff_step.acknowledged[of plain_lib materialized_disk first_instant "''h''" sample_receipt_args]
    by (simp add: sample_acknowledged)
  ultimately show ?thesis by (blast intro: handoff_run.intros)
qed

lemma sample_receipt_read:
  "get_envelope plain_lib ''h'' acknowledged_disk = (acknowledged_disk, Inr sample_envelope)"
  "get_receipt plain_lib ''h'' acknowledged_disk = (acknowledged_disk, Inr sample_receipt)"
proof -
  show "get_envelope plain_lib ''h'' acknowledged_disk = (acknowledged_disk, Inr sample_envelope)"
    by (rule sample_envelope_there, simp add: sample_disks payload_not_in_dir[symmetric])
  have "read_dict_file (d_files acknowledged_disk) (in_dir ''receipts'') = Inr (stored (receipt_to_dict sample_receipt))"
    by (rule published_dict[OF sample_written(4) _ plain_lib_ok fixed_plain])
      (simp add: sample_disks payload_not_in_dir[symmetric])
  then show "get_receipt plain_lib ''h'' acknowledged_disk = (acknowledged_disk, Inr sample_receipt)"
    using receipt_again[OF sample_records(4)]
    by (simp add: get_receipt_def op_defs sample_id sample_paths get_record_there sample_receipt_def)
qed

lemma sample_statuses:
  "handoff_status plain_lib ''h'' submitted_disk
    = (submitted_disk, Inr \<lparr>hst_status = ''pending'', hst_record = envelope_to_dict sample_envelope\<rparr>)"
  "handoff_status plain_lib ''h'' acknowledged_disk
    = (acknowledged_disk, Inr \<lparr>hst_status = ''acknowledged'', hst_record = receipt_to_dict sample_receipt\<rparr>)"
  using sample_getters(1) sample_receipt_read
  by (simp_all add: handoff_status_def op_defs is_fileS_def sample_paths is_file_def sample_disks payload_not_in_dir[symmetric])

theorem handoff_life_witness:
  "handoff_run plain_lib submitted_disk acknowledged_disk \<and> lifecycle plain_lib (d_files acknowledged_disk)"
proof -
  have "d_others submitted_disk = []" by (simp add: submitted_disk_def)
  moreover have "lifecycle plain_lib (d_files submitted_disk)"
    by (simp add: lifecycle_def sample_paths is_file_def sample_disks payload_not_in_dir[symmetric])
  ultimately show ?thesis
    using handoff_life[OF sample_run _ _ sample_statuses] sample_run by blast
qed

end
