(* ===== verification/Pmw_Journal.thy ===== *)
theory Pmw_Journal
  imports Canonical "HOL-Library.Product_Lexorder"
begin

text \<open>
  \<open>src/eml_pmw/journal.py\<close> and \<open>src/eml_pmw/models.py\<close>: the durable state of the fabric. A table of the
  SQLite file is the list of its rows in the order of their insertion; its CHECK, UNIQUE and foreign
  key constraints are the conditions of the inserts, and a statement that breaks one raises
  \<open>IntegrityError\<close> and changes nothing. Every statement is its own transaction. New ids and the time
  are arguments. Metadata is kept as the value that \<open>json.loads\<close> of its text gives back; a value
  outside JSON is followed no further. The exception classes of \<open>errors.py\<close> are codes.
\<close>

section \<open>Rows\<close>

record SemanticAgent =
  sa_semantic_agent_id :: string
  sa_kind :: string
  sa_display_name :: string
  sa_role :: "string option"
  sa_created_at :: string
  sa_updated_at :: string

record ProviderBinding =
  pb_binding_id :: string
  pb_semantic_agent_id :: string
  pb_provider :: string
  pb_binding_type :: string
  pb_provider_resource_id :: string
  pb_verified :: bool
  pb_native_session_id :: "string option"
  pb_metadata :: dict
  pb_created_at :: string
  pb_updated_at :: string

record PMWWorkspace =
  pw_workspace_id :: string
  pw_title :: string
  pw_visual_provider :: string
  pw_visual_workspace_id :: "string option"
  pw_visual_canvas_id :: "string option"
  pw_created_by :: string
  pw_metadata :: dict
  pw_created_at :: string
  pw_updated_at :: string

record PMWTask =
  pt_task_id :: string
  pt_workspace_id :: string
  pt_title :: string
  pt_status :: string
  pt_created_by :: string
  pt_assigned_to :: "string list"
  pt_metadata :: dict
  pt_created_at :: string
  pt_updated_at :: string

record ResourceBinding =
  rb_binding_id :: string
  rb_workspace_id :: string
  rb_provider :: string
  rb_resource_kind :: string
  rb_provider_resource_id :: string
  rb_display_mode :: string
  rb_interaction_mode :: string
  rb_owner :: "string option"
  rb_task_id :: "string option"
  rb_canvas_object_id :: "string option"
  rb_projection_mode :: string
  rb_state :: string
  rb_metadata :: dict
  rb_revision :: int
  rb_created_at :: string
  rb_updated_at :: string

record DecisionReceipt =
  dr_receipt_id :: string
  dr_semantic_agent_id :: string
  dr_workspace_id :: string
  dr_task_id :: "string option"
  dr_decision :: string
  dr_risk_level :: "string option"
  dr_provider :: "string option"
  dr_provider_resource_id :: "string option"
  dr_evidence_refs :: "string list"
  dr_note :: string
  dr_created_at :: string

record ProvenanceRef =
  pv_provenance_id :: string
  pv_event_type :: string
  pv_semantic_agent_id :: "string option"
  pv_workspace_id :: "string option"
  pv_task_id :: "string option"
  pv_provider :: "string option"
  pv_provider_resource_id :: "string option"
  pv_evidence_refs :: "string list"
  pv_payload :: dict
  pv_created_at :: string

record fabric =
  fj_agents :: "SemanticAgent list"
  fj_bindings :: "ProviderBinding list"
  fj_workspaces :: "PMWWorkspace list"
  fj_tasks :: "PMWTask list"
  fj_resources :: "ResourceBinding list"
  fj_decisions :: "DecisionReceipt list"
  fj_provenance :: "ProvenanceRef list"

definition empty_fabric :: fabric where
  "empty_fabric = \<lparr>fj_agents = [], fj_bindings = [], fj_workspaces = [], fj_tasks = [], fj_resources = [],
     fj_decisions = [], fj_provenance = []\<rparr>"

section \<open>Statements\<close>

text \<open>A check of the Python code, and a statement under the constraints of the tables.\<close>

definition needS :: "(fabric \<Rightarrow> bool) \<Rightarrow> exn \<Rightarrow> (fabric, unit) op" where
  "needS c e = (\<lambda>J. if c J then (J, Inr ()) else (J, Inl e))"

definition executeS :: "(fabric \<Rightarrow> bool) \<Rightarrow> (fabric \<Rightarrow> fabric) \<Rightarrow> (fabric, unit) op" where
  "executeS c f = (\<lambda>J. if c J then (f J, Inr ()) else (J, Inl IntegrityError))"

text \<open>\<open>json.loads(json.dumps(metadata, sort_keys=True))\<close>.\<close>

definition dumped :: "dict \<Rightarrow> dict res" where
  "dumped d = (if printable (JObj d) then Inr (stored d) else Inl (Untyped ''metadata''))"

definition update_rows :: "('r \<Rightarrow> bool) \<Rightarrow> ('r \<Rightarrow> 'r) \<Rightarrow> 'r list \<Rightarrow> 'r list" where
  "update_rows c f rows = map (\<lambda>r. if c r then f r else r) rows"

definition agent_ids :: "fabric \<Rightarrow> string set" where
  "agent_ids J = sa_semantic_agent_id ` set (fj_agents J)"

definition workspace_ids :: "fabric \<Rightarrow> string set" where
  "workspace_ids J = pw_workspace_id ` set (fj_workspaces J)"

definition task_ids :: "fabric \<Rightarrow> string set" where
  "task_ids J = pt_task_id ` set (fj_tasks J)"

text \<open>A foreign key: NULL, or a key of the other table.\<close>

definition refers :: "string option \<Rightarrow> string set \<Rightarrow> bool" where
  "refers x keys \<longleftrightarrow> (case x of None \<Rightarrow> True | Some k \<Rightarrow> k \<in> keys)"

section \<open>Agents\<close>

definition get_semantic_agent :: "string \<Rightarrow> fabric \<Rightarrow> SemanticAgent option" where
  "get_semantic_agent aid J = find (\<lambda>r. sa_semantic_agent_id r = aid) (fj_agents J)"

definition KINDS :: "string list" where
  "KINDS = [''human'', ''ai'', ''system'']"

text \<open>\<open>name or default\<close> of an optional string.\<close>

definition or_else :: "string option \<Rightarrow> string \<Rightarrow> string" where
  "or_else x d = (case x of None \<Rightarrow> d | Some s \<Rightarrow> if s = [] then d else s)"

definition upsert_semantic_agent ::
    "string \<Rightarrow> string \<Rightarrow> string \<Rightarrow> string option \<Rightarrow> string option \<Rightarrow> (fabric, SemanticAgent option) op" where
  "upsert_semantic_agent now aid kind name role =
     thenS (needS (\<lambda>J. case get_semantic_agent aid J of None \<Rightarrow> True | Some r \<Rightarrow> sa_kind r = kind) (Coded ''IdentityConflictError''))
     (thenS (executeS (\<lambda>J. kind \<in> set KINDS) (\<lambda>J. case get_semantic_agent aid J of
          None \<Rightarrow> J\<lparr>fj_agents := fj_agents J @ [\<lparr>sa_semantic_agent_id = aid, sa_kind = kind,
            sa_display_name = or_else name aid, sa_role = role, sa_created_at = now, sa_updated_at = now\<rparr>]\<rparr>
        | Some _ \<Rightarrow> J\<lparr>fj_agents := update_rows (\<lambda>r. sa_semantic_agent_id r = aid)
            (\<lambda>r. r\<lparr>sa_display_name := or_else name aid, sa_role := role, sa_updated_at := now\<rparr>) (fj_agents J)\<rparr>))
       (getS (get_semantic_agent aid)))"

definition list_semantic_agents :: "fabric \<Rightarrow> SemanticAgent list" where
  "list_semantic_agents J = sort_key sa_semantic_agent_id (fj_agents J)"

section \<open>Bindings of agents to providers\<close>

definition binding_key :: "ProviderBinding \<Rightarrow> string \<times> string \<times> string" where
  "binding_key b = (pb_provider b, pb_binding_type b, pb_provider_resource_id b)"

definition find_binding :: "string \<times> string \<times> string \<Rightarrow> fabric \<Rightarrow> ProviderBinding option" where
  "find_binding key J = find (\<lambda>b. binding_key b = key) (fj_bindings J)"

definition get_provider_binding :: "string \<Rightarrow> fabric \<Rightarrow> ProviderBinding option" where
  "get_provider_binding bid J = find (\<lambda>b. pb_binding_id b = bid) (fj_bindings J)"

text \<open>
  \<open>bind_agent\<close>; \<open>bid\<close> is the new id. The insert gives way to an update where the binding id is there.
\<close>

definition store_binding :: "ProviderBinding \<Rightarrow> fabric \<Rightarrow> fabric" where
  "store_binding b J = (if get_provider_binding (pb_binding_id b) J = None then J\<lparr>fj_bindings := fj_bindings J @ [b]\<rparr>
     else J\<lparr>fj_bindings := update_rows (\<lambda>r. pb_binding_id r = pb_binding_id b)
       (\<lambda>r. r\<lparr>pb_semantic_agent_id := pb_semantic_agent_id b, pb_verified := pb_verified b,
         pb_native_session_id := pb_native_session_id b, pb_metadata := pb_metadata b,
         pb_updated_at := pb_updated_at b\<rparr>) (fj_bindings J)\<rparr>)"

definition bind_semantic_agent ::
    "string \<Rightarrow> string \<Rightarrow> string \<Rightarrow> string \<times> string \<times> string \<Rightarrow> bool \<Rightarrow> string option \<Rightarrow> dict \<Rightarrow>
      (fabric, ProviderBinding option) op" where
  "bind_semantic_agent now bid aid key verified native metadata =
     thenS (needS (\<lambda>J. get_semantic_agent aid J \<noteq> None) KeyError)
     (thenS (needS (\<lambda>J. case find_binding key J of None \<Rightarrow> True | Some b \<Rightarrow> pb_semantic_agent_id b = aid)
         (Coded ''IdentityConflictError''))
     (bindS (getS (find_binding key)) (\<lambda>existing.
      let i = (case existing of None \<Rightarrow> bid | Some b \<Rightarrow> pb_binding_id b);
          created = (case existing of None \<Rightarrow> now | Some b \<Rightarrow> pb_created_at b)
      in bindS (liftS (dumped metadata)) (\<lambda>meta.
         thenS (executeS (\<lambda>J. aid \<in> agent_ids J) (store_binding
           \<lparr>pb_binding_id = i, pb_semantic_agent_id = aid, pb_provider = fst key, pb_binding_type = fst (snd key),
            pb_provider_resource_id = snd (snd key), pb_verified = verified, pb_native_session_id = native,
            pb_metadata = meta, pb_created_at = created, pb_updated_at = now\<rparr>))
         (getS (get_provider_binding i))))))"

definition resolve_principal :: "string \<times> string \<times> string \<Rightarrow> bool \<Rightarrow> fabric \<Rightarrow> string option" where
  "resolve_principal key require_verified J = (case find_binding key J of
      None \<Rightarrow> None
    | Some b \<Rightarrow> if require_verified \<and> \<not> pb_verified b then None else Some (pb_semantic_agent_id b))"

definition list_provider_bindings :: "string option \<Rightarrow> fabric \<Rightarrow> ProviderBinding list" where
  "list_provider_bindings aid J = sort_key binding_key
     (filter (\<lambda>b. case aid of None \<Rightarrow> True | Some a \<Rightarrow> a = [] \<or> pb_semantic_agent_id b = a) (fj_bindings J))"

section \<open>Workspaces and tasks\<close>

definition get_workspace :: "string \<Rightarrow> fabric \<Rightarrow> PMWWorkspace option" where
  "get_workspace wid J = find (\<lambda>w. pw_workspace_id w = wid) (fj_workspaces J)"

text \<open>\<open>fresh\<close> is the new id, used where none is given.\<close>

definition create_workspace ::
    "string \<Rightarrow> string \<Rightarrow> string \<Rightarrow> string \<Rightarrow> string option \<Rightarrow> string \<Rightarrow> string option \<Rightarrow> string option \<Rightarrow> dict \<Rightarrow>
      (fabric, PMWWorkspace option) op" where
  "create_workspace now fresh title created_by wid provider visual_workspace visual_canvas metadata =
     thenS (needS (\<lambda>J. get_semantic_agent created_by J \<noteq> None) KeyError)
     (bindS (liftS (dumped metadata)) (\<lambda>meta.
      thenS (executeS (\<lambda>J. or_else wid fresh \<notin> workspace_ids J \<and> created_by \<in> agent_ids J)
        (\<lambda>J. J\<lparr>fj_workspaces := fj_workspaces J @ [\<lparr>pw_workspace_id = or_else wid fresh, pw_title = title,
          pw_visual_provider = provider, pw_visual_workspace_id = visual_workspace, pw_visual_canvas_id = visual_canvas,
          pw_created_by = created_by, pw_metadata = meta, pw_created_at = now, pw_updated_at = now\<rparr>]\<rparr>))
      (getS (get_workspace (or_else wid fresh)))))"

definition update_workspace_visual_binding ::
    "string \<Rightarrow> string \<Rightarrow> string \<Rightarrow> string \<Rightarrow> (fabric, PMWWorkspace option) op" where
  "update_workspace_visual_binding now wid visual_workspace visual_canvas =
     thenS (needS (\<lambda>J. get_workspace wid J \<noteq> None) KeyError)
     (thenS (modS (\<lambda>J. J\<lparr>fj_workspaces := update_rows (\<lambda>w. pw_workspace_id w = wid)
         (\<lambda>w. w\<lparr>pw_visual_workspace_id := Some visual_workspace, pw_visual_canvas_id := Some visual_canvas,
           pw_updated_at := now\<rparr>) (fj_workspaces J)\<rparr>))
       (getS (get_workspace wid)))"

definition list_workspaces :: "fabric \<Rightarrow> PMWWorkspace list" where
  "list_workspaces J = sort_key pw_created_at (fj_workspaces J)"

definition get_task :: "string \<Rightarrow> fabric \<Rightarrow> PMWTask option" where
  "get_task tid J = find (\<lambda>t. pt_task_id t = tid) (fj_tasks J)"

definition create_task ::
    "string \<Rightarrow> string \<Rightarrow> string \<Rightarrow> string \<Rightarrow> string \<Rightarrow> string list \<Rightarrow> string \<Rightarrow> dict \<Rightarrow> string option \<Rightarrow>
      (fabric, PMWTask option) op" where
  "create_task now fresh wid title created_by assigned status metadata tid =
     thenS (needS (\<lambda>J. get_workspace wid J \<noteq> None) KeyError)
     (thenS (needS (\<lambda>J. get_semantic_agent created_by J \<noteq> None) KeyError)
     (thenS (needS (\<lambda>J. list_all (\<lambda>a. get_semantic_agent a J \<noteq> None) assigned) KeyError)
     (bindS (liftS (dumped metadata)) (\<lambda>meta.
      thenS (executeS (\<lambda>J. or_else tid fresh \<notin> task_ids J \<and> wid \<in> workspace_ids J \<and> created_by \<in> agent_ids J)
        (\<lambda>J. J\<lparr>fj_tasks := fj_tasks J @ [\<lparr>pt_task_id = or_else tid fresh, pt_workspace_id = wid, pt_title = title,
          pt_status = status, pt_created_by = created_by, pt_assigned_to = assigned, pt_metadata = meta,
          pt_created_at = now, pt_updated_at = now\<rparr>]\<rparr>))
      (getS (get_task (or_else tid fresh)))))))"

section \<open>Resources\<close>

record resource_args =
  ra_provider :: string
  ra_resource_kind :: string
  ra_provider_resource_id :: string
  ra_display_mode :: string
  ra_interaction_mode :: string
  ra_owner :: "string option"
  ra_task_id :: "string option"
  ra_canvas_object_id :: "string option"
  ra_projection_mode :: string
  ra_state :: string
  ra_metadata :: dict

definition get_resource :: "string \<Rightarrow> fabric \<Rightarrow> ResourceBinding option" where
  "get_resource bid J = find (\<lambda>r. rb_binding_id r = bid) (fj_resources J)"

definition resource_key :: "ResourceBinding \<Rightarrow> string \<times> string \<times> string \<times> string" where
  "resource_key r = (rb_workspace_id r, rb_provider r, rb_resource_kind r, rb_provider_resource_id r)"

definition args_key :: "string \<Rightarrow> resource_args \<Rightarrow> string \<times> string \<times> string \<times> string" where
  "args_key wid a = (wid, ra_provider a, ra_resource_kind a, ra_provider_resource_id a)"

definition find_resource :: "string \<times> string \<times> string \<times> string \<Rightarrow> fabric \<Rightarrow> ResourceBinding option" where
  "find_resource key J = find (\<lambda>r. resource_key r = key) (fj_resources J)"

text \<open>\<open>if x and f(x) is None\<close>: an empty string passes as a missing one does.\<close>

definition given :: "string option \<Rightarrow> (string \<Rightarrow> bool) \<Rightarrow> bool" where
  "given x c \<longleftrightarrow> (case x of None \<Rightarrow> True | Some k \<Rightarrow> k = [] \<or> c k)"

definition bound_resource :: "string \<Rightarrow> string \<Rightarrow> string \<Rightarrow> resource_args \<Rightarrow> dict \<Rightarrow> ResourceBinding" where
  "bound_resource now bid wid a meta = \<lparr>rb_binding_id = bid, rb_workspace_id = wid, rb_provider = ra_provider a,
     rb_resource_kind = ra_resource_kind a, rb_provider_resource_id = ra_provider_resource_id a,
     rb_display_mode = ra_display_mode a, rb_interaction_mode = ra_interaction_mode a, rb_owner = ra_owner a,
     rb_task_id = ra_task_id a, rb_canvas_object_id = ra_canvas_object_id a, rb_projection_mode = ra_projection_mode a,
     rb_state = ra_state a, rb_metadata = meta, rb_revision = 0, rb_created_at = now, rb_updated_at = now\<rparr>"

definition bind_resource :: "string \<Rightarrow> string \<Rightarrow> string \<Rightarrow> resource_args \<Rightarrow> (fabric, ResourceBinding option) op" where
  "bind_resource now bid wid a =
     thenS (needS (\<lambda>J. get_workspace wid J \<noteq> None) KeyError)
     (thenS (needS (\<lambda>J. given (ra_owner a) (\<lambda>x. get_semantic_agent x J \<noteq> None)) KeyError)
     (thenS (needS (\<lambda>J. given (ra_task_id a) (\<lambda>x. case get_task x J of None \<Rightarrow> False | Some t \<Rightarrow> pt_workspace_id t = wid))
         (Coded ''ResourceConflictError''))
     (bindS (getS (find_resource (args_key wid a))) (\<lambda>existing. case existing of
        Some r \<Rightarrow> getS (get_resource (rb_binding_id r))
      | None \<Rightarrow> bindS (liftS (dumped (ra_metadata a))) (\<lambda>meta.
          thenS (executeS (\<lambda>J. bid \<notin> rb_binding_id ` set (fj_resources J) \<and> wid \<in> workspace_ids J
              \<and> refers (ra_owner a) (agent_ids J) \<and> refers (ra_task_id a) (task_ids J))
            (\<lambda>J. J\<lparr>fj_resources := fj_resources J @ [bound_resource now bid wid a meta]\<rparr>))
          (getS (get_resource bid)))))))"

definition update_resource_projection ::
    "string \<Rightarrow> string \<Rightarrow> string \<Rightarrow> string \<Rightarrow> string \<Rightarrow> dict \<Rightarrow> (fabric, ResourceBinding option) op" where
  "update_resource_projection now bid canvas_object mode state patch =
     bindS (getS (get_resource bid)) (\<lambda>found. case found of
        None \<Rightarrow> raiseS KeyError
      | Some r \<Rightarrow> bindS (liftS (dumped (dupdate (rb_metadata r) patch))) (\<lambda>meta.
          thenS (modS (\<lambda>J. J\<lparr>fj_resources := update_rows (\<lambda>r. rb_binding_id r = bid)
              (\<lambda>r. r\<lparr>rb_canvas_object_id := Some canvas_object, rb_projection_mode := mode, rb_state := state,
                rb_metadata := meta, rb_revision := rb_revision r + 1, rb_updated_at := now\<rparr>) (fj_resources J)\<rparr>))
          (getS (get_resource bid))))"

definition list_resources :: "string \<Rightarrow> fabric \<Rightarrow> ResourceBinding list" where
  "list_resources wid J = sort_key rb_created_at (filter (\<lambda>r. rb_workspace_id r = wid) (fj_resources J))"

section \<open>Decisions and provenance\<close>

definition PMW_DECISIONS :: "string list" where
  "PMW_DECISIONS = [''ACK'', ''NO_ACTION'', ''ACTION'', ''ERROR'']"

text \<open>\<open>record_decision\<close> of a receipt whose id and time are the new ones.\<close>

definition record_decision :: "DecisionReceipt \<Rightarrow> (fabric, DecisionReceipt) op" where
  "record_decision r =
     thenS (needS (\<lambda>J. dr_decision r \<in> set PMW_DECISIONS) ValueError)
     (thenS (needS (\<lambda>J. get_semantic_agent (dr_semantic_agent_id r) J \<noteq> None) KeyError)
     (thenS (needS (\<lambda>J. get_workspace (dr_workspace_id r) J \<noteq> None) KeyError)
     (thenS (executeS (\<lambda>J. dr_receipt_id r \<notin> dr_receipt_id ` set (fj_decisions J)
         \<and> dr_semantic_agent_id r \<in> agent_ids J \<and> dr_workspace_id r \<in> workspace_ids J \<and> refers (dr_task_id r) (task_ids J))
       (\<lambda>J. J\<lparr>fj_decisions := fj_decisions J @ [r]\<rparr>))
     (retS r))))"

definition list_decisions :: "string \<Rightarrow> fabric \<Rightarrow> DecisionReceipt list" where
  "list_decisions wid J = sort_key dr_created_at (filter (\<lambda>r. dr_workspace_id r = wid) (fj_decisions J))"

definition record_provenance :: "ProvenanceRef \<Rightarrow> (fabric, string) op" where
  "record_provenance p =
     bindS (liftS (dumped (pv_payload p))) (\<lambda>payload.
     thenS (executeS (\<lambda>J. pv_provenance_id p \<notin> pv_provenance_id ` set (fj_provenance J))
       (\<lambda>J. J\<lparr>fj_provenance := fj_provenance J @ [p\<lparr>pv_payload := payload\<rparr>]\<rparr>))
     (retS (pv_provenance_id p)))"

section \<open>The integrity of the tables\<close>

definition agents_ok :: "SemanticAgent list \<Rightarrow> bool" where
  "agents_ok rows \<longleftrightarrow> distinct (map sa_semantic_agent_id rows) \<and> (\<forall>r\<in>set rows. sa_kind r \<in> set KINDS)"

definition bindings_ok :: "string set \<Rightarrow> ProviderBinding list \<Rightarrow> bool" where
  "bindings_ok agents rows \<longleftrightarrow> distinct (map pb_binding_id rows) \<and> distinct (map binding_key rows)
     \<and> (\<forall>b\<in>set rows. pb_semantic_agent_id b \<in> agents)"

definition workspaces_ok :: "string set \<Rightarrow> PMWWorkspace list \<Rightarrow> bool" where
  "workspaces_ok agents rows \<longleftrightarrow> distinct (map pw_workspace_id rows) \<and> (\<forall>w\<in>set rows. pw_created_by w \<in> agents)"

definition tasks_ok :: "string set \<Rightarrow> string set \<Rightarrow> PMWTask list \<Rightarrow> bool" where
  "tasks_ok agents workspaces rows \<longleftrightarrow> distinct (map pt_task_id rows)
     \<and> (\<forall>t\<in>set rows. pt_workspace_id t \<in> workspaces \<and> pt_created_by t \<in> agents \<and> set (pt_assigned_to t) \<subseteq> agents)"

text \<open>A resource belongs to its workspace together with its task.\<close>

definition resources_ok :: "string set \<Rightarrow> string set \<Rightarrow> PMWTask list \<Rightarrow> ResourceBinding list \<Rightarrow> bool" where
  "resources_ok agents workspaces tasks rows \<longleftrightarrow> distinct (map rb_binding_id rows) \<and> distinct (map resource_key rows)
     \<and> (\<forall>r\<in>set rows. rb_workspace_id r \<in> workspaces \<and> refers (rb_owner r) agents \<and> 0 \<le> rb_revision r
        \<and> (\<forall>k. rb_task_id r = Some k \<longrightarrow> (\<exists>t\<in>set tasks. pt_task_id t = k \<and> (k \<noteq> [] \<longrightarrow> pt_workspace_id t = rb_workspace_id r))))"

definition decisions_ok :: "string set \<Rightarrow> string set \<Rightarrow> string set \<Rightarrow> DecisionReceipt list \<Rightarrow> bool" where
  "decisions_ok agents workspaces tasks rows \<longleftrightarrow> distinct (map dr_receipt_id rows)
     \<and> (\<forall>d\<in>set rows. dr_semantic_agent_id d \<in> agents \<and> dr_workspace_id d \<in> workspaces \<and> refers (dr_task_id d) tasks
        \<and> dr_decision d \<in> set PMW_DECISIONS)"

definition fabric_ok :: "fabric \<Rightarrow> bool" where
  "fabric_ok J \<longleftrightarrow> agents_ok (fj_agents J) \<and> bindings_ok (agent_ids J) (fj_bindings J)
     \<and> workspaces_ok (agent_ids J) (fj_workspaces J) \<and> tasks_ok (agent_ids J) (workspace_ids J) (fj_tasks J)
     \<and> resources_ok (agent_ids J) (workspace_ids J) (fj_tasks J) (fj_resources J)
     \<and> decisions_ok (agent_ids J) (workspace_ids J) (task_ids J) (fj_decisions J)
     \<and> distinct (map pv_provenance_id (fj_provenance J))"

end
