(* ===== verification/Pmw_Runs.thy ===== *)
theory Pmw_Runs
  imports Pmw_Journal
begin

text \<open>
  What every operation of the fabric journal keeps, and the runs of the operations: the integrity of
  the tables, and the rows that are never dropped and keep their identity columns.
\<close>

section \<open>Rules for the statements\<close>

lemma wp_needS [wp_rules]: "wp (needS c e) Q E J = (if c J then Q () J else E e J)"
  by (simp add: wp_def needS_def)

lemma wp_executeS [wp_rules]: "wp (executeS c f) Q E J = (if c J then Q () (f J) else E IntegrityError J)"
  by (simp add: wp_def executeS_def)

lemma find_None_key: "find (\<lambda>r. k r = x) rows = None \<longleftrightarrow> x \<notin> k ` set rows"
  by (auto simp: find_None_iff)

lemma find_Some_key: "find (\<lambda>r. k r = x) rows = Some r \<Longrightarrow> r \<in> set rows \<and> k r = x"
  by (auto simp: find_Some_iff in_set_conv_nth)

lemma update_rows_key: "(\<And>r. c r \<Longrightarrow> k (f r) = k r) \<Longrightarrow> map k (update_rows c f rows) = map k rows"
  by (simp add: update_rows_def)

lemma update_rows_set: "set (update_rows c f rows) = (\<lambda>r. if c r then f r else r) ` set rows"
  by (simp add: update_rows_def)

lemma update_rows_all:
  "(\<And>r. r \<in> set rows \<Longrightarrow> c r \<Longrightarrow> P r \<Longrightarrow> P (f r)) \<Longrightarrow> \<forall>r\<in>set rows. P r \<Longrightarrow> \<forall>r\<in>set (update_rows c f rows). P r"
  by (auto simp: update_rows_set)

section \<open>Rows that stay\<close>

text \<open>A table after some statements: the rows there were, each related by \<open>R\<close> to its row now, and new ones.\<close>

definition grown :: "('r \<Rightarrow> 'r \<Rightarrow> bool) \<Rightarrow> 'r list \<Rightarrow> 'r list \<Rightarrow> bool" where
  "grown R rows rows' \<longleftrightarrow> (\<exists>new. list_all2 R rows (take (length rows) rows') \<and> rows' = take (length rows) rows' @ new)"

lemma grown_refl: "(\<And>r. R r r) \<Longrightarrow> grown R rows rows"
  by (auto simp: grown_def intro: list_all2_refl)

lemma grown_append: "(\<And>r. R r r) \<Longrightarrow> grown R rows (rows @ new)"
  by (auto simp: grown_def intro: list_all2_refl)

lemma grown_update: "(\<And>r. R r r) \<Longrightarrow> (\<And>r. r \<in> set rows \<Longrightarrow> c r \<Longrightarrow> R r (f r)) \<Longrightarrow> grown R rows (update_rows c f rows)"
  by (auto simp: grown_def update_rows_def list_all2_conv_all_nth)

lemma grown_nth: "grown R rows rows' \<longleftrightarrow> length rows \<le> length rows' \<and> (\<forall>i<length rows. R (rows ! i) (rows' ! i))"
  (is "?l \<longleftrightarrow> ?r")
proof
  assume ?l
  then have "length rows = length (take (length rows) rows')" "\<forall>i<length rows. R (rows ! i) (take (length rows) rows' ! i)"
    by (auto simp: grown_def list_all2_conv_all_nth)
  then show ?r by (simp add: min_def split: if_splits)
next
  assume r: ?r
  then have "list_all2 R rows (take (length rows) rows')" by (simp add: list_all2_conv_all_nth)
  moreover have "rows' = take (length rows) rows' @ drop (length rows) rows'" by simp
  ultimately show ?l unfolding grown_def by blast
qed

lemma grown_trans: "transp R \<Longrightarrow> grown R xs ys \<Longrightarrow> grown R ys zs \<Longrightarrow> grown R xs zs"
  unfolding grown_nth by (meson order.strict_trans2 order.trans transpD)

lemma grown_find:
  assumes "grown R rows rows'" and "\<And>r r'. R r r' \<Longrightarrow> k r' = k r" and "distinct (map k rows')"
    and "find (\<lambda>r. k r = x) rows = Some r"
  shows "\<exists>r'. find (\<lambda>r. k r = x) rows' = Some r' \<and> R r r'"
proof -
  from assms(4) obtain i where i: "i < length rows" "rows ! i = r" "k r = x"
    by (auto simp: find_Some_iff)
  with assms(1) have le: "i < length rows'" and "R r (rows' ! i)" by (auto simp: grown_nth)
  with assms(2) i(3) have k: "k (rows' ! i) = x" by simp
  from find_by_key[OF assms(3) nth_mem[OF le]] k have "find (\<lambda>y. k y = x) rows' = Some (rows' ! i)" by simp
  with \<open>R r (rows' ! i)\<close> show ?thesis by blast
qed

definition same_agent :: "SemanticAgent \<Rightarrow> SemanticAgent \<Rightarrow> bool" where
  "same_agent r r' \<longleftrightarrow> sa_semantic_agent_id r' = sa_semantic_agent_id r \<and> sa_kind r' = sa_kind r
     \<and> sa_created_at r' = sa_created_at r"

definition same_binding :: "ProviderBinding \<Rightarrow> ProviderBinding \<Rightarrow> bool" where
  "same_binding b b' \<longleftrightarrow> pb_binding_id b' = pb_binding_id b \<and> binding_key b' = binding_key b
     \<and> pb_semantic_agent_id b' = pb_semantic_agent_id b \<and> pb_created_at b' = pb_created_at b"

definition same_workspace :: "PMWWorkspace \<Rightarrow> PMWWorkspace \<Rightarrow> bool" where
  "same_workspace w w' \<longleftrightarrow> w' = w\<lparr>pw_visual_workspace_id := pw_visual_workspace_id w',
     pw_visual_canvas_id := pw_visual_canvas_id w', pw_updated_at := pw_updated_at w'\<rparr>"

definition same_resource :: "ResourceBinding \<Rightarrow> ResourceBinding \<Rightarrow> bool" where
  "same_resource r r' \<longleftrightarrow> rb_binding_id r' = rb_binding_id r \<and> resource_key r' = resource_key r
     \<and> rb_owner r' = rb_owner r \<and> rb_task_id r' = rb_task_id r \<and> rb_created_at r' = rb_created_at r
     \<and> (rb_revision r < rb_revision r' \<or> r' = r)"

definition advances :: "fabric \<Rightarrow> fabric \<Rightarrow> bool" where
  "advances J J' \<longleftrightarrow> grown same_agent (fj_agents J) (fj_agents J')
     \<and> grown same_workspace (fj_workspaces J) (fj_workspaces J') \<and> grown (=) (fj_tasks J) (fj_tasks J')
     \<and> grown same_resource (fj_resources J) (fj_resources J') \<and> grown (=) (fj_decisions J) (fj_decisions J')
     \<and> grown (=) (fj_provenance J) (fj_provenance J')"

definition keeps_bindings :: "fabric \<Rightarrow> fabric \<Rightarrow> bool" where
  "keeps_bindings J J' \<longleftrightarrow> grown same_binding (fj_bindings J) (fj_bindings J')"

lemmas same_defs = same_agent_def same_binding_def same_workspace_def same_resource_def

lemma same_refl [simp]: "same_agent r r" "same_binding b b" "same_workspace w w" "same_resource s s"
  by (simp_all add: same_defs)

lemma same_transp: "transp same_agent" "transp same_binding" "transp same_workspace" "transp same_resource"
proof -
  show "transp same_workspace"
  proof (rule transpI)
    fix x y z assume "same_workspace x y" "same_workspace y z"
    then show "same_workspace x z" by (cases x; cases y; cases z) (simp add: same_workspace_def)
  qed
qed (rule transpI; auto simp: same_agent_def same_binding_def same_resource_def)+

lemma advances_refl [simp]: "advances J J"
  by (simp add: advances_def grown_refl)

lemma advances_trans: "advances J J' \<Longrightarrow> advances J' J'' \<Longrightarrow> advances J J''"
  unfolding advances_def by (meson grown_trans same_transp transp_on_equality)

lemma keeps_bindings_refl [simp]: "keeps_bindings J J"
  by (simp add: keeps_bindings_def grown_refl)

lemma keeps_bindings_trans: "keeps_bindings J J' \<Longrightarrow> keeps_bindings J' J'' \<Longrightarrow> keeps_bindings J J''"
  unfolding keeps_bindings_def by (meson grown_trans same_transp)


section \<open>Replacing one table\<close>

lemma refers_mono: "refers x K \<Longrightarrow> K \<subseteq> K' \<Longrightarrow> refers x K'"
  by (auto simp: refers_def split: option.splits)

lemma bindings_ok_mono: "bindings_ok A rows \<Longrightarrow> A \<subseteq> A' \<Longrightarrow> bindings_ok A' rows"
  by (auto simp: bindings_ok_def)

lemma workspaces_ok_mono: "workspaces_ok A rows \<Longrightarrow> A \<subseteq> A' \<Longrightarrow> workspaces_ok A' rows"
  by (auto simp: workspaces_ok_def)

lemma tasks_ok_mono: "tasks_ok A W rows \<Longrightarrow> A \<subseteq> A' \<Longrightarrow> W \<subseteq> W' \<Longrightarrow> tasks_ok A' W' rows"
  by (auto simp: tasks_ok_def)

lemma resources_ok_mono:
  "resources_ok A W ts rows \<Longrightarrow> A \<subseteq> A' \<Longrightarrow> W \<subseteq> W' \<Longrightarrow> set ts \<subseteq> set ts' \<Longrightarrow> resources_ok A' W' ts' rows"
  unfolding resources_ok_def by (meson refers_mono subsetD)

lemma decisions_ok_mono:
  "decisions_ok A W T rows \<Longrightarrow> A \<subseteq> A' \<Longrightarrow> W \<subseteq> W' \<Longrightarrow> T \<subseteq> T' \<Longrightarrow> decisions_ok A' W' T' rows"
  unfolding decisions_ok_def by (meson refers_mono subsetD)

lemma fabric_ok_parts:
  assumes "fabric_ok J"
  shows "agents_ok (fj_agents J)" and "bindings_ok (agent_ids J) (fj_bindings J)"
    and "workspaces_ok (agent_ids J) (fj_workspaces J)" and "tasks_ok (agent_ids J) (workspace_ids J) (fj_tasks J)"
    and "resources_ok (agent_ids J) (workspace_ids J) (fj_tasks J) (fj_resources J)"
    and "decisions_ok (agent_ids J) (workspace_ids J) (task_ids J) (fj_decisions J)"
    and "distinct (map pv_provenance_id (fj_provenance J))"
  using assms unfolding fabric_ok_def by blast+

lemma ids_of_tables [simp]:
  "agent_ids (J\<lparr>fj_agents := as\<rparr>) = sa_semantic_agent_id ` set as"
  "agent_ids (J\<lparr>fj_bindings := bs\<rparr>) = agent_ids J" "agent_ids (J\<lparr>fj_workspaces := ws\<rparr>) = agent_ids J"
  "agent_ids (J\<lparr>fj_tasks := ts\<rparr>) = agent_ids J" "agent_ids (J\<lparr>fj_resources := rs\<rparr>) = agent_ids J"
  "agent_ids (J\<lparr>fj_decisions := ds\<rparr>) = agent_ids J" "agent_ids (J\<lparr>fj_provenance := ps\<rparr>) = agent_ids J"
  "workspace_ids (J\<lparr>fj_workspaces := ws\<rparr>) = pw_workspace_id ` set ws"
  "workspace_ids (J\<lparr>fj_agents := as\<rparr>) = workspace_ids J" "workspace_ids (J\<lparr>fj_bindings := bs\<rparr>) = workspace_ids J"
  "workspace_ids (J\<lparr>fj_tasks := ts\<rparr>) = workspace_ids J" "workspace_ids (J\<lparr>fj_resources := rs\<rparr>) = workspace_ids J"
  "workspace_ids (J\<lparr>fj_decisions := ds\<rparr>) = workspace_ids J" "workspace_ids (J\<lparr>fj_provenance := ps\<rparr>) = workspace_ids J"
  "task_ids (J\<lparr>fj_tasks := ts\<rparr>) = pt_task_id ` set ts"
  "task_ids (J\<lparr>fj_agents := as\<rparr>) = task_ids J" "task_ids (J\<lparr>fj_bindings := bs\<rparr>) = task_ids J"
  "task_ids (J\<lparr>fj_workspaces := ws\<rparr>) = task_ids J" "task_ids (J\<lparr>fj_resources := rs\<rparr>) = task_ids J"
  "task_ids (J\<lparr>fj_decisions := ds\<rparr>) = task_ids J" "task_ids (J\<lparr>fj_provenance := ps\<rparr>) = task_ids J"
  by (simp_all add: agent_ids_def workspace_ids_def task_ids_def)

lemma fabric_ok_agents:
  assumes "fabric_ok J" and "agents_ok rows" and "agent_ids J \<subseteq> sa_semantic_agent_id ` set rows"
  shows "fabric_ok (J\<lparr>fj_agents := rows\<rparr>)"
  using assms unfolding fabric_ok_def
  by (auto intro: bindings_ok_mono workspaces_ok_mono tasks_ok_mono resources_ok_mono decisions_ok_mono)

lemma fabric_ok_bindings: "fabric_ok J \<Longrightarrow> bindings_ok (agent_ids J) rows \<Longrightarrow> fabric_ok (J\<lparr>fj_bindings := rows\<rparr>)"
  by (simp add: fabric_ok_def)

lemma fabric_ok_workspaces:
  assumes "fabric_ok J" and "workspaces_ok (agent_ids J) rows" and "workspace_ids J \<subseteq> pw_workspace_id ` set rows"
  shows "fabric_ok (J\<lparr>fj_workspaces := rows\<rparr>)"
  using assms unfolding fabric_ok_def by (auto intro: tasks_ok_mono resources_ok_mono decisions_ok_mono)

lemma fabric_ok_tasks:
  assumes "fabric_ok J" and "tasks_ok (agent_ids J) (workspace_ids J) rows" and "set (fj_tasks J) \<subseteq> set rows"
  shows "fabric_ok (J\<lparr>fj_tasks := rows\<rparr>)"
proof -
  from assms(3) have "task_ids J \<subseteq> pt_task_id ` set rows" by (auto simp: task_ids_def)
  with assms show ?thesis unfolding fabric_ok_def by (auto intro: resources_ok_mono decisions_ok_mono)
qed

lemma fabric_ok_resources:
  "fabric_ok J \<Longrightarrow> resources_ok (agent_ids J) (workspace_ids J) (fj_tasks J) rows \<Longrightarrow> fabric_ok (J\<lparr>fj_resources := rows\<rparr>)"
  by (simp add: fabric_ok_def)

lemma fabric_ok_decisions:
  "fabric_ok J \<Longrightarrow> decisions_ok (agent_ids J) (workspace_ids J) (task_ids J) rows \<Longrightarrow> fabric_ok (J\<lparr>fj_decisions := rows\<rparr>)"
  by (simp add: fabric_ok_def)

lemma fabric_ok_provenance: "fabric_ok J \<Longrightarrow> distinct (map pv_provenance_id rows) \<Longrightarrow> fabric_ok (J\<lparr>fj_provenance := rows\<rparr>)"
  by (simp add: fabric_ok_def)

lemma get_ids:
  "get_semantic_agent a J \<noteq> None \<longleftrightarrow> a \<in> agent_ids J" "get_semantic_agent a J = None \<longleftrightarrow> a \<notin> agent_ids J"
  "get_workspace w J \<noteq> None \<longleftrightarrow> w \<in> workspace_ids J" "get_workspace w J = None \<longleftrightarrow> w \<notin> workspace_ids J"
  "get_task t J \<noteq> None \<longleftrightarrow> t \<in> task_ids J" "get_task t J = None \<longleftrightarrow> t \<notin> task_ids J"
  by (simp_all add: get_semantic_agent_def get_workspace_def get_task_def agent_ids_def workspace_ids_def task_ids_def
      find_None_key not_None_eq[symmetric] del: not_None_eq)

section \<open>Every operation\<close>

text \<open>Integrity and the rows that stay, whatever the operation returns or raises.\<close>

definition sound_op :: "(fabric, 'a) op \<Rightarrow> bool" where
  "sound_op m \<longleftrightarrow> (\<forall>J. fabric_ok J \<longrightarrow> wp m (\<lambda>_ J'. fabric_ok J' \<and> advances J J') (\<lambda>_ J'. fabric_ok J' \<and> advances J J') J)"

lemma sound_opI:
  assumes "\<And>J. fabric_ok J \<Longrightarrow> wp m (\<lambda>_ J'. fabric_ok J' \<and> advances J J') (\<lambda>_ J'. fabric_ok J' \<and> advances J J') J"
  shows "sound_op m"
  using assms by (simp add: sound_op_def)

lemma sound_opD: "sound_op m \<Longrightarrow> fabric_ok J \<Longrightarrow> fabric_ok (fst (m J)) \<and> advances J (fst (m J))"
  by (cases "m J"; cases "snd (m J)") (auto simp: sound_op_def wp_def)

lemma advances_one:
  "grown same_agent (fj_agents J) as \<Longrightarrow> advances J (J\<lparr>fj_agents := as\<rparr>)"
  "advances J (J\<lparr>fj_bindings := bs\<rparr>)"
  "grown same_workspace (fj_workspaces J) ws \<Longrightarrow> advances J (J\<lparr>fj_workspaces := ws\<rparr>)"
  "grown (=) (fj_tasks J) ts \<Longrightarrow> advances J (J\<lparr>fj_tasks := ts\<rparr>)"
  "grown same_resource (fj_resources J) rs \<Longrightarrow> advances J (J\<lparr>fj_resources := rs\<rparr>)"
  "grown (=) (fj_decisions J) ds \<Longrightarrow> advances J (J\<lparr>fj_decisions := ds\<rparr>)"
  "grown (=) (fj_provenance J) ps \<Longrightarrow> advances J (J\<lparr>fj_provenance := ps\<rparr>)"
  by (simp_all add: advances_def grown_refl)

lemma distinct_snoc_key: "distinct (map k rows) \<Longrightarrow> k r \<notin> k ` set rows \<Longrightarrow> distinct (map k (rows @ [r]))"
  by auto

lemma upsert_sound: "sound_op (upsert_semantic_agent now aid kind name role)"
proof (rule sound_opI)
  fix J assume ok: "fabric_ok J"
  define new where "new = \<lparr>sa_semantic_agent_id = aid, sa_kind = kind, sa_display_name = or_else name aid, sa_role = role,
    sa_created_at = now, sa_updated_at = now\<rparr>"
  define put where "put = (\<lambda>r. r\<lparr>sa_display_name := or_else name aid, sa_role := role, sa_updated_at := now\<rparr> :: SemanticAgent)"
  have put: "sa_semantic_agent_id (put r) = sa_semantic_agent_id r" "sa_kind (put r) = sa_kind r" "same_agent r (put r)" for r
    by (simp_all add: put_def same_agent_def)
  let ?ins = "fj_agents J @ [new]"
  let ?upd = "update_rows (\<lambda>r. sa_semantic_agent_id r = aid) put (fj_agents J)"
  have ins: "fabric_ok (J\<lparr>fj_agents := ?ins\<rparr>) \<and> advances J (J\<lparr>fj_agents := ?ins\<rparr>)"
    if "get_semantic_agent aid J = None" "kind \<in> set KINDS"
  proof
    from that fabric_ok_parts(1)[OF ok] have "agents_ok ?ins"
      unfolding agents_ok_def get_ids by (auto simp: new_def agent_ids_def)
    then show "fabric_ok (J\<lparr>fj_agents := ?ins\<rparr>)" by (rule fabric_ok_agents[OF ok]) (auto simp: agent_ids_def)
  qed (rule advances_one, rule grown_append, simp)
  have upd: "fabric_ok (J\<lparr>fj_agents := ?upd\<rparr>) \<and> advances J (J\<lparr>fj_agents := ?upd\<rparr>)"
  proof
    have keys: "map sa_semantic_agent_id ?upd = map sa_semantic_agent_id (fj_agents J)"
      by (rule update_rows_key) (rule put)
    with fabric_ok_parts(1)[OF ok] have "agents_ok ?upd"
      unfolding agents_ok_def by (simp only: keys) (auto simp: update_rows_set put)
    moreover from arg_cong[OF keys, of set] have "agent_ids J \<subseteq> sa_semantic_agent_id ` set ?upd"
      by (simp add: agent_ids_def)
    ultimately show "fabric_ok (J\<lparr>fj_agents := ?upd\<rparr>)" by (rule fabric_ok_agents[OF ok])
  qed (rule advances_one, rule grown_update, simp, rule put)
  show "wp (upsert_semantic_agent now aid kind name role) (\<lambda>_ J'. fabric_ok J' \<and> advances J J')
    (\<lambda>_ J'. fabric_ok J' \<and> advances J J') J"
    using ins upd ok by (simp add: upsert_semantic_agent_def wp_rules new_def put_def split: option.split)
qed

lemma store_binding_ok:
  assumes ok: "fabric_ok J" and agent: "pb_semantic_agent_id b \<in> agent_ids J"
    and key: "\<And>b'. find_binding (binding_key b) J = Some b' \<Longrightarrow> pb_binding_id b' = pb_binding_id b"
  shows "fabric_ok (store_binding b J)"
proof -
  have bs: "bindings_ok (agent_ids J) (fj_bindings J)" by (rule fabric_ok_parts[OF ok])
  show ?thesis
  proof (cases "get_provider_binding (pb_binding_id b) J = None")
    case True
    then have id: "pb_binding_id b \<notin> pb_binding_id ` set (fj_bindings J)"
      by (simp add: get_provider_binding_def find_None_key)
    have "find_binding (binding_key b) J = None"
    proof (rule ccontr)
      assume "find_binding (binding_key b) J \<noteq> None"
      then obtain b' where "find_binding (binding_key b) J = Some b'" by blast
      then have "b' \<in> set (fj_bindings J)" unfolding find_binding_def by (blast dest: find_Some_key)
      with id key[OF \<open>find_binding (binding_key b) J = Some b'\<close>] show False by (metis image_eqI)
    qed
    then have "binding_key b \<notin> binding_key ` set (fj_bindings J)" by (simp add: find_binding_def find_None_key)
    with bs id have "distinct (map pb_binding_id (fj_bindings J @ [b]))" "distinct (map binding_key (fj_bindings J @ [b]))"
      unfolding bindings_ok_def by (blast intro: distinct_snoc_key)+
    with bs agent have "bindings_ok (agent_ids J) (fj_bindings J @ [b])" by (simp add: bindings_ok_def)
    with True show ?thesis by (simp add: store_binding_def fabric_ok_bindings[OF ok])
  next
    case False
    define put where "put = (\<lambda>r. r\<lparr>pb_semantic_agent_id := pb_semantic_agent_id b, pb_verified := pb_verified b,
      pb_native_session_id := pb_native_session_id b, pb_metadata := pb_metadata b, pb_updated_at := pb_updated_at b\<rparr>
      :: ProviderBinding)"
    have put: "pb_binding_id (put r) = pb_binding_id r" "binding_key (put r) = binding_key r"
      "pb_semantic_agent_id (put r) = pb_semantic_agent_id b" for r
      by (simp_all add: put_def binding_key_def)
    let ?upd = "update_rows (\<lambda>r. pb_binding_id r = pb_binding_id b) put (fj_bindings J)"
    have "map pb_binding_id ?upd = map pb_binding_id (fj_bindings J)" "map binding_key ?upd = map binding_key (fj_bindings J)"
      by (rule update_rows_key, rule put)+
    moreover have "\<forall>r\<in>set ?upd. pb_semantic_agent_id r \<in> agent_ids J"
      using bs agent by (intro update_rows_all) (simp_all add: put bindings_ok_def)
    ultimately have "bindings_ok (agent_ids J) ?upd" using bs by (simp add: bindings_ok_def)
    moreover from False have "store_binding b J = J\<lparr>fj_bindings := ?upd\<rparr>"
      unfolding store_binding_def put_def by (rule if_not_P)
    ultimately show ?thesis by (simp only: fabric_ok_bindings[OF ok])
  qed
qed

lemma store_binding_advances: "advances J (store_binding b J)"
  by (simp add: store_binding_def advances_one)

lemma store_binding_keeps:
  assumes "get_provider_binding (pb_binding_id b) J = None
    \<or> (\<exists>b'. find_binding (binding_key b) J = Some b' \<and> pb_binding_id b' = pb_binding_id b
        \<and> pb_semantic_agent_id b' = pb_semantic_agent_id b)"
    and ok: "fabric_ok J"
  shows "keeps_bindings J (store_binding b J)"
proof (cases "get_provider_binding (pb_binding_id b) J = None")
  case True
  then show ?thesis by (simp add: store_binding_def keeps_bindings_def grown_append)
next
  case False
  with assms obtain b' where b': "b' \<in> set (fj_bindings J)" "pb_binding_id b' = pb_binding_id b"
    "pb_semantic_agent_id b' = pb_semantic_agent_id b"
    unfolding find_binding_def by (blast dest: find_Some_key)
  have "pb_semantic_agent_id r = pb_semantic_agent_id b" if "r \<in> set (fj_bindings J)" "pb_binding_id r = pb_binding_id b" for r
  proof -
    from fabric_ok_parts(2)[OF ok] have "inj_on pb_binding_id (set (fj_bindings J))"
      by (simp add: bindings_ok_def distinct_map)
    with that b' have "r = b'" by (metis inj_onD)
    with b' show ?thesis by simp
  qed
  then show ?thesis
    unfolding keeps_bindings_def store_binding_def if_not_P[OF False]
    by (simp, intro grown_update) (auto simp: same_binding_def binding_key_def)
qed

lemma bind_agent_sound: "sound_op (bind_semantic_agent now bid aid key verified native metadata)"
proof (rule sound_opI)
  fix J assume ok: "fabric_ok J"
  have put: "fabric_ok (store_binding b J)" if "pb_semantic_agent_id b \<in> agent_ids J" "binding_key b = key"
    "case find_binding key J of None \<Rightarrow> True | Some b' \<Rightarrow> pb_binding_id b' = pb_binding_id b" for b
    using that by (intro store_binding_ok ok) simp_all
  show "wp (bind_semantic_agent now bid aid key verified native metadata) (\<lambda>_ J'. fabric_ok J' \<and> advances J J')
    (\<lambda>_ J'. fabric_ok J' \<and> advances J J') J"
    using ok by (auto simp: bind_semantic_agent_def wp_rules Let_def binding_key_def store_binding_advances
        get_ids intro!: put split: option.split sum.split)
qed

lemma workspace_sound: "sound_op (create_workspace now fresh title created_by wid provider vw vc metadata)"
proof (rule sound_opI)
  fix J assume ok: "fabric_ok J"
  have ins: "fabric_ok (J\<lparr>fj_workspaces := fj_workspaces J @ [w]\<rparr>) \<and> advances J (J\<lparr>fj_workspaces := fj_workspaces J @ [w]\<rparr>)"
    if "pw_workspace_id w \<notin> workspace_ids J" "pw_created_by w \<in> agent_ids J" for w
  proof
    from that fabric_ok_parts(3)[OF ok] have "workspaces_ok (agent_ids J) (fj_workspaces J @ [w])"
      by (auto simp: workspaces_ok_def workspace_ids_def)
    then show "fabric_ok (J\<lparr>fj_workspaces := fj_workspaces J @ [w]\<rparr>)"
      by (rule fabric_ok_workspaces[OF ok]) (auto simp: workspace_ids_def)
  qed (rule advances_one, rule grown_append, simp)
  show "wp (create_workspace now fresh title created_by wid provider vw vc metadata)
    (\<lambda>_ J'. fabric_ok J' \<and> advances J J') (\<lambda>_ J'. fabric_ok J' \<and> advances J J') J"
    using ok by (simp add: create_workspace_def wp_rules ins split: sum.split)
qed

lemma visual_binding_sound: "sound_op (update_workspace_visual_binding now wid vw vc)"
proof (rule sound_opI)
  fix J assume ok: "fabric_ok J"
  define put where "put = (\<lambda>w. w\<lparr>pw_visual_workspace_id := Some vw, pw_visual_canvas_id := Some vc, pw_updated_at := now\<rparr>
    :: PMWWorkspace)"
  have put: "pw_workspace_id (put w) = pw_workspace_id w" "pw_created_by (put w) = pw_created_by w" "same_workspace w (put w)" for w
    by (simp_all add: put_def same_workspace_def)
  let ?upd = "update_rows (\<lambda>w. pw_workspace_id w = wid) put (fj_workspaces J)"
  have keys: "map pw_workspace_id ?upd = map pw_workspace_id (fj_workspaces J)" by (rule update_rows_key) (rule put)
  moreover from fabric_ok_parts(3)[OF ok] have "\<forall>w\<in>set ?upd. pw_created_by w \<in> agent_ids J"
    by (intro update_rows_all) (simp_all add: put workspaces_ok_def)
  ultimately have rows: "workspaces_ok (agent_ids J) ?upd"
    using fabric_ok_parts(3)[OF ok] by (simp add: workspaces_ok_def)
  from arg_cong[OF keys, of set] have "workspace_ids J \<subseteq> pw_workspace_id ` set ?upd" by (simp add: workspace_ids_def)
  from fabric_ok_workspaces[OF ok rows this] have "fabric_ok (J\<lparr>fj_workspaces := ?upd\<rparr>)" .
  moreover have "advances J (J\<lparr>fj_workspaces := ?upd\<rparr>)" by (rule advances_one, rule grown_update, simp, rule put)
  ultimately show "wp (update_workspace_visual_binding now wid vw vc)
    (\<lambda>_ J'. fabric_ok J' \<and> advances J J') (\<lambda>_ J'. fabric_ok J' \<and> advances J J') J"
    using ok by (simp add: update_workspace_visual_binding_def wp_rules put_def)
qed

lemma task_sound: "sound_op (create_task now fresh wid title created_by assigned status metadata tid)"
proof (rule sound_opI)
  fix J assume ok: "fabric_ok J"
  have ins: "fabric_ok (J\<lparr>fj_tasks := fj_tasks J @ [t]\<rparr>) \<and> advances J (J\<lparr>fj_tasks := fj_tasks J @ [t]\<rparr>)"
    if "pt_task_id t \<notin> task_ids J" "pt_workspace_id t \<in> workspace_ids J" "pt_created_by t \<in> agent_ids J"
      "list_all (\<lambda>a. a \<in> agent_ids J) (pt_assigned_to t)" for t
  proof
    from that fabric_ok_parts(4)[OF ok] have "tasks_ok (agent_ids J) (workspace_ids J) (fj_tasks J @ [t])"
      by (auto simp: tasks_ok_def task_ids_def list_all_iff)
    then show "fabric_ok (J\<lparr>fj_tasks := fj_tasks J @ [t]\<rparr>)" by (rule fabric_ok_tasks[OF ok]) auto
  qed (rule advances_one, rule grown_append, simp)
  show "wp (create_task now fresh wid title created_by assigned status metadata tid)
    (\<lambda>_ J'. fabric_ok J' \<and> advances J J') (\<lambda>_ J'. fabric_ok J' \<and> advances J J') J"
    using ok by (simp add: create_task_def wp_rules ins get_ids del: not_None_eq split: sum.split)
qed

lemma decision_sound: "sound_op (record_decision r)"
proof (rule sound_opI)
  fix J assume ok: "fabric_ok J"
  let ?rows = "fj_decisions J @ [r]"
  have ins: "fabric_ok (J\<lparr>fj_decisions := ?rows\<rparr>) \<and> advances J (J\<lparr>fj_decisions := ?rows\<rparr>)"
    if "dr_receipt_id r \<notin> dr_receipt_id ` set (fj_decisions J)" "dr_semantic_agent_id r \<in> agent_ids J"
      "dr_workspace_id r \<in> workspace_ids J" "refers (dr_task_id r) (task_ids J)" "dr_decision r \<in> set PMW_DECISIONS"
  proof
    from that fabric_ok_parts(6)[OF ok] have "decisions_ok (agent_ids J) (workspace_ids J) (task_ids J) ?rows"
      by (auto simp: decisions_ok_def)
    then show "fabric_ok (J\<lparr>fj_decisions := ?rows\<rparr>)" by (rule fabric_ok_decisions[OF ok])
  qed (rule advances_one, rule grown_append, simp)
  show "wp (record_decision r) (\<lambda>_ J'. fabric_ok J' \<and> advances J J') (\<lambda>_ J'. fabric_ok J' \<and> advances J J') J"
    using ok ins by (simp add: record_decision_def wp_rules)
qed

lemma provenance_sound: "sound_op (record_provenance p)"
proof (rule sound_opI)
  fix J assume ok: "fabric_ok J"
  have ins: "fabric_ok (J\<lparr>fj_provenance := fj_provenance J @ [q]\<rparr>) \<and> advances J (J\<lparr>fj_provenance := fj_provenance J @ [q]\<rparr>)"
    if "pv_provenance_id q \<notin> pv_provenance_id ` set (fj_provenance J)" for q
  proof
    from that fabric_ok_parts(7)[OF ok] show "fabric_ok (J\<lparr>fj_provenance := fj_provenance J @ [q]\<rparr>)"
      by (intro fabric_ok_provenance[OF ok]) (rule distinct_snoc_key)
  qed (rule advances_one, rule grown_append, simp)
  show "wp (record_provenance p) (\<lambda>_ J'. fabric_ok J' \<and> advances J J') (\<lambda>_ J'. fabric_ok J' \<and> advances J J') J"
    using ok by (simp add: record_provenance_def wp_rules ins split: sum.split)
qed

lemma task_given:
  assumes "given x (\<lambda>k. case get_task k J of None \<Rightarrow> False | Some t \<Rightarrow> pt_workspace_id t = wid)" and "refers x (task_ids J)"
    and "x = Some k"
  shows "\<exists>t\<in>set (fj_tasks J). pt_task_id t = k \<and> (k \<noteq> [] \<longrightarrow> pt_workspace_id t = wid)"
proof (cases "k = []")
  case True
  from assms(2,3) have "k \<in> pt_task_id ` set (fj_tasks J)" by (simp add: refers_def task_ids_def)
  then obtain t where "t \<in> set (fj_tasks J)" "pt_task_id t = k" by force
  with True show ?thesis by blast
next
  case False
  with assms(1,3) obtain t where "get_task k J = Some t" "pt_workspace_id t = wid"
    by (auto simp: given_def split: option.splits)
  then show ?thesis unfolding get_task_def by (blast dest: find_Some_key)
qed

lemma bound_resource_simps [simp]:
  "rb_binding_id (bound_resource now bid wid a meta) = bid" "resource_key (bound_resource now bid wid a meta) = args_key wid a"
  "rb_workspace_id (bound_resource now bid wid a meta) = wid" "rb_owner (bound_resource now bid wid a meta) = ra_owner a"
  "rb_revision (bound_resource now bid wid a meta) = 0" "rb_task_id (bound_resource now bid wid a meta) = ra_task_id a"
  by (simp_all add: bound_resource_def resource_key_def args_key_def)

lemma bind_resource_sound: "sound_op (bind_resource now bid wid a)"
proof (rule sound_opI)
  fix J assume ok: "fabric_ok J"
  let ?task = "given (ra_task_id a) (\<lambda>x. case get_task x J of None \<Rightarrow> False | Some t \<Rightarrow> pt_workspace_id t = wid)"
  have ins: "fabric_ok (J\<lparr>fj_resources := fj_resources J @ [bound_resource now bid wid a meta]\<rparr>)
      \<and> advances J (J\<lparr>fj_resources := fj_resources J @ [bound_resource now bid wid a meta]\<rparr>)"
    if c: "bid \<notin> rb_binding_id ` set (fj_resources J)" "find_resource (args_key wid a) J = None" "wid \<in> workspace_ids J"
      "refers (ra_owner a) (agent_ids J)" "refers (ra_task_id a) (task_ids J)" ?task for meta
  proof
    let ?new = "bound_resource now bid wid a meta"
    let ?rows = "fj_resources J @ [?new]"
    have old: "resources_ok (agent_ids J) (workspace_ids J) (fj_tasks J) (fj_resources J)" by (rule fabric_ok_parts[OF ok])
    from c(2) have "args_key wid a \<notin> resource_key ` set (fj_resources J)"
      by (simp add: find_resource_def find_None_key)
    with old c(1) have "distinct (map rb_binding_id ?rows)" "distinct (map resource_key ?rows)"
      by (auto simp: resources_ok_def)
    moreover have "\<exists>t\<in>set (fj_tasks J). pt_task_id t = k \<and> (k \<noteq> [] \<longrightarrow> pt_workspace_id t = wid)" if "ra_task_id a = Some k" for k
      by (rule task_given[OF c(6,5) that])
    ultimately have "resources_ok (agent_ids J) (workspace_ids J) (fj_tasks J) ?rows"
      using old c(3,4) by (simp add: resources_ok_def)
    then show "fabric_ok (J\<lparr>fj_resources := ?rows\<rparr>)" by (rule fabric_ok_resources[OF ok])
  qed (rule advances_one, rule grown_append, simp)
  show "wp (bind_resource now bid wid a) (\<lambda>_ J'. fabric_ok J' \<and> advances J J') (\<lambda>_ J'. fabric_ok J' \<and> advances J J') J"
    using ok by (simp add: bind_resource_def wp_rules ins split: sum.split option.split)
qed

lemma update_resource_sound: "sound_op (update_resource_projection now bid object mode state patch)"
proof (rule sound_opI)
  fix J assume ok: "fabric_ok J"
  have upd: "fabric_ok (J\<lparr>fj_resources := update_rows (\<lambda>r. rb_binding_id r = bid) put (fj_resources J)\<rparr>)
      \<and> advances J (J\<lparr>fj_resources := update_rows (\<lambda>r. rb_binding_id r = bid) put (fj_resources J)\<rparr>)"
    if put: "\<And>r. rb_binding_id (put r) = rb_binding_id r" "\<And>r. resource_key (put r) = resource_key r"
      "\<And>r. rb_workspace_id (put r) = rb_workspace_id r" "\<And>r. rb_owner (put r) = rb_owner r"
      "\<And>r. rb_task_id (put r) = rb_task_id r" "\<And>r. rb_created_at (put r) = rb_created_at r"
      "\<And>r. rb_revision (put r) = rb_revision r + 1" for put
  proof
    let ?rows = "update_rows (\<lambda>r. rb_binding_id r = bid) put (fj_resources J)"
    let ?row = "\<lambda>r. rb_workspace_id r \<in> workspace_ids J \<and> refers (rb_owner r) (agent_ids J) \<and> 0 \<le> rb_revision r
      \<and> (\<forall>k. rb_task_id r = Some k \<longrightarrow> (\<exists>t\<in>set (fj_tasks J). pt_task_id t = k \<and> (k \<noteq> [] \<longrightarrow> pt_workspace_id t = rb_workspace_id r)))"
    have old: "resources_ok (agent_ids J) (workspace_ids J) (fj_tasks J) (fj_resources J)" by (rule fabric_ok_parts[OF ok])
    have "map rb_binding_id ?rows = map rb_binding_id (fj_resources J)" "map resource_key ?rows = map resource_key (fj_resources J)"
      by (rule update_rows_key, rule put)+
    moreover from old have "\<forall>r\<in>set ?rows. ?row r"
      by (intro update_rows_all) (simp_all add: put resources_ok_def)
    ultimately have "resources_ok (agent_ids J) (workspace_ids J) (fj_tasks J) ?rows"
      using old by (simp add: resources_ok_def)
    then show "fabric_ok (J\<lparr>fj_resources := ?rows\<rparr>)" by (rule fabric_ok_resources[OF ok])
  qed (rule advances_one, rule grown_update, simp, simp add: same_resource_def put)
  show "wp (update_resource_projection now bid object mode state patch)
    (\<lambda>_ J'. fabric_ok J' \<and> advances J J') (\<lambda>_ J'. fabric_ok J' \<and> advances J J') J"
    using ok by (simp add: update_resource_projection_def wp_rules upd resource_key_def split: sum.split option.split)
qed

text \<open>Operations made of sound ones are sound.\<close>

lemma sound_bindS:
  assumes "sound_op m" and "\<And>a. sound_op (f a)"
  shows "sound_op (bindS m f)"
proof (rule sound_opI)
  fix J assume ok: "fabric_ok J"
  show "wp (bindS m f) (\<lambda>_ J'. fabric_ok J' \<and> advances J J') (\<lambda>_ J'. fabric_ok J' \<and> advances J J') J"
    unfolding wp_bindS
  proof (rule wp_mono)
    show "wp m (\<lambda>_ J'. fabric_ok J' \<and> advances J J') (\<lambda>_ J'. fabric_ok J' \<and> advances J J') J"
      using assms(1) ok by (simp add: sound_op_def)
  next
    fix a J' assume J': "fabric_ok J' \<and> advances J J'"
    with assms(2)[of a] have "wp (f a) (\<lambda>_ K. fabric_ok K \<and> advances J' K) (\<lambda>_ K. fabric_ok K \<and> advances J' K) J'"
      by (simp add: sound_op_def)
    then show "wp (f a) (\<lambda>_ K. fabric_ok K \<and> advances J K) (\<lambda>_ K. fabric_ok K \<and> advances J K) J'"
      using J' by (auto elim!: wp_mono intro: advances_trans)
  qed
qed

lemma sound_thenS: "sound_op m \<Longrightarrow> sound_op k \<Longrightarrow> sound_op (thenS m k)"
  unfolding thenS_def by (rule sound_bindS)

lemma sound_basic:
  "sound_op (retS a)" "sound_op (raiseS e)" "sound_op (getS f)" "sound_op (liftS r)" "sound_op (needS c e)"
  by (simp_all add: sound_op_def wp_rules split: sum.split)

lemma sound_if: "sound_op m \<Longrightarrow> sound_op k \<Longrightarrow> sound_op (if c then m else k)"
  by simp

lemma sound_option: "sound_op m \<Longrightarrow> (\<And>a. sound_op (f a)) \<Longrightarrow> sound_op (case x of None \<Rightarrow> m | Some a \<Rightarrow> f a)"
  by (cases x) simp_all

lemmas sound_intros = sound_bindS sound_thenS sound_basic sound_if sound_option upsert_sound bind_agent_sound workspace_sound
  visual_binding_sound task_sound bind_resource_sound update_resource_sound decision_sound provenance_sound

section \<open>The principals\<close>

lemma resolve_principal_kept:
  assumes "fabric_ok J'" and "keeps_bindings J J'" and "resolve_principal key False J = Some a"
  shows "resolve_principal key False J' = Some a"
proof -
  from assms(3) obtain b where b: "find (\<lambda>b. binding_key b = key) (fj_bindings J) = Some b" "pb_semantic_agent_id b = a"
    by (auto simp: resolve_principal_def find_binding_def split: option.splits)
  from fabric_ok_parts(2)[OF assms(1)] have "distinct (map binding_key (fj_bindings J'))" by (simp add: bindings_ok_def)
  from grown_find[OF assms(2)[unfolded keeps_bindings_def] _ this b(1)] obtain b'
    where "find (\<lambda>b. binding_key b = key) (fj_bindings J') = Some b'" "same_binding b b'"
    by (auto simp: same_binding_def)
  with b(2) show ?thesis by (simp add: resolve_principal_def find_binding_def same_binding_def)
qed

lemma agent_kept:
  assumes "fabric_ok J'" and "advances J J'" and "get_semantic_agent a J = Some r"
  shows "\<exists>r'. get_semantic_agent a J' = Some r' \<and> same_agent r r'"
  unfolding get_semantic_agent_def
proof (rule grown_find)
  show "grown same_agent (fj_agents J) (fj_agents J')" using assms(2) by (simp add: advances_def)
  show "distinct (map sa_semantic_agent_id (fj_agents J'))" using fabric_ok_parts(1)[OF assms(1)] by (simp add: agents_ok_def)
  show "find (\<lambda>r. sa_semantic_agent_id r = a) (fj_agents J) = Some r" using assms(3) by (simp add: get_semantic_agent_def)
qed (simp add: same_agent_def)

lemma resource_kept:
  assumes "fabric_ok J'" and "advances J J'" and "get_resource i J = Some r"
  shows "\<exists>r'. get_resource i J' = Some r' \<and> same_resource r r'"
  unfolding get_resource_def
proof (rule grown_find)
  show "grown same_resource (fj_resources J) (fj_resources J')" using assms(2) by (simp add: advances_def)
  show "distinct (map rb_binding_id (fj_resources J'))" using fabric_ok_parts(5)[OF assms(1)] by (simp add: resources_ok_def)
  show "find (\<lambda>r. rb_binding_id r = i) (fj_resources J) = Some r" using assms(3) by (simp add: get_resource_def)
qed (simp add: same_resource_def)

text \<open>
  The principal of a provider resource changes in one operation only, the binding of that resource, which
  gives it the agent it names and never takes it from another. The id drawn for a new row must be new.
\<close>

lemma store_binding_row:
  assumes ok: "fabric_ok J" and agent: "pb_semantic_agent_id b \<in> agent_ids J"
    and key: "\<And>b'. find_binding (binding_key b) J = Some b' \<Longrightarrow> pb_binding_id b' = pb_binding_id b"
    and id: "\<And>b'. get_provider_binding (pb_binding_id b) J = Some b' \<Longrightarrow> binding_key b' = binding_key b"
  obtains r where "get_provider_binding (pb_binding_id b) (store_binding b J) = Some r"
    and "find_binding (binding_key b) (store_binding b J) = Some r" and "binding_key r = binding_key b"
    and "pb_semantic_agent_id r = pb_semantic_agent_id b" and "pb_verified r = pb_verified b"
    and "pb_native_session_id r = pb_native_session_id b" and "pb_metadata r = pb_metadata b"
proof -
  let ?J = "store_binding b J"
  have "\<exists>r\<in>set (fj_bindings ?J). pb_binding_id r = pb_binding_id b \<and> binding_key r = binding_key b
    \<and> pb_semantic_agent_id r = pb_semantic_agent_id b \<and> pb_verified r = pb_verified b
    \<and> pb_native_session_id r = pb_native_session_id b \<and> pb_metadata r = pb_metadata b"
  proof (cases "get_provider_binding (pb_binding_id b) J")
    case None
    then show ?thesis by (simp add: store_binding_def)
  next
    case (Some b')
    then have b': "b' \<in> set (fj_bindings J)" "pb_binding_id b' = pb_binding_id b"
      unfolding get_provider_binding_def by (blast dest: find_Some_key)+
    have k: "binding_key b' = binding_key b" by (rule id[OF Some])
    define put where "put = (\<lambda>r. r\<lparr>pb_semantic_agent_id := pb_semantic_agent_id b, pb_verified := pb_verified b,
      pb_native_session_id := pb_native_session_id b, pb_metadata := pb_metadata b, pb_updated_at := pb_updated_at b\<rparr>
      :: ProviderBinding)"
    from Some have "fj_bindings ?J = update_rows (\<lambda>r. pb_binding_id r = pb_binding_id b) put (fj_bindings J)"
      by (simp add: store_binding_def put_def)
    then have "put b' \<in> set (fj_bindings ?J)" using b' by (auto simp: update_rows_set intro!: image_eqI)
    moreover have "pb_binding_id (put b') = pb_binding_id b" "binding_key (put b') = binding_key b"
      "pb_semantic_agent_id (put b') = pb_semantic_agent_id b" "pb_verified (put b') = pb_verified b"
      "pb_native_session_id (put b') = pb_native_session_id b" "pb_metadata (put b') = pb_metadata b"
      using b' k by (simp_all add: put_def binding_key_def)
    ultimately show ?thesis by blast
  qed
  then obtain r where r: "r \<in> set (fj_bindings ?J)" "pb_binding_id r = pb_binding_id b" "binding_key r = binding_key b"
    "pb_semantic_agent_id r = pb_semantic_agent_id b" "pb_verified r = pb_verified b"
    "pb_native_session_id r = pb_native_session_id b" "pb_metadata r = pb_metadata b" by blast
  from fabric_ok_parts(2)[OF store_binding_ok[OF ok agent key]]
  have d: "distinct (map pb_binding_id (fj_bindings ?J))" "distinct (map binding_key (fj_bindings ?J))"
    by (simp_all add: bindings_ok_def)
  from find_by_key[OF d(1) r(1)] find_by_key[OF d(2) r(1)] r(2,3)
  have "get_provider_binding (pb_binding_id b) ?J = Some r" "find_binding (binding_key b) ?J = Some r"
    by (simp_all add: get_provider_binding_def find_binding_def)
  with r that show ?thesis by blast
qed

lemma bind_agent_keeps:
  assumes ok: "fabric_ok J" and fresh: "get_provider_binding bid J = None"
  shows "keeps_bindings J (fst (bind_semantic_agent now bid aid key verified native metadata J))"
proof -
  have put: "keeps_bindings J (store_binding b J)" if "case find_binding key J of None \<Rightarrow> pb_binding_id b = bid
      | Some b' \<Rightarrow> pb_binding_id b' = pb_binding_id b \<and> pb_semantic_agent_id b' = pb_semantic_agent_id b"
    "binding_key b = key" for b
    using that fresh by (intro store_binding_keeps ok) (auto split: option.splits)
  have "wp (bind_semantic_agent now bid aid key verified native metadata) (\<lambda>_. keeps_bindings J) (\<lambda>_. keeps_bindings J) J"
    by (auto simp: bind_semantic_agent_def wp_rules Let_def binding_key_def intro!: put split: option.split sum.split)
  then show ?thesis by (auto simp: wp_def split: prod.splits sum.splits)
qed

lemma bind_agent_Inr:
  assumes run: "bind_semantic_agent now bid aid key verified native metadata J = (J', Inr r)" and ok: "fabric_ok J"
    and fresh: "get_provider_binding bid J = None"
  shows "\<exists>b meta. r = Some b \<and> find_binding key J' = Some b \<and> pb_semantic_agent_id b = aid \<and> pb_verified b = verified
    \<and> pb_native_session_id b = native \<and> dumped metadata = Inr meta \<and> pb_metadata b = meta"
proof -
  have put: "\<exists>b'. get_provider_binding (pb_binding_id b) (store_binding b J) = Some b' \<and> find_binding key (store_binding b J) = Some b'
      \<and> pb_semantic_agent_id b' = pb_semantic_agent_id b \<and> pb_verified b' = pb_verified b
      \<and> pb_native_session_id b' = pb_native_session_id b \<and> pb_metadata b' = pb_metadata b"
    if b: "pb_semantic_agent_id b \<in> agent_ids J" "binding_key b = key"
      "pb_binding_id b = (case find_binding key J of None \<Rightarrow> bid | Some b' \<Rightarrow> pb_binding_id b')" for b
  proof -
    have id: "binding_key b' = binding_key b" if "get_provider_binding (pb_binding_id b) J = Some b'" for b'
    proof (cases "find_binding key J")
      case None
      with b(3) that fresh show ?thesis by simp
    next
      case (Some b'')
      with b(3) that have "b'' \<in> set (fj_bindings J)" "b' \<in> set (fj_bindings J)" "pb_binding_id b' = pb_binding_id b''"
        "binding_key b'' = key"
        unfolding get_provider_binding_def find_binding_def by (auto dest!: find_Some_key)
      moreover from fabric_ok_parts(2)[OF ok] have "inj_on pb_binding_id (set (fj_bindings J))"
        by (simp add: bindings_ok_def distinct_map)
      ultimately show ?thesis using b(2) by (metis inj_onD)
    qed
    from b have key: "pb_binding_id b' = pb_binding_id b" if "find_binding (binding_key b) J = Some b'" for b'
      using that by simp
    from store_binding_row[OF ok b(1) key id] b(2) show ?thesis by metis
  qed
  have "wp (bind_semantic_agent now bid aid key verified native metadata)
    (\<lambda>r J'. \<exists>b meta. r = Some b \<and> find_binding key J' = Some b \<and> pb_semantic_agent_id b = aid \<and> pb_verified b = verified
      \<and> pb_native_session_id b = native \<and> dumped metadata = Inr meta \<and> pb_metadata b = meta) (\<lambda>_ _. True) J"
  proof -
    define B where "B = (\<lambda>i c meta. \<lparr>pb_binding_id = i, pb_semantic_agent_id = aid, pb_provider = fst key,
      pb_binding_type = fst (snd key), pb_provider_resource_id = snd (snd key), pb_verified = verified,
      pb_native_session_id = native, pb_metadata = meta, pb_created_at = c, pb_updated_at = now\<rparr>)"
    have B: "binding_key (B i c m) = key" "pb_binding_id (B i c m) = i" "pb_semantic_agent_id (B i c m) = aid"
      "pb_verified (B i c m) = verified" "pb_native_session_id (B i c m) = native" "pb_metadata (B i c m) = m" for i c m
      by (simp_all add: B_def binding_key_def)
    have row: "\<exists>b'. get_provider_binding i (store_binding (B i c m) J) = Some b' \<and> find_binding key (store_binding (B i c m) J) = Some b'
        \<and> pb_semantic_agent_id b' = aid \<and> pb_verified b' = verified \<and> pb_native_session_id b' = native \<and> pb_metadata b' = m"
      if "aid \<in> agent_ids J" "i = (case find_binding key J of None \<Rightarrow> bid | Some b' \<Rightarrow> pb_binding_id b')" for i c m
      using put[of "B i c m"] that unfolding B by simp
    have fold: "\<lparr>pb_binding_id = i, pb_semantic_agent_id = aid, pb_provider = fst key, pb_binding_type = fst (snd key),
      pb_provider_resource_id = snd (snd key), pb_verified = verified, pb_native_session_id = native, pb_metadata = meta,
      pb_created_at = c, pb_updated_at = now\<rparr> = B i c meta" for i c meta
      by (simp add: B_def)
    have shown: "aid \<in> agent_ids J \<Longrightarrow> ?thesis"
      using row by (cases "find_binding key J")
        (simp_all add: bind_semantic_agent_def wp_rules Let_def fold eq_commute[of _ "pb_metadata _"] split: sum.split)
    show ?thesis
    proof (cases "aid \<in> agent_ids J")
      case False
      then show ?thesis by (simp add: bind_semantic_agent_def wp_rules get_ids del: not_None_eq)
    qed (rule shown)
  qed
  from wp_Inr[OF this run] show ?thesis .
qed

end
