(* ===== verification/Pmw_Core.thy ===== *)
theory Pmw_Core
  imports Pmw_Runs Bridge_Journal
begin

text \<open>
  \<open>src/eml_pmw/core.py\<close>, \<open>presence.py\<close> and the two adapters it works with: the import of an agent from the
  bridge journal (\<open>adapters/herdr_bridge.py\<close>, over the model of that journal) and the projection of a
  resource by a visual adapter, which is an argument (\<open>adapters/mock_visual.py\<close> is one). Lengths and positions are numbers no code here
  reads, and stay JSON values.
\<close>

section \<open>Agents of the bridge\<close>

text \<open>\<open>None\<close>: there is no database at the path, or it has no table of agents.\<close>

definition read_agent :: "journal option \<Rightarrow> string \<Rightarrow> agent_row res" where
  "read_agent source aid = (case source of
      None \<Rightarrow> Inl (Coded ''ProviderUnavailableError'')
    | Some B \<Rightarrow> (case get_agent B aid of None \<Rightarrow> Inl KeyError | Some row \<Rightarrow> Inr row))"

definition native_session_id :: "AgentBinding \<Rightarrow> string option" where
  "native_session_id b = (case ab_native_session_ref b of None \<Rightarrow> None | Some d \<Rightarrow> map_of d ''value'')"

definition import_metadata :: "AgentBinding \<Rightarrow> dict" where
  "import_metadata b = [(''bridge_binding_id'', JStr (ab_binding_id b)), (''terminal_id'', JStr (ab_terminal_id b)),
     (''pane_id'', JStr (ab_pane_id b)), (''workspace_id'', JStr (ab_workspace_id b)),
     (''runtime_epoch_id'', JStr (ab_runtime_epoch_id b)), (''agent_kind'', JStr (ab_agent_kind b))]"

definition herdr_key :: "AgentBinding \<Rightarrow> string \<times> string \<times> string" where
  "herdr_key b = (''herdr'', ''agent_session'', ab_agent_target b)"

text \<open>\<open>now\<close>, \<open>now'\<close>: the times of the two statements; \<open>bid\<close>: the id of a new binding.\<close>

definition import_herdr_agent ::
    "string \<Rightarrow> string \<Rightarrow> string \<Rightarrow> string \<Rightarrow> journal option \<Rightarrow> string \<Rightarrow>
      (fabric, SemanticAgent option \<times> ProviderBinding option) op" where
  "import_herdr_agent now now' bid aid source kind =
     bindS (liftS (read_agent source aid)) (\<lambda>row.
     bindS (upsert_semantic_agent now aid kind (Some (or_else (Some (ag_display_name row)) aid)) (ag_role row)) (\<lambda>agent.
     bindS (bind_semantic_agent now' bid aid (herdr_key (ag_runtime_binding row)) True
              (native_session_id (ag_runtime_binding row)) (import_metadata (ag_runtime_binding row))) (\<lambda>binding.
     retS (agent, binding))))"

section \<open>Projection of a resource\<close>

definition ResourceBinding_to_dict :: "ResourceBinding \<Rightarrow> dict" where
  "ResourceBinding_to_dict r =
     [(''binding_id'', JStr (rb_binding_id r)), (''pmw_workspace_id'', JStr (rb_workspace_id r)),
      (''provider'', JStr (rb_provider r)), (''resource_kind'', JStr (rb_resource_kind r)),
      (''provider_resource_id'', JStr (rb_provider_resource_id r)), (''display_mode'', JStr (rb_display_mode r)),
      (''interaction_mode'', JStr (rb_interaction_mode r)), (''owner_semantic_agent_id'', opt_json (rb_owner r)),
      (''pmw_task_id'', opt_json (rb_task_id r)), (''canvas_object_id'', opt_json (rb_canvas_object_id r)),
      (''projection_mode'', JStr (rb_projection_mode r)), (''state'', JStr (rb_state r)),
      (''metadata'', JObj (rb_metadata r)), (''revision'', JInt (rb_revision r)),
      (''created_at'', JStr (rb_created_at r)), (''updated_at'', JStr (rb_updated_at r))]"

record geometry =
  g_x :: json
  g_y :: json
  g_width :: json
  g_height :: json
  g_z_index :: json

type_synonym visual_adapter = "ResourceBinding \<Rightarrow> geometry \<Rightarrow> string \<Rightarrow> dict res"

text \<open>The mock adapter; the list of its portals is not read back.\<close>

definition mock_portal :: "string \<Rightarrow> visual_adapter" where
  "mock_portal oid r g mode = Inr [(''canvas_object_id'', JStr oid), (''canvas_id'', JStr ''canvas-root''),
     (''projection_mode'', JStr mode), (''binding_id'', JStr (rb_binding_id r)),
     (''geometry'', JObj [(''x'', g_x g), (''y'', g_y g), (''width'', g_width g), (''height'', g_height g), (''z'', g_z_index g)])]"

definition projection_patch :: "dict \<Rightarrow> dict" where
  "projection_patch result = [(''visual_canvas_id'', dget_null result ''canvas_id''),
     (''projection_result'', case map_of result ''provider_result'' of None \<Rightarrow> JObj [] | Some v \<Rightarrow> v)]"

definition projected_state :: "ResourceBinding \<Rightarrow> string" where
  "projected_state r = (if rb_display_mode r = ''live'' then ''projected_live'' else ''projected_snapshot'')"

text \<open>The provenance of a projection: \<open>r\<close> is the row before it, \<open>u\<close> the row after it.\<close>

definition projection_provenance :: "string \<Rightarrow> string \<Rightarrow> ResourceBinding \<Rightarrow> ResourceBinding \<Rightarrow> ProvenanceRef" where
  "projection_provenance now pid r u = \<lparr>pv_provenance_id = pid, pv_event_type = ''resource.projected'',
     pv_semantic_agent_id = rb_owner r, pv_workspace_id = Some (rb_workspace_id r), pv_task_id = rb_task_id r,
     pv_provider = Some (rb_provider r), pv_provider_resource_id = Some (rb_provider_resource_id r),
     pv_evidence_refs = [''canvas-object:'' @ (case rb_canvas_object_id u of None \<Rightarrow> ''None'' | Some o' \<Rightarrow> o')],
     pv_payload = ResourceBinding_to_dict u, pv_created_at = now\<rparr>"

definition project_resource ::
    "string \<Rightarrow> string \<Rightarrow> string \<Rightarrow> string \<Rightarrow> visual_adapter \<Rightarrow> geometry \<Rightarrow> string \<Rightarrow> (fabric, ResourceBinding) op" where
  "project_resource now now' pid bid project_portal g mode =
     bindS (getS (get_resource bid)) (\<lambda>found. case found of
        None \<Rightarrow> raiseS KeyError
      | Some r \<Rightarrow>
          bindS (liftS (project_portal r g mode)) (\<lambda>result.
          bindS (liftS (dget result ''canvas_object_id'')) (\<lambda>object.
          bindS (liftS (dget result ''projection_mode'')) (\<lambda>projected.
          if \<not> (is_str object \<and> is_str projected) then raiseS (Untyped ''projection_result'')
          else bindS (update_resource_projection now bid (the_str object) (the_str projected) (projected_state r)
                        (projection_patch result)) (\<lambda>updated. case updated of
             None \<Rightarrow> raiseS AttributeError
           | Some u \<Rightarrow> thenS (record_provenance (projection_provenance now' pid r u)) (retS u))))))"

section \<open>Presence\<close>

text \<open>\<open>PresenceHub\<close>: one envelope for each workspace and agent, in memory only.\<close>

record PresenceEnvelope =
  pe_semantic_agent_id :: string
  pe_workspace_id :: string
  pe_provider :: string
  pe_cursor :: json
  pe_viewport :: json
  pe_selected_object_ids :: "string list"
  pe_task :: "string option"
  pe_updated_at :: string
  pe_ephemeral :: bool

type_synonym hub = "((string \<times> string) \<times> PresenceEnvelope) list"

definition presence_set ::
    "string \<Rightarrow> string \<Rightarrow> string \<Rightarrow> string \<Rightarrow> json \<Rightarrow> json \<Rightarrow> string list \<Rightarrow> string option \<Rightarrow> hub \<Rightarrow> hub \<times> PresenceEnvelope" where
  "presence_set now aid wid provider cursor viewport selected task H =
     (let item = \<lparr>pe_semantic_agent_id = aid, pe_workspace_id = wid, pe_provider = provider, pe_cursor = cursor,
        pe_viewport = viewport, pe_selected_object_ids = selected, pe_task = task, pe_updated_at = now, pe_ephemeral = True\<rparr>
      in (AList.update (wid, aid) item H, item))"

definition presence_remove :: "string \<Rightarrow> string \<Rightarrow> hub \<Rightarrow> hub \<times> bool" where
  "presence_remove wid aid H = (AList.delete (wid, aid) H, map_of H (wid, aid) \<noteq> None)"

definition presence_snapshot :: "string \<Rightarrow> hub \<Rightarrow> PresenceEnvelope list" where
  "presence_snapshot wid H = map snd (filter (\<lambda>kv. fst (fst kv) = wid) (sort_key fst H))"

end
