(* ===== verification/Pmw_Fabric.thy ===== *)
theory Pmw_Fabric
  imports Pmw_Core
begin

text \<open>
  The runs of every operation of the fabric, whatever each returns or raises, and their properties: the
  integrity of the tables, the stability of identities, the import of a bridge agent and the projection of a
  resource.
\<close>

section \<open>Runs\<close>

datatype command =
    UpsertAgent string string string "string option" "string option"
  | BindAgent string string string "string \<times> string \<times> string" bool "string option" dict
  | CreateWorkspace string string string string "string option" string "string option" "string option" dict
  | UpdateVisualBinding string string string string
  | CreateTask string string string string string "string list" string dict "string option"
  | BindResource string string string resource_args
  | UpdateProjection string string string string string dict
  | RecordDecision DecisionReceipt
  | RecordProvenance ProvenanceRef
  | ImportHerdrAgent string string string string "journal option" string
  | ProjectResource string string string string visual_adapter geometry string

primrec perform :: "command \<Rightarrow> fabric \<Rightarrow> fabric" where
  "perform (UpsertAgent now aid kind name role) J = fst (upsert_semantic_agent now aid kind name role J)"
| "perform (BindAgent now bid aid key verified native d) J = fst (bind_semantic_agent now bid aid key verified native d J)"
| "perform (CreateWorkspace now fresh title creator wid provider vw vc d) J =
     fst (create_workspace now fresh title creator wid provider vw vc d J)"
| "perform (UpdateVisualBinding now wid vw vc) J = fst (update_workspace_visual_binding now wid vw vc J)"
| "perform (CreateTask now fresh wid title creator assigned status d tid) J =
     fst (create_task now fresh wid title creator assigned status d tid J)"
| "perform (BindResource now bid wid a) J = fst (bind_resource now bid wid a J)"
| "perform (UpdateProjection now bid object mode state patch) J = fst (update_resource_projection now bid object mode state patch J)"
| "perform (RecordDecision r) J = fst (record_decision r J)"
| "perform (RecordProvenance p) J = fst (record_provenance p J)"
| "perform (ImportHerdrAgent now now' bid aid source kind) J = fst (import_herdr_agent now now' bid aid source kind J)"
| "perform (ProjectResource now now' pid bid adapter g mode) J = fst (project_resource now now' pid bid adapter g mode J)"

definition performs :: "command list \<Rightarrow> fabric \<Rightarrow> fabric" where
  "performs cs J = fold perform cs J"

text \<open>The ids drawn for new bindings of agents are new.\<close>

primrec fresh_binding :: "command \<Rightarrow> fabric \<Rightarrow> bool" where
  "fresh_binding (UpsertAgent now aid kind name role) J = True"
| "fresh_binding (BindAgent now bid aid key verified native d) J = (get_provider_binding bid J = None)"
| "fresh_binding (CreateWorkspace now fresh title creator wid provider vw vc d) J = True"
| "fresh_binding (UpdateVisualBinding now wid vw vc) J = True"
| "fresh_binding (CreateTask now fresh wid title creator assigned status d tid) J = True"
| "fresh_binding (BindResource now bid wid a) J = True"
| "fresh_binding (UpdateProjection now bid object mode state patch) J = True"
| "fresh_binding (RecordDecision r) J = True"
| "fresh_binding (RecordProvenance p) J = True"
| "fresh_binding (ImportHerdrAgent now now' bid aid source kind) J = (get_provider_binding bid J = None)"
| "fresh_binding (ProjectResource now now' pid bid adapter g mode) J = True"

primrec fresh_bindings :: "command list \<Rightarrow> fabric \<Rightarrow> bool" where
  "fresh_bindings [] J = True"
| "fresh_bindings (c # cs) J = (fresh_binding c J \<and> fresh_bindings cs (perform c J))"

lemma import_sound: "sound_op (import_herdr_agent now now' bid aid source kind)"
  unfolding import_herdr_agent_def by (intro sound_intros)

lemma project_sound: "sound_op (project_resource now now' pid bid adapter g mode)"
  unfolding project_resource_def by (intro sound_intros)

lemma perform_sound: "fabric_ok J \<Longrightarrow> fabric_ok (perform c J) \<and> advances J (perform c J)"
  by (cases c) (simp_all only: perform.simps,
      (rule sound_opD, rule sound_intros import_sound project_sound, assumption)+)

lemma performs_sound: "fabric_ok J \<Longrightarrow> fabric_ok (performs cs J) \<and> advances J (performs cs J)"
proof (induction cs arbitrary: J)
  case Nil
  then show ?case by (simp add: performs_def)
next
  case (Cons c cs)
  from perform_sound[OF Cons.prems] Cons.IH[of "perform c J"] show ?case
    unfolding performs_def by (auto intro: advances_trans)
qed

lemma empty_fabric_ok [simp]: "fabric_ok empty_fabric"
  by (simp add: empty_fabric_def fabric_ok_def agents_ok_def bindings_ok_def workspaces_ok_def tasks_ok_def
      resources_ok_def decisions_ok_def)

lemma performs_append: "performs (cs @ ds) J = performs ds (performs cs J)"
  by (simp add: performs_def)

section \<open>Bindings of agents in a run\<close>

text \<open>Only the two operations that bind an agent write that table.\<close>

definition leaves_bindings :: "(fabric, 'a) op \<Rightarrow> bool" where
  "leaves_bindings m \<longleftrightarrow> (\<forall>J. wp m (\<lambda>_ J'. fj_bindings J' = fj_bindings J) (\<lambda>_ J'. fj_bindings J' = fj_bindings J) J)"

lemma leaves_bindS: "leaves_bindings m \<Longrightarrow> (\<And>a. leaves_bindings (f a)) \<Longrightarrow> leaves_bindings (bindS m f)"
  unfolding leaves_bindings_def wp_def bindS_def by (fastforce split: prod.splits sum.splits)

lemma leaves_thenS: "leaves_bindings m \<Longrightarrow> leaves_bindings k \<Longrightarrow> leaves_bindings (thenS m k)"
  unfolding thenS_def by (rule leaves_bindS)

lemma leaves_basic:
  "leaves_bindings (retS a)" "leaves_bindings (raiseS e)" "leaves_bindings (getS f)" "leaves_bindings (liftS r)"
  "leaves_bindings (needS c e)"
  "(\<And>J. fj_bindings (g J) = fj_bindings J) \<Longrightarrow> leaves_bindings (executeS c g)"
  "(\<And>J. fj_bindings (g J) = fj_bindings J) \<Longrightarrow> leaves_bindings (modS g)"
  by (simp_all add: leaves_bindings_def wp_rules split: sum.split)

lemma leaves_option: "leaves_bindings m \<Longrightarrow> (\<And>a. leaves_bindings (f a)) \<Longrightarrow> leaves_bindings (case x of None \<Rightarrow> m | Some a \<Rightarrow> f a)"
  by (cases x) simp_all

lemma leaves_if: "leaves_bindings m \<Longrightarrow> leaves_bindings k \<Longrightarrow> leaves_bindings (if c then m else k)"
  by simp

lemmas leaves_intros = leaves_bindS leaves_thenS leaves_basic leaves_option leaves_if

lemma leaves_ops:
  "leaves_bindings (upsert_semantic_agent now aid kind name role)"
  "leaves_bindings (create_workspace now fresh title creator wid provider vw vc d)"
  "leaves_bindings (update_workspace_visual_binding now w visual canvas)"
  "leaves_bindings (create_task now fresh w title creator assigned status d tid)"
  "leaves_bindings (bind_resource now bid w a)"
  "leaves_bindings (update_resource_projection now bid object mode state patch)"
  "leaves_bindings (record_decision r)" "leaves_bindings (record_provenance p)"
  unfolding upsert_semantic_agent_def create_workspace_def update_workspace_visual_binding_def create_task_def
    bind_resource_def update_resource_projection_def record_decision_def record_provenance_def
  by (intro leaves_intros; simp split: option.split)+

lemma leaves_keeps: "leaves_bindings m \<Longrightarrow> keeps_bindings J (fst (m J))"
  by (cases "m J"; cases "snd (m J)") (auto simp: leaves_bindings_def wp_def keeps_bindings_def grown_refl dest!: spec[of _ J])

lemma upsert_get_provider: "get_provider_binding b (fst (upsert_semantic_agent now aid kind name role J)) = get_provider_binding b J"
proof -
  have "fj_bindings (fst (upsert_semantic_agent now aid kind name role J)) = fj_bindings J"
    using leaves_ops(1)[of now aid kind name role]
    by (cases "upsert_semantic_agent now aid kind name role J"; cases "snd (upsert_semantic_agent now aid kind name role J)")
      (auto simp: leaves_bindings_def wp_def dest!: spec[of _ J])
  then show ?thesis by (simp add: get_provider_binding_def)
qed

lemma fst_bindS: "fst (bindS m f s) = (case m s of (s', Inl e) \<Rightarrow> s' | (s', Inr a) \<Rightarrow> fst (f a s'))"
  by (simp add: bindS_def split: prod.split sum.split)

lemma import_keeps:
  assumes ok: "fabric_ok J" and fresh: "get_provider_binding bid J = None"
  shows "keeps_bindings J (fst (import_herdr_agent now now' bid aid source kind J))"
proof (cases "read_agent source aid")
  case (Inl e)
  then show ?thesis by (simp add: import_herdr_agent_def fst_bindS liftS_def)
next
  case (Inr row)
  let ?m = "upsert_semantic_agent now aid kind (Some (or_else (Some (ag_display_name row)) aid)) (ag_role row)"
  obtain J1 x where m: "?m J = (J1, x)" by (cases "?m J")
  have J1: "keeps_bindings J J1" "fabric_ok J1" "get_provider_binding bid J1 = None"
    using leaves_keeps[OF leaves_ops(1), of J] sound_opD[OF upsert_sound ok] upsert_get_provider[of bid] m fresh
    by (metis fst_conv)+
  have "fst (import_herdr_agent now now' bid aid source kind J) = (case x of Inl e \<Rightarrow> J1 | Inr a \<Rightarrow>
      fst (bind_semantic_agent now' bid aid (herdr_key (ag_runtime_binding row)) True
        (native_session_id (ag_runtime_binding row)) (import_metadata (ag_runtime_binding row)) J1))"
    using Inr m by (simp add: import_herdr_agent_def fst_bindS liftS_def retS_def split: sum.split prod.split)
  then show ?thesis
    using J1(1) by (cases x) (auto intro: keeps_bindings_trans[OF J1(1) bind_agent_keeps[OF J1(2,3)]])
qed

lemma perform_keeps: "fabric_ok J \<Longrightarrow> fresh_binding c J \<Longrightarrow> keeps_bindings J (perform c J)"
proof (cases c)
  case (ProjectResource now now' pid bid adapter g mode)
  have "leaves_bindings (project_resource now now' pid bid adapter g mode)"
    unfolding project_resource_def by (intro leaves_intros leaves_ops)
  then show ?thesis using ProjectResource by (simp add: leaves_keeps)
qed (simp_all add: leaves_keeps leaves_ops bind_agent_keeps import_keeps)

lemma performs_keeps: "fabric_ok J \<Longrightarrow> fresh_bindings cs J \<Longrightarrow> keeps_bindings J (performs cs J)"
proof (induction cs arbitrary: J)
  case Nil
  then show ?case by (simp add: performs_def)
next
  case (Cons c cs)
  then have "keeps_bindings J (perform c J)" "fabric_ok (perform c J)"
    using perform_keeps perform_sound by simp_all
  with Cons show ?case unfolding performs_def by (auto intro: keeps_bindings_trans)
qed







lemma find_update_rows:
  assumes "find (\<lambda>r. k r = x) rows = Some r" and "\<And>r. k (f r) = k r"
  shows "find (\<lambda>r. k r = x) (update_rows (\<lambda>r. k r = x) f rows) = Some (f r)"
  using assms by (induction rows) (auto simp: update_rows_def)

lemma find_snoc: "find c rows = None \<Longrightarrow> c r \<Longrightarrow> find c (rows @ [r]) = Some r"
  by (induction rows) (auto split: if_splits)

lemma upsert_Inr:
  assumes run: "upsert_semantic_agent now aid kind name role J = (J', Inr x)" and ok: "fabric_ok J"
  shows "\<exists>r. x = Some r \<and> get_semantic_agent aid J' = Some r \<and> sa_semantic_agent_id r = aid \<and> sa_kind r = kind \<and> sa_role r = role"
proof -
  have "wp (upsert_semantic_agent now aid kind name role) (\<lambda>x J'. \<exists>r. x = Some r \<and> get_semantic_agent aid J' = Some r
      \<and> sa_semantic_agent_id r = aid \<and> sa_kind r = kind \<and> sa_role r = role) (\<lambda>_ _. True) J"
  proof (cases "get_semantic_agent aid J")
    case None
    then show ?thesis
      by (simp add: upsert_semantic_agent_def wp_rules get_semantic_agent_def find_snoc)
  next
    case (Some r)
    then have "sa_semantic_agent_id r = aid" unfolding get_semantic_agent_def by (blast dest: find_Some_key)
    with Some show ?thesis
      by (simp add: upsert_semantic_agent_def wp_rules get_semantic_agent_def find_update_rows)
  qed
  from wp_Inr[OF this run] show ?thesis .
qed



lemma bind_resource_Inr:
  assumes run: "bind_resource now bid wid a J = (J', Inr x)" and ok: "fabric_ok J"
  shows "(\<exists>r. x = Some r \<and> find_resource (args_key wid a) J' = Some r)
    \<and> (find_resource (args_key wid a) J \<noteq> None \<longrightarrow> J' = J)"
proof -
  have d: "distinct (map rb_binding_id (fj_resources J))"
    using fabric_ok_parts(5)[OF ok] by (simp add: resources_ok_def)
  have "wp (bind_resource now bid wid a) (\<lambda>x J'. (\<exists>r. x = Some r \<and> find_resource (args_key wid a) J' = Some r)
      \<and> (find_resource (args_key wid a) J \<noteq> None \<longrightarrow> J' = J)) (\<lambda>_ _. True) J"
  proof (cases "find_resource (args_key wid a) J")
    case (Some r)
    then have "r \<in> set (fj_resources J)" unfolding find_resource_def by (blast dest: find_Some_key)
    from find_by_key[OF d this] Some show ?thesis
      by (simp add: bind_resource_def wp_rules get_resource_def)
  next
    case None
    have "get_resource bid (J\<lparr>fj_resources := fj_resources J @ [bound_resource now bid wid a meta]\<rparr>)
        = Some (bound_resource now bid wid a meta)"
      if "bid \<notin> rb_binding_id ` set (fj_resources J)" for meta
      unfolding get_resource_def using that by (simp add: find_snoc find_None_key)
    moreover have "find_resource (args_key wid a) (J\<lparr>fj_resources := fj_resources J @ [bound_resource now bid wid a meta]\<rparr>)
        = Some (bound_resource now bid wid a meta)" for meta
      using None unfolding find_resource_def by (simp add: find_snoc)
    ultimately show ?thesis
      using None by (simp add: bind_resource_def wp_rules split: sum.split)
  qed
  from wp_Inr[OF this run] show ?thesis .
qed

section \<open>Properties\<close>

text \<open>
  C4: in every run of the operations of the fabric from an empty file, failing ones included, the tables keep
  their integrity (unique keys, every reference to a stored row, a task in the workspace of its resource), and
  no later run drops a row of an agent, workspace, task, resource, decision or provenance table or changes its
  identity: agents keep their kind, tasks, decisions and provenance are kept as they are, and a resource keeps its
  place and is changed with a greater revision only. Where the ids drawn for new bindings are new, no binding of a
  provider resource is dropped either, and each keeps its resource and the agent it belongs to.
\<close>

theorem fabric_integrity:
  "fabric_ok (performs cs empty_fabric) \<and> advances (performs cs empty_fabric) (performs (cs @ ds) empty_fabric)
   \<and> (fresh_bindings ds (performs cs empty_fabric) \<longrightarrow>
        keeps_bindings (performs cs empty_fabric) (performs (cs @ ds) empty_fabric))"
  using performs_sound[OF empty_fabric_ok, of cs] performs_sound[of "performs cs empty_fabric" ds]
    performs_keeps[of "performs cs empty_fabric" ds]
  by (simp add: performs_append)


text \<open>
  After an agent was imported from the bridge, the herdr target of its bridge binding resolves to that
  agent as a verified principal, the agent row carries the kind and the role of the bridge, and the binding its
  session and its bridge ids.
\<close>

theorem import_herdr_agent_principal:
  assumes "import_herdr_agent now now' bid aid (Some B) kind (performs cs empty_fabric) = (J', Inr (agent, binding))"
    and "get_provider_binding bid (performs cs empty_fabric) = None"
  shows "\<exists>row r b. get_agent B aid = Some row \<and> agent = Some r \<and> binding = Some b
    \<and> sa_semantic_agent_id r = aid \<and> sa_kind r = kind \<and> sa_role r = ag_role row
    \<and> resolve_principal (''herdr'', ''agent_session'', ab_agent_target (ag_runtime_binding row)) True J' = Some aid
    \<and> pb_native_session_id b = native_session_id (ag_runtime_binding row)
    \<and> pb_metadata b = stored (import_metadata (ag_runtime_binding row))"
proof -
  define J where "J = performs cs empty_fabric"
  have ok: "fabric_ok J" using performs_sound[OF empty_fabric_ok] by (simp add: J_def)
  from assms(1) obtain row J1 where row: "get_agent B aid = Some row"
    and up: "upsert_semantic_agent now aid kind (Some (or_else (Some (ag_display_name row)) aid)) (ag_role row) J = (J1, Inr agent)"
    and bind: "bind_semantic_agent now' bid aid (herdr_key (ag_runtime_binding row)) True
      (native_session_id (ag_runtime_binding row)) (import_metadata (ag_runtime_binding row)) J1 = (J', Inr binding)"
    by (auto simp: import_herdr_agent_def read_agent_def J_def elim!: bindS_InrE split: option.splits)
  have J1: "fabric_ok J1" "get_provider_binding bid J1 = None"
    using sound_opD[OF upsert_sound ok] upsert_get_provider[of bid] up assms(2) by (metis J_def fst_conv)+
  from bind_agent_Inr[OF bind J1] obtain b meta where b: "binding = Some b" "find_binding (herdr_key (ag_runtime_binding row)) J' = Some b"
    "pb_semantic_agent_id b = aid" "pb_verified b" "pb_native_session_id b = native_session_id (ag_runtime_binding row)"
    "dumped (import_metadata (ag_runtime_binding row)) = Inr meta" "pb_metadata b = meta" by auto
  have "\<exists>r. agent = Some r \<and> sa_semantic_agent_id r = aid \<and> sa_kind r = kind \<and> sa_role r = ag_role row"
    using upsert_Inr[OF up ok] by blast
  moreover have "resolve_principal (''herdr'', ''agent_session'', ab_agent_target (ag_runtime_binding row)) True J' = Some aid"
    using b by (simp add: resolve_principal_def herdr_key_def)
  moreover have "meta = stored (import_metadata (ag_runtime_binding row))"
    using b(6) by (simp add: dumped_def split: if_splits)
  ultimately show ?thesis using row b by blast
qed


text \<open>
  Binding a resource of a workspace again, with whatever display, owner or task and at any later time, adds
  no row: if the call returns, it returns the row of the first binding as it is by then.
\<close>

theorem bind_resource_again:
  assumes "bind_resource now bid wid a (performs cs empty_fabric) = (J', Inr (Some r))"
    and "bind_resource now' bid' wid a' (performs ds J') = (K, Inr x)"
    and "ra_provider a' = ra_provider a" and "ra_resource_kind a' = ra_resource_kind a"
    and "ra_provider_resource_id a' = ra_provider_resource_id a"
  shows "K = performs ds J' \<and> (\<exists>r'. x = Some r' \<and> same_resource r r')"
proof -
  define J where "J = performs cs empty_fabric"
  have ok: "fabric_ok J" using performs_sound[OF empty_fabric_ok] by (simp add: J_def)
  have key: "args_key wid a' = args_key wid a" using assms(3-5) by (simp add: args_key_def)
  from sound_opD[OF bind_resource_sound ok] assms(1) have ok': "fabric_ok J'" by (metis J_def fst_conv)
  from performs_sound[OF ok'] have ds: "fabric_ok (performs ds J')" "advances J' (performs ds J')" by simp_all
  from bind_resource_Inr[OF assms(1)[folded J_def] ok] have r: "find_resource (args_key wid a) J' = Some r" by simp
  have "\<exists>r'. find_resource (args_key wid a) (performs ds J') = Some r' \<and> same_resource r r'"
    unfolding find_resource_def
  proof (rule grown_find)
    show "grown same_resource (fj_resources J') (fj_resources (performs ds J'))" using ds(2) by (simp add: advances_def)
    show "distinct (map resource_key (fj_resources (performs ds J')))"
      using fabric_ok_parts(5)[OF ds(1)] by (simp add: resources_ok_def)
    show "find (\<lambda>r. resource_key r = args_key wid a) (fj_resources J') = Some r" using r by (simp add: find_resource_def)
  qed (simp add: same_resource_def)
  with bind_resource_Inr[OF assms(2) ds(1)] show ?thesis unfolding key by auto
qed

end
