(* ===== verification/Pmw_Examples.thy ===== *)
theory Pmw_Examples
  imports Pmw_Fabric
begin

text \<open>Concrete runs of the fabric, on which the properties of \<open>Pmw_Fabric\<close> are applied.\<close>

definition bridge_binding :: AgentBinding where
  "bridge_binding = \<lparr>ab_semantic_agent_id = ''a'', ab_display_name = ''A'', ab_role = None, ab_binding_id = ''b'',
     ab_runtime_epoch_id = ''e'', ab_herdr_session = ''s'', ab_agent_target = ''t'', ab_agent_kind = ''k'',
     ab_workspace_id = ''w'', ab_tab_id = ''u'', ab_pane_id = ''p'', ab_terminal_id = ''m'',
     ab_native_session_ref = None, ab_launch_epoch = 1, ab_bound_at = ''0'', ab_status = ''ok'',
     ab_state_change_seq = 0, ab_revision = 0, ab_binding_confidence = ''c''\<rparr>"

definition bridge_db :: journal where
  "bridge_db = upsert_agent bridge_binding empty_journal"

definition example_args :: resource_args where
  "example_args = \<lparr>ra_provider = ''h'', ra_resource_kind = ''d'', ra_provider_resource_id = ''r'', ra_display_mode = ''live'',
     ra_interaction_mode = ''i'', ra_owner = Some ''a'', ra_task_id = None, ra_canvas_object_id = None,
     ra_projection_mode = ''n'', ra_state = ''b'', ra_metadata = []\<rparr>"


definition first_commands :: "command list" where
  "first_commands = [ImportHerdrAgent ''1'' ''1'' ''x'' ''a'' (Some bridge_db) ''ai'',
     CreateWorkspace ''2'' ''w'' ''t'' ''a'' None ''m'' None None []]"

definition later_commands :: "command list" where
  "later_commands = [UpsertAgent ''3'' ''c'' ''human'' None None,
     BindAgent ''3'' ''y'' ''c'' (''herdr'', ''agent_session'', ''t'') True None []]"

lemma fabric_integrity_witness:
  "keeps_bindings (performs first_commands empty_fabric) (performs (first_commands @ later_commands) empty_fabric)
   \<and> length (fj_bindings (performs first_commands empty_fabric)) = 1"
proof -
  have "fresh_bindings later_commands (performs first_commands empty_fabric)" by code_simp
  moreover have "length (fj_bindings (performs first_commands empty_fabric)) = 1" by code_simp
  ultimately show ?thesis using fabric_integrity[of first_commands later_commands] by simp
qed


lemma import_herdr_agent_principal_witness:
  "resolve_principal (''herdr'', ''agent_session'', ''t'') True
    (fst (import_herdr_agent ''1'' ''1'' ''x'' ''a'' (Some bridge_db) ''ai'' (performs [] empty_fabric))) = Some ''a''"
proof -
  let ?run = "import_herdr_agent ''1'' ''1'' ''x'' ''a'' (Some bridge_db) ''ai'' (performs [] empty_fabric)"
  have "\<not> isl (snd ?run)" by code_simp
  then obtain agent binding where "?run = (fst ?run, Inr (agent, binding))"
    by (cases ?run; cases "snd ?run") auto
  moreover have "get_provider_binding ''x'' (performs [] empty_fabric) = None" by code_simp
  ultimately have "\<exists>row. get_agent bridge_db ''a'' = Some row
      \<and> resolve_principal (''herdr'', ''agent_session'', ab_agent_target (ag_runtime_binding row)) True (fst ?run) = Some ''a''"
    using import_herdr_agent_principal[of "''1''" "''1''" "''x''" "''a''" bridge_db "''ai''" "[]"] by blast
  moreover have "map_option (\<lambda>row. ab_agent_target (ag_runtime_binding row)) (get_agent bridge_db ''a'') = Some ''t''" by code_simp
  ultimately show ?thesis by auto
qed

definition bound_fabric :: fabric where
  "bound_fabric = fst (bind_resource ''4'' ''q'' ''w'' example_args (performs first_commands empty_fabric))"


lemma bind_resource_again_witness:
  "fst (bind_resource ''6'' ''z'' ''w'' (example_args\<lparr>ra_display_mode := ''hidden''\<rparr>) (performs later_commands bound_fabric))
    = performs later_commands bound_fabric"
proof -
  let ?first = "bind_resource ''4'' ''q'' ''w'' example_args (performs first_commands empty_fabric)"
  let ?again = "bind_resource ''6'' ''z'' ''w'' (example_args\<lparr>ra_display_mode := ''hidden''\<rparr>) (performs later_commands bound_fabric)"
  have "case snd ?first of Inr (Some r) \<Rightarrow> True | _ \<Rightarrow> False" by code_simp
  then obtain r where "?first = (bound_fabric, Inr (Some r))"
    unfolding bound_fabric_def by (cases ?first; cases "snd ?first") (auto split: option.splits)
  moreover have "\<not> isl (snd ?again)" by code_simp
  then obtain x where "?again = (fst ?again, Inr x)" by (cases ?again; cases "snd ?again") auto
  ultimately show ?thesis
    using bind_resource_again[of "''4''" "''q''" "''w''" example_args first_commands bound_fabric r "''6''" "''z''"] by simp
qed

end
