(* ===== verification/Pmw_Integration.thy ===== *)
theory Pmw_Integration
  imports Pmw_Core Fed_Visibility
begin

text \<open>
  The first half of \<open>src/eml_pmw/integration\<close>: the lock of the upstream contracts (\<open>contracts.py\<close>) and the
  negotiation with a MRMIC server (\<open>capabilities.py\<close>); the rest is in \<open>Pmw_References\<close>. The files of the package
  and \<open>jsonschema.validate\<close> are arguments. \<open>IntegrationContractError\<close> is its code. \<open>json.loads\<close> is the strict
  reader; a text that it refuses for a repeated key or a number outside the integers is answered \<open>Untyped\<close>.
\<close>

section \<open>The package\<close>

text \<open>The regular files of the two contract packages by name, and \<open>jsonschema.validate(instance, schema)\<close>.\<close>

record contract_package =
  cp_upstream :: "string \<Rightarrow> string option"
  cp_local :: "string \<Rightarrow> string option"
  cp_valid :: "json \<Rightarrow> json \<Rightarrow> bool"

definition load_json_item :: "string \<Rightarrow> string option \<Rightarrow> dict res" where
  "load_json_item code item = (case item of
      None \<Rightarrow> Inl (Coded code)
    | Some b \<Rightarrow> (case loads_strict b of
        Inr (JObj d) \<Rightarrow> Inr d
      | Inr v \<Rightarrow> Inl (Coded code)
      | Inl (Coded c) \<Rightarrow> if c \<in> {''duplicate_key'', ''unsupported_number''} then Inl (Untyped ''json'') else Inl (Coded code)
      | Inl e \<Rightarrow> Inl e))"

text \<open>\<open>Path(name).name == name\<close> on POSIX.\<close>

definition safe_name :: "json \<Rightarrow> string res" where
  "safe_name v = (case v of
      JStr s \<Rightarrow> if s = [] \<or> CHR ''/'' \<in> set s \<or> s = ''.'' then Inl (Coded ''contract_name_invalid'') else Inr s
    | _ \<Rightarrow> Inl (Coded ''contract_name_invalid''))"

definition load_contract :: "contract_package \<Rightarrow> string \<Rightarrow> dict res" where
  "load_contract P name = bindR (safe_name (JStr name)) (\<lambda>n. load_json_item ''upstream_contract_invalid'' (cp_upstream P n))"

definition load_local_contract :: "contract_package \<Rightarrow> string \<Rightarrow> dict res" where
  "load_local_contract P name = bindR (safe_name (JStr name)) (\<lambda>n. load_json_item ''local_contract_invalid'' (cp_local P n))"

text \<open>\<open>value[key]\<close> and \<open>str(value)\<close> of a JSON value.\<close>

definition subscript :: "json \<Rightarrow> string \<Rightarrow> json res" where
  "subscript v k = (case v of JObj d \<Rightarrow> dget d k | JOther t \<Rightarrow> Inl (Untyped t) | _ \<Rightarrow> Inl TypeError)"

definition str_of :: "json \<Rightarrow> string res" where
  "str_of v = (case v of JStr s \<Rightarrow> Inr s | JInt n \<Rightarrow> Inr (show_int n) | JNull \<Rightarrow> Inr ''None''
     | JBool b \<Rightarrow> Inr (if b then ''True'' else ''False'') | _ \<Rightarrow> Inl (Untyped ''str''))"

section \<open>The lock of the upstream contracts\<close>

record ContractLockResult =
  cl_valid :: bool
  cl_source_commit :: string
  cl_digests :: "(string \<times> string) list"
  cl_reason_codes :: "string list"

definition lock_header :: "contract_package \<Rightarrow> (string \<times> json) res" where
  "lock_header P =
     bindR (load_json_item ''contract_lock_invalid'' (cp_upstream P ''lock.json'')) (\<lambda>lock.
     bindR (dget lock ''source'') (\<lambda>source. bindR (subscript source ''commit'') (\<lambda>c. bindR (str_of c) (\<lambda>commit.
     bindR (dget lock ''files'') (\<lambda>records. Inr (commit, records))))))"

text \<open>One record of the lock: the digest found, if the file is there, and the reason, if something is wrong.\<close>

definition lock_name :: "json \<Rightarrow> (string \<times> json) res" where
  "lock_name v = bindR (subscript v ''name'') (\<lambda>n. bindR (safe_name n) (\<lambda>name.
     bindR (subscript v ''sha256'') (\<lambda>expected. Inr (name, expected))))"

definition lock_record :: "lib \<Rightarrow> contract_package \<Rightarrow> json \<Rightarrow> ((string \<times> string) option \<times> string option) res" where
  "lock_record L P v = (case lock_name v of
      Inl (Untyped t) \<Rightarrow> Inl (Untyped t)
    | Inl e \<Rightarrow> Inr (None, Some ''contract_lock_invalid'')
    | Inr (name, expected) \<Rightarrow> (case cp_upstream P name of
        None \<Rightarrow> Inr (None, Some ''contract_file_missing'')
      | Some b \<Rightarrow> Inr (Some (name, sha256_hex L b),
          if JStr (sha256_hex L b) \<noteq> expected then Some ''contract_digest_mismatch'' else None)))"

definition digests_of :: "((string \<times> string) option \<times> string option) list \<Rightarrow> (string \<times> string) list" where
  "digests_of rs = fold (\<lambda>(found, reason) m. case found of None \<Rightarrow> m | Some (n, g) \<Rightarrow> AList.update n g m) rs []"

definition reasons_of :: "((string \<times> string) option \<times> string option) list \<Rightarrow> string list" where
  "reasons_of rs = concat (map (\<lambda>(found, reason). case reason of None \<Rightarrow> [] | Some c \<Rightarrow> [c]) rs)"

definition lock_invalid :: "string \<Rightarrow> string \<Rightarrow> ContractLockResult" where
  "lock_invalid commit reason = \<lparr>cl_valid = False, cl_source_commit = commit, cl_digests = [], cl_reason_codes = [reason]\<rparr>"

definition verify_contract_lock :: "lib \<Rightarrow> contract_package \<Rightarrow> ContractLockResult res" where
  "verify_contract_lock L P = (case lock_header P of
      Inl (Coded c) \<Rightarrow> Inr (lock_invalid [] c)
    | Inl KeyError \<Rightarrow> Inr (lock_invalid [] ''contract_lock_invalid'')
    | Inl TypeError \<Rightarrow> Inr (lock_invalid [] ''contract_lock_invalid'')
    | Inl e \<Rightarrow> Inl e
    | Inr (commit, records) \<Rightarrow> (case records of
        JList vs \<Rightarrow> bindR (mapR (lock_record L P) vs) (\<lambda>rs.
          let reasons = reasons_of rs
          in Inr \<lparr>cl_valid = (reasons = []), cl_source_commit = commit, cl_digests = digests_of rs,
               cl_reason_codes = sorted_set reasons\<rparr>)
      | _ \<Rightarrow> Inr (lock_invalid commit ''contract_lock_invalid'')))"

section \<open>Negotiation\<close>

record NegotiationResult =
  ng_status :: string
  ng_reason_codes :: "string list"

definition load_integration_profile :: "contract_package \<Rightarrow> dict res" where
  "load_integration_profile P =
     bindR (load_local_contract P ''integration-profile-v1.json'') (\<lambda>profile.
     bindR (load_local_contract P ''integration-profile-v1.schema.json'') (\<lambda>schema.
     if cp_valid P (JObj profile) (JObj schema) then Inr profile else Inl (Coded ''integration_profile_invalid'')))"

definition FORBIDDEN_KEYS :: "string list" where
  "FORBIDDEN_KEYS = [''authtoken'', ''accesstoken'', ''apikey'', ''secret'', ''password'', ''authorization'']"

text \<open>
  \<open>str(key).replace("_", "").replace("-", "").lower()\<close>, as far as a comparison with ASCII names can tell: of the
  characters above ASCII only the Kelvin sign has an ASCII lower case.
\<close>

definition lower_text :: "string \<Rightarrow> string" where
  "lower_text s = concat (map (\<lambda>x. if x = [CHR 0xE2, CHR 0x84, CHR 0xAA] then ''k'' else map lower_char x) (chars s))"

definition normalized_key :: "string \<Rightarrow> string" where
  "normalized_key s = lower_text (filter (\<lambda>c. c \<noteq> CHR ''_'' \<and> c \<noteq> CHR ''-'') s)"

fun contains_credential_key :: "json \<Rightarrow> bool" where
  "contains_credential_key (JObj d) =
     list_ex (\<lambda>kv. normalized_key (fst kv) \<in> set FORBIDDEN_KEYS \<or> contains_credential_key (snd kv)) d"
| "contains_credential_key (JList vs) = list_ex contains_credential_key vs"
| "contains_credential_key v = False"

text \<open>The checks: each a comparison of the document with the profile, and the code it fails with.\<close>

definition same_at :: "json res \<Rightarrow> json res \<Rightarrow> bool res" where
  "same_at x y = bindR x (\<lambda>v. bindR y (\<lambda>w. Inr (py_eq v w)))"

definition is_at :: "json res \<Rightarrow> bool \<Rightarrow> bool res" where
  "is_at x b = bindR x (\<lambda>v. Inr (v = JBool b))"

definition member_at :: "json res \<Rightarrow> json res \<Rightarrow> bool res" where
  "member_at x y = bindR x (\<lambda>v. bindR y (\<lambda>w. case w of JList ws \<Rightarrow> Inr (list_ex (py_eq v) ws) | _ \<Rightarrow> Inl (Untyped ''in'')))"

definition sub2 :: "dict \<Rightarrow> string \<Rightarrow> string \<Rightarrow> json res" where
  "sub2 d k l = bindR (dget d k) (\<lambda>v. subscript v l)"

definition mrmic_checks :: "dict \<Rightarrow> json \<Rightarrow> (bool res \<times> string) list" where
  "mrmic_checks d required =
     [(same_at (dget d ''mrmicVersion'') (subscript required ''mrmicVersion''), ''mrmic_version_mismatch''),
      (same_at (dget d ''canvasSchemaVersion'') (subscript required ''canvasSchemaVersion''), ''canvas_schema_mismatch''),
      (same_at (sub2 d ''mcpProtocolProfile'' ''protocolVersion'') (subscript required ''mcpProtocolVersion''),
        ''mcp_protocol_version_mismatch''),
      (same_at (sub2 d ''mcpProtocolProfile'' ''profile'') (subscript required ''mcpProfile''), ''mcp_profile_mismatch''),
      (member_at (subscript required ''projectionMode'') (dget d ''projectionModes''), ''required_projection_mode_missing''),
      (member_at (subscript required ''authMode'') (dget d ''authModes''), ''required_auth_mode_missing''),
      (is_at (sub2 d ''resourcePortal'' ''supported'') True, ''native_portal_not_supported''),
      (same_at (sub2 d ''resourcePortal'' ''schemaVersion'') (subscript required ''projectionMode''), ''portal_schema_mismatch''),
      (is_at (sub2 d ''runtimePresence'' ''supported'') True, ''runtime_presence_not_supported''),
      (is_at (sub2 d ''runtimePresence'' ''durable'') False, ''runtime_presence_must_be_ephemeral''),
      (same_at (sub2 d ''runtimePresence'' ''schemaVersion'') (subscript required ''runtimePresenceSchema''),
        ''runtime_presence_schema_mismatch''),
      (is_at (sub2 d ''livePortalHost'' ''supported'') True, ''live_host_not_supported''),
      (same_at (sub2 d ''livePortalHost'' ''stateVersion'') (subscript required ''livePortalHostState''),
        ''live_host_state_mismatch'')]"

definition negotiation :: "string \<Rightarrow> string list \<Rightarrow> NegotiationResult" where
  "negotiation status reasons = \<lparr>ng_status = status, ng_reason_codes = reasons\<rparr>"

definition checked_reasons :: "(bool res \<times> string) list \<Rightarrow> string list res" where
  "checked_reasons cs = bindR (mapR (\<lambda>(c, code). bindR c (\<lambda>b. Inr (b, code))) cs)
     (\<lambda>rs. Inr (map snd (filter (\<lambda>(b, code). \<not> b) rs)))"

definition negotiate_mrmic :: "lib \<Rightarrow> contract_package \<Rightarrow> json \<Rightarrow> NegotiationResult res" where
  "negotiate_mrmic L P document = (case document of
      JObj d \<Rightarrow>
        if contains_credential_key document then Inr (negotiation ''incompatible'' [''capability_document_contains_credential''])
        else bindR (load_integration_profile P) (\<lambda>profile.
        bindR (verify_contract_lock L P) (\<lambda>lock.
        if \<not> cl_valid lock then Inr (negotiation ''incompatible'' [''upstream_contract_lock_invalid''])
        else bindR (sub2 profile ''mrmic'' ''sourceCommit'') (\<lambda>commit.
        if commit \<noteq> JStr (cl_source_commit lock) then Inr (negotiation ''incompatible'' [''upstream_source_commit_mismatch''])
        else bindR (load_contract P ''mrmic-capabilities-v1.schema.json'') (\<lambda>schema.
        if \<not> cp_valid P document (JObj schema) then Inr (negotiation ''incompatible'' [''capability_schema_invalid''])
        else bindR (dget profile ''mrmic'') (\<lambda>required.
        bindR (checked_reasons (mrmic_checks d required)) (\<lambda>reasons.
        Inr (negotiation (if reasons = [] then ''compatible'' else ''incompatible'') reasons)))))))
    | _ \<Rightarrow> Inr (negotiation ''unmeasured'' [''capability_document_unmeasured'']))"

end
