(* ===== verification/Pmw_References.thy ===== *)
theory Pmw_References
  imports Pmw_Integration
begin

text \<open>
  The rest of \<open>src/eml_pmw/integration\<close>: references to agents with their evidence (\<open>references.py\<close>), the native
  portal object of a resource (\<open>portal.py\<close>) and the verdict on a conformance bundle (\<open>bundle.py\<close>). The fields of
  a reference are kept as the JSON values they came as.
\<close>

section \<open>References\<close>

definition ENTITY_KINDS :: "string list" where
  "ENTITY_KINDS = [''arcp_agent'', ''principal'', ''unresolved'']"

definition INSTANCE_KINDS :: "string list" where
  "INSTANCE_KINDS = [''codex_thread'', ''session_uuid'', ''provider_session'', ''unresolved'']"

definition PRINCIPAL_KINDS :: "string list" where
  "PRINCIPAL_KINDS = [''provider_principal'', ''unresolved'']"

definition FORBIDDEN_ENTITY_KINDS :: "string list" where
  "FORBIDDEN_ENTITY_KINDS = [''runtime_tag'', ''pane'', ''role'', ''model_name'']"

record ExternalReference =
  er_value :: json
  er_identifier_kind :: json
  er_issuer :: json
  er_status :: json
  er_evidence_refs :: "json list"

text \<open>\<open>bool(value)\<close>.\<close>

definition truthy :: "json \<Rightarrow> bool res" where
  "truthy v = (case v of JNull \<Rightarrow> Inr False | JBool b \<Rightarrow> Inr b | JInt n \<Rightarrow> Inr (n \<noteq> 0) | JStr s \<Rightarrow> Inr (s \<noteq> [])
     | JList vs \<Rightarrow> Inr (vs \<noteq> []) | JObj d \<Rightarrow> Inr (d \<noteq> []) | JOther t \<Rightarrow> Inl (Untyped t))"

fun all_truthy :: "json list \<Rightarrow> bool res" where
  "all_truthy [] = Inr True"
| "all_truthy (v # vs) = bindR (truthy v) (\<lambda>b. if b then all_truthy vs else Inr False)"

definition reference_checks :: "ExternalReference \<Rightarrow> unit res" where
  "reference_checks r =
     bindR (enum_check [''verified'', ''observed'', ''claimed'', ''unmeasured'', ''rejected''] ''invalid_reference_status''
              (er_status r)) (\<lambda>_.
     bindR (bindR (truthy (er_issuer r)) (\<lambda>b. check b ''reference_issuer_missing'')) (\<lambda>_.
     bindR (bindR (all_truthy (er_evidence_refs r)) (\<lambda>b. check b ''empty_evidence_reference'')) (\<lambda>_.
     bindR (check (\<not> (er_status r \<in> JStr ` {''verified'', ''observed''} \<and> er_evidence_refs r = []))
              (if er_status r = JStr ''verified'' then ''verified_reference_missing_evidence''
               else ''observed_reference_missing_evidence'')) (\<lambda>_.
     check (\<not> (er_identifier_kind r = JStr ''unresolved'' \<and> er_value r \<noteq> JNull)) ''unresolved_reference_has_value''))))"

definition reference_from_dict :: "dict \<Rightarrow> ExternalReference res" where
  "reference_from_dict d =
     bindR (dget d ''identifierKind'') (\<lambda>kind.
     bindR (dget d ''issuer'') (\<lambda>issuer.
     bindR (dget d ''verificationStatus'') (\<lambda>status.
     bindR (tuple_of (case map_of d ''evidenceRefs'' of None \<Rightarrow> JList [] | Some v \<Rightarrow> v)) (\<lambda>evidence.
     let r = \<lparr>er_value = dget_null d ''value'', er_identifier_kind = kind, er_issuer = issuer, er_status = status,
       er_evidence_refs = evidence\<rparr>
     in bindR (reference_checks r) (\<lambda>_. Inr r)))))"

definition reference_of :: "json \<Rightarrow> ExternalReference res" where
  "reference_of v = (case v of JObj d \<Rightarrow> reference_from_dict d | JOther t \<Rightarrow> Inl (Untyped t) | _ \<Rightarrow> Inl AttributeError)"

section \<open>Agent ids\<close>

text \<open>
  \<open>^arcp:agent:([a-z0-9-]+):([0-9a-fA-F-]{36})$\<close> in full: no group holds a colon. \<open>UUID\<close> drops the dashes and
  wants 32 digits; its text has them in groups of 8, 4, 4, 4 and 12.
\<close>

definition namespace_char :: "char \<Rightarrow> bool" where
  "namespace_char c \<longleftrightarrow> in_rng 97 122 c \<or> is_digit c \<or> c = CHR ''-''"

definition uuid_digits :: "string \<Rightarrow> string" where
  "uuid_digits s = lower (filter (\<lambda>c. c \<noteq> CHR ''-'') s)"

definition uuid_text :: "string \<Rightarrow> string" where
  "uuid_text h = take 8 h @ ''-'' @ take 4 (drop 8 h) @ ''-'' @ take 4 (drop 12 h) @ ''-'' @ take 4 (drop 16 h) @ ''-'' @ drop 20 h"

definition arcp_groups :: "string \<Rightarrow> (string \<times> string) option" where
  "arcp_groups s = (case split_on CHR '':'' s of
      [a, b, g, u] \<Rightarrow> if a = ''arcp'' \<and> b = ''agent'' \<and> g \<noteq> [] \<and> list_all namespace_char g \<and> length u = 36
          \<and> list_all (\<lambda>c. is_hex_any c \<or> c = CHR ''-'') u then Some (g, u) else None
    | _ \<Rightarrow> None)"

definition parse_arcp_agent_id :: "json \<Rightarrow> (string \<times> string) res" where
  "parse_arcp_agent_id v = (case v of
      JStr s \<Rightarrow> (case arcp_groups s of
          None \<Rightarrow> Inl (Coded ''invalid_arcp_agent_id'')
        | Some (g, u) \<Rightarrow> if length (uuid_digits u) = 32 then Inr (g, uuid_text (uuid_digits u))
            else Inl (Coded ''invalid_arcp_agent_id''))
    | _ \<Rightarrow> Inl TypeError)"

section \<open>Participants\<close>

record ParticipantBindingV1 =
  pp_binding_id :: json
  pp_workspace_id :: json
  pp_display_label :: json
  pp_entity_ref :: ExternalReference
  pp_instance_ref :: "ExternalReference option"
  pp_principal_ref :: "ExternalReference option"

text \<open>\<open>value.get("entityRef", {}).get("identifierKind")\<close>.\<close>

definition presented_kind :: "dict \<Rightarrow> json res" where
  "presented_kind d = (case map_of d ''entityRef'' of
      None \<Rightarrow> Inr JNull
    | Some (JObj e) \<Rightarrow> Inr (dget_null e ''identifierKind'')
    | Some (JOther t) \<Rightarrow> Inl (Untyped t)
    | Some v \<Rightarrow> Inl AttributeError)"

definition optional_reference :: "dict \<Rightarrow> string \<Rightarrow> string list \<Rightarrow> string \<Rightarrow> ExternalReference option res" where
  "optional_reference d f kinds code =
     (if dget_null d f = JNull then Inr None
      else bindR (reference_of (dget_null d f)) (\<lambda>r.
        bindR (enum_check kinds code (er_identifier_kind r)) (\<lambda>_. Inr (Some r))))"

definition check_entity :: "ExternalReference \<Rightarrow> unit res" where
  "check_entity r =
     bindR (enum_check ENTITY_KINDS ''forbidden_entity_identifier_kind'' (er_identifier_kind r)) (\<lambda>_.
     if er_identifier_kind r \<noteq> JStr ''arcp_agent'' then Inr ()
     else bindR (check (er_value r \<noteq> JNull) ''invalid_arcp_agent_id'') (\<lambda>_.
       bindR (parse_arcp_agent_id (er_value r)) (\<lambda>_. Inr ())))"

definition participant_from_dict :: "contract_package \<Rightarrow> dict \<Rightarrow> ParticipantBindingV1 res" where
  "participant_from_dict P d =
     bindR (presented_kind d) (\<lambda>kind.
     bindR (bindR (in_strings kind FORBIDDEN_ENTITY_KINDS) (\<lambda>b. check (\<not> b) ''forbidden_entity_identifier_kind'')) (\<lambda>_.
     bindR (load_local_contract P ''participant-binding-v1.schema.json'') (\<lambda>schema.
     bindR (check (cp_valid P (JObj d) (JObj schema)) ''participant_binding_schema_invalid'') (\<lambda>_.
     bindR (bindR (dget d ''entityRef'') reference_of) (\<lambda>entity.
     bindR (check_entity entity) (\<lambda>_.
     bindR (optional_reference d ''instanceRef'' INSTANCE_KINDS ''forbidden_instance_identifier_kind'') (\<lambda>instance_ref.
     bindR (optional_reference d ''providerPrincipalRef'' PRINCIPAL_KINDS ''forbidden_provider_principal_kind'') (\<lambda>principal.
     bindR (dget d ''bindingId'') (\<lambda>binding_id.
     bindR (dget d ''pmwWorkspaceId'') (\<lambda>workspace.
     bindR (dget d ''displayLabel'') (\<lambda>label.
     Inr \<lparr>pp_binding_id = binding_id, pp_workspace_id = workspace, pp_display_label = label, pp_entity_ref = entity,
       pp_instance_ref = instance_ref, pp_principal_ref = principal\<rparr>)))))))))))"

section \<open>The native portal\<close>

definition portal_entry :: "ResourceBinding \<Rightarrow> dict" where
  "portal_entry r = [(''portalId'', JStr (rb_binding_id r)), (''pmwWorkspaceId'', JStr (rb_workspace_id r)),
     (''pmwTaskId'', opt_json (rb_task_id r)), (''provider'', JStr (rb_provider r)),
     (''resourceKind'', JStr (rb_resource_kind r)), (''providerResourceId'', JStr (rb_provider_resource_id r)),
     (''displayMode'', JStr (rb_display_mode r)), (''interactionMode'', JStr (rb_interaction_mode r))]"

definition build_native_portal :: "ResourceBinding \<Rightarrow> string \<Rightarrow> string \<Rightarrow> geometry \<Rightarrow> string \<Rightarrow> dict" where
  "build_native_portal r canvas_id object_id g now =
     [(''id'', JStr object_id), (''canvasId'', JStr canvas_id), (''type'', JStr ''resource_portal''),
      (''transform'', JObj [(''x'', g_x g), (''y'', g_y g), (''width'', g_width g), (''height'', g_height g),
        (''rotation'', JInt 0), (''scaleX'', JInt 1), (''scaleY'', JInt 1), (''zIndex'', g_z_index g)]),
      (''style'', JObj []), (''content'', JObj [(''text'', JStr (rb_provider r @ '':'' @ rb_resource_kind r))]),
      (''childIds'', JList []), (''bindings'', JList []),
      (''metadata'', JObj [(''portalSchema'', JStr ''native_resource_portal_v1''), (''portal'', JObj (portal_entry r))]),
      (''createdBy'', JObj [(''actorType'', JStr ''system''), (''actorId'', JStr ''pmw-client-claim'')]),
      (''createdAt'', JStr now), (''updatedAt'', JStr now), (''revision'', JInt 0)]"

section \<open>The conformance bundle\<close>

record BundleDecision =
  bd_status :: string
  bd_reason_codes :: "string list"

definition verdict :: "string \<Rightarrow> string list \<Rightarrow> BundleDecision" where
  "verdict status reasons = \<lparr>bd_status = status, bd_reason_codes = reasons\<rparr>"

text \<open>\<open>ParticipantBindingV1.from_dict(value["participantBinding"])\<close>: an error with a code is the verdict.\<close>

definition participant_verdict :: "contract_package \<Rightarrow> json \<Rightarrow> string option res" where
  "participant_verdict P v = (case v of
      JObj d \<Rightarrow> (case participant_from_dict P d of
          Inr b \<Rightarrow> Inr None | Inl (Coded c) \<Rightarrow> Inr (Some c) | Inl e \<Rightarrow> Inl e)
    | JOther t \<Rightarrow> Inl (Untyped t)
    | _ \<Rightarrow> Inl AttributeError)"

text \<open>\<open>any(portal[key] != resource[key] for key in keys)\<close>.\<close>

fun some_differ :: "json \<Rightarrow> json \<Rightarrow> string list \<Rightarrow> bool res" where
  "some_differ v w [] = Inr False"
| "some_differ v w (k # ks) = bindR (subscript v k) (\<lambda>x. bindR (subscript w k) (\<lambda>y.
     if \<not> py_eq x y then Inr True else some_differ v w ks))"

definition PORTAL_KEYS :: "string list" where
  "PORTAL_KEYS = [''pmwWorkspaceId'', ''provider'', ''resourceKind'', ''providerResourceId'']"

definition validate_bundle :: "lib \<Rightarrow> contract_package \<Rightarrow> dict \<Rightarrow> BundleDecision res" where
  "validate_bundle L P d =
     bindR (load_local_contract P ''conformance-bundle-v1.schema.json'') (\<lambda>bundle_schema.
     if \<not> cp_valid P (JObj d) (JObj bundle_schema) then Inr (verdict ''rejected'' [''conformance_bundle_schema_invalid''])
     else bindR (dget d ''participantBinding'') (\<lambda>participant.
     bindR (participant_verdict P participant) (\<lambda>refused. case refused of
       Some code \<Rightarrow> Inr (verdict ''rejected'' [code])
     | None \<Rightarrow>
     bindR (negotiate_mrmic L P (dget_null d ''mrmicCapabilities'')) (\<lambda>n.
     if ng_status n \<noteq> ''compatible'' then Inr (verdict (ng_status n) (ng_reason_codes n))
     else bindR (dget d ''nativePortal'') (\<lambda>native.
     bindR (load_contract P ''native-resource-portal-v1.schema.json'') (\<lambda>portal_schema.
     if \<not> cp_valid P native (JObj portal_schema) then Inr (verdict ''rejected'' [''native_portal_schema_invalid''])
     else bindR (bindR (subscript native ''metadata'') (\<lambda>m. subscript m ''portal'')) (\<lambda>portal.
     bindR (dget d ''resourceBinding'') (\<lambda>resource.
     bindR (some_differ portal resource PORTAL_KEYS) (\<lambda>differ.
     Inr (if differ then verdict ''rejected'' [''portal_binding_mismatch''] else verdict ''compatible'' []))))))))))"

section \<open>Agent ids are canonical\<close>

lemma hex_marks: "is_hex_lower c \<Longrightarrow> c \<noteq> CHR ''-'' \<and> c \<noteq> CHR '':'' \<and> lower_char c = c \<and> is_hex_any c"
  by (auto simp: is_hex_any_def is_hex_lower_def is_digit_def in_rng_def lower_char_def byte_def)

lemma colon_not_hex [simp]: "\<not> is_hex_lower CHR '':''" "\<not> is_hex_lower CHR ''-''"
  using hex_marks by blast+

lemma byte_char_of: "n < 256 \<Longrightarrow> byte (char_of n) = n"
  by (simp add: byte_def)

lemma hex_lowered: "is_hex_any c \<Longrightarrow> is_hex_lower (lower_char c)"
  by (auto simp: is_hex_any_def is_hex_lower_def is_hex_upper_def is_digit_def in_rng_def lower_char_def byte_def)

lemma uuid_digits_lower:
  assumes "list_all (\<lambda>c. is_hex_any c \<or> c = CHR ''-'') u"
  shows "list_all is_hex_lower (uuid_digits u)"
  using assms by (induction u) (auto simp: uuid_digits_def lower_def hex_lowered)

lemma hex_kept:
  assumes "list_all is_hex_lower x"
  shows "filter (\<lambda>c. c \<noteq> CHR ''-'') x = x" and "lower x = x" and "CHR '':'' \<notin> set x"
    and "list_all (\<lambda>c. is_hex_lower c \<or> c = CHR ''-'') x"
  using assms by (induction x) (auto simp: lower_def hex_marks)

lemma hex_part:
  assumes "list_all is_hex_lower h"
  shows "list_all is_hex_lower (take n h)" and "list_all is_hex_lower (drop n h)"
  using assms by (auto simp: list_all_iff dest: in_set_takeD in_set_dropD)

lemma cut_at: "drop m h = take n (drop m h) @ drop (m + n) h"
  by (metis append_take_drop_id drop_drop add.commute)

lemma uuid_cuts: "take 8 h @ take 4 (drop 8 h) @ take 4 (drop 12 h) @ take 4 (drop 16 h) @ drop 20 h = h"
  using cut_at[of 0 h 8] cut_at[of 8 h 4] cut_at[of 12 h 4] cut_at[of 16 h 4] by simp

lemma uuid_text_shape:
  assumes "list_all is_hex_lower h" and "length h = 32"
  shows "length (uuid_text h) = 36" and "list_all (\<lambda>c. is_hex_lower c \<or> c = CHR ''-'') (uuid_text h)"
    and "CHR '':'' \<notin> set (uuid_text h)" and "uuid_digits (uuid_text h) = h"
proof -
  note parts = hex_part[OF assms(1)] hex_part(1)[OF hex_part(2)[OF assms(1)]]
  show "length (uuid_text h) = 36" using assms(2) by (simp add: uuid_text_def)
  show "list_all (\<lambda>c. is_hex_lower c \<or> c = CHR ''-'') (uuid_text h)" "CHR '':'' \<notin> set (uuid_text h)"
    using hex_kept(3,4)[OF parts(1)] hex_kept(3,4)[OF parts(2)] hex_kept(3,4)[OF parts(3)] by (simp_all add: uuid_text_def)
  have "filter (\<lambda>c. c \<noteq> CHR ''-'') (uuid_text h) =
      take 8 h @ take 4 (drop 8 h) @ take 4 (drop 12 h) @ take 4 (drop 16 h) @ drop 20 h"
    using hex_kept(1)[OF parts(1)] hex_kept(1)[OF parts(2)] hex_kept(1)[OF parts(3)] by (simp add: uuid_text_def)
  with hex_kept(2)[OF assms(1)] show "uuid_digits (uuid_text h) = h" by (simp add: uuid_digits_def uuid_cuts)
qed

lemma parse_arcp_agent_id_eq:
  "parse_arcp_agent_id (JStr s) = Inr (g, u) \<longleftrightarrow>
     (\<exists>w. arcp_groups s = Some (g, w) \<and> length (uuid_digits w) = 32 \<and> u = uuid_text (uuid_digits w))"
  by (auto simp: parse_arcp_agent_id_def split: option.splits if_splits)

lemma arcp_groups_parts:
  assumes "arcp_groups s = Some (g, w)"
  shows "g \<noteq> []" and "list_all namespace_char g" and "list_all (\<lambda>c. is_hex_any c \<or> c = CHR ''-'') w"
  using assms by (auto simp: arcp_groups_def split: list.splits if_splits)

lemma namespace_no_colon: "list_all namespace_char g \<Longrightarrow> CHR '':'' \<notin> set g"
  by (auto simp: list_all_iff namespace_char_def is_digit_def in_rng_def byte_def)

lemma split_arcp:
  assumes "CHR '':'' \<notin> set g" and "CHR '':'' \<notin> set u"
  shows "split_on CHR '':'' (''arcp:agent:'' @ g @ '':'' @ u) = [''arcp'', ''agent'', g, u]"
  using assms split_on_append[of "CHR '':''" g u] split_on_none[of "CHR '':''" u] by simp

text \<open>
  An accepted agent id is given back in canonical form. The namespace is kept, the UUID comes out as 36
  characters, lower case hexadecimal digits and dashes with no colon, and the id written from the two is parsed to
  the same two again, however the digits and the dashes of the first were written.
\<close>

theorem arcp_agent_id_canonical:
  assumes "parse_arcp_agent_id (JStr s) = Inr (g, u)"
  shows "length u = 36 \<and> list_all (\<lambda>c. is_hex_lower c \<or> c = CHR ''-'') u
    \<and> parse_arcp_agent_id (JStr (''arcp:agent:'' @ g @ '':'' @ u)) = Inr (g, u)"
proof -
  obtain w where w: "arcp_groups s = Some (g, w)" "length (uuid_digits w) = 32" "u = uuid_text (uuid_digits w)"
    using assms parse_arcp_agent_id_eq by blast
  note g = arcp_groups_parts[OF w(1)]
  note u = uuid_text_shape[OF uuid_digits_lower[OF g(3)] w(2), folded w(3)]
  have "list_all (\<lambda>c. is_hex_any c \<or> c = CHR ''-'') u"
    using u(2) by (auto simp: list_all_iff dest: hex_marks)
  with g(1,2) u(1) have "arcp_groups (''arcp:agent:'' @ g @ '':'' @ u) = Some (g, u)"
    by (simp only: arcp_groups_def split_arcp[OF namespace_no_colon[OF g(2)] u(3)]) simp
  with u(4) w(2,3) have "parse_arcp_agent_id (JStr (''arcp:agent:'' @ g @ '':'' @ u)) = Inr (g, u)"
    by (simp only: parse_arcp_agent_id_eq) auto
  with u(1,2) show ?thesis by blast
qed

theorem arcp_agent_id_canonical_witness:
  "parse_arcp_agent_id (JStr ''arcp:agent:labs:0123456789ABCDEF0123-456789abcdef---'')
     = Inr (''labs'', ''01234567-89ab-cdef-0123-456789abcdef'')
   \<and> parse_arcp_agent_id (JStr (''arcp:agent:'' @ ''labs'' @ '':'' @ ''01234567-89ab-cdef-0123-456789abcdef''))
     = Inr (''labs'', ''01234567-89ab-cdef-0123-456789abcdef'')"
proof -
  have a: "parse_arcp_agent_id (JStr ''arcp:agent:labs:0123456789ABCDEF0123-456789abcdef---'')
     = Inr (''labs'', ''01234567-89ab-cdef-0123-456789abcdef'')"
    by code_simp
  show ?thesis using a arcp_agent_id_canonical[OF a] by blast
qed

section \<open>What a compatible bundle has shown\<close>

text \<open>Every record of the lock names a file that is there with the digest the record pins.\<close>

definition locked :: "lib \<Rightarrow> contract_package \<Rightarrow> json \<Rightarrow> bool" where
  "locked L P v = (case lock_name v of
      Inl e \<Rightarrow> False
    | Inr (name, expected) \<Rightarrow> (case cp_upstream P name of None \<Rightarrow> False | Some b \<Rightarrow> expected = JStr (sha256_hex L b)))"

lemma lock_record_clean:
  assumes "lock_record L P v = Inr (found, None)"
  shows "locked L P v"
  using assms by (auto simp: lock_record_def locked_def split: sum.splits exn.splits option.splits if_splits)

lemma no_reasons: "reasons_of rs = [] \<longleftrightarrow> (\<forall>x\<in>set rs. snd x = None)"
  by (auto simp: reasons_of_def split: option.splits)

lemma verify_contract_lock_valid:
  assumes "verify_contract_lock L P = Inr r" and "cl_valid r"
  shows "\<exists>vs. lock_header P = Inr (cl_source_commit r, JList vs) \<and> (\<forall>v\<in>set vs. locked L P v)"
proof -
  from assms obtain vs rs where h: "lock_header P = Inr (cl_source_commit r, JList vs)"
    and rs: "mapR (lock_record L P) vs = Inr rs" and none: "reasons_of rs = []"
    by (auto simp: verify_contract_lock_def lock_invalid_def bindR_Inr_iff Let_def
        split: sum.splits exn.splits prod.splits json.splits)
  have "locked L P v" if v: "v \<in> set vs" for v
  proof -
    obtain x where "x \<in> set rs" "lock_record L P v = Inr x" using mapR_mem(1)[OF rs v] by blast
    with none lock_record_clean show ?thesis by (cases x) (auto simp: no_reasons)
  qed
  with h show ?thesis by blast
qed

lemma checked_reasons_none:
  assumes "checked_reasons cs = Inr []" and "c \<in> set cs"
  shows "fst c = Inr True"
proof -
  from assms(1) obtain rs where rs: "mapR (\<lambda>(c, code). bindR c (\<lambda>b. Inr (b, code))) cs = Inr rs"
    and all: "\<forall>x\<in>set rs. fst x" by (auto simp: checked_reasons_def bindR_Inr_iff filter_empty_conv split_beta)
  from mapR_mem(1)[OF rs assms(2)] obtain y where y: "y \<in> set rs" "(\<lambda>(c, code). bindR c (\<lambda>b. Inr (b, code))) c = Inr y" by blast
  with all have "fst y" by blast
  with y(2) show ?thesis by (cases c) (auto simp: bindR_Inr_iff)
qed

text \<open>What the negotiation establishes of the document \<open>d\<close> before it answers \<open>compatible\<close>.\<close>

definition negotiated :: "lib \<Rightarrow> contract_package \<Rightarrow> dict \<Rightarrow> bool" where
  "negotiated L P d = (case (load_integration_profile P, lock_header P, load_contract P ''mrmic-capabilities-v1.schema.json'') of
      (Inr profile, Inr (commit, JList records), Inr schema) \<Rightarrow>
        list_all (locked L P) records \<and> sub2 profile ''mrmic'' ''sourceCommit'' = Inr (JStr commit)
        \<and> cp_valid P (JObj d) (JObj schema)
        \<and> list_all (\<lambda>c. fst c = Inr True) (mrmic_checks d (dget_null profile ''mrmic''))
    | _ \<Rightarrow> False)"

lemma dget_null_of: "dget d k = Inr v \<Longrightarrow> dget_null d k = v"
  by (auto simp: dget_def dget_null_def split: option.splits)

lemma negotiate_compatible:
  assumes "negotiate_mrmic L P v = Inr n" and "ng_status n = ''compatible''"
  shows "\<exists>d. v = JObj d \<and> \<not> contains_credential_key v \<and> negotiated L P d \<and> ng_reason_codes n = []"
proof -
  from assms obtain d where v: "v = JObj d" by (cases v) (auto simp: negotiate_mrmic_def negotiation_def)
  from assms have cred: "\<not> contains_credential_key (JObj d)" by (auto simp: v negotiate_mrmic_def negotiation_def split: if_splits)
  from assms cred obtain profile lock schema required where p: "load_integration_profile P = Inr profile"
    and l: "verify_contract_lock L P = Inr lock" "cl_valid lock"
    and c: "sub2 profile ''mrmic'' ''sourceCommit'' = Inr (JStr (cl_source_commit lock))"
    and s: "load_contract P ''mrmic-capabilities-v1.schema.json'' = Inr schema" "cp_valid P (JObj d) (JObj schema)"
    and r: "dget profile ''mrmic'' = Inr required" "checked_reasons (mrmic_checks d required) = Inr []"
    and n: "ng_reason_codes n = []"
    by (auto simp: v negotiate_mrmic_def negotiation_def bindR_Inr_iff split: if_splits)
  from verify_contract_lock_valid[OF l] obtain vs where "lock_header P = Inr (cl_source_commit lock, JList vs)"
    "\<forall>v\<in>set vs. locked L P v" by blast
  with p c s r(1) checked_reasons_none[OF r(2)] have "negotiated L P d"
    by (simp add: negotiated_def list_all_iff dget_null_of)
  with v cred n show ?thesis by blast
qed

lemma some_differ_none:
  "some_differ v w ks = Inr False \<Longrightarrow> k \<in> set ks \<Longrightarrow> \<exists>x y. subscript v k = Inr x \<and> subscript w k = Inr y \<and> py_eq x y"
  by (induction ks) (auto simp: bindR_Inr_iff split: if_splits)

text \<open>
  C35: a bundle is found compatible only when everything it rests on has been checked. Its participant is accepted
  by \<open>from_dict\<close>; its capability document is an object without a credential key at any depth, every record of the
  lock of the upstream contracts names a file that is there with the pinned digest, the commit of the lock is the
  one the profile wants, and each of the thirteen checks of the document against the profile holds; and its portal
  satisfies the schema of native portals and agrees with its resource in the four keys that name the resource. No
  reason is then given.
\<close>

theorem bundle_compatible:
  assumes "validate_bundle L P d = Inr b" and "bd_status b = ''compatible''"
  shows "bd_reason_codes b = []
    \<and> (\<exists>p q. map_of d ''participantBinding'' = Some (JObj p) \<and> participant_from_dict P p = Inr q)
    \<and> (\<exists>c. dget_null d ''mrmicCapabilities'' = JObj c \<and> \<not> contains_credential_key (JObj c) \<and> negotiated L P c)
    \<and> (\<exists>native schema portal resource. map_of d ''nativePortal'' = Some native
        \<and> load_contract P ''native-resource-portal-v1.schema.json'' = Inr schema \<and> cp_valid P native (JObj schema)
        \<and> bindR (subscript native ''metadata'') (\<lambda>m. subscript m ''portal'') = Inr portal
        \<and> map_of d ''resourceBinding'' = Some resource
        \<and> (\<forall>k\<in>set PORTAL_KEYS. \<exists>x y. subscript portal k = Inr x \<and> subscript resource k = Inr y \<and> py_eq x y))"
proof -
  have dget: "map_of d k = Some v" if "dget d k = Inr v" for k v using that by (auto simp: dget_def split: option.splits)
  from assms obtain participant where a: "dget d ''participantBinding'' = Inr participant" "participant_verdict P participant = Inr None"
    by (auto simp: validate_bundle_def verdict_def bindR_Inr_iff split: if_splits option.splits)
  from a(2) have part: "\<exists>p q. participant = JObj p \<and> participant_from_dict P p = Inr q"
    by (auto simp: participant_verdict_def split: json.splits sum.splits exn.splits)
  from assms obtain n where n: "negotiate_mrmic L P (dget_null d ''mrmicCapabilities'') = Inr n" "ng_status n = ''compatible''"
    by (auto simp: validate_bundle_def verdict_def bindR_Inr_iff split: if_splits option.splits)
  from assms obtain native schema portal resource where p: "dget d ''nativePortal'' = Inr native"
    "load_contract P ''native-resource-portal-v1.schema.json'' = Inr schema" "cp_valid P native (JObj schema)"
    "bindR (subscript native ''metadata'') (\<lambda>m. subscript m ''portal'') = Inr portal" "dget d ''resourceBinding'' = Inr resource"
    "some_differ portal resource PORTAL_KEYS = Inr False" "bd_reason_codes b = []"
    by (auto simp: validate_bundle_def verdict_def bindR_Inr_iff split: if_splits option.splits)
  have keys: "\<forall>k\<in>set PORTAL_KEYS. \<exists>x y. subscript portal k = Inr x \<and> subscript resource k = Inr y \<and> py_eq x y"
    using some_differ_none[OF p(6)] by blast
  have one: "\<exists>p q. map_of d ''participantBinding'' = Some (JObj p) \<and> participant_from_dict P p = Inr q"
    using part dget[OF a(1)] by auto
  have two: "\<exists>c. dget_null d ''mrmicCapabilities'' = JObj c \<and> \<not> contains_credential_key (JObj c) \<and> negotiated L P c"
    using negotiate_compatible[OF n] by auto
  show ?thesis using p(2-4,7) one two keys dget[OF p(1)] dget[OF p(5)] by (intro conjI) blast+
qed

section \<open>An example\<close>

definition example_profile :: dict where
  "example_profile = [(''mrmic'', JObj [(''sourceCommit'', JStr ''c''), (''mrmicVersion'', JStr ''1''), (''canvasSchemaVersion'', JStr ''2''),
     (''mcpProtocolVersion'', JStr ''3''), (''mcpProfile'', JStr ''4''), (''projectionMode'', JStr ''p''), (''authMode'', JStr ''a''),
     (''runtimePresenceSchema'', JStr ''5''), (''livePortalHostState'', JStr ''6'')])]"

definition example_profile_text :: string where
  "example_profile_text = ''{\"mrmic\":{\"sourceCommit\":\"c\",\"mrmicVersion\":\"1\",\"canvasSchemaVersion\":\"2\",''
     @ ''\"mcpProtocolVersion\":\"3\",\"mcpProfile\":\"4\",\"projectionMode\":\"p\",\"authMode\":\"a\",''
     @ ''\"runtimePresenceSchema\":\"5\",\"livePortalHostState\":\"6\"}}''"

definition example_lock_text :: string where
  "example_lock_text = ''{\"source\":{\"commit\":\"c\"},\"files\":[{\"name\":\"mrmic-capabilities-v1.schema.json\",\"sha256\":\"''
     @ sha256_hex plain_lib ''{}'' @ ''\"}]}''"

definition example_package :: contract_package where
  "example_package = \<lparr>cp_upstream = map_of [(''lock.json'', example_lock_text), (''mrmic-capabilities-v1.schema.json'', ''{}''),
       (''native-resource-portal-v1.schema.json'', ''{}'')],
     cp_local = map_of [(''integration-profile-v1.json'', example_profile_text), (''integration-profile-v1.schema.json'', ''{}''),
       (''participant-binding-v1.schema.json'', ''{}''), (''conformance-bundle-v1.schema.json'', ''{}'')],
     cp_valid = (\<lambda>v schema. schema = JObj [])\<rparr>"

definition example_document :: dict where
  "example_document = [(''mrmicVersion'', JStr ''1''), (''canvasSchemaVersion'', JStr ''2''),
     (''mcpProtocolProfile'', JObj [(''protocolVersion'', JStr ''3''), (''profile'', JStr ''4'')]),
     (''projectionModes'', JList [JStr ''p'']), (''authModes'', JList [JStr ''a'']),
     (''resourcePortal'', JObj [(''supported'', JBool True), (''schemaVersion'', JStr ''p'')]),
     (''runtimePresence'', JObj [(''supported'', JBool True), (''durable'', JBool False), (''schemaVersion'', JStr ''5'')]),
     (''livePortalHost'', JObj [(''supported'', JBool True), (''stateVersion'', JStr ''6'')])]"

definition example_binding :: ResourceBinding where
  "example_binding = \<lparr>rb_binding_id = ''b'', rb_workspace_id = ''w'', rb_provider = ''mrmic'', rb_resource_kind = ''canvas'',
     rb_provider_resource_id = ''r'', rb_display_mode = ''card'', rb_interaction_mode = ''view'', rb_owner = None,
     rb_task_id = None, rb_canvas_object_id = None, rb_projection_mode = ''native'', rb_state = ''bound'', rb_metadata = [],
     rb_revision = 0, rb_created_at = ''t'', rb_updated_at = ''t''\<rparr>"

definition example_participant :: dict where
  "example_participant = [(''bindingId'', JStr ''b''), (''pmwWorkspaceId'', JStr ''w''), (''displayLabel'', JStr ''l''),
     (''entityRef'', JObj [(''value'', JStr ''arcp:agent:labs:01234567-89ab-cdef-0123-456789abcdef''),
        (''identifierKind'', JStr ''arcp_agent''), (''issuer'', JStr ''arcp''), (''verificationStatus'', JStr ''claimed'')])]"

definition example_bundle :: dict where
  "example_bundle = [(''participantBinding'', JObj example_participant), (''mrmicCapabilities'', JObj example_document),
     (''nativePortal'', JObj (build_native_portal example_binding ''canvas'' ''object''
        \<lparr>g_x = JInt 0, g_y = JInt 0, g_width = JInt 9, g_height = JInt 9, g_z_index = JInt 0\<rparr> ''t'')),
     (''resourceBinding'', JObj (portal_entry example_binding))]"

theorem bundle_compatible_witness:
  "validate_bundle plain_lib example_package example_bundle = Inr (verdict ''compatible'' [])
   \<and> negotiated plain_lib example_package example_document"
proof -
  have a: "validate_bundle plain_lib example_package example_bundle = Inr (verdict ''compatible'' [])" by code_simp
  have b: "bd_status (verdict ''compatible'' []) = ''compatible''" by (simp add: verdict_def)
  have c: "dget_null example_bundle ''mrmicCapabilities'' = JObj example_document"
    by (simp add: example_bundle_def dget_null_def)
  show ?thesis using a bundle_compatible[OF a b] c by auto
qed

end
