(* ===== verification/Pmw_Mrmic.thy ===== *)
theory Pmw_Mrmic
  imports Pmw_References
begin

text \<open>
  The adapters that project a resource into a MRMIC canvas over HTTP: \<open>src/eml_pmw/adapters/mrmic_phase13.py\<close>,
  which negotiates, authenticates and posts a native portal, and \<open>adapters/mrmic.py\<close>, its unauthenticated
  predecessor. The state of an operation is the list of the requests handed to \<open>urlopen\<close>; the network is an
  argument that answers a request, after the earlier ones, with the bytes of the response or with a failure.
  The constant content type and the timeout of a request are left out.
\<close>

section \<open>Requests and responses\<close>

record http_request =
  hr_method :: string
  hr_url :: string
  hr_body :: "string option"
  hr_authorization :: "string option"

type_synonym network = "http_request list \<Rightarrow> http_request \<Rightarrow> string option"

definition send :: "network \<Rightarrow> http_request \<Rightarrow> (http_request list, string option) op" where
  "send net q = (\<lambda>T. (T @ [q], Inr (net T q)))"

text \<open>\<open>json.loads\<close>; a repeated key or a number outside the integers is followed no further.\<close>

definition json_loads :: "string \<Rightarrow> json res" where
  "json_loads b = (case loads_strict b of
      Inr v \<Rightarrow> Inr v
    | Inl (Coded c) \<Rightarrow> if c \<in> {''duplicate_key'', ''unsupported_number''} then Inl (Untyped ''json'') else Inl ValueError
    | Inl e \<Rightarrow> Inl e)"

text \<open>\<open>json.dumps\<close> with its own separators, and with compact ones and sorted keys.\<close>

fun join_spaced :: "string list \<Rightarrow> string" where
  "join_spaced [] = []"
| "join_spaced [x] = x"
| "join_spaced (x # y # ys) = x @ '', '' @ join_spaced (y # ys)"

fun print_spaced :: "json \<Rightarrow> string" where
  "print_spaced (JList vs) = CHR ''['' # join_spaced (map print_spaced vs) @ '']''"
| "print_spaced (JObj d) =
     CHR ''{'' # join_spaced (map (\<lambda>kv. quote_str (fst kv) @ '': '' @ print_spaced (snd kv)) d) @ ''}''"
| "print_spaced v = print_json v"

fun json_only :: "json \<Rightarrow> bool" where
  "json_only (JList vs) = list_all json_only vs"
| "json_only (JObj d) = list_all (\<lambda>kv. json_only (snd kv)) d"
| "json_only (JOther t) = False"
| "json_only v = True"

definition request_body :: "(json \<Rightarrow> string) \<Rightarrow> dict option \<Rightarrow> string option res" where
  "request_body dumps body = (case body of
      None \<Rightarrow> Inr None
    | Some d \<Rightarrow> if \<not> json_only (JObj d) then Inl (Untyped ''json.dumps'')
        else if \<not> ints_ok (JObj d) then Inl ValueError
        else if \<not> utf8_valid (dumps (JObj d)) then Inl UnicodeEncodeError
        else Inr (Some (dumps (JObj d))))"

definition unavailable :: "'a res" where
  "unavailable = Inl (Coded ''ProviderUnavailableError'')"

text \<open>\<open>int(value)\<close>; the text of a number is followed no further.\<close>

definition int_of :: "json \<Rightarrow> int res" where
  "int_of v = (case v of JInt n \<Rightarrow> Inr n | JBool b \<Rightarrow> Inr (if b then 1 else 0) | JStr s \<Rightarrow> Inl (Untyped ''int'')
     | JOther t \<Rightarrow> Inl (Untyped t) | _ \<Rightarrow> Inl TypeError)"

section \<open>The authenticated adapter\<close>

record mrmic_adapter =
  ma_base_url :: string
  ma_bearer_token :: string

text \<open>
  \<open>urlsplit\<close>: leading controls and blanks and every tab and line break are dropped, then scheme and network
  location are split off. A location with brackets or outside ASCII is followed no further.
\<close>

definition url_clean :: "string \<Rightarrow> string" where
  "url_clean s = filter (\<lambda>c. c \<notin> {CHR 0x09, CHR 0x0A, CHR 0x0D}) (dropWhile (\<lambda>c. byte c \<le> 32) s)"

definition scheme_char :: "char \<Rightarrow> bool" where
  "scheme_char c \<longleftrightarrow> in_rng 97 122 c \<or> in_rng 65 90 c \<or> is_digit c \<or> c \<in> {CHR ''+'', CHR ''-'', CHR ''.''}"

definition split_scheme :: "string \<Rightarrow> string \<times> string" where
  "split_scheme s = (let p = takeWhile (\<lambda>c. c \<noteq> CHR '':'') s in
     if p \<noteq> s \<and> p \<noteq> [] \<and> (in_rng 97 122 (hd p) \<or> in_rng 65 90 (hd p)) \<and> list_all scheme_char p
     then (lower p, drop (length p + 1) s) else ([], s))"

definition url_netloc :: "string \<Rightarrow> string" where
  "url_netloc r = (if startswith r ''//'' then takeWhile (\<lambda>c. c \<notin> {CHR ''/'', CHR ''?'', CHR ''#''}) (drop 2 r) else [])"

definition urlsplit :: "string \<Rightarrow> (string \<times> string) res" where
  "urlsplit url = (let (scheme, r) = split_scheme (url_clean url); netloc = url_netloc r in
     if CHR ''['' \<in> set netloc \<or> CHR '']'' \<in> set netloc \<or> \<not> ascii netloc then Inl (Untyped ''netloc'')
     else Inr (scheme, netloc))"

definition strip_slashes :: "string \<Rightarrow> string" where
  "strip_slashes s = rev (dropWhile (\<lambda>c. c = CHR ''/'') (rev s))"

definition mrmic_adapter_init :: "string \<Rightarrow> json \<Rightarrow> mrmic_adapter res" where
  "mrmic_adapter_init base_url token =
     bindR (check (nonempty_str token) ''mrmic_bearer_missing'') (\<lambda>_.
     bindR (urlsplit base_url) (\<lambda>(scheme, netloc).
     bindR (check (scheme = ''https'' \<and> netloc \<noteq> []) ''mrmic_https_required'') (\<lambda>_.
     bindR (check (CHR ''@'' \<notin> set netloc) ''mrmic_url_credentials_forbidden'') (\<lambda>_.
     Inr \<lparr>ma_base_url = strip_slashes base_url, ma_bearer_token = the_str token\<rparr>))))"

definition response_dict :: "mrmic_adapter \<Rightarrow> string option \<Rightarrow> dict res" where
  "response_dict A answer = (case answer of
      None \<Rightarrow> unavailable
    | Some b \<Rightarrow> (case json_loads b of
        Inl (Untyped t) \<Rightarrow> Inl (Untyped t)
      | Inl e \<Rightarrow> unavailable
      | Inr (JObj d) \<Rightarrow> if contains (print_spaced (sort_keys (JObj d))) (ma_bearer_token A) then unavailable else Inr d
      | Inr v \<Rightarrow> unavailable))"

definition mrmic_request :: "mrmic_adapter \<Rightarrow> string \<Rightarrow> string \<Rightarrow> string option \<Rightarrow> bool \<Rightarrow> http_request" where
  "mrmic_request A path method body authenticated = \<lparr>hr_method = method, hr_url = ma_base_url A @ path, hr_body = body,
     hr_authorization = (if authenticated then Some (''Bearer '' @ ma_bearer_token A) else None)\<rparr>"

definition request_json ::
    "network \<Rightarrow> mrmic_adapter \<Rightarrow> string \<Rightarrow> string \<Rightarrow> dict option \<Rightarrow> bool \<Rightarrow> (http_request list, dict) op" where
  "request_json net A path method body authenticated =
     bindS (liftS (request_body (\<lambda>v. print_json (sort_keys v)) body)) (\<lambda>data.
     bindS (send net (mrmic_request A path method data authenticated)) (\<lambda>answer. liftS (response_dict A answer)))"

definition get_capabilities :: "network \<Rightarrow> mrmic_adapter \<Rightarrow> (http_request list, dict) op" where
  "get_capabilities net A = request_json net A ''/api/capabilities'' ''GET'' None False"

text \<open>Identity and revision of the canvas of a state answer.\<close>

definition canvas_fields :: "dict \<Rightarrow> (string \<times> int) res" where
  "canvas_fields state = bindR (bindR (sub2 state ''canvas'' ''id'') str_of) (\<lambda>canvas_id.
     bindR (bindR (sub2 state ''canvas'' ''revision'') int_of) (\<lambda>revision. Inr (canvas_id, revision)))"

definition canvas_of :: "dict \<Rightarrow> (string \<times> int) res" where
  "canvas_of state = (case canvas_fields state of
      Inl e \<Rightarrow> if e \<in> {KeyError, TypeError, ValueError} then unavailable else Inl e | Inr c \<Rightarrow> Inr c)"

definition portal_transaction :: "string \<Rightarrow> string \<Rightarrow> string \<Rightarrow> int \<Rightarrow> dict \<Rightarrow> ResourceBinding \<Rightarrow> dict" where
  "portal_transaction tx_id now canvas_id revision portal r =
     [(''id'', JStr tx_id), (''canvasId'', JStr canvas_id),
      (''actor'', JObj [(''actorType'', JStr ''system''), (''actorId'', JStr ''pmw-client-claim'')]),
      (''intent'', JStr ''Project a non-owning PMW resource portal''),
      (''expectedOutcome'', JStr ''Create one native resource portal''),
      (''preconditions'', JList [JObj [(''type'', JStr ''canvas_revision''), (''targetId'', JStr canvas_id),
        (''expected'', JInt revision)]]),
      (''operations'', JList [JObj [(''op'', JStr ''create_object''), (''object'', JObj portal)]]),
      (''mode'', JStr ''direct''), (''createdAt'', JStr now),
      (''idempotencyKey'', JStr (''pmw-native-portal:'' @ rb_binding_id r))]"

text \<open>\<open>new_id("portal")\<close>, \<open>new_id("pmwtx")\<close> and the two readings of the clock are arguments.\<close>

definition project_native_portal :: "lib \<Rightarrow> contract_package \<Rightarrow> network \<Rightarrow> mrmic_adapter \<Rightarrow> string \<Rightarrow> string \<Rightarrow> string \<Rightarrow> string
    \<Rightarrow> ResourceBinding \<Rightarrow> geometry \<Rightarrow> string \<Rightarrow> (http_request list, dict) op" where
  "project_native_portal L P net A object_id tx_id now now' r g mode =
     (if mode \<noteq> ''native_resource_portal_v1'' then raiseS (Coded ''unsupported_phase13_projection_mode'')
      else bindS (get_capabilities net A) (\<lambda>capabilities.
      bindS (liftS (negotiate_mrmic L P (JObj capabilities))) (\<lambda>decision.
      if ng_status decision \<noteq> ''compatible'' then raiseS (Coded ''mrmic_profile_incompatible'')
      else bindS (request_json net A ''/api/state'' ''GET'' None False) (\<lambda>state.
      bindS (liftS (canvas_of state)) (\<lambda>(canvas_id, revision).
      bindS (request_json net A ''/api/transaction'' ''POST''
               (Some (portal_transaction tx_id now' canvas_id revision (build_native_portal r canvas_id object_id g now) r)) True)
        (\<lambda>response.
      retS [(''canvas_object_id'', JStr object_id), (''canvas_id'', JStr canvas_id),
            (''projection_mode'', JStr ''native_resource_portal_v1''), (''provider_result'', JObj response)]))))))"

section \<open>The unauthenticated adapter\<close>

text \<open>The base URL has a scheme that \<open>urlopen\<close> knows.\<close>

definition plain_json :: "network \<Rightarrow> string \<Rightarrow> string \<Rightarrow> string \<Rightarrow> dict option \<Rightarrow> (http_request list, json) op" where
  "plain_json net base path method body =
     bindS (liftS (request_body print_spaced body)) (\<lambda>data.
     bindS (send net \<lparr>hr_method = method, hr_url = strip_slashes base @ path, hr_body = data, hr_authorization = None\<rparr>) (\<lambda>answer.
     liftS (case answer of None \<Rightarrow> unavailable
       | Some b \<Rightarrow> (case json_loads b of Inl (Untyped t) \<Rightarrow> Inl (Untyped t) | Inl e \<Rightarrow> unavailable | Inr v \<Rightarrow> Inr v))))"

definition frame_object :: "string \<Rightarrow> string \<Rightarrow> string \<Rightarrow> ResourceBinding \<Rightarrow> geometry \<Rightarrow> dict" where
  "frame_object object_id canvas_id now r g =
     [(''id'', JStr object_id), (''canvasId'', JStr canvas_id), (''type'', JStr ''frame''),
      (''transform'', JObj [(''x'', g_x g), (''y'', g_y g), (''width'', g_width g), (''height'', g_height g),
        (''rotation'', JInt 0), (''scaleX'', JInt 1), (''scaleY'', JInt 1), (''zIndex'', g_z_index g)]),
      (''style'', JObj [(''fill'', JStr ''#eef2ff''), (''stroke'', JStr ''#4f46e5''), (''strokeWidth'', JInt 2), (''opacity'', JInt 1)]),
      (''content'', JObj []), (''childIds'', JList []), (''bindings'', JList []),
      (''metadata'', JObj [(''role'', JStr ''pmw-resource-portal''), (''projectionMode'', JStr ''compat_frame_v0''),
        (''provider'', JStr (rb_provider r)), (''resourceKind'', JStr (rb_resource_kind r)),
        (''providerResourceId'', JStr (rb_provider_resource_id r)), (''pmwWorkspaceId'', JStr (rb_workspace_id r)),
        (''pmwTaskId'', opt_json (rb_task_id r)), (''resourceBindingId'', JStr (rb_binding_id r)),
        (''displayMode'', JStr (rb_display_mode r)), (''interactionMode'', JStr (rb_interaction_mode r)),
        (''ownerSemanticAgentId'', opt_json (rb_owner r))]),
      (''createdBy'', JObj [(''actorType'', JStr ''system''), (''actorId'', JStr ''pmw-fabric''), (''instanceId'', JStr ''eml-pmw-v0.1'')]),
      (''createdAt'', JStr now), (''updatedAt'', JStr now), (''revision'', JInt 0)]"

definition frame_transaction :: "string \<Rightarrow> string \<Rightarrow> string \<Rightarrow> int \<Rightarrow> dict \<Rightarrow> ResourceBinding \<Rightarrow> dict" where
  "frame_transaction tx_id now canvas_id revision frame r =
     [(''id'', JStr tx_id), (''canvasId'', JStr canvas_id),
      (''actor'', JObj [(''actorType'', JStr ''system''), (''actorId'', JStr ''pmw-fabric''), (''instanceId'', JStr ''eml-pmw-v0.1'')]),
      (''intent'', JStr (''Project '' @ rb_provider r @ '':'' @ rb_resource_kind r @ '' into shared visual world'')),
      (''expectedOutcome'', JStr ''Create a non-owning resource projection''),
      (''preconditions'', JList [JObj [(''type'', JStr ''canvas_revision''), (''targetId'', JStr canvas_id),
        (''expected'', JInt revision)]]),
      (''operations'', JList [JObj [(''op'', JStr ''create_object''), (''object'', JObj frame)]]),
      (''mode'', JStr ''direct''), (''createdAt'', JStr now),
      (''idempotencyKey'', JStr (''pmw-portal:'' @ rb_binding_id r))]"

definition plain_canvas :: "json \<Rightarrow> (string \<times> int) res" where
  "plain_canvas state = bindR (subscript state ''canvas'') (\<lambda>canvas.
     bindR (bindR (subscript canvas ''id'') str_of) (\<lambda>canvas_id.
     bindR (bindR (subscript canvas ''revision'') int_of) (\<lambda>revision. Inr (canvas_id, revision))))"

definition project_frame :: "network \<Rightarrow> string \<Rightarrow> string \<Rightarrow> string \<Rightarrow> string \<Rightarrow> ResourceBinding \<Rightarrow> geometry \<Rightarrow> string
    \<Rightarrow> (http_request list, dict) op" where
  "project_frame net base object_id tx_id now r g mode =
     (if mode \<noteq> ''compat_frame_v0'' then raiseS (Coded ''UnsupportedProjectionError'')
      else bindS (plain_json net base ''/api/state'' ''GET'' None) (\<lambda>state.
      bindS (liftS (plain_canvas state)) (\<lambda>(canvas_id, revision).
      bindS (plain_json net base ''/api/transaction'' ''POST''
               (Some (frame_transaction tx_id now canvas_id revision (frame_object object_id canvas_id now r g) r))) (\<lambda>result.
      retS [(''canvas_object_id'', JStr object_id), (''canvas_id'', JStr canvas_id),
            (''projection_mode'', JStr ''compat_frame_v0''), (''provider_result'', result)]))))"

text \<open>\<open>push_agent_presence\<close> always raises.\<close>

definition push_agent_presence :: "unit res" where
  "push_agent_presence = Inl (Coded ''UnsafeIntegrationError'')"

section \<open>Where the token goes\<close>

lemma no_body [simp]: "request_body dumps None = Inr None"
  by (simp add: request_body_def)

lemma request_body_Inr: "request_body dumps (Some d) = Inr data \<Longrightarrow> data = Some (dumps (JObj d))"
  by (auto simp: request_body_def split: if_splits)

lemma response_dict_clean:
  "response_dict A answer = Inr d \<Longrightarrow> \<not> contains (print_spaced (sort_keys (JObj d))) (ma_bearer_token A)"
  by (auto simp: response_dict_def unavailable_def split: option.splits sum.splits exn.splits json.splits if_splits)

text \<open>
  The code looks for the token in the dumped text of a response. There a quote, a backslash or a control character
  is escaped, so a token that holds one is not found; every other token is found wherever a string of the response
  holds it.
\<close>

fun mentions :: "json \<Rightarrow> string \<Rightarrow> bool" where
  "mentions (JStr s) t = contains s t"
| "mentions (JList vs) t = list_ex (\<lambda>v. mentions v t) vs"
| "mentions (JObj d) t = list_ex (\<lambda>kv. contains (fst kv) t \<or> mentions (snd kv) t) d"
| "mentions v t = False"

definition unescaped :: "string \<Rightarrow> bool" where
  "unescaped t \<longleftrightarrow> list_all (\<lambda>c. c \<noteq> CHR 0x22 \<and> c \<noteq> CHR 0x5C \<and> 32 \<le> byte c) t"

lemma contains_around: "contains s t \<Longrightarrow> contains (x @ s @ y) t"
  unfolding contains_iff by (metis append.assoc)

lemma contains_join: "s \<in> set xs \<Longrightarrow> contains s t \<Longrightarrow> contains (join_spaced xs) t"
proof (induction xs rule: join_spaced.induct)
  case (3 x y ys)
  then show ?case
    using contains_around[of x t "[]"] contains_around[of "join_spaced (y # ys)" t "x @ '', ''" "[]"] by auto
qed auto

lemma unescaped_kept: "unescaped t \<Longrightarrow> concat (map escape_char t) = t"
proof (induction t)
  case (Cons c t)
  then have "escape_char c = [c]" by (auto simp: unescaped_def escape_char_def byte_def)
  with Cons show ?case by (simp add: unescaped_def)
qed simp

lemma contains_quoted: "unescaped t \<Longrightarrow> contains s t \<Longrightarrow> contains (quote_str s) t"
proof -
  assume t: "unescaped t" and "contains s t"
  then obtain a b where "s = a @ t @ b" by (auto simp: contains_iff)
  then have "quote_str s = (CHR 0x22 # concat (map escape_char a)) @ t @ concat (map escape_char b) @ [CHR 0x22]"
    by (simp add: quote_str_def unescaped_kept[OF t])
  then show "contains (quote_str s) t" unfolding contains_iff by blast
qed

lemma mentions_printed: "unescaped t \<Longrightarrow> mentions v t \<Longrightarrow> contains (print_spaced v) t"
proof (induction v)
  case (JStr s)
  then show ?case by (simp add: contains_quoted)
next
  case (JList vs)
  then obtain v where "v \<in> set vs" "contains (print_spaced v) t" by (auto simp: list_ex_iff)
  then have "contains (join_spaced (map print_spaced vs)) t" by (intro contains_join[of "print_spaced v"]) simp_all
  then show ?case using contains_around[of _ t "''[''" "'']''"] by simp
next
  case (JObj d)
  then obtain kv where kv: "kv \<in> set d" "contains (fst kv) t \<or> mentions (snd kv) t" by (auto simp: list_ex_iff)
  have "contains (quote_str (fst kv) @ '': '' @ print_spaced (snd kv)) t"
  proof (cases "contains (fst kv) t")
    case True
    then show ?thesis using contains_around[OF contains_quoted[OF JObj.prems(1)], of "fst kv" "[]"] by simp
  next
    case False
    have "snd kv \<in> Basic_BNFs.snds kv" by (simp add: snds.simps)
    with False kv have "contains (print_spaced (snd kv)) t" using JObj.IH[of kv "snd kv"] JObj.prems(1) by blast
    then show ?thesis using contains_around[of _ t "quote_str (fst kv) @ '': ''" "[]"] by simp
  qed
  with kv(1) have "contains (join_spaced (map (\<lambda>kv. quote_str (fst kv) @ '': '' @ print_spaced (snd kv)) d)) t"
    by (intro contains_join[of "quote_str (fst kv) @ '': '' @ print_spaced (snd kv)"]) simp_all
  then show ?case using contains_around[of _ t "''{''" "''}''"] by simp
qed simp_all

lemma mentions_sorted: "mentions (sort_keys v) t = mentions v t"
proof (induction v)
  case (JObj d)
  have "sort_keys (JObj d) = JObj (stored d)" by (simp add: stored_def)
  moreover have "set (stored d) = (\<lambda>kv. (fst kv, sort_keys (snd kv))) ` set d" by (simp add: stored_def)
  moreover have "mentions (sort_keys (snd kv)) t = mentions (snd kv) t" if "kv \<in> set d" for kv
    by (rule JObj.IH[OF that]) (simp add: snds.simps)
  ultimately show ?case by (simp add: list_ex_iff)
qed (auto simp: list_ex_iff)

text \<open>A token with a quote is accepted, and the response that gives it back is not refused.\<close>

lemma escaped_token_returned:
  "response_dict \<lparr>ma_base_url = ''https://m'', ma_bearer_token = [CHR ''a'', CHR 0x22]\<rparr> (Some [CHR ''{'', CHR 0x22, CHR ''k'', CHR 0x22,
     CHR '':'', CHR 0x22, CHR ''a'', CHR 0x5C, CHR 0x22, CHR 0x22, CHR ''}'']) = Inr [(''k'', JStr [CHR ''a'', CHR 0x22])]"
  by code_simp

definition capabilities_request :: "mrmic_adapter \<Rightarrow> http_request" where
  "capabilities_request A = mrmic_request A ''/api/capabilities'' ''GET'' None False"

definition state_request :: "mrmic_adapter \<Rightarrow> http_request" where
  "state_request A = mrmic_request A ''/api/state'' ''GET'' None False"

text \<open>The one request that carries the token, after the requests \<open>T\<close>: what it is and what was known before it.\<close>

definition portal_posted :: "lib \<Rightarrow> contract_package \<Rightarrow> network \<Rightarrow> mrmic_adapter \<Rightarrow> string \<Rightarrow> string \<Rightarrow> string \<Rightarrow> string
    \<Rightarrow> ResourceBinding \<Rightarrow> geometry \<Rightarrow> http_request list \<Rightarrow> http_request \<Rightarrow> bool" where
  "portal_posted L P net A object_id tx_id now now' r g T q \<longleftrightarrow> (\<exists>c state canvas_id revision.
     response_dict A (net T (capabilities_request A)) = Inr c
     \<and> \<not> contains_credential_key (JObj c) \<and> negotiated L P c
     \<and> response_dict A (net (T @ [capabilities_request A]) (state_request A)) = Inr state
     \<and> canvas_of state = Inr (canvas_id, revision)
     \<and> q = mrmic_request A ''/api/transaction'' ''POST'' (Some (print_json (sort_keys (JObj
         (portal_transaction tx_id now' canvas_id revision (build_native_portal r canvas_id object_id g now) r))))) True)"

definition portal_result :: "mrmic_adapter \<Rightarrow> string \<Rightarrow> dict \<Rightarrow> bool" where
  "portal_result A object_id d \<longleftrightarrow> dget_null d ''canvas_object_id'' = JStr object_id
     \<and> (\<exists>response. dget_null d ''provider_result'' = JObj response
          \<and> \<not> contains (print_spaced (sort_keys (JObj response))) (ma_bearer_token A)
          \<and> (unescaped (ma_bearer_token A) \<longrightarrow> \<not> mentions (JObj response) (ma_bearer_token A)))"

lemma request_json_get:
  "request_json net A path method None au T =
     (T @ [mrmic_request A path method None au], response_dict A (net T (mrmic_request A path method None au)))"
  by (simp add: request_json_def op_defs send_def)

lemma request_json_post:
  "request_json net A path method (Some d) au T = (case request_body (\<lambda>v. print_json (sort_keys v)) (Some d) of
      Inl e \<Rightarrow> (T, Inl e)
    | Inr data \<Rightarrow> (T @ [mrmic_request A path method data au], response_dict A (net T (mrmic_request A path method data au))))"
  by (simp add: request_json_def op_defs send_def split: sum.splits)

lemma bindS_run: "m T = (T', x) \<Longrightarrow> bindS m f T = (case x of Inl e \<Rightarrow> (T', Inl e) | Inr a \<Rightarrow> f a T')"
  by (simp add: bindS_def)

lemma liftS_run: "bindS (liftS x) f T = (case x of Inl e \<Rightarrow> (T, Inl e) | Inr a \<Rightarrow> f a T)"
  by (simp add: op_defs)

text \<open>What a projection has done when it stops after the requests \<open>qs\<close>.\<close>

definition portal_run :: "lib \<Rightarrow> contract_package \<Rightarrow> network \<Rightarrow> mrmic_adapter \<Rightarrow> string \<Rightarrow> string \<Rightarrow> string \<Rightarrow> string
    \<Rightarrow> ResourceBinding \<Rightarrow> geometry \<Rightarrow> http_request list \<Rightarrow> http_request list \<Rightarrow> dict res \<Rightarrow> bool" where
  "portal_run L P net A object_id tx_id now now' r g T qs out \<longleftrightarrow>
     take 2 qs = take (length qs) [capabilities_request A, state_request A] \<and> length qs \<le> 3
     \<and> list_all (portal_posted L P net A object_id tx_id now now' r g T) (drop 2 qs)
     \<and> list_all (\<lambda>q. hr_authorization q = None) (take 2 qs)
     \<and> (case out of Inl e \<Rightarrow> True | Inr d \<Rightarrow> length qs = 3 \<and> portal_result A object_id d)"

lemma portal_posted_token:
  "portal_posted L P net A object_id tx_id now now' r g T q \<Longrightarrow> hr_authorization q = Some (''Bearer '' @ ma_bearer_token A)"
  by (auto simp: portal_posted_def mrmic_request_def)

definition portal_ends :: "lib \<Rightarrow> contract_package \<Rightarrow> network \<Rightarrow> mrmic_adapter \<Rightarrow> string \<Rightarrow> string \<Rightarrow> string \<Rightarrow> string
    \<Rightarrow> ResourceBinding \<Rightarrow> geometry \<Rightarrow> http_request list \<Rightarrow> http_request list \<times> dict res \<Rightarrow> bool" where
  "portal_ends L P net A object_id tx_id now now' r g T x \<longleftrightarrow>
     (\<exists>qs. fst x = T @ qs \<and> portal_run L P net A object_id tx_id now now' r g T qs (snd x))"

lemma portal_stops:
  "portal_ends L P net A object_id tx_id now now' r g T (T, Inl e)"
  "portal_ends L P net A object_id tx_id now now' r g T (T @ [capabilities_request A], Inl e)"
  "portal_ends L P net A object_id tx_id now now' r g T (T @ [capabilities_request A, state_request A], Inl e)"
  by (simp_all add: portal_ends_def portal_run_def capabilities_request_def state_request_def mrmic_request_def)

lemma portal_last:
  assumes "portal_posted L P net A object_id tx_id now now' r g T q"
    and "case out of Inl e \<Rightarrow> True | Inr d \<Rightarrow> portal_result A object_id d"
  shows "portal_ends L P net A object_id tx_id now now' r g T (T @ [capabilities_request A, state_request A, q], out)"
  using assms by (auto simp: portal_ends_def portal_run_def capabilities_request_def state_request_def mrmic_request_def split: sum.splits)

lemma portal_post:
  assumes "portal_posted L P net A object_id tx_id now now' r g T
      (mrmic_request A ''/api/transaction'' ''POST'' (Some (print_json (sort_keys (JObj tx)))) True)"
  shows "portal_ends L P net A object_id tx_id now now' r g T
    (bindS (request_json net A ''/api/transaction'' ''POST'' (Some tx) True) (\<lambda>response. retS
      [(''canvas_object_id'', JStr object_id), (''canvas_id'', JStr cid), (''projection_mode'', JStr mode),
       (''provider_result'', JObj response)]) (T @ [capabilities_request A, state_request A]))"
proof (cases "request_body (\<lambda>v. print_json (sort_keys v)) (Some tx)")
  case (Inl e)
  then show ?thesis by (simp add: bindS_def request_json_post portal_stops)
next
  case (Inr data)
  let ?q = "mrmic_request A ''/api/transaction'' ''POST'' data True"
  have data: "data = Some (print_json (sort_keys (JObj tx)))" using request_body_Inr[OF Inr] by simp
  have "portal_result A object_id [(''canvas_object_id'', JStr object_id), (''canvas_id'', JStr cid),
      (''projection_mode'', JStr mode), (''provider_result'', JObj d)]"
    if "response_dict A (net (T @ [capabilities_request A, state_request A]) ?q) = Inr d" for d
  proof -
    have "unescaped (ma_bearer_token A) \<longrightarrow> \<not> mentions (JObj d) (ma_bearer_token A)"
      using response_dict_clean[OF that] mentions_printed[of "ma_bearer_token A" "sort_keys (JObj d)"]
      unfolding mentions_sorted by blast
    with response_dict_clean[OF that] show ?thesis
      unfolding portal_result_def by (simp add: dget_null_def del: sort_keys.simps print_spaced.simps mentions.simps)
  qed
  with Inr portal_last[OF assms[folded data]] show ?thesis
    by (simp add: bindS_def request_json_post retS_def split: sum.splits)
qed

text \<open>
  C34: a projection through the authenticated adapter hands at most three requests to the network, the capability
  request, the state request and the transaction, in this order. Only the transaction carries the bearer token, and
  it is made only once the capability document the server answered has passed the whole negotiation; it pins the
  revision of the canvas that the state answer gave and creates the native portal of the binding. An operation that
  returns has made all three. The token does not occur in the dumped text of the provider's answer; so a token
  without quotes, backslashes and control characters, which a dump escapes, occurs in no key and no string of it.
\<close>

theorem portal_token_guarded:
  assumes "project_native_portal L P net A object_id tx_id now now' r g mode T = (T', out)"
  shows "\<exists>qs. T' = T @ qs \<and> portal_run L P net A object_id tx_id now now' r g T qs out"
proof -
  let ?c = "capabilities_request A" and ?s = "state_request A"
  let ?ok = "portal_ends L P net A object_id tx_id now now' r g T (project_native_portal L P net A object_id tx_id now now' r g mode T)"
  have caps: "get_capabilities net A T = (T @ [?c], response_dict A (net T ?c))"
    by (simp add: get_capabilities_def request_json_get capabilities_request_def)
  have st: "request_json net A ''/api/state'' ''GET'' None False (T @ [?c]) = (T @ [?c, ?s], response_dict A (net (T @ [?c]) ?s))"
    by (simp add: request_json_get state_request_def)
  note run = project_native_portal_def bindS_run[where m = "get_capabilities net A", OF caps] bindS_run[where m = "request_json net A ''/api/state'' ''GET'' None False", OF st] liftS_run raiseS_def
  consider (mode) "mode \<noteq> ''native_resource_portal_v1''"
    | (caps) e where "mode = ''native_resource_portal_v1''" "response_dict A (net T ?c) = Inl e"
    | (neg) c where "mode = ''native_resource_portal_v1''" "response_dict A (net T ?c) = Inr c"
        "\<nexists>n. negotiate_mrmic L P (JObj c) = Inr n \<and> ng_status n = ''compatible''"
    | (state) c n where "mode = ''native_resource_portal_v1''" "response_dict A (net T ?c) = Inr c"
        "negotiate_mrmic L P (JObj c) = Inr n" "ng_status n = ''compatible''"
    by (cases "response_dict A (net T ?c)") auto
  then have ?ok
  proof cases
    case mode
    then show ?thesis by (simp add: run portal_stops)
  next
    case caps
    then show ?thesis by (simp add: run portal_stops)
  next
    case neg
    then show ?thesis by (auto simp: run portal_stops split: sum.splits)
  next
    case c: state
    show ?thesis
    proof (cases "\<exists>state cid rev. response_dict A (net (T @ [?c]) ?s) = Inr state \<and> canvas_of state = Inr (cid, rev)")
      case False
      with c show ?thesis by (auto simp: run portal_stops split: sum.splits)
    next
      case True
      then obtain state cid rev where state: "response_dict A (net (T @ [?c]) ?s) = Inr state"
        "canvas_of state = Inr (cid, rev)" by blast
      let ?tx = "portal_transaction tx_id now' cid rev (build_native_portal r cid object_id g now) r"
      have "portal_posted L P net A object_id tx_id now now' r g T
          (mrmic_request A ''/api/transaction'' ''POST'' (Some (print_json (sort_keys (JObj ?tx)))) True)"
        unfolding portal_posted_def using negotiate_compatible[OF c(3,4)] c(2) state by blast
      from portal_post[OF this, of cid "''native_resource_portal_v1''"] c state show ?thesis by (auto simp: run)
    qed
  qed
  with assms show ?thesis by (simp add: portal_ends_def)
qed

definition example_adapter :: mrmic_adapter where
  "example_adapter = \<lparr>ma_base_url = ''https://m'', ma_bearer_token = ''token''\<rparr>"

lemma example_adapter_accepted: "mrmic_adapter_init ''https://m/'' (JStr ''token'') = Inr example_adapter"
  by code_simp

definition example_network :: network where
  "example_network T q = (if hr_url q = ''https://m/api/capabilities'' then Some (print_json (JObj example_document))
     else if hr_url q = ''https://m/api/state'' then Some ''{\"canvas\":{\"id\":\"c\",\"revision\":3}}''
     else if hr_authorization q = Some ''Bearer token'' then Some ''{\"ok\":true}'' else None)"

definition example_run :: "http_request list \<times> dict res" where
  "example_run = project_native_portal plain_lib example_package example_network example_adapter ''o'' ''t'' ''n'' ''n''
     example_binding \<lparr>g_x = JInt 0, g_y = JInt 0, g_width = JInt 9, g_height = JInt 9, g_z_index = JInt 0\<rparr>
     ''native_resource_portal_v1'' []"

theorem portal_token_guarded_witness:
  "snd example_run = Inr [(''canvas_object_id'', JStr ''o''), (''canvas_id'', JStr ''c''),
       (''projection_mode'', JStr ''native_resource_portal_v1''), (''provider_result'', JObj [(''ok'', JBool True)])]
   \<and> (\<exists>q. fst example_run = [capabilities_request example_adapter, state_request example_adapter, q]
        \<and> hr_authorization q = Some ''Bearer token'')"
proof -
  have a: "snd example_run = Inr [(''canvas_object_id'', JStr ''o''), (''canvas_id'', JStr ''c''),
       (''projection_mode'', JStr ''native_resource_portal_v1''), (''provider_result'', JObj [(''ok'', JBool True)])]" by code_simp
  have "project_native_portal plain_lib example_package example_network example_adapter ''o'' ''t'' ''n'' ''n''
     example_binding \<lparr>g_x = JInt 0, g_y = JInt 0, g_width = JInt 9, g_height = JInt 9, g_z_index = JInt 0\<rparr>
     ''native_resource_portal_v1'' [] = (fst example_run, snd example_run)" by (simp add: example_run_def)
  from portal_token_guarded[OF this] obtain qs where qs: "fst example_run = qs" "length qs = 3"
    "take 2 qs = [capabilities_request example_adapter, state_request example_adapter]"
    and all: "list_all (portal_posted plain_lib example_package example_network example_adapter ''o'' ''t'' ''n'' ''n''
      example_binding \<lparr>g_x = JInt 0, g_y = JInt 0, g_width = JInt 9, g_height = JInt 9, g_z_index = JInt 0\<rparr> []) (drop 2 qs)"
    unfolding a portal_run_def by auto
  have posted: "\<forall>q\<in>set (drop 2 qs). hr_authorization q = Some ''Bearer token''"
    using all portal_posted_token[where A = example_adapter] by (fastforce simp: list_all_iff example_adapter_def)
  have "length (drop 2 qs) = Suc 0" using qs(2) by simp
  then obtain q where "drop 2 qs = [q]" by (auto simp only: length_Suc_conv length_0_conv)
  with qs(3) append_take_drop_id[of 2 qs] have "qs = [capabilities_request example_adapter, state_request example_adapter, q]" by simp
  with a qs(1) posted \<open>drop 2 qs = [q]\<close> show ?thesis by simp
qed

end
